(* ===== verification/Prelude.thy ===== *)
theory Prelude
  imports Main "HOL-Library.Word" "HOL-Library.Monad_Syntax"
begin

unbundle bit_operations_syntax

section \<open>Shared vocabulary: bytes, Go values, fallible steps\<close>

text \<open>
  What every component theory uses: the names of the machine types, the collections of
  rules the component proofs rest on, Go's \<open>nil\<close>-able results and the little-endian
  byte codec of \<^verbatim>\<open>encoding/binary\<close>.  A Go run-time panic (an index or a slice bound
  out of range, a \<open>nil\<close> dereference) is the value \<^term>\<open>None\<close> of an \<open>option\<close>; an
  error that the code returns is a value of its own.
\<close>

named_theorems panic_simps \<open>equations that evaluate or open a step that may panic\<close>
named_theorems bytes_simps \<open>reading back bytes that were written\<close>

type_synonym byte = "8 word"
type_synonym u16 = "16 word"
type_synonym u32 = "32 word"
type_synonym u64 = "64 word"

subsection \<open>Opening chains of fallible steps\<close>

lemma bind_Some_iff [panic_simps]:
  "Option.bind m f = Some y \<longleftrightarrow> (\<exists>x. m = Some x \<and> f x = Some y)"
  by (cases m) auto

lemma bind_None_iff:
  "Option.bind m f = None \<longleftrightarrow> m = None \<or> (\<exists>x. m = Some x \<and> f x = None)"
  by (cases m) auto

declare Option.bind_cong [fundef_cong]

subsection \<open>Errors that the code returns (errors.go and the standard library)\<close>

text \<open>
  The message of an error is its constructor argument; \<open>ResponseError\<close> and \<open>RequestError\<close>
  carry the NTSTATUS and the error data.
\<close>

datatype error =
    TransportError error
  | InternalError string
  | InvalidResponseError string
  | InvalidRequestError string
  | ResponseError u32 "byte list list"
  | RequestError u32
  | ContextError
  | ErrExist
  | ErrNotExist
  | ErrPermission
  | EOF
  | ENODATA
  | ErrorString string

subsection \<open>Rounding up (util.go)\<close>

text \<open>\<^verbatim>\<open>Align\<close> and \<^verbatim>\<open>Roundup\<close> are \<^verbatim>\<open>(x + (a - 1)) &^ (a - 1)\<close> on \<^verbatim>\<open>int\<close>.\<close>

definition Align :: "int \<Rightarrow> int \<Rightarrow> int" where
  "Align n a = (n + a - 1) AND NOT (a - 1)"

definition Roundup :: "int \<Rightarrow> int \<Rightarrow> int" where
  "Roundup x align = (x + (align - 1)) AND NOT (align - 1)"

lemma int_and_not_mask: "(x :: int) AND NOT (mask k) = 2 ^ k * (x div 2 ^ k)"
proof -
  have "x AND NOT (mask k) = push_bit k (drop_bit k x)"
    by (rule bit_eqI) (auto simp: bit_and_iff bit_not_iff bit_mask_iff bit_push_bit_iff bit_drop_bit_eq)
  then show ?thesis by (simp add: push_bit_eq_mult drop_bit_eq_div mult.commute)
qed

lemma Align_8: "Align n 8 = 8 * ((n + 7) div 8)"
  using int_and_not_mask [of "n + 7" 3] by (simp add: Align_def mask_eq_exp_minus_1 add.commute)

lemma Roundup_Align: "Roundup x a = Align x a"
  by (simp add: Roundup_def Align_def algebra_simps)

lemma Align_8_bounds: "n \<le> Align n 8" "Align n 8 \<le> n + 7" "8 dvd Align n 8"
  by (auto simp: Align_8)

lemma Align_8_nat: "0 \<le> n \<Longrightarrow> nat (Align n 8) = 8 * ((nat n + 7) div 8)"
  by (simp add: Align_8 nat_mult_distrib nat_div_distrib nat_add_distrib)

subsection \<open>Little-endian byte strings\<close>

text \<open>
  \<open>le_enc n w\<close> are the \<open>n\<close> bytes that \<^verbatim>\<open>binary.LittleEndian.PutUint16/32/64\<close> store,
  \<open>le_dec\<close> is \<^verbatim>\<open>binary.LittleEndian.Uint16/32/64\<close>; the width is the type of the word.
\<close>

primrec le_enc :: "nat \<Rightarrow> 'a::len word \<Rightarrow> byte list" where
  "le_enc 0 w = []"
| "le_enc (Suc n) w = ucast w # le_enc n (drop_bit 8 w)"

primrec le_dec :: "byte list \<Rightarrow> 'a::len word" where
  "le_dec [] = 0"
| "le_dec (b # bs) = ucast b OR push_bit 8 (le_dec bs)"

lemma length_le_enc [simp]: "length (le_enc n w) = n"
  by (induction n arbitrary: w) auto

lemma byte_split: "(ucast (ucast w :: byte) :: 'a::len word) OR push_bit 8 (drop_bit 8 w) = w"
proof (rule bit_word_eqI)
  fix n assume "n < LENGTH('a)"
  then show "bit ((ucast (ucast w :: byte) :: 'a word) OR push_bit 8 (drop_bit 8 w)) n = bit w n"
    by (cases "n < 8") (auto simp: bit_or_iff bit_push_bit_iff bit_drop_bit_eq bit_ucast_iff
        dest: bit_imp_le_length)
qed

lemma le_dec_enc:
  fixes w :: "'a::len word"
  assumes "w = take_bit (8 * n) w"
  shows "le_dec (le_enc n w) = w"
  using assms
proof (induction n arbitrary: w)
  case 0
  then show ?case by simp
next
  case (Suc n)
  have "drop_bit 8 w = take_bit (8 * n) (drop_bit 8 w)"
    using arg_cong [OF Suc.prems, of "drop_bit 8"] by (simp add: drop_bit_take_bit)
  then show ?case using Suc.IH by (simp add: byte_split)
qed

lemma le_dec_enc_full [simp]:
  fixes w :: "'a::len word"
  assumes "LENGTH('a) \<le> 8 * n"
  shows "le_dec (le_enc n w) = w"
  using assms by (intro le_dec_enc) (simp add: take_bit_word_eq_self)

lemma ucast_low_byte:
  fixes v :: "'a::len word"
  assumes "8 \<le> LENGTH('a)"
  shows "(ucast (ucast b OR push_bit 8 v) :: byte) = b"
  using assms
  by (intro bit_word_eqI)
    (auto simp: bit_ucast_iff bit_or_iff bit_push_bit_iff dest: bit_imp_le_length)

lemma le_enc_dec:
  assumes "8 * length bs \<le> LENGTH('a)"
  shows "le_enc (length bs) (le_dec bs :: 'a::len word) = bs"
  using assms
proof (induction bs)
  case Nil
  then show ?case by simp
next
  case (Cons b bs)
  have fit: "drop_bit 8 (ucast b OR push_bit 8 v) = v"
    if "v = take_bit (8 * length bs) v" for v :: "'a word"
  proof (rule bit_word_eqI)
    fix n assume "n < LENGTH('a)"
    have "bit v n \<Longrightarrow> n < 8 * length bs"
      using that by (metis bit_take_bit_iff)
    then show "bit (drop_bit 8 (ucast b OR push_bit 8 v)) n = bit v n"
      using Cons.prems \<open>n < LENGTH('a)\<close>
      by (auto simp: bit_drop_bit_eq bit_or_iff bit_push_bit_iff bit_ucast_iff
          dest: bit_imp_le_length)
  qed
  have "le_dec bs = take_bit (8 * length bs) (le_dec bs :: 'a word)"
  proof (rule bit_word_eqI)
    have "bit (le_dec cs :: 'a word) n \<Longrightarrow> n < 8 * length cs" for cs n
    proof (induction cs arbitrary: n)
      case (Cons c cs)
      then show ?case
        by (cases "n < 8") (auto simp: bit_or_iff bit_push_bit_iff bit_ucast_iff
            dest: bit_imp_le_length, fastforce)
    qed simp
    then show "bit (le_dec bs :: 'a word) n = bit (take_bit (8 * length bs) (le_dec bs :: 'a word)) n" for n
      by (auto simp: bit_take_bit_iff)
  qed
  with Cons fit show ?case by (simp add: ucast_low_byte)
qed

text \<open>Concatenation, partial reads and reads at another width.\<close>

lemma le_dec_append:
  "(le_dec (xs @ ys) :: 'a::len word) = le_dec xs OR push_bit (8 * length xs) (le_dec ys)"
  by (induction xs) (simp_all add: push_bit_or or.assoc add.commute)

lemma drop_le_enc: "drop k (le_enc n w) = le_enc (n - k) (drop_bit (8 * k) w)"
proof (induction k arbitrary: n w)
  case (Suc k)
  then show ?case by (cases n) (simp_all add: add.commute)
qed simp

lemma take_le_enc: "take k (le_enc n w) = le_enc (min k n) w"
proof (induction k arbitrary: n w)
  case (Suc k)
  then show ?case by (cases n) simp_all
qed simp

lemma bit_le_dec_enc:
  "bit (le_dec (le_enc n (w :: 'a::len word)) :: 'b::len word) i
   \<longleftrightarrow> i < 8 * n \<and> i < LENGTH('b) \<and> bit w i"
proof (induction n arbitrary: w i)
  case (Suc n)
  then show ?case
    by (cases "i < 8") (auto simp: bit_or_iff bit_push_bit_iff bit_ucast_iff bit_drop_bit_eq
        not_less dest: bit_imp_le_length)
qed simp

lemma le_dec_enc_ucast:
  fixes w :: "'a::len word"
  assumes "LENGTH('a) \<le> 8 * n"
  shows "(le_dec (le_enc n w) :: 'b::len word) = ucast w"
  using assms by (intro bit_word_eqI) (auto simp: bit_le_dec_enc bit_ucast_iff dest: bit_imp_le_length)

end
