(* ===== verification/Go_Slices.thy ===== *)
theory Go_Slices
  imports Prelude
begin

section \<open>Go byte slices and byte buffers\<close>

text \<open>
  A \<^verbatim>\<open>[]byte\<close> is its visible elements and the spare elements between its length and its
  capacity.  Both matter: \<^verbatim>\<open>r[lo:hi]\<close> is bounded by the capacity, \<^verbatim>\<open>r[lo:]\<close> and
  \<^verbatim>\<open>r[i]\<close> by the length, so a decoder that slices past the end of a request reads the
  next request of the same buffer when there is one and panics when there is none.
  A fresh buffer \<^verbatim>\<open>make([]byte, n)\<close>, which is what the encoders write into, is a byte
  list; a write out of its range is \<^term>\<open>None\<close>.
\<close>

datatype slice = Slice (vis: "byte list") (ext: "byte list")

definition len :: "slice \<Rightarrow> nat" where
  "len s = length (vis s)"

definition capacity :: "slice \<Rightarrow> nat" where
  "capacity s = length (vis s) + length (ext s)"

abbreviation nil_slice :: slice where
  "nil_slice \<equiv> Slice [] []"

text \<open>\<^verbatim>\<open>r[lo:hi]\<close>, \<^verbatim>\<open>r[lo:]\<close> and \<^verbatim>\<open>r[i]\<close>.\<close>

definition sl_range :: "nat \<Rightarrow> nat \<Rightarrow> slice \<Rightarrow> slice option" where
  "sl_range lo hi s =
     (if lo \<le> hi \<and> hi \<le> capacity s
      then let whole = vis s @ ext s in Some (Slice (take (hi - lo) (drop lo whole)) (drop hi whole))
      else None)"

definition sl_from :: "nat \<Rightarrow> slice \<Rightarrow> slice option" where
  "sl_from lo s = (if lo \<le> len s then Some (Slice (drop lo (vis s)) (ext s)) else None)"

definition sl_at :: "nat \<Rightarrow> slice \<Rightarrow> byte option" where
  "sl_at i s = (if i < len s then Some (vis s ! i) else None)"

text \<open>\<^verbatim>\<open>le.Uint16\<close>, \<^verbatim>\<open>le.Uint32\<close> and \<^verbatim>\<open>le.Uint64\<close> of a slice (they index its last byte).\<close>

definition le_Uint16 :: "slice \<Rightarrow> u16 option" where
  "le_Uint16 s = (if 2 \<le> len s then Some (le_dec (take 2 (vis s))) else None)"

definition le_Uint32 :: "slice \<Rightarrow> u32 option" where
  "le_Uint32 s = (if 4 \<le> len s then Some (le_dec (take 4 (vis s))) else None)"

definition le_Uint64 :: "slice \<Rightarrow> u64 option" where
  "le_Uint64 s = (if 8 \<le> len s then Some (le_dec (take 8 (vis s))) else None)"

text \<open>The shape of almost every accessor of a decoder: \<^verbatim>\<open>le.Uint16(r[lo:hi])\<close>.\<close>

definition u16_in :: "nat \<Rightarrow> nat \<Rightarrow> slice \<Rightarrow> u16 option" where
  "u16_in lo hi s = do { t \<leftarrow> sl_range lo hi s; le_Uint16 t }"

definition u32_in :: "nat \<Rightarrow> nat \<Rightarrow> slice \<Rightarrow> u32 option" where
  "u32_in lo hi s = do { t \<leftarrow> sl_range lo hi s; le_Uint32 t }"

definition u64_in :: "nat \<Rightarrow> nat \<Rightarrow> slice \<Rightarrow> u64 option" where
  "u64_in lo hi s = do { t \<leftarrow> sl_range lo hi s; le_Uint64 t }"

text \<open>The same with an open upper bound: \<^verbatim>\<open>le.Uint16(r[lo:])\<close>.\<close>

definition u16_from :: "nat \<Rightarrow> slice \<Rightarrow> u16 option" where
  "u16_from lo s = do { t \<leftarrow> sl_from lo s; le_Uint16 t }"

definition u32_from :: "nat \<Rightarrow> slice \<Rightarrow> u32 option" where
  "u32_from lo s = do { t \<leftarrow> sl_from lo s; le_Uint32 t }"

subsection \<open>Reads inside the visible part never panic\<close>

lemma sl_range_in [panic_simps]:
  "lo \<le> hi \<Longrightarrow> hi \<le> len s \<Longrightarrow>
   sl_range lo hi s = Some (Slice (take (hi - lo) (drop lo (vis s))) (drop hi (vis s) @ ext s))"
  by (simp add: sl_range_def capacity_def len_def Let_def)

lemma sl_range_None [panic_simps]:
  "capacity s < hi \<or> hi < lo \<Longrightarrow> sl_range lo hi s = None"
  by (auto simp: sl_range_def)

lemma sl_range_total: "lo \<le> hi \<Longrightarrow> hi \<le> capacity s \<Longrightarrow> sl_range lo hi s \<noteq> None"
  by (simp add: sl_range_def Let_def)

lemma len_sl_range: "sl_range lo hi s = Some t \<Longrightarrow> len t = hi - lo"
  by (auto simp: sl_range_def capacity_def len_def Let_def split: if_splits)

lemma sl_from_in [panic_simps]:
  "lo \<le> len s \<Longrightarrow> sl_from lo s = Some (Slice (drop lo (vis s)) (ext s))"
  by (simp add: sl_from_def)

lemma sl_from_None [panic_simps]: "len s < lo \<Longrightarrow> sl_from lo s = None"
  by (simp add: sl_from_def)

lemma sl_at_in [panic_simps]: "i < len s \<Longrightarrow> sl_at i s = Some (vis s ! i)"
  by (simp add: sl_at_def)

lemma len_Slice [simp]: "len (Slice xs ys) = length xs"
  by (simp add: len_def)

lemma capacity_Slice [simp]: "capacity (Slice xs ys) = length xs + length ys"
  by (simp add: capacity_def)

lemma len_le_capacity: "len s \<le> capacity s"
  by (simp add: len_def capacity_def)

lemma u16_in_in [panic_simps]:
  "hi \<le> len s \<Longrightarrow> lo + 2 \<le> hi \<Longrightarrow> u16_in lo hi s = Some (le_dec (take 2 (drop lo (vis s))))"
  by (auto simp: u16_in_def sl_range_in le_Uint16_def len_def min_def)

lemma u32_in_in [panic_simps]:
  "hi \<le> len s \<Longrightarrow> lo + 4 \<le> hi \<Longrightarrow> u32_in lo hi s = Some (le_dec (take 4 (drop lo (vis s))))"
  by (auto simp: u32_in_def sl_range_in le_Uint32_def len_def min_def)

lemma u64_in_in [panic_simps]:
  "hi \<le> len s \<Longrightarrow> lo + 8 \<le> hi \<Longrightarrow> u64_in lo hi s = Some (le_dec (take 8 (drop lo (vis s))))"
  by (auto simp: u64_in_def sl_range_in le_Uint64_def len_def min_def)

lemma u16_in_None: "capacity s < hi \<Longrightarrow> u16_in lo hi s = None"
  by (simp add: u16_in_def sl_range_None)

lemma u16_from_in [panic_simps]:
  "lo + 2 \<le> len s \<Longrightarrow> u16_from lo s = Some (le_dec (take 2 (drop lo (vis s))))"
  by (auto simp: u16_from_def sl_from_in le_Uint16_def len_def)

lemma u32_from_in [panic_simps]:
  "lo + 4 \<le> len s \<Longrightarrow> u32_from lo s = Some (le_dec (take 4 (drop lo (vis s))))"
  by (auto simp: u32_from_def sl_from_in le_Uint32_def len_def)

subsection \<open>Writes into a fresh buffer\<close>

text \<open>
  \<open>put off bs buf\<close> stores \<open>bs\<close> at offset \<open>off\<close>; \<open>copy_at off src buf\<close> is
  \<^verbatim>\<open>copy(buf[off:], src)\<close>, which stores only what fits; \<open>rd off n buf\<close> reads back.
\<close>

definition wr :: "nat \<Rightarrow> byte list \<Rightarrow> byte list \<Rightarrow> byte list" where
  "wr off bs buf = take off buf @ bs @ drop (off + length bs) buf"

definition put :: "nat \<Rightarrow> byte list \<Rightarrow> byte list \<Rightarrow> byte list option" where
  "put off bs buf = (if off + length bs \<le> length buf then Some (wr off bs buf) else None)"

definition copy_at :: "nat \<Rightarrow> byte list \<Rightarrow> byte list \<Rightarrow> byte list option" where
  "copy_at off src buf =
     (if off \<le> length buf then Some (wr off (take (length buf - off) src) buf) else None)"

definition rd :: "nat \<Rightarrow> nat \<Rightarrow> byte list \<Rightarrow> byte list" where
  "rd off n buf = take n (drop off buf)"

abbreviation put16 :: "nat \<Rightarrow> u16 \<Rightarrow> byte list \<Rightarrow> byte list option" where
  "put16 off v \<equiv> put off (le_enc 2 v)"

abbreviation put32 :: "nat \<Rightarrow> u32 \<Rightarrow> byte list \<Rightarrow> byte list option" where
  "put32 off v \<equiv> put off (le_enc 4 v)"

abbreviation put64 :: "nat \<Rightarrow> u64 \<Rightarrow> byte list \<Rightarrow> byte list option" where
  "put64 off v \<equiv> put off (le_enc 8 v)"

definition zeros :: "nat \<Rightarrow> byte list" where
  "zeros n = replicate n 0"

lemma length_zeros [simp]: "length (zeros n) = n"
  by (simp add: zeros_def)

lemma zeros_0 [simp]: "zeros 0 = []"
  by (simp add: zeros_def)

lemma take_zeros: "take k (zeros n) = zeros (min k n)"
  by (simp add: zeros_def)

lemma drop_zeros: "drop k (zeros n) = zeros (n - k)"
  by (simp add: zeros_def)

lemma le_enc_0: "le_enc n 0 = zeros n"
  by (induction n) (auto simp: zeros_def)

lemma rd_zeros [bytes_simps]: "off + n \<le> m \<Longrightarrow> rd off n (zeros m) = zeros n"
  by (simp add: rd_def zeros_def min_def)

lemma put_in [panic_simps]: "off + length bs \<le> length buf \<Longrightarrow> put off bs buf = Some (wr off bs buf)"
  by (simp add: put_def)

lemma copy_at_in [panic_simps]:
  "off + length src \<le> length buf \<Longrightarrow> copy_at off src buf = Some (wr off src buf)"
  by (simp add: copy_at_def)

lemma length_wr [bytes_simps]: "off + length bs \<le> length buf \<Longrightarrow> length (wr off bs buf) = length buf"
  by (simp add: wr_def)

lemma put_length: "put off bs buf = Some buf' \<Longrightarrow> length buf' = length buf"
  by (auto simp: put_def length_wr split: if_splits)

lemma copy_at_length: "copy_at off bs buf = Some buf' \<Longrightarrow> length buf' = length buf"
  by (auto simp: copy_at_def length_wr split: if_splits)

lemma rd_wr_same [bytes_simps]:
  "off + length bs \<le> length buf \<Longrightarrow> n = length bs \<Longrightarrow> rd off n (wr off bs buf) = bs"
  by (simp add: rd_def wr_def)

lemma rd_wr_before [bytes_simps]:
  "off + length bs \<le> length buf \<Longrightarrow> a + n \<le> off \<Longrightarrow> rd a n (wr off bs buf) = rd a n buf"
  by (simp add: rd_def wr_def drop_take)

lemma rd_wr_after [bytes_simps]:
  assumes "off + length bs \<le> length buf" "off + length bs \<le> a"
  shows "rd a n (wr off bs buf) = rd a n buf"
proof -
  have "drop a (wr off bs buf) = drop (a - (off + length bs)) (drop (off + length bs) buf)"
    using assms by (simp add: wr_def drop_append)
  also have "\<dots> = drop a buf" using assms by simp
  finally show ?thesis by (simp add: rd_def)
qed

lemma rd_vis: "take n (drop lo (vis s)) = rd lo n (vis s)"
  by (simp add: rd_def)

lemma le_dec_zeros [simp]: "le_dec (zeros n) = 0"
  by (induction n) (auto simp: zeros_def)

text \<open>Reading a field of a larger field: the upper half of a 64-bit word at \<open>off\<close>.\<close>

lemma rd_split: "m \<le> n \<Longrightarrow> rd off n buf = rd off m buf @ rd (off + m) (n - m) buf"
  using take_add [of m "n - m" "drop off buf"] by (simp add: rd_def add.commute)

lemma rd_wr_inside [bytes_simps]:
  assumes "off + length bs \<le> length buf" "off \<le> a" "a + n \<le> off + length bs"
  shows "rd a n (wr off bs buf) = rd (a - off) n bs"
  using assms by (simp add: rd_def wr_def min_def)

lemma rd_all: "n = length bs \<Longrightarrow> rd 0 n bs = bs"
  by (simp add: rd_def)

subsection \<open>A run of fields\<close>

text \<open>
  The encoders store one field after another at fixed offsets.  \<open>puts\<close> is such a run,
  \<open>wrs\<close> its result where every field fits, and \<open>field_at\<close> computes what a later read of
  one field returns: the last field stored there, when nothing stored afterwards overlaps it.
\<close>

type_synonym fields = "(nat \<times> byte list) list"

fun puts :: "fields \<Rightarrow> byte list \<Rightarrow> byte list option" where
  "puts [] b = Some b"
| "puts ((off, bs) # fs) b = do { b' \<leftarrow> put off bs b; puts fs b' }"

fun wrs :: "fields \<Rightarrow> byte list \<Rightarrow> byte list" where
  "wrs [] b = b"
| "wrs ((off, bs) # fs) b = wrs fs (wr off bs b)"

definition fits :: "nat \<Rightarrow> fields \<Rightarrow> bool" where
  "fits n fs = list_all (\<lambda>(off, bs). off + length bs \<le> n) fs"

definition apart :: "nat \<Rightarrow> nat \<Rightarrow> fields \<Rightarrow> bool" where
  "apart a n fs = list_all (\<lambda>(off, bs). off + length bs \<le> a \<or> a + n \<le> off) fs"

fun field_at :: "fields \<Rightarrow> nat \<Rightarrow> nat \<Rightarrow> byte list option" where
  "field_at [] a n = None"
| "field_at ((off, bs) # fs) a n =
     (if apart a n fs then if off = a \<and> length bs = n then Some bs else None
      else field_at fs a n)"

lemma fits_simps [simp]:
  "fits n []" "fits n ((off, bs) # fs) \<longleftrightarrow> off + length bs \<le> n \<and> fits n fs"
  "fits n (fs @ gs) \<longleftrightarrow> fits n fs \<and> fits n gs"
  by (auto simp: fits_def)

lemma apart_simps [simp]:
  "apart a n []"
  "apart a n ((off, bs) # fs) \<longleftrightarrow> (off + length bs \<le> a \<or> a + n \<le> off) \<and> apart a n fs"
  "apart a n (fs @ gs) \<longleftrightarrow> apart a n fs \<and> apart a n gs"
  by (auto simp: apart_def)

lemma fits_mono: "fits m fs \<Longrightarrow> m \<le> n \<Longrightarrow> fits n fs"
  by (auto simp: fits_def list_all_iff)

lemma puts_wrs: "fits (length b) fs \<Longrightarrow> puts fs b = Some (wrs fs b)"
  by (induction fs b rule: puts.induct) (auto simp: put_in length_wr)

lemma puts_length: "puts fs b = Some b' \<Longrightarrow> length b' = length b"
  by (induction fs b rule: puts.induct) (auto simp: bind_Some_iff dest: put_length)

lemma length_wrs [bytes_simps]: "fits (length b) fs \<Longrightarrow> length (wrs fs b) = length b"
  by (induction fs b rule: wrs.induct) (auto simp: length_wr)

lemma rd_wrs_apart [bytes_simps]:
  "fits (length b) fs \<Longrightarrow> apart a n fs \<Longrightarrow> rd a n (wrs fs b) = rd a n b"
  by (induction fs b rule: wrs.induct) (auto simp: length_wr rd_wr_before rd_wr_after)

lemma rd_wrs:
  "fits (length b) fs \<Longrightarrow> field_at fs a n = Some bs \<Longrightarrow> rd a n (wrs fs b) = bs"
  by (induction fs b rule: wrs.induct)
    (auto simp: length_wr rd_wrs_apart rd_wr_same split: if_splits)

text \<open>Adjacent writes are one write, and writing what is there already changes nothing.\<close>

lemma wr_adjacent:
  assumes "off + length xs + length ys \<le> length b"
  shows "wr (off + length xs) ys (wr off xs b) = wr off (xs @ ys) b"
proof -
  have "take (off + length xs) (wr off xs b) = take off b @ xs"
    using assms by (cases xs) (auto simp: wr_def min_def)
  moreover have "drop (off + length xs + length ys) (wr off xs b) = drop (off + length xs + length ys) b"
    using assms by (simp add: wr_def drop_append ac_simps)
  ultimately show ?thesis by (simp add: wr_def add.assoc)
qed

lemma puts_append: "puts (fs @ gs) b = do { b \<leftarrow> puts fs b; puts gs b }"
proof (induction fs b rule: puts.induct)
  case (2 off bs fs b)
  then show ?case by (cases "put off bs b") auto
qed simp

lemma wr_gap:
  "rd off (length ys) b = ys \<Longrightarrow> off + length ys \<le> length b \<Longrightarrow> wr off ys b = b"
proof -
  assume r: "rd off (length ys) b = ys" and l: "off + length ys \<le> length b"
  have "drop off b = ys @ drop (off + length ys) b"
    using r append_take_drop_id [of "length ys" "drop off b"] by (simp add: rd_def add.commute)
  then have "take off b @ ys @ drop (off + length ys) b = b"
    by (metis append_take_drop_id)
  then show "wr off ys b = b" by (simp add: wr_def)
qed

lemma wrs_append: "wrs (fs @ gs) b = wrs gs (wrs fs b)"
  by (induction fs b rule: wrs.induct) auto

lemma field_at_apart: "0 < n \<Longrightarrow> apart a n fs \<Longrightarrow> field_at fs a n = None"
  by (induction fs a n rule: field_at.induct) auto

lemma field_at_append:
  "0 < n \<Longrightarrow> field_at (fs @ gs) a n = (if apart a n gs then field_at fs a n else field_at gs a n)"
  by (induction fs) (auto simp: field_at_apart)

end
