(* ===== verification/Packet.thy ===== *)
theory Packet
  imports Go_Slices
begin

section \<open>The SMB2 packet header and the transform header\<close>

text \<open>
  \<^verbatim>\<open>smb/internal/smb2/packet.go\<close>: the header record, its encoder, the codec that reads a
  header from a request and the codec of the SMB3 transform header.  Readers take a
  \<^typ>\<open>slice\<close>; the encoder writes into a fresh buffer.
\<close>

subsection \<open>Constants (const.go)\<close>

definition MAGIC :: "byte list" where "MAGIC = [0xfe, 0x53, 0x4d, 0x42]"
definition MAGIC2 :: "byte list" where "MAGIC2 = [0xfd, 0x53, 0x4d, 0x42]"
definition MAGIC_SMB1 :: "byte list" where "MAGIC_SMB1 = [0xff, 0x53, 0x4d, 0x42]"

abbreviation (input) "SMB2_NEGOTIATE \<equiv> (0 :: u16)"
abbreviation (input) "SMB2_SESSION_SETUP \<equiv> (1 :: u16)"
abbreviation (input) "SMB2_LOGOFF \<equiv> (2 :: u16)"
abbreviation (input) "SMB2_TREE_CONNECT \<equiv> (3 :: u16)"
abbreviation (input) "SMB2_TREE_DISCONNECT \<equiv> (4 :: u16)"
abbreviation (input) "SMB2_CREATE \<equiv> (5 :: u16)"
abbreviation (input) "SMB2_CLOSE \<equiv> (6 :: u16)"
abbreviation (input) "SMB2_FLUSH \<equiv> (7 :: u16)"
abbreviation (input) "SMB2_READ \<equiv> (8 :: u16)"
abbreviation (input) "SMB2_WRITE \<equiv> (9 :: u16)"
abbreviation (input) "SMB2_LOCK \<equiv> (10 :: u16)"
abbreviation (input) "SMB2_IOCTL \<equiv> (11 :: u16)"
abbreviation (input) "SMB2_CANCEL \<equiv> (12 :: u16)"
abbreviation (input) "SMB2_ECHO \<equiv> (13 :: u16)"
abbreviation (input) "SMB2_QUERY_DIRECTORY \<equiv> (14 :: u16)"
abbreviation (input) "SMB2_CHANGE_NOTIFY \<equiv> (15 :: u16)"
abbreviation (input) "SMB2_QUERY_INFO \<equiv> (16 :: u16)"
abbreviation (input) "SMB2_SET_INFO \<equiv> (17 :: u16)"
abbreviation (input) "SMB2_OPLOCK_BREAK \<equiv> (18 :: u16)"
abbreviation (input) "SMB_COM_NEGOTIATE \<equiv> (0x72 :: u16)"

abbreviation (input) "SMB2_FLAGS_SERVER_TO_REDIR \<equiv> (1 :: u32)"
abbreviation (input) "SMB2_FLAGS_ASYNC_COMMAND \<equiv> (2 :: u32)"
abbreviation (input) "SMB2_FLAGS_RELATED_OPERATIONS \<equiv> (4 :: u32)"
abbreviation (input) "SMB2_FLAGS_SIGNED \<equiv> (8 :: u32)"
abbreviation (input) "SMB2_FLAGS_PRIORITY_MASK \<equiv> (0x70 :: u32)"

subsection \<open>PacketHeader\<close>

record PacketHeader =
  CreditCharge :: u16
  ChannelSequence :: u16
  Status :: u32
  Command :: u16
  CreditRequestResponse :: u16
  Flags :: u32
  NextCommand :: u32
  MessageId :: u64
  AsyncId :: u64
  TreeId :: u32
  SessionId :: u64

definition new_header :: PacketHeader where
  "new_header = \<lparr>CreditCharge = 0, ChannelSequence = 0, Status = 0, Command = 0,
     CreditRequestResponse = 0, Flags = 0, NextCommand = 0, MessageId = 0, AsyncId = 0,
     TreeId = 0, SessionId = 0\<rparr>"

text \<open>
  The two \<^verbatim>\<open>switch\<close> statements choose one of two overlapping fields: a channel sequence
  hides the status, and a tree id hides the asynchronous id.
\<close>

definition status_field :: "PacketHeader \<Rightarrow> fields" where
  "status_field hdr =
     (if ChannelSequence hdr \<noteq> 0 then [(8, le_enc 2 (ChannelSequence hdr))]
      else if Status hdr \<noteq> 0 then [(8, le_enc 4 (Status hdr))]
      else [])"

definition id_field :: "PacketHeader \<Rightarrow> fields" where
  "id_field hdr =
     (if TreeId hdr \<noteq> 0 then [(36, le_enc 4 (TreeId hdr))]
      else if AsyncId hdr \<noteq> 0 then [(32, le_enc 8 (AsyncId hdr))]
      else [])"

definition header_fields :: "PacketHeader \<Rightarrow> fields" where
  "header_fields hdr =
     [(4, le_enc 2 (64 :: u16)), (6, le_enc 2 (CreditCharge hdr))]
     @ status_field hdr
     @ [(12, le_enc 2 (Command hdr)), (14, le_enc 2 (CreditRequestResponse hdr)),
        (16, le_enc 4 (Flags hdr)), (20, le_enc 4 (NextCommand hdr)),
        (24, le_enc 8 (MessageId hdr))]
     @ id_field hdr
     @ [(40, le_enc 8 (SessionId hdr))]"

definition encodeHeader :: "PacketHeader \<Rightarrow> byte list \<Rightarrow> byte list option" where
  "encodeHeader hdr pkt = do { pkt \<leftarrow> copy_at 0 MAGIC pkt; puts (header_fields hdr) pkt }"

subsection \<open>PacketCodec\<close>

definition p_ProtocolId :: "slice \<Rightarrow> slice option" where
  "p_ProtocolId p = sl_range 0 4 p"

definition p_StructureSize :: "slice \<Rightarrow> u16 option" where
  "p_StructureSize p = u16_in 4 6 p"

definition p_CreditCharge :: "slice \<Rightarrow> u16 option" where
  "p_CreditCharge p = u16_in 6 8 p"

definition p_Status :: "slice \<Rightarrow> u32 option" where
  "p_Status p = u32_in 8 12 p"

definition p_ChannelSequence :: "slice \<Rightarrow> u16 option" where
  "p_ChannelSequence p = u16_in 8 10 p"

definition p_IsSmb1 :: "slice \<Rightarrow> bool option" where
  "p_IsSmb1 p =
     (if len p < 4 then Some False
      else do { magic \<leftarrow> p_ProtocolId p; Some (vis magic = MAGIC_SMB1) })"

definition p_Command :: "slice \<Rightarrow> u16 option" where
  "p_Command p = do {
     smb1 \<leftarrow> p_IsSmb1 p;
     (if smb1
      then (if len p < 5 then Some 0 else do { b \<leftarrow> sl_at 4 p; Some (ucast b) })
      else (if len p < 14 then Some 0 else u16_in 12 14 p)) }"

definition p_CreditRequest :: "slice \<Rightarrow> u16 option" where
  "p_CreditRequest p = u16_in 14 16 p"

definition p_Flags :: "slice \<Rightarrow> u32 option" where
  "p_Flags p = u32_in 16 20 p"

definition p_NextCommand :: "slice \<Rightarrow> u32 option" where
  "p_NextCommand p = u32_in 20 24 p"

definition p_MessageId :: "slice \<Rightarrow> u64 option" where
  "p_MessageId p = do {
     smb1 \<leftarrow> p_IsSmb1 p;
     (if smb1 then Some 0xFFFFFFFFFFFFFFFF else u64_in 24 32 p) }"

definition p_AsyncId :: "slice \<Rightarrow> u64 option" where
  "p_AsyncId p = u64_in 32 40 p"

definition p_TreeId :: "slice \<Rightarrow> u32 option" where
  "p_TreeId p = u32_in 36 40 p"

definition p_SessionId :: "slice \<Rightarrow> u64 option" where
  "p_SessionId p = u64_in 40 48 p"

definition p_Signature :: "slice \<Rightarrow> slice option" where
  "p_Signature p = sl_range 48 64 p"

definition p_Data :: "slice \<Rightarrow> slice option" where
  "p_Data p = sl_from 64 p"

definition p_IsInvalid :: "slice \<Rightarrow> bool option" where
  "p_IsInvalid p =
     (if len p < 4 then Some True
      else do {
        smb1 \<leftarrow> p_IsSmb1 p;
        cmd \<leftarrow> p_Command p;
        (if 5 \<le> len p \<and> smb1 \<and> cmd = SMB_COM_NEGOTIATE then Some False
         else if len p < 64 then Some True
         else do {
           magic \<leftarrow> p_ProtocolId p;
           (if vis magic \<noteq> MAGIC then Some True
            else do {
              ss \<leftarrow> p_StructureSize p;
              (if ss \<noteq> 64 then Some True
               else do {
                 nxt \<leftarrow> p_NextCommand p;
                 Some (nxt AND 7 \<noteq> 0
                   \<or> nxt \<noteq> 0 \<and> (nxt < 64 \<or> len p \<le> unat nxt \<or> len p - unat nxt < 64)) }) }) }) })"

definition p_IsCompoundFirst :: "slice \<Rightarrow> bool option" where
  "p_IsCompoundFirst p = do {
     fl \<leftarrow> p_Flags p;
     (if fl AND SMB2_FLAGS_RELATED_OPERATIONS = 0
      then do { nxt \<leftarrow> p_NextCommand p; Some (nxt \<noteq> 0) } else Some False) }"

definition p_IsCompoundLast :: "slice \<Rightarrow> bool option" where
  "p_IsCompoundLast p = do {
     fl \<leftarrow> p_Flags p;
     (if fl AND SMB2_FLAGS_RELATED_OPERATIONS = SMB2_FLAGS_RELATED_OPERATIONS
      then do { nxt \<leftarrow> p_NextCommand p; Some (nxt = 0) } else Some False) }"

text \<open>Setters used on a packet that is complete: \<^verbatim>\<open>SetFlags\<close> and \<^verbatim>\<open>SetSignature\<close>.\<close>

definition p_SetFlags :: "u32 \<Rightarrow> byte list \<Rightarrow> byte list option" where
  "p_SetFlags u pkt = put32 16 u pkt"

definition p_SetSignature :: "byte list \<Rightarrow> byte list \<Rightarrow> byte list option" where
  "p_SetSignature sig pkt = (if 64 \<le> length pkt then Some (wr 48 (take 16 sig) pkt) else None)"

subsection \<open>TransformCodec\<close>

definition t_OriginalMessageSize :: "slice \<Rightarrow> u32 option" where
  "t_OriginalMessageSize p = u32_in 36 40 p"

definition t_IsInvalid :: "slice \<Rightarrow> bool option" where
  "t_IsInvalid p =
     (if len p < 52 + 64 then Some True
      else do {
        magic \<leftarrow> sl_range 0 4 p;
        (if vis magic \<noteq> MAGIC2 then Some True
         else do { n \<leftarrow> t_OriginalMessageSize p; Some (n < 64) }) })"

definition t_Signature :: "slice \<Rightarrow> slice option" where
  "t_Signature p = sl_range 4 20 p"

definition t_Nonce :: "slice \<Rightarrow> slice option" where
  "t_Nonce p = sl_range 20 36 p"

definition t_EncryptionAlgorithm :: "slice \<Rightarrow> u16 option" where
  "t_EncryptionAlgorithm p = u16_in 42 44 p"

definition t_Flags :: "slice \<Rightarrow> u16 option" where
  "t_Flags p = u16_in 42 44 p"

definition t_SessionId :: "slice \<Rightarrow> u64 option" where
  "t_SessionId p = u64_in 44 52 p"

definition t_AssociatedData :: "slice \<Rightarrow> slice option" where
  "t_AssociatedData p = sl_range 20 52 p"

definition t_EncryptedData :: "slice \<Rightarrow> slice option" where
  "t_EncryptedData p = sl_from 52 p"

lemmas codec_defs =
  p_ProtocolId_def p_StructureSize_def p_CreditCharge_def p_Status_def p_ChannelSequence_def
  p_CreditRequest_def p_Flags_def p_NextCommand_def p_AsyncId_def p_TreeId_def p_SessionId_def
  p_Signature_def p_Data_def

subsection \<open>The readers do not panic on a full header\<close>

lemma p_IsSmb1_eq: "p_IsSmb1 p = Some (rd 0 4 (vis p) = MAGIC_SMB1)"
proof (cases "len p < 4")
  case True
  then show ?thesis by (auto simp: p_IsSmb1_def rd_def MAGIC_SMB1_def len_def dest!: arg_cong [of _ _ length])
next
  case False
  then show ?thesis by (simp add: p_IsSmb1_def p_ProtocolId_def sl_range_in rd_def)
qed

lemma p_Command_total: "\<exists>c. p_Command p = Some c"
  by (auto simp: p_Command_def p_IsSmb1_eq sl_at_in u16_in_in)

lemma p_IsInvalid_total: "\<exists>b. p_IsInvalid p = Some b"
  using p_Command_total [of p]
  by (auto simp: p_IsInvalid_def p_IsSmb1_eq codec_defs sl_range_in u16_in_in u32_in_in)

lemma full_header_reads:
  assumes "64 \<le> len p"
  shows "\<exists>fl. p_Flags p = Some fl" "\<exists>n. p_NextCommand p = Some n" "\<exists>m. p_MessageId p = Some m"
    "\<exists>t. p_TreeId p = Some t" "\<exists>s. p_SessionId p = Some s" "\<exists>c. p_CreditRequest p = Some c"
    "\<exists>s. p_StructureSize p = Some s" "\<exists>s. p_Status p = Some s" "\<exists>d. p_Data p = Some d"
    "\<exists>a. p_AsyncId p = Some a"
  using assms
  by (simp_all add: codec_defs p_MessageId_def p_IsSmb1_eq u16_in_in u32_in_in u64_in_in sl_from_in)

lemma valid_packet_next:
  assumes "p_IsInvalid p = Some False" "p_IsSmb1 p = Some False" "p_NextCommand p = Some n" "n \<noteq> 0"
  shows "64 \<le> unat n" "unat n + 64 \<le> len p" "n AND 7 = 0"
proof -
  have "64 \<le> n" "unat n < len p" "64 \<le> len p - unat n" "n AND 7 = 0"
    using assms by (auto simp: p_IsInvalid_def bind_Some_iff split: if_splits)
  then show "64 \<le> unat n" "unat n + 64 \<le> len p" "n AND 7 = 0"
    by (simp_all add: word_le_nat_alt)
qed

subsection \<open>Encoding and reading back\<close>

lemma length_MAGIC [simp]: "length MAGIC = 4" "length MAGIC2 = 4"
  by (simp_all add: MAGIC_def MAGIC2_def)

lemma fits_header: "64 \<le> n \<Longrightarrow> fits n (header_fields hdr)"
  by (simp add: header_fields_def status_field_def id_field_def)

lemma encodeHeader_eq:
  "64 \<le> length pkt \<Longrightarrow> encodeHeader hdr pkt = Some (wrs (header_fields hdr) (wr 0 MAGIC pkt))"
  by (simp add: encodeHeader_def copy_at_in puts_wrs fits_header length_wr)

lemma encodeHeader_length: "encodeHeader hdr pkt = Some b \<Longrightarrow> length b = length pkt"
  by (auto simp: encodeHeader_def bind_Some_iff dest!: copy_at_length puts_length)

lemma encodeHeader_total:
  "64 \<le> length pkt \<Longrightarrow> \<exists>b. encodeHeader hdr pkt = Some b \<and> length b = length pkt"
  using encodeHeader_length by (auto simp: encodeHeader_eq)

text \<open>What the header bytes are, for every field.\<close>

lemma encodeHeader_fields:
  assumes n: "64 \<le> length pkt" and b: "encodeHeader hdr pkt = Some b"
  shows "rd 0 4 b = MAGIC" "rd 4 2 b = le_enc 2 (64 :: u16)" "rd 6 2 b = le_enc 2 (CreditCharge hdr)"
    "rd 12 2 b = le_enc 2 (Command hdr)" "rd 14 2 b = le_enc 2 (CreditRequestResponse hdr)"
    "rd 16 4 b = le_enc 4 (Flags hdr)" "rd 20 4 b = le_enc 4 (NextCommand hdr)"
    "rd 24 8 b = le_enc 8 (MessageId hdr)" "rd 40 8 b = le_enc 8 (SessionId hdr)"
proof -
  have b_eq: "b = wrs (header_fields hdr) (wr 0 MAGIC pkt)"
    using b n by (simp add: encodeHeader_eq)
  have fit: "fits (length (wr 0 MAGIC pkt)) (header_fields hdr)"
    using n by (simp add: fits_header length_wr)
  note f = rd_wrs [OF fit, folded b_eq]
  show "rd 0 4 b = MAGIC"
    using rd_wrs_apart [OF fit, of 0 4] n
    by (simp add: b_eq rd_wr_same header_fields_def status_field_def id_field_def)
  show "rd 4 2 b = le_enc 2 (64 :: u16)" "rd 6 2 b = le_enc 2 (CreditCharge hdr)"
    "rd 12 2 b = le_enc 2 (Command hdr)" "rd 14 2 b = le_enc 2 (CreditRequestResponse hdr)"
    "rd 16 4 b = le_enc 4 (Flags hdr)" "rd 20 4 b = le_enc 4 (NextCommand hdr)"
    "rd 24 8 b = le_enc 8 (MessageId hdr)" "rd 40 8 b = le_enc 8 (SessionId hdr)"
    by (rule f, simp add: header_fields_def status_field_def id_field_def)+
qed

lemma encodeHeader_status:
  assumes n: "64 \<le> length pkt" "rd 8 4 pkt = zeros 4" and b: "encodeHeader hdr pkt = Some b"
  shows "rd 8 4 b = (if ChannelSequence hdr \<noteq> 0 then le_enc 2 (ChannelSequence hdr) @ zeros 2
                     else le_enc 4 (Status hdr))"
proof -
  have b_eq: "b = wrs (header_fields hdr) (wr 0 MAGIC pkt)"
    using b n by (simp add: encodeHeader_eq)
  have fit: "fits (length (wr 0 MAGIC pkt)) (header_fields hdr)"
    using n by (simp add: fits_header length_wr)
  have low: "rd 10 2 pkt = zeros 2"
    using arg_cong [OF n(2), of "drop 2"] by (simp add: rd_def drop_take drop_zeros)
  consider (seq) "ChannelSequence hdr \<noteq> 0" | (status) "ChannelSequence hdr = 0" "Status hdr \<noteq> 0"
    | (none) "ChannelSequence hdr = 0" "Status hdr = 0" by blast
  then show ?thesis
  proof cases
    case seq
    have "rd 8 2 b = le_enc 2 (ChannelSequence hdr)"
      unfolding b_eq by (rule rd_wrs [OF fit]) (simp add: header_fields_def status_field_def id_field_def seq)
    moreover have "rd 10 2 b = zeros 2"
      using rd_wrs_apart [OF fit, of 10 2] n low
      by (simp add: b_eq rd_wr_after header_fields_def status_field_def id_field_def seq)
    ultimately show ?thesis using seq by (simp add: rd_split [of 2 4 8])
  next
    case status
    then show ?thesis
      unfolding b_eq by (simp, intro rd_wrs [OF fit])
        (simp add: header_fields_def status_field_def id_field_def)
  next
    case none
    then show ?thesis
      using rd_wrs_apart [OF fit, of 8 4] n
      by (simp add: b_eq rd_wr_after header_fields_def status_field_def id_field_def le_enc_0)
  qed
qed

lemma encodeHeader_ids:
  assumes n: "64 \<le> length pkt" "rd 32 8 pkt = zeros 8" and b: "encodeHeader hdr pkt = Some b"
  shows "rd 32 8 b = (if TreeId hdr \<noteq> 0 then zeros 4 @ le_enc 4 (TreeId hdr)
                      else le_enc 8 (AsyncId hdr))"
proof -
  have b_eq: "b = wrs (header_fields hdr) (wr 0 MAGIC pkt)"
    using b n by (simp add: encodeHeader_eq)
  have fit: "fits (length (wr 0 MAGIC pkt)) (header_fields hdr)"
    using n by (simp add: fits_header length_wr)
  have high: "rd 32 4 pkt = zeros 4"
    using arg_cong [OF n(2), of "take 4"] by (simp add: rd_def take_zeros)
  consider (tree) "TreeId hdr \<noteq> 0" | (async) "TreeId hdr = 0" "AsyncId hdr \<noteq> 0"
    | (none) "TreeId hdr = 0" "AsyncId hdr = 0" by blast
  then show ?thesis
  proof cases
    case tree
    have "rd 36 4 b = le_enc 4 (TreeId hdr)"
      unfolding b_eq by (rule rd_wrs [OF fit]) (simp add: header_fields_def status_field_def id_field_def tree)
    moreover have "rd 32 4 b = zeros 4"
      using rd_wrs_apart [OF fit, of 32 4] n high
      by (simp add: b_eq rd_wr_after header_fields_def status_field_def id_field_def tree)
    ultimately show ?thesis using tree by (simp add: rd_split [of 4 8 32])
  next
    case async
    then show ?thesis
      unfolding b_eq by (simp, intro rd_wrs [OF fit])
        (simp add: header_fields_def status_field_def id_field_def)
  next
    case none
    then show ?thesis
      using rd_wrs_apart [OF fit, of 32 8] n
      by (simp add: b_eq rd_wr_after header_fields_def status_field_def id_field_def le_enc_0)
  qed
qed


subsection \<open>Properties\<close>

text \<open>
  A header encoded into a fresh packet is accepted by the reader and every field that
  the format keeps is read back: the command, the credits, the flags, the message id, the
  session id and the status (or the channel sequence, which shares its bytes).
\<close>

theorem header_roundtrip:
  assumes "64 \<le> n"
  shows "\<exists>b. encodeHeader hdr (zeros n) = Some b \<and> length b = n
    \<and> p_IsSmb1 (Slice b e) = Some False
    \<and> p_StructureSize (Slice b e) = Some 64
    \<and> p_CreditCharge (Slice b e) = Some (CreditCharge hdr)
    \<and> p_Command (Slice b e) = Some (Command hdr)
    \<and> p_CreditRequest (Slice b e) = Some (CreditRequestResponse hdr)
    \<and> p_Flags (Slice b e) = Some (Flags hdr)
    \<and> p_NextCommand (Slice b e) = Some (NextCommand hdr)
    \<and> p_MessageId (Slice b e) = Some (MessageId hdr)
    \<and> p_SessionId (Slice b e) = Some (SessionId hdr)
    \<and> p_Status (Slice b e) =
        Some (if ChannelSequence hdr \<noteq> 0 then ucast (ChannelSequence hdr) else Status hdr)"
proof -
  obtain b where b: "encodeHeader hdr (zeros n) = Some b" "length b = n"
    using encodeHeader_total [of "zeros n" hdr] assms by auto
  note f = encodeHeader_fields [OF _ b(1)]
  have st: "rd 8 4 b = (if ChannelSequence hdr \<noteq> 0 then le_enc 2 (ChannelSequence hdr) @ zeros 2
      else le_enc 4 (Status hdr))"
    using encodeHeader_status [OF _ _ b(1)] assms by (simp add: rd_zeros)
  have seq: "(le_dec (le_enc 2 (ChannelSequence hdr) @ zeros 2) :: u32) = ucast (ChannelSequence hdr)"
    by (simp add: le_dec_append le_dec_enc_ucast)
  have smb1: "p_IsSmb1 (Slice b e) = Some False"
    using f assms by (simp add: p_IsSmb1_eq MAGIC_def MAGIC_SMB1_def)
  show ?thesis
    using b f st seq smb1 assms
    by (intro exI [of _ b])
      (auto simp: codec_defs p_MessageId_def p_Command_def u16_in_in u32_in_in u64_in_in
        rd_def [symmetric])
qed

lemma header_roundtrip_witness:
  "\<exists>b. encodeHeader (new_header\<lparr>Command := 5, MessageId := 77\<rparr>) (zeros 64) = Some b
     \<and> p_MessageId (Slice b []) = Some 77"
  using header_roundtrip [of 64 "new_header\<lparr>Command := 5, MessageId := 77\<rparr>" "[]"] by auto

text \<open>
  A header never shows both a tree id and an asynchronous id: with a tree id set, what is
  read as the asynchronous id is the tree id shifted by 32 bits, whatever the asynchronous
  id was; without one it is the asynchronous id.
\<close>

theorem tree_id_hides_async_id:
  assumes "64 \<le> n"
  shows "\<exists>b. encodeHeader hdr (zeros n) = Some b
    \<and> p_AsyncId (Slice b e) = Some (if TreeId hdr \<noteq> 0 then push_bit 32 (ucast (TreeId hdr)) else AsyncId hdr)
    \<and> (TreeId hdr \<noteq> 0 \<longrightarrow> p_TreeId (Slice b e) = Some (TreeId hdr))"
proof -
  obtain b where b: "encodeHeader hdr (zeros n) = Some b" "length b = n"
    using encodeHeader_total [of "zeros n" hdr] assms by auto
  have i: "rd 32 8 b = (if TreeId hdr \<noteq> 0 then zeros 4 @ le_enc 4 (TreeId hdr) else le_enc 8 (AsyncId hdr))"
    using encodeHeader_ids [OF _ _ b(1)] assms by (simp add: rd_zeros)
  have t: "(le_dec (zeros 4 @ le_enc 4 (TreeId hdr)) :: u64) = push_bit 32 (ucast (TreeId hdr))"
    by (simp add: le_dec_append le_dec_enc_ucast)
  have "rd 36 4 b = drop 4 (rd 32 8 b)"
    using rd_split [of 4 8 32 b] b(2) assms by (simp add: rd_def)
  then have "TreeId hdr \<noteq> 0 \<Longrightarrow> rd 36 4 b = le_enc 4 (TreeId hdr)" using i by simp
  with b i t assms show ?thesis
    by (intro exI [of _ b]) (auto simp: codec_defs u32_in_in u64_in_in rd_def [symmetric])
qed

lemma tree_id_hides_async_id_witness:
  "\<exists>b. encodeHeader (new_header\<lparr>TreeId := 1, AsyncId := 9\<rparr>) (zeros 64) = Some b
     \<and> p_AsyncId (Slice b []) = Some 0x100000000"
  using tree_id_hides_async_id [of 64 "new_header\<lparr>TreeId := 1, AsyncId := 9\<rparr>" "[]"]
  by (auto simp: push_bit_eq_mult)

end
