(* ===== verification/Compound.thy ===== *)
theory Compound
  imports Packet
begin

section \<open>Compound requests and responses\<close>

text \<open>
  \<^verbatim>\<open>compound.go\<close> and the frame handling of \<^verbatim>\<open>conn.go\<close>: the response side collects the
  responses of a compound request in a \<^verbatim>\<open>compoundContext\<close> and lays them out at multiples
  of eight bytes; the receiving side checks that the next-command offsets of a frame walk
  over full headers (\<^verbatim>\<open>validateSMB2CompoundFrame\<close>) and cuts the frame into requests
  (the inner loop of \<^verbatim>\<open>runReciever\<close>).
\<close>

subsection \<open>compoundContext\<close>

record FileId =
  Persistent :: "byte list"
  Volatile :: "byte list"

record compoundContext =
  treeId :: u64
  sessionId :: u64
  fileId :: "FileId option"
  lastStatus :: u32
  lastMsgId :: u64
  rsp :: "byte list list"

definition isEmpty :: "compoundContext \<Rightarrow> bool" where
  "isEmpty ctx \<longleftrightarrow> length (rsp ctx) = 0"

definition addResponse :: "byte list \<Rightarrow> compoundContext \<Rightarrow> compoundContext" where
  "addResponse pkt ctx = ctx\<lparr>rsp := rsp ctx @ [pkt]\<rparr>"

text \<open>\<^verbatim>\<open>Size\<close>: every response but the last is padded to a multiple of eight.\<close>

fun rsp_size :: "byte list list \<Rightarrow> nat" where
  "rsp_size [] = 0"
| "rsp_size [p] = length p"
| "rsp_size (p # q # ps) = nat (Align (int (length p)) 8) + rsp_size (q # ps)"

definition ctx_Size :: "compoundContext \<Rightarrow> nat" where
  "ctx_Size ctx = rsp_size (rsp ctx)"

text \<open>\<^verbatim>\<open>Encode\<close>: \<^verbatim>\<open>copy(buf[off:], pkt)\<close> and \<^verbatim>\<open>off += Align(len(p), 8)\<close> for each.\<close>

fun rsp_encode :: "nat \<Rightarrow> byte list list \<Rightarrow> byte list \<Rightarrow> byte list option" where
  "rsp_encode off [] buf = Some buf"
| "rsp_encode off (p # ps) buf = do {
     buf' \<leftarrow> copy_at off p buf;
     rsp_encode (off + nat (Align (int (length p)) 8)) ps buf' }"

definition ctx_Encode :: "compoundContext \<Rightarrow> byte list \<Rightarrow> byte list option" where
  "ctx_Encode ctx buf = rsp_encode 0 (rsp ctx) buf"

text \<open>What the encoder must produce: each response followed by its padding.\<close>

definition padded :: "byte list \<Rightarrow> byte list" where
  "padded p = p @ zeros (nat (Align (int (length p)) 8) - length p)"

fun rsp_layout :: "byte list list \<Rightarrow> byte list" where
  "rsp_layout [] = []"
| "rsp_layout [p] = p"
| "rsp_layout (p # q # ps) = padded p @ rsp_layout (q # ps)"

lemma align_ge: "length p \<le> nat (Align (int (length p)) 8)"
  using Align_8_bounds(1) [of "int (length p)"] by linarith

lemma length_padded [simp]: "length (padded p) = nat (Align (int (length p)) 8)"
  using align_ge [of p] by (simp add: padded_def)

lemma length_rsp_layout [simp]: "length (rsp_layout ps) = rsp_size ps"
  by (induction ps rule: rsp_layout.induct) auto

lemma rsp_encode_layout:
  "rsp_encode (length pre) ps (pre @ zeros (rsp_size ps)) = Some (pre @ rsp_layout ps)"
proof (induction ps arbitrary: pre rule: rsp_layout.induct)
  case (2 p)
  show ?case by (simp add: copy_at_def wr_def)
next
  case (3 p q ps)
  let ?n = "nat (Align (int (length p)) 8)"
  have le: "length p \<le> ?n" by (rule align_ge)
  have "copy_at (length pre) p (pre @ zeros (?n + rsp_size (q # ps)))
        = Some ((pre @ padded p) @ zeros (rsp_size (q # ps)))"
    using le by (simp add: copy_at_def wr_def padded_def drop_zeros)
      (simp add: zeros_def flip: replicate_add)
  then show ?case
    using "3.IH" [of "pre @ padded p"] by simp
qed simp

subsection \<open>validateSMB2CompoundFrame\<close>

function validate_loop :: "nat \<Rightarrow> nat \<Rightarrow> slice \<Rightarrow> error option option" where
  "validate_loop parts maxParts cur = do {
     inv \<leftarrow> p_IsInvalid cur;
     (if inv then Some (Some (InvalidResponseError ''broken packet header format''))
      else if maxParts < Suc parts then Some (Some (InvalidResponseError ''too many compound requests''))
      else do {
        off \<leftarrow> p_NextCommand cur;
        (if off = 0 then Some None
         else if off < 64 \<or> int (len cur) - 64 < int (unat off)
         then Some (Some (InvalidResponseError ''invalid compound next-command offset''))
         else do { cur' \<leftarrow> sl_from (unat off) cur; validate_loop (Suc parts) maxParts cur' }) }) }"
  by pat_completeness auto
termination
  by (relation "measure (\<lambda>(parts, maxParts, cur). Suc maxParts - parts)") auto

declare validate_loop.simps [simp del]

definition validateSMB2CompoundFrame :: "slice \<Rightarrow> error option option" where
  "validateSMB2CompoundFrame pkt =
     (if len pkt < 64 then Some (Some (InvalidResponseError ''broken packet header format''))
      else validate_loop 0 (len pkt div 64 + 1) pkt)"

text \<open>The requests of a frame: the frame cut at the next-command offsets, as \<^verbatim>\<open>runReciever\<close> does.\<close>

function frame_parts :: "slice \<Rightarrow> slice list option" where
  "frame_parts pkt = do {
     off \<leftarrow> p_NextCommand pkt;
     (if off = 0 then Some [pkt]
      else do {
        hd_part \<leftarrow> sl_range 0 (unat off) pkt;
        nxt \<leftarrow> sl_from (unat off) pkt;
        rest \<leftarrow> frame_parts nxt;
        Some (hd_part # rest) }) }"
  by pat_completeness auto
termination
proof (relation "measure len", goal_cases)
  case (2 pkt off hd_part nxt)
  then have "0 < unat off" by (simp add: unat_gt_0)
  with 2 show ?case
    by (auto simp: sl_from_def len_def split: if_splits)
qed simp

declare frame_parts.simps [simp del]

subsection \<open>A frame that passes the check is cut without a panic\<close>

lemma NextCommand_in: "24 \<le> len p \<Longrightarrow> p_NextCommand p = Some (le_dec (rd 20 4 (vis p)))"
  by (simp add: p_NextCommand_def u32_in_in rd_def)

lemma sl_range_0: "hi \<le> len s \<Longrightarrow> sl_range 0 hi s = Some (Slice (take hi (vis s)) (drop hi (vis s) @ ext s))"
  by (simp add: sl_range_in)

text \<open>One turn of the loop on a part that holds a full header.\<close>

lemma validate_loop_step:
  assumes "64 \<le> len cur"
  shows "validate_loop parts maxParts cur =
    (let inv = the (p_IsInvalid cur); off = unat (le_dec (rd 20 4 (vis cur)) :: u32) in
     if inv then Some (Some (InvalidResponseError ''broken packet header format''))
     else if maxParts < Suc parts then Some (Some (InvalidResponseError ''too many compound requests''))
     else if off = 0 then Some None
     else if off < 64 \<or> len cur < off + 64
     then Some (Some (InvalidResponseError ''invalid compound next-command offset''))
     else validate_loop (Suc parts) maxParts (Slice (drop off (vis cur)) (ext cur)))"
proof -
  obtain inv where inv: "p_IsInvalid cur = Some inv" using p_IsInvalid_total by blast
  let ?off = "le_dec (rd 20 4 (vis cur)) :: u32"
  have off0: "?off = 0 \<longleftrightarrow> unat ?off = 0" by (simp add: unat_eq_0)
  have off64: "?off < 64 \<longleftrightarrow> unat ?off < 64" by (simp add: word_less_nat_alt)
  have off_int: "int (len cur) - 64 < uint ?off \<longleftrightarrow> len cur < unat ?off + 64"
    unfolding uint_nat by linarith
  show ?thesis
    using assms
    by (subst validate_loop.simps)
      (auto simp: inv NextCommand_in Let_def off0 off64 off_int sl_from_in)
qed

lemma validate_loop_total:
  assumes "64 \<le> len cur"
  shows "validate_loop parts maxParts cur \<noteq> None"
  using assms
proof (induction "len cur" arbitrary: parts cur rule: less_induct)
  case less
  let ?off = "unat (le_dec (rd 20 4 (vis cur)) :: u32)"
  show ?case
  proof (cases "?off = 0 \<or> ?off < 64 \<or> len cur < ?off + 64")
    case True
    then show ?thesis using less.prems by (auto simp: validate_loop_step Let_def)
  next
    case False
    then show ?thesis
      using less.prems less.hyps [of "Slice (drop ?off (vis cur)) (ext cur)" "Suc parts"]
      by (auto simp: validate_loop_step [OF less.prems] Let_def len_def)
  qed
qed

lemma frame_parts_step:
  assumes "64 \<le> len cur"
  defines "off \<equiv> unat (le_dec (rd 20 4 (vis cur)) :: u32)"
  assumes "off \<noteq> 0" "off \<le> len cur"
  shows "frame_parts cur = do {
    rest \<leftarrow> frame_parts (Slice (drop off (vis cur)) (ext cur));
    Some (Slice (take off (vis cur)) (drop off (vis cur) @ ext cur) # rest) }"
  using assms
  by (subst frame_parts.simps) (auto simp: NextCommand_in sl_range_0 sl_from_in unat_eq_0)

lemma frame_parts_last:
  "64 \<le> len cur \<Longrightarrow> le_dec (rd 20 4 (vis cur)) = (0 :: u32) \<Longrightarrow> frame_parts cur = Some [cur]"
  by (subst frame_parts.simps) (simp add: NextCommand_in)

lemma validated_frame_parts:
  assumes "validate_loop parts maxParts cur = Some None" "64 \<le> len cur"
  shows "\<exists>ps. frame_parts cur = Some ps \<and> concat (map vis ps) = vis cur \<and> (\<forall>p \<in> set ps. 64 \<le> len p)"
  using assms
proof (induction "len cur" arbitrary: parts cur rule: less_induct)
  case less
  let ?off = "unat (le_dec (rd 20 4 (vis cur)) :: u32)"
  let ?rest = "Slice (drop ?off (vis cur)) (ext cur)"
  show ?case
  proof (cases "?off = 0")
    case True
    then have "le_dec (rd 20 4 (vis cur)) = (0 :: u32)" by (simp add: unat_eq_0)
    with less.prems show ?thesis by (simp add: frame_parts_last)
  next
    case False
    with less.prems have off: "64 \<le> ?off" "?off + 64 \<le> len cur"
      and valid: "validate_loop (Suc parts) maxParts ?rest = Some None"
      by (auto simp: validate_loop_step [OF less.prems(2)] Let_def split: if_splits)
    have "len ?rest + ?off = len cur" using off by (simp add: len_def)
    with off have "len ?rest < len cur" "64 \<le> len ?rest" by linarith+
    from less.hyps [OF this(1) valid this(2)] obtain ps where ps: "frame_parts ?rest = Some ps"
      "concat (map vis ps) = drop ?off (vis cur)" "\<forall>p \<in> set ps. 64 \<le> len p"
      by auto
    have "frame_parts cur = Some (Slice (take ?off (vis cur)) (drop ?off (vis cur) @ ext cur) # ps)"
      using off False less.prems(2) ps(1) by (simp add: frame_parts_step)
    with ps off show ?thesis by (auto simp: len_def)
  qed
qed

text \<open>Every part holds a header, so the bound on the number of parts is never reached.\<close>

lemma validate_loop_bound:
  assumes "64 \<le> len cur" "64 * parts + len cur < 64 * maxParts"
  shows "validate_loop parts maxParts cur \<noteq> Some (Some (InvalidResponseError ''too many compound requests''))"
  using assms
proof (induction "len cur" arbitrary: parts cur rule: less_induct)
  case less
  let ?off = "unat (le_dec (rd 20 4 (vis cur)) :: u32)"
  show ?case
  proof (cases "?off = 0 \<or> ?off < 64 \<or> len cur < ?off + 64")
    case True
    then show ?thesis using less.prems by (auto simp: validate_loop_step Let_def)
  next
    case False
    define rest where "rest = Slice (drop ?off (vis cur)) (ext cur)"
    define k where "k = ?off"
    from False have k: "len rest + k = len cur" "64 \<le> k" "k + 64 \<le> len cur"
      by (auto simp: rest_def k_def len_def)
    have "len rest < len cur" "64 \<le> len rest" using k by linarith+
    moreover have "64 * Suc parts + len rest < 64 * maxParts" using k less.prems(2) by (simp only: mult_Suc_right)
    ultimately have "validate_loop (Suc parts) maxParts rest
        \<noteq> Some (Some (InvalidResponseError ''too many compound requests''))"
      by (rule less.hyps)
    then show ?thesis
      using less.prems by (auto simp: validate_loop_step [OF less.prems(1)] Let_def rest_def)
  qed
qed

subsection \<open>Responses chained by their next-command offsets\<close>

text \<open>
  \<open>chained\<close> says what \<^verbatim>\<open>sendPacket\<close> establishes for the responses of a compound: all but
  the last name the aligned length of their packet as the next-command offset.
\<close>

definition names_next :: "byte list \<Rightarrow> bool" where
  "names_next r \<longleftrightarrow> 64 \<le> length r \<and> nat (Align (int (length r)) 8) < 2 ^ 32
     \<and> rd 20 4 r = le_enc 4 (of_nat (nat (Align (int (length r)) 8)) :: u32)"

definition names_none :: "byte list \<Rightarrow> bool" where
  "names_none r \<longleftrightarrow> 64 \<le> length r \<and> rd 20 4 r = zeros 4"

fun chained :: "byte list list \<Rightarrow> bool" where
  "chained [] = False"
| "chained [r] = names_none r"
| "chained (r # q # rs) = (names_next r \<and> chained (q # rs))"

fun padded_all :: "byte list list \<Rightarrow> byte list list" where
  "padded_all [] = []"
| "padded_all [r] = [r]"
| "padded_all (r # q # rs) = padded r # padded_all (q # rs)"

lemma names_next_off:
  assumes "names_next r"
  shows "unat (le_dec (rd 20 4 r) :: u32) = nat (Align (int (length r)) 8)"
  using assms by (simp add: names_next_def unat_of_nat)

lemma rd_append: "a + n \<le> length xs \<Longrightarrow> rd a n (xs @ ys) = rd a n xs"
  by (simp add: rd_def)

lemma frame_parts_layout:
  "chained rs \<Longrightarrow> \<exists>ps. frame_parts (Slice (rsp_layout rs) e) = Some ps \<and> map vis ps = padded_all rs"
proof (induction rs rule: chained.induct)
  case (2 r)
  then show ?case by (simp add: frame_parts_last names_none_def)
next
  case (3 r q rs)
  let ?n = "nat (Align (int (length r)) 8)" and ?rest = "rsp_layout (q # rs)"
  let ?cur = "Slice (padded r @ ?rest) e"
  from "3.prems" have r: "names_next r" "64 \<le> length r" and "chained (q # rs)"
    by (auto simp: names_next_def)
  with "3.IH" obtain ps where ps: "frame_parts (Slice ?rest e) = Some ps"
    "map vis ps = padded_all (q # rs)" by blast
  have "rd 20 4 (padded r @ ?rest) = rd 20 4 r"
    using r(2) by (simp add: padded_def rd_append)
  then have off: "unat (le_dec (rd 20 4 (vis ?cur)) :: u32) = ?n"
    using names_next_off [OF r(1)] by simp
  have "frame_parts ?cur = Some (Slice (padded r) (?rest @ e) # ps)"
    using frame_parts_step [of ?cur] ps(1) off r(2) align_ge [of r] by simp
  with ps(2) show ?case by simp
qed simp


subsection \<open>Properties\<close>


definition two_part_frame :: "byte list" where
  "two_part_frame = wrs [(0, MAGIC), (4, le_enc 2 (64 :: u16)), (20, le_enc 4 (64 :: u32)),
     (64, MAGIC), (68, le_enc 2 (64 :: u16))] (zeros 128)"


text \<open>
  C6. The responses of a compound, laid out by \<^verbatim>\<open>Encode\<close> in a buffer of \<^verbatim>\<open>Size\<close> bytes, each
  naming the aligned length of its packet, come apart again: cutting the encoded buffer by its
  next-command offsets gives the responses in order, each with its padding.
\<close>

theorem compound_encode_cut:
  assumes "chained (rsp ctx)"
  shows "\<exists>b ps. ctx_Encode ctx (zeros (ctx_Size ctx)) = Some b \<and> length b = ctx_Size ctx
    \<and> frame_parts (Slice b e) = Some ps \<and> map vis ps = padded_all (rsp ctx)"
  using rsp_encode_layout [of "[]" "rsp ctx"] frame_parts_layout [OF assms, of e]
  by (auto simp: ctx_Encode_def ctx_Size_def)

lemma compound_encode_cut_witness:
  "let r = wrs [(20, le_enc 4 (72 :: u32))] (zeros 65);
       ctx = \<lparr>treeId = 0, sessionId = 0, fileId = None, lastStatus = 0, lastMsgId = 2, rsp = [r, zeros 64]\<rparr>
   in \<exists>b ps. ctx_Encode ctx (zeros 136) = Some b \<and> frame_parts (Slice b []) = Some ps
      \<and> map vis ps = [r @ zeros 7, zeros 64]"
proof -
  let ?r = "wrs [(20, le_enc 4 (72 :: u32))] (zeros 65)"
  let ?ctx = "\<lparr>treeId = 0, sessionId = 0, fileId = None, lastStatus = 0, lastMsgId = 2, rsp = [?r, zeros 64]\<rparr>"
  have l: "length ?r = 65" by (simp add: length_wr)
  have "chained (rsp ?ctx)"
    using l by (simp add: names_next_def names_none_def Align_8 rd_wr_same rd_zeros)
  from compound_encode_cut [OF this, of "[]"] l show ?thesis
    by (auto simp: Let_def ctx_Size_def padded_def Align_8)
qed

end
