(* ===== verification/Security.thy ===== *)
theory Security
  imports Go_Slices "HOL-Library.Signed_Division"
begin

section \<open>File times, SIDs, access control lists and security descriptors\<close>

text \<open>
  \<^verbatim>\<open>smb/internal/smb2/dtyp.go\<close> (file times, the \<^verbatim>\<open>Sid\<close> record and \<^verbatim>\<open>SidDecoder\<close>) and
  \<^verbatim>\<open>smb/server/acl.go\<close> (the server's own \<^verbatim>\<open>SID\<close>, ACE, ACL and security descriptor, with
  their decoders).  An encoder is given the buffer and the offset of the slice it writes
  to; the callers allocate \<^verbatim>\<open>Size()\<close> bytes.
\<close>

subsection \<open>Filetime\<close>

record Filetime =
  LowDateTime :: u32
  HighDateTime :: u32

definition Filetime_Encode :: "nat \<Rightarrow> Filetime \<Rightarrow> byte list \<Rightarrow> byte list option" where
  "Filetime_Encode off ft p = puts [(off, le_enc 4 (LowDateTime ft)), (off + 4, le_enc 4 (HighDateTime ft))] p"

text \<open>The \<^verbatim>\<open>int64\<close> arithmetic wraps, so it is done on 64-bit words.\<close>

definition Nanoseconds :: "Filetime \<Rightarrow> u64" where
  "Nanoseconds ft =
     (let nsec = push_bit 32 (ucast (HighDateTime ft)) + ucast (LowDateTime ft) in
      if nsec = 0 then 0 else (nsec - 116444736000000000) * 100)"

definition NsecToFiletime :: "u64 \<Rightarrow> Filetime" where
  "NsecToFiletime nsec =
     (let nsec = word_of_int (sint nsec sdiv 100) + (116444736000000000 :: u64) in
      \<lparr>LowDateTime = ucast (nsec AND 0xffffffff),
       HighDateTime = ucast (signed_drop_bit 32 nsec AND 0xffffffff)\<rparr>)"

definition FiletimeDecoder_Decode :: "slice \<Rightarrow> Filetime option" where
  "FiletimeDecoder_Decode ft = do {
     lo \<leftarrow> u32_in 0 4 ft; hi \<leftarrow> u32_in 4 8 ft;
     Some \<lparr>LowDateTime = lo, HighDateTime = hi\<rparr> }"

subsection \<open>Sid and SidDecoder (dtyp.go)\<close>

record Sid =
  Revision :: byte
  IdentifierAuthority :: u64
  SubAuthority :: "u32 list"

definition Sid_Size :: "Sid \<Rightarrow> nat" where
  "Sid_Size sid = 8 + length (SubAuthority sid) * 4"

fun sub_fields :: "nat \<Rightarrow> u32 list \<Rightarrow> fields" where
  "sub_fields off [] = []"
| "sub_fields off (u # us) = (off, le_enc 4 u) # sub_fields (off + 4) us"

definition Sid_Encode :: "nat \<Rightarrow> Sid \<Rightarrow> byte list \<Rightarrow> byte list option" where
  "Sid_Encode off sid p = puts
     ([(off, [Revision sid]), (off + 1, [of_nat (length (SubAuthority sid))])]
      @ map (\<lambda>j. (off + 2 + j, [ucast (drop_bit (8 * (6 - j)) (IdentifierAuthority sid))])) [0..<6]
      @ sub_fields (off + 8) (SubAuthority sid)) p"

definition SidDecoder_SubAuthorityCount :: "slice \<Rightarrow> byte option" where
  "SidDecoder_SubAuthorityCount c = sl_at 1 c"

definition SidDecoder_IsInvalid :: "slice \<Rightarrow> bool option" where
  "SidDecoder_IsInvalid c =
     (if len c < 8 then Some True
      else do { n \<leftarrow> SidDecoder_SubAuthorityCount c; Some (len c < 8 + unat n * 4) })"

definition SidDecoder_Revision :: "slice \<Rightarrow> byte option" where
  "SidDecoder_Revision c = sl_at 0 c"

function auth_loop :: "nat \<Rightarrow> u64 \<Rightarrow> slice \<Rightarrow> u64 option" where
  "auth_loop j u c =
     (if j < 6 then do { b \<leftarrow> sl_at (7 - j) c; auth_loop (Suc j) (u + push_bit (8 * j) (ucast b)) c }
      else Some u)"
  by pat_completeness auto
termination by (relation "measure (\<lambda>(j, u, c). 6 - j)") auto

declare auth_loop.simps [simp del]

definition SidDecoder_IdentifierAuthority :: "slice \<Rightarrow> u64 option" where
  "SidDecoder_IdentifierAuthority c = auth_loop 0 0 c"

fun sub_loop :: "nat \<Rightarrow> nat \<Rightarrow> slice \<Rightarrow> u32 list option" where
  "sub_loop 0 off c = Some []"
| "sub_loop (Suc k) off c = do {
     a \<leftarrow> u32_in off (off + 4) c;
     as \<leftarrow> sub_loop k (off + 4) c;
     Some (a # as) }"

definition SidDecoder_SubAuthority :: "slice \<Rightarrow> u32 list option" where
  "SidDecoder_SubAuthority c = do {
     count \<leftarrow> SidDecoder_SubAuthorityCount c;
     sub_loop (unat count) 8 c }"

definition SidDecoder_Decode :: "slice \<Rightarrow> Sid option" where
  "SidDecoder_Decode c = do {
     r \<leftarrow> SidDecoder_Revision c;
     a \<leftarrow> SidDecoder_IdentifierAuthority c;
     s \<leftarrow> SidDecoder_SubAuthority c;
     Some \<lparr>Revision = r, IdentifierAuthority = a, SubAuthority = s\<rparr> }"

subsection \<open>SID, ACE, ACL and SecurityDescriptor (acl.go)\<close>

type_synonym authority = "byte list"

definition WORLD_SID_AUTHORITY :: authority where "WORLD_SID_AUTHORITY = [0, 0, 0, 0, 0, 1]"
definition SECURITY_NT_AUTHORITY :: authority where "SECURITY_NT_AUTHORITY = [0, 0, 0, 0, 0, 5]"
definition MANDATORY_LABEL_AUTHORITY :: authority where "MANDATORY_LABEL_AUTHORITY = [0, 0, 0, 0, 0, 0x10]"
definition POSIX_SID_AUTHORITY :: authority where "POSIX_SID_AUTHORITY = [0, 0, 0, 0, 0, 0x16]"

record SID =
  Authority :: authority
  Subs :: "u32 list"

definition SIDFromUid :: "u32 \<Rightarrow> SID" where
  "SIDFromUid uid = \<lparr>Authority = SECURITY_NT_AUTHORITY, Subs = [88, 1, uid]\<rparr>"

definition SIDFromGid :: "u32 \<Rightarrow> SID" where
  "SIDFromGid gid = \<lparr>Authority = SECURITY_NT_AUTHORITY, Subs = [88, 2, gid]\<rparr>"

definition PosixSIDFromUid :: "u32 \<Rightarrow> SID" where
  "PosixSIDFromUid uid = \<lparr>Authority = POSIX_SID_AUTHORITY, Subs = [1, uid]\<rparr>"

definition PosixSIDFromGid :: "u32 \<Rightarrow> SID" where
  "PosixSIDFromGid gid = \<lparr>Authority = POSIX_SID_AUTHORITY, Subs = [2, gid]\<rparr>"

definition SIDFromMode :: "u32 \<Rightarrow> SID" where
  "SIDFromMode mode = \<lparr>Authority = SECURITY_NT_AUTHORITY, Subs = [88, 3, mode]\<rparr>"

definition SID_Size :: "SID \<Rightarrow> nat" where
  "SID_Size s = 8 + length (Subs s) * 4"

definition SID_Encode :: "nat \<Rightarrow> SID \<Rightarrow> byte list \<Rightarrow> byte list option" where
  "SID_Encode off s b = do {
     b \<leftarrow> puts [(off, [1]), (off + 1, [of_nat (length (Subs s))])] b;
     b \<leftarrow> copy_at (off + 2) (Authority s) b;
     puts (sub_fields (off + 8) (Subs s)) b }"

record ACE =
  AceSid :: SID
  AceType :: byte
  AceMask :: u32

definition ACE_Size :: "ACE \<Rightarrow> nat" where
  "ACE_Size a = 8 + SID_Size (AceSid a)"

definition ACE_Encode :: "nat \<Rightarrow> ACE \<Rightarrow> byte list \<Rightarrow> byte list option" where
  "ACE_Encode off a b = do {
     b \<leftarrow> puts [(off, [AceType a]), (off + 1, [0]), (off + 2, le_enc 2 (of_nat (ACE_Size a) :: u16)),
                (off + 4, le_enc 4 (AceMask a))] b;
     SID_Encode (off + 8) (AceSid a) b }"

type_synonym ACL = "ACE list"

definition ACL_REVISION :: byte where "ACL_REVISION = 2"

definition ACL_Size :: "ACL \<Rightarrow> nat" where
  "ACL_Size a = 8 + sum_list (map ACE_Size a)"

fun aces_encode :: "nat \<Rightarrow> ACE list \<Rightarrow> byte list \<Rightarrow> byte list option" where
  "aces_encode off [] b = Some b"
| "aces_encode off (a # as) b = do {
     b \<leftarrow> ACE_Encode off a b;
     aces_encode (off + ACE_Size a) as b }"

definition ACL_Encode :: "nat \<Rightarrow> ACL \<Rightarrow> byte list \<Rightarrow> byte list option" where
  "ACL_Encode off a b = do {
     b \<leftarrow> puts [(off, [ACL_REVISION]), (off + 2, le_enc 2 (of_nat (ACL_Size a) :: u16)),
                (off + 4, le_enc 2 (of_nat (length a) :: u16))] b;
     aces_encode (off + 8) a b }"

record SecurityDescriptor =
  OwnerSid :: "SID option"
  GroupSid :: "SID option"
  Sacl :: "ACL option"
  Dacl :: "ACL option"

definition opt_size :: "('a \<Rightarrow> nat) \<Rightarrow> 'a option \<Rightarrow> nat" where
  "opt_size f x = (case x of None \<Rightarrow> 0 | Some y \<Rightarrow> f y)"

definition SD_Size :: "SecurityDescriptor \<Rightarrow> nat" where
  "SD_Size d = nat (Align (int (20 + opt_size SID_Size (OwnerSid d) + opt_size SID_Size (GroupSid d)
     + opt_size ACL_Size (Sacl d) + opt_size ACL_Size (Dacl d))) 8)"

definition SD_control :: "SecurityDescriptor \<Rightarrow> u16" where
  "SD_control d = (push_bit 15 1
     OR (if Sacl d = None then 0 else push_bit 4 1)) OR (if Dacl d = None then 0 else push_bit 2 1)"

text \<open>One optional part: its offset is stored at \<open>slot\<close>, the part is encoded at \<open>off\<close>.\<close>

definition sd_part ::
    "nat \<Rightarrow> ('a \<Rightarrow> nat) \<Rightarrow> (nat \<Rightarrow> 'a \<Rightarrow> byte list \<Rightarrow> byte list option) \<Rightarrow> 'a option
     \<Rightarrow> nat \<times> byte list \<Rightarrow> (nat \<times> byte list) option" where
  "sd_part slot sz enc x st = (case st of (off, b) \<Rightarrow>
     (case x of
       None \<Rightarrow> Some (off, b)
     | Some y \<Rightarrow> do {
         b \<leftarrow> put32 slot (of_nat off) b;
         b \<leftarrow> enc off y b;
         Some (off + sz y, b) }))"

definition SD_Encode :: "SecurityDescriptor \<Rightarrow> byte list \<Rightarrow> byte list option" where
  "SD_Encode d b = do {
     b \<leftarrow> puts [(0, [1]), (2, le_enc 2 (SD_control d))] b;
     st \<leftarrow> sd_part 4 SID_Size SID_Encode (OwnerSid d) (20, b);
     st \<leftarrow> sd_part 8 SID_Size SID_Encode (GroupSid d) st;
     st \<leftarrow> sd_part 12 ACL_Size ACL_Encode (Sacl d) st;
     st \<leftarrow> sd_part 16 ACL_Size ACL_Encode (Dacl d) st;
     Some (snd st) }"

text \<open>\<^verbatim>\<open>UnixModeToAceMask\<close>: the access rights of one \<^verbatim>\<open>rwx\<close> triple.\<close>

definition UnixModeToAceMask :: "byte \<Rightarrow> u32" where
  "UnixModeToAceMask mode =
     (let m0 = 0;
          m1 = (if mode AND 1 \<noteq> 0 then m0 OR 0x20 OR 0x80 OR 0x100000 OR 0x20000 else m0);
          m2 = (if mode AND 2 \<noteq> 0
                then m1 OR 0x2 OR 0x100 OR 0x10 OR 0x40000 OR 0x10000 OR 0x20000 else m1)
      in if mode AND 4 \<noteq> 0 then m2 OR 0x1 OR 0x80 OR 0x8 OR 0x20000 else m2)"

subsection \<open>Decoders of acl.go\<close>

definition sd_component :: "nat \<Rightarrow> slice \<Rightarrow> slice option option" where
  "sd_component slot sd = do {
     off \<leftarrow> u32_from slot sd;
     (if off = 0 then Some None else do { r \<leftarrow> sl_from (unat off) sd; Some (Some r) }) }"

definition SecurityDescriptorDecoder_OwnerSid :: "slice \<Rightarrow> slice option option" where
  "SecurityDescriptorDecoder_OwnerSid sd = sd_component 4 sd"

definition SecurityDescriptorDecoder_GroupSid :: "slice \<Rightarrow> slice option option" where
  "SecurityDescriptorDecoder_GroupSid sd = sd_component 8 sd"

definition SecurityDescriptorDecoder_Sacl :: "slice \<Rightarrow> slice option option" where
  "SecurityDescriptorDecoder_Sacl sd = sd_component 12 sd"

definition SecurityDescriptorDecoder_Dacl :: "slice \<Rightarrow> slice option option" where
  "SecurityDescriptorDecoder_Dacl sd = sd_component 16 sd"

definition AclDecoder_AceCount :: "slice \<Rightarrow> u16 option" where
  "AclDecoder_AceCount a = u16_from 4 a"

definition AclDecoder_Aces :: "slice \<Rightarrow> slice option" where
  "AclDecoder_Aces a = sl_from 8 a"

definition AceDecoder_Type :: "slice \<Rightarrow> byte option" where
  "AceDecoder_Type a = sl_at 0 a"

definition AceDecoder_Size :: "slice \<Rightarrow> u16 option" where
  "AceDecoder_Size a = u16_from 2 a"

definition AceDecoder_Mask :: "slice \<Rightarrow> u32 option" where
  "AceDecoder_Mask a = u32_from 4 a"

definition AceDecoder_Sid :: "slice \<Rightarrow> slice option" where
  "AceDecoder_Sid a = sl_from 8 a"


subsection \<open>What the encoders store\<close>

definition sub_bytes :: "u32 list \<Rightarrow> byte list" where
  "sub_bytes us = concat (map (le_enc 4) us)"

definition sid_bytes :: "SID \<Rightarrow> byte list" where
  "sid_bytes s = [1, of_nat (length (Subs s))] @ Authority s @ sub_bytes (Subs s)"

definition ace_bytes :: "ACE \<Rightarrow> byte list" where
  "ace_bytes a = [AceType a, 0] @ le_enc 2 (of_nat (ACE_Size a) :: u16) @ le_enc 4 (AceMask a)
     @ sid_bytes (AceSid a)"

definition sid_ok :: "SID \<Rightarrow> bool" where
  "sid_ok s \<longleftrightarrow> length (Authority s) = 6"

lemma length_sub_bytes [simp]: "length (sub_bytes us) = 4 * length us"
  by (induction us) (auto simp: sub_bytes_def)

lemma length_sid_bytes [simp]: "sid_ok s \<Longrightarrow> length (sid_bytes s) = SID_Size s"
  by (simp add: sid_bytes_def sid_ok_def SID_Size_def)

lemma length_ace_bytes [simp]: "sid_ok (AceSid a) \<Longrightarrow> length (ace_bytes a) = ACE_Size a"
  by (simp add: ace_bytes_def ACE_Size_def)

lemma fits_sub_fields: "fits n (sub_fields off us) \<longleftrightarrow> us = [] \<or> off + 4 * length us \<le> n"
  by (induction off us rule: sub_fields.induct) auto

lemma wrs_sub_fields:
  "off + length xs + 4 * length us \<le> length b \<Longrightarrow>
   wrs (sub_fields (off + length xs) us) (wr off xs b) = wr off (xs @ sub_bytes us) b"
proof (induction us arbitrary: xs)
  case (Cons u us)
  from Cons.prems Cons.IH [of "xs @ le_enc 4 u"]
  have "wrs (sub_fields (off + length (xs @ le_enc 4 u)) us) (wr off (xs @ le_enc 4 u) b)
    = wr off ((xs @ le_enc 4 u) @ sub_bytes us) b" by simp
  with Cons.prems wr_adjacent [of off xs "le_enc 4 u" b] show ?case
    by (simp add: sub_bytes_def add.assoc)
qed (simp add: sub_bytes_def)

lemma SID_Encode_wr:
  assumes "sid_ok s" "off + SID_Size s \<le> length b"
  shows "SID_Encode off s b = Some (wr off (sid_bytes s) b)"
proof -
  let ?n = "of_nat (length (Subs s)) :: byte"
  have len: "off + 8 + 4 * length (Subs s) \<le> length b" "length (Authority s) = 6"
    using assms by (auto simp: SID_Size_def sid_ok_def)
  have 1: "wr (off + 1) [?n] (wr off [1] b) = wr off [1, ?n] b"
    using wr_adjacent [of off "[1]" "[?n]" b] len by simp
  have 2: "wr (off + 2) (Authority s) (wr off [1, ?n] b) = wr off ([1, ?n] @ Authority s) b"
    using wr_adjacent [of off "[1, ?n]" "Authority s" b] len by simp
  have "puts [(off, [1]), (off + 1, [?n])] b = Some (wr off [1, ?n] b)"
    using len 1 by (simp add: put_in length_wr)
  moreover have "copy_at (off + 2) (Authority s) (wr off [1, ?n] b)
      = Some (wr off ([1, ?n] @ Authority s) b)"
    using len 2 by (simp add: copy_at_in length_wr)
  moreover have "puts (sub_fields (off + 8) (Subs s)) (wr off ([1, ?n] @ Authority s) b)
      = Some (wr off (sid_bytes s) b)"
    using wrs_sub_fields [of off "[1, ?n] @ Authority s" "Subs s" b] len
    by (simp add: puts_wrs fits_sub_fields length_wr sid_bytes_def add.commute)
  ultimately show ?thesis by (simp add: SID_Encode_def)
qed


lemma ACE_Encode_wr:
  assumes "sid_ok (AceSid a)" "off + ACE_Size a \<le> length b"
  shows "ACE_Encode off a b = Some (wr off (ace_bytes a) b)"
proof -
  let ?sz = "le_enc 2 (of_nat (ACE_Size a) :: u16)" and ?m = "le_enc 4 (AceMask a)"
  have len: "off + 8 + SID_Size (AceSid a) \<le> length b" "8 \<le> SID_Size (AceSid a)"
    using assms by (auto simp: ACE_Size_def SID_Size_def)
  have 1: "wr (off + 1) [0] (wr off [AceType a] b) = wr off [AceType a, 0] b"
    using wr_adjacent [of off "[AceType a]" "[0]" b] len by simp
  have 2: "wr (off + 2) ?sz (wr off [AceType a, 0] b) = wr off ([AceType a, 0] @ ?sz) b"
    using wr_adjacent [of off "[AceType a, 0]" ?sz b] len by simp
  have 3: "wr (off + 4) ?m (wr off ([AceType a, 0] @ ?sz) b) = wr off ([AceType a, 0] @ ?sz @ ?m) b"
    using wr_adjacent [of off "[AceType a, 0] @ ?sz" ?m b] len by simp
  have 4: "wr (off + 8) (sid_bytes (AceSid a)) (wr off ([AceType a, 0] @ ?sz @ ?m) b) = wr off (ace_bytes a) b"
    using wr_adjacent [of off "[AceType a, 0] @ ?sz @ ?m" "sid_bytes (AceSid a)" b] len assms(1)
    by (simp add: ace_bytes_def)
  have "puts [(off, [AceType a]), (off + 1, [0]), (off + 2, ?sz), (off + 4, ?m)] b
      = Some (wr off ([AceType a, 0] @ ?sz @ ?m) b)"
    using len 1 2 3 by (simp add: put_in length_wr)
  then show ?thesis
    using SID_Encode_wr [OF assms(1), of "off + 8"] len 4 by (simp add: ACE_Encode_def length_wr)
qed

definition aces_bytes :: "ACL \<Rightarrow> byte list" where
  "aces_bytes a = concat (map ace_bytes a)"

definition acl_bytes :: "ACL \<Rightarrow> byte list" where
  "acl_bytes a = [ACL_REVISION] @ [0] @ le_enc 2 (of_nat (ACL_Size a) :: u16)
     @ le_enc 2 (of_nat (length a) :: u16) @ [0, 0] @ aces_bytes a"

definition acl_ok :: "ACL \<Rightarrow> bool" where
  "acl_ok a = list_all (\<lambda>x. sid_ok (AceSid x)) a"

lemma length_aces_bytes [simp]: "acl_ok a \<Longrightarrow> length (aces_bytes a) = sum_list (map ACE_Size a)"
  by (induction a) (auto simp: aces_bytes_def acl_ok_def)

lemma length_acl_bytes [simp]: "acl_ok a \<Longrightarrow> length (acl_bytes a) = ACL_Size a"
  by (simp add: acl_bytes_def ACL_Size_def)

lemma aces_encode_wr:
  "acl_ok as \<Longrightarrow> off + length xs + sum_list (map ACE_Size as) \<le> length b \<Longrightarrow>
   aces_encode (off + length xs) as (wr off xs b) = Some (wr off (xs @ aces_bytes as) b)"
proof (induction as arbitrary: xs)
  case (Cons a as)
  then have ok: "sid_ok (AceSid a)" "acl_ok as" and
    len: "off + length xs + ACE_Size a + sum_list (map ACE_Size as) \<le> length b"
    by (auto simp: acl_ok_def)
  from Cons.IH [of "xs @ ace_bytes a"] ok len
  have "aces_encode (off + length (xs @ ace_bytes a)) as (wr off (xs @ ace_bytes a) b)
    = Some (wr off ((xs @ ace_bytes a) @ aces_bytes as) b)" by simp
  with ok len wr_adjacent [of off xs "ace_bytes a" b] show ?case
    by (simp add: aces_bytes_def ACE_Encode_wr length_wr add.assoc)
qed (simp add: aces_bytes_def)

text \<open>
  The reserved bytes 1, 6 and 7 of an ACL are not stored: they keep what the buffer held,
  zero in a fresh one.
\<close>

lemma ACL_Encode_wr:
  assumes ok: "acl_ok a" and len: "off + ACL_Size a \<le> length b"
    and blank: "rd (off + 1) 1 b = [0]" "rd (off + 6) 2 b = [0, 0]"
  shows "ACL_Encode off a b = Some (wr off (acl_bytes a) b)"
proof -
  let ?sz = "le_enc 2 (of_nat (ACL_Size a) :: u16)" and ?n = "le_enc 2 (of_nat (length a) :: u16)"
  let ?h = "[ACL_REVISION] @ [0] @ ?sz @ ?n @ [0, 0]"
  have l: "off + 8 + sum_list (map ACE_Size a) \<le> length b" using len by (simp add: ACL_Size_def)
  let ?b1 = "wr off [ACL_REVISION] b"
  have b1: "wr (off + 1) [0] ?b1 = ?b1"
    by (rule wr_gap) (use l blank(1) in \<open>auto simp: rd_wr_after length_wr\<close>)
  have 1: "?b1 = wr off [ACL_REVISION, 0] b"
    using wr_adjacent [of off "[ACL_REVISION]" "[0]" b] l b1 by simp
  have 2: "wr (off + 2) ?sz (wr off [ACL_REVISION, 0] b) = wr off ([ACL_REVISION, 0] @ ?sz) b"
    using wr_adjacent [of off "[ACL_REVISION, 0]" ?sz b] l by simp
  have 3: "wr (off + 4) ?n (wr off ([ACL_REVISION, 0] @ ?sz) b) = wr off ([ACL_REVISION, 0] @ ?sz @ ?n) b"
    using wr_adjacent [of off "[ACL_REVISION, 0] @ ?sz" ?n b] l by simp
  let ?b3 = "wr off ([ACL_REVISION, 0] @ ?sz @ ?n) b"
  have b3: "wr (off + 6) [0, 0] ?b3 = ?b3"
    by (rule wr_gap) (use l blank(2) in \<open>auto simp: rd_wr_after length_wr numeral_2_eq_2\<close>)
  have 4: "?b3 = wr off ?h b"
    using wr_adjacent [of off "[ACL_REVISION, 0] @ ?sz @ ?n" "[0, 0]" b] l b3 by simp
  have "puts [(off, [ACL_REVISION]), (off + 2, ?sz), (off + 4, ?n)] b = Some (wr off ?h b)"
    using l 1 2 3 4 by (simp add: put_in length_wr)
  moreover have "aces_encode (off + 8) a (wr off ?h b) = Some (wr off (acl_bytes a) b)"
    using aces_encode_wr [OF ok, of off ?h b] l by (simp add: acl_bytes_def)
  ultimately show ?thesis by (simp add: ACL_Encode_def)
qed


subsection \<open>A security descriptor and its components\<close>

definition sd_ok :: "SecurityDescriptor \<Rightarrow> bool" where
  "sd_ok d \<longleftrightarrow> pred_option sid_ok (OwnerSid d) \<and> pred_option sid_ok (GroupSid d)
     \<and> pred_option acl_ok (Sacl d) \<and> pred_option acl_ok (Dacl d) \<and> SD_Size d < 2 ^ 32"

text \<open>The offsets of the four components.\<close>

definition sd_offsets :: "SecurityDescriptor \<Rightarrow> nat \<times> nat \<times> nat \<times> nat" where
  "sd_offsets d =
     (let g = 20 + opt_size SID_Size (OwnerSid d); s = g + opt_size SID_Size (GroupSid d) in
      (20, g, s, s + opt_size ACL_Size (Sacl d)))"

definition opt_field :: "nat \<Rightarrow> nat \<Rightarrow> ('a \<Rightarrow> byte list) \<Rightarrow> 'a option \<Rightarrow> fields" where
  "opt_field slot off f x =
     (case x of None \<Rightarrow> [] | Some y \<Rightarrow> [(slot, le_enc 4 (of_nat off :: u32)), (off, f y)])"

definition sd_fields :: "SecurityDescriptor \<Rightarrow> fields" where
  "sd_fields d = (case sd_offsets d of (o1, o2, o3, o4) \<Rightarrow>
     [(0, [1]), (2, le_enc 2 (SD_control d))]
     @ opt_field 4 o1 sid_bytes (OwnerSid d) @ opt_field 8 o2 sid_bytes (GroupSid d)
     @ opt_field 12 o3 acl_bytes (Sacl d) @ opt_field 16 o4 acl_bytes (Dacl d))"

lemma sd_total: "20 + opt_size SID_Size (OwnerSid d) + opt_size SID_Size (GroupSid d)
     + opt_size ACL_Size (Sacl d) + opt_size ACL_Size (Dacl d) \<le> SD_Size d"
  unfolding SD_Size_def using Align_8_bounds(1) by (metis nat_int nat_mono)

text \<open>A part that is written where the buffer is still blank.\<close>

lemma sd_part_sid:
  assumes "pred_option sid_ok x" "slot + 4 \<le> 20" "20 \<le> off"
    "off + opt_size SID_Size x \<le> length b"
  shows "sd_part slot SID_Size SID_Encode x (off, b)
    = Some (off + opt_size SID_Size x, wrs (opt_field slot off sid_bytes x) b)"
  using assms
  by (cases x) (auto simp: sd_part_def opt_size_def opt_field_def put_in SID_Encode_wr length_wr)

lemma sd_part_acl:
  assumes "pred_option acl_ok x" "slot + 4 \<le> 20" "20 \<le> off"
    "off + opt_size ACL_Size x \<le> length b" "rd off (opt_size ACL_Size x) b = zeros (opt_size ACL_Size x)"
  shows "sd_part slot ACL_Size ACL_Encode x (off, b)
    = Some (off + opt_size ACL_Size x, wrs (opt_field slot off acl_bytes x) b)"
proof (cases x)
  case (Some a)
  let ?b = "wr slot (le_enc 4 (of_nat off :: u32)) b"
  have sz: "8 \<le> ACL_Size a" by (simp add: ACL_Size_def)
  have z: "rd off (ACL_Size a) b = zeros (ACL_Size a)" using assms(5) Some by (simp add: opt_size_def)
  have sub: "rd (off + k) n b = zeros n" if "k + n \<le> ACL_Size a" for k n
  proof -
    have "n \<le> ACL_Size a - k" using that by simp
    then show ?thesis
      using arg_cong [OF z, of "\<lambda>l. take n (drop k l)"]
      by (simp add: rd_def drop_take take_zeros drop_zeros min_def add.commute)
  qed
  have "ACL_Encode off a ?b = Some (wr off (acl_bytes a) ?b)"
    using assms Some sz sub [of 1 1] sub [of 6 2]
    by (intro ACL_Encode_wr) (auto simp: opt_size_def length_wr rd_wr_after zeros_def numeral_2_eq_2)
  then show ?thesis
    using assms Some by (simp add: sd_part_def opt_size_def opt_field_def put_in)
qed (simp add: sd_part_def opt_size_def opt_field_def)

lemma fits_opt_field:
  "slot + 4 \<le> n \<Longrightarrow> off + opt_size (\<lambda>y. length (f y)) x \<le> n \<Longrightarrow> fits n (opt_field slot off f x)"
  by (cases x) (auto simp: opt_field_def opt_size_def)

lemma opt_size_sid: "pred_option sid_ok x \<Longrightarrow> opt_size (\<lambda>y. length (sid_bytes y)) x = opt_size SID_Size x"
  by (cases x) (auto simp: opt_size_def)

lemma opt_size_acl: "pred_option acl_ok x \<Longrightarrow> opt_size (\<lambda>y. length (acl_bytes y)) x = opt_size ACL_Size x"
  by (cases x) (auto simp: opt_size_def)

lemma apart_opt_field:
  "(slot + 4 \<le> a \<or> a + n \<le> slot) \<Longrightarrow> (off + opt_size (\<lambda>y. length (f y)) x \<le> a \<or> a + n \<le> off) \<Longrightarrow>
   apart a n (opt_field slot off f x)"
  by (cases x) (auto simp: opt_field_def opt_size_def)


lemma field_at_opt:
  "slot + 4 \<le> off \<Longrightarrow> field_at (opt_field slot off f (Some y)) slot 4 = Some (le_enc 4 (of_nat off :: u32))"
  "slot + 4 \<le> off \<Longrightarrow> n = length (f y) \<Longrightarrow> 0 < n \<Longrightarrow> field_at (opt_field slot off f (Some y)) off n = Some (f y)"
  by (auto simp: opt_field_def)

lemma SD_Encode_fields:
  assumes ok: "sd_ok d"
  shows "SD_Encode d (zeros (SD_Size d)) = Some (wrs (sd_fields d) (zeros (SD_Size d)))"
    and "fits (SD_Size d) (sd_fields d)"
proof -
  obtain o1 o2 o3 o4 where os: "sd_offsets d = (o1, o2, o3, o4)" by (metis prod_cases4)
  note o = os [unfolded sd_offsets_def Let_def prod.inject]
  let ?N = "SD_Size d" and ?z = "zeros (SD_Size d)"
  define f0 where "f0 = [(0 :: nat, [1 :: byte]), (2, le_enc 2 (SD_control d))]"
  define f1 where "f1 = f0 @ opt_field 4 o1 sid_bytes (OwnerSid d)"
  define f2 where "f2 = f1 @ opt_field 8 o2 sid_bytes (GroupSid d)"
  define f3 where "f3 = f2 @ opt_field 12 o3 acl_bytes (Sacl d)"
  have okc: "pred_option sid_ok (OwnerSid d)" "pred_option sid_ok (GroupSid d)"
    "pred_option acl_ok (Sacl d)" "pred_option acl_ok (Dacl d)"
    using ok by (auto simp: sd_ok_def)
  note sizes = opt_size_sid [OF okc(1)] opt_size_sid [OF okc(2)] opt_size_acl [OF okc(3)] opt_size_acl [OF okc(4)]
  have sdf: "sd_fields d = f3 @ opt_field 16 o4 acl_bytes (Dacl d)"
    by (simp add: sd_fields_def os f3_def f2_def f1_def f0_def)
  have fit0: "fits ?N f0" using sd_total [of d] by (simp add: f0_def)
  have fit1: "fits ?N f1" using fit0 sd_total [of d] o sizes by (auto simp: f1_def intro!: fits_opt_field)
  have fit2: "fits ?N f2" using fit1 sd_total [of d] o sizes by (auto simp: f2_def intro!: fits_opt_field)
  have fit3: "fits ?N f3" using fit2 sd_total [of d] o sizes by (auto simp: f3_def intro!: fits_opt_field)
  show fit: "fits ?N (sd_fields d)"
    using fit3 sd_total [of d] o sizes
    by (auto simp: sd_fields_def os f3_def f2_def f1_def f0_def intro!: fits_opt_field)
  have blank2: "rd o3 n (wrs f2 ?z) = rd o3 n ?z" for n
    using fit2 o sizes
    by (intro rd_wrs_apart) (auto simp: f2_def f1_def f0_def intro!: apart_opt_field)
  have blank3: "rd o4 n (wrs f3 ?z) = rd o4 n ?z" for n
    using fit3 o sizes
    by (intro rd_wrs_apart) (auto simp: f3_def f2_def f1_def f0_def intro!: apart_opt_field)
  have s0: "puts [(0, [1]), (2, le_enc 2 (SD_control d))] ?z = Some (wrs f0 ?z)"
    using fit0 by (simp add: f0_def puts_wrs del: puts.simps wrs.simps)
  have s1: "sd_part 4 SID_Size SID_Encode (OwnerSid d) (20, wrs f0 ?z) = Some (o2, wrs f1 ?z)"
    using okc sd_total [of d] o fit0 by (subst sd_part_sid) (auto simp: f1_def wrs_append length_wrs)
  have s2: "sd_part 8 SID_Size SID_Encode (GroupSid d) (o2, wrs f1 ?z) = Some (o3, wrs f2 ?z)"
    using okc sd_total [of d] o fit1 by (subst sd_part_sid) (auto simp: f2_def wrs_append length_wrs)
  have s3: "sd_part 12 ACL_Size ACL_Encode (Sacl d) (o3, wrs f2 ?z) = Some (o4, wrs f3 ?z)"
    using okc sd_total [of d] o fit2 blank2
    by (subst sd_part_acl) (auto simp: f3_def wrs_append length_wrs rd_zeros)
  have s4: "sd_part 16 ACL_Size ACL_Encode (Dacl d) (o4, wrs f3 ?z)
      = Some (o4 + opt_size ACL_Size (Dacl d), wrs (sd_fields d) ?z)"
    using okc sd_total [of d] o fit3 blank3
    by (subst sd_part_acl) (auto simp: sdf wrs_append length_wrs rd_zeros)
  show "SD_Encode d ?z = Some (wrs (sd_fields d) ?z)"
    by (simp add: SD_Encode_def s0 s1 s2 s3 s4 del: puts.simps)
qed


text \<open>
  Reading a component back: it is found at the offset that the header names, and a
  missing one is \<open>nil\<close>.
\<close>

lemma sd_component_read:
  assumes fit: "fits N fs" and N: "20 \<le> N" "N < 2 ^ 32"
    and slot: "4 \<le> slot" "slot + 4 \<le> 20" "20 \<le> off" "off + length (f y) \<le> N" "f y \<noteq> []"
    and split: "fs = gs @ opt_field slot off f (Some y) @ hs" "apart slot 4 hs" "apart off (length (f y)) hs"
  shows "\<exists>r. sd_component slot (Slice (wrs fs (zeros N)) e) = Some (Some r)
    \<and> take (length (f y)) (vis r) = f y"
proof -
  let ?b = "wrs fs (zeros N)"
  have fit': "fits (length (zeros N)) fs" using fit by simp
  have lb: "length ?b = N" using fit' by (simp add: length_wrs)
  have offs: "rd slot 4 ?b = le_enc 4 (of_nat off :: u32)"
    by (rule rd_wrs [OF fit']) (use slot split in \<open>auto simp: field_at_append field_at_opt opt_field_def\<close>)
  have body: "rd off (length (f y)) ?b = f y"
    by (rule rd_wrs [OF fit']) (use slot split in \<open>auto simp: field_at_append field_at_opt opt_field_def\<close>)
  have "u32_from slot (Slice ?b e) = Some (of_nat off)"
    using offs lb slot N by (simp add: u32_from_in rd_def)
  moreover have "unat (of_nat off :: u32) = off"
    using slot(4) N by (simp add: unat_of_nat)
  moreover have "(of_nat off :: u32) \<noteq> 0"
    using calculation(2) slot(3) by (metis not_numeral_le_zero unat_0)
  ultimately have "sd_component slot (Slice ?b e) = Some (Some (Slice (drop off ?b) e))"
    using lb slot by (simp add: sd_component_def sl_from_in)
  then show ?thesis using body by (simp add: rd_def)
qed

lemma sd_component_none:
  assumes fit: "fits N fs" and N: "20 \<le> N" and slot: "slot + 4 \<le> 20" and gap: "apart slot 4 fs"
  shows "sd_component slot (Slice (wrs fs (zeros N)) e) = Some None"
proof -
  have "rd slot 4 (wrs fs (zeros N)) = zeros 4"
    using rd_wrs_apart [of "zeros N" fs slot 4] fit gap N slot by (simp add: rd_zeros)
  then have "take 4 (drop slot (wrs fs (zeros N))) = zeros 4" by (simp add: rd_def)
  then show ?thesis
    using fit N slot by (simp add: sd_component_def u32_from_in length_wrs)
qed

text \<open>The four components of an encoded descriptor, in the vocabulary of the decoders.\<close>

definition reads_as :: "('a \<Rightarrow> byte list) \<Rightarrow> 'a option \<Rightarrow> slice option option \<Rightarrow> bool" where
  "reads_as f x r = (case x of None \<Rightarrow> r = Some None
     | Some y \<Rightarrow> (case r of Some (Some t) \<Rightarrow> take (length (f y)) (vis t) = f y | _ \<Rightarrow> False))"

lemma reads_as_opt_field:
  assumes "fits N fs" "20 \<le> N" "N < 2 ^ 32" "4 \<le> slot" "slot + 4 \<le> 20" "20 \<le> off"
    "off + opt_size (\<lambda>y. length (f y)) x \<le> N" "\<And>y. f y \<noteq> []"
    "fs = gs @ opt_field slot off f x @ hs" "apart slot 4 gs" "apart slot 4 hs"
    "apart off (opt_size (\<lambda>y. length (f y)) x) hs"
  shows "reads_as f x (sd_component slot (Slice (wrs fs (zeros N)) e))"
proof (cases x)
  case None
  have "apart slot 4 fs" using assms None by (simp add: opt_field_def)
  then show ?thesis using assms None by (simp add: reads_as_def sd_component_none)
next
  case (Some y)
  have "\<exists>r. sd_component slot (Slice (wrs fs (zeros N)) e) = Some (Some r)
    \<and> take (length (f y)) (vis r) = f y"
    by (rule sd_component_read [of N fs slot off f y gs hs]) (use assms Some in \<open>auto simp: opt_size_def\<close>)
  then show ?thesis using Some by (auto simp: reads_as_def)
qed


lemma bytes_nonempty: "sid_bytes s \<noteq> []" "acl_bytes a \<noteq> []"
  by (simp_all add: sid_bytes_def acl_bytes_def)

lemma sd_components:
  assumes ok: "sd_ok d" and b: "SD_Encode d (zeros (SD_Size d)) = Some b"
  shows "reads_as sid_bytes (OwnerSid d) (SecurityDescriptorDecoder_OwnerSid (Slice b e))"
    "reads_as sid_bytes (GroupSid d) (SecurityDescriptorDecoder_GroupSid (Slice b e))"
    "reads_as acl_bytes (Sacl d) (SecurityDescriptorDecoder_Sacl (Slice b e))"
    "reads_as acl_bytes (Dacl d) (SecurityDescriptorDecoder_Dacl (Slice b e))"
proof -
  obtain o1 o2 o3 o4 where os: "sd_offsets d = (o1, o2, o3, o4)" by (metis prod_cases4)
  note o = os [unfolded sd_offsets_def Let_def prod.inject]
  define F1 where "F1 = opt_field 4 o1 sid_bytes (OwnerSid d)"
  define F2 where "F2 = opt_field 8 o2 sid_bytes (GroupSid d)"
  define F3 where "F3 = opt_field 12 o3 acl_bytes (Sacl d)"
  define F4 where "F4 = opt_field 16 o4 acl_bytes (Dacl d)"
  define F0 where "F0 = [(0 :: nat, [1 :: byte]), (2, le_enc 2 (SD_control d))]"
  have okc: "pred_option sid_ok (OwnerSid d)" "pred_option sid_ok (GroupSid d)"
    "pred_option acl_ok (Sacl d)" "pred_option acl_ok (Dacl d)" and big: "SD_Size d < 2 ^ 32"
    using ok by (auto simp: sd_ok_def)
  note sizes = opt_size_sid [OF okc(1)] opt_size_sid [OF okc(2)] opt_size_acl [OF okc(3)] opt_size_acl [OF okc(4)]
  note tot = sd_total [of d]
  have fs: "sd_fields d = F0 @ F1 @ F2 @ F3 @ F4"
    by (simp add: sd_fields_def os F0_def F1_def F2_def F3_def F4_def)
  have b_eq: "b = wrs (sd_fields d) (zeros (SD_Size d))" and fit: "fits (SD_Size d) (sd_fields d)"
    using b SD_Encode_fields [OF ok] by auto
  note F = F0_def F1_def F2_def F3_def F4_def
  note rule = reads_as_opt_field [OF fit, folded b_eq, OF _ big]
  note ap = apart_opt_field
  show "reads_as sid_bytes (OwnerSid d) (SecurityDescriptorDecoder_OwnerSid (Slice b e))"
    unfolding SecurityDescriptorDecoder_OwnerSid_def
    by (rule rule [where gs = F0 and off = o1 and hs = "F2 @ F3 @ F4"])
      (use tot o sizes bytes_nonempty in \<open>auto simp: fs F intro!: ap\<close>)
  show "reads_as sid_bytes (GroupSid d) (SecurityDescriptorDecoder_GroupSid (Slice b e))"
    unfolding SecurityDescriptorDecoder_GroupSid_def
    by (rule rule [where gs = "F0 @ F1" and off = o2 and hs = "F3 @ F4"])
      (use tot o sizes bytes_nonempty in \<open>auto simp: fs F intro!: ap\<close>)
  show "reads_as acl_bytes (Sacl d) (SecurityDescriptorDecoder_Sacl (Slice b e))"
    unfolding SecurityDescriptorDecoder_Sacl_def
    by (rule rule [where gs = "F0 @ F1 @ F2" and off = o3 and hs = F4])
      (use tot o sizes bytes_nonempty in \<open>auto simp: fs F intro!: ap\<close>)
  show "reads_as acl_bytes (Dacl d) (SecurityDescriptorDecoder_Dacl (Slice b e))"
    unfolding SecurityDescriptorDecoder_Dacl_def
    by (rule rule [where gs = "F0 @ F1 @ F2 @ F3" and off = o4 and hs = "[]"])
      (use tot o sizes bytes_nonempty in \<open>auto simp: fs F intro!: ap\<close>)
qed


subsection \<open>Reading a SID back\<close>

lemma sub_loop_bytes:
  "sub_loop (length us) (length pre) (Slice (pre @ sub_bytes us @ post) e) = Some us"
proof (induction us arbitrary: pre)
  case (Cons u us)
  have "u32_in (length pre) (length pre + 4) (Slice (pre @ sub_bytes (u # us) @ post) e) = Some u"
    by (simp add: u32_in_in sub_bytes_def)
  moreover have "sub_loop (length us) (length pre + 4) (Slice (pre @ sub_bytes (u # us) @ post) e) = Some us"
    using Cons.IH [of "pre @ le_enc 4 u"] by (simp add: sub_bytes_def)
  ultimately show ?case by simp
qed simp

lemma or_push_bit_plus: "(ucast b OR push_bit 8 v :: u64) = ucast (b :: byte) + push_bit 8 v"
proof -
  have "ucast b AND push_bit 8 v = 0"
    by (intro bit_word_eqI) (auto simp: bit_and_iff bit_ucast_iff bit_push_bit_iff dest: bit_imp_le_length)
  then show ?thesis by (simp add: disjunctive_add_eq_or)
qed

lemma le_dec_plus: "le_dec [] = 0" "(le_dec (b # bs) :: u64) = ucast b + push_bit 8 (le_dec bs)"
  by (simp_all add: or_push_bit_plus)

text \<open>The identifier authority is read big-endian.\<close>

lemma auth_loop_bytes:
  assumes "length au = 6"
  shows "SidDecoder_IdentifierAuthority (Slice ([r, n] @ au @ post) e) = Some (le_dec (rev au))"
proof -
  obtain a0 a1 a2 a3 a4 a5 where au: "au = [a0, a1, a2, a3, a4, a5]"
    using assms by (auto simp: numeral_eq_Suc length_Suc_conv)
  show ?thesis
    by (simp add: SidDecoder_IdentifierAuthority_def au auth_loop.simps sl_at_in le_dec_plus
        push_bit_add add.assoc del: le_dec.simps(2))
qed


lemma SidDecoder_bytes:
  assumes "sid_ok s" "length (Subs s) < 256"
  shows "SidDecoder_IsInvalid (Slice (sid_bytes s @ post) e) = Some False"
    "SidDecoder_Decode (Slice (sid_bytes s @ post) e)
     = Some \<lparr>Revision = 1, IdentifierAuthority = le_dec (rev (Authority s)), SubAuthority = Subs s\<rparr>"
proof -
  let ?c = "Slice (sid_bytes s @ post) e"
  have au: "length (Authority s) = 6" using assms by (simp add: sid_ok_def)
  have n: "unat (of_nat (length (Subs s)) :: byte) = length (Subs s)"
    using assms(2) by (simp add: unat_of_nat)
  have c: "SidDecoder_SubAuthorityCount ?c = Some (of_nat (length (Subs s)))"
    by (simp add: SidDecoder_SubAuthorityCount_def sl_at_in sid_bytes_def)
  have r: "SidDecoder_Revision ?c = Some 1"
    by (simp add: SidDecoder_Revision_def sl_at_in sid_bytes_def)
  have a: "SidDecoder_IdentifierAuthority ?c = Some (le_dec (rev (Authority s)))"
    using auth_loop_bytes [OF au, of 1 "of_nat (length (Subs s))" "sub_bytes (Subs s) @ post" e]
    by (simp add: sid_bytes_def)
  have sub: "SidDecoder_SubAuthority ?c = Some (Subs s)"
    using sub_loop_bytes [of "Subs s" "[1, of_nat (length (Subs s))] @ Authority s" post e] au c n
    by (simp add: SidDecoder_SubAuthority_def sid_bytes_def)
  show "SidDecoder_IsInvalid ?c = Some False"
    using au n c by (simp add: SidDecoder_IsInvalid_def sid_bytes_def)
  show "SidDecoder_Decode ?c
     = Some \<lparr>Revision = 1, IdentifierAuthority = le_dec (rev (Authority s)), SubAuthority = Subs s\<rparr>"
    using r a sub by (simp add: SidDecoder_Decode_def)
qed

subsection \<open>Times\<close>

lemma filetime_split: "push_bit 32 (ucast (ucast (signed_drop_bit 32 v AND 0xffffffff) :: u32))
    + ucast (ucast (v AND 0xffffffff) :: u32) = (v :: u64)"
proof -
  let ?hi = "push_bit 32 (ucast (ucast (signed_drop_bit 32 v AND 0xffffffff) :: u32)) :: u64"
  let ?lo = "ucast (ucast (v AND 0xffffffff) :: u32) :: u64"
  have m: "(0xffffffff :: u64) = mask 32" by (simp add: mask_eq_exp_minus_1)
  have lo: "bit ?lo n \<longleftrightarrow> n < 32 \<and> bit v n" for n
    unfolding m by (auto simp: bit_ucast_iff bit_and_iff bit_mask_iff)
  have hi: "bit ?hi n \<longleftrightarrow> 32 \<le> n \<and> n < 64 \<and> bit v n" for n
    unfolding m by (auto simp: bit_push_bit_iff bit_ucast_iff bit_and_iff bit_mask_iff bit_signed_drop_bit_iff
        dest: bit_imp_le_length)
  have "?hi AND ?lo = 0" by (intro bit_word_eqI) (auto simp: bit_and_iff lo hi)
  then have "?hi + ?lo = ?hi OR ?lo" by (rule disjunctive_add_eq_or)
  also have "\<dots> = v" by (intro bit_word_eqI) (auto simp: bit_or_iff lo hi)
  finally show ?thesis .
qed

lemma filetime_range:
  fixes n :: u64
  defines "v \<equiv> word_of_int (sint n sdiv 100) + (116444736000000000 :: u64)"
  shows "v \<noteq> 0"
proof -
  let ?q = "sint n sdiv 100"
  have b: "- 9223372036854775808 \<le> sint n" "sint n < 9223372036854775808"
    using sint_greater_eq [of n] sint_less [of n] by simp_all
  have q: "\<bar>?q\<bar> = \<bar>sint n\<bar> div 100"
    by (cases "sint n = 0") (simp_all add: signed_divide_int_def abs_mult)
  have "\<bar>sint n\<bar> div 100 \<le> 92233720368547758"
    using b by linarith
  with q have q': "0 < ?q + 116444736000000000" "?q + 116444736000000000 < 18446744073709551616" by linarith+
  have "v = word_of_int (?q + 116444736000000000)" by (simp add: v_def)
  then have "uint v = ?q + 116444736000000000"
    using q' by (simp only: uint_word_of_int) (simp add: mod_pos_pos_trivial)
  with q' show ?thesis by auto
qed


subsection \<open>Properties\<close>

text \<open>
  An encoded security descriptor is exactly as long as \<^verbatim>\<open>Size\<close> says, encoding it does
  not panic, and the decoder finds in it the owner, the group, the SACL and the DACL that
  it was built from, and \<open>nil\<close> where the descriptor has none.
\<close>

theorem security_descriptor_roundtrip:
  assumes "sd_ok d"
  shows "\<exists>b. SD_Encode d (zeros (SD_Size d)) = Some b \<and> length b = SD_Size d
    \<and> reads_as sid_bytes (OwnerSid d) (SecurityDescriptorDecoder_OwnerSid (Slice b e))
    \<and> reads_as sid_bytes (GroupSid d) (SecurityDescriptorDecoder_GroupSid (Slice b e))
    \<and> reads_as acl_bytes (Sacl d) (SecurityDescriptorDecoder_Sacl (Slice b e))
    \<and> reads_as acl_bytes (Dacl d) (SecurityDescriptorDecoder_Dacl (Slice b e))"
proof -
  from SD_Encode_fields [OF assms] obtain b where b: "SD_Encode d (zeros (SD_Size d)) = Some b"
    "length b = SD_Size d" by (simp add: length_wrs)
  with sd_components [OF assms b(1)] show ?thesis by blast
qed

lemma security_descriptor_roundtrip_witness:
  "\<exists>b. SD_Encode \<lparr>OwnerSid = Some (SIDFromUid 1000), GroupSid = None, Sacl = None,
        Dacl = Some [\<lparr>AceSid = SIDFromMode 420, AceType = 0, AceMask = 3\<rparr>]\<rparr> (zeros 80) = Some b
     \<and> reads_as sid_bytes (Some (SIDFromUid 1000)) (SecurityDescriptorDecoder_OwnerSid (Slice b []))"
proof -
  let ?d = "\<lparr>OwnerSid = Some (SIDFromUid 1000), GroupSid = None, Sacl = None,
        Dacl = Some [\<lparr>AceSid = SIDFromMode 420, AceType = 0, AceMask = 3\<rparr>]\<rparr>"
  have sz: "SD_Size ?d = 80"
    by (simp add: SD_Size_def opt_size_def SID_Size_def ACL_Size_def ACE_Size_def SIDFromUid_def
        SIDFromMode_def Align_8)
  have "sid_ok (SIDFromUid 1000)" "sid_ok (SIDFromMode 420)"
    by (simp_all add: sid_ok_def SIDFromUid_def SIDFromMode_def SECURITY_NT_AUTHORITY_def)
  then have "sd_ok ?d" unfolding sd_ok_def sz by (simp add: acl_ok_def)
  from security_descriptor_roundtrip [OF this, of "[]"] sz show ?thesis by auto
qed

text \<open>
  A SID that the server encodes (owner, group or mode SID) is read back by
  \<^verbatim>\<open>SidDecoder\<close>: it is not invalid, its revision is 1, its authority is the six bytes read
  big-endian and its sub-authorities are the ones encoded.
\<close>

theorem sid_roundtrip:
  assumes "sid_ok s" "length (Subs s) < 256"
  shows "\<exists>b. SID_Encode 0 s (zeros (SID_Size s)) = Some b
    \<and> SidDecoder_IsInvalid (Slice b []) = Some False
    \<and> SidDecoder_Decode (Slice b [])
      = Some \<lparr>Revision = 1, IdentifierAuthority = le_dec (rev (Authority s)), SubAuthority = Subs s\<rparr>"
  using SID_Encode_wr [of s 0 "zeros (SID_Size s)"] SidDecoder_bytes [OF assms, of "[]" "[]"] assms
  by (simp add: wr_def drop_zeros)

lemma sid_roundtrip_witness:
  "\<exists>b. SID_Encode 0 (PosixSIDFromUid 1000) (zeros 16) = Some b
    \<and> SidDecoder_Decode (Slice b [])
      = Some \<lparr>Revision = 1, IdentifierAuthority = 22, SubAuthority = [1, 1000]\<rparr>"
  using sid_roundtrip [of "PosixSIDFromUid 1000"]
  by (auto simp: PosixSIDFromUid_def POSIX_SID_AUTHORITY_def sid_ok_def SID_Size_def push_bit_eq_mult)

text \<open>
  Converting a time to a file time and back rounds it towards zero to a multiple of 100
  nanoseconds, for every \<^verbatim>\<open>int64\<close>, negative ones included, although both conversions
  compute with wrapping arithmetic.
\<close>

theorem filetime_roundtrip:
  "Nanoseconds (NsecToFiletime n) = word_of_int (100 * (sint n sdiv 100))"
proof -
  let ?v = "word_of_int (sint n sdiv 100) + (116444736000000000 :: u64)"
  have "Nanoseconds (NsecToFiletime n) = (?v - 116444736000000000) * 100"
    using filetime_range [of n] filetime_split [of ?v]
    by (simp add: Nanoseconds_def NsecToFiletime_def Let_def)
  then show ?thesis by (simp add: mult.commute)
qed

end
