(* ===== verification/Mac.thy ===== *)
theory Mac
  imports Go_Slices
begin

section \<open>Streaming message authentication: CBC-MAC and CMAC\<close>

text \<open>
  \<^verbatim>\<open>smb/internal/crypto/ccm/cbc_mac.go\<close> and \<^verbatim>\<open>smb/internal/crypto/cmac/cmac.go\<close>.  Both keep a
  block \<open>ci\<close> and a position \<open>p\<close> in it, and absorb their input byte by byte; a full block
  is encrypted only when the next byte arrives.  The block cipher \<open>E\<close> is a parameter, with
  the documented behaviour that it maps a block to a block of the same length.  The
  lemmas relate both to the block-wise definitions of SP 800-38B and SP 800-38C.
\<close>

subsection \<open>cbc\_mac.go\<close>

record mac =
  ci :: "byte list"
  p :: nat

definition newMAC :: "nat \<Rightarrow> mac" where
  "newMAC blockSize = \<lparr>ci = zeros blockSize, p = 0\<rparr>"

definition mac_Reset :: "mac \<Rightarrow> mac" where
  "mac_Reset m = m\<lparr>ci := map (\<lambda>_. 0) (ci m), p := 0\<rparr>"

definition mac_Write1 :: "(byte list \<Rightarrow> byte list) \<Rightarrow> mac \<Rightarrow> byte \<Rightarrow> mac" where
  "mac_Write1 E m c =
     (let m = (if length (ci m) \<le> p m then m\<lparr>ci := E (ci m), p := 0\<rparr> else m) in
      m\<lparr>ci := (ci m)[p m := ci m ! p m XOR c], p := Suc (p m)\<rparr>)"

definition mac_Write :: "(byte list \<Rightarrow> byte list) \<Rightarrow> mac \<Rightarrow> byte list \<Rightarrow> mac" where
  "mac_Write E m bs = foldl (mac_Write1 E) m bs"

definition mac_PadZero :: "(byte list \<Rightarrow> byte list) \<Rightarrow> mac \<Rightarrow> mac" where
  "mac_PadZero E m = (if p m \<noteq> 0 then m\<lparr>ci := E (ci m), p := 0\<rparr> else m)"

definition mac_Sum :: "mac \<Rightarrow> byte list \<Rightarrow> byte list" where
  "mac_Sum m inp = inp @ ci m"

subsection \<open>cmac.go\<close>

record cmac =
  d_c :: "byte list \<Rightarrow> byte list"
  k1 :: "byte list"
  k2 :: "byte list"
  d_ci :: "byte list"
  digest :: "byte list"
  d_p :: nat

text \<open>
  \<^verbatim>\<open>shift1(src, dst)\<close> shifts left by one bit from the last byte to the first; it returns the
  bit shifted out and the shifted block.
\<close>

fun shift1_loop :: "byte list \<Rightarrow> byte \<Rightarrow> byte list \<Rightarrow> byte \<times> byte list" where
  "shift1_loop [] b acc = (b, acc)"
| "shift1_loop (s # ss) b acc = shift1_loop ss (drop_bit 7 s) ((push_bit 1 s OR b) # acc)"

definition shift1 :: "byte list \<Rightarrow> byte \<times> byte list" where
  "shift1 src = shift1_loop (rev src) 0 []"

definition xor_last :: "byte \<Rightarrow> byte list \<Rightarrow> byte list" where
  "xor_last r k = k[length k - 1 := k ! (length k - 1) XOR r]"

text \<open>\<^verbatim>\<open>New\<close> panics for a block size other than 8 and 16.\<close>

definition cmac_New :: "(byte list \<Rightarrow> byte list) \<Rightarrow> nat \<Rightarrow> cmac option" where
  "cmac_New E n = do {
     r \<leftarrow> (if n = 8 then Some 0x1b else if n = 16 then Some 0x87 else None);
     let (b1, s1) = shift1 (E (zeros n));
         key1 = (if b1 \<noteq> 0 then xor_last r s1 else s1);
         (b2, s2) = shift1 key1;
         key2 = (if b2 \<noteq> 0 then xor_last r s2 else s2)
     in Some \<lparr>d_c = E, k1 = key1, k2 = key2, d_ci = zeros n, digest = zeros n, d_p = 0\<rparr> }"

definition cmac_Reset :: "cmac \<Rightarrow> cmac" where
  "cmac_Reset d = d\<lparr>d_ci := map (\<lambda>_. 0) (d_ci d), d_p := 0\<rparr>"

definition cmac_Write1 :: "cmac \<Rightarrow> byte \<Rightarrow> cmac" where
  "cmac_Write1 d c =
     (let d = (if length (d_ci d) \<le> d_p d then d\<lparr>d_ci := d_c d (d_ci d), d_p := 0\<rparr> else d) in
      d\<lparr>d_ci := (d_ci d)[d_p d := d_ci d ! d_p d XOR c], d_p := Suc (d_p d)\<rparr>)"

definition cmac_Write :: "cmac \<Rightarrow> byte list \<Rightarrow> cmac" where
  "cmac_Write d bs = foldl (cmac_Write1) d bs"

definition cmac_Sum :: "cmac \<Rightarrow> byte list \<Rightarrow> cmac \<times> byte list" where
  "cmac_Sum d inp =
     (let k = (if d_p d < length (digest d) then k2 d else k1 d);
          g = map2 (XOR) (d_ci d) k;
          g = (if d_p d < length (digest d) then g[d_p d := g ! d_p d XOR 0x80] else g);
          g = d_c d g
      in (d\<lparr>digest := g\<rparr>, inp @ g))"

subsection \<open>The block-wise definitions\<close>

definition xor_block :: "byte list \<Rightarrow> byte list \<Rightarrow> byte list" where
  "xor_block a b = map2 (XOR) a b"

text \<open>\<open>pad n xs\<close> is \<open>xs\<close> filled with zeros to \<open>n\<close> bytes.\<close>

definition pad :: "nat \<Rightarrow> byte list \<Rightarrow> byte list" where
  "pad n xs = xs @ zeros (n - length xs)"

function cbc :: "(byte list \<Rightarrow> byte list) \<Rightarrow> nat \<Rightarrow> byte list \<Rightarrow> byte list \<Rightarrow> byte list" where
  "cbc E n c xs =
     (if xs = [] \<or> n = 0 then c
      else cbc E n (E (xor_block c (pad n (take n xs)))) (drop n xs))"
  by pat_completeness auto
termination by (relation "measure (\<lambda>(E, n, c, xs). length xs)") auto

declare cbc.simps [simp del]

text \<open>
  SP 800-38B: all blocks but the last are chained; the last is masked with \<open>K1\<close> if it is
  complete, else it is padded with a one bit and masked with \<open>K2\<close>.
\<close>

function cmac_spec ::
    "(byte list \<Rightarrow> byte list) \<Rightarrow> nat \<Rightarrow> byte list \<Rightarrow> byte list \<Rightarrow> byte list \<Rightarrow> byte list \<Rightarrow> byte list" where
  "cmac_spec E n key1 key2 c xs =
     (if n < length xs \<and> 0 < n
      then cmac_spec E n key1 key2 (E (xor_block c (take n xs))) (drop n xs)
      else if length xs = n then E (xor_block (xor_block c xs) key1)
      else E (xor_block (xor_block c (pad n (xs @ [0x80]))) key2))"
  by pat_completeness auto
termination by (relation "measure (\<lambda>(E, n, key1, key2, c, xs). length xs)") auto

declare cmac_spec.simps [simp del]

subsection \<open>Absorbing a message\<close>

definition block_cipher :: "nat \<Rightarrow> (byte list \<Rightarrow> byte list) \<Rightarrow> bool" where
  "block_cipher n E \<longleftrightarrow> (\<forall>b. length b = n \<longrightarrow> length (E b) = n)"

lemma block_cipherD: "block_cipher n E \<Longrightarrow> length b = n \<Longrightarrow> length (E b) = n"
  by (simp add: block_cipher_def)

definition mac_inv :: "nat \<Rightarrow> mac \<Rightarrow> bool" where
  "mac_inv n m \<longleftrightarrow> 0 < n \<and> length (ci m) = n \<and> p m \<le> n"

lemma length_xor_block [simp]: "length (xor_block a b) = min (length a) (length b)"
  by (simp add: xor_block_def)

lemma length_pad [simp]: "length xs \<le> n \<Longrightarrow> length (pad n xs) = n"
  by (simp add: pad_def)

lemma xor_block_zeros: "n = length c \<Longrightarrow> xor_block c (zeros n) = c"
  by (auto simp: xor_block_def zeros_def intro!: nth_equalityI)

lemma mac_Write_append: "mac_Write E (mac_Write E m xs) ys = mac_Write E m (xs @ ys)"
  by (simp add: mac_Write_def)

lemma mac_Write_Nil [simp]: "mac_Write E m [] = m"
  by (simp add: mac_Write_def)

lemma mac_Write1_inv: "block_cipher n E \<Longrightarrow> mac_inv n m \<Longrightarrow> mac_inv n (mac_Write1 E m c)"
  by (auto simp: mac_Write1_def mac_inv_def Let_def dest: block_cipherD)

lemma mac_Write_inv: "block_cipher n E \<Longrightarrow> mac_inv n m \<Longrightarrow> mac_inv n (mac_Write E m xs)"
  by (induction xs arbitrary: m) (auto simp: mac_Write_def mac_Write1_inv)

text \<open>What fits in the open block is xored into it.\<close>

lemma mac_Write_short:
  "length (ci m) = n \<Longrightarrow> p m + length xs \<le> n \<Longrightarrow>
   mac_Write E m xs = \<lparr>ci = xor_block (ci m) (pad n (zeros (p m) @ xs)), p = p m + length xs\<rparr>"
proof (induction xs rule: rev_induct)
  case Nil
  then show ?case
    using xor_block_zeros [of n "ci m"]
    by (cases m) (auto simp: pad_def zeros_def simp flip: replicate_add)
next
  case (snoc x xs)
  let ?c = "xor_block (ci m) (pad n (zeros (p m) @ xs))"
  have short: "mac_Write E m xs = \<lparr>ci = ?c, p = p m + length xs\<rparr>"
    using snoc by simp
  have l: "length ?c = n" using snoc.prems by (simp add: pad_def)
  have "?c[p m + length xs := ?c ! (p m + length xs) XOR x] = xor_block (ci m) (pad n (zeros (p m) @ xs @ [x]))"
    using snoc.prems l
    by (intro nth_equalityI)
      (auto simp: nth_list_update xor_block_def pad_def nth_append zeros_def)
  then show ?case
    using short snoc.prems l
    by (simp add: mac_Write_append [symmetric]) (simp add: mac_Write_def mac_Write1_def)
qed

lemma mac_Write_full:
  assumes "block_cipher n E" "length (ci m) = n" "0 < n" "p m = n" "xs \<noteq> []"
  shows "mac_Write E m xs = mac_Write E \<lparr>ci = E (ci m), p = 0\<rparr> xs"
proof -
  obtain y ys where xs: "xs = y # ys" using assms(5) by (cases xs) auto
  have "mac_Write1 E m y = mac_Write1 E \<lparr>ci = E (ci m), p = 0\<rparr> y"
    using assms(2-4) block_cipherD [OF assms(1,2)] by (cases m) (simp add: mac_Write1_def)
  then show ?thesis by (simp add: xs mac_Write_def)
qed

text \<open>Absorbing a message and padding it is the block-wise chain of the padded message.\<close>

lemma cbc_short: "xs \<noteq> [] \<Longrightarrow> length xs \<le> n \<Longrightarrow> cbc E n c xs = E (xor_block c (pad n xs))"
  by (subst cbc.simps) (auto simp: cbc.simps)

lemma cbc_long: "n < length xs \<Longrightarrow> 0 < n \<Longrightarrow>
    cbc E n c xs = cbc E n (E (xor_block c (take n xs))) (drop n xs)"
  by (subst cbc.simps) (auto simp: pad_def)

lemma mac_Write_block:
  assumes "block_cipher n E" "length (ci m) = n" "0 < n" "p m = 0" "n < length xs"
  shows "mac_Write E m xs
    = mac_Write E \<lparr>ci = E (xor_block (ci m) (take n xs)), p = 0\<rparr> (drop n xs)"
proof -
  have "mac_Write E m (take n xs) = \<lparr>ci = xor_block (ci m) (take n xs), p = n\<rparr>"
    using mac_Write_short [of m n "take n xs" E] assms by (simp add: pad_def)
  moreover have "mac_Write E m xs = mac_Write E (mac_Write E m (take n xs)) (drop n xs)"
    by (simp add: mac_Write_append)
  ultimately show ?thesis using assms by (simp add: mac_Write_full)
qed

lemma mac_cbc:
  assumes "block_cipher n E" "length (ci m) = n" "0 < n" "p m = 0"
  shows "mac_PadZero E (mac_Write E m xs) = \<lparr>ci = cbc E n (ci m) xs, p = 0\<rparr>"
  using assms
proof (induction "length xs" arbitrary: m xs rule: less_induct)
  case less
  show ?case
  proof (cases "length xs \<le> n")
    case True
    then show ?thesis
      using less.prems mac_Write_short [of m n xs E]
      by (cases "xs = []") (auto simp: mac_PadZero_def cbc_short cbc.simps [of E n c "[]" for c])
  next
    case False
    let ?m = "\<lparr>ci = E (xor_block (ci m) (take n xs)), p = 0\<rparr>"
    have "mac_PadZero E (mac_Write E ?m (drop n xs)) = \<lparr>ci = cbc E n (ci ?m) (drop n xs), p = 0\<rparr>"
      by (rule less.hyps) (use False less.prems block_cipherD [OF less.prems(1)] in auto)
    then show ?thesis using False less.prems by (simp add: mac_Write_block cbc_long)
  qed
qed

lemma mac_Reset_forgets: "length (ci m) = n \<Longrightarrow> mac_Reset m = newMAC n"
  by (cases m) (auto simp: mac_Reset_def newMAC_def zeros_def map_replicate_const)

subsection \<open>CMAC absorbs like CBC-MAC\<close>

definition as_mac :: "cmac \<Rightarrow> mac" where
  "as_mac d = \<lparr>ci = d_ci d, p = d_p d\<rparr>"

definition with_mac :: "cmac \<Rightarrow> mac \<Rightarrow> cmac" where
  "with_mac d m = d\<lparr>d_ci := ci m, d_p := p m\<rparr>"

lemma cmac_Write1_mac: "cmac_Write1 d c = with_mac d (mac_Write1 (d_c d) (as_mac d) c)"
  by (simp add: cmac_Write1_def mac_Write1_def as_mac_def with_mac_def Let_def)

lemma cmac_Write_mac: "cmac_Write d xs = with_mac d (mac_Write (d_c d) (as_mac d) xs)"
proof (induction xs arbitrary: d)
  case (Cons x xs)
  have "as_mac (with_mac d m) = m" "with_mac (with_mac d m) m' = with_mac d m'" "d_c (with_mac d m) = d_c d" for m m'
    by (simp_all add: as_mac_def with_mac_def)
  with Cons show ?case by (simp add: cmac_Write_def mac_Write_def cmac_Write1_mac)
qed (simp add: cmac_Write_def as_mac_def with_mac_def)

definition cmac_inv :: "nat \<Rightarrow> cmac \<Rightarrow> bool" where
  "cmac_inv n d \<longleftrightarrow> block_cipher n (d_c d) \<and> 0 < n \<and> length (d_ci d) = n \<and> d_p d \<le> n \<and> length (digest d) = n
     \<and> length (k1 d) = n \<and> length (k2 d) = n"

lemma length_shift1_loop: "length (snd (shift1_loop ss b acc)) = length ss + length acc"
  by (induction ss b acc rule: shift1_loop.induct) auto

lemma length_shift1 [simp]: "shift1 src = (b, s) \<Longrightarrow> length s = length src"
  using length_shift1_loop [of "rev src" 0 "[]"] by (simp add: shift1_def)

lemma cmac_New_inv:
  "block_cipher n E \<Longrightarrow> cmac_New E n = Some d \<Longrightarrow>
   cmac_inv n d \<and> d_c d = E \<and> d_ci d = zeros n \<and> d_p d = 0"
  using block_cipherD [of n E "zeros n"]
  by (auto simp: cmac_New_def cmac_inv_def xor_last_def bind_Some_iff Let_def
      dest!: length_shift1 split: if_splits prod.splits)

lemma cmac_Write_inv: "cmac_inv n d \<Longrightarrow> cmac_inv n (cmac_Write d xs)"
  using mac_Write_inv [of n "d_c d" "as_mac d" xs]
  by (simp add: cmac_Write_mac cmac_inv_def mac_inv_def as_mac_def with_mac_def)

lemma cmac_Sum_inv:
  "cmac_inv n d \<Longrightarrow> cmac_inv n (fst (cmac_Sum d inp))"
  by (simp add: cmac_Sum_def cmac_inv_def Let_def block_cipher_def)

lemma cmac_Sum_length:
  "cmac_inv n d \<Longrightarrow> length (snd (cmac_Sum d [])) = n"
  by (simp add: cmac_Sum_def cmac_inv_def Let_def block_cipher_def)

lemma cmac_Reset_inv: "cmac_inv n d \<Longrightarrow> cmac_inv n (cmac_Reset d)"
  by (simp add: cmac_inv_def cmac_Reset_def)

text \<open>The last block.\<close>

lemma cmac_last:
  assumes "cmac_inv n d" "d_p d = 0" "length xs \<le> n" "length key1 = n" "length key2 = n"
    "k1 d = key1" "k2 d = key2"
  shows "snd (cmac_Sum (cmac_Write d xs) []) = cmac_spec (d_c d) n key1 key2 (d_ci d) xs"
proof -
  let ?c = "xor_block (d_ci d) (pad n xs)"
  have n: "0 < n" "length (d_ci d) = n" "length (digest d) = n" using assms by (auto simp: cmac_inv_def)
  have w: "cmac_Write d xs = d\<lparr>d_ci := ?c, d_p := length xs\<rparr>"
    using mac_Write_short [of "as_mac d" n xs "d_c d"] assms n
    by (simp add: cmac_Write_mac as_mac_def with_mac_def)
  show ?thesis
  proof (cases "length xs = n")
    case True
    then show ?thesis
      using assms n by (subst cmac_spec.simps) (simp add: w cmac_Sum_def Let_def xor_block_def pad_def)
  next
    case False
    then have "(map2 (XOR) ?c key2)[length xs := map2 (XOR) ?c key2 ! length xs XOR 0x80]
        = xor_block (xor_block (d_ci d) (pad n (xs @ [0x80]))) key2"
      using assms n
      by (intro nth_equalityI)
        (auto simp: xor_block_def pad_def nth_list_update nth_append zeros_def nth_Cons' ac_simps)
    then show ?thesis
      using assms n False by (subst cmac_spec.simps) (simp add: w cmac_Sum_def Let_def)
  qed
qed

lemma cmac_Write_spec:
  assumes "cmac_inv n d" "d_p d = 0"
  shows "snd (cmac_Sum (cmac_Write d xs) []) = cmac_spec (d_c d) n (k1 d) (k2 d) (d_ci d) xs"
  using assms
proof (induction "length xs" arbitrary: d xs rule: less_induct)
  case less
  then have n: "0 < n" "length (d_ci d) = n" by (auto simp: cmac_inv_def)
  have bc: "block_cipher n (d_c d)" using less.prems by (simp add: cmac_inv_def)
  show ?case
  proof (cases "length xs \<le> n")
    case True
    then show ?thesis using less.prems by (intro cmac_last) (auto simp: cmac_inv_def)
  next
    case False
    let ?d = "d\<lparr>d_ci := d_c d (xor_block (d_ci d) (take n xs)), d_p := 0\<rparr>"
    have inv: "cmac_inv n ?d"
      using False less.prems n block_cipherD [of n "d_c d"] by (simp add: cmac_inv_def)
    have "snd (cmac_Sum (cmac_Write ?d (drop n xs)) [])
        = cmac_spec (d_c ?d) n (k1 ?d) (k2 ?d) (d_ci ?d) (drop n xs)"
      by (rule less.hyps) (use False n inv in auto)
    moreover have "cmac_Write d xs = cmac_Write ?d (drop n xs)"
      using mac_Write_block [of n "d_c d" "as_mac d" xs] less.prems False n bc
      by (simp add: cmac_Write_mac as_mac_def with_mac_def)
    ultimately show ?thesis
      using False n by (subst cmac_spec.simps) simp
  qed
qed

subsection \<open>The interface \<^verbatim>\<open>hash.Hash\<close> as the sessions use it\<close>

text \<open>
  A signer is reset, fed one packet and asked for its sum.  \<open>mac_of\<close> is what it promises:
  the tag is a function of the key in the state and of the packet, whatever was absorbed
  before, and every operation keeps the key and the invariant.
\<close>

locale keyed_hash =
  fixes Reset :: "'s \<Rightarrow> 's" and Write :: "'s \<Rightarrow> byte list \<Rightarrow> 's"
    and Sum :: "'s \<Rightarrow> byte list \<Rightarrow> 's \<times> byte list"
    and inv :: "'s \<Rightarrow> bool" and mac_of :: "'s \<Rightarrow> byte list \<Rightarrow> byte list"
  assumes inv_Reset: "inv s \<Longrightarrow> inv (Reset s)"
    and inv_Write: "inv s \<Longrightarrow> inv (Write s x)"
    and inv_Sum: "inv s \<Longrightarrow> inv (fst (Sum s i))"
    and key_Reset: "inv s \<Longrightarrow> mac_of (Reset s) = mac_of s"
    and key_Write: "inv s \<Longrightarrow> mac_of (Write s x) = mac_of s"
    and key_Sum: "inv s \<Longrightarrow> mac_of (fst (Sum s i)) = mac_of s"
    and Sum_eq: "inv s \<Longrightarrow> snd (Sum (Write (Reset s) x) i) = i @ mac_of s x"
begin

text \<open>The three calls of \<^verbatim>\<open>sign\<close> and \<^verbatim>\<open>verify\<close> in a row.\<close>

definition tag :: "'s \<Rightarrow> byte list \<Rightarrow> 's \<times> byte list" where
  "tag s x = Sum (Write (Reset s) x) []"

lemma tag_value: "inv s \<Longrightarrow> snd (tag s x) = mac_of s x"
  by (simp add: tag_def Sum_eq)

lemma tag_inv: "inv s \<Longrightarrow> inv (fst (tag s x))"
  by (simp add: tag_def inv_Sum inv_Write inv_Reset)

lemma tag_key: "inv s \<Longrightarrow> mac_of (fst (tag s x)) = mac_of s"
  by (simp add: tag_def inv_Sum inv_Write inv_Reset key_Sum key_Write key_Reset)

text \<open>Two states with one key agree on every packet, whatever they absorbed before.\<close>

lemma tag_agrees:
  "inv s \<Longrightarrow> inv t \<Longrightarrow> mac_of s = mac_of t \<Longrightarrow> snd (tag s x) = snd (tag (fst (tag t y)) x)"
  by (simp add: tag_value tag_inv tag_key)

end

definition cmac_of :: "cmac \<Rightarrow> byte list \<Rightarrow> byte list" where
  "cmac_of d x = cmac_spec (d_c d) (length (digest d)) (k1 d) (k2 d) (zeros (length (digest d))) x"

definition cmac_ok :: "cmac \<Rightarrow> bool" where
  "cmac_ok d \<longleftrightarrow> cmac_inv (length (digest d)) d"

lemma cmac_keeps:
  "d_c (cmac_Reset d) = d_c d" "k1 (cmac_Reset d) = k1 d" "k2 (cmac_Reset d) = k2 d"
  "digest (cmac_Reset d) = digest d"
  "d_c (cmac_Write d x) = d_c d" "k1 (cmac_Write d x) = k1 d" "k2 (cmac_Write d x) = k2 d"
  "digest (cmac_Write d x) = digest d"
  "d_c (fst (cmac_Sum d i)) = d_c d" "k1 (fst (cmac_Sum d i)) = k1 d" "k2 (fst (cmac_Sum d i)) = k2 d"
  by (simp_all add: cmac_Reset_def cmac_Write_mac with_mac_def cmac_Sum_def Let_def)

lemma cmac_Sum_digest: "cmac_ok d \<Longrightarrow> length (digest (fst (cmac_Sum d i))) = length (digest d)"
  using cmac_Sum_inv [of "length (digest d)" d i] by (simp add: cmac_ok_def cmac_inv_def)

lemma cmac_Sum_prefix: "snd (cmac_Sum d i) = i @ snd (cmac_Sum d [])"
  by (simp add: cmac_Sum_def Let_def)

interpretation cm: keyed_hash cmac_Reset cmac_Write cmac_Sum cmac_ok cmac_of
proof unfold_locales
  fix d :: cmac and x i
  assume ok: "cmac_ok d"
  let ?n = "length (digest d)"
  have inv: "cmac_inv ?n d" using ok by (simp add: cmac_ok_def)
  show "cmac_ok (cmac_Reset d)" using cmac_Reset_inv [OF inv] by (simp add: cmac_ok_def cmac_keeps)
  show "cmac_ok (cmac_Write d x)" using cmac_Write_inv [OF inv] by (simp add: cmac_ok_def cmac_keeps)
  show "cmac_ok (fst (cmac_Sum d i))"
    using cmac_Sum_inv [OF inv] by (simp add: cmac_ok_def cmac_Sum_digest [OF ok])
  show "cmac_of (cmac_Reset d) = cmac_of d" "cmac_of (cmac_Write d x) = cmac_of d"
    "cmac_of (fst (cmac_Sum d i)) = cmac_of d"
    by (auto simp: cmac_of_def cmac_keeps cmac_Sum_digest [OF ok])
  have "d_ci (cmac_Reset d) = zeros ?n" "d_p (cmac_Reset d) = 0"
    using inv by (simp_all add: cmac_Reset_def cmac_inv_def zeros_def map_replicate_const)
  then show "snd (cmac_Sum (cmac_Write (cmac_Reset d) x) i) = i @ cmac_of d x"
    using cmac_Write_spec [OF cmac_Reset_inv [OF inv], of x]
    by (subst cmac_Sum_prefix) (simp add: cmac_of_def cmac_keeps)
qed

subsection \<open>Properties\<close>



text \<open>
  The streaming CBC-MAC computes the block-wise chain of the zero-padded message, from
  any state with an empty block, and leaves the block empty.
\<close>

theorem cbc_mac_streams_spec:
  assumes "block_cipher n E" "0 < n"
  shows "mac_PadZero E (mac_Write E (mac_Reset (mac_Write E (newMAC n) ys)) xs)
    = \<lparr>ci = cbc E n (zeros n) xs, p = 0\<rparr>"
proof -
  have "mac_inv n (mac_Write E (newMAC n) ys)"
    using assms by (intro mac_Write_inv) (auto simp: mac_inv_def newMAC_def)
  then have "mac_Reset (mac_Write E (newMAC n) ys) = newMAC n"
    by (intro mac_Reset_forgets) (simp add: mac_inv_def)
  then show ?thesis using mac_cbc [OF assms(1) _ assms(2), of "newMAC n" xs] by (simp add: newMAC_def)
qed

lemma cbc_mac_streams_spec_witness:
  "mac_PadZero rev (mac_Write rev (mac_Reset (mac_Write rev (newMAC 16) [7])) [1, 2, 3])
    = \<lparr>ci = cbc rev 16 (zeros 16) [1, 2, 3], p = 0\<rparr>"
  using cbc_mac_streams_spec [of 16 rev "[7]" "[1, 2, 3]"] by (simp add: block_cipher_def)

end
