(* ===== verification/Ccm.thy ===== *)
theory Ccm
  imports Mac
begin

section \<open>Authenticated encryption: counter mode with CBC-MAC\<close>

text \<open>
  \<^verbatim>\<open>smb/internal/crypto/ccm/ccm.go\<close> and \<^verbatim>\<open>util.go\<close>, with the counter mode of
  \<^verbatim>\<open>crypto/cipher\<close> (a 128-bit big-endian counter, as the standard library increments it).
  The cipher is the field \<open>c\<close> of the record, as in the source; a Go panic is \<open>None\<close>.  The
  interface \<^verbatim>\<open>cipher.AEAD\<close> is the locale \<open>aead\<close>: what is sealed opens again, and only
  what is sealed opens.
\<close>

record ccm =
  c :: "byte list \<Rightarrow> byte list"
  c_mac :: mac
  nonceSize :: nat
  tagSize :: nat

definition NewCCMWithNonceAndTagSizes ::
    "(byte list \<Rightarrow> byte list) \<Rightarrow> nat \<Rightarrow> nat \<Rightarrow> nat \<Rightarrow> error + ccm" where
  "NewCCMWithNonceAndTagSizes E blockSize ns ts =
     (if blockSize \<noteq> 16 then Inl (ErrorString ''cipher: CCM mode requires 128-bit block cipher'')
      else if \<not> (7 \<le> ns \<and> ns \<le> 13) then Inl (ErrorString ''cipher: invalid nonce size'')
      else if \<not> (4 \<le> ts \<and> ts \<le> 16 \<and> ts mod 2 = 0) then Inl (ErrorString ''cipher: invalid tag size'')
      else Inr \<lparr>c = E, c_mac = newMAC blockSize, nonceSize = ns, tagSize = ts\<rparr>)"

definition maxUvarint :: "nat \<Rightarrow> u64" where
  "maxUvarint n = push_bit (n * 8) 1 - 1"

definition putUvarint :: "nat \<Rightarrow> u64 \<Rightarrow> byte list" where
  "putUvarint n u = map (\<lambda>i. ucast (drop_bit (8 * (n - 1 - i)) u)) [0..<n]"

text \<open>\<^verbatim>\<open>xorBytes\<close> on the common prefix, and the counter mode of the standard library.\<close>

definition xorBytes :: "byte list \<Rightarrow> byte list \<Rightarrow> byte list" where
  "xorBytes a b = map2 (XOR) a b"

fun inc_rev :: "byte list \<Rightarrow> byte list" where
  "inc_rev [] = []"
| "inc_rev (b # bs) = (if b + 1 = 0 then 0 # inc_rev bs else (b + 1) # bs)"

definition ctr_inc :: "byte list \<Rightarrow> byte list" where
  "ctr_inc ctr = rev (inc_rev (rev ctr))"

primrec ctr_stream :: "(byte list \<Rightarrow> byte list) \<Rightarrow> nat \<Rightarrow> byte list \<Rightarrow> byte list" where
  "ctr_stream E 0 ctr = []"
| "ctr_stream E (Suc n) ctr = E ctr @ ctr_stream E n (ctr_inc ctr)"

definition XORKeyStream :: "(byte list \<Rightarrow> byte list) \<Rightarrow> byte list \<Rightarrow> byte list \<Rightarrow> byte list" where
  "XORKeyStream E ctr src = xorBytes src (ctr_stream E ((length src + 15) div 16) ctr)"

subsection \<open>The tag\<close>

text \<open>
  \<^verbatim>\<open>getTag\<close> reuses the counter block for \<open>B0\<close>.  The MAC is reset first, so what it held
  before does not matter and its state is not returned.
\<close>

definition aad_header :: "nat \<Rightarrow> byte list" where
  "aad_header n =
     (if n < 2 ^ 15 - 2 ^ 7 then putUvarint 2 (of_nat n)
      else if n \<le> 2 ^ 31 - 1 then [0xff, 0xfe] @ putUvarint 4 (of_nat n)
      else [0xff, 0xff] @ putUvarint 8 (of_nat n))"

definition getTag :: "ccm \<Rightarrow> byte list \<Rightarrow> byte list \<Rightarrow> byte list \<Rightarrow> byte list" where
  "getTag k Ctr data plaintext =
     (let E = c k;
          m = mac_Reset (c_mac k);
          B = Ctr[0 := Ctr ! 0 OR of_nat ((tagSize k - 2) div 2 * 8)];
          B = wr (1 + nonceSize k) (putUvarint (length B - (1 + nonceSize k)) (of_nat (length plaintext))) B;
          m = (if 0 < length data
               then let B = B[0 := B ! 0 OR 0x40];
                        m = mac_Write E m B;
                        m = mac_Write E m (aad_header (length data));
                        m = mac_Write E m data
                    in mac_PadZero E m
               else mac_Write E m B);
          m = mac_PadZero E (mac_Write E m plaintext)
      in mac_Sum m [])"

text \<open>\<open>Ctr0\<close> and \<open>Ctr1\<close>; the nonce has the right length when they are built.\<close>

definition ctr0 :: "ccm \<Rightarrow> byte list \<Rightarrow> byte list" where
  "ctr0 k nonce = wr 1 (take 15 nonce) ((zeros 16)[0 := of_nat (15 - nonceSize k - 1)])"

text \<open>
  \<^verbatim>\<open>Seal\<close>: the inner \<open>None\<close> is the \<open>nil\<close> of a plaintext that is too long.  The result is the
  returned slice and the bytes that are stored behind \<open>dst\<close>, in the array of \<open>dst\<close> when its
  capacity suffices (which is what \<^verbatim>\<open>encrypt\<close> relies on).
\<close>

definition ccm_Seal ::
    "ccm \<Rightarrow> byte list \<Rightarrow> byte list \<Rightarrow> byte list \<Rightarrow> byte list \<Rightarrow> (byte list \<times> byte list) option option" where
  "ccm_Seal k dst nonce plaintext data =
     (if length nonce \<noteq> nonceSize k then None
      else if maxUvarint (15 - nonceSize k) < of_nat (length plaintext) then Some None
      else
        let Ctr = ctr0 k nonce;
            S0 = c k Ctr;
            Ctr = Ctr[15 := 1];
            ciphertext = XORKeyStream (c k) Ctr plaintext;
            T = getTag k Ctr data plaintext;
            tail = ciphertext @ xorBytes S0 T
        in Some (Some (take (length plaintext + tagSize k) (dst @ tail), tail)))"

definition ccm_Open ::
    "ccm \<Rightarrow> byte list \<Rightarrow> byte list \<Rightarrow> byte list \<Rightarrow> byte list \<Rightarrow> (error + byte list) option" where
  "ccm_Open k dst nonce ciphertext data =
     (if length nonce \<noteq> nonceSize k then None
      else if length ciphertext \<le> tagSize k then None
      else if maxUvarint (15 - nonceSize k) < of_nat (length ciphertext - tagSize k)
      then Some (Inl (ErrorString ''cipher: len(ciphertext)-tagSize exceeds the maximum payload size''))
      else
        let n = length ciphertext - tagSize k;
            Ctr = ctr0 k nonce;
            S0 = c k Ctr;
            Ctr = Ctr[15 := 1];
            plaintext = XORKeyStream (c k) Ctr (take n ciphertext);
            T = xorBytes (getTag k Ctr data plaintext) S0
        in if take (tagSize k) T \<noteq> drop n ciphertext
           then Some (Inl (ErrorString ''crypto/ccm: message authentication failed''))
           else Some (Inr (dst @ plaintext)))"

subsection \<open>Lengths and the key stream\<close>

definition ccm_ok :: "ccm \<Rightarrow> bool" where
  "ccm_ok k \<longleftrightarrow> block_cipher 16 (c k) \<and> length (ci (c_mac k)) = 16
     \<and> 7 \<le> nonceSize k \<and> nonceSize k \<le> 13 \<and> 4 \<le> tagSize k \<and> tagSize k \<le> 16"

lemma length_inc_rev [simp]: "length (inc_rev bs) = length bs"
  by (induction bs) auto

lemma length_ctr_inc [simp]: "length (ctr_inc ctr) = length ctr"
  by (simp add: ctr_inc_def)

lemma length_ctr_stream:
  "block_cipher 16 E \<Longrightarrow> length ctr = 16 \<Longrightarrow> length (ctr_stream E n ctr) = 16 * n"
  by (induction n arbitrary: ctr) (auto simp: block_cipher_def)

lemma length_xorBytes [simp]: "length (xorBytes a b) = min (length a) (length b)"
  by (simp add: xorBytes_def)

lemma xorBytes_twice: "length a \<le> length b \<Longrightarrow> xorBytes (xorBytes a b) b = a"
  by (auto simp: xorBytes_def xor.assoc intro!: nth_equalityI)

lemma xorBytes_comm: "xorBytes a b = xorBytes b a"
  by (auto simp: xorBytes_def xor.commute intro!: nth_equalityI)

lemma stream_covers:
  "block_cipher 16 E \<Longrightarrow> length ctr = 16 \<Longrightarrow> n \<le> length (ctr_stream E ((n + 15) div 16) ctr)"
  by (simp add: length_ctr_stream)

lemma length_XORKeyStream [simp]:
  "block_cipher 16 E \<Longrightarrow> length ctr = 16 \<Longrightarrow> length (XORKeyStream E ctr src) = length src"
  using stream_covers [of E ctr "length src"] by (simp add: XORKeyStream_def)

lemma XORKeyStream_twice:
  "block_cipher 16 E \<Longrightarrow> length ctr = 16 \<Longrightarrow> XORKeyStream E ctr (XORKeyStream E ctr src) = src"
  using length_XORKeyStream [of E ctr src] stream_covers [of E ctr "length src"]
  by (simp add: XORKeyStream_def xorBytes_twice)

lemma length_putUvarint [simp]: "length (putUvarint n u) = n"
  by (simp add: putUvarint_def)

lemma length_ctr0: "length nonce \<le> 15 \<Longrightarrow> length (ctr0 k nonce) = 16"
  by (simp add: ctr0_def length_wr)

subsection \<open>The tag is CBC-MAC over the formatted blocks\<close>

text \<open>
  The formatting of SP 800-38C, A.2: the flags byte, the nonce and the payload length in
  \<open>B0\<close>; then the encoded length of the associated data.
\<close>

definition B0_spec :: "ccm \<Rightarrow> byte list \<Rightarrow> nat \<Rightarrow> bool \<Rightarrow> byte list" where
  "B0_spec k nonce n adata =
     ((if adata then 0x40 else 0) OR of_nat ((tagSize k - 2) div 2 * 8) OR of_nat (15 - nonceSize k - 1))
     # nonce @ putUvarint (15 - nonceSize k) (of_nat n)"

lemma B0_of_ctr:
  assumes "length nonce = nonceSize k" "7 \<le> nonceSize k" "nonceSize k \<le> 13"
  defines "B \<equiv> ((ctr0 k nonce)[15 := 1])[0 := (ctr0 k nonce)[15 := 1] ! 0 OR of_nat ((tagSize k - 2) div 2 * 8)]"
  shows "wr (1 + nonceSize k) (putUvarint (length B - (1 + nonceSize k)) (of_nat n)) B = B0_spec k nonce n False"
    (is "?l = ?r")
proof -
  have z: "zeros 16 = 0 # zeros 15" by (simp add: zeros_def numeral_eq_Suc)
  have c0: "ctr0 k nonce = of_nat (15 - nonceSize k - 1) # nonce @ zeros (15 - nonceSize k)"
    using assms by (simp add: ctr0_def z wr_def drop_zeros)
  have B: "B = (of_nat (15 - nonceSize k - 1) OR of_nat ((tagSize k - 2) div 2 * 8)) # (nonce @ zeros (15 - nonceSize k))[14 := 1]"
    by (simp add: B_def c0)
  have "take (nonceSize k) ((nonce @ zeros (15 - nonceSize k))[14 := 1]) = nonce"
    using assms by simp
  then show ?thesis
    using assms(1-3) by (simp add: B wr_def B0_spec_def or.commute)
qed

text \<open>The message that CBC-MAC authenticates before the payload: \<open>B0\<close> and the associated data.\<close>

definition ccm_tag_spec :: "ccm \<Rightarrow> byte list \<Rightarrow> byte list \<Rightarrow> byte list \<Rightarrow> byte list" where
  "ccm_tag_spec k nonce data plaintext =
     (if data = [] then cbc (c k) 16 (zeros 16) (B0_spec k nonce (length plaintext) False @ plaintext)
      else cbc (c k) 16
        (cbc (c k) 16 (zeros 16)
          (B0_spec k nonce (length plaintext) True @ aad_header (length data) @ data)) plaintext)"

lemma getTag_spec:
  assumes ok: "ccm_ok k" and nonce: "length nonce = nonceSize k"
  shows "getTag k ((ctr0 k nonce)[15 := 1]) data plaintext = ccm_tag_spec k nonce data plaintext"
proof -
  have k: "block_cipher 16 (c k)" "length (ci (c_mac k)) = 16" "7 \<le> nonceSize k" "nonceSize k \<le> 13"
    using ok by (auto simp: ccm_ok_def)
  let ?m0 = "newMAC 16"
  have m0: "length (ci ?m0) = 16" "p ?m0 = 0" "ci ?m0 = zeros 16" by (simp_all add: newMAC_def)
  note B = B0_of_ctr [OF nonce k(3,4)]
  have adata: "(B0_spec k nonce n False)[0 := B0_spec k nonce n False ! 0 OR 0x40] = B0_spec k nonce n True" for n
    by (simp add: B0_spec_def ac_simps)
  have fold: "mac_PadZero (c k) (mac_Write (c k) \<lparr>ci = x, p = 0\<rparr> xs) = \<lparr>ci = cbc (c k) 16 x xs, p = 0\<rparr>"
    if "length x = 16" for x xs
    using mac_cbc [of 16 "c k" "\<lparr>ci = x, p = 0\<rparr>" xs] k(1) that by simp
  show ?thesis
  proof (cases "data = []")
    case True
    then show ?thesis
      using B fold [of "zeros 16"] k(2)
      by (simp add: getTag_def Let_def mac_Reset_forgets mac_Write_append mac_Sum_def ccm_tag_spec_def
          newMAC_def)
  next
    case False
    let ?x = "B0_spec k nonce (length plaintext) True @ aad_header (length data) @ data"
    have "mac_inv 16 (mac_PadZero (c k) (mac_Write (c k) ?m0 ?x))"
      using mac_Write_inv [OF k(1), of ?m0 ?x] k(1)
      by (auto simp: mac_inv_def newMAC_def mac_PadZero_def block_cipher_def)
    then have "length (cbc (c k) 16 (zeros 16) ?x) = 16"
      using fold [of "zeros 16" ?x] by (simp add: mac_inv_def newMAC_def)
    then show ?thesis
      using False B adata fold [of "zeros 16"] fold k(2)
      by (simp add: getTag_def Let_def mac_Reset_forgets mac_Write_append mac_Sum_def ccm_tag_spec_def
          newMAC_def)
  qed
qed

lemma length_cbc:
  "block_cipher n E \<Longrightarrow> length x = n \<Longrightarrow> 0 < n \<Longrightarrow> length (cbc E n x xs) = n"
proof (induction "length xs" arbitrary: x xs rule: less_induct)
  case less
  show ?case
  proof (cases "xs = []")
    case True
    with less.prems show ?thesis by (simp add: cbc.simps [of E n x "[]"])
  next
    case False
    have "length (E (xor_block x (pad n (take n xs)))) = n"
      by (rule block_cipherD [OF less.prems(1)]) (use less.prems in simp)
    then have "length (cbc E n (E (xor_block x (pad n (take n xs)))) (drop n xs)) = n"
      by (intro less.hyps) (use less.prems False in auto)
    then show ?thesis using less.prems False by (subst cbc.simps) simp
  qed
qed

lemma length_getTag:
  "ccm_ok k \<Longrightarrow> length nonce = nonceSize k \<Longrightarrow>
   length (getTag k ((ctr0 k nonce)[15 := 1]) data plaintext) = 16"
  by (simp add: getTag_spec ccm_tag_spec_def length_cbc ccm_ok_def)

subsection \<open>Sealing and opening\<close>

lemma seal_tail:
  assumes ok: "ccm_ok k" and nonce: "length nonce = nonceSize k"
    and s: "ccm_Seal k [] nonce pt data = Some (Some (ret, tail))"
  shows "ret = take (length pt + tagSize k) tail" "length ret = length pt + tagSize k" "length tail = length pt + 16"
    "take (length pt) ret = XORKeyStream (c k) ((ctr0 k nonce)[15 := 1]) pt"
    "drop (length pt) ret = take (tagSize k) (xorBytes (getTag k ((ctr0 k nonce)[15 := 1]) data pt) (c k (ctr0 k nonce)))"
proof -
  let ?C = "ctr0 k nonce"
  have k: "block_cipher 16 (c k)" "tagSize k \<le> 16" "length nonce \<le> 15"
    using ok nonce by (auto simp: ccm_ok_def)
  have l: "length ?C = 16" "length (c k ?C) = 16" "length (getTag k (?C[15 := 1]) data pt) = 16"
    using k length_ctr0 block_cipherD [OF k(1)] length_getTag [OF ok nonce] by auto
  have t: "tail = XORKeyStream (c k) (?C[15 := 1]) pt @ xorBytes (c k ?C) (getTag k (?C[15 := 1]) data pt)"
    and r: "ret = take (length pt + tagSize k) tail"
    using s by (auto simp: ccm_Seal_def Let_def split: if_splits)
  show "ret = take (length pt + tagSize k) tail" by (fact r)
  show "length ret = length pt + tagSize k" "length tail = length pt + 16"
    "take (length pt) ret = XORKeyStream (c k) (?C[15 := 1]) pt"
    "drop (length pt) ret = take (tagSize k) (xorBytes (getTag k (?C[15 := 1]) data pt) (c k ?C))"
    using k l by (simp_all add: r t xorBytes_comm [of "c k ?C"])
qed

lemma open_seal:
  assumes ok: "ccm_ok k" and nonce: "length nonce = nonceSize k" and pt: "pt \<noteq> []"
    and s: "ccm_Seal k [] nonce pt data = Some (Some (ret, tail))"
  shows "ccm_Open k [] nonce ret data = Some (Inr pt)"
proof -
  have k: "block_cipher 16 (c k)" "length (ctr0 k nonce) = 16"
    using ok nonce by (auto simp: ccm_ok_def length_ctr0)
  have "\<not> maxUvarint (15 - nonceSize k) < of_nat (length pt)"
    using s by (auto simp: ccm_Seal_def split: if_splits)
  moreover note seal_tail [OF ok nonce s]
  ultimately show ?thesis
    using k pt nonce by (simp add: ccm_Open_def Let_def XORKeyStream_twice)
qed

lemma open_only_sealed:
  assumes ok: "ccm_ok k" and nonce: "length nonce = nonceSize k"
    and o: "ccm_Open k [] nonce ct data = Some (Inr pt)"
  shows "\<exists>tail. ccm_Seal k [] nonce pt data = Some (Some (ct, tail))"
proof -
  let ?C = "ctr0 k nonce" and ?n = "length ct - tagSize k"
  have k: "block_cipher 16 (c k)" "length ?C = 16"
    using ok nonce by (auto simp: ccm_ok_def length_ctr0)
  have ct: "tagSize k < length ct" "\<not> maxUvarint (15 - nonceSize k) < of_nat ?n"
    "pt = XORKeyStream (c k) (?C[15 := 1]) (take ?n ct)"
    "take (tagSize k) (xorBytes (getTag k (?C[15 := 1]) data pt) (c k ?C)) = drop ?n ct"
    using o nonce by (auto simp: ccm_Open_def Let_def split: if_splits)
  have pt: "length pt = ?n" "XORKeyStream (c k) (?C[15 := 1]) pt = take ?n ct"
    using ct k by (simp_all add: XORKeyStream_twice)
  then obtain ret tail where s: "ccm_Seal k [] nonce pt data = Some (Some (ret, tail))"
    using ct(2) nonce by (auto simp: ccm_Seal_def Let_def)
  note r = seal_tail [OF ok nonce s]
  have "ret = take (length pt) ret @ drop (length pt) ret" by simp
  also have "\<dots> = take ?n ct @ drop ?n ct"
    unfolding r(4,5) using ct(4) pt by simp
  finally show ?thesis using s by simp
qed

subsection \<open>The interface \<^verbatim>\<open>cipher.AEAD\<close>\<close>

text \<open>
  \<open>seal\<close> is what \<^verbatim>\<open>Seal\<close> returns for an empty \<open>dst\<close> (the inner \<open>None\<close> is \<open>nil\<close>), \<open>unseal\<close> is
  \<^verbatim>\<open>Open\<close> with an empty \<open>dst\<close>.
\<close>

locale aead =
  fixes seal :: "'k \<Rightarrow> byte list \<Rightarrow> byte list \<Rightarrow> byte list \<Rightarrow> byte list option option"
    and unseal :: "'k \<Rightarrow> byte list \<Rightarrow> byte list \<Rightarrow> byte list \<Rightarrow> (error + byte list) option"
    and NonceSize :: "'k \<Rightarrow> nat" and Overhead :: "'k \<Rightarrow> nat" and ok :: "'k \<Rightarrow> bool"
  assumes seal_length: "ok k \<Longrightarrow> seal k nonce pt data = Some (Some ct) \<Longrightarrow> length ct = length pt + Overhead k"
    and open_seal: "ok k \<Longrightarrow> pt \<noteq> [] \<Longrightarrow> seal k nonce pt data = Some (Some ct) \<Longrightarrow>
      unseal k nonce ct data = Some (Inr pt)"
    and open_sealed: "ok k \<Longrightarrow> unseal k nonce ct data = Some (Inr pt) \<Longrightarrow>
      seal k nonce pt data = Some (Some ct)"
begin

text \<open>Opening is injective on what it accepts, and a changed ciphertext never opens to the same text.\<close>

lemma open_inj:
  "ok k \<Longrightarrow> unseal k nonce ct data = Some (Inr pt) \<Longrightarrow> unseal k nonce ct' data = Some (Inr pt) \<Longrightarrow> ct = ct'"
  using open_sealed [of k nonce ct data pt] open_sealed [of k nonce ct' data pt] by simp

lemma opened_length:
  "ok k \<Longrightarrow> unseal k nonce ct data = Some (Inr pt) \<Longrightarrow> length ct = length pt + Overhead k"
  by (rule seal_length [OF _ open_sealed])

lemma open_iff:
  "ok k \<Longrightarrow> pt \<noteq> [] \<Longrightarrow>
   unseal k nonce ct data = Some (Inr pt) \<longleftrightarrow> seal k nonce pt data = Some (Some ct)"
  using open_seal open_sealed by blast

end

definition ccm_seal :: "ccm \<Rightarrow> byte list \<Rightarrow> byte list \<Rightarrow> byte list \<Rightarrow> byte list option option" where
  "ccm_seal k nonce pt data = map_option (map_option fst) (ccm_Seal k [] nonce pt data)"

lemma ccm_Seal_nonce: "ccm_Seal k dst nonce pt data = Some r \<Longrightarrow> length nonce = nonceSize k"
  by (auto simp: ccm_Seal_def split: if_splits)

lemma ccm_Open_nonce: "ccm_Open k dst nonce ct data = Some r \<Longrightarrow> length nonce = nonceSize k"
  by (auto simp: ccm_Open_def split: if_splits)

interpretation ccm: aead ccm_seal "\<lambda>k. ccm_Open k []" nonceSize tagSize ccm_ok
proof unfold_locales
  fix k nonce pt data ct
  assume ok: "ccm_ok k"
  have sealed: "\<exists>tail. ccm_Seal k [] nonce pt data = Some (Some (ct, tail)) \<and> length nonce = nonceSize k"
    if "ccm_seal k nonce pt data = Some (Some ct)"
    using that by (auto simp: ccm_seal_def dest: ccm_Seal_nonce)
  show "length ct = length pt + tagSize k" if "ccm_seal k nonce pt data = Some (Some ct)"
    using sealed [OF that] seal_tail(2) [OF ok] by blast
  show "ccm_Open k [] nonce ct data = Some (Inr pt)" if "pt \<noteq> []" "ccm_seal k nonce pt data = Some (Some ct)"
    using sealed [OF that(2)] open_seal [OF ok _ that(1)] by blast
  show "ccm_seal k nonce pt data = Some (Some ct)" if "ccm_Open k [] nonce ct data = Some (Inr pt)"
    using open_only_sealed [OF ok ccm_Open_nonce [OF that] that] by (auto simp: ccm_seal_def)
qed

subsection \<open>Properties\<close>

text \<open>
  C7. A nonempty payload that \<^verbatim>\<open>Seal\<close> accepts opens again, under the same nonce and
  associated data; and whatever \<^verbatim>\<open>Open\<close> accepts is exactly what \<^verbatim>\<open>Seal\<close> makes of the
  payload it returns, so no other ciphertext or tag is accepted for it.
\<close>

theorem ccm_open_iff_sealed:
  assumes "ccm_ok k" "pt \<noteq> []"
  shows "ccm_Open k [] nonce ct data = Some (Inr pt)
    \<longleftrightarrow> (\<exists>tail. ccm_Seal k [] nonce pt data = Some (Some (ct, tail)))"
  using ccm.open_iff [OF assms, of nonce ct data] by (auto simp: ccm_seal_def)

definition sample_ccm :: ccm where
  "sample_ccm = \<lparr>c = map (\<lambda>b. b XOR 0x5a), c_mac = newMAC 16, nonceSize = 11, tagSize = 16\<rparr>"

lemma sample_ccm_ok: "ccm_ok sample_ccm"
  by (simp add: ccm_ok_def sample_ccm_def block_cipher_def newMAC_def)

lemma ccm_open_iff_sealed_witness:
  "\<exists>ct. ccm_Open sample_ccm [] (zeros 11) ct [9] = Some (Inr [1, 2, 3])"
proof -
  obtain ct tail where "ccm_Seal sample_ccm [] (zeros 11) [1, 2, 3] [9] = Some (Some (ct, tail))"
    by (simp add: ccm_Seal_def sample_ccm_def Let_def maxUvarint_def push_bit_eq_mult)
  with ccm_open_iff_sealed [OF sample_ccm_ok, of "[1, 2, 3]" "zeros 11" _ "[9]"] show ?thesis by auto
qed

definition aad_header_standard :: "nat \<Rightarrow> byte list" where
  "aad_header_standard n = (if n < 2 ^ 16 - 2 ^ 8 then putUvarint 2 (of_nat n)
     else if n < 2 ^ 32 then [0xff, 0xfe] @ putUvarint 4 (of_nat n)
     else [0xff, 0xff] @ putUvarint 8 (of_nat n))"

definition ccm_tag_standard :: "ccm \<Rightarrow> byte list \<Rightarrow> byte list \<Rightarrow> byte list \<Rightarrow> byte list" where
  "ccm_tag_standard k nonce data plaintext =
     (if data = [] then cbc (c k) 16 (zeros 16) (B0_spec k nonce (length plaintext) False @ plaintext)
      else cbc (c k) 16
        (cbc (c k) 16 (zeros 16)
          (B0_spec k nonce (length plaintext) True @ aad_header_standard (length data) @ data)) plaintext)"

text \<open>
  C8. The tag of a packet is CBC-MAC over the blocks that SP 800-38C, appendix A.2 prescribes
  (the reuse of the counter block, whose last byte is already one, does not show), for
  associated data shorter than 32640 bytes; the transform header has 32.
\<close>

theorem ccm_tag_is_standard:
  assumes "ccm_ok k" "length nonce = nonceSize k" "length data < 32640"
  shows "getTag k ((ctr0 k nonce)[15 := 1]) data plaintext = ccm_tag_standard k nonce data plaintext"
  using getTag_spec [OF assms(1,2)] assms(3)
  by (simp add: ccm_tag_spec_def ccm_tag_standard_def aad_header_def aad_header_standard_def)

lemma ccm_tag_is_standard_witness:
  "getTag sample_ccm ((ctr0 sample_ccm (zeros 11))[15 := 1]) [9] [1, 2]
   = ccm_tag_standard sample_ccm (zeros 11) [9] [1, 2]"
  by (rule ccm_tag_is_standard [OF sample_ccm_ok]) (simp_all add: sample_ccm_def)

text \<open>
  For 32640 to 65279 bytes of associated data the code writes the six-byte length
  encoding where SP 800-38C prescribes the two-byte one: it compares with \<^verbatim>\<open>1<<15 - 1<<7\<close>
  where the standard has \<open>2 ^ 16 - 2 ^ 8\<close>.
\<close>

theorem ccm_aad_threshold_differs:
  assumes "32640 \<le> n" "n < 65280"
  shows "length (aad_header n) = 6 \<and> length (aad_header_standard n) = 2"
  using assms by (simp_all add: aad_header_def aad_header_standard_def)

lemma ccm_aad_threshold_differs_witness: "length (aad_header 40000) = 6 \<and> length (aad_header_standard 40000) = 2"
  using ccm_aad_threshold_differs [of 40000] by simp

text \<open>
  \<^verbatim>\<open>Seal\<close> behind a nonempty \<open>dst\<close> stores the whole ciphertext and tag, but the slice it
  returns is cut at the length without \<open>dst\<close>: it lacks the last \<open>length dst\<close> bytes.
\<close>

theorem ccm_Seal_return_is_short:
  assumes "ccm_ok k" "tagSize k = 16" "ccm_Seal k dst nonce pt data = Some (Some (ret, tail))"
  shows "length tail = length pt + 16 \<and> length ret = length pt + 16 \<and> ret = take (length pt + 16) (dst @ tail)"
proof -
  obtain r where s: "ccm_Seal k [] nonce pt data = Some (Some (r, tail))"
    using assms(3) by (auto simp: ccm_Seal_def Let_def split: if_splits)
  have "length tail = length pt + 16"
    by (rule seal_tail(3) [OF assms(1) ccm_Seal_nonce [OF assms(3)] s])
  moreover have "ret = take (length pt + 16) (dst @ tail)"
    using assms(2,3) by (auto simp: ccm_Seal_def Let_def split: if_splits)
  ultimately show ?thesis by simp
qed

lemma ccm_Seal_return_is_short_witness:
  "\<exists>ret tail. ccm_Seal sample_ccm [7, 8] (zeros 11) [1, 2, 3] [9] = Some (Some (ret, tail))
     \<and> length ret = 19 \<and> ret = take 19 ([7, 8] @ tail)"
proof -
  obtain ret tail where s: "ccm_Seal sample_ccm [7, 8] (zeros 11) [1, 2, 3] [9] = Some (Some (ret, tail))"
    by (simp add: ccm_Seal_def sample_ccm_def Let_def maxUvarint_def push_bit_eq_mult)
  with ccm_Seal_return_is_short [OF sample_ccm_ok _ s] show ?thesis by (simp add: sample_ccm_def)
qed

end
