(* ===== verification/Session.thy ===== *)
theory Session
  imports Packet Ccm
begin

section \<open>Sessions: key derivation, signing and encryption\<close>

text \<open>
  \<^verbatim>\<open>smb/server/session.go\<close>, \<^verbatim>\<open>kdf.go\<close> and \<^verbatim>\<open>deriveSessionKeys\<close> of \<^verbatim>\<open>server.go\<close>.  What the code
  takes from the standard library (HMAC-SHA256, SHA-512, the AES block cipher and AES-GCM)
  is the argument \<open>cr\<close>; CMAC and CCM are the repository's own, of \<open>Mac\<close> and \<open>Ccm\<close>.  The
  values behind \<^verbatim>\<open>hash.Hash\<close> and \<^verbatim>\<open>cipher.AEAD\<close> are the datatypes \<open>hasher\<close> and \<open>AEAD\<close>; a
  \<open>nil\<close> interface is \<open>None\<close>, and calling it is a panic.
\<close>

record crypto =
  hmac_sha256 :: "byte list \<Rightarrow> byte list \<Rightarrow> byte list"
  sha512 :: "byte list \<Rightarrow> byte list"
  aes :: "byte list \<Rightarrow> byte list \<Rightarrow> byte list"
  gcm_seal :: "byte list \<Rightarrow> byte list \<Rightarrow> byte list \<Rightarrow> byte list \<Rightarrow> byte list"
  gcm_open :: "byte list \<Rightarrow> byte list \<Rightarrow> byte list \<Rightarrow> byte list \<Rightarrow> byte list option"

subsection \<open>Interface values\<close>

text \<open>An HMAC state is its key and what it has absorbed.\<close>

datatype hasher = CMAC cmac | HMAC "byte list" "byte list"

fun hash_Reset :: "hasher \<Rightarrow> hasher" where
  "hash_Reset (CMAC d) = CMAC (cmac_Reset d)"
| "hash_Reset (HMAC k x) = HMAC k []"

fun hash_Write :: "hasher \<Rightarrow> byte list \<Rightarrow> hasher" where
  "hash_Write (CMAC d) bs = CMAC (cmac_Write d bs)"
| "hash_Write (HMAC k x) bs = HMAC k (x @ bs)"

fun hash_Sum :: "crypto \<Rightarrow> hasher \<Rightarrow> byte list \<Rightarrow> hasher \<times> byte list" where
  "hash_Sum cr (CMAC d) inp = (let (d, s) = cmac_Sum d inp in (CMAC d, s))"
| "hash_Sum cr (HMAC k x) inp = (HMAC k x, inp @ hmac_sha256 cr k x)"

text \<open>A CCM of \<open>ccm.go\<close>, or the standard library's GCM with its key (12-byte nonces, 16-byte tags).\<close>

datatype AEAD = CCM ccm | GCM "byte list"

fun NonceSize :: "AEAD \<Rightarrow> nat" where
  "NonceSize (CCM k) = nonceSize k"
| "NonceSize (GCM key) = 12"

fun Overhead :: "AEAD \<Rightarrow> nat" where
  "Overhead (CCM k) = tagSize k"
| "Overhead (GCM key) = 16"

text \<open>What \<^verbatim>\<open>Seal\<close> stores behind \<open>dst\<close>, and \<^verbatim>\<open>Open\<close> with an empty \<open>dst\<close>.\<close>

fun aead_stored ::
    "crypto \<Rightarrow> AEAD \<Rightarrow> byte list \<Rightarrow> byte list \<Rightarrow> byte list \<Rightarrow> byte list \<Rightarrow> byte list option option" where
  "aead_stored cr (CCM k) dst nonce pt data = map_option (map_option snd) (ccm_Seal k dst nonce pt data)"
| "aead_stored cr (GCM key) dst nonce pt data =
     (if length nonce \<noteq> 12 then None else Some (Some (gcm_seal cr key nonce pt data)))"

fun aead_Open ::
    "crypto \<Rightarrow> AEAD \<Rightarrow> byte list \<Rightarrow> byte list \<Rightarrow> byte list \<Rightarrow> (error + byte list) option" where
  "aead_Open cr (CCM k) nonce ct data = ccm_Open k [] nonce ct data"
| "aead_Open cr (GCM key) nonce ct data =
     (if length nonce \<noteq> 12 then None
      else case gcm_open cr key nonce ct data of
        None \<Rightarrow> Some (Inl (ErrorString ''cipher: message authentication failed''))
      | Some pt \<Rightarrow> Some (Inr pt))"

subsection \<open>The session\<close>

abbreviation (input) "SMB2_SESSION_FLAG_IS_GUEST \<equiv> (1 :: u16)"
abbreviation (input) "SMB2_SESSION_FLAG_IS_NULL \<equiv> (2 :: u16)"
abbreviation (input) "SMB2_SESSION_FLAG_ENCRYPT_DATA \<equiv> (4 :: u16)"
abbreviation (input) "AES128CCM \<equiv> (1 :: u16)"
abbreviation (input) "AES128GCM \<equiv> (2 :: u16)"
abbreviation (input) "SMB2 \<equiv> (0x2FF :: u16)"
abbreviation (input) "SMB202 \<equiv> (0x202 :: u16)"
abbreviation (input) "SMB210 \<equiv> (0x210 :: u16)"
abbreviation (input) "SMB300 \<equiv> (0x300 :: u16)"
abbreviation (input) "SMB302 \<equiv> (0x302 :: u16)"
abbreviation (input) "SMB311 \<equiv> (0x311 :: u16)"

record session =
  treeConnTables :: "u32 \<Rightarrow> u32 option"
  sessionFlags :: u16
  s_sessionId :: u64
  username :: string
  s_cipherId :: u16
  s_preauthIntegrityHashValue :: "byte list"
  signer :: "hasher option"
  verifier :: "hasher option"
  encrypter :: "AEAD option"
  decrypter :: "AEAD option"

definition signed_session :: "session \<Rightarrow> bool" where
  "signed_session s \<longleftrightarrow>
     sessionFlags s AND (SMB2_SESSION_FLAG_IS_GUEST OR SMB2_SESSION_FLAG_IS_NULL) = 0"

definition sign :: "crypto \<Rightarrow> session \<Rightarrow> byte list \<Rightarrow> (session \<times> byte list) option" where
  "sign cr s pkt = do {
     fl \<leftarrow> p_Flags (Slice pkt []);
     pkt \<leftarrow> p_SetFlags (fl OR SMB2_FLAGS_SIGNED) pkt;
     h \<leftarrow> signer s;
     let (h, sum) = hash_Sum cr (hash_Write (hash_Reset h) pkt) [];
     pkt \<leftarrow> p_SetSignature sum pkt;
     Some (s\<lparr>signer := Some h\<rparr>, pkt) }"

text \<open>
  \<^verbatim>\<open>verify\<close> overwrites the signature field of the packet with the one it computes, so it
  returns the packet too.  Its callers have checked that the header is complete.
\<close>

definition verify :: "crypto \<Rightarrow> session \<Rightarrow> byte list \<Rightarrow> (bool \<times> session \<times> byte list) option" where
  "verify cr s pkt = do {
     sig \<leftarrow> p_Signature (Slice pkt []);
     pkt0 \<leftarrow> p_SetSignature (zeros 16) pkt;
     (if signed_session s
      then (case verifier s of
              None \<Rightarrow> Some (False, s, pkt0)
            | Some h \<Rightarrow> do {
                let (h, sum) = hash_Sum cr (hash_Write (hash_Reset h) pkt0) [];
                pkt1 \<leftarrow> p_SetSignature sum pkt0;
                Some (vis sig = rd 48 16 pkt1, s\<lparr>verifier := Some h\<rparr>, pkt1) })
      else Some (vis sig = rd 48 16 pkt0, s, pkt0)) }"

text \<open>\<open>nonce\<close> is what \<^verbatim>\<open>rand.Read\<close> put into the nonce buffer of \<^verbatim>\<open>NonceSize()\<close> bytes.\<close>

definition encrypt_fields :: "u16 \<Rightarrow> session \<Rightarrow> byte list \<Rightarrow> nat \<Rightarrow> fields" where
  "encrypt_fields dialect s nonce n =
     [(0, MAGIC2), (20, take 16 nonce), (36, le_enc 4 (of_nat n :: u32)),
      (42, le_enc 2 (if dialect = SMB311 then 1 else s_cipherId s)), (44, le_enc 8 (s_sessionId s))]"

definition encrypt :: "crypto \<Rightarrow> u16 \<Rightarrow> byte list \<Rightarrow> session \<Rightarrow> byte list \<Rightarrow> byte list option" where
  "encrypt cr dialect nonce s pkt = do {
     a \<leftarrow> encrypter s;
     c \<leftarrow> puts (encrypt_fields dialect s nonce (length pkt)) (zeros (52 + length pkt + 16));
     stored \<leftarrow> aead_stored cr a (take 52 c) nonce pkt (rd 20 32 c);
     c \<leftarrow> (case stored of None \<Rightarrow> Some c | Some t \<Rightarrow> put 52 t c);
     c \<leftarrow> put 4 (drop (length c - 16) c) c;
     Some (take (length c - 16) c) }"

definition decrypt :: "crypto \<Rightarrow> session \<Rightarrow> slice \<Rightarrow> (error + byte list) option" where
  "decrypt cr s pkt = do {
     a \<leftarrow> decrypter s;
     ed \<leftarrow> t_EncryptedData pkt;
     sig \<leftarrow> t_Signature pkt;
     nonce \<leftarrow> t_Nonce pkt;
     nonce \<leftarrow> sl_range 0 (NonceSize a) nonce;
     ad \<leftarrow> t_AssociatedData pkt;
     aead_Open cr a (vis nonce) (vis ed @ vis sig) (vis ad) }"

subsection \<open>Key derivation\<close>

definition kdf :: "crypto \<Rightarrow> byte list \<Rightarrow> byte list \<Rightarrow> byte list \<Rightarrow> byte list" where
  "kdf cr ki label ctxt =
     take 16 (hmac_sha256 cr ki ([0, 0, 0, 1] @ label @ [0] @ ctxt @ [0, 0, 0, 0x80]))"

definition ascii :: "string \<Rightarrow> byte list" where
  "ascii s = map (\<lambda>ch. of_nat (of_char ch)) s"

definition aes_NewCipher :: "crypto \<Rightarrow> byte list \<Rightarrow> error + (byte list \<Rightarrow> byte list)" where
  "aes_NewCipher cr key =
     (if length key = 16 \<or> length key = 24 \<or> length key = 32 then Inr (aes cr key)
      else Inl (InternalError ''crypto/aes: invalid key size''))"

definition as_internal :: "error + 'a \<Rightarrow> error + 'a" where
  "as_internal r = (case r of Inl (ErrorString m) \<Rightarrow> Inl (InternalError m) | _ \<Rightarrow> r)"

fun bindE :: "error + 'a \<Rightarrow> ('a \<Rightarrow> error + 'b) \<Rightarrow> error + 'b" where
  "bindE (Inl e) f = Inl e"
| "bindE (Inr x) f = f x"

definition new_ccm :: "crypto \<Rightarrow> byte list \<Rightarrow> error + AEAD" where
  "new_ccm cr key = bindE (aes_NewCipher cr key) (\<lambda>ciph.
     bindE (as_internal (NewCCMWithNonceAndTagSizes ciph 16 11 16)) (\<lambda>k. Inr (CCM k)))"

definition new_gcm :: "crypto \<Rightarrow> byte list \<Rightarrow> error + AEAD" where
  "new_gcm cr key = bindE (aes_NewCipher cr key) (\<lambda>_. Inr (GCM key))"

definition set_signing :: "(byte list \<Rightarrow> byte list) \<Rightarrow> session \<Rightarrow> session" where
  "set_signing ciph s = s\<lparr>signer := map_option CMAC (cmac_New ciph 16),
     verifier := map_option CMAC (cmac_New ciph 16)\<rparr>"

text \<open>The session is returned as far as it was set up; an error aborts the session setup.\<close>

definition deriveSessionKeys ::
    "crypto \<Rightarrow> u16 \<Rightarrow> u16 \<Rightarrow> session \<Rightarrow> byte list \<Rightarrow> byte list \<Rightarrow> error + session" where
  "deriveSessionKeys cr dialect cipherId s sessionKey preauthHash =
     (if dialect = SMB202 \<or> dialect = SMB210
      then Inr (s\<lparr>signer := Some (HMAC sessionKey []), verifier := Some (HMAC sessionKey [])\<rparr>)
      else if dialect = SMB300 \<or> dialect = SMB302
      then
        let s = s\<lparr>s_cipherId := AES128CCM\<rparr>;
            signingKey = kdf cr sessionKey (ascii ''SMB2AESCMAC'' @ [0]) (ascii ''SmbSign'' @ [0]);
            encryptionKey = kdf cr sessionKey (ascii ''SMB2AESCCM'' @ [0]) (ascii ''ServerOut'' @ [0]);
            decryptionKey = kdf cr sessionKey (ascii ''SMB2AESCCM'' @ [0]) (ascii ''ServerIn '' @ [0])
        in bindE (aes_NewCipher cr signingKey) (\<lambda>ciph.
           bindE (new_ccm cr encryptionKey) (\<lambda>enc.
           bindE (new_ccm cr decryptionKey) (\<lambda>dec.
             Inr ((set_signing ciph s)\<lparr>encrypter := Some enc, decrypter := Some dec\<rparr>))))
      else if dialect = SMB311
      then
        let s = s\<lparr>s_preauthIntegrityHashValue := preauthHash, s_cipherId := cipherId\<rparr>;
            signingKey = kdf cr sessionKey (ascii ''SMBSigningKey'' @ [0]) preauthHash;
            encryptionKey = kdf cr sessionKey (ascii ''SMBS2CCipherKey'' @ [0]) preauthHash;
            decryptionKey = kdf cr sessionKey (ascii ''SMBC2SCipherKey'' @ [0]) preauthHash
        in bindE (aes_NewCipher cr signingKey) (\<lambda>ciph.
           let s = set_signing ciph s in
           if cipherId = AES128CCM
           then bindE (new_ccm cr encryptionKey) (\<lambda>enc. bindE (new_ccm cr decryptionKey) (\<lambda>dec.
                  Inr (s\<lparr>encrypter := Some enc, decrypter := Some dec\<rparr>)))
           else if cipherId = AES128GCM
           then bindE (new_gcm cr encryptionKey) (\<lambda>enc. bindE (new_gcm cr decryptionKey) (\<lambda>dec.
                  Inr (s\<lparr>encrypter := Some enc, decrypter := Some dec\<rparr>)))
           else Inr s)
      else Inr s)"

subsection \<open>The interfaces, implemented\<close>

fun hash_ok :: "hasher \<Rightarrow> bool" where
  "hash_ok (CMAC d) = cmac_ok d"
| "hash_ok (HMAC k x) = True"

fun hash_mac :: "crypto \<Rightarrow> hasher \<Rightarrow> byte list \<Rightarrow> byte list" where
  "hash_mac cr (CMAC d) x = cmac_of d x"
| "hash_mac cr (HMAC k y) x = hmac_sha256 cr k x"

interpretation hs: keyed_hash hash_Reset hash_Write "hash_Sum cr" hash_ok "hash_mac cr"
proof unfold_locales
  fix h x i
  assume "hash_ok h"
  then show "hash_ok (hash_Reset h)" by (cases h) (auto intro: cm.inv_Reset)
next
  fix h x i
  assume "hash_ok h"
  then show "hash_ok (hash_Write h x)" by (cases h) (auto intro: cm.inv_Write)
next
  fix h i
  assume ok: "hash_ok h"
  show "hash_ok (fst (hash_Sum cr h i))"
    using ok cm.inv_Sum by (cases h) (auto simp: split_beta)
  show "hash_mac cr (fst (hash_Sum cr h i)) = hash_mac cr h"
    using ok cm.key_Sum by (cases h) (auto simp: split_beta fun_eq_iff)
next
  fix h x i
  assume ok: "hash_ok h"
  show "hash_mac cr (hash_Reset h) = hash_mac cr h"
    using ok cm.key_Reset by (cases h) (auto simp: fun_eq_iff)
  show "hash_mac cr (hash_Write h x) = hash_mac cr h"
    using ok cm.key_Write by (cases h) (auto simp: fun_eq_iff)
  show "snd (hash_Sum cr (hash_Write (hash_Reset h) x) i) = i @ hash_mac cr h x"
    using ok cm.Sum_eq by (cases h) (auto simp: split_beta)
qed

text \<open>The documented behaviour of GCM: it opens exactly what it sealed, and adds 16 bytes.\<close>

definition gcm_law :: "crypto \<Rightarrow> byte list \<Rightarrow> bool" where
  "gcm_law cr key \<longleftrightarrow>
     (\<forall>nonce pt data ct. gcm_open cr key nonce ct data = Some pt \<longleftrightarrow> ct = gcm_seal cr key nonce pt data)
     \<and> (\<forall>nonce pt data. length (gcm_seal cr key nonce pt data) = length pt + 16)"

fun aead_ok :: "crypto \<Rightarrow> AEAD \<Rightarrow> bool" where
  "aead_ok cr (CCM k) = (ccm_ok k \<and> tagSize k = 16 \<and> nonceSize k = 11)"
| "aead_ok cr (GCM key) = gcm_law cr key"

lemma ccm_stored_seal:
  assumes "ccm_ok k" "tagSize k = 16"
  shows "map_option (map_option snd) (ccm_Seal k dst nonce pt data) = ccm_seal k nonce pt data"
proof (cases "ccm_Seal k [] nonce pt data")
  case None
  then show ?thesis by (auto simp: ccm_seal_def ccm_Seal_def Let_def split: if_splits)
next
  case (Some r)
  note s = this
  show ?thesis
  proof (cases r)
    case None
    then show ?thesis using s by (auto simp: ccm_seal_def ccm_Seal_def Let_def split: if_splits)
  next
    case (Some x)
    obtain ret tail where x: "x = (ret, tail)" by fastforce
    have "ret = tail"
      using seal_tail(1,2,3) [OF assms(1) ccm_Seal_nonce [OF s]] s Some x assms(2) by simp
    then show ?thesis using s Some x by (auto simp: ccm_seal_def ccm_Seal_def Let_def split: if_splits)
  qed
qed

interpretation ae: aead "\<lambda>a. aead_stored cr a []" "aead_Open cr" NonceSize Overhead "aead_ok cr"
proof unfold_locales
  fix a nonce pt data ct
  assume ok: "aead_ok cr a"
  show "length ct = length pt + Overhead a" if "aead_stored cr a [] nonce pt data = Some (Some ct)"
    using ok that ccm.seal_length
    by (cases a) (auto simp: ccm_stored_seal gcm_law_def split: if_splits)
  show "aead_Open cr a nonce ct data = Some (Inr pt)"
    if "pt \<noteq> []" "aead_stored cr a [] nonce pt data = Some (Some ct)"
  proof (cases a)
    case (CCM k)
    then show ?thesis using ok that ccm.open_seal by (simp add: ccm_stored_seal)
  next
    case (GCM key)
    then have "length nonce = 12" "gcm_open cr key nonce ct data = Some pt"
      using ok that(2) by (auto simp: gcm_law_def split: if_splits)
    then show ?thesis using GCM by simp
  qed
  show "aead_stored cr a [] nonce pt data = Some (Some ct)" if "aead_Open cr a nonce ct data = Some (Inr pt)"
    using ok that ccm.open_sealed
    by (cases a) (auto simp: ccm_stored_seal gcm_law_def split: if_splits option.splits)
qed

lemma stored_dst: "aead_ok cr a \<Longrightarrow> aead_stored cr a dst nonce pt data = aead_stored cr a [] nonce pt data"
  by (cases a) (simp_all add: ccm_stored_seal)


subsection \<open>Signing and verifying\<close>

lemma p_SetSignature_eq:
  "64 \<le> length pkt \<Longrightarrow> p_SetSignature sig pkt = Some (wr 48 (take 16 sig) pkt)"
  by (simp add: p_SetSignature_def)

lemma p_Signature_rd: "64 \<le> length pkt \<Longrightarrow> p_Signature (Slice pkt []) = Some (Slice (rd 48 16 pkt) (drop 64 pkt))"
  by (simp add: p_Signature_def sl_range_in rd_def)

lemma wr_twice:
  assumes "off + length xs \<le> length b" "length ys = length xs"
  shows "wr off ys (wr off xs b) = wr off ys b"
proof -
  have "drop (off + length xs) (wr off xs b) = drop (off + length xs) b"
    using assms by (simp add: wr_def)
  then show ?thesis using assms by (simp add: wr_def)
qed

definition flagged :: "byte list \<Rightarrow> byte list" where
  "flagged pkt = wr 16 (le_enc 4 ((le_dec (rd 16 4 pkt) :: u32) OR SMB2_FLAGS_SIGNED)) pkt"

lemma sign_eq:
  assumes "64 \<le> length pkt" "signer s = Some h" "hash_ok h"
  shows "\<exists>h'. sign cr s pkt = Some (s\<lparr>signer := Some h'\<rparr>,
      wr 48 (take 16 (hash_mac cr h (flagged pkt))) (flagged pkt)) \<and> hash_ok h' \<and> hash_mac cr h' = hash_mac cr h"
proof -
  have l: "length (flagged pkt) = length pkt" using assms(1) by (simp add: flagged_def length_wr)
  have f: "p_Flags (Slice pkt []) = Some (le_dec (rd 16 4 pkt))"
    using assms(1) by (simp add: p_Flags_def u32_in_in rd_def)
  have sf: "p_SetFlags (le_dec (rd 16 4 pkt) OR SMB2_FLAGS_SIGNED) pkt = Some (flagged pkt)"
    using assms(1) by (simp add: p_SetFlags_def put_in flagged_def)
  obtain h' sum where hs: "hash_Sum cr (hash_Write (hash_Reset h) (flagged pkt)) [] = (h', sum)" by fastforce
  have "hs.tag cr h (flagged pkt) = (h', sum)" by (simp add: hs.tag_def hs)
  with hs.tag_value hs.tag_inv hs.tag_key assms(3)
  have "sum = hash_mac cr h (flagged pkt)" "hash_ok h'" "hash_mac cr h' = hash_mac cr h"
    by (metis fst_conv snd_conv)+
  then show ?thesis
    using assms l by (intro exI [of _ h']) (simp add: sign_def f sf hs p_SetSignature_eq)
qed

lemma verify_eq:
  assumes "64 \<le> length pkt" "signed_session s" "verifier s = Some h" "hash_ok h"
  shows "\<exists>s' pkt1. verify cr s pkt =
    Some (rd 48 16 pkt = rd 48 16 (wr 48 (take 16 (hash_mac cr h (wr 48 (zeros 16) pkt))) (wr 48 (zeros 16) pkt)),
      s', pkt1)"
proof -
  obtain pkt0 where pkt0: "pkt0 = wr 48 (zeros 16) pkt" by simp
  obtain h' sum where hs: "hash_Sum cr (hash_Write (hash_Reset h) pkt0) [] = (h', sum)" by fastforce
  have "hs.tag cr h pkt0 = (h', sum)" by (simp add: hs.tag_def hs)
  with hs.tag_value assms(4) have sum: "sum = hash_mac cr h pkt0" by (metis snd_conv)
  have "length pkt0 = length pkt" using assms(1) by (simp add: pkt0 length_wr)
  moreover have "p_SetSignature (zeros 16) pkt = Some pkt0"
    using assms(1) by (simp add: p_SetSignature_eq pkt0 take_zeros)
  ultimately show ?thesis
    unfolding pkt0 [symmetric]
    using assms hs sum by (simp add: verify_def p_SetSignature_eq p_Signature_rd)
qed

lemma rd_wr_self:
  "off + length xs \<le> length b \<Longrightarrow> length xs \<le> n \<Longrightarrow> off + n \<le> length b \<Longrightarrow>
   rd off n (wr off xs b) = xs @ rd (off + length xs) (n - length xs) b"
  by (simp add: rd_def wr_def)


subsection \<open>What key derivation establishes\<close>

definition crypto_ok :: "crypto \<Rightarrow> bool" where
  "crypto_ok cr \<longleftrightarrow> (\<forall>k m. length (hmac_sha256 cr k m) = 32) \<and> (\<forall>k. block_cipher 16 (aes cr k))
     \<and> (\<forall>k. gcm_law cr k)"

definition good_hash :: "crypto \<Rightarrow> hasher \<Rightarrow> bool" where
  "good_hash cr h \<longleftrightarrow> hash_ok h \<and> (\<forall>x. 16 \<le> length (hash_mac cr h x))"

lemma length_cmac_of: "cmac_ok d \<Longrightarrow> length (cmac_of d x) = length (digest d)"
proof -
  assume ok: "cmac_ok d"
  then have "cmac_ok (cmac_Write (cmac_Reset d) x)" by (intro cm.inv_Write cm.inv_Reset)
  then have "cmac_inv (length (digest d)) (cmac_Write (cmac_Reset d) x)"
    by (simp add: cmac_ok_def cmac_keeps)
  from cmac_Sum_length [OF this] cm.Sum_eq [OF ok, of x "[]"] show ?thesis by simp
qed

lemma good_cmac: "block_cipher 16 E \<Longrightarrow> \<exists>d. cmac_New E 16 = Some d \<and> good_hash cr (CMAC d)"
proof -
  assume E: "block_cipher 16 E"
  have "\<exists>d. cmac_New E 16 = Some d" by (simp add: cmac_New_def Let_def split: prod.split)
  then obtain d where d: "cmac_New E 16 = Some d" by blast
  from cmac_New_inv [OF E d] have "cmac_inv 16 d" by simp
  then have "cmac_ok d" "length (digest d) = 16" by (auto simp: cmac_ok_def cmac_inv_def)
  then show ?thesis using d length_cmac_of [of d] by (simp add: good_hash_def)
qed

lemma good_hmac: "crypto_ok cr \<Longrightarrow> good_hash cr (HMAC k x)"
  by (simp add: good_hash_def crypto_ok_def)

lemma kdf_cipher: "crypto_ok cr \<Longrightarrow> aes_NewCipher cr (kdf cr ki label ctxt) = Inr (aes cr (kdf cr ki label ctxt))"
  by (simp add: aes_NewCipher_def kdf_def crypto_ok_def)

lemma kdf_ccm:
  assumes "crypto_ok cr"
  shows "\<exists>a. new_ccm cr (kdf cr ki label ctxt) = Inr a \<and> aead_ok cr a"
  using assms
  by (simp add: new_ccm_def kdf_cipher NewCCMWithNonceAndTagSizes_def as_internal_def ccm_ok_def newMAC_def)
    (simp add: crypto_ok_def)

lemma kdf_gcm:
  assumes "crypto_ok cr"
  shows "\<exists>a. new_gcm cr (kdf cr ki label ctxt) = Inr a \<and> aead_ok cr a"
  using assms by (simp add: new_gcm_def kdf_cipher) (simp add: crypto_ok_def)

text \<open>
  A session that can sign and verify with one key; \<open>encrypts\<close> when it also has both ciphers.
\<close>

definition keyed_session :: "crypto \<Rightarrow> session \<Rightarrow> bool" where
  "keyed_session cr s \<longleftrightarrow> (\<exists>h. signer s = Some h \<and> verifier s = Some h \<and> good_hash cr h)"

definition encrypting_session :: "crypto \<Rightarrow> session \<Rightarrow> bool" where
  "encrypting_session cr s \<longleftrightarrow>
     (\<exists>e d. encrypter s = Some e \<and> decrypter s = Some d \<and> aead_ok cr e \<and> aead_ok cr d)"

lemma derive_keyed:
  assumes ok: "crypto_ok cr" and d: "dialect \<in> {SMB202, SMB210, SMB300, SMB302, SMB311}"
  shows "\<exists>s'. deriveSessionKeys cr dialect cid s key ph = Inr s' \<and> keyed_session cr s'
    \<and> sessionFlags s' = sessionFlags s \<and> s_sessionId s' = s_sessionId s \<and> username s' = username s
    \<and> (dialect \<in> {SMB300, SMB302} \<or> dialect = SMB311 \<and> cid \<in> {AES128CCM, AES128GCM}
       \<longrightarrow> encrypting_session cr s')"
proof -
  have E: "block_cipher 16 (aes cr k)" for k using ok by (simp add: crypto_ok_def)
  note mac = good_cmac [OF E, of _ cr]
  consider (hmac) "dialect = SMB202 \<or> dialect = SMB210" | (v3) "dialect = SMB300 \<or> dialect = SMB302"
    | (v311) "dialect = SMB311" using d by auto
  then show ?thesis
  proof cases
    case hmac
    then show ?thesis
      using good_hmac [OF ok, of key "[]"] by (auto simp: deriveSessionKeys_def keyed_session_def)
  next
    case v3
    obtain m where "cmac_New (aes cr (kdf cr key (ascii ''SMB2AESCMAC'' @ [0]) (ascii ''SmbSign'' @ [0]))) 16 = Some m"
      "good_hash cr (CMAC m)" using mac by blast
    moreover obtain e where "new_ccm cr (kdf cr key (ascii ''SMB2AESCCM'' @ [0]) (ascii ''ServerOut'' @ [0])) = Inr e"
      "aead_ok cr e" using kdf_ccm [OF ok] by blast
    moreover obtain f where "new_ccm cr (kdf cr key (ascii ''SMB2AESCCM'' @ [0]) (ascii ''ServerIn '' @ [0])) = Inr f"
      "aead_ok cr f" using kdf_ccm [OF ok] by blast
    ultimately show ?thesis
      using v3 by (auto simp: deriveSessionKeys_def kdf_cipher [OF ok] Let_def set_signing_def
          keyed_session_def encrypting_session_def)
  next
    case v311
    obtain m where m: "cmac_New (aes cr (kdf cr key (ascii ''SMBSigningKey'' @ [0]) ph)) 16 = Some m"
      "good_hash cr (CMAC m)" using mac by blast
    obtain e where e: "new_ccm cr (kdf cr key (ascii ''SMBS2CCipherKey'' @ [0]) ph) = Inr e" "aead_ok cr e"
      using kdf_ccm [OF ok] by blast
    obtain f where f: "new_ccm cr (kdf cr key (ascii ''SMBC2SCipherKey'' @ [0]) ph) = Inr f" "aead_ok cr f"
      using kdf_ccm [OF ok] by blast
    obtain g where g: "new_gcm cr (kdf cr key (ascii ''SMBS2CCipherKey'' @ [0]) ph) = Inr g" "aead_ok cr g"
      using kdf_gcm [OF ok] by blast
    obtain i where i: "new_gcm cr (kdf cr key (ascii ''SMBC2SCipherKey'' @ [0]) ph) = Inr i" "aead_ok cr i"
      using kdf_gcm [OF ok] by blast
    show ?thesis
      using v311 m e f g i by (auto simp: deriveSessionKeys_def kdf_cipher [OF ok] Let_def set_signing_def
          keyed_session_def encrypting_session_def)
  qed
qed


subsection \<open>The transform header\<close>

lemma rd_take: "a + n \<le> m \<Longrightarrow> rd a n (take m b) = rd a n b"
proof -
  assume "a + n \<le> m"
  then have "min n (m - a) = n" by simp
  then show ?thesis by (simp add: rd_def drop_take)
qed

lemma fits_encrypt: "fits (52 + n + 16) (encrypt_fields dialect s nonce m)"
  by (simp add: encrypt_fields_def)

lemma NonceSize_le: "aead_ok cr a \<Longrightarrow> NonceSize a \<le> 12 \<and> 0 < NonceSize a"
  by (cases a) auto

lemma stored_some:
  assumes "aead_ok cr a" "length nonce = NonceSize a" "length pkt < 2 ^ 32"
  shows "\<exists>t. aead_stored cr a [] nonce pkt data = Some (Some t)"
proof (cases a)
  case (CCM k)
  have m: "maxUvarint (15 - nonceSize k) = 0xFFFFFFFF"
    using assms(1) CCM by (simp add: maxUvarint_def push_bit_eq_mult)
  have "unat (of_nat (length pkt) :: u64) = length pkt" using assms(3) by (simp add: unat_of_nat)
  then have "\<not> (0xFFFFFFFF :: u64) < of_nat (length pkt)"
    using assms(3) by (simp add: word_less_nat_alt)
  then show ?thesis using assms(2) CCM m by (simp add: ccm_Seal_def Let_def)
qed (use assms(2) in simp)

text \<open>The bytes of an encrypted packet: header, tag, nonce, sizes, session id, ciphertext.\<close>

lemma encrypt_layout:
  assumes e: "encrypter s = Some a" and ok: "aead_ok cr a" and nonce: "length nonce = NonceSize a"
    and small: "length pkt < 2 ^ 32"
  shows "\<exists>c ct tg ad. encrypt cr dialect nonce s pkt = Some c \<and> length c = 52 + length pkt
    \<and> length ct = length pkt \<and> length tg = 16
    \<and> aead_stored cr a [] nonce pkt ad = Some (Some (ct @ tg))
    \<and> rd 0 4 c = MAGIC2 \<and> rd 4 16 c = tg \<and> rd 20 (NonceSize a) c = nonce \<and> rd 20 32 c = ad
    \<and> rd 36 4 c = le_enc 4 (of_nat (length pkt) :: u32)
    \<and> rd 42 2 c = le_enc 2 (if dialect = SMB311 then 1 else s_cipherId s)
    \<and> rd 44 8 c = le_enc 8 (s_sessionId s) \<and> drop 52 c = ct"
proof -
  let ?n = "length pkt" and ?fs = "encrypt_fields dialect s nonce (length pkt)"
  define c0 where "c0 = wrs ?fs (zeros (52 + ?n + 16))"
  have fit: "fits (length (zeros (52 + ?n + 16))) ?fs" using fits_encrypt [of ?n] by simp
  have c0: "puts ?fs (zeros (52 + ?n + 16)) = Some c0" "length c0 = 52 + ?n + 16"
    using fit fits_encrypt [of ?n] by (simp_all add: puts_wrs c0_def length_wrs)
  have n12: "NonceSize a \<le> 12" "length nonce \<le> 12" "nonce \<noteq> []" using NonceSize_le [OF ok] nonce by auto
  obtain t where t: "aead_stored cr a [] nonce pkt (rd 20 32 c0) = Some (Some t)"
    using stored_some [OF ok nonce small] by blast
  have lt: "length t = ?n + 16" using ae.seal_length [OF ok t] ok by (cases a) auto
  define c1 where "c1 = wr 52 t c0"
  have c1: "put 52 t c0 = Some c1" "length c1 = 52 + ?n + 16"
    using c0 lt by (simp_all add: put_in c1_def length_wr)
  define ct where "ct = take ?n t"
  define tg where "tg = drop ?n t"
  have l: "length ct = ?n" "length tg = 16" "t = ct @ tg" using lt by (auto simp: ct_def tg_def)
  have tail: "drop (52 + ?n) c1 = tg" "take ?n (drop 52 c1) = ct"
    using c0 l by (simp_all add: c1_def wr_def)
  define c where "c = take (52 + ?n) (wr 4 tg c1)"
  have enc: "encrypt cr dialect nonce s pkt = Some c"
  proof -
    have st: "aead_stored cr a (take 52 c0) nonce pkt (rd 20 32 c0) = Some (Some t)"
      using t by (simp only: stored_dst [OF ok, of "take 52 c0"])
    have "length c1 - 16 = 52 + ?n" using c1(2) by simp
    then have "drop (length c1 - 16) c1 = tg" using tail(1) by simp
    moreover have "put 4 tg c1 = Some (wr 4 tg c1)" using c1(2) l(2) by (simp add: put_in)
    moreover have "length (wr 4 tg c1) - 16 = 52 + ?n" using c1(2) l(2) by (simp add: length_wr)
    ultimately show ?thesis
      unfolding encrypt_def by (simp only: e c0(1) st c1(1) Option.bind.simps option.case c_def)
  qed
  have body: "rd o' k c = rd o' k (wr 4 tg c1)" if "o' + k \<le> 52" for o' k
    using that by (simp add: c_def rd_take)
  have hd: "rd o' k c = rd o' k c0" if "20 \<le> o' \<or> o' + k \<le> 4" "o' + k \<le> 52" for o' k
    using that c0 c1 l lt
    by (auto simp: body c1_def rd_wr_before rd_wr_after length_wr)
  have f: "rd 0 4 c0 = MAGIC2" "rd 20 (length nonce) c0 = nonce" "rd 36 4 c0 = le_enc 4 (of_nat ?n :: u32)"
    "rd 42 2 c0 = le_enc 2 (if dialect = SMB311 then 1 else s_cipherId s)" "rd 44 8 c0 = le_enc 8 (s_sessionId s)"
    unfolding c0_def
    by (intro rd_wrs [OF fit]; use n12 in \<open>simp add: encrypt_fields_def min_def\<close>)+
  have "rd 4 16 c = tg" using body [of 4 16] c1 l by (simp add: rd_wr_same)
  moreover have "drop 52 c = ct"
    using c1 l tail(2) by (simp add: c_def wr_def drop_take)
  moreover have "length c = 52 + ?n" using c1 l by (simp add: c_def length_wr)
  ultimately show ?thesis
    using enc t l f hd [of 0 4] hd [of 20 "NonceSize a"] hd [of 20 32] hd [of 36 4] hd [of 42 2] hd [of 44 8] n12 nonce
    by (intro exI [of _ c] exI [of _ ct] exI [of _ tg] exI [of _ "rd 20 32 c0"]) simp
qed


lemma transform_reads:
  assumes "116 \<le> length tp" "rd 0 4 tp = MAGIC2" "rd 36 4 tp = le_enc 4 (n :: u32)" "64 \<le> n"
  shows "t_IsInvalid (Slice tp e) = Some False"
  using assms by (simp add: t_IsInvalid_def t_OriginalMessageSize_def u32_in_in sl_range_in rd_def
      not_less)

lemma decrypt_eq:
  assumes "decrypter s = Some a" "NonceSize a \<le> 12" "52 \<le> length tp"
  shows "decrypt cr s (Slice tp []) =
    aead_Open cr a (rd 20 (NonceSize a) tp) (drop 52 tp @ rd 4 16 tp) (rd 20 32 tp)"
proof -
  have n: "t_Nonce (Slice tp []) = Some (Slice (rd 20 16 tp) (drop 36 tp))"
    using assms(3) by (simp add: t_Nonce_def sl_range_in rd_def)
  have l: "length (rd 20 16 tp) = 16" using assms(3) by (simp add: rd_def)
  have "take (NonceSize a) (rd 20 16 tp) = rd 20 (NonceSize a) tp"
    using assms(2) by (simp add: rd_def min_absorb1)
  then have m: "sl_range 0 (NonceSize a) (Slice (rd 20 16 tp) (drop 36 tp))
      = Some (Slice (rd 20 (NonceSize a) tp) (drop (NonceSize a) (rd 20 16 tp) @ drop 36 tp))"
    using assms(2) l by (simp add: sl_range_in)
  show ?thesis
    using assms(1,3)
    by (simp add: decrypt_def n m t_EncryptedData_def t_Signature_def t_AssociatedData_def
        sl_range_in sl_from_in) (simp add: rd_def)
qed

lemma length_take_mac: "good_hash cr h \<Longrightarrow> length (take 16 (hash_mac cr h x)) = 16"
  by (simp add: good_hash_def min_absorb2)

subsection \<open>Properties\<close>

definition toy_crypto :: crypto where
  "toy_crypto = \<lparr>hmac_sha256 = (\<lambda>k m. take 32 (k @ m @ zeros 32)), sha512 = (\<lambda>m. take 64 (m @ zeros 64)),
     aes = (\<lambda>k b. map (\<lambda>x. x XOR 0x5a) b), gcm_seal = (\<lambda>k nonce pt data. pt @ zeros 16),
     gcm_open = (\<lambda>k nonce ct data. if 16 \<le> length ct \<and> drop (length ct - 16) ct = zeros 16
        then Some (take (length ct - 16) ct) else None)\<rparr>"

lemma toy_crypto_ok: "crypto_ok toy_crypto"
proof -
  have "16 \<le> length ct \<and> drop (length ct - 16) ct = zeros 16 \<and> take (length ct - 16) ct = pt
    \<longleftrightarrow> ct = pt @ zeros 16" for ct pt :: "byte list"
    by (metis append_eq_conv_conj append_take_drop_id diff_add_inverse2 length_append length_zeros
        le_add2)
  then show ?thesis by (auto simp: crypto_ok_def toy_crypto_def gcm_law_def block_cipher_def)
qed

definition blank_session :: "u16 \<Rightarrow> session" where
  "blank_session fl = \<lparr>treeConnTables = (\<lambda>_. None), sessionFlags = fl, s_sessionId = 7,
     username = ''user'', s_cipherId = 0, s_preauthIntegrityHashValue = zeros 64, signer = None,
     verifier = None, encrypter = None, decrypter = None\<rparr>"




lemma keyed_sample: "keyed_session toy_crypto ((blank_session 0)\<lparr>signer := Some (HMAC [1] []), verifier := Some (HMAC [1] [])\<rparr>)"
  using good_hmac [OF toy_crypto_ok] by (simp add: keyed_session_def)




lemma encrypt_opens:
  assumes "encrypter s = Some a" "aead_ok cr a" "length nonce = NonceSize a"
    "64 \<le> length pkt" "length pkt < 2 ^ 32"
  shows "\<exists>ct. encrypt cr dialect nonce s pkt = Some ct \<and> length ct = 52 + length pkt
    \<and> (\<forall>t. decrypter t = Some a \<longrightarrow> decrypt cr t (Slice ct []) = Some (Inr pkt))
    \<and> rd 0 4 ct = MAGIC2 \<and> rd 36 4 ct = le_enc 4 (of_nat (length pkt) :: u32)
    \<and> rd 42 2 ct = le_enc 2 (if dialect = SMB311 then 1 else s_cipherId s)
    \<and> rd 44 8 ct = le_enc 8 (s_sessionId s)"
proof -
  obtain c ct tg ad where c: "encrypt cr dialect nonce s pkt = Some c" "length c = 52 + length pkt"
    "aead_stored cr a [] nonce pkt ad = Some (Some (ct @ tg))"
    "rd 0 4 c = MAGIC2" "rd 4 16 c = tg" "rd 20 (NonceSize a) c = nonce" "rd 20 32 c = ad"
    "rd 36 4 c = le_enc 4 (of_nat (length pkt) :: u32)"
    "rd 42 2 c = le_enc 2 (if dialect = SMB311 then 1 else s_cipherId s)"
    "rd 44 8 c = le_enc 8 (s_sessionId s)" "drop 52 c = ct"
    using encrypt_layout [OF assms(1,2,3,5), of dialect] by blast
  have "pkt \<noteq> []" using assms(4) by auto
  from ae.open_seal [OF assms(2) this c(3)]
  have "decrypt cr t (Slice c []) = Some (Inr pkt)" if "decrypter t = Some a" for t
    using that c NonceSize_le [OF assms(2)] by (simp add: decrypt_eq)
  with c show ?thesis by blast
qed

text \<open>
  C1. What a session encrypts, the peer that holds the same key opens to the same bytes; the
  packet is a valid transform packet that names the session and the original length, and it
  carries the algorithm, or the encrypted flag in SMB 3.1.1.
\<close>

theorem encrypt_then_decrypt:
  assumes "encrypter s = Some a" "decrypter t = Some a" "aead_ok cr a" "length nonce = NonceSize a"
    "64 \<le> length pkt" "length pkt < 2 ^ 32"
  shows "\<exists>c. encrypt cr dialect nonce s pkt = Some c \<and> decrypt cr t (Slice c []) = Some (Inr pkt)
    \<and> t_IsInvalid (Slice c []) = Some False
    \<and> t_SessionId (Slice c []) = Some (s_sessionId s)
    \<and> t_OriginalMessageSize (Slice c []) = Some (of_nat (length pkt))
    \<and> t_Flags (Slice c []) = Some (if dialect = SMB311 then 1 else s_cipherId s)"
proof -
  obtain ct where ct: "encrypt cr dialect nonce s pkt = Some ct" "length ct = 52 + length pkt"
    "decrypt cr t (Slice ct []) = Some (Inr pkt)"
    "rd 0 4 ct = MAGIC2" "rd 36 4 ct = le_enc 4 (of_nat (length pkt) :: u32)"
    "rd 42 2 ct = le_enc 2 (if dialect = SMB311 then 1 else s_cipherId s)"
    "rd 44 8 ct = le_enc 8 (s_sessionId s)"
    using encrypt_opens [OF assms(1,3,4,5,6), of dialect] assms(2) by auto
  have "64 \<le> (of_nat (length pkt) :: u32)"
    using assms(5,6) by (simp add: word_le_nat_alt unat_of_nat)
  then show ?thesis
    using ct assms(5) transform_reads [of ct "of_nat (length pkt)" "[]"]
    by (auto simp: t_SessionId_def t_OriginalMessageSize_def t_Flags_def u64_in_in u32_in_in u16_in_in
        rd_def)
qed

lemma encrypt_then_decrypt_witness:
  "\<exists>c. encrypt toy_crypto SMB311 (zeros 12) ((blank_session 4)\<lparr>encrypter := Some (GCM [3])\<rparr>) (zeros 64) = Some c
     \<and> decrypt toy_crypto ((blank_session 4)\<lparr>decrypter := Some (GCM [3])\<rparr>) (Slice c []) = Some (Inr (zeros 64))"
  using encrypt_then_decrypt [of "(blank_session 4)\<lparr>encrypter := Some (GCM [3])\<rparr>" "GCM [3]"
      "(blank_session 4)\<lparr>decrypter := Some (GCM [3])\<rparr>" toy_crypto "zeros 12" "zeros 64" SMB311] toy_crypto_ok
  by (auto simp: crypto_ok_def)

end
