(* ===== verification/Path.thy ===== *)
theory Path
  imports Prelude
begin

section \<open>Paths and patterns\<close>

text \<open>
  \<^verbatim>\<open>smb/server/path.go\<close> on byte strings.  \<open>scan_back P s i\<close> is the loop
  \<^verbatim>\<open>for i > 0 && P(s[i-1]) { i-- }\<close> that all of its functions are built from; \<open>sub\<close> is
  \<^verbatim>\<open>s[i:j]\<close>.  \<^verbatim>\<open>NORMALIZE_PATH\<close>, a variable of the package, is an argument.
\<close>

definition IsPathSeparator :: "char \<Rightarrow> bool" where
  "IsPathSeparator ch \<longleftrightarrow> ch = CHR 0x5C"

fun scan_back :: "(char \<Rightarrow> bool) \<Rightarrow> string \<Rightarrow> nat \<Rightarrow> nat" where
  "scan_back P s 0 = 0"
| "scan_back P s (Suc i) = (if P (s ! i) then scan_back P s i else Suc i)"

definition sub :: "string \<Rightarrow> nat \<Rightarrow> nat \<Rightarrow> string" where
  "sub s i j = drop i (take j s)"

abbreviation not_sep :: "char \<Rightarrow> bool" where
  "not_sep \<equiv> \<lambda>ch. \<not> IsPathSeparator ch"

definition base :: "string \<Rightarrow> string" where
  "base path =
     (let j = scan_back IsPathSeparator path (length path) in
      if j = 0 then []
      else sub path (scan_back not_sep path (j - 1)) j)"

definition dir :: "string \<Rightarrow> string" where
  "dir path =
     (if path = [] then []
      else let i = scan_back IsPathSeparator path (length path) in
        if i = 0 then [CHR 0x5C]
        else let i = scan_back not_sep path (i - 1) in
          if i = 0 then []
          else let i = scan_back IsPathSeparator path (i - 1) in
            if i = 0 then [CHR 0x5C] else take i path)"

definition split :: "string \<Rightarrow> string \<times> string" where
  "split path = (let i = scan_back not_sep path (length path) in (take i path, drop i path))"

definition quoted :: "char \<Rightarrow> string" where
  "quoted ch = [CHR 0x27, ch, CHR 0x27]"

definition validatePath :: "bool \<Rightarrow> string \<Rightarrow> string \<Rightarrow> bool \<Rightarrow> error option" where
  "validatePath NORMALIZE_PATH op path allowAbs =
     (if path = [] then None
      else if \<not> NORMALIZE_PATH \<and> CHR ''/'' \<in> set path
      then Some (ErrorString (op @ '' '' @ path @ '': can'' @ [CHR 0x27] @ ''t use '' @ quoted (CHR ''/'')
        @ '' as a path separator; use '' @ quoted (CHR 0x5C) @ '' instead''))
      else if \<not> allowAbs \<and> path ! 0 = CHR 0x5C
      then Some (ErrorString (op @ '' '' @ path @ '': leading '' @ quoted (CHR 0x5C)
        @ '' is not allowed in this operation''))
      else None)"

text \<open>The pattern \<^verbatim>\<open>^\\\\[^\\/]+\\[^\\/]+$\<close> of a mount path.\<close>

definition name_char :: "char \<Rightarrow> bool" where
  "name_char ch \<longleftrightarrow> ch \<noteq> CHR 0x5C \<and> ch \<noteq> CHR ''/''"

definition mountPathPattern :: "string \<Rightarrow> bool" where
  "mountPathPattern path =
     (take 2 path = [CHR 0x5C, CHR 0x5C]
      \<and> (let rest = drop 2 path; server = takeWhile name_char rest; tail = dropWhile name_char rest in
         server \<noteq> [] \<and> tail \<noteq> [] \<and> hd tail = CHR 0x5C \<and> tl tail \<noteq> [] \<and> list_all name_char (tl tail)))"

definition validateMountPath :: "string \<Rightarrow> error option" where
  "validateMountPath path =
     (if \<not> mountPathPattern path
      then Some (ErrorString (''mount '' @ path @ '': mount path must be a valid share name (''
        @ [CHR 0x5C, CHR 0x5C] @ ''<server>'' @ [CHR 0x5C] @ ''<share>)''))
      else None)"

definition slashes :: "string \<Rightarrow> string" where
  "slashes s = map (\<lambda>ch. if ch = CHR ''/'' then CHR 0x5C else ch) s"

fun strip_dots :: "string \<Rightarrow> string" where
  "strip_dots (a # b # s) = (if a = CHR ''.'' \<and> b = CHR 0x5C then strip_dots s else a # b # s)"
| "strip_dots s = s"

definition normPath :: "bool \<Rightarrow> string \<Rightarrow> string" where
  "normPath NORMALIZE_PATH path =
     (if \<not> NORMALIZE_PATH then path
      else let p = strip_dots (slashes path) in if p = ''.'' then [] else p)"

definition normPattern :: "bool \<Rightarrow> string \<Rightarrow> string" where
  "normPattern NORMALIZE_PATH pattern =
     (if \<not> NORMALIZE_PATH then pattern else strip_dots (slashes pattern))"

fun strings_Join :: "string \<Rightarrow> string list \<Rightarrow> string" where
  "strings_Join sep [] = []"
| "strings_Join sep [s] = s"
| "strings_Join sep (s # t # ss) = s @ sep @ strings_Join sep (t # ss)"

definition join :: "bool \<Rightarrow> string list \<Rightarrow> string" where
  "join NORMALIZE_PATH elem = normPath NORMALIZE_PATH (strings_Join [CHR 0x5C] elem)"

subsection \<open>The loop\<close>

lemma scan_back_le: "scan_back P s i \<le> i"
  by (induction P s i rule: scan_back.induct) auto

lemma scan_back_all: "scan_back P s i \<le> k \<Longrightarrow> k < i \<Longrightarrow> P (s ! k)"
  by (induction P s i rule: scan_back.induct) (auto simp: less_Suc_eq split: if_splits)

lemma scan_back_stop: "0 < scan_back P s i \<Longrightarrow> \<not> P (s ! (scan_back P s i - 1))"
  by (induction P s i rule: scan_back.induct) auto

lemma length_sub: "j \<le> length s \<Longrightarrow> length (sub s i j) = j - i"
  by (simp add: sub_def)

lemma last_take: "0 < i \<Longrightarrow> i \<le> length s \<Longrightarrow> last (take i s) = s ! (i - 1)"
  by (subst last_conv_nth) auto

lemma strip_dots_fixed: "\<not> (\<exists>t. strip_dots s = CHR ''.'' # CHR 0x5C # t)"
  by (induction s rule: strip_dots.induct) auto

lemma set_strip_dots: "set (strip_dots s) \<subseteq> set s"
  by (induction s rule: strip_dots.induct) auto

lemma strip_dots_idem: "strip_dots (strip_dots s) = strip_dots s"
  by (induction s rule: strip_dots.induct) auto

lemma slashes_fixed: "CHR ''/'' \<notin> set s \<Longrightarrow> slashes s = s"
  by (induction s) (auto simp: slashes_def)

lemma slashes_set: "CHR ''/'' \<notin> set (slashes s)"
  by (auto simp: slashes_def)

subsection \<open>Properties\<close>

text \<open>
  \<^verbatim>\<open>split\<close> cuts a path without losing a byte: the two parts concatenate to it, the file
  part has no separator and the directory part is empty or ends in one.
\<close>

theorem split_cuts:
  "case split path of (d, f) \<Rightarrow> d @ f = path \<and> list_all not_sep f \<and> (d = [] \<or> IsPathSeparator (last d))"
proof -
  let ?i = "scan_back not_sep path (length path)"
  have le: "?i \<le> length path" by (rule scan_back_le)
  have "list_all not_sep (drop ?i path)"
    using scan_back_all [of not_sep path "length path"] le by (simp add: list_all_length)
  moreover have "IsPathSeparator (last (take ?i path))" if "?i \<noteq> 0"
    using scan_back_stop [of not_sep path "length path"] that le last_take [of ?i path] by simp
  ultimately show ?thesis by (auto simp: split_def Let_def)
qed

text \<open>
  \<^verbatim>\<open>base\<close> never contains a separator, it is empty exactly for a path of separators, and it
  is a segment of the path: the last one, up to trailing separators.
\<close>

theorem base_is_last_segment:
  "list_all not_sep (base path) \<and> (base path = [] \<longleftrightarrow> list_all IsPathSeparator path)
   \<and> (\<exists>d seps. path = d @ base path @ seps \<and> list_all IsPathSeparator seps
        \<and> (base path = [] \<or> d = [] \<or> IsPathSeparator (last d)))"
proof -
  let ?j = "scan_back IsPathSeparator path (length path)"
  let ?i = "scan_back not_sep path (?j - 1)"
  have j: "?j \<le> length path" and i: "?i \<le> ?j - 1" by (rule scan_back_le)+
  have seps: "list_all IsPathSeparator (drop ?j path)"
    using scan_back_all [of IsPathSeparator path "length path"] j by (auto simp: list_all_length)
  show ?thesis
  proof (cases "?j = 0")
    case True
    then have "list_all IsPathSeparator path" "base path = []" using seps by (simp_all add: base_def)
    then show ?thesis by auto
  next
    case False
    have b: "base path = sub path ?i ?j" using False by (simp add: base_def Let_def)
    have last: "not_sep (path ! (?j - 1))" using scan_back_stop [of IsPathSeparator path "length path"] False by simp
    have ne: "base path \<noteq> []" using False i j length_sub [OF j, of ?i] by (auto simp: b)
    have nosep: "list_all not_sep (base path)"
    proof -
      have "not_sep (path ! k)" if "?i \<le> k" "k < ?j" for k
        using scan_back_all [of not_sep path "?j - 1" k] that last by (cases "k = ?j - 1") auto
      then show ?thesis using j i False by (auto simp: b sub_def list_all_length)
    qed
    have "\<not> list_all IsPathSeparator path"
      using last j False by (auto simp: list_all_length intro!: exI [of _ "?j - 1"])
    moreover have "path = take ?i path @ base path @ drop ?j path"
    proof -
      have "take ?j path = take ?i path @ drop ?i (take ?j path)"
        using i by (metis append_take_drop_id diff_le_self le_trans min.absorb1 take_take)
      then show ?thesis by (metis append.assoc append_take_drop_id b sub_def)
    qed
    moreover have "take ?i path = [] \<or> IsPathSeparator (last (take ?i path))"
      using scan_back_stop [of not_sep path "?j - 1"] i j last_take [of ?i path]
      by (cases "?i = 0") simp_all
    ultimately show ?thesis using ne nosep seps by blast
  qed
qed

text \<open>
  Normalising a path leaves no forward slash and no leading \<^verbatim>\<open>.\\<close> in it, and doing it
  again changes nothing.
\<close>

theorem normPath_normal:
  "CHR ''/'' \<notin> set (normPath True path) \<and> \<not> (\<exists>t. normPath True path = CHR ''.'' # CHR 0x5C # t)
   \<and> normPath True (normPath True path) = normPath True path"
proof -
  let ?p = "strip_dots (slashes path)"
  have "CHR ''/'' \<notin> set ?p" using set_strip_dots [of "slashes path"] slashes_set by blast
  moreover from this have "slashes ?p = ?p" by (rule slashes_fixed)
  ultimately show ?thesis
    using strip_dots_fixed [of "slashes path"]
    by (auto simp: normPath_def Let_def strip_dots_idem slashes_def)
qed

end
