(* ===== verification/Credit.thy ===== *)
theory Credit
  imports Prelude
begin

section \<open>Credit accounting\<close>

text \<open>
  \<^verbatim>\<open>smb/server/credit.go\<close>: the balance is a buffered channel of tokens, here its length and
  its capacity; \<^verbatim>\<open>_opening\<close> is the deficit that the next request asks for.  A receive or send
  that would block is \<open>None\<close>.
\<close>

record account =
  balance :: nat
  cap :: nat
  deficit :: u16

definition openAccount :: "u16 \<Rightarrow> account option" where
  "openAccount maxCreditBalance =
     (if maxCreditBalance = 0 then None
      else Some \<lparr>balance = 1, cap = unat maxCreditBalance, deficit = 0\<rparr>)"

definition initRequest :: "account \<Rightarrow> u16" where
  "initRequest a = of_nat (cap a - balance a)"

text \<open>
  \<^verbatim>\<open>loan\<close>: \<open>cancelled\<close> is the choice of the first \<^verbatim>\<open>select\<close>; the loop takes one token for each
  \<open>i\<close> from 1 below the charge, while there is one.
\<close>

fun loan_loop :: "nat \<Rightarrow> nat \<Rightarrow> account \<Rightarrow> u16 \<times> bool \<times> account" where
  "loan_loop i 0 a = (of_nat i, True, a)"
| "loan_loop i (Suc k) a =
     (if balance a = 0 then (of_nat i, False, a)
      else loan_loop (Suc i) k (a\<lparr>balance := balance a - 1\<rparr>))"

definition loan :: "u16 \<Rightarrow> bool \<Rightarrow> account \<Rightarrow> ((error + u16 \<times> bool) \<times> account) option" where
  "loan creditCharge cancelled a =
     (if cancelled then Some (Inl ContextError, a)
      else if balance a = 0 then None
      else let a = a\<lparr>balance := balance a - 1\<rparr>;
               (n, done, a) = loan_loop 1 (unat creditCharge - 1) a
           in Some (Inr (if done then creditCharge else n, done), a))"

definition account_opening :: "account \<Rightarrow> u16 \<times> account" where
  "account_opening a = (deficit a, a\<lparr>deficit := 0\<rparr>)"

text \<open>\<^verbatim>\<open>charge\<close>: every granted credit is put back until the channel is full.\<close>

fun charge_loop :: "nat \<Rightarrow> account \<Rightarrow> account" where
  "charge_loop 0 a = a"
| "charge_loop (Suc k) a =
     (if balance a < cap a then charge_loop k (a\<lparr>balance := Suc (balance a)\<rparr>) else a)"

definition charge :: "u16 \<Rightarrow> u16 \<Rightarrow> account \<Rightarrow> account" where
  "charge granted requested a =
     (if granted = 0 \<and> requested = 0 then a
      else
        let a = (if granted < requested
                 then a\<lparr>deficit := deficit a + (requested - granted)\<rparr> else a)
        in charge_loop (unat granted) a)"

subsection \<open>The account as a transition system\<close>

inductive acct_step :: "account \<Rightarrow> account \<Rightarrow> bool" where
  take: "loan ch cancelled a = Some (r, a') \<Longrightarrow> acct_step a a'"
| give: "account_opening a = (n, a') \<Longrightarrow> acct_step a a'"
| put_back: "acct_step a (charge g r a)"

inductive acct_reach :: "u16 \<Rightarrow> account \<Rightarrow> bool" for m where
  init: "openAccount m = Some a \<Longrightarrow> acct_reach m a"
| step: "acct_reach m a \<Longrightarrow> acct_step a a' \<Longrightarrow> acct_reach m a'"

inductive_cases acct_stepE: "acct_step a a'"

lemma loan_loop_eq:
  "loan_loop i k a = (of_nat (i + min k (balance a)), k \<le> balance a, a\<lparr>balance := balance a - k\<rparr>)"
  by (induction i k a rule: loan_loop.induct) (auto simp: min_def split: if_splits)

lemma charge_loop_eq: "charge_loop k a = a\<lparr>balance := max (balance a) (min (cap a) (balance a + k))\<rparr>"
  by (induction k a rule: charge_loop.induct) auto

lemma loan_eq:
  assumes "0 < balance a"
  shows "loan ch False a =
    (let want = max 1 (unat ch) in
     if want \<le> balance a then Some (Inr (ch, True), a\<lparr>balance := balance a - want\<rparr>)
     else Some (Inr (of_nat (balance a), False), a\<lparr>balance := 0\<rparr>))"
  using assms by (auto simp: loan_def loan_loop_eq Let_def min_def max_def)

lemma charge_eq:
  "charge g r a = a\<lparr>balance := max (balance a) (min (cap a) (balance a + unat g)),
     deficit := (if g < r then deficit a + (r - g) else deficit a)\<rparr>"
  by (auto simp: charge_def charge_loop_eq Let_def)

definition acct_inv :: "u16 \<Rightarrow> account \<Rightarrow> bool" where
  "acct_inv m a \<longleftrightarrow> cap a = unat m \<and> balance a \<le> cap a"

lemma acct_step_inv: "acct_step a a' \<Longrightarrow> acct_inv m a \<Longrightarrow> acct_inv m a'"
  by (cases rule: acct_step.cases)
    (auto simp: acct_inv_def loan_def loan_loop_eq account_opening_def charge_eq Let_def split: if_splits)

subsection \<open>Properties\<close>



text \<open>
  A loan that is granted in full and charged back as granted restores the balance; a
  partial loan returns the tokens it took, empties the balance and says so; and what was
  requested but not granted is the next opening, which is then cleared.
\<close>

theorem loan_then_charge:
  assumes "0 < balance a" "balance a \<le> cap a" "0 < ch" "balance a < 2 ^ 16"
  shows "\<exists>n full a'. loan ch False a = Some (Inr (n, full), a')
    \<and> (full \<longleftrightarrow> unat ch \<le> balance a) \<and> unat n = min (unat ch) (balance a)
    \<and> balance a' + unat n = balance a
    \<and> charge n ch a' = a\<lparr>deficit := deficit a + (ch - n)\<rparr>
    \<and> account_opening (charge n ch a') = (deficit a + (ch - n), a\<lparr>deficit := 0\<rparr>)"
proof -
  have ch: "max 1 (unat ch) = unat ch" using assms(3) by (simp add: max_def Suc_leI unat_gt_0)
  define n where "n = (if unat ch \<le> balance a then ch else of_nat (balance a))"
  have n: "unat n = min (unat ch) (balance a)"
    using assms(4) by (auto simp: n_def unat_of_nat min_def)
  have l: "loan ch False a = Some (Inr (n, unat ch \<le> balance a), a\<lparr>balance := balance a - unat n\<rparr>)"
    using loan_eq [OF assms(1), of ch] ch n by (auto simp: n_def Let_def)
  have "n < ch \<longleftrightarrow> n \<noteq> ch"
    using n by (cases "unat ch \<le> balance a") (auto simp: n_def word_less_nat_alt)
  then have c: "charge n ch (a\<lparr>balance := balance a - unat n\<rparr>) = a\<lparr>deficit := deficit a + (ch - n)\<rparr>"
    using assms(2) n by (auto simp: charge_eq intro!: account.equality)
  from l c n show ?thesis by (auto simp: account_opening_def)
qed

lemma loan_then_charge_witness:
  "\<exists>n full a'. loan 5 False \<lparr>balance = 2, cap = 128, deficit = 0\<rparr> = Some (Inr (n, full), a')
     \<and> \<not> full \<and> fst (account_opening (charge n 5 a')) = 5 - n"
  using loan_then_charge [of "\<lparr>balance = 2, cap = 128, deficit = 0\<rparr>" 5] by auto

end
