(* ===== verification/Utf16.thy ===== *)
theory Utf16
  imports Go_Slices
begin

section \<open>UTF-16 strings on the wire\<close>

text \<open>
  \<^verbatim>\<open>smb/internal/utf16le/utf16le.go\<close> with what it uses of the Go language and of
  \<^verbatim>\<open>unicode/utf16\<close>: a Go string is a byte string, \<^verbatim>\<open>[]rune(s)\<close> decodes it as UTF-8 (every
  byte that is not part of a valid sequence becomes U+FFFD), \<^verbatim>\<open>string(rs)\<close> encodes it.  Runes
  are natural numbers here.
\<close>

subsection \<open>Runes and UTF-8\<close>

definition RuneError :: nat where "RuneError = 0xFFFD"

definition scalar :: "nat \<Rightarrow> bool" where
  "scalar r \<longleftrightarrow> r < 0xD800 \<or> (0xE000 \<le> r \<and> r \<le> 0x10FFFF)"

definition utf8_of_rune :: "nat \<Rightarrow> nat list" where
  "utf8_of_rune r0 =
     (let r = (if scalar r0 then r0 else RuneError) in
      if r < 0x80 then [r]
      else if r < 0x800 then [0xC0 + r div 64, 0x80 + r mod 64]
      else if r < 0x10000 then [0xE0 + r div 4096, 0x80 + r div 64 mod 64, 0x80 + r mod 64]
      else [0xF0 + r div 262144, 0x80 + r div 4096 mod 64, 0x80 + r div 64 mod 64, 0x80 + r mod 64])"

text \<open>The length of a sequence and the range of its second byte, by its first byte.\<close>

definition lead :: "nat \<Rightarrow> (nat \<times> nat \<times> nat) option" where
  "lead b =
     (if 0xC2 \<le> b \<and> b \<le> 0xDF then Some (2, 0x80, 0xBF)
      else if b = 0xE0 then Some (3, 0xA0, 0xBF)
      else if b = 0xED then Some (3, 0x80, 0x9F)
      else if 0xE1 \<le> b \<and> b \<le> 0xEF then Some (3, 0x80, 0xBF)
      else if b = 0xF0 then Some (4, 0x90, 0xBF)
      else if 0xF1 \<le> b \<and> b \<le> 0xF3 then Some (4, 0x80, 0xBF)
      else if b = 0xF4 then Some (4, 0x80, 0x8F)
      else None)"

definition contb :: "nat \<Rightarrow> bool" where
  "contb b \<longleftrightarrow> 0x80 \<le> b \<and> b \<le> 0xBF"

fun DecodeRune :: "nat list \<Rightarrow> nat \<times> nat" where
  "DecodeRune [] = (RuneError, 0)"
| "DecodeRune (b # bs) =
     (if b < 0x80 then (b, 1)
      else case lead b of
        None \<Rightarrow> (RuneError, 1)
      | Some (n, lo, hi) \<Rightarrow>
          (case bs of
             b1 # bs1 \<Rightarrow>
               if \<not> (lo \<le> b1 \<and> b1 \<le> hi) then (RuneError, 1)
               else if n = 2 then (b mod 32 * 64 + b1 mod 64, 2)
               else (case bs1 of
                  b2 # bs2 \<Rightarrow>
                    if \<not> contb b2 then (RuneError, 1)
                    else if n = 3 then (b mod 16 * 4096 + b1 mod 64 * 64 + b2 mod 64, 3)
                    else (case bs2 of
                       b3 # bs3 \<Rightarrow>
                         if \<not> contb b3 then (RuneError, 1)
                         else (b mod 8 * 262144 + b1 mod 64 * 4096 + b2 mod 64 * 64 + b3 mod 64, 4)
                     | [] \<Rightarrow> (RuneError, 1))
                | [] \<Rightarrow> (RuneError, 1))
           | [] \<Rightarrow> (RuneError, 1)))"

lemma DecodeRune_size: "bs \<noteq> [] \<Longrightarrow> 0 < snd (DecodeRune bs)"
  by (cases bs) (auto split: option.splits list.splits)

declare DecodeRune.simps [simp del]

function runes_of :: "nat list \<Rightarrow> nat list" where
  "runes_of bs = (if bs = [] then [] else
     let (r, n) = DecodeRune bs in r # runes_of (drop n bs))"
  by pat_completeness auto
termination
proof (relation "measure length", goal_cases)
  case (2 bs x r n)
  then have "0 < n" "bs \<noteq> []" using DecodeRune_size [of bs] by (auto simp: prod_eq_iff)
  then show ?case by simp
qed simp

declare runes_of.simps [simp del]

definition bytes_of_string :: "string \<Rightarrow> nat list" where
  "bytes_of_string s = map of_char s"

definition runes :: "string \<Rightarrow> nat list" where
  "runes s = runes_of (bytes_of_string s)"

definition string_of_runes :: "nat list \<Rightarrow> string" where
  "string_of_runes rs = map char_of (concat (map utf8_of_rune rs))"

subsection \<open>unicode/utf16\<close>

fun utf16_Encode :: "nat list \<Rightarrow> u16 list" where
  "utf16_Encode [] = []"
| "utf16_Encode (v # vs) =
     (if v < 0xD800 \<or> (0xE000 \<le> v \<and> v < 0x10000) then of_nat v # utf16_Encode vs
      else if 0x10000 \<le> v \<and> v \<le> 0x10FFFF
      then of_nat (0xD800 + (v - 0x10000) div 1024) # of_nat (0xDC00 + (v - 0x10000) mod 1024) # utf16_Encode vs
      else of_nat RuneError # utf16_Encode vs)"

fun utf16_Decode :: "u16 list \<Rightarrow> nat list" where
  "utf16_Decode [] = []"
| "utf16_Decode [w] =
     (let r = unat w in [if r < 0xD800 \<or> 0xE000 \<le> r then r else RuneError])"
| "utf16_Decode (w # w' # ws) =
     (let r = unat w; r' = unat w' in
      if r < 0xD800 \<or> 0xE000 \<le> r then r # utf16_Decode (w' # ws)
      else if r < 0xDC00 \<and> 0xDC00 \<le> r' \<and> r' < 0xE000
      then ((r - 0xD800) * 1024 + (r' - 0xDC00) + 0x10000) # utf16_Decode ws
      else RuneError # utf16_Decode (w' # ws))"

subsection \<open>utf16le.go\<close>

definition EncodedStringLen :: "string \<Rightarrow> nat" where
  "EncodedStringLen s = sum_list (map (\<lambda>r. if 0x10000 \<le> r \<and> r \<le> 0x10FFFF then 4 else 2) (runes s))"

definition word_bytes :: "u16 list \<Rightarrow> byte list" where
  "word_bytes ws = concat (map (le_enc 2) ws)"

text \<open>\<^verbatim>\<open>EncodeString\<close> stores the words one after another and returns the number of bytes.\<close>

definition EncodeString :: "nat \<Rightarrow> string \<Rightarrow> byte list \<Rightarrow> (nat \<times> byte list) option" where
  "EncodeString off src buf =
     (let ws = utf16_Encode (runes src) in
      do { buf \<leftarrow> (if ws = [] then Some buf else put off (word_bytes ws) buf);
           Some (length ws * 2, buf) })"

definition EncodeStringToBytes :: "string \<Rightarrow> byte list" where
  "EncodeStringToBytes s = (if s = [] then [] else word_bytes (utf16_Encode (runes s)))"

fun words_of :: "byte list \<Rightarrow> u16 list" where
  "words_of (a # b # bs) = le_dec [a, b] # words_of bs"
| "words_of bs = []"

definition DecodeToString :: "byte list \<Rightarrow> string" where
  "DecodeToString bs =
     (if bs = [] then []
      else
        let ws = words_of bs;
            ws = (if ws \<noteq> [] \<and> last ws = 0 then butlast ws else ws)
        in string_of_runes (utf16_Decode ws))"

subsection \<open>Round trips\<close>

lemma DecodeRune_3:
  assumes "r = 4096 * x + 64 * y + z" "y < 64" "z < 64" "x < 16" "0x800 \<le> r" "scalar r"
  shows "DecodeRune ([0xE0 + x, 0x80 + y, 0x80 + z] @ bs) = (r, 3)"
proof -
  have "lead (0xE0 + x) = Some (3, if x = 0 then 0xA0 else 0x80, if x = 13 then 0x9F else 0xBF)"
    using assms(4) by (simp add: lead_def)
  moreover have "x = 0 \<longrightarrow> 32 \<le> y" "x = 13 \<longrightarrow> y \<le> 31"
    using assms by (auto simp: scalar_def)
  moreover have "(0xE0 + x) mod 16 = x" using assms(4) by (simp add: mod_add_eq [symmetric])
  moreover have "(0x80 + y) mod 64 = y" "(0x80 + z) mod 64 = z"
    using assms(2,3) by (simp_all add: mod_add_eq [symmetric])
  ultimately show ?thesis using assms by (simp add: DecodeRune.simps contb_def)
qed

lemma DecodeRune_4:
  assumes "r = 262144 * w + 4096 * x + 64 * y + z" "x < 64" "y < 64" "z < 64" "w < 5" "0x10000 \<le> r" "scalar r"
  shows "DecodeRune ([0xF0 + w, 0x80 + x, 0x80 + y, 0x80 + z] @ bs) = (r, 4)"
proof -
  have "lead (0xF0 + w) = Some (4, if w = 0 then 0x90 else 0x80, if w = 4 then 0x8F else 0xBF)"
    using assms(5) by (simp add: lead_def)
  moreover have "w = 0 \<longrightarrow> 16 \<le> x" "w = 4 \<longrightarrow> x \<le> 15"
    using assms by (auto simp: scalar_def)
  moreover have "(0xF0 + w) mod 8 = w" using assms(5) by (simp add: mod_add_eq [symmetric])
  moreover have "(0x80 + x) mod 64 = x" "(0x80 + y) mod 64 = y" "(0x80 + z) mod 64 = z"
    using assms(2-4) by (simp_all add: mod_add_eq [symmetric])
  ultimately show ?thesis using assms by (simp add: DecodeRune.simps contb_def)
qed

lemma digits64:
  "(r :: nat) = 4096 * (r div 4096) + 64 * (r div 64 mod 64) + r mod 64"
  "r = 262144 * (r div 262144) + 4096 * (r div 4096 mod 64) + 64 * (r div 64 mod 64) + r mod 64"
proof -
  have d: "r div 4096 = r div 64 div 64" "r div 262144 = r div 64 div 64 div 64"
    by (simp_all add: div_mult2_eq [symmetric])
  have "r = 64 * (r div 64) + r mod 64" "r div 64 = 64 * (r div 64 div 64) + r div 64 mod 64"
    "r div 64 div 64 = 64 * (r div 64 div 64 div 64) + r div 64 div 64 mod 64"
    by (simp_all only: mult_div_mod_eq)
  then show "r = 4096 * (r div 4096) + 64 * (r div 64 mod 64) + r mod 64"
    "r = 262144 * (r div 262144) + 4096 * (r div 4096 mod 64) + 64 * (r div 64 mod 64) + r mod 64"
    unfolding d by linarith+
qed

lemma DecodeRune_utf8:
  assumes "scalar r"
  shows "DecodeRune (utf8_of_rune r @ bs) = (r, length (utf8_of_rune r))"
proof -
  consider (a) "r < 0x80" | (b) "0x80 \<le> r" "r < 0x800" | (c) "0x800 \<le> r" "r < 0x10000"
    | (d) "0x10000 \<le> r" "r \<le> 0x10FFFF"
    using assms unfolding scalar_def by linarith
  then show ?thesis
  proof cases
    case a
    then show ?thesis using assms by (simp add: utf8_of_rune_def DecodeRune.simps)
  next
    case b
    then have "2 \<le> r div 64" "r div 64 < 32" by linarith+
    moreover from this have "(192 + r div 64) mod 32 = r div 64" by (simp add: mod_add_eq [symmetric])
    moreover have "(128 + r mod 64) mod 64 = r mod 64" by (simp add: mod_add_eq [symmetric])
    ultimately show ?thesis
      using assms b by (simp add: utf8_of_rune_def DecodeRune.simps lead_def)
  next
    case c
    have "r div 4096 < 16" using c by linarith
    from DecodeRune_3 [OF digits64(1) _ _ this c(1) assms, of bs] c assms
    show ?thesis by (simp add: utf8_of_rune_def)
  next
    case d
    have "r div 262144 < 5" using d by linarith
    from DecodeRune_4 [OF digits64(2) _ _ _ this d(1) assms, of bs] d assms
    show ?thesis by (simp add: utf8_of_rune_def)
  qed
qed

lemma utf8_nonempty [simp]: "utf8_of_rune r \<noteq> []"
  by (simp add: utf8_of_rune_def Let_def)

lemma runes_of_utf8:
  "list_all scalar rs \<Longrightarrow> runes_of (concat (map utf8_of_rune rs)) = rs"
proof (induction rs)
  case (Cons r rs)
  then show ?case
    by (subst runes_of.simps) (simp add: DecodeRune_utf8)
qed (simp add: runes_of.simps)

lemma utf8_byte: "b \<in> set (utf8_of_rune r) \<Longrightarrow> b < 256"
  by (auto simp: utf8_of_rune_def scalar_def RuneError_def Let_def split: if_splits)

lemma runes_string: "list_all scalar rs \<Longrightarrow> runes (string_of_runes rs) = rs"
proof -
  assume ok: "list_all scalar rs"
  have "map (of_char \<circ> char_of) (concat (map utf8_of_rune rs)) = concat (map utf8_of_rune rs)"
    by (rule map_idI) (auto dest!: utf8_byte)
  then show ?thesis using runes_of_utf8 [OF ok] by (simp add: runes_def bytes_of_string_def string_of_runes_def)
qed

lemma utf16_Decode_bmp:
  "unat w < 0xD800 \<or> 0xE000 \<le> unat w \<Longrightarrow> utf16_Decode (w # ws) = unat w # utf16_Decode ws"
  by (cases ws) auto

lemma utf16_Decode_pair:
  "0xD800 \<le> unat w \<Longrightarrow> unat w < 0xDC00 \<Longrightarrow> 0xDC00 \<le> unat w' \<Longrightarrow> unat w' < 0xE000 \<Longrightarrow>
   utf16_Decode (w # w' # ws) = ((unat w - 0xD800) * 1024 + (unat w' - 0xDC00) + 0x10000) # utf16_Decode ws"
  by simp

declare utf16_Decode.simps(2,3) [simp del]

lemma unat_u16: "v < 65536 \<Longrightarrow> unat (of_nat v :: u16) = v"
  by (simp add: unat_of_nat)

lemma utf16_Decode_Encode: "list_all scalar rs \<Longrightarrow> utf16_Decode (utf16_Encode rs) = rs"
proof (induction rs)
  case (Cons r rs)
  then have IH: "utf16_Decode (utf16_Encode rs) = rs" and r: "scalar r" by auto
  show ?case
  proof (cases "r < 0x10000")
    case True
    with r have "r < 0xD800 \<or> (0xE000 \<le> r \<and> r < 0x10000)" by (auto simp: scalar_def)
    with IH show ?thesis by (auto simp: utf16_Decode_bmp unat_u16)
  next
    case False
    with r have b: "0x10000 \<le> r" "r \<le> 0x10FFFF" by (auto simp: scalar_def)
    define h where "h = (r - 0x10000) div 1024"
    define l where "l = (r - 0x10000) mod 1024"
    have h: "h < 1024" and l: "l < 1024" and hl: "h * 1024 + l = r - 0x10000"
      using b by (auto simp: h_def l_def less_mult_imp_div_less)
    have "utf16_Encode (r # rs) = of_nat (0xD800 + h) # of_nat (0xDC00 + l) # utf16_Encode rs"
      using b by (simp add: h_def l_def)
    moreover have "unat (of_nat (0xD800 + h) :: u16) = 0xD800 + h" "unat (of_nat (0xDC00 + l) :: u16) = 0xDC00 + l"
      using h l by (intro unat_u16, simp)+
    ultimately show ?thesis
      using h l hl b IH utf16_Decode_pair [of "of_nat (0xD800 + h)" "of_nat (0xDC00 + l)" "utf16_Encode rs"]
      by simp
  qed
qed simp

lemma words_of_bytes [simp]: "words_of (word_bytes ws) = ws"
proof (induction ws)
  case (Cons w ws)
  have e: "le_enc 2 w = [ucast w, ucast (drop_bit 8 w)]" by (simp add: numeral_2_eq_2)
  then have "le_dec [ucast w, ucast (drop_bit 8 w)] = w" using le_dec_enc_full [of 2 w] by simp
  with Cons e show ?case by (simp add: word_bytes_def del: le_dec.simps)
qed (simp add: word_bytes_def)

lemma length_word_bytes [simp]: "length (word_bytes ws) = 2 * length ws"
  by (induction ws) (auto simp: word_bytes_def)

lemma length_utf16_Encode:
  "2 * length (utf16_Encode rs) = sum_list (map (\<lambda>r. if 0x10000 \<le> r \<and> r \<le> 0x10FFFF then 4 else 2) rs)"
  by (induction rs) auto

lemma utf16_Encode_last:
  "list_all scalar rs \<Longrightarrow> rs \<noteq> [] \<Longrightarrow> last rs \<noteq> 0 \<Longrightarrow> last (utf16_Encode rs) \<noteq> 0"
proof (induction rs)
  case (Cons r rs)
  have nz: "(of_nat v :: u16) \<noteq> 0" if "0 < v" "v < 65536" for v
    using that unat_u16 [of v] by (metis less_irrefl unat_0)
  have ne: "utf16_Encode rs \<noteq> []" if "rs \<noteq> []" using that by (cases rs) auto
  show ?case
  proof (cases "rs = []")
    case True
    have "0xDC00 + (r - 0x10000) mod 1024 < 65536" by (simp add: less_trans [OF mod_less_divisor])
    with True Cons.prems nz [of r] nz [of "0xDC00 + (r - 0x10000) mod 1024"] show ?thesis
      by (auto simp: scalar_def simp del: of_nat_add)
  next
    case False
    with Cons ne show ?thesis by auto
  qed
qed simp

lemma decode_word_bytes:
  assumes "list_all scalar rs" "rs = [] \<or> last rs \<noteq> 0"
  shows "DecodeToString (word_bytes (utf16_Encode rs)) = string_of_runes rs"
proof -
  let ?ws = "utf16_Encode rs"
  have s0: "string_of_runes rs = [] \<longleftrightarrow> rs = []" by (cases rs) (auto simp: string_of_runes_def)
  have ws0: "?ws = [] \<longleftrightarrow> rs = []" by (cases rs) auto
  have "last ?ws \<noteq> 0" if "rs \<noteq> []"
    using utf16_Encode_last [OF assms(1) that] assms(2) that by simp
  moreover have "word_bytes ?ws = [] \<longleftrightarrow> ?ws = []"
    using length_word_bytes [of ?ws] by (metis length_0_conv mult_eq_0_iff zero_neq_numeral)
  ultimately show ?thesis
    using utf16_Decode_Encode [OF assms(1)] s0 ws0 by (auto simp: DecodeToString_def Let_def)
qed

subsection \<open>Properties\<close>

text \<open>
  A name that is sent comes back: for every sequence of Unicode characters without a
  trailing NUL, decoding the encoded UTF-8 string gives the string, and the encoded length
  is the one that \<^verbatim>\<open>EncodedStringLen\<close> computes beforehand.
\<close>

theorem utf16_roundtrip:
  assumes "list_all scalar rs" "rs = [] \<or> last rs \<noteq> 0"
  defines "s \<equiv> string_of_runes rs"
  shows "DecodeToString (EncodeStringToBytes s) = s \<and> length (EncodeStringToBytes s) = EncodedStringLen s"
proof -
  have r: "runes s = rs" unfolding s_def by (rule runes_string [OF assms(1)])
  have s0: "s = [] \<longleftrightarrow> rs = []" by (cases rs) (auto simp: s_def string_of_runes_def)
  have b: "EncodeStringToBytes s = word_bytes (utf16_Encode rs)"
    using s0 r by (auto simp: EncodeStringToBytes_def word_bytes_def)
  with r length_utf16_Encode [of rs] decode_word_bytes [OF assms(1,2)] show ?thesis
    by (simp add: EncodedStringLen_def s_def)
qed

lemma utf16_roundtrip_witness:
  "DecodeToString (EncodeStringToBytes (string_of_runes [97, 233, 0x20AC, 0x1F600])) = string_of_runes [97, 233, 0x20AC, 0x1F600]"
  using utf16_roundtrip [of "[97, 233, 0x20AC, 0x1F600]"] by (simp add: scalar_def)

end
