(* ===== verification/Request.thy ===== *)
theory Request
  imports Packet Utf16
begin

section \<open>Request decoders\<close>

text \<open>
  \<^verbatim>\<open>smb/internal/smb2/request.go\<close>: the decoders that the server applies to the body of a
  request, that is to the packet without its 64-byte header.  A decoder is a \<^typ>\<open>slice\<close>; every
  accessor is \<open>None\<close> where the Go code panics.  Offsets and lengths are added at their width,
  as in the source: \<^verbatim>\<open>int(off+len)\<close> is the sum modulo the width, then converted.
\<close>

subsection \<open>Regions named by an offset and a length\<close>

text \<open>\<^verbatim>\<open>len(r) < int(off+len)-64\<close>: the region that ends at \<open>stop\<close> lies past the body.\<close>

definition ends_past :: "slice \<Rightarrow> nat \<Rightarrow> bool" where
  "ends_past r stop \<longleftrightarrow> int (len r) < int stop - 64"

text \<open>\<^verbatim>\<open>off -= 64; r[off : off+len]\<close> with 16-bit and with 32-bit variables.\<close>

definition region16 :: "u16 \<Rightarrow> u16 \<Rightarrow> slice \<Rightarrow> slice option" where
  "region16 off n r = sl_range (unat (off - 64)) (unat (off - 64 + n)) r"

definition region32 :: "u32 \<Rightarrow> u32 \<Rightarrow> slice \<Rightarrow> slice option" where
  "region32 off n r = sl_range (unat (off - 64)) (unat (off - 64 + n)) r"

subsection \<open>NegotiateRequestDecoder\<close>

definition NegotiateRequest_StructureSize :: "slice \<Rightarrow> u16 option" where
  "NegotiateRequest_StructureSize r = u16_in 0 2 r"

definition NegotiateRequest_DialectCount :: "slice \<Rightarrow> u16 option" where
  "NegotiateRequest_DialectCount r = u16_in 2 4 r"

definition NegotiateRequest_SecurityMode :: "slice \<Rightarrow> u16 option" where
  "NegotiateRequest_SecurityMode r = u16_in 4 6 r"

definition NegotiateRequest_Capabilities :: "slice \<Rightarrow> u32 option" where
  "NegotiateRequest_Capabilities r = u32_in 8 12 r"

definition NegotiateRequest_ClientGuid :: "slice \<Rightarrow> slice option" where
  "NegotiateRequest_ClientGuid r = sl_range 12 28 r"

definition NegotiateRequest_ClientStartTime :: "slice \<Rightarrow> slice option" where
  "NegotiateRequest_ClientStartTime r = sl_range 28 36 r"

definition NegotiateRequest_NegotiateContextOffset :: "slice \<Rightarrow> u32 option" where
  "NegotiateRequest_NegotiateContextOffset r = u32_in 28 32 r"

definition NegotiateRequest_NegotiateContextCount :: "slice \<Rightarrow> u16 option" where
  "NegotiateRequest_NegotiateContextCount r = u16_in 32 34 r"

definition NegotiateRequest_IsInvalid :: "slice \<Rightarrow> bool option" where
  "NegotiateRequest_IsInvalid r =
     (if len r < 36 then Some True
      else do {
        ss \<leftarrow> NegotiateRequest_StructureSize r;
        (if ss \<noteq> 36 then Some True
         else do {
        noff \<leftarrow> NegotiateRequest_NegotiateContextOffset r;
        (if noff AND 7 \<noteq> 0 then Some True
         else Some (int (len r) < int (unat noff) - 36)) }) })"

text \<open>\<^verbatim>\<open>36+2*r.DialectCount()\<close> is computed in 16 bits.\<close>

fun u16s_loop :: "nat \<Rightarrow> nat \<Rightarrow> slice \<Rightarrow> u16 list option" where
  "u16s_loop 0 i bs = Some []"
| "u16s_loop (Suc k) i bs = do {
     u \<leftarrow> u16_in (2 * i) (2 * i + 2) bs;
     us \<leftarrow> u16s_loop k (Suc i) bs;
     Some (u # us) }"

definition NegotiateRequest_Dialects :: "slice \<Rightarrow> u16 list option" where
  "NegotiateRequest_Dialects r = do {
     n \<leftarrow> NegotiateRequest_DialectCount r;
     bs \<leftarrow> sl_range 36 (unat (36 + 2 * n)) r;
     u16s_loop (len bs div 2) 0 bs }"

definition NegotiateRequest_NegotiateContextList :: "slice \<Rightarrow> slice option" where
  "NegotiateRequest_NegotiateContextList r = do {
     off \<leftarrow> NegotiateRequest_NegotiateContextOffset r;
     (if off < 64 then Some nil_slice else sl_from (unat (off - 64)) r) }"

subsection \<open>SessionSetupRequestDecoder\<close>

definition SessionSetupRequest_StructureSize :: "slice \<Rightarrow> u16 option" where
  "SessionSetupRequest_StructureSize r = u16_in 0 2 r"

definition SessionSetupRequest_Flags :: "slice \<Rightarrow> byte option" where
  "SessionSetupRequest_Flags r = sl_at 2 r"

definition SessionSetupRequest_SecurityMode :: "slice \<Rightarrow> byte option" where
  "SessionSetupRequest_SecurityMode r = sl_at 3 r"

definition SessionSetupRequest_Capabilities :: "slice \<Rightarrow> u32 option" where
  "SessionSetupRequest_Capabilities r = u32_in 4 8 r"

definition SessionSetupRequest_Channel :: "slice \<Rightarrow> u32 option" where
  "SessionSetupRequest_Channel r = u32_in 8 12 r"

definition SessionSetupRequest_PreviousSessionId :: "slice \<Rightarrow> u64 option" where
  "SessionSetupRequest_PreviousSessionId r = u64_in 16 24 r"

definition SessionSetupRequest_SecurityBufferOffset :: "slice \<Rightarrow> u16 option" where
  "SessionSetupRequest_SecurityBufferOffset r = u16_in 12 14 r"

definition SessionSetupRequest_SecurityBufferLength :: "slice \<Rightarrow> u16 option" where
  "SessionSetupRequest_SecurityBufferLength r = u16_in 14 16 r"

definition SessionSetupRequest_IsInvalid :: "slice \<Rightarrow> bool option" where
  "SessionSetupRequest_IsInvalid r =
     (if len r < 24 then Some True
      else do {
        ss \<leftarrow> SessionSetupRequest_StructureSize r;
        (if ss \<noteq> 25 then Some True
         else do {
        off \<leftarrow> SessionSetupRequest_SecurityBufferOffset r;
        n \<leftarrow> SessionSetupRequest_SecurityBufferLength r;
        Some (ends_past r (unat (off + n))) }) })"

definition SessionSetupRequest_SecurityBuffer :: "slice \<Rightarrow> slice option" where
  "SessionSetupRequest_SecurityBuffer r = do {
     off \<leftarrow> SessionSetupRequest_SecurityBufferOffset r;
     (if off < 64 + 24 then Some nil_slice
      else do {
        n \<leftarrow> SessionSetupRequest_SecurityBufferLength r;
        region16 off n r }) }"

subsection \<open>LogoffRequestDecoder\<close>

definition LogoffRequest_StructureSize :: "slice \<Rightarrow> u16 option" where
  "LogoffRequest_StructureSize r = u16_in 0 2 r"

definition LogoffRequest_IsInvalid :: "slice \<Rightarrow> bool option" where
  "LogoffRequest_IsInvalid r =
     (if len r < 4 then Some True
      else do {
        ss \<leftarrow> LogoffRequest_StructureSize r;
        (if ss \<noteq> 4 then Some True
         else Some False) })"

subsection \<open>TreeConnectRequestDecoder\<close>

definition TreeConnectRequest_StructureSize :: "slice \<Rightarrow> u16 option" where
  "TreeConnectRequest_StructureSize r = u16_in 0 2 r"

definition TreeConnectRequest_Flags :: "slice \<Rightarrow> u16 option" where
  "TreeConnectRequest_Flags r = u16_in 2 4 r"

definition TreeConnectRequest_PathOffset :: "slice \<Rightarrow> u16 option" where
  "TreeConnectRequest_PathOffset r = u16_in 4 6 r"

definition TreeConnectRequest_PathLength :: "slice \<Rightarrow> u16 option" where
  "TreeConnectRequest_PathLength r = u16_in 6 8 r"

definition TreeConnectRequest_IsInvalid :: "slice \<Rightarrow> bool option" where
  "TreeConnectRequest_IsInvalid r =
     (if len r < 8 then Some True
      else do {
        ss \<leftarrow> TreeConnectRequest_StructureSize r;
        (if ss \<noteq> 9 then Some True
         else do {
        off \<leftarrow> TreeConnectRequest_PathOffset r;
        n \<leftarrow> TreeConnectRequest_PathLength r;
        Some (ends_past r (unat (off + n))) }) })"

definition TreeConnectRequest_Path :: "slice \<Rightarrow> string option" where
  "TreeConnectRequest_Path r = do {
     off \<leftarrow> TreeConnectRequest_PathOffset r;
     (if off < 64 + 8 then Some []
      else do {
        n \<leftarrow> TreeConnectRequest_PathLength r;
        p \<leftarrow> region16 off n r;
        Some (DecodeToString (vis p)) }) }"

subsection \<open>TreeDisconnectRequestDecoder\<close>

definition TreeDisconnectRequest_StructureSize :: "slice \<Rightarrow> u16 option" where
  "TreeDisconnectRequest_StructureSize r = u16_in 0 2 r"

definition TreeDisconnectRequest_IsInvalid :: "slice \<Rightarrow> bool option" where
  "TreeDisconnectRequest_IsInvalid r =
     (if len r < 4 then Some True
      else do {
        ss \<leftarrow> TreeDisconnectRequest_StructureSize r;
        (if ss \<noteq> 4 then Some True
         else Some False) })"

subsection \<open>CreateRequestDecoder\<close>

definition CreateRequest_StructureSize :: "slice \<Rightarrow> u16 option" where
  "CreateRequest_StructureSize r = u16_in 0 2 r"

definition CreateRequest_SecurityFlags :: "slice \<Rightarrow> byte option" where
  "CreateRequest_SecurityFlags r = sl_at 2 r"

definition CreateRequest_RequestedOplockLevel :: "slice \<Rightarrow> byte option" where
  "CreateRequest_RequestedOplockLevel r = sl_at 3 r"

definition CreateRequest_ImpersonationLevel :: "slice \<Rightarrow> u32 option" where
  "CreateRequest_ImpersonationLevel r = u32_in 4 8 r"

definition CreateRequest_SmbCreateFlags :: "slice \<Rightarrow> u64 option" where
  "CreateRequest_SmbCreateFlags r = u64_in 8 16 r"

definition CreateRequest_DesiredAccess :: "slice \<Rightarrow> u32 option" where
  "CreateRequest_DesiredAccess r = u32_in 24 28 r"

definition CreateRequest_FileAttributes :: "slice \<Rightarrow> u32 option" where
  "CreateRequest_FileAttributes r = u32_in 28 32 r"

definition CreateRequest_ShareAccess :: "slice \<Rightarrow> u32 option" where
  "CreateRequest_ShareAccess r = u32_in 32 36 r"

definition CreateRequest_CreateDisposition :: "slice \<Rightarrow> u32 option" where
  "CreateRequest_CreateDisposition r = u32_in 36 40 r"

definition CreateRequest_CreateOptions :: "slice \<Rightarrow> u32 option" where
  "CreateRequest_CreateOptions r = u32_in 40 44 r"

definition CreateRequest_NameOffset :: "slice \<Rightarrow> u16 option" where
  "CreateRequest_NameOffset r = u16_in 44 46 r"

definition CreateRequest_NameLength :: "slice \<Rightarrow> u16 option" where
  "CreateRequest_NameLength r = u16_in 46 48 r"

definition CreateRequest_CreateContextsOffset :: "slice \<Rightarrow> u32 option" where
  "CreateRequest_CreateContextsOffset r = u32_in 48 52 r"

definition CreateRequest_CreateContextsLength :: "slice \<Rightarrow> u32 option" where
  "CreateRequest_CreateContextsLength r = u32_in 52 56 r"

definition CreateRequest_IsInvalid :: "slice \<Rightarrow> bool option" where
  "CreateRequest_IsInvalid r =
     (if len r < 56 then Some True
      else do {
        ss \<leftarrow> CreateRequest_StructureSize r;
        (if ss \<noteq> 57 then Some True
         else do {
        noff \<leftarrow> CreateRequest_NameOffset r;
        nlen \<leftarrow> CreateRequest_NameLength r;
        (if noff AND 7 \<noteq> 0 then Some True
         else if ends_past r (unat (noff + nlen)) then Some True
         else do {
           coff \<leftarrow> CreateRequest_CreateContextsOffset r;
           clen \<leftarrow> CreateRequest_CreateContextsLength r;
           Some (coff AND 7 \<noteq> 0 \<or> ends_past r (unat (coff + clen))) }) }) })"

definition CreateRequest_Name :: "slice \<Rightarrow> string option" where
  "CreateRequest_Name r = do {
     off \<leftarrow> CreateRequest_NameOffset r;
     n \<leftarrow> CreateRequest_NameLength r;
     p \<leftarrow> region16 off n r;
     Some (DecodeToString (vis p)) }"

definition CreateRequest_CreateContexts :: "slice \<Rightarrow> slice option" where
  "CreateRequest_CreateContexts r = do {
     n \<leftarrow> CreateRequest_CreateContextsLength r;
     (if n = 0 then Some nil_slice
      else do { off \<leftarrow> CreateRequest_CreateContextsOffset r; region32 off n r }) }"

text \<open>\<^verbatim>\<open>CreateContextDecoder\<close>.\<close>

definition CreateContext_Next :: "slice \<Rightarrow> u32 option" where
  "CreateContext_Next r = u32_in 0 4 r"

definition CreateContext_NameOffset :: "slice \<Rightarrow> u16 option" where
  "CreateContext_NameOffset r = u16_from 4 r"

definition CreateContext_NameLength :: "slice \<Rightarrow> u16 option" where
  "CreateContext_NameLength r = u16_from 6 r"

definition CreateContext_DataOffset :: "slice \<Rightarrow> u16 option" where
  "CreateContext_DataOffset r = u16_from 10 r"

definition CreateContext_DataLength :: "slice \<Rightarrow> u32 option" where
  "CreateContext_DataLength r = u32_from 12 r"

definition CreateContext_Buffer :: "slice \<Rightarrow> slice option" where
  "CreateContext_Buffer r = do {
     off \<leftarrow> CreateContext_DataOffset r;
     n \<leftarrow> CreateContext_DataLength r;
     sl_range (unat off) (unat (off + ucast n)) r }"

definition CreateContext_Name :: "slice \<Rightarrow> byte list option" where
  "CreateContext_Name r = do {
     off \<leftarrow> CreateContext_NameOffset r;
     n \<leftarrow> CreateContext_NameLength r;
     t \<leftarrow> sl_range (unat off) (unat (off + n)) r;
     Some (vis t) }"

subsection \<open>CloseRequestDecoder\<close>

definition CloseRequest_StructureSize :: "slice \<Rightarrow> u16 option" where
  "CloseRequest_StructureSize r = u16_in 0 2 r"

definition CloseRequest_Flags :: "slice \<Rightarrow> u16 option" where
  "CloseRequest_Flags r = u16_in 2 4 r"

definition CloseRequest_FileId :: "slice \<Rightarrow> slice option" where
  "CloseRequest_FileId r = sl_range 8 24 r"

definition CloseRequest_IsInvalid :: "slice \<Rightarrow> bool option" where
  "CloseRequest_IsInvalid r =
     (if len r < 24 then Some True
      else do {
        ss \<leftarrow> CloseRequest_StructureSize r;
        (if ss \<noteq> 24 then Some True
         else Some False) })"

subsection \<open>FlushRequestDecoder\<close>

definition FlushRequest_StructureSize :: "slice \<Rightarrow> u16 option" where
  "FlushRequest_StructureSize r = u16_in 0 2 r"

definition FlushRequest_FileId :: "slice \<Rightarrow> slice option" where
  "FlushRequest_FileId r = sl_range 8 24 r"

definition FlushRequest_IsInvalid :: "slice \<Rightarrow> bool option" where
  "FlushRequest_IsInvalid r =
     (if len r < 24 then Some True
      else do {
        ss \<leftarrow> FlushRequest_StructureSize r;
        (if ss \<noteq> 24 then Some True
         else Some False) })"

subsection \<open>ReadRequestDecoder\<close>

definition ReadRequest_StructureSize :: "slice \<Rightarrow> u16 option" where
  "ReadRequest_StructureSize r = u16_in 0 2 r"

definition ReadRequest_Padding :: "slice \<Rightarrow> byte option" where
  "ReadRequest_Padding r = sl_at 2 r"

definition ReadRequest_Flags :: "slice \<Rightarrow> byte option" where
  "ReadRequest_Flags r = sl_at 3 r"

definition ReadRequest_Length :: "slice \<Rightarrow> u32 option" where
  "ReadRequest_Length r = u32_in 4 8 r"

definition ReadRequest_Offset :: "slice \<Rightarrow> u64 option" where
  "ReadRequest_Offset r = u64_in 8 16 r"

definition ReadRequest_FileId :: "slice \<Rightarrow> slice option" where
  "ReadRequest_FileId r = sl_range 16 32 r"

definition ReadRequest_MinimumCount :: "slice \<Rightarrow> u32 option" where
  "ReadRequest_MinimumCount r = u32_in 32 36 r"

definition ReadRequest_Channel :: "slice \<Rightarrow> u32 option" where
  "ReadRequest_Channel r = u32_in 36 40 r"

definition ReadRequest_RemainingBytes :: "slice \<Rightarrow> u32 option" where
  "ReadRequest_RemainingBytes r = u32_in 40 44 r"

definition ReadRequest_ReadChannelInfoOffset :: "slice \<Rightarrow> u16 option" where
  "ReadRequest_ReadChannelInfoOffset r = u16_in 44 46 r"

definition ReadRequest_ReadChannelInfoLength :: "slice \<Rightarrow> u16 option" where
  "ReadRequest_ReadChannelInfoLength r = u16_in 46 48 r"

definition ReadRequest_IsInvalid :: "slice \<Rightarrow> bool option" where
  "ReadRequest_IsInvalid r =
     (if len r < 48 then Some True
      else do {
        ss \<leftarrow> ReadRequest_StructureSize r;
        (if ss \<noteq> 49 then Some True
         else do {
        off \<leftarrow> ReadRequest_ReadChannelInfoOffset r;
        n \<leftarrow> ReadRequest_ReadChannelInfoLength r;
        Some (len r < unat (off + n)) }) })"

subsection \<open>WriteRequestDecoder\<close>

definition WriteRequest_StructureSize :: "slice \<Rightarrow> u16 option" where
  "WriteRequest_StructureSize r = u16_in 0 2 r"

definition WriteRequest_DataOffset :: "slice \<Rightarrow> u16 option" where
  "WriteRequest_DataOffset r = u16_in 2 4 r"

definition WriteRequest_Length :: "slice \<Rightarrow> u32 option" where
  "WriteRequest_Length r = u32_in 4 8 r"

definition WriteRequest_Offset :: "slice \<Rightarrow> u64 option" where
  "WriteRequest_Offset r = u64_in 8 16 r"

definition WriteRequest_FileId :: "slice \<Rightarrow> slice option" where
  "WriteRequest_FileId r = sl_range 16 32 r"

definition WriteRequest_Channel :: "slice \<Rightarrow> u32 option" where
  "WriteRequest_Channel r = u32_in 32 36 r"

definition WriteRequest_RemainingBytes :: "slice \<Rightarrow> u32 option" where
  "WriteRequest_RemainingBytes r = u32_in 36 40 r"

definition WriteRequest_WriteChannelInfoOffset :: "slice \<Rightarrow> u16 option" where
  "WriteRequest_WriteChannelInfoOffset r = u16_in 40 42 r"

definition WriteRequest_WriteChannelInfoLength :: "slice \<Rightarrow> u16 option" where
  "WriteRequest_WriteChannelInfoLength r = u16_in 42 44 r"

definition WriteRequest_Flags :: "slice \<Rightarrow> u32 option" where
  "WriteRequest_Flags r = u32_in 44 48 r"

definition WriteRequest_IsInvalid :: "slice \<Rightarrow> bool option" where
  "WriteRequest_IsInvalid r =
     (if len r < 48 then Some True
      else do {
        ss \<leftarrow> WriteRequest_StructureSize r;
        (if ss \<noteq> 49 then Some True
         else do {
        woff \<leftarrow> WriteRequest_WriteChannelInfoOffset r;
        wlen \<leftarrow> WriteRequest_WriteChannelInfoLength r;
        (if ends_past r (unat (woff + wlen)) then Some True
         else do {
           off \<leftarrow> WriteRequest_DataOffset r;
           n \<leftarrow> WriteRequest_Length r;
           Some (ends_past r (unat (ucast off + n))) }) }) })"

definition WriteRequest_Data :: "slice \<Rightarrow> slice option" where
  "WriteRequest_Data r = do {
     off \<leftarrow> WriteRequest_DataOffset r;
     (if off < 64 then Some nil_slice
      else do {
        n \<leftarrow> WriteRequest_Length r;
        let stop = ucast (off - 64) + n in
        if len r < unat stop then Some nil_slice
        else sl_range (unat (off - 64)) (unat stop) r }) }"

subsection \<open>CancelRequestDecoder\<close>

definition CancelRequest_StructureSize :: "slice \<Rightarrow> u16 option" where
  "CancelRequest_StructureSize r = u16_in 0 2 r"

definition CancelRequest_IsInvalid :: "slice \<Rightarrow> bool option" where
  "CancelRequest_IsInvalid r =
     (if len r < 4 then Some True
      else do {
        ss \<leftarrow> CancelRequest_StructureSize r;
        (if ss \<noteq> 4 then Some True
         else Some False) })"

subsection \<open>IoctlRequestDecoder\<close>

definition IoctlRequest_StructureSize :: "slice \<Rightarrow> u16 option" where
  "IoctlRequest_StructureSize r = u16_in 0 2 r"

definition IoctlRequest_CtlCode :: "slice \<Rightarrow> u32 option" where
  "IoctlRequest_CtlCode r = u32_in 4 8 r"

definition IoctlRequest_FileId :: "slice \<Rightarrow> slice option" where
  "IoctlRequest_FileId r = sl_range 8 24 r"

definition IoctlRequest_InputOffset :: "slice \<Rightarrow> u32 option" where
  "IoctlRequest_InputOffset r = u32_in 24 28 r"

definition IoctlRequest_InputCount :: "slice \<Rightarrow> u32 option" where
  "IoctlRequest_InputCount r = u32_in 28 32 r"

definition IoctlRequest_MaxInputResponse :: "slice \<Rightarrow> u32 option" where
  "IoctlRequest_MaxInputResponse r = u32_in 32 36 r"

definition IoctlRequest_OutputOffset :: "slice \<Rightarrow> u32 option" where
  "IoctlRequest_OutputOffset r = u32_in 36 40 r"

definition IoctlRequest_OutputCount :: "slice \<Rightarrow> u32 option" where
  "IoctlRequest_OutputCount r = u32_in 40 44 r"

definition IoctlRequest_MaxOutputResponse :: "slice \<Rightarrow> u32 option" where
  "IoctlRequest_MaxOutputResponse r = u32_in 44 48 r"

definition IoctlRequest_Flags :: "slice \<Rightarrow> u32 option" where
  "IoctlRequest_Flags r = u32_in 48 52 r"

definition IoctlRequest_Data :: "slice \<Rightarrow> slice option" where
  "IoctlRequest_Data r = sl_from 56 r"

definition IoctlRequest_IsInvalid :: "slice \<Rightarrow> bool option" where
  "IoctlRequest_IsInvalid r =
     (if len r < 56 then Some True
      else do {
        ss \<leftarrow> IoctlRequest_StructureSize r;
        (if ss \<noteq> 57 then Some True
         else do {
        off \<leftarrow> IoctlRequest_InputOffset r;
        n \<leftarrow> IoctlRequest_InputCount r;
        Some (ends_past r (unat (off + n))) }) })"

subsection \<open>QueryDirectoryRequestDecoder\<close>

definition QueryDirectoryRequest_StructureSize :: "slice \<Rightarrow> u16 option" where
  "QueryDirectoryRequest_StructureSize r = u16_in 0 2 r"

definition QueryDirectoryRequest_FileInfoClass :: "slice \<Rightarrow> byte option" where
  "QueryDirectoryRequest_FileInfoClass r = (if len r < 3 then Some 0 else sl_at 2 r)"

definition QueryDirectoryRequest_Flags :: "slice \<Rightarrow> byte option" where
  "QueryDirectoryRequest_Flags r = (if len r < 4 then Some 0 else sl_at 3 r)"

definition QueryDirectoryRequest_FileIndex :: "slice \<Rightarrow> u32 option" where
  "QueryDirectoryRequest_FileIndex r = (if len r < 8 then Some 0 else u32_in 4 8 r)"

definition QueryDirectoryRequest_FileId :: "slice \<Rightarrow> slice option" where
  "QueryDirectoryRequest_FileId r = (if len r < 24 then Some nil_slice else sl_range 8 24 r)"

definition QueryDirectoryRequest_FileNameOffset :: "slice \<Rightarrow> u16 option" where
  "QueryDirectoryRequest_FileNameOffset r = (if len r < 26 then Some 0 else u16_in 24 26 r)"

definition QueryDirectoryRequest_FileNameLength :: "slice \<Rightarrow> u16 option" where
  "QueryDirectoryRequest_FileNameLength r = (if len r < 28 then Some 0 else u16_in 26 28 r)"

definition QueryDirectoryRequest_OutputBufferLength :: "slice \<Rightarrow> u32 option" where
  "QueryDirectoryRequest_OutputBufferLength r = (if len r < 32 then Some 0 else u32_in 28 32 r)"

definition QueryDirectoryRequest_IsInvalid :: "slice \<Rightarrow> bool option" where
  "QueryDirectoryRequest_IsInvalid r =
     (if len r < 32 then Some True
      else do {
        ss \<leftarrow> QueryDirectoryRequest_StructureSize r;
        (if ss \<noteq> 33 then Some True
         else do {
        off \<leftarrow> QueryDirectoryRequest_FileNameOffset r;
        n \<leftarrow> QueryDirectoryRequest_FileNameLength r;
        Some (ends_past r (unat (off + n))) }) })"

definition QueryDirectoryRequest_FileName :: "slice \<Rightarrow> string option" where
  "QueryDirectoryRequest_FileName r = do {
     off \<leftarrow> QueryDirectoryRequest_FileNameOffset r;
     (if unat off < 64 then Some []
      else do {
        n \<leftarrow> QueryDirectoryRequest_FileNameLength r;
        let lo = unat off - 64; hi = lo + unat n in
        if len r < hi then Some []
        else do { p \<leftarrow> sl_range lo hi r; Some (DecodeToString (vis p)) } }) }"

subsection \<open>ChangeNotifyRequestDecoder\<close>

definition ChangeNotifyRequest_StructureSize :: "slice \<Rightarrow> u16 option" where
  "ChangeNotifyRequest_StructureSize r = u16_in 0 2 r"

definition ChangeNotifyRequest_Flags :: "slice \<Rightarrow> u16 option" where
  "ChangeNotifyRequest_Flags r = u16_in 2 4 r"

definition ChangeNotifyRequest_FileId :: "slice \<Rightarrow> slice option" where
  "ChangeNotifyRequest_FileId r = sl_range 8 24 r"

definition ChangeNotifyRequest_OutputBufferLength :: "slice \<Rightarrow> u32 option" where
  "ChangeNotifyRequest_OutputBufferLength r = u32_in 4 8 r"

definition ChangeNotifyRequest_CompletionFilter :: "slice \<Rightarrow> u32 option" where
  "ChangeNotifyRequest_CompletionFilter r = u32_in 24 28 r"

definition ChangeNotifyRequest_IsInvalid :: "slice \<Rightarrow> bool option" where
  "ChangeNotifyRequest_IsInvalid r =
     (if len r \<noteq> 32 then Some True
      else do {
        ss \<leftarrow> ChangeNotifyRequest_StructureSize r;
        (if ss \<noteq> 32 then Some True
         else Some False) })"

subsection \<open>QueryInfoRequestDecoder\<close>

definition QueryInfoRequest_StructureSize :: "slice \<Rightarrow> u16 option" where
  "QueryInfoRequest_StructureSize r = u16_in 0 2 r"

definition QueryInfoRequest_InfoType :: "slice \<Rightarrow> byte option" where
  "QueryInfoRequest_InfoType r = sl_at 2 r"

definition QueryInfoRequest_FileInfoClass :: "slice \<Rightarrow> byte option" where
  "QueryInfoRequest_FileInfoClass r = sl_at 3 r"

definition QueryInfoRequest_OutputBufferLength :: "slice \<Rightarrow> u32 option" where
  "QueryInfoRequest_OutputBufferLength r = u32_in 4 8 r"

definition QueryInfoRequest_InputBufferOffset :: "slice \<Rightarrow> u16 option" where
  "QueryInfoRequest_InputBufferOffset r = u16_in 8 10 r"

definition QueryInfoRequest_InputBufferLength :: "slice \<Rightarrow> u32 option" where
  "QueryInfoRequest_InputBufferLength r = u32_in 12 16 r"

definition QueryInfoRequest_AdditionalInformation :: "slice \<Rightarrow> u32 option" where
  "QueryInfoRequest_AdditionalInformation r = u32_in 16 20 r"

definition QueryInfoRequest_Flags :: "slice \<Rightarrow> u32 option" where
  "QueryInfoRequest_Flags r = u32_in 20 24 r"

definition QueryInfoRequest_FileId :: "slice \<Rightarrow> slice option" where
  "QueryInfoRequest_FileId r = sl_range 24 40 r"

definition QueryInfoRequest_IsInvalid :: "slice \<Rightarrow> bool option" where
  "QueryInfoRequest_IsInvalid r =
     (if len r < 40 then Some True
      else do {
        ss \<leftarrow> QueryInfoRequest_StructureSize r;
        (if ss \<noteq> 41 then Some True
         else do {
        off \<leftarrow> QueryInfoRequest_InputBufferOffset r;
        n \<leftarrow> QueryInfoRequest_InputBufferLength r;
        Some (ends_past r (unat (ucast off + n))) }) })"

subsection \<open>SetInfoRequestDecoder\<close>

definition SetInfoRequest_StructureSize :: "slice \<Rightarrow> u16 option" where
  "SetInfoRequest_StructureSize r = u16_in 0 2 r"

definition SetInfoRequest_InfoType :: "slice \<Rightarrow> byte option" where
  "SetInfoRequest_InfoType r = sl_at 2 r"

definition SetInfoRequest_FileInfoClass :: "slice \<Rightarrow> byte option" where
  "SetInfoRequest_FileInfoClass r = sl_at 3 r"

definition SetInfoRequest_BufferLength :: "slice \<Rightarrow> u32 option" where
  "SetInfoRequest_BufferLength r = u32_in 4 8 r"

definition SetInfoRequest_BufferOffset :: "slice \<Rightarrow> u16 option" where
  "SetInfoRequest_BufferOffset r = u16_in 8 10 r"

definition SetInfoRequest_AdditionalInformation :: "slice \<Rightarrow> u32 option" where
  "SetInfoRequest_AdditionalInformation r = u32_in 12 16 r"

definition SetInfoRequest_FileId :: "slice \<Rightarrow> slice option" where
  "SetInfoRequest_FileId r = sl_range 16 32 r"

definition SetInfoRequest_Buffer :: "slice \<Rightarrow> slice option" where
  "SetInfoRequest_Buffer r = sl_from 32 r"

definition SetInfoRequest_IsInvalid :: "slice \<Rightarrow> bool option" where
  "SetInfoRequest_IsInvalid r =
     (if len r < 32 then Some True
      else do {
        ss \<leftarrow> SetInfoRequest_StructureSize r;
        (if ss \<noteq> 33 then Some True
         else do {
        off \<leftarrow> SetInfoRequest_BufferOffset r;
        n \<leftarrow> SetInfoRequest_BufferLength r;
        Some (ends_past r (unat (ucast off + n))) }) })"

lemmas accessor_defs =
  NegotiateRequest_StructureSize_def NegotiateRequest_DialectCount_def
  NegotiateRequest_SecurityMode_def NegotiateRequest_Capabilities_def
  NegotiateRequest_ClientGuid_def NegotiateRequest_ClientStartTime_def
  NegotiateRequest_NegotiateContextOffset_def NegotiateRequest_NegotiateContextCount_def
  SessionSetupRequest_StructureSize_def SessionSetupRequest_Flags_def
  SessionSetupRequest_SecurityMode_def SessionSetupRequest_Capabilities_def
  SessionSetupRequest_Channel_def SessionSetupRequest_PreviousSessionId_def
  SessionSetupRequest_SecurityBufferOffset_def SessionSetupRequest_SecurityBufferLength_def
  LogoffRequest_StructureSize_def TreeConnectRequest_StructureSize_def
  TreeConnectRequest_Flags_def TreeConnectRequest_PathOffset_def
  TreeConnectRequest_PathLength_def TreeDisconnectRequest_StructureSize_def
  CreateRequest_StructureSize_def CreateRequest_SecurityFlags_def
  CreateRequest_RequestedOplockLevel_def CreateRequest_ImpersonationLevel_def
  CreateRequest_SmbCreateFlags_def CreateRequest_DesiredAccess_def
  CreateRequest_FileAttributes_def CreateRequest_ShareAccess_def
  CreateRequest_CreateDisposition_def CreateRequest_CreateOptions_def
  CreateRequest_NameOffset_def CreateRequest_NameLength_def
  CreateRequest_CreateContextsOffset_def CreateRequest_CreateContextsLength_def
  CloseRequest_StructureSize_def CloseRequest_Flags_def
  CloseRequest_FileId_def FlushRequest_StructureSize_def
  FlushRequest_FileId_def ReadRequest_StructureSize_def
  ReadRequest_Padding_def ReadRequest_Flags_def
  ReadRequest_Length_def ReadRequest_Offset_def
  ReadRequest_FileId_def ReadRequest_MinimumCount_def
  ReadRequest_Channel_def ReadRequest_RemainingBytes_def
  ReadRequest_ReadChannelInfoOffset_def ReadRequest_ReadChannelInfoLength_def
  WriteRequest_StructureSize_def WriteRequest_DataOffset_def
  WriteRequest_Length_def WriteRequest_Offset_def
  WriteRequest_FileId_def WriteRequest_Channel_def
  WriteRequest_RemainingBytes_def WriteRequest_WriteChannelInfoOffset_def
  WriteRequest_WriteChannelInfoLength_def WriteRequest_Flags_def
  CancelRequest_StructureSize_def IoctlRequest_StructureSize_def
  IoctlRequest_CtlCode_def IoctlRequest_FileId_def
  IoctlRequest_InputOffset_def IoctlRequest_InputCount_def
  IoctlRequest_MaxInputResponse_def IoctlRequest_OutputOffset_def
  IoctlRequest_OutputCount_def IoctlRequest_MaxOutputResponse_def
  IoctlRequest_Flags_def IoctlRequest_Data_def
  QueryDirectoryRequest_StructureSize_def QueryDirectoryRequest_FileInfoClass_def
  QueryDirectoryRequest_Flags_def QueryDirectoryRequest_FileIndex_def
  QueryDirectoryRequest_FileId_def QueryDirectoryRequest_FileNameOffset_def
  QueryDirectoryRequest_FileNameLength_def QueryDirectoryRequest_OutputBufferLength_def
  ChangeNotifyRequest_StructureSize_def ChangeNotifyRequest_Flags_def
  ChangeNotifyRequest_FileId_def ChangeNotifyRequest_OutputBufferLength_def
  ChangeNotifyRequest_CompletionFilter_def QueryInfoRequest_StructureSize_def
  QueryInfoRequest_InfoType_def QueryInfoRequest_FileInfoClass_def
  QueryInfoRequest_OutputBufferLength_def QueryInfoRequest_InputBufferOffset_def
  QueryInfoRequest_InputBufferLength_def QueryInfoRequest_AdditionalInformation_def
  QueryInfoRequest_Flags_def QueryInfoRequest_FileId_def
  SetInfoRequest_StructureSize_def SetInfoRequest_InfoType_def
  SetInfoRequest_FileInfoClass_def SetInfoRequest_BufferLength_def
  SetInfoRequest_BufferOffset_def SetInfoRequest_AdditionalInformation_def
  SetInfoRequest_FileId_def SetInfoRequest_Buffer_def

lemmas IsInvalid_defs =
  NegotiateRequest_IsInvalid_def
  SessionSetupRequest_IsInvalid_def
  LogoffRequest_IsInvalid_def
  TreeConnectRequest_IsInvalid_def
  TreeDisconnectRequest_IsInvalid_def
  CreateRequest_IsInvalid_def
  CloseRequest_IsInvalid_def
  FlushRequest_IsInvalid_def
  ReadRequest_IsInvalid_def
  WriteRequest_IsInvalid_def
  CancelRequest_IsInvalid_def
  IoctlRequest_IsInvalid_def
  QueryDirectoryRequest_IsInvalid_def
  ChangeNotifyRequest_IsInvalid_def
  QueryInfoRequest_IsInvalid_def
  SetInfoRequest_IsInvalid_def

subsection \<open>Shared facts\<close>

lemma sl_range_None_iff: "sl_range lo hi r = None \<longleftrightarrow> hi < lo \<or> capacity r < hi"
  by (auto simp: sl_range_def Let_def)

lemma off16: "64 \<le> off \<Longrightarrow> unat (off - 64 :: u16) = unat off - 64"
  using unat_sub [of 64 off] by (simp add: word_le_nat_alt)

lemma off16_ge: "(k :: nat) < 65536 \<Longrightarrow> off < of_nat k \<longleftrightarrow> unat (off :: u16) < k"
  by (simp add: word_less_nat_alt unat_of_nat)

lemma plus16: "unat (a + b :: u16) = (unat a + unat b) mod 65536"
  by (simp add: unat_word_ariths)

lemma plus32: "unat (a + b :: u32) = (unat a + unat b) mod 4294967296"
  by (simp add: unat_word_ariths)

lemma u16_lt: "unat (a :: u16) < 65536"
  using unsigned_less [where ?'a = nat and w = a] by simp

lemma u32_lt: "unat (a :: u32) < 4294967296"
  using unsigned_less [where ?'a = nat and w = a] by simp

lemma ucast16_32 [simp]: "unat (ucast (a :: u16) :: u32) = unat a"
  using unsigned_less [where ?'a = nat and w = a]
  by (simp add: unsigned_ucast_eq take_bit_nat_eq_self)

text \<open>
  When a region is refused: it runs past the capacity of the packet's buffer, or its end
  wraps around below its start.
\<close>

lemma region16_None_iff:
  assumes "64 \<le> unat off"
  shows "region16 off n r = None \<longleftrightarrow>
    65536 \<le> unat off - 64 + unat n \<or> capacity r < unat off - 64 + unat n"
proof -
  define lo where "lo = unat off - 64"
  have o: "unat (off - 64) = lo" unfolding lo_def using assms by (intro off16) (simp add: word_le_nat_alt)
  have s: "unat (off - 64 + n) = (lo + unat n) mod 65536" by (simp add: plus16 o)
  have r: "region16 off n r = None \<longleftrightarrow> (lo + unat n) mod 65536 < lo \<or> capacity r < (lo + unat n) mod 65536"
    by (simp add: region16_def sl_range_None_iff s o)
  have "(lo + unat n) mod 65536 < lo" if "65536 \<le> lo + unat n"
  proof -
    have "lo + unat n < 131072" using u16_lt [of off] u16_lt [of n] by (simp add: lo_def)
    with that have "(lo + unat n) mod 65536 = lo + unat n - 65536" by (simp add: mod_if)
    then show ?thesis using u16_lt [of n] that by linarith
  qed
  then show ?thesis unfolding r lo_def [symmetric] by (cases "lo + unat n < 65536") auto
qed

lemma ends_past16:
  "\<not> ends_past r (unat (off + n :: u16)) \<longleftrightarrow> (unat off + unat n) mod 65536 \<le> len r + 64"
  by (simp add: ends_past_def plus16) linarith

lemma IsInvalid_defined:
  "NegotiateRequest_IsInvalid r \<noteq> None"
  "SessionSetupRequest_IsInvalid r \<noteq> None"
  "LogoffRequest_IsInvalid r \<noteq> None"
  "TreeConnectRequest_IsInvalid r \<noteq> None"
  "TreeDisconnectRequest_IsInvalid r \<noteq> None"
  "CreateRequest_IsInvalid r \<noteq> None"
  "CloseRequest_IsInvalid r \<noteq> None"
  "FlushRequest_IsInvalid r \<noteq> None"
  "ReadRequest_IsInvalid r \<noteq> None"
  "WriteRequest_IsInvalid r \<noteq> None"
  "CancelRequest_IsInvalid r \<noteq> None"
  "IoctlRequest_IsInvalid r \<noteq> None"
  "QueryDirectoryRequest_IsInvalid r \<noteq> None"
  "ChangeNotifyRequest_IsInvalid r \<noteq> None"
  "QueryInfoRequest_IsInvalid r \<noteq> None"
  "SetInfoRequest_IsInvalid r \<noteq> None"
  subgoal by (auto simp: NegotiateRequest_IsInvalid_def accessor_defs panic_simps)
  subgoal by (auto simp: SessionSetupRequest_IsInvalid_def accessor_defs panic_simps)
  subgoal by (auto simp: LogoffRequest_IsInvalid_def accessor_defs panic_simps)
  subgoal by (auto simp: TreeConnectRequest_IsInvalid_def accessor_defs panic_simps)
  subgoal by (auto simp: TreeDisconnectRequest_IsInvalid_def accessor_defs panic_simps)
  subgoal by (auto simp: CreateRequest_IsInvalid_def accessor_defs panic_simps)
  subgoal by (auto simp: CloseRequest_IsInvalid_def accessor_defs panic_simps)
  subgoal by (auto simp: FlushRequest_IsInvalid_def accessor_defs panic_simps)
  subgoal by (auto simp: ReadRequest_IsInvalid_def accessor_defs panic_simps)
  subgoal by (auto simp: WriteRequest_IsInvalid_def accessor_defs panic_simps)
  subgoal by (auto simp: CancelRequest_IsInvalid_def accessor_defs panic_simps)
  subgoal by (auto simp: IoctlRequest_IsInvalid_def accessor_defs panic_simps)
  subgoal by (auto simp: QueryDirectoryRequest_IsInvalid_def accessor_defs panic_simps)
  subgoal by (auto simp: ChangeNotifyRequest_IsInvalid_def accessor_defs panic_simps)
  subgoal by (auto simp: QueryInfoRequest_IsInvalid_def accessor_defs panic_simps)
  subgoal by (auto simp: SetInfoRequest_IsInvalid_def accessor_defs panic_simps)
  done

text \<open>What acceptance gives for the fixed part.\<close>

lemma accepted_length:
  "NegotiateRequest_IsInvalid r = Some False \<Longrightarrow> 36 \<le> len r"
  "SessionSetupRequest_IsInvalid r = Some False \<Longrightarrow> 24 \<le> len r"
  "TreeConnectRequest_IsInvalid r = Some False \<Longrightarrow> 8 \<le> len r"
  "CreateRequest_IsInvalid r = Some False \<Longrightarrow> 56 \<le> len r"
  "CloseRequest_IsInvalid r = Some False \<Longrightarrow> 24 \<le> len r"
  "WriteRequest_IsInvalid r = Some False \<Longrightarrow> 48 \<le> len r"
  "IoctlRequest_IsInvalid r = Some False \<Longrightarrow> 56 \<le> len r"
  "QueryDirectoryRequest_IsInvalid r = Some False \<Longrightarrow> 32 \<le> len r"
  "SetInfoRequest_IsInvalid r = Some False \<Longrightarrow> 32 \<le> len r"
  by (auto simp: IsInvalid_defs split: if_splits)

lemma SessionSetup_accepted:
  assumes "SessionSetupRequest_IsInvalid r = Some False"
  obtains off n where "SessionSetupRequest_SecurityBufferOffset r = Some off"
    "SessionSetupRequest_SecurityBufferLength r = Some n" "(unat off + unat n) mod 65536 \<le> len r + 64"
  using assms accepted_length(2) [OF assms]
  by (auto simp: SessionSetupRequest_IsInvalid_def bind_Some_iff ends_past16 split: if_splits)

lemma TreeConnect_accepted:
  assumes "TreeConnectRequest_IsInvalid r = Some False"
  obtains off n where "TreeConnectRequest_PathOffset r = Some off"
    "TreeConnectRequest_PathLength r = Some n" "(unat off + unat n) mod 65536 \<le> len r + 64"
  using assms accepted_length(3) [OF assms]
  by (auto simp: TreeConnectRequest_IsInvalid_def bind_Some_iff ends_past16 split: if_splits)

subsection \<open>Properties\<close>

text \<open>
  Deciding whether a request is valid never panics, for any bytes and any of the sixteen
  request types.
\<close>

theorem IsInvalid_total:
  "list_all (\<lambda>f. f r \<noteq> None)
    [NegotiateRequest_IsInvalid, SessionSetupRequest_IsInvalid, LogoffRequest_IsInvalid,
     TreeConnectRequest_IsInvalid, TreeDisconnectRequest_IsInvalid, CreateRequest_IsInvalid,
     CloseRequest_IsInvalid, FlushRequest_IsInvalid, ReadRequest_IsInvalid, WriteRequest_IsInvalid,
     CancelRequest_IsInvalid, IoctlRequest_IsInvalid, QueryDirectoryRequest_IsInvalid,
     ChangeNotifyRequest_IsInvalid, QueryInfoRequest_IsInvalid, SetInfoRequest_IsInvalid]"
  by (simp add: IsInvalid_defined del: not_None_eq)

text \<open>
  An accepted session setup request is read without a panic exactly when its security
  buffer does not reach past the 16-bit range: \<^verbatim>\<open>IsInvalid\<close> compares the sum of offset and
  length modulo 65536, so a request whose sum wraps is accepted and reading its buffer
  panics (unless the buffer of the whole frame happens to be that long).
\<close>

theorem session_setup_buffer_panics_iff:
  assumes "SessionSetupRequest_IsInvalid r = Some False"
    "SessionSetupRequest_SecurityBufferOffset r = Some off"
    "SessionSetupRequest_SecurityBufferLength r = Some n"
  shows "SessionSetupRequest_SecurityBuffer r = None \<longleftrightarrow>
    88 \<le> unat off \<and> 65536 \<le> unat off + unat n
    \<and> (65536 \<le> unat off - 64 + unat n \<or> capacity r < unat off - 64 + unat n)"
proof -
  have in_range: "(unat off + unat n) mod 65536 \<le> len r + 64"
    using SessionSetup_accepted [OF assms(1)] assms(2,3) by auto
  have small: "off < 64 + 24 \<longleftrightarrow> unat off < 88"
    using off16_ge [of 88 off] by simp
  show ?thesis
  proof (cases "unat off < 88")
    case True
    then show ?thesis using assms small by (simp add: SessionSetupRequest_SecurityBuffer_def)
  next
    case False
    then have "SessionSetupRequest_SecurityBuffer r = region16 off n r"
      using assms small by (simp add: SessionSetupRequest_SecurityBuffer_def)
    moreover have "unat off - 64 + unat n \<le> capacity r" if "unat off + unat n < 65536"
      using in_range that False len_le_capacity [of r] by simp
    ultimately show ?thesis using False region16_None_iff [of off n r] by fastforce
  qed
qed

definition wrapping_session_setup :: slice where
  "wrapping_session_setup = Slice (le_enc 2 (25 :: u16) @ zeros 10 @ le_enc 2 (0xFFF0 :: u16)
     @ le_enc 2 (0x0060 :: u16) @ zeros 8) []"

lemma session_setup_buffer_panics_iff_witness:
  "SessionSetupRequest_IsInvalid wrapping_session_setup = Some False
   \<and> SessionSetupRequest_SecurityBuffer wrapping_session_setup = None"
proof -
  let ?r = wrapping_session_setup
  have l: "len ?r = 24" by (simp add: wrapping_session_setup_def)
  have off: "SessionSetupRequest_SecurityBufferOffset ?r = Some 0xFFF0"
    and n: "SessionSetupRequest_SecurityBufferLength ?r = Some 0x60"
    and ss: "SessionSetupRequest_StructureSize ?r = Some 25"
    using l by (simp_all add: accessor_defs u16_in_in) (simp_all add: wrapping_session_setup_def)
  have inv: "SessionSetupRequest_IsInvalid ?r = Some False"
    using l off n ss by (simp add: SessionSetupRequest_IsInvalid_def ends_past_def)
  with session_setup_buffer_panics_iff [OF inv off n] show ?thesis
    by (simp add: wrapping_session_setup_def)
qed

text \<open>The same holds of the path of a tree connect request.\<close>

theorem tree_connect_path_panics_iff:
  assumes "TreeConnectRequest_IsInvalid r = Some False"
    "TreeConnectRequest_PathOffset r = Some off" "TreeConnectRequest_PathLength r = Some n"
  shows "TreeConnectRequest_Path r = None \<longleftrightarrow>
    72 \<le> unat off \<and> 65536 \<le> unat off + unat n
    \<and> (65536 \<le> unat off - 64 + unat n \<or> capacity r < unat off - 64 + unat n)"
proof -
  have in_range: "(unat off + unat n) mod 65536 \<le> len r + 64"
    using TreeConnect_accepted [OF assms(1)] assms(2,3) by auto
  have small: "off < 64 + 8 \<longleftrightarrow> unat off < 72"
    using off16_ge [of 72 off] by simp
  show ?thesis
  proof (cases "unat off < 72")
    case True
    then show ?thesis using assms small by (simp add: TreeConnectRequest_Path_def)
  next
    case False
    then have "TreeConnectRequest_Path r = None \<longleftrightarrow> region16 off n r = None"
      using assms small by (auto simp: TreeConnectRequest_Path_def bind_None_iff)
    moreover have "unat off - 64 + unat n \<le> capacity r" if "unat off + unat n < 65536"
      using in_range that False len_le_capacity [of r] by simp
    ultimately show ?thesis using False region16_None_iff [of off n r] by fastforce
  qed
qed

lemma tree_connect_path_panics_iff_witness:
  "TreeConnectRequest_Path (Slice ([9, 0, 0, 0, 72, 0, 4, 0] @ [65, 0, 66, 0]) []) \<noteq> None"
  using tree_connect_path_panics_iff [of "Slice ([9, 0, 0, 0, 72, 0, 4, 0] @ [65, 0, 66, 0]) []" 72 4]
  by (simp add: TreeConnectRequest_IsInvalid_def accessor_defs u16_in_in ends_past_def)

text \<open>
  A negotiate request is accepted whatever its dialect count says: the count is not
  checked against the body, and when it names more dialects than the buffer of the frame
  holds (or wraps the 16-bit end below 36), listing them panics.
\<close>

theorem negotiate_dialects_panics_iff:
  assumes "NegotiateRequest_IsInvalid r = Some False" "NegotiateRequest_DialectCount r = Some n"
  shows "NegotiateRequest_Dialects r = None \<longleftrightarrow>
    (let stop = (36 + 2 * unat n) mod 65536 in stop < 36 \<or> capacity r < stop)"
proof -
  have stop: "unat (36 + 2 * n) = (36 + 2 * unat n) mod 65536"
    by (simp add: unat_word_ariths mod_simps)
  have loop: "u16s_loop k i bs \<noteq> None" if "2 * (i + k) \<le> len bs" for k i bs
    using that
  proof (induction k arbitrary: i)
    case (Suc k)
    then have "2 * (Suc i + k) \<le> len bs" by simp
    from Suc.IH [OF this] obtain us where "u16s_loop k (Suc i) bs = Some us" by auto
    with Suc.prems show ?case by (simp add: u16_in_in)
  qed simp
  have "u16s_loop (len bs div 2) 0 bs \<noteq> None" for bs
    by (rule loop) simp
  then have "NegotiateRequest_Dialects r = None \<longleftrightarrow> sl_range 36 (unat (36 + 2 * n)) r = None"
    using assms(2)
    by (cases "sl_range 36 (unat (36 + 2 * n)) r") (simp_all add: NegotiateRequest_Dialects_def del: not_None_eq)
  then show ?thesis by (simp add: sl_range_None_iff stop Let_def)
qed

lemma negotiate_dialects_panics_iff_witness:
  "let r = Slice ([36, 0, 5, 0] @ zeros 34) [] in
   NegotiateRequest_IsInvalid r = Some False \<and> NegotiateRequest_Dialects r = None"
  using negotiate_dialects_panics_iff [of "Slice ([36, 0, 5, 0] @ zeros 34) []" 5]
  by (simp add: NegotiateRequest_IsInvalid_def accessor_defs u16_in_in u32_in_in drop_zeros take_zeros
      zeros_def [symmetric] drop_Cons')

text \<open>
  The data of an accepted write request is the bytes between its offset and its end, or
  nothing when they are not all there; reading it panics exactly when the end wraps around
  the 32-bit range, which \<^verbatim>\<open>IsInvalid\<close> does not notice.
\<close>

theorem write_data_panics_iff:
  assumes "WriteRequest_IsInvalid r = Some False"
    "WriteRequest_DataOffset r = Some off" "WriteRequest_Length r = Some n"
  shows "WriteRequest_Data r = None \<longleftrightarrow> 64 \<le> unat off \<and> 4294967296 \<le> unat off - 64 + unat n"
proof -
  have small: "off < 64 \<longleftrightarrow> unat off < 64" using off16_ge [of 64 off] by simp
  have "\<not> ends_past r (unat (ucast off + n))"
    using assms accepted_length(6) [OF assms(1)]
    by (auto simp: WriteRequest_IsInvalid_def bind_Some_iff split: if_splits)
  then have in_range: "(unat off + unat n) mod 4294967296 \<le> len r + 64"
    by (simp add: ends_past_def plus32)
  show ?thesis
  proof (cases "unat off < 64")
    case True
    then show ?thesis using assms small by (simp add: WriteRequest_Data_def)
  next
    case False
    let ?o = "unat off - 64"
    have o: "unat (off - 64) = ?o" using False by (intro off16) (simp add: word_le_nat_alt)
    have s: "unat (ucast (off - 64) + n :: u32) = (?o + unat n) mod 4294967296"
      by (simp add: plus32 o)
    have d: "WriteRequest_Data r = (let stop = (?o + unat n) mod 4294967296 in
        if len r < stop then Some nil_slice else sl_range ?o stop r)"
      using assms small False by (simp add: WriteRequest_Data_def Let_def s o)
    show ?thesis
    proof (cases "?o + unat n < 4294967296")
      case True
      then show ?thesis using d len_le_capacity [of r] by (simp add: Let_def sl_range_None_iff del: not_None_eq)
    next
      case wrap: False
      have "?o + unat n < 2 * 4294967296" using u16_lt [of off] u32_lt [of n] by simp
      with wrap have m: "(?o + unat n) mod 4294967296 = ?o + unat n - 4294967296" by (simp add: mod_if)
      have lt: "?o + unat n - 4294967296 < ?o" using u32_lt [of n] wrap by simp
      have "(unat off + unat n) mod 4294967296 = unat off + unat n - 4294967296"
        using wrap u16_lt [of off] u32_lt [of n] False by (simp add: mod_if)
      with in_range False wrap have "?o + unat n - 4294967296 \<le> len r" by simp
      then show ?thesis using d m lt wrap False by (simp add: Let_def sl_range_None_iff)
    qed
  qed
qed

lemma write_data_panics_iff_witness:
  "let r = Slice ([49, 0, 100, 0] @ le_enc 4 (0xFFFFFFF6 :: u32) @ zeros 40) [] in
   WriteRequest_IsInvalid r = Some False \<and> WriteRequest_Data r = None"
proof -
  let ?r = "Slice ([49, 0, 100, 0] @ le_enc 4 (0xFFFFFFF6 :: u32) @ zeros 40) []"
  have "WriteRequest_StructureSize ?r = Some 49" "WriteRequest_DataOffset ?r = Some 100"
    "WriteRequest_Length ?r = Some 0xFFFFFFF6"
    "WriteRequest_WriteChannelInfoOffset ?r = Some 0" "WriteRequest_WriteChannelInfoLength ?r = Some 0"
    by (simp_all add: accessor_defs u16_in_in u32_in_in drop_zeros take_zeros)
  moreover from this have "WriteRequest_IsInvalid ?r = Some False"
    by (simp add: WriteRequest_IsInvalid_def ends_past_def)
  ultimately show ?thesis using write_data_panics_iff [of ?r 100 "0xFFFFFFF6"] by simp
qed

end
