(* ===== verification/Response.thy ===== *)
theory Response
  imports Packet Security
begin

section \<open>Responses\<close>

text \<open>
  \<^verbatim>\<open>smb/internal/smb2/response.go\<close> (the encoders of the responses that the server sends) and
  the negotiate contexts of \<^verbatim>\<open>smb2.go\<close>.  A response is a header and a body; its encoder
  is a run of fields at fixed offsets of a fresh buffer of \<^verbatim>\<open>Size()\<close> bytes.  A value behind
  the interface \<^verbatim>\<open>Encoder\<close> is the bytes it stores in a fresh buffer of its own size.
\<close>

subsection \<open>Negotiate contexts (smb2.go)\<close>

datatype NegotiateContext =
    HashContext "u16 list" "byte list"
  | CipherContext "u16 list"
  | CompressionContext "u16 list" u32
  | PosixContext

definition u16_list :: "u16 list \<Rightarrow> byte list" where
  "u16_list us = concat (map (le_enc 2) us)"

definition HashContext_Size :: "u16 list \<Rightarrow> byte list \<Rightarrow> nat" where
  "HashContext_Size algs salt = 8 + 4 + length algs * 2 + length salt"

definition CipherContext_Size :: "u16 list \<Rightarrow> nat" where
  "CipherContext_Size cs = 8 + 2 + length cs * 2"

definition CompressionContext_Size :: "u16 list \<Rightarrow> u32 \<Rightarrow> nat" where
  "CompressionContext_Size cs fl = 16 + length cs * 2"

definition PosixContext_Size :: "nat" where
  "PosixContext_Size = 10"

fun NegotiateContext_Size :: "NegotiateContext \<Rightarrow> nat" where
  "NegotiateContext_Size (HashContext algs salt) = HashContext_Size algs salt"
| "NegotiateContext_Size (CipherContext cs) = CipherContext_Size cs"
| "NegotiateContext_Size (CompressionContext cs fl) = CompressionContext_Size cs fl"
| "NegotiateContext_Size PosixContext = PosixContext_Size"

lemmas NegotiateContext_Size_parts [simp] =
  HashContext_Size_def CipherContext_Size_def CompressionContext_Size_def PosixContext_Size_def


definition HashContext_Encode :: "u16 list \<Rightarrow> byte list \<Rightarrow> byte list" where
  "HashContext_Encode algs salt =
     le_enc 2 (1 :: u16) @ le_enc 2 (of_nat (4 + length algs * 2 + length salt) :: u16) @ zeros 4
     @ le_enc 2 (of_nat (length algs) :: u16) @ le_enc 2 (of_nat (length salt) :: u16) @ u16_list algs @ salt"

definition CipherContext_Encode :: "u16 list \<Rightarrow> byte list" where
  "CipherContext_Encode cs =
     le_enc 2 (2 :: u16) @ le_enc 2 (of_nat (2 + length cs * 2) :: u16) @ zeros 4
     @ le_enc 2 (of_nat (length cs) :: u16) @ u16_list cs"

definition CompressionContext_Encode :: "u16 list \<Rightarrow> u32 \<Rightarrow> byte list" where
  "CompressionContext_Encode cs fl =
     le_enc 2 (3 :: u16) @ le_enc 2 (of_nat (8 + length cs * 2) :: u16) @ zeros 4
     @ le_enc 2 (of_nat (length cs) :: u16) @ zeros 2 @ le_enc 4 fl @ u16_list cs"

definition PosixContext_Encode :: "byte list" where
  "PosixContext_Encode = le_enc 2 (0x0100 :: u16) @ le_enc 2 (2 :: u16) @ zeros 4 @ le_enc 2 (1 :: u16)"

fun NegotiateContext_Encode :: "NegotiateContext \<Rightarrow> byte list" where
  "NegotiateContext_Encode (HashContext algs salt) = HashContext_Encode algs salt"
| "NegotiateContext_Encode (CipherContext cs) = CipherContext_Encode cs"
| "NegotiateContext_Encode (CompressionContext cs fl) = CompressionContext_Encode cs fl"
| "NegotiateContext_Encode PosixContext = PosixContext_Encode"

lemmas NegotiateContext_Encode_parts [simp] =
  HashContext_Encode_def CipherContext_Encode_def CompressionContext_Encode_def
  PosixContext_Encode_def


subsection \<open>Create contexts\<close>

datatype CreateContext = CreateContext (ctx_Name: "byte list") (ctx_Data: "byte list")

definition CreateContext_Size :: "CreateContext \<Rightarrow> nat" where
  "CreateContext_Size r = nat (Roundup (int (16 + length (ctx_Name r))) 8) + length (ctx_Data r)"

text \<open>Without the four bytes of \<^verbatim>\<open>Next\<close>, which the create response stores.\<close>

definition CreateContext_Encode :: "CreateContext \<Rightarrow> byte list" where
  "CreateContext_Encode r =
     (let off = nat (Roundup (int (16 + length (ctx_Name r))) 8) in
      le_enc 2 (16 :: u16) @ le_enc 2 (of_nat (length (ctx_Name r)) :: u16) @ zeros 2
      @ le_enc 2 (of_nat off :: u16) @ le_enc 4 (of_nat (length (ctx_Data r)) :: u32)
      @ ctx_Name r @ zeros (off - (16 + length (ctx_Name r))) @ ctx_Data r)"

subsection \<open>The bodies\<close>

datatype ErrorData = ErrorContextList nat "byte list" | OtherErrorData "byte list"

fun error_bytes :: "ErrorData \<Rightarrow> byte list" where
  "error_bytes (ErrorContextList n bs) = bs"
| "error_bytes (OtherErrorData bs) = bs"

record NegotiateBody =
  SecurityMode :: u16
  DialectRevision :: u16
  ServerGuid :: "byte list"
  n_Capabilities :: u32
  MaxTransactSize :: u32
  MaxReadSize :: u32
  MaxWriteSize :: u32
  SystemTime :: Filetime
  ServerStartTime :: Filetime
  n_SecurityBuffer :: "byte list"
  n_Contexts :: "NegotiateContext list"

record FileTimes =
  CreationTime :: "Filetime option"
  LastAccessTime :: "Filetime option"
  LastWriteTime :: "Filetime option"
  ChangeTime :: "Filetime option"

datatype Response =
    ErrorResponse "ErrorData option"
  | OplockBreakResponse "byte list"
  | NegotiateResponse NegotiateBody
  | SessionSetupResponse u16 "byte list"
  | LogoffResponse
  | TreeConnectResponse byte u32 u32 u32
  | TreeDisconnectResponse
  | CreateResponse byte byte u32 FileTimes u64 u64 u32 "byte list" "CreateContext list"
  | CloseResponse u16 FileTimes u64 u64 u32
  | FlushResponse
  | ReadResponse "byte list" u32
  | WriteResponse u32 u32
  | LockResponse
  | EchoResponse
  | IoctlResponse u32 "byte list" u32 "byte list option" "byte list option"
  | QueryDirectoryResponse "byte list option"
  | QueryInfoResponse "byte list option"
  | SetInfoResponse
  | ChangeNotifyResponse "byte list option"

type_synonym Packet = "PacketHeader \<times> Response"

text \<open>Contexts one after another, each at a multiple of eight.\<close>

definition round8 :: "nat \<Rightarrow> nat" where
  "round8 n = nat (Roundup (int n) 8)"

fun sizes_rounded :: "nat \<Rightarrow> nat list \<Rightarrow> nat" where
  "sizes_rounded sz [] = sz"
| "sizes_rounded sz (n # ns) = sizes_rounded (round8 sz + n) ns"

definition ErrorResponse_Size :: "ErrorData option \<Rightarrow> nat" where
  "ErrorResponse_Size e = (case e of None \<Rightarrow> 64 + 8 + 1 | Some d \<Rightarrow> 64 + 8 + length (error_bytes d))"

definition OplockBreakResponse_Size :: "byte list \<Rightarrow> nat" where
  "OplockBreakResponse_Size body = 64 + length body"

definition NegotiateResponse_Size :: "NegotiateBody \<Rightarrow> nat" where
  "NegotiateResponse_Size r =
     (let sz = sizes_rounded (64 + length (n_SecurityBuffer r)) (map NegotiateContext_Size (n_Contexts r))
      in if sz = 64 then 64 + 64 + 1 else 64 + sz)"

definition SessionSetupResponse_Size :: "u16 \<Rightarrow> byte list \<Rightarrow> nat" where
  "SessionSetupResponse_Size fl sb = (if length sb = 0 then 64 + 8 + 1 else 64 + 8 + length sb)"

definition LogoffResponse_Size :: "nat" where
  "LogoffResponse_Size = 64 + 4"

definition TreeConnectResponse_Size :: "byte \<Rightarrow> u32 \<Rightarrow> u32 \<Rightarrow> u32 \<Rightarrow> nat" where
  "TreeConnectResponse_Size t f c m = 64 + 16"

definition TreeDisconnectResponse_Size :: "nat" where
  "TreeDisconnectResponse_Size = 4 + 64"

definition CreateResponse_Size :: "byte \<Rightarrow> byte \<Rightarrow> u32 \<Rightarrow> FileTimes \<Rightarrow> u64 \<Rightarrow> u64 \<Rightarrow> u32 \<Rightarrow> byte list \<Rightarrow> CreateContext list \<Rightarrow> nat" where
  "CreateResponse_Size ol fl act ts al eof at fid ctxs = sizes_rounded (64 + 88) (map CreateContext_Size ctxs)"

definition CloseResponse_Size :: "u16 \<Rightarrow> FileTimes \<Rightarrow> u64 \<Rightarrow> u64 \<Rightarrow> u32 \<Rightarrow> nat" where
  "CloseResponse_Size fl ts al eof at = 64 + 60"

definition FlushResponse_Size :: "nat" where
  "FlushResponse_Size = 64 + 4"

definition ReadResponse_Size :: "byte list \<Rightarrow> u32 \<Rightarrow> nat" where
  "ReadResponse_Size d rem = (if length d = 0 then 64 + 16 else 64 + 16 + length d)"

definition WriteResponse_Size :: "u32 \<Rightarrow> u32 \<Rightarrow> nat" where
  "WriteResponse_Size n rem = 64 + 16 + 1"

definition LockResponse_Size :: "nat" where
  "LockResponse_Size = 64 + 4"

definition EchoResponse_Size :: "nat" where
  "EchoResponse_Size = 64 + 4"

definition IoctlResponse_Size :: "u32 \<Rightarrow> byte list \<Rightarrow> u32 \<Rightarrow> byte list option \<Rightarrow> byte list option \<Rightarrow> nat" where
  "IoctlResponse_Size ctl fid fl inp outp =
     (if inp = None \<and> outp = None then 64 + 48 + 1
      else 64 + 48 + (case inp of None \<Rightarrow> 0 | Some i \<Rightarrow> length i) + (case outp of None \<Rightarrow> 0 | Some q \<Rightarrow> length q))"

definition QueryDirectoryResponse_Size :: "byte list option \<Rightarrow> nat" where
  "QueryDirectoryResponse_Size q = (case q of None \<Rightarrow> 64 + 8 + 1 | Some bs \<Rightarrow> 64 + 8 + length bs)"

definition QueryInfoResponse_Size :: "byte list option \<Rightarrow> nat" where
  "QueryInfoResponse_Size q = (case q of None \<Rightarrow> 64 + 8 | Some bs \<Rightarrow> 64 + 8 + length bs)"

definition SetInfoResponse_Size :: "nat" where
  "SetInfoResponse_Size = 64 + 2"

definition ChangeNotifyResponse_Size :: "byte list option \<Rightarrow> nat" where
  "ChangeNotifyResponse_Size q = (case q of None \<Rightarrow> 64 + 8 + 1 | Some bs \<Rightarrow> 64 + 8 + length bs)"

fun rsp_Size :: "Response \<Rightarrow> nat" where
  "rsp_Size (ErrorResponse e) = ErrorResponse_Size e"
| "rsp_Size (OplockBreakResponse body) = OplockBreakResponse_Size body"
| "rsp_Size (NegotiateResponse r) = NegotiateResponse_Size r"
| "rsp_Size (SessionSetupResponse fl sb) = SessionSetupResponse_Size fl sb"
| "rsp_Size LogoffResponse = LogoffResponse_Size"
| "rsp_Size (TreeConnectResponse t f c m) = TreeConnectResponse_Size t f c m"
| "rsp_Size TreeDisconnectResponse = TreeDisconnectResponse_Size"
| "rsp_Size (CreateResponse ol fl act ts al eof at fid ctxs) = CreateResponse_Size ol fl act ts al eof at fid ctxs"
| "rsp_Size (CloseResponse fl ts al eof at) = CloseResponse_Size fl ts al eof at"
| "rsp_Size FlushResponse = FlushResponse_Size"
| "rsp_Size (ReadResponse d rem) = ReadResponse_Size d rem"
| "rsp_Size (WriteResponse n rem) = WriteResponse_Size n rem"
| "rsp_Size LockResponse = LockResponse_Size"
| "rsp_Size EchoResponse = EchoResponse_Size"
| "rsp_Size (IoctlResponse ctl fid fl inp outp) = IoctlResponse_Size ctl fid fl inp outp"
| "rsp_Size (QueryDirectoryResponse q) = QueryDirectoryResponse_Size q"
| "rsp_Size (QueryInfoResponse q) = QueryInfoResponse_Size q"
| "rsp_Size SetInfoResponse = SetInfoResponse_Size"
| "rsp_Size (ChangeNotifyResponse q) = ChangeNotifyResponse_Size q"

lemmas rsp_Size_parts [simp] =
  ErrorResponse_Size_def OplockBreakResponse_Size_def NegotiateResponse_Size_def
  SessionSetupResponse_Size_def LogoffResponse_Size_def TreeConnectResponse_Size_def
  TreeDisconnectResponse_Size_def CreateResponse_Size_def CloseResponse_Size_def
  FlushResponse_Size_def ReadResponse_Size_def WriteResponse_Size_def LockResponse_Size_def
  EchoResponse_Size_def IoctlResponse_Size_def QueryDirectoryResponse_Size_def
  QueryInfoResponse_Size_def SetInfoResponse_Size_def ChangeNotifyResponse_Size_def


text \<open>\<^verbatim>\<open>c.Command = ...\<close>; an error response keeps the command it was prepared with.\<close>

fun rsp_Command :: "Response \<Rightarrow> u16 option" where
  "rsp_Command (ErrorResponse e) = None"
| "rsp_Command (OplockBreakResponse body) = Some SMB2_OPLOCK_BREAK"
| "rsp_Command (NegotiateResponse r) = Some SMB2_NEGOTIATE"
| "rsp_Command (SessionSetupResponse fl sb) = Some SMB2_SESSION_SETUP"
| "rsp_Command LogoffResponse = Some SMB2_LOGOFF"
| "rsp_Command (TreeConnectResponse t f c m) = Some SMB2_TREE_CONNECT"
| "rsp_Command TreeDisconnectResponse = Some SMB2_TREE_DISCONNECT"
| "rsp_Command (CreateResponse ol fl act ts al eof at fid ctxs) = Some SMB2_CREATE"
| "rsp_Command (CloseResponse fl ts al eof at) = Some SMB2_CLOSE"
| "rsp_Command FlushResponse = Some SMB2_FLUSH"
| "rsp_Command (ReadResponse d rem) = Some SMB2_READ"
| "rsp_Command (WriteResponse n rem) = Some SMB2_WRITE"
| "rsp_Command LockResponse = Some SMB2_LOCK"
| "rsp_Command EchoResponse = Some SMB2_ECHO"
| "rsp_Command (IoctlResponse ctl fid fl inp outp) = Some SMB2_IOCTL"
| "rsp_Command (QueryDirectoryResponse q) = Some SMB2_QUERY_DIRECTORY"
| "rsp_Command (QueryInfoResponse q) = Some SMB2_QUERY_INFO"
| "rsp_Command SetInfoResponse = Some SMB2_SET_INFO"
| "rsp_Command (ChangeNotifyResponse q) = Some SMB2_CHANGE_NOTIFY"


subsection \<open>Encoding\<close>

text \<open>The fields of a body, at offsets into \<^verbatim>\<open>res := pkt[64:]\<close>.\<close>

definition time_field :: "nat \<Rightarrow> Filetime option \<Rightarrow> fields" where
  "time_field off t = (case t of None \<Rightarrow> []
     | Some ft \<Rightarrow> [(off, le_enc 4 (LowDateTime ft)), (off + 4, le_enc 4 (HighDateTime ft))])"

definition times_fields :: "FileTimes \<Rightarrow> fields" where
  "times_fields ts = time_field 8 (CreationTime ts) @ time_field 16 (LastAccessTime ts)
     @ time_field 24 (LastWriteTime ts) @ time_field 32 (ChangeTime ts)"

fun neg_contexts :: "nat \<Rightarrow> bool \<Rightarrow> NegotiateContext list \<Rightarrow> fields" where
  "neg_contexts off first [] = []"
| "neg_contexts off first (x # xs) =
     (if first then [(60, le_enc 4 (of_nat (round8 off + 64) :: u32))] else [])
     @ (round8 off, NegotiateContext_Encode x)
     # neg_contexts (round8 off + NegotiateContext_Size x) False xs"

fun create_contexts :: "nat \<Rightarrow> nat \<Rightarrow> bool \<Rightarrow> CreateContext list \<Rightarrow> fields" where
  "create_contexts off prevOff first [] = []"
| "create_contexts off prevOff first (x # xs) =
     (if first then (80, le_enc 4 (of_nat (64 + round8 off) :: u32))
      else (prevOff, le_enc 4 (of_nat (round8 off - prevOff) :: u32)))
     # (round8 off, zeros 4) # (round8 off + 4, CreateContext_Encode x)
     # create_contexts (round8 off + CreateContext_Size x) (round8 off) False xs"

definition output_fields :: "byte list option \<Rightarrow> fields" where
  "output_fields q = (0, le_enc 2 (9 :: u16)) # (case q of None \<Rightarrow> []
     | Some bs \<Rightarrow> [(2, le_enc 2 (8 + 64 :: u16)), (8, bs), (4, le_enc 4 (of_nat (length bs) :: u32))])"

definition ErrorResponse_Encode :: "ErrorData option \<Rightarrow> fields" where
  "ErrorResponse_Encode e =
     (0, le_enc 2 (9 :: u16)) # (case e of None \<Rightarrow> []
     | Some d \<Rightarrow> [(2, le_enc 2 (of_nat (length (error_bytes d)) :: u16)), (8, error_bytes d)]
         @ (case d of ErrorContextList n bs \<Rightarrow> [(2, [of_nat n])] | OtherErrorData bs \<Rightarrow> []))"

definition OplockBreakResponse_Encode :: "byte list \<Rightarrow> fields" where
  "OplockBreakResponse_Encode body = [(0, body)]"

definition NegotiateResponse_Encode :: "NegotiateBody \<Rightarrow> fields" where
  "NegotiateResponse_Encode r =
     [(0, le_enc 2 (65 :: u16)), (2, le_enc 2 (SecurityMode r)), (4, le_enc 2 (DialectRevision r)),
      (8, ServerGuid r), (24, le_enc 4 (n_Capabilities r)), (28, le_enc 4 (MaxTransactSize r)),
      (32, le_enc 4 (MaxReadSize r)), (36, le_enc 4 (MaxWriteSize r)),
      (40, le_enc 4 (LowDateTime (SystemTime r))), (44, le_enc 4 (HighDateTime (SystemTime r))),
      (48, le_enc 4 (LowDateTime (ServerStartTime r))), (52, le_enc 4 (HighDateTime (ServerStartTime r))),
      (64, n_SecurityBuffer r), (56, le_enc 2 (64 + 64 :: u16)),
      (58, le_enc 2 (of_nat (length (n_SecurityBuffer r)) :: u16))]
     @ neg_contexts (64 + length (n_SecurityBuffer r)) True (n_Contexts r)
     @ [(6, le_enc 2 (of_nat (length (n_Contexts r)) :: u16))]"

definition SessionSetupResponse_Encode :: "u16 \<Rightarrow> byte list \<Rightarrow> fields" where
  "SessionSetupResponse_Encode fl sb =
     [(0, le_enc 2 (9 :: u16)), (2, le_enc 2 fl)]
     @ (if length sb \<noteq> 0
        then [(4, le_enc 2 (8 + 64 :: u16)), (8, sb), (6, le_enc 2 (of_nat (length sb) :: u16))] else [])"

definition LogoffResponse_Encode :: "fields" where
  "LogoffResponse_Encode = [(0, le_enc 2 (4 :: u16))]"

definition TreeConnectResponse_Encode :: "byte \<Rightarrow> u32 \<Rightarrow> u32 \<Rightarrow> u32 \<Rightarrow> fields" where
  "TreeConnectResponse_Encode t f c m = [(0, le_enc 2 (16 :: u16)), (2, [t]), (4, le_enc 4 f), (8, le_enc 4 c), (12, le_enc 4 m)]"

definition TreeDisconnectResponse_Encode :: "fields" where
  "TreeDisconnectResponse_Encode = [(0, le_enc 2 (4 :: u16))]"

definition CreateResponse_Encode :: "byte \<Rightarrow> byte \<Rightarrow> u32 \<Rightarrow> FileTimes \<Rightarrow> u64 \<Rightarrow> u64 \<Rightarrow> u32 \<Rightarrow> byte list \<Rightarrow> CreateContext list \<Rightarrow> fields" where
  "CreateResponse_Encode ol fl act ts al eof at fid ctxs =
     [(0, le_enc 2 (89 :: u16)), (2, [ol]), (3, [fl]), (4, le_enc 4 act)] @ times_fields ts
     @ [(40, le_enc 8 al), (48, le_enc 8 eof), (56, le_enc 4 at), (64, fid)]
     @ (if length ctxs = 0 then [(80, zeros 4), (84, zeros 4)]
        else create_contexts 88 0 True ctxs
          @ [(84, le_enc 4 (of_nat (sizes_rounded 88 (map CreateContext_Size ctxs) - 88) :: u32))])"

definition CloseResponse_Encode :: "u16 \<Rightarrow> FileTimes \<Rightarrow> u64 \<Rightarrow> u64 \<Rightarrow> u32 \<Rightarrow> fields" where
  "CloseResponse_Encode fl ts al eof at =
     [(0, le_enc 2 (60 :: u16)), (2, le_enc 2 fl)] @ times_fields ts
     @ [(40, le_enc 8 al), (48, le_enc 8 eof), (56, le_enc 4 at)]"

definition FlushResponse_Encode :: "fields" where
  "FlushResponse_Encode = [(0, le_enc 2 (4 :: u16))]"

definition ReadResponse_Encode :: "byte list \<Rightarrow> u32 \<Rightarrow> fields" where
  "ReadResponse_Encode d rem =
     [(0, le_enc 2 (17 :: u16))]
     @ (if length d = 0 then [(2, [0])] else [(2, [16 + 64]), (16, d)])
     @ [(4, le_enc 4 (of_nat (length d) :: u32)), (8, le_enc 4 rem)]"

definition WriteResponse_Encode :: "u32 \<Rightarrow> u32 \<Rightarrow> fields" where
  "WriteResponse_Encode n rem = [(0, le_enc 2 (17 :: u16)), (4, le_enc 4 n), (8, le_enc 4 rem)]"

definition LockResponse_Encode :: "fields" where
  "LockResponse_Encode = [(0, le_enc 2 (4 :: u16)), (2, le_enc 2 (0 :: u16))]"

definition EchoResponse_Encode :: "fields" where
  "EchoResponse_Encode = [(0, le_enc 2 (4 :: u16)), (2, le_enc 2 (0 :: u16))]"

definition IoctlResponse_Encode :: "u32 \<Rightarrow> byte list \<Rightarrow> u32 \<Rightarrow> byte list option \<Rightarrow> byte list option \<Rightarrow> fields" where
  "IoctlResponse_Encode ctl fid fl inp outp =
     [(0, le_enc 2 (49 :: u16)), (4, le_enc 4 ctl), (8, fid), (40, le_enc 4 fl)]
     @ (case inp of None \<Rightarrow> [] | Some i \<Rightarrow>
          [(24, le_enc 4 (48 + 64 :: u32)), (48, i), (28, le_enc 4 (of_nat (length i) :: u32))])
     @ (case outp of None \<Rightarrow> [] | Some q \<Rightarrow>
          let off = 48 + (case inp of None \<Rightarrow> 0 | Some i \<Rightarrow> length i) in
          [(32, le_enc 4 (of_nat (off + 64) :: u32)), (off, q), (36, le_enc 4 (of_nat (length q) :: u32))])"

definition QueryDirectoryResponse_Encode :: "byte list option \<Rightarrow> fields" where
  "QueryDirectoryResponse_Encode q = output_fields q"

definition QueryInfoResponse_Encode :: "byte list option \<Rightarrow> fields" where
  "QueryInfoResponse_Encode q = output_fields q"

definition SetInfoResponse_Encode :: "fields" where
  "SetInfoResponse_Encode = [(0, le_enc 2 (2 :: u16))]"

definition ChangeNotifyResponse_Encode :: "byte list option \<Rightarrow> fields" where
  "ChangeNotifyResponse_Encode q = output_fields q"

fun body_fields :: "Response \<Rightarrow> fields" where
  "body_fields (ErrorResponse e) = ErrorResponse_Encode e"
| "body_fields (OplockBreakResponse body) = OplockBreakResponse_Encode body"
| "body_fields (NegotiateResponse r) = NegotiateResponse_Encode r"
| "body_fields (SessionSetupResponse fl sb) = SessionSetupResponse_Encode fl sb"
| "body_fields LogoffResponse = LogoffResponse_Encode"
| "body_fields (TreeConnectResponse t f c m) = TreeConnectResponse_Encode t f c m"
| "body_fields TreeDisconnectResponse = TreeDisconnectResponse_Encode"
| "body_fields (CreateResponse ol fl act ts al eof at fid ctxs) = CreateResponse_Encode ol fl act ts al eof at fid ctxs"
| "body_fields (CloseResponse fl ts al eof at) = CloseResponse_Encode fl ts al eof at"
| "body_fields FlushResponse = FlushResponse_Encode"
| "body_fields (ReadResponse d rem) = ReadResponse_Encode d rem"
| "body_fields (WriteResponse n rem) = WriteResponse_Encode n rem"
| "body_fields LockResponse = LockResponse_Encode"
| "body_fields EchoResponse = EchoResponse_Encode"
| "body_fields (IoctlResponse ctl fid fl inp outp) = IoctlResponse_Encode ctl fid fl inp outp"
| "body_fields (QueryDirectoryResponse q) = QueryDirectoryResponse_Encode q"
| "body_fields (QueryInfoResponse q) = QueryInfoResponse_Encode q"
| "body_fields SetInfoResponse = SetInfoResponse_Encode"
| "body_fields (ChangeNotifyResponse q) = ChangeNotifyResponse_Encode q"

lemmas body_fields_parts [simp] =
  ErrorResponse_Encode_def OplockBreakResponse_Encode_def NegotiateResponse_Encode_def
  SessionSetupResponse_Encode_def LogoffResponse_Encode_def TreeConnectResponse_Encode_def
  TreeDisconnectResponse_Encode_def CreateResponse_Encode_def CloseResponse_Encode_def
  FlushResponse_Encode_def ReadResponse_Encode_def WriteResponse_Encode_def LockResponse_Encode_def
  EchoResponse_Encode_def IoctlResponse_Encode_def QueryDirectoryResponse_Encode_def
  QueryInfoResponse_Encode_def SetInfoResponse_Encode_def ChangeNotifyResponse_Encode_def


definition in_body :: "fields \<Rightarrow> fields" where
  "in_body fs = map (\<lambda>(off, bs). (64 + off, bs)) fs"

definition rsp_header :: "Packet \<Rightarrow> PacketHeader" where
  "rsp_header r = (case rsp_Command (snd r) of None \<Rightarrow> fst r | Some cmd \<Rightarrow> (fst r)\<lparr>Command := cmd\<rparr>)"

definition rsp_Encode :: "Packet \<Rightarrow> byte list \<Rightarrow> byte list option" where
  "rsp_Encode r pkt = do {
     pkt \<leftarrow> encodeHeader (rsp_header r) pkt;
     puts (in_body (body_fields (snd r))) pkt }"

subsection \<open>Encoding fits the size\<close>

text \<open>Arrays of the source have fixed lengths; here that is a property of the values.\<close>

definition rsp_ok :: "Response \<Rightarrow> bool" where
  "rsp_ok r = (case r of
     NegotiateResponse n \<Rightarrow> length (ServerGuid n) = 16
   | CreateResponse ol fl act ts al eof at fid ctxs \<Rightarrow> length fid = 16
   | IoctlResponse ctl fid fl inp outp \<Rightarrow> length fid = 16
   | _ \<Rightarrow> True)"

lemma round8_ge: "n \<le> round8 n"
  using Align_8_bounds(1) [of "int n"] by (simp add: round8_def Roundup_Align)

lemma sizes_rounded_ge: "sz \<le> sizes_rounded sz ns"
proof (induction ns arbitrary: sz)
  case (Cons n ns)
  have "sz \<le> round8 sz + n" using round8_ge [of sz] by simp
  also have "\<dots> \<le> sizes_rounded (round8 sz + n) ns" by (rule Cons.IH)
  finally show ?case by simp
qed simp

lemma length_u16_list [simp]: "length (u16_list us) = 2 * length us"
  by (induction us) (auto simp: u16_list_def)

lemma length_NegotiateContext [simp]: "length (NegotiateContext_Encode x) = NegotiateContext_Size x"
  by (cases x) auto

lemma length_CreateContext: "4 + length (CreateContext_Encode x) = CreateContext_Size x"
  using round8_ge [of "16 + length (ctx_Name x)"]
  by (simp add: CreateContext_Encode_def CreateContext_Size_def Let_def round8_def)

lemma fits_neg_contexts:
  "64 \<le> off \<Longrightarrow> sizes_rounded off (map NegotiateContext_Size xs) \<le> N \<Longrightarrow> fits N (neg_contexts off first xs)"
proof (induction off first xs rule: neg_contexts.induct)
  case (2 off first x xs)
  have "64 \<le> round8 off" using 2(2) round8_ge [of off] by simp
  moreover have "round8 off + NegotiateContext_Size x \<le> N"
    using 2(3) sizes_rounded_ge [of "round8 off + NegotiateContext_Size x" "map NegotiateContext_Size xs"] by simp
  ultimately show ?case using 2 by simp
qed simp

lemma fits_create_contexts:
  "88 \<le> off \<Longrightarrow> prev + 4 \<le> N \<Longrightarrow> sizes_rounded off (map CreateContext_Size xs) \<le> N \<Longrightarrow>
   fits N (create_contexts off prev first xs)"
proof (induction off prev first xs rule: create_contexts.induct)
  case (2 off prev first x xs)
  have ge: "88 \<le> round8 off" using 2(2) round8_ge [of off] by simp
  moreover have "round8 off + CreateContext_Size x \<le> N"
    using 2(4) sizes_rounded_ge [of "round8 off + CreateContext_Size x" "map CreateContext_Size xs"] by simp
  ultimately show ?case using 2 length_CreateContext [of x] by auto
qed simp

lemma sizes_rounded_64:
  "8 dvd k \<Longrightarrow> sizes_rounded (k + sz) ns = k + sizes_rounded sz ns"
proof (induction ns arbitrary: sz)
  case (Cons n ns)
  have "round8 (k + sz) = k + round8 sz"
  proof -
    obtain j where j: "k = 8 * j" using Cons.prems by (auto elim: dvdE)
    have r: "round8 m = 8 * ((m + 7) div 8)" for m
      using Align_8_nat [of "int m"] by (simp add: round8_def Roundup_Align)
    have "(8 * j + sz + 7) div 8 = j + (sz + 7) div 8"
      using div_mult_self2 [of 8 "sz + 7" j] by (simp add: ac_simps)
    then show ?thesis by (simp add: r j)
  qed
  with Cons show ?case by (simp add: add.assoc)
qed simp

lemma fits_times: "40 \<le> N \<Longrightarrow> fits N (times_fields ts)"
  by (auto simp: times_fields_def time_field_def split: option.split)

lemma fits_output: "8 + (case q of None \<Rightarrow> 0 | Some bs \<Rightarrow> length bs) \<le> N \<Longrightarrow> fits N (output_fields q)"
  by (auto simp: output_fields_def split: option.splits)

lemma fits_in_body: "fits N fs \<Longrightarrow> fits (64 + N) (in_body fs)"
  by (induction fs) (auto simp: in_body_def)

lemma sizes_rounded_header: "sizes_rounded (64 + sz) ns = 64 + sizes_rounded sz ns"
  by (rule sizes_rounded_64) simp

text \<open>Every encoder stays inside the \<^verbatim>\<open>Size()\<close> bytes that it is given.\<close>

lemma body_fits:
  assumes "rsp_ok r"
  shows "64 + n = rsp_Size r \<Longrightarrow> fits n (body_fields r)"
proof (cases r)
  case (ErrorResponse e)
  then show "64 + n = rsp_Size r \<Longrightarrow> ?thesis" by (auto split: option.splits ErrorData.splits)
next
  case (NegotiateResponse x)
  have ge: "64 + length (n_SecurityBuffer x)
      \<le> sizes_rounded (64 + length (n_SecurityBuffer x)) (map NegotiateContext_Size (n_Contexts x))"
    by (rule sizes_rounded_ge)
  assume n: "64 + n = rsp_Size r"
  have big: "sizes_rounded (64 + length (n_SecurityBuffer x)) (map NegotiateContext_Size (n_Contexts x)) \<le> n"
    using n ge by (auto simp: NegotiateResponse Let_def split: if_splits)
  have "fits n (neg_contexts (64 + length (n_SecurityBuffer x)) True (n_Contexts x))"
    by (rule fits_neg_contexts) (use big in simp_all)
  then show ?thesis using assms big ge by (simp add: NegotiateResponse rsp_ok_def)
next
  case (CreateResponse ol fl act ts al eof at fid ctxs)
  assume n: "64 + n = rsp_Size r"
  have ge: "88 \<le> sizes_rounded 88 (map CreateContext_Size ctxs)" by (rule sizes_rounded_ge)
  have n': "n = sizes_rounded 88 (map CreateContext_Size ctxs)"
    using n sizes_rounded_header [of 88] by (simp add: CreateResponse)
  have "fits n (create_contexts 88 0 True ctxs)"
    by (rule fits_create_contexts) (use n' ge in simp_all)
  then show ?thesis using assms n' ge by (simp add: CreateResponse rsp_ok_def fits_times)
qed (use assms in \<open>auto simp: rsp_ok_def fits_times fits_output Let_def split: option.splits if_splits\<close>)

lemma rsp_Size_ge: "64 \<le> rsp_Size r"
proof (cases r)
  case (CreateResponse ol fl act ts al eof at fid ctxs)
  then show ?thesis
    using sizes_rounded_ge [of "64 + 88" "map CreateContext_Size ctxs"] by simp
qed (auto simp: Let_def split: option.splits)

lemma in_body_apart: "a + n \<le> 64 \<Longrightarrow> apart a n (in_body fs)"
  by (auto simp: in_body_def apart_def list_all_iff)

text \<open>The body leaves the header alone, so what the header encoder stored is what is read.\<close>

lemma rsp_Encode_split:
  assumes "rsp_ok (snd r)"
  shows "\<exists>h b. encodeHeader (rsp_header r) (zeros (rsp_Size (snd r))) = Some h
    \<and> rsp_Encode r (zeros (rsp_Size (snd r))) = Some b \<and> length b = rsp_Size (snd r)
    \<and> b = wrs (in_body (body_fields (snd r))) h
    \<and> (\<forall>a n. a + n \<le> 64 \<longrightarrow> rd a n b = rd a n h)"
proof -
  have ge: "64 \<le> rsp_Size (snd r)" by (rule rsp_Size_ge)
  then obtain h where h: "encodeHeader (rsp_header r) (zeros (rsp_Size (snd r))) = Some h"
      "length h = rsp_Size (snd r)"
    using encodeHeader_total [of "zeros (rsp_Size (snd r))" "rsp_header r"] by auto
  have "fits (rsp_Size (snd r) - 64) (body_fields (snd r))"
    by (rule body_fits [OF assms]) (use ge in simp)
  then have "fits (length h) (in_body (body_fields (snd r)))"
    using fits_in_body [of "rsp_Size (snd r) - 64"] ge h(2) by simp
  then show ?thesis
    using h by (auto simp: rsp_Encode_def puts_wrs length_wrs rd_wrs_apart in_body_apart)
qed

subsection \<open>Properties\<close>

text \<open>
  The server can encode every response it builds: into a fresh buffer of \<^verbatim>\<open>Size()\<close> bytes the
  encoder succeeds without an index out of range, and what is sent has the response's command (the
  prepared one for an error), message id, session id, flags and status in its header.
\<close>

theorem response_encodes:
  assumes "rsp_ok (snd r)"
  shows "\<exists>b. rsp_Encode r (zeros (rsp_Size (snd r))) = Some b \<and> length b = rsp_Size (snd r)
    \<and> p_StructureSize (Slice b e) = Some 64
    \<and> p_Command (Slice b e) = Some (case rsp_Command (snd r) of None \<Rightarrow> Command (fst r) | Some cmd \<Rightarrow> cmd)
    \<and> p_MessageId (Slice b e) = Some (MessageId (fst r))
    \<and> p_SessionId (Slice b e) = Some (SessionId (fst r))
    \<and> p_Flags (Slice b e) = Some (Flags (fst r))
    \<and> p_CreditRequest (Slice b e) = Some (CreditRequestResponse (fst r))
    \<and> (ChannelSequence (fst r) = 0 \<longrightarrow> p_Status (Slice b e) = Some (Status (fst r)))"
proof -
  have ge: "64 \<le> rsp_Size (snd r)" by (rule rsp_Size_ge)
  obtain h b where h: "encodeHeader (rsp_header r) (zeros (rsp_Size (snd r))) = Some h"
      and b: "rsp_Encode r (zeros (rsp_Size (snd r))) = Some b" "length b = rsp_Size (snd r)"
        "\<And>a n. a + n \<le> 64 \<Longrightarrow> rd a n b = rd a n h"
    using rsp_Encode_split [OF assms] by metis
  note f = encodeHeader_fields [OF _ h]
  have st: "ChannelSequence (fst r) = 0 \<Longrightarrow> rd 8 4 h = le_enc 4 (Status (fst r))"
    using encodeHeader_status [OF _ _ h] ge by (simp add: rd_zeros rsp_header_def split: option.splits)
  have smb1: "p_IsSmb1 (Slice b e) = Some False"
    using f(1) b(3) ge by (simp add: p_IsSmb1_eq MAGIC_def MAGIC_SMB1_def)
  have hd: "MessageId (rsp_header r) = MessageId (fst r)" "SessionId (rsp_header r) = SessionId (fst r)"
    "Flags (rsp_header r) = Flags (fst r)"
    "CreditRequestResponse (rsp_header r) = CreditRequestResponse (fst r)"
    "Command (rsp_header r) = (case rsp_Command (snd r) of None \<Rightarrow> Command (fst r) | Some cmd \<Rightarrow> cmd)"
    by (simp_all add: rsp_header_def split: option.split)
  show ?thesis
    using b f st smb1 ge
    by (intro exI [of _ b])
      (auto simp: hd codec_defs p_MessageId_def p_Command_def u16_in_in u32_in_in u64_in_in
        rd_def [symmetric])
qed

lemma response_encodes_witness:
  "\<exists>b. rsp_Encode (new_header\<lparr>MessageId := 7, Status := 0xC0000022\<rparr>, ErrorResponse None) (zeros 73) = Some b
     \<and> p_Status (Slice b []) = Some 0xC0000022 \<and> p_MessageId (Slice b []) = Some 7"
  using response_encodes [of "(new_header\<lparr>MessageId := 7, Status := 0xC0000022\<rparr>, ErrorResponse None)" "[]"]
  by (auto simp: rsp_ok_def new_header_def)

end
