(* ===== verification/Accept.thy ===== *)
theory Accept
  imports Response
begin

section \<open>Accepting a message (conn.go)\<close>

text \<open>
  \<^verbatim>\<open>accept\<close> and \<^verbatim>\<open>acceptError\<close> of \<^verbatim>\<open>smb/server/conn.go\<close>, with the decoders of \<^verbatim>\<open>response.go\<close>
  that they use.  Every handler of the server calls \<^verbatim>\<open>accept\<close> on the request it got; a message that
  carries the reply flag is judged by its status instead.
\<close>

definition STATUS_NOTIFY_ENUM_DIR :: u32 where "STATUS_NOTIFY_ENUM_DIR = 0x10C"
definition STATUS_BUFFER_OVERFLOW :: u32 where "STATUS_BUFFER_OVERFLOW = 0x80000005"
definition STATUS_INVALID_PARAMETER :: u32 where "STATUS_INVALID_PARAMETER = 0xC000000D"
definition STATUS_MORE_PROCESSING_REQUIRED :: u32 where "STATUS_MORE_PROCESSING_REQUIRED = 0xC0000016"
definition STATUS_ACCESS_DENIED :: u32 where "STATUS_ACCESS_DENIED = 0xC0000022"
definition STATUS_OBJECT_NAME_NOT_FOUND :: u32 where "STATUS_OBJECT_NAME_NOT_FOUND = 0xC0000034"
definition STATUS_OBJECT_NAME_COLLISION :: u32 where "STATUS_OBJECT_NAME_COLLISION = 0xC0000035"
definition STATUS_OBJECT_PATH_NOT_FOUND :: u32 where "STATUS_OBJECT_PATH_NOT_FOUND = 0xC000003A"
definition STATUS_LOGON_FAILURE :: u32 where "STATUS_LOGON_FAILURE = 0xC000006D"
definition STATUS_NOT_SUPPORTED :: u32 where "STATUS_NOT_SUPPORTED = 0xC00000BB"
definition STATUS_NETWORK_NAME_DELETED :: u32 where "STATUS_NETWORK_NAME_DELETED = 0xC00000C9"
definition STATUS_BAD_NETWORK_NAME :: u32 where "STATUS_BAD_NETWORK_NAME = 0xC00000CC"
definition STATUS_CANNOT_DELETE :: u32 where "STATUS_CANNOT_DELETE = 0xC0000121"
definition STATUS_USER_SESSION_DELETED :: u32 where "STATUS_USER_SESSION_DELETED = 0xC0000203"
definition STATUS_NETWORK_SESSION_EXPIRED :: u32 where "STATUS_NETWORK_SESSION_EXPIRED = 0xC000035C"

lemmas status_defs =
  STATUS_NOTIFY_ENUM_DIR_def STATUS_BUFFER_OVERFLOW_def STATUS_INVALID_PARAMETER_def
  STATUS_MORE_PROCESSING_REQUIRED_def STATUS_ACCESS_DENIED_def STATUS_OBJECT_NAME_NOT_FOUND_def
  STATUS_OBJECT_NAME_COLLISION_def STATUS_OBJECT_PATH_NOT_FOUND_def STATUS_LOGON_FAILURE_def
  STATUS_NOT_SUPPORTED_def STATUS_NETWORK_NAME_DELETED_def STATUS_BAD_NETWORK_NAME_def
  STATUS_CANNOT_DELETE_def STATUS_USER_SESSION_DELETED_def STATUS_NETWORK_SESSION_EXPIRED_def

subsection \<open>ErrorResponseDecoder\<close>

definition er_StructureSize :: "slice \<Rightarrow> u16 option" where
  "er_StructureSize r = u16_in 0 2 r"

definition er_ErrorContextCount :: "slice \<Rightarrow> byte option" where
  "er_ErrorContextCount r = sl_at 2 r"

definition er_ByteCount :: "slice \<Rightarrow> u32 option" where
  "er_ByteCount r = u32_in 4 8 r"

definition er_IsInvalid :: "slice \<Rightarrow> bool option" where
  "er_IsInvalid r =
     (if len r < 8 then Some True
      else do {
        ss \<leftarrow> er_StructureSize r;
        (if ss \<noteq> 9 then Some True
         else do { n \<leftarrow> er_ByteCount r; Some ((of_nat (len r) :: u32) < 8 + n) }) })"

definition er_ErrorData :: "slice \<Rightarrow> slice option" where
  "er_ErrorData r = do { n \<leftarrow> er_ByteCount r; sl_range 8 (unat (8 + n)) r }"

subsection \<open>ErrorContextResponseDecoder\<close>

definition ec_ErrorDataLength :: "slice \<Rightarrow> u32 option" where
  "ec_ErrorDataLength ctx = u32_in 0 4 ctx"

definition ec_ErrorId :: "slice \<Rightarrow> u32 option" where
  "ec_ErrorId ctx = u32_in 4 8 ctx"

definition ec_IsInvalid :: "slice \<Rightarrow> bool option" where
  "ec_IsInvalid ctx =
     (if len ctx < 8 then Some True
      else do { n \<leftarrow> ec_ErrorDataLength ctx; Some ((of_nat (len ctx) :: u32) < 8 + n) })"

definition ec_ErrorContextData :: "slice \<Rightarrow> slice option" where
  "ec_ErrorContextData ctx = do { n \<leftarrow> ec_ErrorDataLength ctx; sl_range 8 (unat (8 + n)) ctx }"

definition ec_Next :: "slice \<Rightarrow> nat option" where
  "ec_Next ctx = do { n \<leftarrow> ec_ErrorDataLength ctx; Some (8 + nat (Roundup (int (unat n)) 8)) }"

subsection \<open>IoctlResponseDecoder\<close>

definition io_StructureSize :: "slice \<Rightarrow> u16 option" where
  "io_StructureSize r = u16_in 0 2 r"

definition io_InputOffset :: "slice \<Rightarrow> u32 option" where
  "io_InputOffset r = u32_in 24 28 r"

definition io_InputCount :: "slice \<Rightarrow> u32 option" where
  "io_InputCount r = u32_in 28 32 r"

definition io_OutputOffset :: "slice \<Rightarrow> u32 option" where
  "io_OutputOffset r = u32_in 32 36 r"

definition io_OutputCount :: "slice \<Rightarrow> u32 option" where
  "io_OutputCount r = u32_in 36 40 r"

definition io_IsInvalid :: "slice \<Rightarrow> bool option" where
  "io_IsInvalid r =
     (if len r < 48 then Some True
      else do {
        ss \<leftarrow> io_StructureSize r;
        io \<leftarrow> io_InputOffset r; ic \<leftarrow> io_InputCount r;
        oo \<leftarrow> io_OutputOffset r; oc \<leftarrow> io_OutputCount r;
        Some (ss \<noteq> 49 \<or> int (len r) < int (unat (io + ic)) - 64 \<or> int (len r) < int (unat (oo + oc)) - 64) })"

subsection \<open>accept\<close>

fun decimal :: "nat \<Rightarrow> string" where
  "decimal n = (if n < 10 then [char_of (48 + n)] else decimal (n div 10) @ [char_of (48 + n mod 10)])"

declare decimal.simps [simp del]

definition broken :: "error" where
  "broken = InvalidResponseError ''broken packet header format''"

fun error_contexts :: "nat \<Rightarrow> slice \<Rightarrow> (error + byte list list) option" where
  "error_contexts 0 eData = Some (Inr [])"
| "error_contexts (Suc k) eData = do {
     inv \<leftarrow> ec_IsInvalid eData;
     (if inv then Some (Inl (InvalidResponseError ''broken error context response format''))
      else do {
        d \<leftarrow> ec_ErrorContextData eData;
        nxt \<leftarrow> ec_Next eData;
        (if len eData < nxt then Some (Inl (InvalidResponseError ''broken error context response format''))
         else do {
           eData \<leftarrow> sl_from nxt eData;
           rest \<leftarrow> error_contexts k eData;
           Some (case rest of Inl e \<Rightarrow> Inl e | Inr ds \<Rightarrow> Inr (vis d # ds)) }) }) }"

definition acceptError :: "u32 \<Rightarrow> slice \<Rightarrow> error option" where
  "acceptError status r = do {
     inv \<leftarrow> er_IsInvalid r;
     (if inv then Some (InvalidResponseError ''broken error response format'')
      else do {
        eData \<leftarrow> er_ErrorData r;
        count \<leftarrow> er_ErrorContextCount r;
        (if count \<noteq> 0
         then do {
           ds \<leftarrow> error_contexts (unat count) eData;
           Some (case ds of Inl e \<Rightarrow> e | Inr ds \<Rightarrow> ResponseError status ds) }
         else Some (ResponseError status [vis eData])) }) }"

text \<open>The data and the error that are returned; \<open>None\<close> is a run-time panic.\<close>

definition accept :: "u16 \<Rightarrow> slice \<Rightarrow> (slice \<times> error option) option" where
  "accept cmd pkt =
     (if len pkt < 64 then Some (nil_slice, Some broken)
      else do {
        smb1 \<leftarrow> p_IsSmb1 pkt;
        (if smb1 then Some (nil_slice, Some broken)
         else do {
           ss \<leftarrow> p_StructureSize pkt;
           (if ss \<noteq> 64 then Some (nil_slice, Some broken)
            else do {
              command \<leftarrow> p_Command pkt;
              (if cmd \<noteq> command
               then Some (nil_slice, Some (InvalidResponseError (''expected command: '' @ decimal (unat cmd)
                      @ '', got '' @ decimal (unat command))))
               else do {
                 fl \<leftarrow> p_Flags pkt;
                 dat \<leftarrow> p_Data pkt;
                 (if fl AND SMB2_FLAGS_SERVER_TO_REDIR = 0 then Some (dat, None)
                  else do {
                    status \<leftarrow> p_Status pkt;
                    (if status = 0 then Some (dat, None)
                     else if status = STATUS_OBJECT_NAME_COLLISION then Some (nil_slice, Some ErrExist)
                     else if status = STATUS_OBJECT_NAME_NOT_FOUND \<or> status = STATUS_OBJECT_PATH_NOT_FOUND
                     then Some (nil_slice, Some ErrNotExist)
                     else if status = STATUS_ACCESS_DENIED \<or> status = STATUS_CANNOT_DELETE
                     then Some (nil_slice, Some ErrPermission)
                     else if cmd = SMB2_SESSION_SETUP \<and> status = STATUS_MORE_PROCESSING_REQUIRED
                     then Some (dat, None)
                     else if (cmd = SMB2_QUERY_INFO \<or> cmd = SMB2_READ) \<and> status = STATUS_BUFFER_OVERFLOW
                     then Some (nil_slice, Some (ResponseError status []))
                     else if cmd = SMB2_CHANGE_NOTIFY \<and> status = STATUS_NOTIFY_ENUM_DIR
                     then Some (nil_slice, Some (ResponseError status []))
                     else do {
                       inv \<leftarrow> (if cmd = SMB2_IOCTL \<and> status = STATUS_BUFFER_OVERFLOW
                              then io_IsInvalid dat else Some True);
                       (if \<not> inv then Some (dat, Some (ResponseError status []))
                        else do {
                          e \<leftarrow> acceptError status dat;
                          Some (nil_slice, Some e) }) }) }) }) }) }) })"

subsection \<open>Properties\<close>

lemma accept_header:
  assumes "64 \<le> len pkt"
  shows "p_StructureSize pkt = Some (le_dec (rd 4 2 (vis pkt)))" "p_Flags pkt = Some (le_dec (rd 16 4 (vis pkt)))"
    "p_Data pkt = Some (Slice (drop 64 (vis pkt)) (ext pkt))" "p_Status pkt = Some (le_dec (rd 8 4 (vis pkt)))"
  using assms by (simp_all add: codec_defs u16_in_in u32_in_in sl_from_in rd_def)

text \<open>
  On a request (the reply flag is clear) \<^verbatim>\<open>accept\<close> never panics; it returns the bytes behind the
  header exactly when the message has a full header, is not SMB1, has structure size 64 and the
  command the handler expects.
\<close>

theorem accept_request:
  assumes "64 \<le> len pkt \<Longrightarrow> p_Flags pkt = Some fl" "fl AND SMB2_FLAGS_SERVER_TO_REDIR = 0"
  shows "\<exists>dat err. accept cmd pkt = Some (dat, err)
    \<and> (err = None \<longleftrightarrow> 64 \<le> len pkt \<and> p_IsSmb1 pkt = Some False \<and> p_StructureSize pkt = Some 64
          \<and> p_Command pkt = Some cmd)
    \<and> (err = None \<longrightarrow> p_Data pkt = Some dat)"
proof (cases "len pkt < 64")
  case True
  then show ?thesis by (simp add: accept_def broken_def)
next
  case False
  obtain command where "p_Command pkt = Some command" using p_Command_total by blast
  with False assms accept_header [of pkt] show ?thesis
    by (simp add: accept_def broken_def p_IsSmb1_eq Let_def)
qed

definition sample_request :: "byte list" where
  "sample_request = wrs [(0, MAGIC), (4, le_enc 2 (64 :: u16)), (12, le_enc 2 (1 :: u16))] (zeros 72)"

lemma accept_request_witness:
  "\<exists>dat. accept 1 (Slice sample_request []) = Some (dat, None)"
proof -
  have "p_Flags (Slice sample_request []) = Some 0" "p_IsSmb1 (Slice sample_request []) = Some False"
    "p_StructureSize (Slice sample_request []) = Some 64" "p_Command (Slice sample_request []) = Some 1"
    "64 \<le> len (Slice sample_request [])"
    by code_simp+
  with accept_request [of "Slice sample_request []" 0 1] show ?thesis by auto
qed

text \<open>
  C18. A message that claims to be a reply can crash the server before any authentication: with an
  error status and an error body whose 32-bit byte count is so large that eight more wrap around, the
  length check passes and slicing the error data panics.
\<close>

theorem accept_reply_panics:
  assumes "72 \<le> len pkt" "len pkt < 2 ^ 32" "p_IsSmb1 pkt = Some False" "p_StructureSize pkt = Some 64"
    and "p_Command pkt = Some SMB2_SESSION_SETUP"
    and "p_Flags pkt = Some fl" "fl AND SMB2_FLAGS_SERVER_TO_REDIR \<noteq> 0"
    and "p_Status pkt = Some STATUS_INVALID_PARAMETER"
    and "p_Data pkt = Some dat" "er_StructureSize dat = Some 9" "er_ByteCount dat = Some n"
    and "2 ^ 32 - 8 \<le> unat n"
  shows "accept SMB2_SESSION_SETUP pkt = None"
proof -
  have dat: "dat = Slice (drop 64 (vis pkt)) (ext pkt)"
    using assms(1,9) by (simp add: accept_header)
  have l: "8 \<le> len dat" using assms(1) by (simp add: dat len_def)
  have n32: "unat n < 2 ^ 32" using unsigned_less [where ?'a = nat and w = n] by simp
  have "unat (8 + n) = (8 + unat n) mod 2 ^ 32" by (simp add: unat_word_ariths)
  also have "\<dots> = 8 + unat n - 2 ^ 32" using assms(12) n32 by (simp add: mod_if)
  finally have wrapped: "unat (8 + n) < 8" using n32 by simp
  then have "8 + n < 8" by (simp add: word_less_nat_alt)
  moreover have "8 \<le> (of_nat (len dat) :: u32)"
  proof -
    have "len dat < 2 ^ 32" using assms(2) by (simp add: dat len_def)
    then have "unat (of_nat (len dat) :: u32) = len dat" by (simp add: unat_of_nat)
    with l show ?thesis by (simp add: word_le_nat_alt)
  qed
  ultimately have "er_IsInvalid dat = Some False"
    using l assms(10,11) by (simp add: er_IsInvalid_def)
  moreover have "er_ErrorData dat = None"
    using wrapped assms(11) by (simp add: er_ErrorData_def sl_range_None)
  ultimately have "acceptError STATUS_INVALID_PARAMETER dat = None" by (simp add: acceptError_def)
  with assms show ?thesis by (simp add: accept_def status_defs)
qed

definition crash_reply :: "byte list" where
  "crash_reply = wrs [(0, MAGIC), (4, le_enc 2 (64 :: u16)), (8, le_enc 4 STATUS_INVALID_PARAMETER),
     (12, le_enc 2 (1 :: u16)), (16, le_enc 4 (1 :: u32)), (64, le_enc 2 (9 :: u16)),
     (68, le_enc 4 (0xFFFFFFF8 :: u32))] (zeros 72)"

lemma accept_reply_panics_witness: "accept SMB2_SESSION_SETUP (Slice crash_reply []) = None"
proof (rule accept_reply_panics)
  have l: "length crash_reply = 72" by (simp add: crash_reply_def length_wr)
  then show "72 \<le> len (Slice crash_reply [])" "len (Slice crash_reply []) < 2 ^ 32"
    "p_Data (Slice crash_reply []) = Some (Slice (drop 64 crash_reply) [])"
    by (simp_all add: p_Data_def sl_from_in)
  show "p_IsSmb1 (Slice crash_reply []) = Some False" "p_StructureSize (Slice crash_reply []) = Some 64"
    "p_Command (Slice crash_reply []) = Some SMB2_SESSION_SETUP" "p_Flags (Slice crash_reply []) = Some 1"
    "p_Status (Slice crash_reply []) = Some STATUS_INVALID_PARAMETER"
    "er_StructureSize (Slice (drop 64 crash_reply) []) = Some 9"
    "er_ByteCount (Slice (drop 64 crash_reply) []) = Some 0xFFFFFFF8"
    by code_simp+
qed simp_all

end
