(* ===== verification/Negotiation.thy ===== *)
theory Negotiation
  imports Response Request Session
begin

section \<open>Negotiation: dialects, negotiate contexts and SPNEGO\<close>

text \<open>
  The decoders of the negotiate contexts (\<^verbatim>\<open>smb/internal/smb2/smb2.go\<close>), the choice of the
  dialect in \<^verbatim>\<open>ServerNegotiator.negotiate\<close> and the SPNEGO server of
  \<^verbatim>\<open>smb/server/spnego.go\<close> over the interface \<^verbatim>\<open>Authenticator\<close> of \<^verbatim>\<open>authenticator.go\<close>.
\<close>

subsection \<open>NegotiateContextDecoder\<close>

definition nc_ContextType :: "slice \<Rightarrow> u16 option" where
  "nc_ContextType ctx = u16_in 0 2 ctx"

definition nc_DataLength :: "slice \<Rightarrow> u16 option" where
  "nc_DataLength ctx = u16_in 2 4 ctx"

definition nc_IsInvalid :: "slice \<Rightarrow> bool option" where
  "nc_IsInvalid ctx =
     (if len ctx < 8 then Some True
      else do { n \<leftarrow> nc_DataLength ctx; Some (len ctx < 8 + unat n) })"

text \<open>\<^verbatim>\<open>8+len\<close> is computed in 16 bits.\<close>

definition nc_Data :: "slice \<Rightarrow> slice option" where
  "nc_Data ctx = do { n \<leftarrow> nc_DataLength ctx; sl_range 8 (unat (8 + n)) ctx }"

definition nc_Next :: "slice \<Rightarrow> nat option" where
  "nc_Next ctx = do { n \<leftarrow> nc_DataLength ctx; Some (nat (Roundup (8 + int (unat n)) 8)) }"

subsection \<open>HashContextDataDecoder and CipherContextDataDecoder\<close>

definition hc_HashAlgorithmCount :: "slice \<Rightarrow> u16 option" where
  "hc_HashAlgorithmCount h = u16_in 0 2 h"

definition hc_SaltLength :: "slice \<Rightarrow> u16 option" where
  "hc_SaltLength h = u16_in 2 4 h"

definition hc_IsInvalid :: "slice \<Rightarrow> bool option" where
  "hc_IsInvalid h =
     (if len h < 4 then Some True
      else do {
        n \<leftarrow> hc_HashAlgorithmCount h;
        m \<leftarrow> hc_SaltLength h;
        Some (len h < 4 + unat n * 2 + unat m) })"

definition hc_HashAlgorithms :: "slice \<Rightarrow> u16 list option" where
  "hc_HashAlgorithms h = do {
     bs \<leftarrow> sl_from 4 h;
     n \<leftarrow> hc_HashAlgorithmCount h;
     u16s_loop (unat n) 0 bs }"

definition hc_Salt :: "slice \<Rightarrow> slice option" where
  "hc_Salt h = do {
     n \<leftarrow> hc_HashAlgorithmCount h;
     m \<leftarrow> hc_SaltLength h;
     let off = 4 + n * 2;
     sl_range (unat off) (unat (off + m)) h }"

definition cc_CipherCount :: "slice \<Rightarrow> u16 option" where
  "cc_CipherCount h = u16_in 0 2 h"

definition cc_IsInvalid :: "slice \<Rightarrow> bool option" where
  "cc_IsInvalid h =
     (if len h < 2 then Some True
      else do { n \<leftarrow> cc_CipherCount h; Some (len h < 2 + unat n * 2) })"

definition cc_Ciphers :: "slice \<Rightarrow> u16 list option" where
  "cc_Ciphers h = do {
     bs \<leftarrow> sl_from 2 h;
     n \<leftarrow> cc_CipherCount h;
     u16s_loop (unat n) 0 bs }"

subsection \<open>The dialect\<close>

text \<open>The loop over the offered dialects and the two tests after it.\<close>

fun pick_dialect :: "u16 \<Rightarrow> u16 list \<Rightarrow> u16" where
  "pick_dialect cur [] = cur"
| "pick_dialect cur (d # ds) = pick_dialect (if d > cur \<and> d \<le> SMB311 then d else cur) ds"

definition choose_dialect :: "u16 list \<Rightarrow> u16" where
  "choose_dialect ds = (let d = pick_dialect SMB2 ds in if d = SMB2 then SMB210 else d)"

definition known_dialect :: "u16 \<Rightarrow> bool" where
  "known_dialect d \<longleftrightarrow> d \<in> {SMB2, SMB202, SMB210, SMB300, SMB302, SMB311}"

subsection \<open>SPNEGO\<close>

text \<open>
  An object identifier is a list of numbers.  The DER codec of \<^verbatim>\<open>internal/spnego\<close> and the
  methods of an \<^verbatim>\<open>Authenticator\<close> are arguments; an authenticator is an object that its methods
  change, so it is named by its place in the list \<open>auths\<close> of authenticator states, which several
  SPNEGO servers may share.
\<close>

type_synonym oid = "nat list"

definition NlmpOid :: oid where "NlmpOid = [1, 3, 6, 1, 4, 1, 311, 2, 2, 10]"

record spnego_codec =
  EncodeNegTokenInit :: "oid list \<Rightarrow> error + byte list"
  DecodeNegTokenInit :: "byte list \<Rightarrow> error + oid list \<times> byte list"
  EncodeNegTokenResp :: "oid \<Rightarrow> byte list \<Rightarrow> error + byte list"
  DecodeNegTokenResp :: "byte list \<Rightarrow> error + oid \<times> byte list"
  EncodeNegTokenAccepted :: "error + byte list"

text \<open>What an authentication told about the client (\<^verbatim>\<open>ntlm.InfoMap\<close>).\<close>

record InfoMap =
  NbComputerName :: string
  NbDomainName :: string
  DnsComputerName :: string
  DnsDomainName :: string
  DnsTreeName :: string

record 'a Authenticator =
  a_oid :: oid
  a_challenge :: "'a \<Rightarrow> byte list \<Rightarrow> ((error + byte list) \<times> 'a) option"
  a_authenticate :: "'a \<Rightarrow> byte list \<Rightarrow> ((error + string) \<times> 'a) option"
  a_sessionKey :: "'a \<Rightarrow> byte list option"
  a_infoMap :: "'a \<Rightarrow> InfoMap option"

record spnegoServer =
  mechs :: "nat list"
  mechTypes :: "oid list"
  selectedMech :: "nat option"

definition newSpnegoServer :: "'a Authenticator \<Rightarrow> nat list \<Rightarrow> spnegoServer" where
  "newSpnegoServer A ms = \<lparr>mechs = ms, mechTypes = map (\<lambda>_. a_oid A) ms, selectedMech = None\<rparr>"

definition initSecContext :: "spnego_codec \<Rightarrow> spnegoServer \<Rightarrow> error + byte list" where
  "initSecContext sc sp = EncodeNegTokenInit sc (mechTypes sp)"

definition is_raw_ntlm :: "byte list \<Rightarrow> bool" where
  "is_raw_ntlm tok \<longleftrightarrow> take 7 tok = ascii ''NTLMSSP''"

text \<open>The loops that select a mechanism: the first of the server's own types that matches, or the last.\<close>

fun first_mech :: "(oid \<Rightarrow> bool) \<Rightarrow> (oid \<times> nat) list \<Rightarrow> nat option \<Rightarrow> nat option" where
  "first_mech P [] sel = sel"
| "first_mech P ((ty, m) # ms) sel = (if P ty then Some m else first_mech P ms sel)"

fun last_mech :: "(oid \<Rightarrow> bool) \<Rightarrow> (oid \<times> nat) list \<Rightarrow> nat option \<Rightarrow> nat option" where
  "last_mech P [] sel = sel"
| "last_mech P ((ty, m) # ms) sel = last_mech P ms (if P ty then Some m else sel)"

definition typed_mechs :: "spnegoServer \<Rightarrow> (oid \<times> nat) list" where
  "typed_mechs sp = zip (mechTypes sp) (mechs sp)"

text \<open>A method of the authenticator at \<open>m\<close>; a dangling or \<open>nil\<close> mechanism is a panic.\<close>

definition with_mech :: "nat option \<Rightarrow> 'a list \<Rightarrow> ('a \<Rightarrow> ('r \<times> 'a) option) \<Rightarrow> ('r \<times> 'a list) option" where
  "with_mech sel auths f = do {
     m \<leftarrow> sel;
     (if m < length auths
      then do { (r, a) \<leftarrow> f (auths ! m); Some (r, auths[m := a]) } else None) }"

definition sp_challenge ::
    "spnego_codec \<Rightarrow> 'a Authenticator \<Rightarrow> spnegoServer option \<Rightarrow> 'a list \<Rightarrow> byte list
     \<Rightarrow> ((error + byte list) \<times> spnegoServer option \<times> 'a list) option" where
  "sp_challenge sc A sp auths tok =
     (if is_raw_ntlm tok
      then do {
        sp \<leftarrow> sp;
        let sp = sp\<lparr>selectedMech := first_mech (\<lambda>ty. ty = NlmpOid) (typed_mechs sp) (selectedMech sp)\<rparr>;
        (if selectedMech sp = None
         then Some (Inl (ErrorString ''failed to find ntlmspp authenticator''), Some sp, auths)
         else do {
           (r, auths) \<leftarrow> with_mech (selectedMech sp) auths (\<lambda>a. a_challenge A a tok);
           Some (r, Some sp, auths) }) }
      else case DecodeNegTokenInit sc tok of
        Inl e \<Rightarrow> Some (Inl e, sp, auths)
      | Inr (types, mtok) \<Rightarrow> do {
          sp \<leftarrow> sp;
          let sp = sp\<lparr>selectedMech := last_mech (\<lambda>ty. ty \<in> set types) (typed_mechs sp) (selectedMech sp)\<rparr>;
          (if selectedMech sp = None
           then Some (Inl (ErrorString ''incompatible mech type in tokenInit''), Some sp, auths)
           else do {
             (r, auths) \<leftarrow> with_mech (selectedMech sp) auths (\<lambda>a. a_challenge A a mtok);
             Some (case r of Inl e \<Rightarrow> Inl e | Inr t \<Rightarrow> EncodeNegTokenResp sc (a_oid A) t, Some sp, auths) }) })"

definition sp_authenticate ::
    "spnego_codec \<Rightarrow> 'a Authenticator \<Rightarrow> spnegoServer option \<Rightarrow> 'a list \<Rightarrow> byte list
     \<Rightarrow> ((error + byte list \<times> string) \<times> spnegoServer option \<times> 'a list) option" where
  "sp_authenticate sc A sp auths tok =
     (if is_raw_ntlm tok
      then do {
        sp \<leftarrow> sp;
        (r, auths) \<leftarrow> with_mech (selectedMech sp) auths (\<lambda>a. a_authenticate A a tok);
        Some (case r of Inl e \<Rightarrow> Inl e | Inr user \<Rightarrow> Inr ([], user), Some sp, auths) }
      else case DecodeNegTokenResp sc tok of
        Inl e \<Rightarrow> Some (Inl e, sp, auths)
      | Inr (mech, mtok) \<Rightarrow> do {
          sp \<leftarrow> sp;
          let sp = sp\<lparr>selectedMech := first_mech (\<lambda>ty. ty = mech) (typed_mechs sp) (selectedMech sp)\<rparr>;
          (r, auths) \<leftarrow> with_mech (selectedMech sp) auths (\<lambda>a. a_authenticate A a mtok);
          Some (case r of Inl e \<Rightarrow> Inl e
                | Inr user \<Rightarrow> (case EncodeNegTokenAccepted sc of Inl e \<Rightarrow> Inl e | Inr t \<Rightarrow> Inr (t, user)),
                Some sp, auths) })"

definition sp_sessionKey :: "'a Authenticator \<Rightarrow> spnegoServer option \<Rightarrow> 'a list \<Rightarrow> byte list option" where
  "sp_sessionKey A sp auths = do {
     sp \<leftarrow> sp;
     m \<leftarrow> selectedMech sp;
     (if m < length auths then a_sessionKey A (auths ! m) else None) }"

subsection \<open>The dialect that is chosen\<close>

lemma pick_dialect_ge: "cur \<le> pick_dialect cur ds"
  by (induction cur ds rule: pick_dialect.induct) (auto intro: order_trans less_imp_le)

lemma pick_dialect_cases:
  "pick_dialect cur ds = cur \<or> pick_dialect cur ds \<in> set ds \<and> pick_dialect cur ds \<le> SMB311"
  by (induction cur ds rule: pick_dialect.induct) auto

lemma pick_dialect_upper: "d \<in> set ds \<Longrightarrow> d \<le> SMB311 \<Longrightarrow> d \<le> pick_dialect cur ds"
proof (induction cur ds rule: pick_dialect.induct)
  case (2 cur d' ds)
  show ?case
  proof (cases "d = d'")
    case True
    have "d \<le> (if d' > cur \<and> d' \<le> SMB311 then d' else cur)"
      using True "2.prems" by auto
    also have "\<dots> \<le> pick_dialect \<dots> ds" by (rule pick_dialect_ge)
    finally show ?thesis by simp
  qed (use 2 in auto)
qed simp

lemma choose_dialect_not_SMB2: "choose_dialect ds \<noteq> SMB2"
  by (simp add: choose_dialect_def Let_def)

subsection \<open>Reading 16-bit lists and contexts back\<close>

lemma u16_list_Cons [simp]: "u16_list (u # us) = le_enc 2 u @ u16_list us" "u16_list [] = []"
  by (simp_all add: u16_list_def)

lemma u16s_loop_list:
  "length pre = 2 * i \<Longrightarrow> u16s_loop (length us) i (Slice (pre @ u16_list us @ post) e) = Some us"
proof (induction us arbitrary: pre i)
  case (Cons u us)
  have "u16s_loop (length us) (Suc i) (Slice ((pre @ le_enc 2 u) @ u16_list us @ post) e) = Some us"
    using Cons.prems by (intro Cons.IH) simp
  then show ?case using Cons.prems by (simp add: u16_in_in)
qed simp

lemma hash_data_reads:
  assumes "4 + 2 * length algs + length salt < 65536"
  defines "d \<equiv> le_enc 2 (of_nat (length algs) :: u16) @ le_enc 2 (of_nat (length salt) :: u16) @ u16_list algs @ salt"
  shows "hc_IsInvalid (Slice d e) = Some False" "hc_HashAlgorithms (Slice d e) = Some algs"
    "\<exists>s. hc_Salt (Slice d e) = Some s \<and> vis s = salt"
proof -
  have n: "hc_HashAlgorithmCount (Slice d e) = Some (of_nat (length algs))"
      "hc_SaltLength (Slice d e) = Some (of_nat (length salt))"
    by (simp_all add: d_def hc_HashAlgorithmCount_def hc_SaltLength_def u16_in_in)
  have u: "unat (of_nat (length algs) :: u16) = length algs" "unat (of_nat (length salt) :: u16) = length salt"
    using assms(1) by (simp_all add: unat_of_nat)
  show "hc_IsInvalid (Slice d e) = Some False"
    using n u by (simp add: hc_IsInvalid_def d_def)
  have "sl_from 4 (Slice d e) = Some (Slice (u16_list algs @ salt) e)"
    by (simp add: d_def sl_from_in)
  then show "hc_HashAlgorithms (Slice d e) = Some algs"
    using n(1) u(1) u16s_loop_list [of "[]" 0 algs salt e] by (simp add: hc_HashAlgorithms_def)
  have o1: "unat (4 + of_nat (length algs) * 2 :: u16) = 4 + 2 * length algs"
    using assms(1) by (simp add: unat_word_ariths u mod_simps mult.commute)
  have o2: "unat (4 + of_nat (length algs) * 2 + of_nat (length salt) :: u16) = 4 + 2 * length algs + length salt"
    using assms(1) by (simp add: unat_word_ariths u mod_simps mult.commute)
  show "\<exists>s. hc_Salt (Slice d e) = Some s \<and> vis s = salt"
    using n by (simp add: hc_Salt_def o1 o2 Let_def sl_range_in d_def)
qed

lemma cipher_data_reads:
  assumes "2 + 2 * length cs < 65536"
  defines "d \<equiv> le_enc 2 (of_nat (length cs) :: u16) @ u16_list cs"
  shows "cc_IsInvalid (Slice d e) = Some False" "cc_Ciphers (Slice d e) = Some cs"
proof -
  have n: "cc_CipherCount (Slice d e) = Some (of_nat (length cs))"
    by (simp add: d_def cc_CipherCount_def u16_in_in)
  have u: "unat (of_nat (length cs) :: u16) = length cs" using assms(1) by (simp add: unat_of_nat)
  show "cc_IsInvalid (Slice d e) = Some False" using n u by (simp add: cc_IsInvalid_def d_def)
  have "sl_from 2 (Slice d e) = Some (Slice (u16_list cs) e)" by (simp add: d_def sl_from_in)
  then show "cc_Ciphers (Slice d e) = Some cs"
    using n u u16s_loop_list [of "[]" 0 cs "[]" e] by (simp add: cc_Ciphers_def)
qed

lemma context_frame_reads:
  fixes ty :: u16
  assumes "8 + length d < 65536"
  shows "nc_IsInvalid (Slice (le_enc 2 ty @ le_enc 2 (of_nat (length d) :: u16) @ zeros 4 @ d) e) = Some False"
    "nc_ContextType (Slice (le_enc 2 ty @ le_enc 2 (of_nat (length d) :: u16) @ zeros 4 @ d) e) = Some ty"
    "nc_Data (Slice (le_enc 2 ty @ le_enc 2 (of_nat (length d) :: u16) @ zeros 4 @ d) e) = Some (Slice d e)"
    "nc_Next (Slice (le_enc 2 ty @ le_enc 2 (of_nat (length d) :: u16) @ zeros 4 @ d) e) = Some (round8 (8 + length d))"
proof -
  let ?s = "Slice (le_enc 2 ty @ le_enc 2 (of_nat (length d) :: u16) @ zeros 4 @ d) e"
  have n: "nc_DataLength ?s = Some (of_nat (length d))" by (simp add: nc_DataLength_def u16_in_in)
  have u: "unat (of_nat (length d) :: u16) = length d" using assms by (simp add: unat_of_nat)
  have ui: "uint (of_nat (length d) :: u16) = int (length d)" unfolding uint_nat u ..
  have u8: "unat (8 + of_nat (length d) :: u16) = 8 + length d"
    using assms by (simp add: unat_word_ariths u)
  show "nc_IsInvalid ?s = Some False" using n u by (simp add: nc_IsInvalid_def)
  show "nc_ContextType ?s = Some ty" by (simp add: nc_ContextType_def u16_in_in)
  show "nc_Data ?s = Some (Slice d e)" using n by (simp add: nc_Data_def u8 sl_range_in)
  show "nc_Next ?s = Some (round8 (8 + length d))"
    using n ui by (simp add: nc_Next_def round8_def)
qed

subsection \<open>Properties\<close>

text \<open>
  C17. The dialect that the server picks is the greatest one offered above the wildcard 0x2FF and up
  to 3.1.1, whether or not it is a dialect it knows; when nothing in that range is offered it is
  2.1, even for a client that offers only 2.0.2.
\<close>

theorem dialect_choice:
  "let good = {d \<in> set ds. SMB2 < d \<and> d \<le> SMB311} in
   choose_dialect ds = (if good = {} then SMB210 else Max good)"
proof -
  define good where "good = {d \<in> set ds. SMB2 < d \<and> d \<le> SMB311}"
  let ?p = "pick_dialect SMB2 ds"
  have fin: "finite good" by (simp add: good_def)
  have ge: "SMB2 \<le> ?p" by (rule pick_dialect_ge)
  have inn: "?p = SMB2 \<or> ?p \<in> good"
    using pick_dialect_cases [of SMB2 ds] ge by (auto simp: good_def order.strict_iff_order)
  have up: "d \<in> good \<Longrightarrow> d \<le> ?p" for d
    using pick_dialect_upper by (auto simp: good_def)
  have "choose_dialect ds = (if good = {} then SMB210 else Max good)"
  proof (cases "good = {}")
    case True
    then show ?thesis using inn by (simp add: choose_dialect_def)
  next
    case False
    then obtain d where d: "d \<in> good" by blast
    then have "SMB2 < d" by (simp add: good_def)
    with up [OF d] have ne: "?p \<noteq> SMB2" by auto
    then have "?p = Max good" using inn up fin by (intro Max_eqI [symmetric]) auto
    with ne False show ?thesis by (simp add: choose_dialect_def Let_def)
  qed
  then show ?thesis unfolding Let_def good_def .
qed

text \<open>
  The negotiate contexts that the server sends are read back by its own decoders: type and data
  of the frame, the hash algorithms with the salt, the ciphers, and \<^verbatim>\<open>Next()\<close> is the size rounded up
  to eight, as long as a context is shorter than 64 KiB.
\<close>

theorem negotiate_contexts_roundtrip:
  assumes "NegotiateContext_Size x < 65536"
  shows "nc_IsInvalid (Slice (NegotiateContext_Encode x) e) = Some False
    \<and> nc_Next (Slice (NegotiateContext_Encode x) e) = Some (round8 (NegotiateContext_Size x))
    \<and> (\<exists>d. nc_Data (Slice (NegotiateContext_Encode x) e) = Some d \<and>
        (case x of
           HashContext algs salt \<Rightarrow> nc_ContextType (Slice (NegotiateContext_Encode x) e) = Some 1
             \<and> hc_IsInvalid d = Some False \<and> hc_HashAlgorithms d = Some algs
             \<and> (\<exists>s. hc_Salt d = Some s \<and> vis s = salt)
         | CipherContext cs \<Rightarrow> nc_ContextType (Slice (NegotiateContext_Encode x) e) = Some 2
             \<and> cc_IsInvalid d = Some False \<and> cc_Ciphers d = Some cs
         | CompressionContext cs fl \<Rightarrow> nc_ContextType (Slice (NegotiateContext_Encode x) e) = Some 3
         | PosixContext \<Rightarrow> nc_ContextType (Slice (NegotiateContext_Encode x) e) = Some 0x0100))"
proof (cases x)
  case (HashContext algs salt)
  let ?d = "le_enc 2 (of_nat (length algs) :: u16) @ le_enc 2 (of_nat (length salt) :: u16) @ u16_list algs @ salt"
  have l: "length ?d = 4 + length algs * 2 + length salt" by simp
  have e: "NegotiateContext_Encode x = le_enc 2 (1 :: u16) @ le_enc 2 (of_nat (length ?d) :: u16) @ zeros 4 @ ?d"
    unfolding l by (simp add: HashContext)
  have sz: "8 + length ?d < 65536" "NegotiateContext_Size x = 8 + length ?d"
    using assms by (simp_all add: HashContext)
  have h: "4 + 2 * length algs + length salt < 65536" using sz by simp
  show ?thesis
    unfolding e sz(2) using context_frame_reads [OF sz(1)] hash_data_reads [OF h] HashContext by auto
next
  case (CipherContext cs)
  let ?d = "le_enc 2 (of_nat (length cs) :: u16) @ u16_list cs"
  have l: "length ?d = 2 + length cs * 2" by simp
  have e: "NegotiateContext_Encode x = le_enc 2 (2 :: u16) @ le_enc 2 (of_nat (length ?d) :: u16) @ zeros 4 @ ?d"
    unfolding l by (simp add: CipherContext)
  have sz: "8 + length ?d < 65536" "NegotiateContext_Size x = 8 + length ?d"
    using assms by (simp_all add: CipherContext)
  have h: "2 + 2 * length cs < 65536" using sz by simp
  show ?thesis
    unfolding e sz(2) using context_frame_reads [OF sz(1)] cipher_data_reads [OF h] CipherContext by auto
next
  case (CompressionContext cs fl)
  let ?d = "le_enc 2 (of_nat (length cs) :: u16) @ zeros 2 @ le_enc 4 fl @ u16_list cs"
  have l: "length ?d = 8 + length cs * 2" by simp
  have e: "NegotiateContext_Encode x = le_enc 2 (3 :: u16) @ le_enc 2 (of_nat (length ?d) :: u16) @ zeros 4 @ ?d"
    unfolding l by (simp add: CompressionContext)
  have sz: "8 + length ?d < 65536" "NegotiateContext_Size x = 8 + length ?d"
    using assms by (simp_all add: CompressionContext)
  show ?thesis
    unfolding e sz(2) using context_frame_reads [OF sz(1)] CompressionContext by auto
next
  case PosixContext
  have e: "NegotiateContext_Encode x =
      le_enc 2 (0x0100 :: u16) @ le_enc 2 (of_nat (length (le_enc 2 (1 :: u16))) :: u16) @ zeros 4 @ le_enc 2 (1 :: u16)"
    by (simp add: PosixContext)
  have sz: "NegotiateContext_Size x = 8 + length (le_enc 2 (1 :: u16))" by (simp add: PosixContext)
  show ?thesis
    unfolding e sz using context_frame_reads [of "le_enc 2 (1 :: u16)" "0x0100" e] PosixContext by simp
qed

lemma negotiate_contexts_roundtrip_witness:
  "\<exists>d. nc_Data (Slice (NegotiateContext_Encode (CipherContext [2, 1])) []) = Some d \<and> cc_Ciphers d = Some [2, 1]"
  using negotiate_contexts_roundtrip [of "CipherContext [2, 1]" "[]"] by auto

end
