(* ===== verification/Objects.thy ===== *)
theory Objects
  imports Prelude
begin

section \<open>Objects behind pointers\<close>

text \<open>
  Sessions, trees and compound contexts are shared through Go pointers: two maps and a field may
  hold the same one, and an update through one of them is seen through all.  A pointer is a number,
  a store maps it to its object.  The laws of a store are a locale; lists, where a new object goes
  to the end, are the store of the model.
\<close>

locale object_store =
  fixes alloc :: "'o \<Rightarrow> 'h \<Rightarrow> nat \<times> 'h"
    and deref :: "nat \<Rightarrow> 'h \<Rightarrow> 'o option"
    and modify :: "nat \<Rightarrow> ('o \<Rightarrow> 'o) \<Rightarrow> 'h \<Rightarrow> 'h"
  assumes alloc_new: "alloc x h = (p, h') \<Longrightarrow> deref p h = None"
    and deref_alloc: "alloc x h = (p, h') \<Longrightarrow> deref q h' = (if q = p then Some x else deref q h)"
    and deref_modify: "deref q (modify p f h) = (if q = p then map_option f (deref q h) else deref q h)"
begin

lemma old_not_new: "alloc x h = (p, h') \<Longrightarrow> deref q h = Some y \<Longrightarrow> q \<noteq> p \<and> deref q h' = Some y"
  using alloc_new deref_alloc by auto

lemma alloc_twice: "alloc x h = (p, h') \<Longrightarrow> alloc y h' = (q, h'') \<Longrightarrow> p \<noteq> q"
  using alloc_new [of y h' q h''] deref_alloc [of x h p h' p] by auto

lemma all_alloc:
  "alloc x h = (p, h') \<Longrightarrow> (\<forall>q y. deref q h' = Some y \<longrightarrow> Q y) \<longleftrightarrow> Q x \<and> (\<forall>q y. deref q h = Some y \<longrightarrow> Q y)"
  using deref_alloc [of x h p h'] alloc_new [of x h p h'] by (metis option.inject option.distinct(1))

lemma all_modify:
  assumes "\<And>y. deref p h = Some y \<Longrightarrow> Q y \<Longrightarrow> Q (f y)" "\<forall>q y. deref q h = Some y \<longrightarrow> Q y"
  shows "\<forall>q y. deref q (modify p f h) = Some y \<longrightarrow> Q y"
  using assms by (auto simp: deref_modify split: if_splits)

lemma live_modify: "deref q (modify p f h) = None \<longleftrightarrow> deref q h = None"
  by (simp add: deref_modify)

end

definition obj_alloc :: "'o \<Rightarrow> 'o list \<Rightarrow> nat \<times> 'o list" where
  "obj_alloc x h = (length h, h @ [x])"

definition obj_deref :: "nat \<Rightarrow> 'o list \<Rightarrow> 'o option" where
  "obj_deref p h = (if p < length h then Some (h ! p) else None)"

definition obj_modify :: "nat \<Rightarrow> ('o \<Rightarrow> 'o) \<Rightarrow> 'o list \<Rightarrow> 'o list" where
  "obj_modify p f h = (if p < length h then h[p := f (h ! p)] else h)"

interpretation objs: object_store obj_alloc obj_deref obj_modify
  by unfold_locales (auto simp: obj_alloc_def obj_deref_def obj_modify_def nth_append split: if_splits)

lemma deref_alloc_new [simp]: "obj_deref (fst (obj_alloc x h)) (snd (obj_alloc x h)) = Some x"
  using objs.deref_alloc [of x h "fst (obj_alloc x h)" "snd (obj_alloc x h)"] by simp

lemma deref_alloc_old: "obj_deref q h = Some y \<Longrightarrow> obj_deref q (snd (obj_alloc x h)) = Some y"
  using objs.old_not_new [of x h "fst (obj_alloc x h)" "snd (obj_alloc x h)"] by simp

lemmas deref_modify [simp] = objs.deref_modify

end
