(* ===== verification/Conn.thy ===== *)
theory Conn
  imports Objects Compound Accept Negotiation Credit
begin

section \<open>Connections: sending and receiving packets\<close>

text \<open>
  \<^verbatim>\<open>smb/server/conn.go\<close>.  A connection is a record; what its methods read from the outside (random
  numbers, the clock, the fate of a write, the standard library's cryptography) is the record
  \<open>world\<close>.  Methods take the connection and return it changed; \<open>None\<close> is a run-time panic.
\<close>

subsection \<open>State\<close>

record treeConn =
  tc_session :: "nat option"
  tc_treeId :: u32
  tc_shareFlags :: u32
  tc_path :: string
  tc_refCount :: int

text \<open>
  The two implementations of \<^verbatim>\<open>treeOps\<close>: an IPC tree with its share names and the RPC
  request that was written to it, a file tree with its file
  system, open files, whether the client uses the Apple extensions, and the capacities of its two
  semaphores.
\<close>

datatype treeOps =
    IpcTree (getTree: treeConn) "string list" "slice option"
  | FileTree (getTree: treeConn) nat "u64 \<Rightarrow> bool" bool int int

datatype ConnState =
    STATE_NEGOTIATE
  | STATE_SESSION_SETUP
  | STATE_SESSION_SETUP_CHALLENGE
  | STATE_SESSION_ACTIVE

record pendingSessionSetup =
  ps_spnego :: "spnegoServer option"
  ps_sessionId :: u64
  ps_preauthHash :: "byte list"

text \<open>What is known of the client; the number of a connection tells it from the others.\<close>

record client_profile =
  clientHost :: string
  clientOS :: string
  clientOSSrc :: string
  clientOSPrio :: int
  profileLogged :: bool

record conn =
  c_id :: nat
  c_profile :: client_profile
  c_session :: "nat option"
  c_sessions :: "u64 \<Rightarrow> nat option"
  session_objs :: "session list"
  compound_objs :: "compoundContext list"
  sequenceWindow :: u64
  c_dialect :: u16
  maxTransactSize :: u32
  maxReadSize :: u32
  maxWriteSize :: u32
  requireSigning :: bool
  capabilities :: u32
  preauthIntegrityHashId :: u16
  preauthIntegrityHashValue :: "byte list"
  c_cipherId :: u16
  hashId :: u16
  posixExtensions :: bool
  c_account :: account
  useSession :: bool
  serverState :: ConnState
  negotiatePreauthHash :: "byte list"
  pendingSetup :: "pendingSessionSetup option"
  tree_objs :: "treeOps list"
  treeMapByName :: "string \<Rightarrow> nat option"
  treeMapById :: "u32 \<Rightarrow> nat option"
  wire :: "byte list list"

text \<open>
  The fate of a packet handed to the writer: sent, refused by the transport, or the connection was
  cancelled after or before the writer took it.
\<close>

datatype outcome = Sent | SendFailed error | CancelledQueued | Cancelled

record world =
  w_crypto :: crypto
  w_nonce :: "nat \<Rightarrow> byte list"
  w_tail :: "byte list"
  w_rand32 :: u32
  w_rand64 :: u64
  w_salt :: "byte list"
  w_now :: Filetime
  w_write :: outcome

subsection \<open>Sessions of a connection\<close>

definition getSession :: "u64 \<Rightarrow> conn \<Rightarrow> session option" where
  "getSession sid cn = do { ptr \<leftarrow> c_sessions cn sid; obj_deref ptr (session_objs cn) }"

definition setSession :: "session \<Rightarrow> conn \<Rightarrow> conn" where
  "setSession s cn =
     (let (ptr, objs) = obj_alloc s (session_objs cn) in
      cn\<lparr>session_objs := objs, c_sessions := (c_sessions cn)(s_sessionId s := Some ptr), c_session := Some ptr\<rparr>)"

definition setActiveSession :: "u64 \<Rightarrow> conn \<Rightarrow> nat option \<times> conn" where
  "setActiveSession sid cn = (c_sessions cn sid, cn\<lparr>c_session := c_sessions cn sid\<rparr>)"

definition active_session :: "conn \<Rightarrow> session option" where
  "active_session cn = do { ptr \<leftarrow> c_session cn; obj_deref ptr (session_objs cn) }"

subsection \<open>Sending\<close>

text \<open>\<^verbatim>\<open>encodePacketRaw\<close>; no response is a \<^verbatim>\<open>CancelRequest\<close>.\<close>

definition outgoing_header :: "treeConn option \<Rightarrow> PacketHeader \<Rightarrow> conn \<Rightarrow> PacketHeader \<times> conn" where
  "outgoing_header tc hdr cn =
     (let cn = cn\<lparr>sequenceWindow := sequenceWindow cn + ucast (CreditCharge hdr)\<rparr>;
          hdr = (if CreditRequestResponse hdr = 0 then hdr\<lparr>CreditRequestResponse := CreditCharge hdr\<rparr> else hdr);
          (n, acc) = account_opening (c_account cn);
          hdr = hdr\<lparr>CreditRequestResponse := CreditRequestResponse hdr + n\<rparr>;
          cn = cn\<lparr>c_account := acc\<rparr>
      in case active_session cn of
           None \<Rightarrow> (hdr, cn)
         | Some s \<Rightarrow>
             if useSession cn
             then let hdr = (if SessionId hdr = 0 then hdr\<lparr>SessionId := s_sessionId s\<rparr> else hdr);
                      hdr = (case tc of None \<Rightarrow> hdr | Some t \<Rightarrow> hdr\<lparr>TreeId := tc_treeId t\<rparr>)
                  in (hdr, cn)
             else (hdr, cn))"

definition encodePacketRaw ::
    "Packet \<Rightarrow> treeConn option \<Rightarrow> conn \<Rightarrow> (byte list \<times> PacketHeader \<times> conn) option" where
  "encodePacketRaw pk tc cn =
     (let (hdr, cn) = outgoing_header tc (fst pk) cn in do {
        pkt \<leftarrow> rsp_Encode (hdr, snd pk) (zeros (rsp_Size (snd pk)));
        Some (pkt, hdr, cn) })"

definition SMB2_SHAREFLAG_ENCRYPT_DATA :: u32 where "SMB2_SHAREFLAG_ENCRYPT_DATA = 0x8000"

definition wants_encryption :: "session \<Rightarrow> treeConn option \<Rightarrow> bool" where
  "wants_encryption s tc \<longleftrightarrow> sessionFlags s AND SMB2_SESSION_FLAG_ENCRYPT_DATA \<noteq> 0
     \<or> (\<exists>t. tc = Some t \<and> tc_shareFlags t AND SMB2_SHAREFLAG_ENCRYPT_DATA \<noteq> 0)"

definition sign_with :: "world \<Rightarrow> nat \<Rightarrow> session \<Rightarrow> byte list \<Rightarrow> conn \<Rightarrow> ((error + byte list) \<times> conn) option" where
  "sign_with w ptr s pkt cn = do {
     (s', pkt) \<leftarrow> sign (w_crypto w) s pkt;
     Some (Inr pkt, cn\<lparr>session_objs := obj_modify ptr (\<lambda>_. s') (session_objs cn)\<rparr>) }"

definition protectPacket ::
    "world \<Rightarrow> byte list \<Rightarrow> treeConn option \<Rightarrow> conn \<Rightarrow> ((error + byte list) \<times> conn) option" where
  "protectPacket w pkt tc cn =
     (case c_session cn of
        None \<Rightarrow> Some (Inr pkt, cn)
      | Some ptr \<Rightarrow> do {
          s \<leftarrow> obj_deref ptr (session_objs cn);
          inv \<leftarrow> p_IsInvalid (Slice pkt []);
          (if inv then Some (Inl broken, cn)
           else do {
             cmd \<leftarrow> p_Command (Slice pkt []);
             fl \<leftarrow> p_Flags (Slice pkt []);
             (if cmd = SMB2_SESSION_SETUP
              then if fl AND SMB2_FLAGS_SERVER_TO_REDIR \<noteq> 0 \<and> signed_session s \<and> signer s \<noteq> None
                   then sign_with w ptr s pkt cn
                   else Some (Inr pkt, cn)
              else if wants_encryption s tc
              then do {
                a \<leftarrow> encrypter s;
                ct \<leftarrow> encrypt (w_crypto w) (c_dialect cn) (w_nonce w (NonceSize a)) s pkt;
                Some (Inr ct, cn) }
              else if signed_session s then sign_with w ptr s pkt cn
              else Some (Inr pkt, cn)) }) })"

definition SHA512 :: u16 where "SHA512 = 1"

definition calcPreauthHash :: "world \<Rightarrow> byte list \<Rightarrow> conn \<Rightarrow> conn" where
  "calcPreauthHash w pkt cn =
     (if c_dialect cn = SMB311 \<and> preauthIntegrityHashId cn = SHA512
      then cn\<lparr>preauthIntegrityHashValue := sha512 (w_crypto w) (preauthIntegrityHashValue cn @ pkt)\<rparr>
      else cn)"

definition hash_pending :: "world \<Rightarrow> byte list \<Rightarrow> conn \<Rightarrow> conn option" where
  "hash_pending w pkt cn =
     (case pendingSetup cn of
        None \<Rightarrow> Some cn
      | Some ps \<Rightarrow>
          if c_dialect cn \<noteq> SMB311 then Some cn
          else do {
            cmd \<leftarrow> p_Command (Slice pkt []);
            (if cmd \<noteq> SMB2_SESSION_SETUP then Some cn
             else do {
               sid \<leftarrow> p_SessionId (Slice pkt []);
               Some (if sid = ps_sessionId ps
                     then cn\<lparr>pendingSetup := Some (ps\<lparr>ps_preauthHash :=
                            sha512 (w_crypto w) (ps_preauthHash ps @ pkt)\<rparr>)\<rparr>
                     else cn) }) })"

fun write_packet :: "outcome \<Rightarrow> byte list \<Rightarrow> conn \<Rightarrow> error option \<times> conn" where
  "write_packet Sent pkt cn = (None, cn\<lparr>wire := wire cn @ [pkt]\<rparr>)"
| "write_packet (SendFailed e) pkt cn = (Some (TransportError e), cn)"
| "write_packet CancelledQueued pkt cn = (Some ContextError, cn\<lparr>wire := wire cn @ [pkt]\<rparr>)"
| "write_packet Cancelled pkt cn = (Some ContextError, cn)"

text \<open>The second half of \<^verbatim>\<open>sendPacket\<close>: protect, hash, write.\<close>

definition transmit :: "world \<Rightarrow> byte list \<Rightarrow> treeConn option \<Rightarrow> conn \<Rightarrow> (error option \<times> conn) option" where
  "transmit w pkt tc cn = do {
     (r, cn) \<leftarrow> protectPacket w pkt tc cn;
     (case r of
        Inl e \<Rightarrow> Some (Some e, cn)
      | Inr pkt \<Rightarrow> do {
          let cn = (if serverState cn \<noteq> STATE_SESSION_ACTIVE then calcPreauthHash w pkt cn else cn);
          cn \<leftarrow> hash_pending w pkt cn;
          Some (write_packet (w_write w) pkt cn) }) }"

text \<open>The header changes that a compound context asks for.\<close>

definition compound_header :: "compoundContext \<Rightarrow> Packet \<Rightarrow> PacketHeader" where
  "compound_header x pk =
     (let hdr = fst pk;
          hdr = (if \<not> isEmpty x then hdr\<lparr>Flags := Flags hdr OR SMB2_FLAGS_RELATED_OPERATIONS\<rparr> else hdr)
      in if MessageId hdr \<noteq> lastMsgId x
         then hdr\<lparr>NextCommand := of_nat (nat (Align (int (rsp_Size (snd pk))) 8))\<rparr> else hdr)"

definition sendPacket ::
    "world \<Rightarrow> Packet \<Rightarrow> treeConn option \<Rightarrow> nat option \<Rightarrow> conn \<Rightarrow> (error option \<times> conn) option" where
  "sendPacket w pk tc cp cn =
     (case cp of
        None \<Rightarrow> do {
          (pkt, hdr, cn) \<leftarrow> encodePacketRaw pk tc cn;
          transmit w pkt tc cn }
      | Some ptr \<Rightarrow> do {
          x \<leftarrow> obj_deref ptr (compound_objs cn);
          (pkt, hdr, cn) \<leftarrow> encodePacketRaw (compound_header x pk, snd pk) tc cn;
          let x = addResponse pkt (x\<lparr>lastStatus := Status hdr\<rparr>);
          let cn = cn\<lparr>compound_objs := obj_modify ptr (\<lambda>_. x) (compound_objs cn)\<rparr>;
          (if MessageId hdr \<noteq> lastMsgId x then Some (None, cn)
           else do {
             buf \<leftarrow> ctx_Encode x (zeros (ctx_Size x));
             transmit w buf tc cn }) })"

subsection \<open>Receiving\<close>

text \<open>\<^verbatim>\<open>tryDecrypt\<close>: the packet to go on with and whether it was encrypted, or why it is dropped.\<close>

definition maxDirectTCPSize :: nat where "maxDirectTCPSize = 0xffffff"

definition bad_transform :: "conn \<Rightarrow> session \<Rightarrow> slice \<Rightarrow> error option option" where
  "bad_transform cn s pkt =
     (if len pkt < 52 + 16 then Some (Some (InvalidResponseError ''truncated transform packet''))
      else do {
        n \<leftarrow> t_OriginalMessageSize pkt;
        fl \<leftarrow> t_Flags pkt;
        alg \<leftarrow> t_EncryptionAlgorithm pkt;
        Some (if n = 0 \<or> maxDirectTCPSize < unat n
              then Some (InvalidResponseError ''invalid transform original message size'')
              else if c_dialect cn = SMB311
              then if fl \<noteq> 1 then Some (InvalidResponseError ''encrypted flag is not on'') else None
              else if alg \<noteq> AES128CCM \<and> alg \<noteq> AES128GCM
              then Some (InvalidResponseError ''unsupported transform encryption algorithm'')
              else if s_cipherId s \<noteq> 0 \<and> alg \<noteq> s_cipherId s
              then Some (InvalidResponseError ''transform algorithm does not match session cipher'')
              else None) })"

definition error_text :: "error \<Rightarrow> string" where
  "error_text e = (case e of ErrorString m \<Rightarrow> m | InternalError m \<Rightarrow> m | _ \<Rightarrow> [])"

definition tryDecrypt :: "world \<Rightarrow> slice \<Rightarrow> conn \<Rightarrow> (error + slice \<times> bool) option" where
  "tryDecrypt w pkt cn = do {
     inv \<leftarrow> p_IsInvalid pkt;
     (if \<not> inv then Some (Inr (pkt, False))
      else do {
        tinv \<leftarrow> t_IsInvalid pkt;
        (if tinv then Some (Inl broken)
         else do {
           sid \<leftarrow> t_SessionId pkt;
           (case getSession sid cn of
              None \<Rightarrow> Some (Inl (InvalidResponseError ''unknown session id returned''))
            | Some s \<Rightarrow> do {
                bad \<leftarrow> bad_transform cn s pkt;
                (case bad of
                   Some e \<Rightarrow> Some (Inl e)
                 | None \<Rightarrow> do {
                     r \<leftarrow> decrypt (w_crypto w) s pkt;
                     (case r of
                        Inl e \<Rightarrow> Some (Inl (InvalidResponseError (error_text e)))
                      | Inr plain \<Rightarrow> do {
                          n \<leftarrow> t_OriginalMessageSize pkt;
                          (if length plain \<noteq> unat n
                           then Some (Inl (InvalidResponseError ''decrypted payload size mismatch''))
                           else do {
                             inv \<leftarrow> p_IsInvalid (Slice plain (w_tail w));
                             Some (if inv then Inl (InvalidResponseError ''broken decrypted packet header format'')
                                   else Inr (Slice plain (w_tail w), True)) }) }) }) }) }) }) }"

text \<open>\<^verbatim>\<open>tryVerify\<close>: the verdict, and the packet and session that \<^verbatim>\<open>verify\<close> leaves behind.\<close>

definition tryVerify :: "world \<Rightarrow> slice \<Rightarrow> bool \<Rightarrow> conn \<Rightarrow> (error option \<times> slice \<times> conn) option" where
  "tryVerify w pkt isEncrypted cn =
     (if len pkt < 64 then Some (Some broken, pkt, cn)
      else do {
        smb1 \<leftarrow> p_IsSmb1 pkt;
        ss \<leftarrow> p_StructureSize pkt;
        (if smb1 \<or> ss \<noteq> 64 then Some (Some broken, pkt, cn)
         else do {
           msgId \<leftarrow> p_MessageId pkt;
           fl \<leftarrow> p_Flags pkt;
           sid \<leftarrow> p_SessionId pkt;
           (if msgId = 0xFFFFFFFFFFFFFFFF then Some (None, pkt, cn)
            else if fl AND SMB2_FLAGS_SIGNED \<noteq> 0
            then (case c_sessions cn sid of
                None \<Rightarrow> Some (Some (InvalidResponseError ''unknown session id returned''), pkt, cn)
              | Some ptr \<Rightarrow> do {
                  s \<leftarrow> obj_deref ptr (session_objs cn);
                  (ok, s', bs) \<leftarrow> verify (w_crypto w) s (vis pkt);
                  let cn = cn\<lparr>session_objs := obj_modify ptr (\<lambda>_. s') (session_objs cn)\<rparr>;
                  Some (if ok then None else Some (InvalidResponseError ''unverified packet returned''),
                        Slice bs (ext pkt), cn) })
            else Some (if requireSigning cn \<and> \<not> isEncrypted
                         \<and> (\<exists>s. getSession sid cn = Some s \<and> signed_session s)
                       then Some (InvalidResponseError ''signing required'') else None, pkt, cn)) }) })"

text \<open>
  One frame in \<^verbatim>\<open>runReciever\<close> up to its inner loop: decrypted if a session is in use, checked, and
  dropped (\<open>None\<close> in the middle) when it is not for a session of the connection.
\<close>

definition is_session_command :: "u16 \<Rightarrow> bool" where
  "is_session_command cmd \<longleftrightarrow> cmd \<noteq> SMB2_NEGOTIATE \<and> cmd \<noteq> SMB2_SESSION_SETUP \<and> cmd \<noteq> SMB2_ECHO"

definition skips_session :: "slice \<Rightarrow> conn \<Rightarrow> bool option" where
  "skips_session pkt cn = do {
     cmd \<leftarrow> p_Command pkt;
     (if \<not> is_session_command cmd then Some False
      else do {
        sid \<leftarrow> p_SessionId pkt;
        (case getSession sid cn of
           None \<Rightarrow> Some True
         | Some s \<Rightarrow> do {
             tid \<leftarrow> p_TreeId pkt;
             Some (\<exists>t. treeConnTables s tid = Some t \<and> t \<noteq> tid) }) }) }"

definition receive_frame :: "world \<Rightarrow> slice \<Rightarrow> conn \<Rightarrow> (slice \<times> bool \<times> bool) option option" where
  "receive_frame w pkt cn = (let hasSession = useSession cn in do {
     d \<leftarrow> (if hasSession then tryDecrypt w pkt cn else Some (Inr (pkt, False)));
     (case d of
        Inl e \<Rightarrow> Some None
      | Inr (pkt, isEncrypted) \<Rightarrow> do {
          bad \<leftarrow> validateSMB2CompoundFrame pkt;
          (if bad \<noteq> None then Some None
           else do {
             skip \<leftarrow> (if hasSession then skips_session pkt cn else Some False);
             Some (if skip then None else Some (pkt, hasSession, isEncrypted)) }) }) })"

text \<open>
  One turn of the inner loop: the request that is handed over to \<^verbatim>\<open>Run\<close> with its compound context,
  and what is left of the frame.  The verdict of \<^verbatim>\<open>tryVerify\<close> is logged and goes no further, since
  \<^verbatim>\<open>tryHandle\<close> does not look at its last argument.
\<close>

record received =
  rq_pkt :: slice
  rq_compCtx :: "nat option"
  rq_verdict :: "error option"

definition new_context :: "slice \<Rightarrow> compoundContext option" where
  "new_context pkt = do {
     tid \<leftarrow> p_TreeId pkt;
     sid \<leftarrow> p_SessionId pkt;
     Some \<lparr>compoundContext.treeId = ucast tid, sessionId = sid, fileId = None, lastStatus = 0, lastMsgId = 0, rsp = []\<rparr> }"

definition receive_part ::
    "world \<Rightarrow> slice \<Rightarrow> bool \<Rightarrow> bool \<Rightarrow> nat option \<Rightarrow> conn
     \<Rightarrow> (error + received \<times> slice option \<times> conn) option" where
  "receive_part w pkt hasSession isEncrypted compCtx cn = do {
     inv \<leftarrow> p_IsInvalid pkt;
     (if inv then Some (Inl (InvalidRequestError []))
      else do {
        isFirst \<leftarrow> p_IsCompoundFirst pkt;
        (compCtx, cn) \<leftarrow>
          (if isFirst
           then do {
             x \<leftarrow> new_context pkt;
             let (ptr, objs) = obj_alloc x (compound_objs cn);
             Some (Some ptr, cn\<lparr>compound_objs := objs\<rparr>) }
           else Some (compCtx, cn));
        isLast \<leftarrow> p_IsCompoundLast pkt;
        cn \<leftarrow>
          (if isLast
           then do {
             ptr \<leftarrow> compCtx;
             m \<leftarrow> p_MessageId pkt;
             Some (cn\<lparr>compound_objs := obj_modify ptr (\<lambda>x. x\<lparr>lastMsgId := m\<rparr>) (compound_objs cn)\<rparr>) }
           else Some cn);
        off \<leftarrow> p_NextCommand pkt;
        (pkt, nxt) \<leftarrow>
          (if off \<noteq> 0
           then do {
             this \<leftarrow> sl_range 0 (unat off) pkt;
             rest \<leftarrow> sl_from (unat off) pkt;
             Some (this, Some rest) }
           else Some (pkt, None));
        (verdict, pkt, cn) \<leftarrow> (if hasSession then tryVerify w pkt isEncrypted cn else Some (None, pkt, cn));
        Some (Inr (\<lparr>rq_pkt = pkt, rq_compCtx = compCtx, rq_verdict = verdict\<rparr>, nxt, cn)) }) }"

subsection \<open>What is put on the wire\<close>

lemma outgoing_header_keeps:
  assumes "outgoing_header tc hdr cn = (hdr', cn')"
  shows "NextCommand hdr' = NextCommand hdr" "Flags hdr' = Flags hdr" "MessageId hdr' = MessageId hdr"
    "Status hdr' = Status hdr" "Command hdr' = Command hdr" "ChannelSequence hdr' = ChannelSequence hdr"
    "c_session cn' = c_session cn" "session_objs cn' = session_objs cn" "compound_objs cn' = compound_objs cn"
    "wire cn' = wire cn" "c_dialect cn' = c_dialect cn" "useSession cn' = useSession cn"
    "serverState cn' = serverState cn" "pendingSetup cn' = pendingSetup cn" "c_sessions cn' = c_sessions cn"
    "tree_objs cn' = tree_objs cn" "treeMapByName cn' = treeMapByName cn" "treeMapById cn' = treeMapById cn"
  using assms
  by (auto simp: outgoing_header_def Let_def account_opening_def split: option.splits if_splits)

lemma encoded_reads:
  assumes ok: "rsp_ok r" and b: "rsp_Encode (hdr, r) (zeros (rsp_Size r)) = Some b"
  shows "length b = rsp_Size r" "rd 0 4 b = MAGIC" "rd 20 4 b = le_enc 4 (NextCommand hdr)"
    "p_IsSmb1 (Slice b e) = Some False" "p_StructureSize (Slice b e) = Some 64"
    "p_Flags (Slice b e) = Some (Flags hdr)" "p_NextCommand (Slice b e) = Some (NextCommand hdr)"
    "p_Command (Slice b e) = Some (case rsp_Command r of None \<Rightarrow> Command hdr | Some cmd \<Rightarrow> cmd)"
    "p_MessageId (Slice b e) = Some (MessageId hdr)"
proof -
  have ge: "64 \<le> rsp_Size r" by (rule rsp_Size_ge)
  obtain h where h: "encodeHeader (rsp_header (hdr, r)) (zeros (rsp_Size r)) = Some h"
      and b': "length b = rsp_Size r" "\<And>a n. a + n \<le> 64 \<Longrightarrow> rd a n b = rd a n h"
    using rsp_Encode_split [of "(hdr, r)"] ok b by auto
  note f = encodeHeader_fields [OF _ h]
  have k: "NextCommand (rsp_header (hdr, r)) = NextCommand hdr" "Flags (rsp_header (hdr, r)) = Flags hdr"
    "MessageId (rsp_header (hdr, r)) = MessageId hdr"
    "Command (rsp_header (hdr, r)) = (case rsp_Command r of None \<Rightarrow> Command hdr | Some cmd \<Rightarrow> cmd)"
    by (simp_all add: rsp_header_def split: option.split)
  show m: "length b = rsp_Size r" "rd 0 4 b = MAGIC" "rd 20 4 b = le_enc 4 (NextCommand hdr)"
    using b' f ge k by simp_all
  show smb1: "p_IsSmb1 (Slice b e) = Some False"
    using m(2) by (simp add: p_IsSmb1_eq MAGIC_def MAGIC_SMB1_def)
  show "p_StructureSize (Slice b e) = Some 64" "p_Flags (Slice b e) = Some (Flags hdr)"
    "p_NextCommand (Slice b e) = Some (NextCommand hdr)"
    "p_Command (Slice b e) = Some (case rsp_Command r of None \<Rightarrow> Command hdr | Some cmd \<Rightarrow> cmd)"
    "p_MessageId (Slice b e) = Some (MessageId hdr)"
    using b' f ge k smb1
    by (simp_all add: codec_defs p_MessageId_def p_Command_def u16_in_in u32_in_in u64_in_in rd_def [symmetric])
qed

lemma header_valid:
  assumes "64 \<le> length b" "rd 0 4 b = MAGIC" "p_IsSmb1 (Slice b e) = Some False"
    "p_StructureSize (Slice b e) = Some 64" "p_NextCommand (Slice b e) = Some n"
    "n AND 7 = 0" "n \<noteq> 0 \<Longrightarrow> 64 \<le> unat n \<and> unat n + 64 \<le> length b"
  shows "p_IsInvalid (Slice b e) = Some False"
proof -
  obtain cmd where "p_Command (Slice b e) = Some cmd" using p_Command_total by blast
  moreover have "\<exists>s. p_ProtocolId (Slice b e) = Some s \<and> vis s = MAGIC"
    using assms(1,2) by (simp add: p_ProtocolId_def sl_range_in rd_def)
  moreover have "\<not> (n \<noteq> 0 \<and> (n < 64 \<or> length b \<le> unat n \<or> length b - unat n < 64))"
    using assms(7) by (auto simp: word_less_nat_alt)
  ultimately show ?thesis using assms(1,3,4,5,6) by (auto simp: p_IsInvalid_def)
qed

lemma encodes: "rsp_ok r \<Longrightarrow> \<exists>b. rsp_Encode (hdr, r) (zeros (rsp_Size r)) = Some b"
  using rsp_Encode_split [of "(hdr, r)"] by auto

lemma hash_pending_total:
  assumes "64 \<le> length pkt"
  shows "\<exists>ps. hash_pending w pkt cn = Some (cn\<lparr>pendingSetup := ps\<rparr>)"
proof -
  obtain cmd sid where "p_Command (Slice pkt []) = Some cmd" "p_SessionId (Slice pkt []) = Some sid"
    using p_Command_total full_header_reads(5) [of "Slice pkt []"] assms by fastforce
  moreover have "\<exists>ps. cn = cn\<lparr>pendingSetup := ps\<rparr>" by (rule exI [of _ "pendingSetup cn"]) simp
  ultimately show ?thesis by (auto simp: hash_pending_def split: option.split)
qed

text \<open>Once the packet is protected, transmitting it puts it on the wire and touches only the hashes.\<close>

lemma transmit_sent:
  assumes "protectPacket w pkt tc cn = Some (Inr q, cn')" "64 \<le> length q" "w_write w = Sent"
  shows "\<exists>h ps. transmit w pkt tc cn =
    Some (None, cn'\<lparr>preauthIntegrityHashValue := h, pendingSetup := ps, wire := wire cn' @ [q]\<rparr>)"
proof -
  obtain h where h: "(if serverState cn' \<noteq> STATE_SESSION_ACTIVE then calcPreauthHash w q cn' else cn')
      = cn'\<lparr>preauthIntegrityHashValue := h\<rparr>"
  proof -
    have "\<exists>h. calcPreauthHash w q cn' = cn'\<lparr>preauthIntegrityHashValue := h\<rparr>" "\<exists>h. cn' = cn'\<lparr>preauthIntegrityHashValue := h\<rparr>"
      by (auto simp: calcPreauthHash_def intro: exI [of _ "preauthIntegrityHashValue cn'"])
    with that show thesis by (metis (full_types))
  qed
  obtain ps where "hash_pending w q (cn'\<lparr>preauthIntegrityHashValue := h\<rparr>)
      = Some (cn'\<lparr>preauthIntegrityHashValue := h, pendingSetup := ps\<rparr>)"
    using hash_pending_total [OF assms(2)] by fastforce
  with h assms(1,3) show ?thesis by (auto simp: transmit_def simp del: if_split)
qed

lemma encodePacketRaw_plain:
  assumes "rsp_ok (snd pk)" "NextCommand (fst pk) = 0"
  shows "\<exists>b hdr cn'. encodePacketRaw pk tc cn = Some (b, hdr, cn') \<and> outgoing_header tc (fst pk) cn = (hdr, cn')
    \<and> length b = rsp_Size (snd pk) \<and> p_IsInvalid (Slice b []) = Some False
    \<and> p_Command (Slice b []) = Some (case rsp_Command (snd pk) of None \<Rightarrow> Command (fst pk) | Some cmd \<Rightarrow> cmd)
    \<and> p_Flags (Slice b []) = Some (Flags (fst pk)) \<and> rsp_Encode (hdr, snd pk) (zeros (rsp_Size (snd pk))) = Some b"
proof -
  obtain hdr cn' where o: "outgoing_header tc (fst pk) cn = (hdr, cn')" by fastforce
  obtain b where b: "rsp_Encode (hdr, snd pk) (zeros (rsp_Size (snd pk))) = Some b"
    using encodes [OF assms(1)] by blast
  note r = encoded_reads(1,2,3) [OF assms(1) b] encoded_reads(4-9) [OF assms(1) b, of "[]"]
  have nx: "p_NextCommand (Slice b []) = Some 0"
    using r outgoing_header_keeps(1) [OF o] assms(2) by simp
  have "p_IsInvalid (Slice b []) = Some False"
    by (rule header_valid [OF _ r(2,4,5) nx]) (use r(1) rsp_Size_ge [of "snd pk"] in simp_all)
  then show ?thesis
    using o b r outgoing_header_keeps [OF o] by (simp add: encodePacketRaw_def cong: option.case_cong)
qed

text \<open>Signing a packet with the active session's key, whatever it has signed before.\<close>

definition signing_session :: "crypto \<Rightarrow> session \<Rightarrow> bool" where
  "signing_session cr s \<longleftrightarrow> (\<exists>h. signer s = Some h \<and> good_hash cr h)"

lemma keyed_signing: "keyed_session cr s \<Longrightarrow> signing_session cr s"
  by (auto simp: keyed_session_def signing_session_def)

lemma sign_with_eq:
  assumes "64 \<le> length b" "signing_session cr s" "w_crypto w = cr"
  shows "\<exists>q s'. sign_with w ptr s b cn =
      Some (Inr q, cn\<lparr>session_objs := obj_modify ptr (\<lambda>_. s') (session_objs cn)\<rparr>)
    \<and> length q = length b \<and> q = wr 48 (take 16 (hash_mac cr (the (signer s)) (flagged b))) (flagged b)"
proof -
  obtain h where h: "signer s = Some h" "good_hash cr h" using assms(2) by (auto simp: signing_session_def)
  obtain h' where "sign cr s b = Some (s\<lparr>signer := Some h'\<rparr>,
      wr 48 (take 16 (hash_mac cr h (flagged b))) (flagged b))"
    using sign_eq [OF assms(1) h(1)] h(2) by (auto simp: good_hash_def)
  then show ?thesis
    using h assms(1,3) length_take_mac [OF h(2)]
    by (auto simp: sign_with_def flagged_def length_wr)
qed

lemma signed_packet_fields:
  assumes "64 \<le> length b" "rd 48 16 b = zeros 16" "signing_session cr s"
  defines "q \<equiv> wr 48 (take 16 (hash_mac cr (the (signer s)) (flagged b))) (flagged b)"
  shows "rd 48 16 q = take 16 (hash_mac cr (the (signer s)) (wr 48 (zeros 16) q))" "wr 48 (zeros 16) q = flagged b"
proof -
  obtain h where h: "signer s = Some h" "good_hash cr h" using assms(3) by (auto simp: signing_session_def)
  let ?sig = "take 16 (hash_mac cr h (flagged b))"
  have l: "length (flagged b) = length b" "length ?sig = 16"
    using assms(1) length_take_mac [OF h(2)] by (simp_all add: flagged_def length_wr)
  have z: "rd 48 16 (flagged b) = zeros 16" using assms(1,2) by (simp add: flagged_def rd_wr_after)
  show undo: "wr 48 (zeros 16) q = flagged b"
    using l assms(1) z wr_gap [of 48 "zeros 16" "flagged b"] h(1) by (simp add: q_def wr_twice)
  show "rd 48 16 q = take 16 (hash_mac cr (the (signer s)) (wr 48 (zeros 16) q))"
    unfolding undo using l assms(1) h(1) by (simp add: q_def rd_wr_same)
qed

lemma encoded_signature:
  assumes ok: "rsp_ok r" and b: "rsp_Encode (hdr, r) (zeros (rsp_Size r)) = Some b"
  shows "rd 48 16 b = zeros 16"
proof -
  have ge: "64 \<le> rsp_Size r" by (rule rsp_Size_ge)
  obtain h where h: "encodeHeader (rsp_header (hdr, r)) (zeros (rsp_Size r)) = Some h"
      and b': "rd 48 16 b = rd 48 16 h"
    using rsp_Encode_split [of "(hdr, r)"] ok b by auto
  let ?f = "header_fields (rsp_header (hdr, r))" and ?z = "wr 0 MAGIC (zeros (rsp_Size r))"
  have "h = wrs ?f ?z" using h ge by (simp add: encodeHeader_eq)
  moreover have "rd 48 16 (wrs ?f ?z) = rd 48 16 ?z"
    using ge by (intro rd_wrs_apart)
      (simp_all add: fits_header length_wr, simp add: header_fields_def status_field_def id_field_def)
  ultimately show ?thesis using b' ge by (simp add: rd_wr_after rd_zeros)
qed

subsection \<open>The responses of a compound\<close>

text \<open>One response after another for the same compound context.\<close>

fun send_all :: "world \<Rightarrow> Packet list \<Rightarrow> treeConn option \<Rightarrow> nat \<Rightarrow> conn \<Rightarrow> (error option \<times> conn) option" where
  "send_all w [] tc ptr cn = Some (None, cn)"
| "send_all w (pk # pks) tc ptr cn = do {
     (e, cn) \<leftarrow> sendPacket w pk tc (Some ptr) cn;
     (case e of None \<Rightarrow> send_all w pks tc ptr cn | Some _ \<Rightarrow> Some (e, cn)) }"

text \<open>The active session neither signs nor encrypts: nobody is logged in, or a guest is.\<close>

definition plain_session :: "treeConn option \<Rightarrow> conn \<Rightarrow> bool" where
  "plain_session tc cn \<longleftrightarrow> c_session cn = None
     \<or> (\<exists>ptr s. c_session cn = Some ptr \<and> obj_deref ptr (session_objs cn) = Some s
          \<and> \<not> signed_session s \<and> \<not> wants_encryption s tc)"

lemma protect_plain:
  assumes "plain_session tc cn" "64 \<le> length pkt" "p_IsInvalid (Slice pkt []) = Some False"
  shows "protectPacket w pkt tc cn = Some (Inr pkt, cn)"
proof -
  obtain cmd fl where "p_Command (Slice pkt []) = Some cmd" "p_Flags (Slice pkt []) = Some fl"
    using p_Command_total full_header_reads(1) [of "Slice pkt []"] assms(2) by fastforce
  with assms show ?thesis by (auto simp: plain_session_def protectPacket_def)
qed

definition encodes_to :: "Packet \<Rightarrow> byte list \<Rightarrow> bool" where
  "encodes_to pk b \<longleftrightarrow> (\<exists>hdr. rsp_Encode (hdr, snd pk) (zeros (rsp_Size (snd pk))) = Some b
     \<and> MessageId hdr = MessageId (fst pk) \<and> Status hdr = Status (fst pk))"

definition related :: "byte list \<Rightarrow> bool" where
  "related b \<longleftrightarrow> (\<exists>fl. p_Flags (Slice b []) = Some fl \<and> fl AND SMB2_FLAGS_RELATED_OPERATIONS \<noteq> 0)"

definition small_response :: "Packet \<Rightarrow> bool" where
  "small_response pk \<longleftrightarrow> rsp_ok (snd pk) \<and> NextCommand (fst pk) = 0 \<and> rsp_Size (snd pk) + 7 < 2 ^ 32"

lemma or_bit_nonzero: "(x OR m) AND m \<noteq> 0 \<longleftrightarrow> m \<noteq> (0 :: 'a::len word)"
  by (simp add: word_ao_absorbs)

text \<open>A response that does not close the chain is kept in the context.\<close>

lemma send_more:
  assumes x: "obj_deref ptr (compound_objs cn) = Some x" and ok: "small_response pk"
    and more: "MessageId (fst pk) \<noteq> lastMsgId x"
  shows "\<exists>b cn' n acc. sendPacket w pk tc (Some ptr) cn = Some (None, cn')
    \<and> encodes_to pk b \<and> names_next b \<and> (rsp x \<noteq> [] \<longrightarrow> related b)
    \<and> cn' = cn\<lparr>sequenceWindow := n, c_account := acc, compound_objs := obj_modify ptr
        (\<lambda>_. x\<lparr>lastStatus := Status (fst pk), rsp := rsp x @ [b]\<rparr>) (compound_objs cn)\<rparr>"
proof -
  let ?hdr = "compound_header x pk" and ?l = "nat (Align (int (rsp_Size (snd pk))) 8)"
  obtain hdr cn1 where o: "outgoing_header tc ?hdr cn = (hdr, cn1)" by fastforce
  then obtain n acc where cn1: "cn1 = cn\<lparr>sequenceWindow := n, c_account := acc\<rparr>"
    by (auto simp: outgoing_header_def Let_def account_opening_def split: option.splits if_splits)
  note k = outgoing_header_keeps [OF o]
  have rok: "rsp_ok (snd pk)" using ok by (simp add: small_response_def)
  obtain b where b: "rsp_Encode (hdr, snd pk) (zeros (rsp_Size (snd pk))) = Some b" using encodes [OF rok] by blast
  note r = encoded_reads(1-3) [OF rok b] encoded_reads(4-9) [OF rok b, of "[]"]
  have nxt: "NextCommand hdr = of_nat ?l" using k(1) more by (simp add: compound_header_def Let_def)
  have "?l \<le> rsp_Size (snd pk) + 7" using Align_8_bounds [of "int (rsp_Size (snd pk))"] by linarith
  then have "?l < 2 ^ 32" using ok unfolding small_response_def by linarith
  then have "names_next b"
    unfolding names_next_def using r(1,3) nxt rsp_Size_ge [of "snd pk"] by simp
  moreover have "related b" if "rsp x \<noteq> []"
  proof -
    have "Flags hdr = Flags (fst pk) OR SMB2_FLAGS_RELATED_OPERATIONS"
      using k(2) that by (simp add: compound_header_def isEmpty_def Let_def)
    then show ?thesis using r(6) by (simp add: related_def or_bit_nonzero)
  qed
  moreover have m: "MessageId hdr = MessageId (fst pk)" "Status hdr = Status (fst pk)"
    using k by (simp_all add: compound_header_def Let_def)
  ultimately show ?thesis
    using x o b more cn1 by (auto simp: sendPacket_def encodePacketRaw_def encodes_to_def addResponse_def)
qed

text \<open>The response that closes the chain sends them all.\<close>

lemma dvd_8_and_7: "8 dvd l \<Longrightarrow> (of_nat l :: u32) AND 7 = 0"
proof -
  assume "8 dvd l"
  then have "l mod 8 = 0" by simp
  then have "take_bit 3 l = 0" by (simp add: take_bit_eq_mod)
  then have "take_bit 3 (of_nat l :: u32) = 0" by (simp add: take_bit_of_nat)
  then show ?thesis by (simp add: take_bit_eq_mask mask_eq_exp_minus_1)
qed

lemma layout_valid:
  assumes "chained bs" "\<forall>b \<in> set bs. rd 0 4 b = MAGIC \<and> p_StructureSize (Slice b []) = Some 64"
  shows "64 \<le> length (rsp_layout bs) \<and> p_IsInvalid (Slice (rsp_layout bs) []) = Some False"
proof (cases bs rule: chained.cases)
  case (2 b)
  then have l: "64 \<le> length b" and n: "rd 20 4 b = zeros 4" using assms(1) by (simp_all add: names_none_def)
  have "p_NextCommand (Slice b []) = Some 0" using l n by (simp add: NextCommand_in)
  moreover have "p_IsSmb1 (Slice b []) = Some False"
    using assms(2) 2 by (simp add: p_IsSmb1_eq MAGIC_def MAGIC_SMB1_def)
  moreover have "rd 0 4 b = MAGIC" "p_StructureSize (Slice b []) = Some 64" using assms(2) 2 by simp_all
  ultimately have "p_IsInvalid (Slice b []) = Some False"
    using l header_valid [of b "[]" 0] by simp
  with 2 l show ?thesis by simp
next
  case (3 b q rs)
  let ?all = "rsp_layout bs" and ?l = "nat (Align (int (length b)) 8)"
  from 3 assms have nx: "names_next b" and ch: "chained (q # rs)" by auto
  then have l: "64 \<le> length b" by (simp add: names_next_def)
  have lay: "?all = padded b @ rsp_layout (q # rs)" by (simp add: 3)
  have rest: "64 \<le> rsp_size (q # rs)"
    using ch align_ge [of q] by (cases rs) (auto simp: names_next_def names_none_def)
  have len_all: "length ?all = ?l + rsp_size (q # rs)" by (simp add: lay)
  have front: "rd a n ?all = rd a n b" if "a + n \<le> 64" for a n
    using that l by (simp add: lay padded_def rd_append)
  have L: "64 \<le> length ?all" using l align_ge [of b] len_all by simp
  have m: "rd 0 4 ?all = MAGIC" using front [of 0 4] assms(2) 3 by simp
  have ss: "p_StructureSize (Slice ?all []) = Some 64"
    using front [of 4 2] assms(2) 3 L l accept_header(1) [of "Slice ?all []"] accept_header(1) [of "Slice b []"]
    by simp
  have nc: "p_NextCommand (Slice ?all []) = Some (of_nat ?l)"
    using front [of 20 4] nx L by (simp add: NextCommand_in names_next_def)
  have u: "unat (of_nat ?l :: u32) = ?l" using nx by (simp add: names_next_def unat_of_nat)
  have "(8 :: nat) dvd ?l" using Align_8_bounds [of "int (length b)"] by (metis Align_8_nat dvd_triv_left of_nat_0_le_iff)
  then have a7: "(of_nat ?l :: u32) AND 7 = 0" by (rule dvd_8_and_7)
  have sm: "p_IsSmb1 (Slice ?all []) = Some False"
    using m by (simp add: p_IsSmb1_eq MAGIC_def MAGIC_SMB1_def)
  have "p_IsInvalid (Slice ?all []) = Some False"
    by (rule header_valid [OF L m sm ss nc a7]) (use u l align_ge [of b] rest len_all in simp)
  with L show ?thesis by simp
qed (use assms in simp)

lemma encodes_to_header:
  "rsp_ok (snd pk) \<Longrightarrow> encodes_to pk b \<Longrightarrow> rd 0 4 b = MAGIC \<and> p_StructureSize (Slice b []) = Some 64"
  by (auto simp: encodes_to_def encoded_reads)

lemma chained_snoc: "\<forall>b \<in> set bs. names_next b \<Longrightarrow> names_none c' \<Longrightarrow> chained (bs @ [c'])"
proof (induction bs)
  case (Cons b bs)
  then show ?case by (cases bs) simp_all
qed simp

lemma send_last:
  assumes x: "obj_deref ptr (compound_objs cn) = Some x" and ok: "small_response pk"
    and last: "MessageId (fst pk) = lastMsgId x" and plain: "plain_session tc cn" and sent: "w_write w = Sent"
    and acc: "\<forall>b \<in> set (rsp x). names_next b \<and> rd 0 4 b = MAGIC \<and> p_StructureSize (Slice b []) = Some 64"
  shows "\<exists>b cn'. sendPacket w pk tc (Some ptr) cn = Some (None, cn') \<and> encodes_to pk b
    \<and> chained (rsp x @ [b]) \<and> (rsp x \<noteq> [] \<longrightarrow> related b) \<and> wire cn' = wire cn @ [rsp_layout (rsp x @ [b])]"
proof -
  let ?hdr = "compound_header x pk"
  obtain hdr cn1 where o: "outgoing_header tc ?hdr cn = (hdr, cn1)" by fastforce
  note k = outgoing_header_keeps [OF o]
  have rok: "rsp_ok (snd pk)" using ok by (simp add: small_response_def)
  obtain b where b: "rsp_Encode (hdr, snd pk) (zeros (rsp_Size (snd pk))) = Some b" using encodes [OF rok] by blast
  note r = encoded_reads(1-3) [OF rok b] encoded_reads(4-9) [OF rok b, of "[]"]
  have m: "MessageId hdr = MessageId (fst pk)" "Status hdr = Status (fst pk)"
    using k by (simp_all add: compound_header_def Let_def)
  have enc: "encodes_to pk b" using b m by (auto simp: encodes_to_def)
  have "NextCommand hdr = 0"
    using k(1) last ok by (simp add: compound_header_def small_response_def Let_def)
  then have "names_none b"
    using r(1,3) rsp_Size_ge [of "snd pk"] by (simp add: names_none_def le_enc_0)
  then have ch: "chained (rsp x @ [b])" using acc by (intro chained_snoc) simp_all
  have rel: "related b" if "rsp x \<noteq> []"
  proof -
    have "Flags hdr = Flags (fst pk) OR SMB2_FLAGS_RELATED_OPERATIONS"
      using k(2) that by (simp add: compound_header_def isEmpty_def Let_def)
    then show ?thesis using r(6) by (simp add: related_def or_bit_nonzero)
  qed
  let ?x = "x\<lparr>lastStatus := Status hdr, rsp := rsp x @ [b]\<rparr>"
  let ?cn = "cn1\<lparr>compound_objs := obj_modify ptr (\<lambda>_. ?x) (compound_objs cn1)\<rparr>"
  let ?buf = "rsp_layout (rsp x @ [b])"
  have valid: "64 \<le> length ?buf" "p_IsInvalid (Slice ?buf []) = Some False"
    using layout_valid [OF ch] acc encodes_to_header [OF rok enc] by auto
  have pl: "plain_session tc ?cn" using plain k by (simp add: plain_session_def)
  obtain h ps where t: "transmit w ?buf tc ?cn =
      Some (None, ?cn\<lparr>preauthIntegrityHashValue := h, pendingSetup := ps, wire := wire ?cn @ [?buf]\<rparr>)"
    using transmit_sent [OF protect_plain [OF pl valid] valid(1) sent] by blast
  have "ctx_Encode ?x (zeros (ctx_Size ?x)) = Some ?buf"
    using rsp_encode_layout [of "[]" "rsp x @ [b]"] by (simp add: ctx_Encode_def ctx_Size_def)
  then have "sendPacket w pk tc (Some ptr) cn = transmit w ?buf tc ?cn"
    using x o b m last k(9) by (simp add: sendPacket_def encodePacketRaw_def addResponse_def Let_def)
  then show ?thesis using t enc ch rel k(10) by auto
qed

lemma send_all_chain:
  assumes "obj_deref ptr (compound_objs cn) = Some x"
    and "\<forall>b \<in> set (rsp x). names_next b \<and> rd 0 4 b = MAGIC \<and> p_StructureSize (Slice b []) = Some 64"
    and "\<forall>pk \<in> set pks. small_response pk \<and> MessageId (fst pk) \<noteq> lastMsgId x"
    and "small_response pk" "MessageId (fst pk) = lastMsgId x" "plain_session tc cn" "w_write w = Sent"
  shows "\<exists>bs cn'. send_all w (pks @ [pk]) tc ptr cn = Some (None, cn') \<and> list_all2 encodes_to (pks @ [pk]) bs
    \<and> chained (rsp x @ bs) \<and> wire cn' = wire cn @ [rsp_layout (rsp x @ bs)]
    \<and> (\<forall>i < length bs. rsp x @ take i bs \<noteq> [] \<longrightarrow> related (bs ! i))"
  using assms
proof (induction pks arbitrary: cn x)
  case Nil
  obtain b cn' where "sendPacket w pk tc (Some ptr) cn = Some (None, cn')" "encodes_to pk b"
    "chained (rsp x @ [b])" "rsp x \<noteq> [] \<longrightarrow> related b" "wire cn' = wire cn @ [rsp_layout (rsp x @ [b])]"
    using send_last [OF Nil(1,4,5,6,7,2)] by blast
  then show ?case by (intro exI [of _ "[b]"]) auto
next
  case (Cons pk1 pks)
  have ok: "small_response pk1" "MessageId (fst pk1) \<noteq> lastMsgId x" using Cons.prems(3) by auto
  obtain b cn1 n acc where s: "sendPacket w pk1 tc (Some ptr) cn = Some (None, cn1)"
    and e: "encodes_to pk1 b" "names_next b" "rsp x \<noteq> [] \<longrightarrow> related b"
    and cn1: "cn1 = cn\<lparr>sequenceWindow := n, c_account := acc, compound_objs := obj_modify ptr
        (\<lambda>_. x\<lparr>lastStatus := Status (fst pk1), rsp := rsp x @ [b]\<rparr>) (compound_objs cn)\<rparr>"
    using send_more [OF Cons.prems(1) ok] by blast
  let ?x = "x\<lparr>lastStatus := Status (fst pk1), rsp := rsp x @ [b]\<rparr>"
  have "rsp_ok (snd pk1)" using ok by (simp add: small_response_def)
  from encodes_to_header [OF this e(1)]
  obtain bs cn' where IH: "send_all w (pks @ [pk]) tc ptr cn1 = Some (None, cn')"
    "list_all2 encodes_to (pks @ [pk]) bs" "chained (rsp ?x @ bs)" "wire cn' = wire cn1 @ [rsp_layout (rsp ?x @ bs)]"
    "\<forall>i < length bs. rsp ?x @ take i bs \<noteq> [] \<longrightarrow> related (bs ! i)"
    using Cons.IH [of cn1 ?x] Cons.prems e(2) by (fastforce simp: cn1 plain_session_def)
  show ?case
  proof (intro exI conjI)
    show "send_all w ((pk1 # pks) @ [pk]) tc ptr cn = Some (None, cn')" using s IH(1) by simp
    show "list_all2 encodes_to ((pk1 # pks) @ [pk]) (b # bs)" using e(1) IH(2) by simp
    show "chained (rsp x @ b # bs)" "wire cn' = wire cn @ [rsp_layout (rsp x @ b # bs)]"
      using IH(3,4) by (simp_all add: cn1)
    show "\<forall>i < length (b # bs). rsp x @ take i (b # bs) \<noteq> [] \<longrightarrow> related ((b # bs) ! i)"
      using IH(5) e(3) by (auto simp: nth_Cons split: nat.splits)
  qed
qed

subsection \<open>Properties\<close>


text \<open>The connection that \<^verbatim>\<open>serveListener\<close> makes, and a world for concrete runs.\<close>

definition new_conn :: "account \<Rightarrow> conn" where
  "new_conn a = \<lparr>c_id = 0, c_profile = \<lparr>clientHost = [], clientOS = [], clientOSSrc = [],
       clientOSPrio = 0, profileLogged = False\<rparr>, c_session = None, c_sessions = (\<lambda>_. None), session_objs = [], compound_objs = [],
     sequenceWindow = 0, c_dialect = 0, maxTransactSize = 0, maxReadSize = 0, maxWriteSize = 0,
     requireSigning = False, capabilities = 0, preauthIntegrityHashId = 0,
     preauthIntegrityHashValue = zeros 64, c_cipherId = AES128GCM, hashId = SHA512,
     posixExtensions = False, c_account = a, useSession = False, serverState = STATE_NEGOTIATE,
     negotiatePreauthHash = zeros 64, pendingSetup = None, tree_objs = [],
     treeMapByName = (\<lambda>_. None), treeMapById = (\<lambda>_. None), wire = []\<rparr>"

definition toy_world :: world where
  "toy_world = \<lparr>w_crypto = toy_crypto, w_nonce = zeros, w_tail = [], w_rand32 = 1, w_rand64 = 1,
     w_salt = zeros 32, w_now = \<lparr>LowDateTime = 0, HighDateTime = 0\<rparr>, w_write = Sent\<rparr>"

definition user_session :: session where
  "user_session = (blank_session 0)\<lparr>signer := Some (HMAC [1] []), verifier := Some (HMAC [1] [])\<rparr>"

lemma user_session_keyed: "keyed_session toy_crypto user_session" "signed_session user_session"
  using keyed_sample by (simp_all add: user_session_def signed_session_def blank_session_def)

definition user_conn :: conn where
  "user_conn = (setSession user_session (new_conn \<lparr>balance = 1, cap = 128, deficit = 0\<rparr>))
     \<lparr>useSession := True, serverState := STATE_SESSION_ACTIVE, requireSigning := True\<rparr>"

lemma user_conn_fields [simp]:
  "c_session user_conn = Some 0" "session_objs user_conn = [user_session]" "wire user_conn = []"
  "useSession user_conn" "c_sessions user_conn 7 = Some 0" "requireSigning user_conn"
  by (simp_all add: user_conn_def setSession_def new_conn_def obj_alloc_def Let_def user_session_def blank_session_def)

lemma toy_world_fields [simp]: "w_crypto toy_world = toy_crypto" "w_write toy_world = Sent" "w_nonce toy_world = zeros"
  by (simp_all add: toy_world_def)


text \<open>
  C20. A request that fails verification is handled all the same.  On a connection that requires
  signing, an unsigned plaintext request for a user's session is judged \<^verbatim>\<open>signing required\<close> and yet is
  handed over to \<^verbatim>\<open>Run\<close> unchanged, like a verified one.
\<close>

theorem unverified_request_is_handled:
  assumes "p_IsInvalid pkt = Some False" "64 \<le> len pkt" "p_IsSmb1 pkt = Some False"
    and "p_NextCommand pkt = Some 0" "p_Flags pkt = Some fl"
    and "fl AND SMB2_FLAGS_SIGNED = 0" "fl AND SMB2_FLAGS_RELATED_OPERATIONS = 0"
    and "p_MessageId pkt = Some m" "m \<noteq> 0xFFFFFFFFFFFFFFFF"
    and "p_SessionId pkt = Some sid" "getSession sid cn = Some s" "signed_session s" "requireSigning cn"
  shows "receive_part w pkt True False None cn =
    Some (Inr (\<lparr>rq_pkt = pkt, rq_compCtx = None,
      rq_verdict = Some (InvalidResponseError ''signing required'')\<rparr>, None, cn))"
proof -
  have ss: "p_StructureSize pkt = Some 64"
    using assms(1,2,3) by (auto simp: p_IsInvalid_def bind_Some_iff split: if_splits)
  have "\<exists>ptr. c_sessions cn sid = Some ptr \<and> obj_deref ptr (session_objs cn) = Some s"
    using assms(11) by (auto simp: getSession_def bind_Some_iff)
  then have "tryVerify w pkt False cn = Some (Some (InvalidResponseError ''signing required''), pkt, cn)"
    using assms ss by (auto simp: tryVerify_def)
  with assms show ?thesis by (simp add: receive_part_def p_IsCompoundFirst_def p_IsCompoundLast_def)
qed

definition unsigned_request :: "byte list" where
  "unsigned_request = wrs [(0, MAGIC), (4, le_enc 2 (64 :: u16)), (12, le_enc 2 (9 :: u16)),
     (24, le_enc 8 (5 :: u64)), (40, le_enc 8 (7 :: u64))] (zeros 112)"

lemma unverified_request_is_handled_witness:
  "receive_part toy_world (Slice unsigned_request []) True False None user_conn =
    Some (Inr (\<lparr>rq_pkt = Slice unsigned_request [], rq_compCtx = None,
      rq_verdict = Some (InvalidResponseError ''signing required'')\<rparr>, None, user_conn))"
proof (rule unverified_request_is_handled)
  show "p_IsInvalid (Slice unsigned_request []) = Some False" "p_IsSmb1 (Slice unsigned_request []) = Some False"
    "p_NextCommand (Slice unsigned_request []) = Some 0" "p_Flags (Slice unsigned_request []) = Some 0"
    "p_MessageId (Slice unsigned_request []) = Some 5" "p_SessionId (Slice unsigned_request []) = Some 7"
    by code_simp+
  show "64 \<le> len (Slice unsigned_request [])" by (simp add: unsigned_request_def length_wr)
  show "getSession 7 user_conn = Some user_session" by (simp add: getSession_def obj_deref_def)
qed (simp_all add: user_session_keyed)

text \<open>
  The receiver crashes on exactly one kind of checked plaintext part: one that closes a chain of
  related requests when no chain was opened in its frame, so the compound context is \<^verbatim>\<open>nil\<close>.  A single
  request with the related flag is enough.
\<close>

theorem receive_part_panics_iff:
  assumes "p_IsInvalid pkt = Some False" "64 \<le> len pkt" "p_IsSmb1 pkt = Some False"
    and "p_Flags pkt = Some fl" "p_NextCommand pkt = Some off"
  shows "receive_part w pkt False enc compCtx cn = None \<longleftrightarrow>
    compCtx = None \<and> fl AND SMB2_FLAGS_RELATED_OPERATIONS = SMB2_FLAGS_RELATED_OPERATIONS \<and> off = 0"
proof -
  obtain m tid sid where r: "p_MessageId pkt = Some m" "p_TreeId pkt = Some tid" "p_SessionId pkt = Some sid"
    using full_header_reads(3-5) [OF assms(2)] by blast
  have "unat off + 64 \<le> len pkt" if "off \<noteq> 0"
    using valid_packet_next(2) [OF assms(1,3,5) that] .
  then have parts: "\<exists>t u. sl_range 0 (unat off) pkt = Some t \<and> sl_from (unat off) pkt = Some u" if "off \<noteq> 0"
    using that by (simp add: sl_range_0 sl_from_in)
  show ?thesis
    using assms r parts
    by (cases "off = 0"; cases compCtx)
      (auto simp: receive_part_def p_IsCompoundFirst_def p_IsCompoundLast_def new_context_def
        obj_alloc_def Let_def)
qed

definition related_request :: "byte list" where
  "related_request = wrs [(0, MAGIC), (4, le_enc 2 (64 :: u16)), (12, le_enc 2 (13 :: u16)),
     (16, le_enc 4 (4 :: u32))] (zeros 68)"

lemma receive_part_panics_iff_witness:
  "receive_part toy_world (Slice related_request []) False False None (new_conn \<lparr>balance = 1, cap = 128, deficit = 0\<rparr>) = None"
proof -
  have "p_IsInvalid (Slice related_request []) = Some False" "p_IsSmb1 (Slice related_request []) = Some False"
    "p_Flags (Slice related_request []) = Some 4" "p_NextCommand (Slice related_request []) = Some 0"
    by code_simp+
  then show ?thesis
    using receive_part_panics_iff [of "Slice related_request []" 4 0]
    by (simp add: related_request_def length_wr)
qed

text \<open>
  A transform packet for a session without a cipher crashes the server: guest sessions and all
  sessions below SMB 3.0 have no decrypter, the checks before decryption do not look for one, and
  calling it is a \<^verbatim>\<open>nil\<close> dereference.
\<close>

theorem transform_without_cipher_panics:
  assumes "p_IsInvalid pkt = Some True" "t_IsInvalid pkt = Some False"
    and "t_SessionId pkt = Some sid" "getSession sid cn = Some s" "decrypter s = None"
    and "bad_transform cn s pkt = Some None"
  shows "tryDecrypt w pkt cn = None"
  using assms by (simp add: tryDecrypt_def decrypt_def)

definition transform_packet :: "byte list" where
  "transform_packet = wrs [(0, MAGIC2), (36, le_enc 4 (64 :: u32)), (42, le_enc 2 (1 :: u16)),
     (44, le_enc 8 (7 :: u64))] (zeros 116)"

lemma transform_without_cipher_panics_witness:
  "tryDecrypt toy_world (Slice transform_packet []) (user_conn\<lparr>c_dialect := SMB311\<rparr>) = None"
proof (rule transform_without_cipher_panics)
  show "p_IsInvalid (Slice transform_packet []) = Some True" "t_IsInvalid (Slice transform_packet []) = Some False"
    "t_SessionId (Slice transform_packet []) = Some 7"
    by code_simp+
  show "getSession 7 (user_conn\<lparr>c_dialect := SMB311\<rparr>) = Some user_session"
    by (simp add: getSession_def obj_deref_def)
  show "decrypter user_session = None" by (simp add: user_session_def blank_session_def)
  have "t_OriginalMessageSize (Slice transform_packet []) = Some 64" "t_Flags (Slice transform_packet []) = Some 1"
    "t_EncryptionAlgorithm (Slice transform_packet []) = Some 1"
    by code_simp+
  moreover have "len (Slice transform_packet []) = 116" by (simp add: transform_packet_def length_wr)
  ultimately show "bad_transform (user_conn\<lparr>c_dialect := SMB311\<rparr>) user_session (Slice transform_packet []) = Some None"
    by (simp add: bad_transform_def maxDirectTCPSize_def)
qed

text \<open>
  The responses to a compound request go out as one message: they are kept in the context until
  the one that answers the last request of the chain, then a single buffer is put on the wire whose
  next-command offsets cut it into the encoded responses in order, each padded to eight, and every
  response after the first carries the related flag.
\<close>

theorem compound_responses_sent:
  assumes "obj_deref ptr (compound_objs cn) = Some x" "rsp x = []"
    and "\<forall>pk \<in> set pks. small_response pk \<and> MessageId (fst pk) \<noteq> lastMsgId x"
    and "small_response pk" "MessageId (fst pk) = lastMsgId x"
    and "plain_session tc cn" "w_write w = Sent"
  shows "\<exists>bs cn' ps. send_all w (pks @ [pk]) tc ptr cn = Some (None, cn')
    \<and> list_all2 encodes_to (pks @ [pk]) bs
    \<and> wire cn' = wire cn @ [rsp_layout bs]
    \<and> frame_parts (Slice (rsp_layout bs) []) = Some ps \<and> map vis ps = padded_all bs
    \<and> (\<forall>i < length bs. 0 < i \<longrightarrow> related (bs ! i))"
proof -
  obtain bs cn' where s: "send_all w (pks @ [pk]) tc ptr cn = Some (None, cn')"
    "list_all2 encodes_to (pks @ [pk]) bs" "chained bs" "wire cn' = wire cn @ [rsp_layout bs]"
    "\<forall>i < length bs. take i bs \<noteq> [] \<longrightarrow> related (bs ! i)"
    using send_all_chain [OF assms(1) _ assms(3-7)] assms(2) by auto
  then have "\<forall>i < length bs. 0 < i \<longrightarrow> related (bs ! i)" by auto
  with s frame_parts_layout [OF s(3), of "[]"] show ?thesis by blast
qed

definition compound_conn :: conn where
  "compound_conn = (new_conn \<lparr>balance = 1, cap = 128, deficit = 0\<rparr>)
     \<lparr>compound_objs := [\<lparr>compoundContext.treeId = 1, sessionId = 7, fileId = None, lastStatus = 0, lastMsgId = 6, rsp = []\<rparr>]\<rparr>"

lemma compound_responses_sent_witness:
  "\<exists>bs cn'. send_all toy_world [(new_header\<lparr>MessageId := 5\<rparr>, FlushResponse), (new_header\<lparr>MessageId := 6\<rparr>, LockResponse)]
      None 0 compound_conn = Some (None, cn') \<and> length bs = 2 \<and> wire cn' = [rsp_layout bs] \<and> related (bs ! 1)"
proof -
  let ?x = "\<lparr>compoundContext.treeId = 1, sessionId = 7, fileId = None, lastStatus = 0, lastMsgId = 6, rsp = []\<rparr>"
  let ?a = "(new_header\<lparr>MessageId := 5\<rparr>, FlushResponse)" and ?b = "(new_header\<lparr>MessageId := 6\<rparr>, LockResponse)"
  have "obj_deref 0 (compound_objs compound_conn) = Some ?x" "plain_session None compound_conn"
    "small_response ?a" "small_response ?b" "wire compound_conn = []"
    by (simp_all add: compound_conn_def new_conn_def obj_deref_def plain_session_def small_response_def
        rsp_ok_def new_header_def)
  from compound_responses_sent [OF this(1) _ _ this(4) _ this(2), of "[?a]" toy_world] this(3,5)
  obtain bs cn' where "send_all toy_world [?a, ?b] None 0 compound_conn = Some (None, cn')"
    "list_all2 encodes_to [?a, ?b] bs" "wire cn' = [rsp_layout bs]" "\<forall>i < length bs. 0 < i \<longrightarrow> related (bs ! i)"
    by auto
  moreover from this(2) have "length bs = 2" by (auto dest: list_all2_lengthD)
  ultimately show ?thesis by (intro exI [of _ bs] exI [of _ cn']) simp
qed

end
