(* ===== verification/Shares.thy ===== *)
theory Shares
  imports Prelude
begin

section \<open>Who may use which share\<close>

text \<open>
  The access tables of \<^verbatim>\<open>smb/server/server.go\<close>: \<^verbatim>\<open>NewServer\<close> builds them from the configuration,
  \<^verbatim>\<open>isShareAllowed\<close>, \<^verbatim>\<open>isShareGuest\<close>, \<^verbatim>\<open>isConfiguredUser\<close> and \<^verbatim>\<open>isUserReadOnly\<close> read them.
  A Go map that is iterated is the list of its entries in the order of the iteration.  Upper and
  lower case, trimming and case folding are the standard library's, on all of Unicode: the argument
  \<open>go\<close>.
\<close>

record gostr =
  ToUpper :: "string \<Rightarrow> string"
  ToLower :: "string \<Rightarrow> string"
  TrimSpace :: "string \<Rightarrow> string"
  EqualFold :: "string \<Rightarrow> string \<Rightarrow> bool"

record ServerConfig =
  AllowGuest :: bool
  EnableSMB3Encryption :: bool
  cfg_MaxIOReads :: int
  cfg_MaxIOWrites :: int
  ShareGuest :: "(string \<times> bool) list"
  ShareAllowUsers :: "(string \<times> string list) list"
  AuthUsers :: "string list"
  UserReadonly :: "(string \<times> bool) list"

record share_tables =
  shares :: "string \<Rightarrow> nat option"
  origShares :: "(string \<times> nat) list"
  shareGuest :: "string \<Rightarrow> bool"
  shareUsers :: "string \<Rightarrow> string list option"
  authUsers :: "string \<Rightarrow> bool"
  userRO :: "string \<Rightarrow> bool"
  allowGuest :: bool
  enableSMB3Encryption :: bool
  maxIOReads :: int
  maxIOWrites :: int

fun upper_shares :: "gostr \<Rightarrow> (string \<times> nat) list \<Rightarrow> (string \<Rightarrow> nat option) \<Rightarrow> string \<Rightarrow> nat option" where
  "upper_shares go [] m = m"
| "upper_shares go ((i, v) # xs) m = upper_shares go xs (m(ToUpper go i \<mapsto> v))"

fun auth_users :: "gostr \<Rightarrow> string list \<Rightarrow> (string \<Rightarrow> bool) \<Rightarrow> string \<Rightarrow> bool" where
  "auth_users go [] m = m"
| "auth_users go (user # us) m =
     (let u = ToLower go (TrimSpace go user) in auth_users go us (if u \<noteq> [] then m(u := True) else m))"

fun guest_shares :: "gostr \<Rightarrow> (string \<times> bool) list \<Rightarrow> (string \<Rightarrow> bool) \<Rightarrow> string \<Rightarrow> bool" where
  "guest_shares go [] m = m"
| "guest_shares go ((share, guest) # xs) m =
     guest_shares go xs (if guest then m(ToUpper go share := True) else m)"

definition user_set :: "gostr \<Rightarrow> string list \<Rightarrow> string list" where
  "user_set go users = filter (\<lambda>u. u \<noteq> []) (map (\<lambda>u. TrimSpace go (ToLower go u)) users)"

fun share_users ::
    "gostr \<Rightarrow> (string \<times> string list) list \<Rightarrow> (string \<Rightarrow> string list option) \<Rightarrow> string \<Rightarrow> string list option" where
  "share_users go [] m = m"
| "share_users go ((share, users) # xs) m =
     share_users go xs (if user_set go users \<noteq> [] then m(ToUpper go share \<mapsto> user_set go users) else m)"

fun readonly_users :: "gostr \<Rightarrow> (string \<times> bool) list \<Rightarrow> (string \<Rightarrow> bool) \<Rightarrow> string \<Rightarrow> bool" where
  "readonly_users go [] m = m"
| "readonly_users go ((user, ro) # xs) m =
     readonly_users go xs (if ro then m(ToLower go (TrimSpace go user) := True) else m)"

definition NewServer :: "gostr \<Rightarrow> ServerConfig \<Rightarrow> (string \<times> nat) list \<Rightarrow> share_tables" where
  "NewServer go cfg shs = \<lparr>shares = upper_shares go shs (\<lambda>_. None), origShares = shs,
     shareGuest = guest_shares go (ShareGuest cfg) (\<lambda>_. False),
     shareUsers = share_users go (ShareAllowUsers cfg) (\<lambda>_. None),
     authUsers = auth_users go (AuthUsers cfg) (\<lambda>_. False),
     userRO = readonly_users go (UserReadonly cfg) (\<lambda>_. False),
     allowGuest = AllowGuest cfg, enableSMB3Encryption = EnableSMB3Encryption cfg,
     maxIOReads = cfg_MaxIOReads cfg, maxIOWrites = cfg_MaxIOWrites cfg\<rparr>"

definition isUserReadOnly :: "gostr \<Rightarrow> share_tables \<Rightarrow> string \<Rightarrow> bool" where
  "isUserReadOnly go d user = userRO d (ToLower go (TrimSpace go user))"

definition isShareAllowed :: "gostr \<Rightarrow> share_tables \<Rightarrow> string \<Rightarrow> string \<Rightarrow> bool" where
  "isShareAllowed go d shareName user =
     (case shareUsers d (ToUpper go shareName) of
        None \<Rightarrow> True
      | Some allowed \<Rightarrow> length allowed = 0 \<or> ToLower go (TrimSpace go user) \<in> set allowed)"

definition isShareGuest :: "gostr \<Rightarrow> share_tables \<Rightarrow> string \<Rightarrow> bool" where
  "isShareGuest go d shareName = shareGuest d (ToUpper go shareName)"

definition isConfiguredUser :: "gostr \<Rightarrow> share_tables \<Rightarrow> string \<Rightarrow> bool" where
  "isConfiguredUser go d user = authUsers d (ToLower go (TrimSpace go user))"

subsection \<open>What the tables hold\<close>

lemma auth_users_iff:
  "auth_users go us m k \<longleftrightarrow> m k \<or> k \<noteq> [] \<and> (\<exists>user \<in> set us. ToLower go (TrimSpace go user) = k)"
  by (induction go us m arbitrary: k rule: auth_users.induct) (auto simp: Let_def)

lemma guest_shares_iff:
  "guest_shares go xs m k \<longleftrightarrow> m k \<or> (\<exists>share. (share, True) \<in> set xs \<and> ToUpper go share = k)"
  by (induction go xs m arbitrary: k rule: guest_shares.induct) auto

lemma readonly_users_iff:
  "readonly_users go xs m k \<longleftrightarrow> m k \<or> (\<exists>user. (user, True) \<in> set xs \<and> ToLower go (TrimSpace go user) = k)"
  by (induction go xs m arbitrary: k rule: readonly_users.induct) auto

lemma upper_shares_miss: "k \<notin> ToUpper go ` fst ` set xs \<Longrightarrow> upper_shares go xs m k = m k"
  by (induction go xs m rule: upper_shares.induct) auto

lemma upper_shares_dom: "upper_shares go xs m k = None \<longleftrightarrow> m k = None \<and> k \<notin> ToUpper go ` fst ` set xs"
proof (induction go xs m rule: upper_shares.induct)
  case (2 go i v xs m)
  have "upper_shares go ((i, v) # xs) m k = None \<longleftrightarrow> upper_shares go xs (m(ToUpper go i \<mapsto> v)) k = None" by simp
  also have "\<dots> \<longleftrightarrow> (m(ToUpper go i \<mapsto> v)) k = None \<and> k \<notin> ToUpper go ` fst ` set xs" by (rule 2)
  also have "\<dots> \<longleftrightarrow> m k = None \<and> k \<notin> ToUpper go ` fst ` set ((i, v) # xs)" by auto
  finally show ?case .
qed simp

lemma share_users_miss:
  "\<forall>(share, users) \<in> set xs. user_set go users = [] \<or> ToUpper go share \<noteq> k \<Longrightarrow> share_users go xs m k = m k"
  by (induction go xs m rule: share_users.induct) (auto split: if_splits)

lemma share_users_hit:
  assumes "(share, users) \<in> set xs" "user_set go users \<noteq> []"
    and "\<forall>(share', users') \<in> set xs. ToUpper go share' = ToUpper go share \<longrightarrow> (share', users') = (share, users)"
  shows "share_users go xs m (ToUpper go share) = Some (user_set go users)"
  using assms
proof (induction go xs m rule: share_users.induct)
  case (2 go share' users' xs m)
  show ?case
  proof (cases "(share, users) \<in> set xs")
    case True
    have "\<forall>(s, u) \<in> set xs. ToUpper go s = ToUpper go share \<longrightarrow> (s, u) = (share, users)"
      using 2(4) by auto
    with True 2(1,3) show ?thesis by simp
  next
    case False
    then have eq: "(share', users') = (share, users)" using 2(2) by auto
    have "\<forall>(s, u) \<in> set xs. user_set go u = [] \<or> ToUpper go s \<noteq> ToUpper go share"
      using 2(4) False by auto
    with eq 2(3) show ?thesis by (simp add: share_users_miss)
  qed
qed simp

subsection \<open>Properties\<close>

text \<open>
  The access tables mean what the configuration says: a share is known exactly when some configured
  share has its name up to case; it is open to guests exactly when one of that name is marked so; a
  user is configured, or read-only, exactly when the normalised name is; and a share that lists at
  least one user, with no other entry of its name, admits exactly the users on its list, while a share
  without such a list admits everyone.
\<close>

theorem tables_meaning:
  "let d = NewServer go cfg shs in
   (shares d (ToUpper go n) \<noteq> None \<longleftrightarrow> (\<exists>(i, v) \<in> set shs. ToUpper go i = ToUpper go n))
   \<and> (isShareGuest go d n \<longleftrightarrow> (\<exists>i. (i, True) \<in> set (ShareGuest cfg) \<and> ToUpper go i = ToUpper go n))
   \<and> (isUserReadOnly go d u \<longleftrightarrow>
        (\<exists>i. (i, True) \<in> set (UserReadonly cfg) \<and> ToLower go (TrimSpace go i) = ToLower go (TrimSpace go u)))
   \<and> (isConfiguredUser go d u \<longleftrightarrow> ToLower go (TrimSpace go u) \<noteq> []
        \<and> (\<exists>i \<in> set (AuthUsers cfg). ToLower go (TrimSpace go i) = ToLower go (TrimSpace go u)))
   \<and> ((\<forall>(i, us) \<in> set (ShareAllowUsers cfg). ToUpper go i = ToUpper go n \<longrightarrow> user_set go us = [])
        \<longrightarrow> isShareAllowed go d n u)
   \<and> (\<forall>i us. (i, us) \<in> set (ShareAllowUsers cfg) \<and> ToUpper go i = ToUpper go n \<and> user_set go us \<noteq> []
        \<and> (\<forall>(j, vs) \<in> set (ShareAllowUsers cfg). ToUpper go j = ToUpper go n \<longrightarrow> (j, vs) = (i, us))
        \<longrightarrow> isShareAllowed go d n u = (ToLower go (TrimSpace go u) \<in> set (user_set go us)))"
proof -
  let ?d = "NewServer go cfg shs"
  have 1: "shares ?d (ToUpper go n) \<noteq> None \<longleftrightarrow> (\<exists>(i, v) \<in> set shs. ToUpper go i = ToUpper go n)"
    by (simp add: NewServer_def upper_shares_dom image_iff del: not_None_eq) force
  have 2: "isShareGuest go ?d n \<longleftrightarrow> (\<exists>i. (i, True) \<in> set (ShareGuest cfg) \<and> ToUpper go i = ToUpper go n)"
    by (simp add: NewServer_def isShareGuest_def guest_shares_iff)
  have 3: "isUserReadOnly go ?d u \<longleftrightarrow>
      (\<exists>i. (i, True) \<in> set (UserReadonly cfg) \<and> ToLower go (TrimSpace go i) = ToLower go (TrimSpace go u))"
    by (simp add: NewServer_def isUserReadOnly_def readonly_users_iff)
  have 4: "isConfiguredUser go ?d u \<longleftrightarrow> ToLower go (TrimSpace go u) \<noteq> []
      \<and> (\<exists>i \<in> set (AuthUsers cfg). ToLower go (TrimSpace go i) = ToLower go (TrimSpace go u))"
    by (simp add: NewServer_def isConfiguredUser_def auth_users_iff)
  have 5: "isShareAllowed go ?d n u"
    if "\<forall>(i, us) \<in> set (ShareAllowUsers cfg). ToUpper go i = ToUpper go n \<longrightarrow> user_set go us = []"
  proof -
    have "share_users go (ShareAllowUsers cfg) (\<lambda>_. None) (ToUpper go n) = None"
      using that by (subst share_users_miss) auto
    then show ?thesis by (simp add: NewServer_def isShareAllowed_def)
  qed
  have 6: "isShareAllowed go ?d n u = (ToLower go (TrimSpace go u) \<in> set (user_set go us))"
    if i: "(i, us) \<in> set (ShareAllowUsers cfg)" "ToUpper go i = ToUpper go n" "user_set go us \<noteq> []"
      and only: "\<forall>(j, vs) \<in> set (ShareAllowUsers cfg). ToUpper go j = ToUpper go n \<longrightarrow> (j, vs) = (i, us)"
    for i us
    using share_users_hit [OF i(1,3), of "\<lambda>_. None"] only i
    by (auto simp: NewServer_def isShareAllowed_def)
  have 7: "(\<forall>(i, us) \<in> set (ShareAllowUsers cfg). ToUpper go i = ToUpper go n \<longrightarrow> user_set go us = [])
      \<longrightarrow> isShareAllowed go ?d n u"
    using 5 by (rule impI)
  have 8: "\<forall>i us. (i, us) \<in> set (ShareAllowUsers cfg) \<and> ToUpper go i = ToUpper go n \<and> user_set go us \<noteq> []
      \<and> (\<forall>(j, vs) \<in> set (ShareAllowUsers cfg). ToUpper go j = ToUpper go n \<longrightarrow> (j, vs) = (i, us))
      \<longrightarrow> isShareAllowed go ?d n u = (ToLower go (TrimSpace go u) \<in> set (user_set go us))"
    by (intro allI impI; elim conjE) (rule 6)
  show ?thesis unfolding Let_def by (intro conjI) (fact 1 2 3 4 7 8)+
qed

text \<open>Case folding and trimming on ASCII, for concrete runs.\<close>

definition ascii_lower :: "char \<Rightarrow> char" where
  "ascii_lower ch = (let n = of_char ch :: nat in if 65 \<le> n \<and> n \<le> 90 then char_of (n + 32) else ch)"

definition ascii_upper :: "char \<Rightarrow> char" where
  "ascii_upper ch = (let n = of_char ch :: nat in if 97 \<le> n \<and> n \<le> 122 then char_of (n - 32) else ch)"

definition ascii_trim :: "string \<Rightarrow> string" where
  "ascii_trim s = (let sp = (\<lambda>ch. ch = CHR '' '') in rev (dropWhile sp (rev (dropWhile sp s))))"

definition ascii_go :: gostr where
  "ascii_go = \<lparr>ToUpper = map ascii_upper, ToLower = map ascii_lower, TrimSpace = ascii_trim,
     EqualFold = (\<lambda>s t. map ascii_lower s = map ascii_lower t)\<rparr>"

definition sample_config :: ServerConfig where
  "sample_config = \<lparr>AllowGuest = False, EnableSMB3Encryption = True, cfg_MaxIOReads = 0, cfg_MaxIOWrites = 0,
     ShareGuest = [(''public'', True)], ShareAllowUsers = [(''secret$'', [''Alice ''])],
     AuthUsers = [''alice'', ''bob''], UserReadonly = []\<rparr>"

lemma tables_meaning_witness:
  "isShareAllowed ascii_go (NewServer ascii_go sample_config [(''secret$'', 0)]) ''SECRET$'' '' alice''
   \<and> \<not> isShareAllowed ascii_go (NewServer ascii_go sample_config [(''secret$'', 0)]) ''SECRET$'' ''bob''"
proof -
  have n: "ToUpper ascii_go ''SECRET$'' = ''SECRET$''" "ToUpper ascii_go ''secret$'' = ''SECRET$''"
    "user_set ascii_go [''Alice ''] = [''alice'']" "ToLower ascii_go (TrimSpace ascii_go '' alice'') = ''alice''"
    "ToLower ascii_go (TrimSpace ascii_go ''bob'') = ''bob''"
    by code_simp+
  have c: "ShareAllowUsers sample_config = [(''secret$'', [''Alice ''])]" by (simp add: sample_config_def)
  have only: "isShareAllowed ascii_go (NewServer ascii_go sample_config [(''secret$'', 0)]) ''SECRET$'' u
      = (ToLower ascii_go (TrimSpace ascii_go u) \<in> set (user_set ascii_go [''Alice '']))" for u
    using tables_meaning [of ascii_go sample_config "[(''secret$'', 0)]" "''SECRET$''" u, unfolded Let_def c,
        THEN conjunct2, THEN conjunct2, THEN conjunct2, THEN conjunct2, THEN conjunct2,
        THEN spec, of "''secret$''", THEN spec, of "[''Alice '']"]
    by (rule mp) (simp add: n(1-3))
  show ?thesis unfolding only n by simp
qed

end
