(* ===== verification/Go_Strings.thy ===== *)
theory Go_Strings
  imports Prelude
begin

section \<open>Strings and slash-separated paths\<close>

text \<open>
  What the program uses of Go's \<^verbatim>\<open>strings\<close>, \<^verbatim>\<open>path\<close> and, on systems whose separator is the slash,
  \<^verbatim>\<open>path/filepath\<close>.  A string is its bytes.
\<close>

subsection \<open>strings\<close>

fun str_split :: "char \<Rightarrow> string \<Rightarrow> string list" where
  "str_split sep [] = [[]]"
| "str_split sep (x # xs) =
     (if x = sep then [] # str_split sep xs
      else case str_split sep xs of [] \<Rightarrow> [[x]] | w # ws \<Rightarrow> (x # w) # ws)"

fun str_join :: "char \<Rightarrow> string list \<Rightarrow> string" where
  "str_join sep [] = []"
| "str_join sep [w] = w"
| "str_join sep (w # v # ws) = w @ sep # str_join sep (v # ws)"

definition HasSuffix :: "string \<Rightarrow> string \<Rightarrow> bool" where
  "HasSuffix s suf \<longleftrightarrow> length suf \<le> length s \<and> drop (length s - length suf) s = suf"

definition HasPrefix :: "string \<Rightarrow> string \<Rightarrow> bool" where
  "HasPrefix s pre \<longleftrightarrow> take (length pre) s = pre"

definition TrimPrefix :: "string \<Rightarrow> string \<Rightarrow> string" where
  "TrimPrefix s pre = (if HasPrefix s pre then drop (length pre) s else s)"

text \<open>\<^verbatim>\<open>strings.ReplaceAll\<close> of one byte by one byte, and by a string.\<close>

definition replace_char :: "char \<Rightarrow> char \<Rightarrow> string \<Rightarrow> string" where
  "replace_char a b s = map (\<lambda>x. if x = a then b else x) s"

definition replace_str :: "char \<Rightarrow> string \<Rightarrow> string \<Rightarrow> string" where
  "replace_str a b s = concat (map (\<lambda>x. if x = a then b else [x]) s)"

abbreviation "slash \<equiv> CHR 0x2F"
abbreviation "backslash \<equiv> CHR 0x5C"
abbreviation "dot \<equiv> CHR 0x2E"

definition to_slash :: "string \<Rightarrow> string" where
  "to_slash s = replace_char backslash slash s"

definition to_backslash :: "string \<Rightarrow> string" where
  "to_backslash s = replace_char slash backslash s"

subsection \<open>path\<close>

text \<open>
  \<^verbatim>\<open>path.Clean\<close>: the segments are pushed on a stack; an empty segment and \<^verbatim>\<open>.\<close> do nothing, \<^verbatim>\<open>..\<close>
  takes the last segment back, stays at the root of a rooted path, and is kept otherwise.
\<close>

abbreviation "dotdot \<equiv> [dot, dot]"

definition clean_step :: "bool \<Rightarrow> string \<Rightarrow> string list \<Rightarrow> string list" where
  "clean_step rooted seg out =
     (if seg = [] \<or> seg = [dot] then out
      else if seg = dotdot
      then (if out \<noteq> [] \<and> last out \<noteq> dotdot then butlast out
            else if rooted then out else out @ [dotdot])
      else out @ [seg])"

definition clean_segments :: "bool \<Rightarrow> string list \<Rightarrow> string list \<Rightarrow> string list" where
  "clean_segments rooted segs out = fold (clean_step rooted) segs out"

definition path_Clean :: "string \<Rightarrow> string" where
  "path_Clean s =
     (if s = [] then [dot]
      else let rooted = hd s = slash;
               body = str_join slash (clean_segments rooted (str_split slash s) [])
        in if rooted then slash # body else if body = [] then [dot] else body)"

definition path_Join :: "string list \<Rightarrow> string" where
  "path_Join es = (let es = filter (\<lambda>e. e \<noteq> []) es in if es = [] then [] else path_Clean (str_join slash es))"

definition path_Base :: "string \<Rightarrow> string" where
  "path_Base s =
     (if s = [] then [dot]
      else let t = rev (dropWhile (\<lambda>x. x = slash) (rev s));
               b = rev (takeWhile (\<lambda>x. x \<noteq> slash) (rev t))
        in if b = [] then [slash] else b)"

definition path_Dir :: "string \<Rightarrow> string" where
  "path_Dir s = path_Clean (rev (dropWhile (\<lambda>x. x \<noteq> slash) (rev s)))"

text \<open>\<^verbatim>\<open>filepath.Rel\<close>: the path from \<open>base\<close> to \<open>targ\<close>, if one of them is not rooted alone.\<close>

definition path_segments :: "string \<Rightarrow> string list" where
  "path_segments s = clean_segments (s \<noteq> [] \<and> hd s = slash) (str_split slash s) []"

fun drop_common :: "string list \<Rightarrow> string list \<Rightarrow> string list \<times> string list" where
  "drop_common (x # xs) (y # ys) = (if x = y then drop_common xs ys else (x # xs, y # ys))"
| "drop_common xs ys = (xs, ys)"

definition path_Rel :: "string \<Rightarrow> string \<Rightarrow> string option" where
  "path_Rel from to =
     (if (from \<noteq> [] \<and> hd from = slash) \<noteq> (to \<noteq> [] \<and> hd to = slash) then None
      else let (up, down) = drop_common (path_segments from) (path_segments to)
        in if up \<noteq> [] \<and> hd up = dotdot then None
           else let r = str_join slash (replicate (length up) dotdot @ down) in Some (if r = [] then [dot] else r))"

definition path_IsAbs :: "string \<Rightarrow> bool" where
  "path_IsAbs s \<longleftrightarrow> s \<noteq> [] \<and> hd s = slash"

subsection \<open>Facts\<close>

lemma str_split_nonempty: "str_split sep s \<noteq> []"
  by (induction sep s rule: str_split.induct) (auto split: list.splits)

lemma str_split_segments: "w \<in> set (str_split sep s) \<Longrightarrow> sep \<notin> set w"
proof (induction sep s arbitrary: w rule: str_split.induct)
  case (2 sep x xs)
  show ?case
  proof (cases "x = sep")
    case False
    obtain v vs where v: "str_split sep xs = v # vs" using str_split_nonempty by (metis neq_Nil_conv)
    then show ?thesis using 2 False by auto
  qed (use 2 in auto)
qed simp

lemma str_join_Cons: "ws \<noteq> [] \<Longrightarrow> str_join sep (w # ws) = w @ sep # str_join sep ws"
  by (cases ws) auto

lemma str_split_plain: "sep \<notin> set w \<Longrightarrow> str_split sep w = [w]"
  by (induction w) auto

lemma str_split_append_sep: "sep \<notin> set w \<Longrightarrow> str_split sep (w @ sep # s) = w # str_split sep s"
  by (induction w) auto

lemma str_split_join: "ws \<noteq> [] \<Longrightarrow> \<forall>w \<in> set ws. sep \<notin> set w \<Longrightarrow> str_split sep (str_join sep ws) = ws"
  by (induction sep ws rule: str_join.induct) (auto simp: str_split_plain str_split_append_sep)

lemma str_join_split: "str_join sep (str_split sep s) = s"
proof (induction sep s rule: str_split.induct)
  case (2 sep x xs)
  obtain v vs where v: "str_split sep xs = v # vs" using str_split_nonempty by (metis neq_Nil_conv)
  show ?case
  proof (cases "x = sep")
    case True
    then show ?thesis using 2 by (simp add: str_join_Cons str_split_nonempty)
  next
    case False
    then have "str_join sep (v # vs) = xs" using 2 v by simp
    with False v show ?thesis by (cases vs) auto
  qed
qed simp

lemma str_split_append: "str_split sep (s @ sep # t) = str_split sep s @ str_split sep t"
proof (induction s)
  case (Cons x s)
  obtain v vs where "str_split sep s = v # vs" using str_split_nonempty by (metis neq_Nil_conv)
  with Cons show ?case by auto
qed simp

lemma HasPrefix_append [simp]: "HasPrefix (p @ s) p"
  by (simp add: HasPrefix_def)

lemma HasPrefix_iff: "HasPrefix s p \<longleftrightarrow> (\<exists>t. s = p @ t)"
  by (auto simp: HasPrefix_def) (metis append_take_drop_id)

text \<open>A segment that is not special goes onto the stack and stays there unless taken back.\<close>

definition plain_segment :: "string \<Rightarrow> bool" where
  "plain_segment w \<longleftrightarrow> w \<noteq> [] \<and> w \<noteq> [dot] \<and> w \<noteq> dotdot \<and> slash \<notin> set w"

lemma clean_segments_append [simp]:
  "clean_segments r (xs @ ys) out = clean_segments r ys (clean_segments r xs out)"
  by (simp add: clean_segments_def)

lemma clean_segments_no_dotdot:
  "dotdot \<notin> set segs \<Longrightarrow> clean_segments r segs out = out @ filter (\<lambda>w. w \<noteq> [] \<and> w \<noteq> [dot]) segs"
proof (induction segs arbitrary: out)
  case (Cons w segs)
  have "clean_segments r (w # segs) out = clean_segments r segs (clean_step r w out)"
    by (simp add: clean_segments_def)
  with Cons show ?case by (auto simp: clean_step_def)
qed (simp add: clean_segments_def)

lemma clean_segments_plain:
  assumes "\<forall>w \<in> set segs. plain_segment w"
  shows "clean_segments r segs out = out @ segs"
proof -
  have "dotdot \<notin> set segs" "filter (\<lambda>w. w \<noteq> [] \<and> w \<noteq> [dot]) segs = segs"
    using assms by (auto simp: plain_segment_def filter_id_conv)
  then show ?thesis by (simp add: clean_segments_no_dotdot)
qed

text \<open>The stack holds plain segments only, behind the \<^verbatim>\<open>..\<close> of a path that is not rooted.\<close>

lemma clean_step_plain:
  assumes "\<forall>w \<in> set out. plain_segment w" "slash \<notin> set seg"
  shows "\<forall>w \<in> set (clean_step True seg out). plain_segment w"
  using assms by (auto simp: clean_step_def plain_segment_def dest: in_set_butlastD)

lemma clean_segments_stack:
  assumes "\<forall>w \<in> set segs. slash \<notin> set w" "\<forall>w \<in> set out. plain_segment w"
  shows "\<forall>w \<in> set (clean_segments True segs out). plain_segment w"
  using assms
proof (induction segs arbitrary: out)
  case (Cons w segs)
  have "clean_segments True (w # segs) out = clean_segments True segs (clean_step True w out)"
    by (simp add: clean_segments_def)
  moreover have "\<forall>v \<in> set (clean_step True w out). plain_segment v"
    using Cons.prems by (intro clean_step_plain) auto
  ultimately show ?case using Cons by simp
qed (simp add: clean_segments_def)

end
