(* ===== verification/Server.thy ===== *)
theory Server
  imports Conn Shares Go_Strings
begin

section \<open>The server: negotiation, authentication, trees and dispatch\<close>

text \<open>
  The handlers of \<^verbatim>\<open>smb/server/server.go\<close> and the loop \<^verbatim>\<open>Run\<close> that dispatches to them.  A handler
  takes the server and the connection and returns the error of the code, the server and the
  connection; \<open>None\<close> is a run-time panic, which ends the process, for no goroutine recovers.  The
  negotiator and the authenticator belong to the server: every connection shares them; so do the
  identifier of the pipe and the counter of RPC references, which are global variables.
\<close>

record 'a server =
  RequireMessageSigning :: bool
  SpecifiedDialect :: u16
  Spnego :: "spnegoServer option"
  auths :: "'a list"
  authenticator :: nat
  serverGuid :: "byte list"
  SRVSVC_GUID :: FileId
  refIds :: u32
  tables :: share_tables

text \<open>What handlers are given: the outside world, the codec of SPNEGO tokens, the authenticator, strings.\<close>

record 'a env =
  e_world :: world
  e_codec :: spnego_codec
  e_auth :: "'a Authenticator"
  e_go :: gostr

type_synonym ('a, 'z) outcome_of = "(error option \<times> ('a, 'z) server_scheme \<times> conn) option"

definition sent :: "('a, 'z) server_scheme \<Rightarrow> (error option \<times> conn) option \<Rightarrow> ('a, 'z) outcome_of" where
  "sent srv r = map_option (\<lambda>(e, cn). (e, srv, cn)) r"

subsection \<open>Response headers\<close>

definition PrepareResponse :: "PacketHeader \<Rightarrow> slice \<Rightarrow> u32 \<Rightarrow> PacketHeader option" where
  "PrepareResponse hdr req status = do {
     cmd \<leftarrow> p_Command req;
     cr \<leftarrow> p_CreditRequest req;
     m \<leftarrow> p_MessageId req;
     fl \<leftarrow> p_Flags req;
     Some (hdr\<lparr>Command := cmd, CreditRequestResponse := cr, MessageId := m,
       Flags := 1 OR (fl AND SMB2_FLAGS_PRIORITY_MASK), Status := status\<rparr>) }"

definition PrepareAsyncResponse :: "PacketHeader \<Rightarrow> slice \<Rightarrow> u64 \<Rightarrow> u32 \<Rightarrow> PacketHeader option" where
  "PrepareAsyncResponse hdr req asyncId status = do {
     cmd \<leftarrow> p_Command req;
     cr \<leftarrow> p_CreditRequest req;
     m \<leftarrow> p_MessageId req;
     Some (hdr\<lparr>Command := cmd, CreditRequestResponse := cr, MessageId := m,
       Flags := (if asyncId \<noteq> 0 then SMB2_FLAGS_SERVER_TO_REDIR OR SMB2_FLAGS_ASYNC_COMMAND
                 else SMB2_FLAGS_SERVER_TO_REDIR),
       Status := status, AsyncId := asyncId\<rparr>) }"

definition send_error ::
    "'a env \<Rightarrow> slice \<Rightarrow> u32 \<Rightarrow> treeConn option \<Rightarrow> nat option \<Rightarrow> ('a, 'z) server_scheme \<Rightarrow> conn \<Rightarrow> ('a, 'z) outcome_of" where
  "send_error env pkt status tc cp srv cn = do {
     hdr \<leftarrow> PrepareResponse new_header pkt status;
     sent srv (sendPacket (e_world env) (hdr, ErrorResponse None) tc cp cn) }"

text \<open>The header that most handlers fill in by hand.\<close>

definition reply_header :: "slice \<Rightarrow> PacketHeader option" where
  "reply_header pkt = do {
     cr \<leftarrow> p_CreditRequest pkt;
     m \<leftarrow> p_MessageId pkt;
     Some (new_header\<lparr>CreditRequestResponse := cr, MessageId := m, Flags := 1\<rparr>) }"

subsection \<open>echo and logoff\<close>

definition echo :: "'a env \<Rightarrow> slice \<Rightarrow> ('a, 'z) server_scheme \<Rightarrow> conn \<Rightarrow> ('a, 'z) outcome_of" where
  "echo env pkt srv cn = do {
     hdr \<leftarrow> reply_header pkt;
     sent srv (sendPacket (e_world env) (hdr, EchoResponse) None None cn) }"

definition logoff :: "'a env \<Rightarrow> slice \<Rightarrow> ('a, 'z) server_scheme \<Rightarrow> conn \<Rightarrow> ('a, 'z) outcome_of" where
  "logoff env pkt srv cn = do {
     hdr \<leftarrow> reply_header pkt;
     sent srv (sendPacket (e_world env) (hdr, LogoffResponse) None None cn) }"

subsection \<open>negotiate\<close>

definition serverCapabilities :: u32 where "serverCapabilities = 0x77"
definition serverMaxSize :: u32 where "serverMaxSize = 0x800000"

definition makeResponse :: "world \<Rightarrow> ('a, 'z) server_scheme \<Rightarrow> conn \<Rightarrow> NegotiateBody option" where
  "makeResponse w srv cn =
     (let body = (\<lambda>dialect ctxs. \<lparr>SecurityMode = (if RequireMessageSigning srv then 2 else 1),
            DialectRevision = dialect, ServerGuid = serverGuid srv, n_Capabilities = serverCapabilities,
            MaxTransactSize = serverMaxSize, MaxReadSize = serverMaxSize, MaxWriteSize = serverMaxSize,
            SystemTime = w_now w, ServerStartTime = \<lparr>LowDateTime = 0, HighDateTime = 0\<rparr>,
            n_SecurityBuffer = [], n_Contexts = ctxs\<rparr>);
          d = SpecifiedDialect srv
      in if d \<noteq> 0
         then if d = SMB2 \<or> d = SMB202 \<or> d = SMB210 \<or> d = SMB300 \<or> d = SMB302 then Some (body d [])
              else if d = SMB311
              then Some (body d ([HashContext [hashId cn] (w_salt w), CipherContext [c_cipherId cn],
                     CompressionContext [0] 0] @ (if posixExtensions cn then [PosixContext] else [])))
              else None
         else Some (body SMB311 [HashContext [if hashId cn = 0 then SHA512 else hashId cn] (w_salt w),
                     CipherContext [if c_cipherId cn = 0 then AES128GCM else c_cipherId cn]]))"

text \<open>The contexts of a 3.1.1 request, as many as the request counts.\<close>

fun first_cipher :: "u16 list \<Rightarrow> u16 \<Rightarrow> u16" where
  "first_cipher [] cur = cur"
| "first_cipher (x # xs) cur = (if x = AES128CCM \<or> x = AES128GCM then x else first_cipher xs cur)"

definition negotiate_context :: "world \<Rightarrow> slice \<Rightarrow> slice \<Rightarrow> conn \<Rightarrow> (error option \<times> conn) option" where
  "negotiate_context w pkt ctx cn = do {
     ty \<leftarrow> nc_ContextType ctx;
     (if ty = 1
      then do {
        d \<leftarrow> nc_Data ctx;
        inv \<leftarrow> hc_IsInvalid d;
        (if inv then Some (Some (InvalidResponseError ''broken hash context data format''), cn)
         else do {
           algs \<leftarrow> hc_HashAlgorithms d;
           (if length algs \<noteq> 1 then Some (Some (InvalidResponseError ''multiple hash algorithms''), cn)
            else Some (None, calcPreauthHash w (vis pkt) (cn\<lparr>preauthIntegrityHashId := algs ! 0\<rparr>))) }) }
      else if ty = 2
      then do {
        d \<leftarrow> nc_Data ctx;
        inv \<leftarrow> cc_IsInvalid d;
        (if inv then Some (Some (InvalidResponseError ''broken cipher context data format''), cn)
         else do {
           cs \<leftarrow> cc_Ciphers d;
           let cn = cn\<lparr>c_cipherId := first_cipher cs (c_cipherId cn)\<rparr>;
           Some (if c_cipherId cn = AES128CCM \<or> c_cipherId cn = AES128GCM then None
                 else Some (InvalidResponseError ''unknown cipher algorithm''), cn) }) }
      else if ty = 0x0100 then Some (None, cn\<lparr>posixExtensions := True\<rparr>)
      else Some (None, cn)) }"

fun negotiate_contexts ::
    "world \<Rightarrow> slice \<Rightarrow> nat \<Rightarrow> slice \<Rightarrow> conn \<Rightarrow> (error option \<times> conn) option" where
  "negotiate_contexts w pkt 0 list cn = Some (None, cn)"
| "negotiate_contexts w pkt (Suc k) list cn = do {
     inv \<leftarrow> nc_IsInvalid list;
     (if inv then Some (Some (InvalidResponseError ''broken negotiate context format''), cn)
      else do {
        (e, cn) \<leftarrow> negotiate_context w pkt list cn;
        (if e \<noteq> None then Some (e, cn)
         else do {
           off \<leftarrow> nc_Next list;
           rest \<leftarrow> (if len list < off then Some nil_slice else sl_from off list);
           negotiate_contexts w pkt k rest cn }) }) }"

text \<open>Making and sending the response; a response that was not made is a \<^verbatim>\<open>nil\<close> dereference.\<close>

definition send_negotiated :: "'a env \<Rightarrow> slice \<Rightarrow> byte list \<Rightarrow> ('a, 'z) server_scheme \<Rightarrow> conn \<Rightarrow> ('a, 'z) outcome_of" where
  "send_negotiated env pkt token srv cn = do {
     body \<leftarrow> makeResponse (e_world env) srv cn;
     hdr \<leftarrow> PrepareResponse new_header pkt 0;
     (e, cn) \<leftarrow> sendPacket (e_world env) (hdr, NegotiateResponse (body\<lparr>n_SecurityBuffer := token\<rparr>)) None None cn;
     Some (e, srv, cn\<lparr>negotiatePreauthHash := preauthIntegrityHashValue cn\<rparr>) }"

definition negotiator_negotiate :: "'a env \<Rightarrow> slice \<Rightarrow> ('a, 'z) server_scheme \<Rightarrow> conn \<Rightarrow> ('a, 'z) outcome_of" where
  "negotiator_negotiate env pkt srv cn = do {
     smb1 \<leftarrow> p_IsSmb1 pkt;
     (if smb1
      then do {
        let srv = srv\<lparr>SpecifiedDialect := SMB2\<rparr>;
        body \<leftarrow> makeResponse (e_world env) srv cn;
        sent srv (sendPacket (e_world env) (new_header\<lparr>Flags := 1\<rparr>, NegotiateResponse body) None None cn) }
      else do {
        (r, err) \<leftarrow> accept SMB2_NEGOTIATE pkt;
        (if err \<noteq> None then Some (err, srv, cn)
         else do {
           inv \<leftarrow> NegotiateRequest_IsInvalid r;
           (if inv then Some (Some (InvalidResponseError ''broken negotiate response format''), srv, cn)
            else do {
              ds \<leftarrow> NegotiateRequest_Dialects r;
              let srv = srv\<lparr>SpecifiedDialect := choose_dialect ds\<rparr>;
              mode \<leftarrow> NegotiateRequest_SecurityMode r;
              caps \<leftarrow> NegotiateRequest_Capabilities r;
              let cn = cn\<lparr>requireSigning := RequireMessageSigning srv \<or> mode AND 2 \<noteq> 0,
                    capabilities := serverCapabilities AND caps, c_dialect := SpecifiedDialect srv,
                    maxTransactSize := serverMaxSize, maxReadSize := serverMaxSize,
                    maxWriteSize := serverMaxSize, sequenceWindow := 1\<rparr>;
              let sp = newSpnegoServer (e_auth env) [authenticator srv];
              let srv = srv\<lparr>Spnego := Some sp\<rparr>;
              let token = (case initSecContext (e_codec env) sp of Inl _ \<Rightarrow> [] | Inr t \<Rightarrow> t);
              (if c_dialect cn \<noteq> SMB311 then send_negotiated env pkt token srv cn
               else do {
                 list \<leftarrow> NegotiateRequest_NegotiateContextList r;
                 count \<leftarrow> NegotiateRequest_NegotiateContextCount r;
                 (e, cn) \<leftarrow> negotiate_contexts (e_world env) pkt (unat count) list cn;
                 (if e \<noteq> None then Some (e, srv, cn)
                  else send_negotiated env pkt token srv cn) }) }) }) }) }"

definition negotiate :: "'a env \<Rightarrow> slice \<Rightarrow> ('a, 'z) server_scheme \<Rightarrow> conn \<Rightarrow> ('a, 'z) outcome_of" where
  "negotiate env pkt srv cn =
     (if serverState cn \<noteq> STATE_NEGOTIATE \<and> useSession cn
      then send_error env pkt STATUS_NETWORK_SESSION_EXPIRED None None srv cn
      else negotiator_negotiate env pkt srv cn)"

subsection \<open>Session setup\<close>

definition shouldEncryptSession :: "('a, 'z) server_scheme \<Rightarrow> conn \<Rightarrow> bool" where
  "shouldEncryptSession srv cn \<longleftrightarrow> enableSMB3Encryption (tables srv) \<and> \<not> c_dialect cn < SMB300
     \<and> capabilities cn AND 0x40 \<noteq> 0"

definition setup_response :: "PacketHeader \<Rightarrow> u64 \<Rightarrow> u32 \<Rightarrow> u16 \<Rightarrow> byte list \<Rightarrow> Packet" where
  "setup_response hdr sid status fl token = (hdr\<lparr>SessionId := sid, Status := status\<rparr>, SessionSetupResponse fl token)"

definition sessionServerSetup :: "'a env \<Rightarrow> slice \<Rightarrow> ('a, 'z) server_scheme \<Rightarrow> conn \<Rightarrow> ('a, 'z) outcome_of" where
  "sessionServerSetup env pkt srv cn = do {
     (res, err) \<leftarrow> accept SMB2_SESSION_SETUP pkt;
     (if err \<noteq> None then send_error env pkt STATUS_INVALID_PARAMETER None None srv cn
      else do {
        let cn = calcPreauthHash (e_world env) (vis pkt) cn;
        inv \<leftarrow> SessionSetupRequest_IsInvalid res;
        (if inv then Some (Some (InvalidRequestError ''broken session setup request format''), srv, cn)
         else do {
           sb \<leftarrow> SessionSetupRequest_SecurityBuffer res;
           (r, sp, as) \<leftarrow> sp_challenge (e_codec env) (e_auth env) (Spnego srv) (auths srv) (vis sb);
           let srv = srv\<lparr>Spnego := sp, auths := as\<rparr>;
           (case r of
              Inl e \<Rightarrow> send_error env pkt STATUS_LOGON_FAILURE None None srv cn
            | Inr token \<Rightarrow> do {
                hdr \<leftarrow> reply_header pkt;
                let cn = cn\<lparr>serverState := STATE_SESSION_SETUP_CHALLENGE\<rparr>;
                sent srv (sendPacket (e_world env) (setup_response hdr (w_rand64 (e_world env))
                    STATUS_MORE_PROCESSING_REQUIRED 0 token) None None cn) }) }) }) }"

text \<open>The session of an authenticated user: a guest's has no keys.\<close>

definition is_guest_user :: "gostr \<Rightarrow> share_tables \<Rightarrow> string \<Rightarrow> bool" where
  "is_guest_user go d user \<longleftrightarrow> EqualFold go user ''guest'' \<or> user = []
     \<or> allowGuest d \<and> \<not> isConfiguredUser go d user"

definition session_flags :: "'a env \<Rightarrow> ('a, 'z) server_scheme \<Rightarrow> conn \<Rightarrow> string \<Rightarrow> u16" where
  "session_flags env srv cn user =
     (if is_guest_user (e_go env) (tables srv) user then SMB2_SESSION_FLAG_IS_GUEST
      else if shouldEncryptSession srv cn then SMB2_SESSION_FLAG_ENCRYPT_DATA else 0)"

definition fresh_session :: "u16 \<Rightarrow> u64 \<Rightarrow> string \<Rightarrow> session" where
  "fresh_session fl sid user = \<lparr>treeConnTables = (\<lambda>_. None), sessionFlags = fl, s_sessionId = sid,
     username = user, s_cipherId = 0, s_preauthIntegrityHashValue = zeros 64, signer = None,
     verifier = None, encrypter = None, decrypter = None\<rparr>"

definition keyed :: "'a env \<Rightarrow> spnegoServer option \<Rightarrow> 'a list \<Rightarrow> byte list \<Rightarrow> session \<Rightarrow> conn \<Rightarrow> (error + session) option" where
  "keyed env sp as ph s cn =
     (if signed_session s
      then do {
        key \<leftarrow> sp_sessionKey (e_auth env) sp as;
        Some (deriveSessionKeys (w_crypto (e_world env)) (c_dialect cn) (c_cipherId cn) s key ph) }
      else Some (Inr s))"

subsection \<open>What is known of the client (conn.go)\<close>

definition setClientOS :: "gostr \<Rightarrow> string \<Rightarrow> string \<Rightarrow> int \<Rightarrow> conn \<Rightarrow> conn" where
  "setClientOS go osName source prio cn =
     (let cp = c_profile cn in
      if TrimSpace go osName = [] then cn
      else if clientOSPrio cp \<le> prio \<and> (clientOS cp \<noteq> osName \<or> clientOSSrc cp \<noteq> source)
      then cn\<lparr>c_profile := cp\<lparr>clientOS := osName, clientOSSrc := source, clientOSPrio := prio\<rparr>\<rparr>
      else cn)"

definition setClientHost :: "gostr \<Rightarrow> string \<Rightarrow> conn \<Rightarrow> conn" where
  "setClientHost go name cn =
     (let name = TrimSpace go name; cp = c_profile cn in
      if name = [] then cn
      else if clientHost cp = [] then cn\<lparr>c_profile := cp\<lparr>clientHost := name\<rparr>\<rparr> else cn)"

definition str_contains :: "string \<Rightarrow> string \<Rightarrow> bool" where
  "str_contains s t \<longleftrightarrow> (\<exists>i \<in> set [0 ..< length s + 1]. HasPrefix (drop i s) t)"

definition observeNTLMInfo :: "gostr \<Rightarrow> InfoMap option \<Rightarrow> conn \<Rightarrow> conn" where
  "observeNTLMInfo go nfo cn =
     (case nfo of None \<Rightarrow> cn
      | Some i \<Rightarrow>
          let cn = (if NbComputerName i \<noteq> [] then setClientHost go (NbComputerName i) cn
                else if DnsComputerName i \<noteq> [] then setClientHost go (DnsComputerName i) cn else cn);
              blob = ToLower go (str_join (CHR '' '') [NbComputerName i, NbDomainName i, DnsComputerName i,
                DnsDomainName i, DnsTreeName i])
          in if str_contains blob ''mac'' \<or> str_contains blob ''darwin''
             then setClientOS go ''macOS'' ''ntlm metadata heuristic'' 20 cn
             else if str_contains blob ''linux'' \<or> str_contains blob ''ubuntu'' \<or> str_contains blob ''debian''
               \<or> str_contains blob ''fedora'' \<or> str_contains blob ''arch''
             then setClientOS go ''linux'' ''ntlm metadata heuristic'' 20 cn
             else cn)"

definition ensureDefaultClientOS :: "gostr \<Rightarrow> conn \<Rightarrow> conn" where
  "ensureDefaultClientOS go cn =
     (if clientOS (c_profile cn) = [] \<or> EqualFold go (clientOS (c_profile cn)) ''unknown''
      then setClientOS go ''windows'' ''default SMB client heuristic'' 10 cn else cn)"

definition logClientProfile :: "conn \<Rightarrow> conn" where
  "logClientProfile cn = cn\<lparr>c_profile := (c_profile cn)\<lparr>profileLogged := True\<rparr>\<rparr>"

definition observe_client :: "'a env \<Rightarrow> spnegoServer option \<Rightarrow> 'a list \<Rightarrow> conn \<Rightarrow> conn" where
  "observe_client env sp as cn =
     logClientProfile (ensureDefaultClientOS (e_go env)
       (case Option.bind sp selectedMech of None \<Rightarrow> cn
        | Some m \<Rightarrow> if m < length as then observeNTLMInfo (e_go env) (a_infoMap (e_auth env) (as ! m)) cn else cn))"

text \<open>
  \<^verbatim>\<open>sessionServerSetupChallenge\<close> up to and including the send; the flag says that the code goes on to
  \<^verbatim>\<open>enableSession\<close> if the send succeeded.  Between the two another goroutine may receive a frame.
\<close>

definition authenticate_and_send ::
    "'a env \<Rightarrow> slice \<Rightarrow> ('a, 'z) server_scheme \<Rightarrow> conn \<Rightarrow> (bool \<times> error option \<times> ('a, 'z) server_scheme \<times> conn) option" where
  "authenticate_and_send env pkt srv cn = do {
     (res, err) \<leftarrow> accept SMB2_SESSION_SETUP pkt;
     (if err \<noteq> None
      then map_option (Pair False) (send_error env pkt STATUS_INVALID_PARAMETER None None srv cn)
      else do {
        inv \<leftarrow> SessionSetupRequest_IsInvalid res;
        (if inv then Some (False, Some (InvalidResponseError ''broken session setup request format''), srv, cn)
         else do {
           let cn = calcPreauthHash (e_world env) (vis pkt) cn;
           sb \<leftarrow> SessionSetupRequest_SecurityBuffer res;
           (r, sp, as) \<leftarrow> sp_authenticate (e_codec env) (e_auth env) (Spnego srv) (auths srv) (vis sb);
           let srv = srv\<lparr>Spnego := sp, auths := as\<rparr>;
           (case r of
              Inl e \<Rightarrow> map_option (Pair False) (send_error env pkt STATUS_LOGON_FAILURE None None srv
                         (cn\<lparr>serverState := STATE_SESSION_SETUP\<rparr>))
            | Inr (token, user) \<Rightarrow> do {
                let cn = observe_client env sp as cn;
                sid \<leftarrow> p_SessionId pkt;
                hdr \<leftarrow> reply_header pkt;
                let fl = session_flags env srv cn user;
                s \<leftarrow> keyed env sp as (preauthIntegrityHashValue cn) (fresh_session fl sid user) cn;
                (case s of
                   Inl e \<Rightarrow> Some (False, Some e, srv, cn)
                 | Inr s \<Rightarrow> do {
                     let cn = (setSession s cn)\<lparr>serverState := STATE_SESSION_ACTIVE\<rparr>;
                     r \<leftarrow> sendPacket (e_world env) (setup_response hdr sid 0 fl token) None None cn;
                     Some (True, fst r, srv, snd r) }) }) }) }) }"

definition enableSession :: "conn \<Rightarrow> conn" where
  "enableSession cn = cn\<lparr>useSession := True\<rparr>"

definition sessionServerSetupChallenge :: "'a env \<Rightarrow> slice \<Rightarrow> ('a, 'z) server_scheme \<Rightarrow> conn \<Rightarrow> ('a, 'z) outcome_of" where
  "sessionServerSetupChallenge env pkt srv cn = do {
     (ok, e, srv, cn) \<leftarrow> authenticate_and_send env pkt srv cn;
     Some (e, srv, if ok \<and> e = None then enableSession cn else cn) }"

definition extend_hash :: "world \<Rightarrow> conn \<Rightarrow> byte list \<Rightarrow> byte list \<Rightarrow> byte list" where
  "extend_hash w cn h pkt = (if c_dialect cn = SMB311 then sha512 (w_crypto w) (h @ pkt) else h)"

definition sessionSetupNewBinding :: "'a env \<Rightarrow> slice \<Rightarrow> ('a, 'z) server_scheme \<Rightarrow> conn \<Rightarrow> ('a, 'z) outcome_of" where
  "sessionSetupNewBinding env pkt srv cn = do {
     (res, err) \<leftarrow> accept SMB2_SESSION_SETUP pkt;
     (if err \<noteq> None then send_error env pkt STATUS_INVALID_PARAMETER None None srv cn
      else do {
        inv \<leftarrow> SessionSetupRequest_IsInvalid res;
        (if inv then Some (Some (InvalidRequestError ''broken session setup request format''), srv, cn)
         else do {
           let sp = newSpnegoServer (e_auth env) [authenticator srv];
           sb \<leftarrow> SessionSetupRequest_SecurityBuffer res;
           (r, sp, as) \<leftarrow> sp_challenge (e_codec env) (e_auth env) (Some sp) (auths srv) (vis sb);
           let srv = srv\<lparr>auths := as\<rparr>;
           (case r of
              Inl e \<Rightarrow> send_error env pkt STATUS_LOGON_FAILURE None None srv cn
            | Inr token \<Rightarrow> do {
                let sid = w_rand64 (e_world env);
                let cn = cn\<lparr>pendingSetup := Some \<lparr>ps_spnego = sp, ps_sessionId = sid,
                      ps_preauthHash = extend_hash (e_world env) cn (negotiatePreauthHash cn) (vis pkt)\<rparr>\<rparr>;
                hdr \<leftarrow> reply_header pkt;
                sent srv (sendPacket (e_world env) (setup_response hdr sid
                    STATUS_MORE_PROCESSING_REQUIRED 0 token) None None cn) }) }) }) }"

definition sessionSetupCompleteBinding ::
    "'a env \<Rightarrow> slice \<Rightarrow> pendingSessionSetup \<Rightarrow> ('a, 'z) server_scheme \<Rightarrow> conn \<Rightarrow> ('a, 'z) outcome_of" where
  "sessionSetupCompleteBinding env pkt ps srv cn = do {
     (res, err) \<leftarrow> accept SMB2_SESSION_SETUP pkt;
     (if err \<noteq> None then send_error env pkt STATUS_INVALID_PARAMETER None None srv (cn\<lparr>pendingSetup := None\<rparr>)
      else do {
        inv \<leftarrow> SessionSetupRequest_IsInvalid res;
        (if inv then Some (Some (InvalidRequestError ''broken session setup request format''), srv,
             cn\<lparr>pendingSetup := None\<rparr>)
         else do {
           let h = extend_hash (e_world env) cn (ps_preauthHash ps) (vis pkt);
           sb \<leftarrow> SessionSetupRequest_SecurityBuffer res;
           (r, sp, as) \<leftarrow> sp_authenticate (e_codec env) (e_auth env) (ps_spnego ps) (auths srv) (vis sb);
           let srv = srv\<lparr>auths := as\<rparr>;
           let cn = cn\<lparr>pendingSetup := Some (ps\<lparr>ps_spnego := sp, ps_preauthHash := h\<rparr>)\<rparr>;
           (case r of
              Inl e \<Rightarrow> send_error env pkt STATUS_LOGON_FAILURE None None srv (cn\<lparr>pendingSetup := None\<rparr>)
            | Inr (token, user) \<Rightarrow> do {
                hdr \<leftarrow> reply_header pkt;
                let fl = session_flags env srv cn user;
                s \<leftarrow> keyed env sp as h (fresh_session fl (ps_sessionId ps) user) cn;
                (case s of
                   Inl e \<Rightarrow> Some (Some e, srv, cn\<lparr>pendingSetup := None\<rparr>)
                 | Inr s \<Rightarrow> do {
                     (e, cn) \<leftarrow> sendPacket (e_world env) (setup_response hdr (s_sessionId s) 0 fl token)
                       None None (setSession s cn);
                     Some (e, srv, cn\<lparr>pendingSetup := None\<rparr>) }) }) }) }) }"

text \<open>A SESSION_SETUP for a session that exists answers with its flags and makes it the active one.\<close>

definition known_session_setup :: "'a env \<Rightarrow> slice \<Rightarrow> u64 \<Rightarrow> ('a, 'z) server_scheme \<Rightarrow> conn \<Rightarrow> ('a, 'z) outcome_of" where
  "known_session_setup env pkt reqSid srv cn =
     (case getSession reqSid cn of
        None \<Rightarrow> send_error env pkt STATUS_ACCESS_DENIED None None srv cn
      | Some s \<Rightarrow> do {
          let cn = snd (setActiveSession reqSid cn);
          hdr \<leftarrow> reply_header pkt;
          sent srv (sendPacket (e_world env) (setup_response hdr (s_sessionId s) 0 (sessionFlags s) [])
            None None cn) })"

definition sessionSetup :: "'a env \<Rightarrow> slice \<Rightarrow> ('a, 'z) server_scheme \<Rightarrow> conn \<Rightarrow> ('a, 'z) outcome_of" where
  "sessionSetup env pkt srv cn =
     (if useSession cn
      then do {
        reqSid \<leftarrow> p_SessionId pkt;
        (if reqSid \<noteq> 0
         then (case pendingSetup cn of
             Some ps \<Rightarrow> if ps_sessionId ps = reqSid then sessionSetupCompleteBinding env pkt ps srv cn
                        else known_session_setup env pkt reqSid srv cn
           | None \<Rightarrow> known_session_setup env pkt reqSid srv cn)
         else sessionSetupNewBinding env pkt srv cn) }
      else case serverState cn of
        STATE_NEGOTIATE \<Rightarrow> sessionServerSetup env pkt srv cn
      | STATE_SESSION_SETUP \<Rightarrow> sessionServerSetupChallenge env pkt srv cn
      | STATE_SESSION_SETUP_CHALLENGE \<Rightarrow> sessionServerSetupChallenge env pkt srv cn
      | STATE_SESSION_ACTIVE \<Rightarrow> Some (Some (InvalidRequestError ''wrong connction state''), srv, cn))"

subsection \<open>Trees\<close>

definition IPC :: string where "IPC = CHR 0x5C # ''IPC$''"

definition IPC_ACCESS :: u32 where "IPC_ACCESS = 0x1F01FB"
definition DISK_ACCESS :: u32 where "DISK_ACCESS = 0x1F00A9"
definition DEFAULT_IOPS :: int where "DEFAULT_IOPS = 32"

definition new_tree :: "world \<Rightarrow> conn \<Rightarrow> string \<Rightarrow> treeConn" where
  "new_tree w cn path = \<lparr>tc_session = c_session cn, tc_treeId = w_rand32 w, tc_shareFlags = 0,
     tc_path = path, tc_refCount = 1\<rparr>"

fun map_tree :: "(treeConn \<Rightarrow> treeConn) \<Rightarrow> treeOps \<Rightarrow> treeOps" where
  "map_tree f (IpcTree t shs req) = IpcTree (f t) shs req"
| "map_tree f (FileTree t fs op aapl rs ws) = FileTree (f t) fs op aapl rs ws"

text \<open>
  Mounting \<open>path\<close>: the tree of that name gets another reference, or the new tree goes into both
  maps.  The response carries the id of a tree that existed; that of a new one is set by
  \<^verbatim>\<open>encodePacketRaw\<close>.
\<close>

definition mount_tree :: "string \<Rightarrow> treeOps \<Rightarrow> conn \<Rightarrow> (u32 \<times> treeConn \<times> conn) option" where
  "mount_tree path new cn =
     (case treeMapByName cn path of
        Some ptr \<Rightarrow> do {
          t \<leftarrow> obj_deref ptr (tree_objs cn);
          let t' = map_tree (\<lambda>tc. tc\<lparr>tc_refCount := tc_refCount tc + 1\<rparr>) t;
          Some (tc_treeId (getTree t), getTree t',
            cn\<lparr>tree_objs := obj_modify ptr (\<lambda>_. t') (tree_objs cn)\<rparr>) }
      | None \<Rightarrow>
          let (ptr, objs) = obj_alloc new (tree_objs cn) in
          Some (0, getTree new,
            cn\<lparr>tree_objs := objs, treeMapByName := (treeMapByName cn)(path := Some ptr),
              treeMapById := (treeMapById cn)(tc_treeId (getTree new) := Some ptr)\<rparr>))"

definition find_share :: "gostr \<Rightarrow> share_tables \<Rightarrow> string \<Rightarrow> nat option" where
  "find_share go d path =
     (case shares d (ToUpper go path) of
        Some fs \<Rightarrow> Some fs
      | None \<Rightarrow> shares d (ToUpper go path @ ''$''))"

text \<open>
  The access decision of \<^verbatim>\<open>treeConnect\<close>; logging a refusal of a connection that has no session
  dereferences \<^verbatim>\<open>nil\<close>.
\<close>

definition is_guest_session :: "gostr \<Rightarrow> session option \<Rightarrow> bool" where
  "is_guest_session go s =
     (case s of None \<Rightarrow> True
      | Some s \<Rightarrow> sessionFlags s AND SMB2_SESSION_FLAG_IS_GUEST \<noteq> 0
          \<or> EqualFold go (username s) ''guest'' \<or> username s = [])"

definition share_access :: "gostr \<Rightarrow> share_tables \<Rightarrow> session option \<Rightarrow> string \<Rightarrow> bool option" where
  "share_access go d s path =
     (if is_guest_session go s
      then if isShareGuest go d path then Some True
           else (case s of None \<Rightarrow> None | Some _ \<Rightarrow> Some False)
      else (case s of None \<Rightarrow> None | Some s \<Rightarrow> Some (isShareAllowed go d path (username s))))"

definition tree_response :: "PacketHeader \<Rightarrow> byte \<Rightarrow> u32 \<Rightarrow> u32 \<Rightarrow> Packet" where
  "tree_response hdr ty tid acc = (hdr\<lparr>TreeId := tid\<rparr>, TreeConnectResponse ty 0 0 acc)"

definition refuse_tree :: "'a env \<Rightarrow> PacketHeader \<Rightarrow> u32 \<Rightarrow> ('a, 'z) server_scheme \<Rightarrow> conn \<Rightarrow> ('a, 'z) outcome_of" where
  "refuse_tree env hdr status srv cn =
     sent srv (sendPacket (e_world env) (hdr\<lparr>Status := status\<rparr>, TreeConnectResponse 0 0 0 0) None None cn)"

definition connect_tree ::
    "'a env \<Rightarrow> PacketHeader \<Rightarrow> byte \<Rightarrow> u32 \<Rightarrow> string \<Rightarrow> treeOps \<Rightarrow> ('a, 'z) server_scheme \<Rightarrow> conn \<Rightarrow> ('a, 'z) outcome_of" where
  "connect_tree env hdr ty acc path new srv cn = do {
     (tid, tc, cn) \<leftarrow> mount_tree path new cn;
     sent srv (sendPacket (e_world env) (tree_response hdr ty tid acc) (Some tc) None cn) }"

definition treeConnect :: "'a env \<Rightarrow> slice \<Rightarrow> ('a, 'z) server_scheme \<Rightarrow> conn \<Rightarrow> ('a, 'z) outcome_of" where
  "treeConnect env pkt srv cn = do {
     (res, err) \<leftarrow> accept SMB2_TREE_CONNECT pkt;
     (if err \<noteq> None then Some (err, srv, cn)
      else do {
        inv \<leftarrow> TreeConnectRequest_IsInvalid res;
        (if inv then Some (Some (InvalidResponseError ''broken tree connect format''), srv, cn)
         else do {
           rpath \<leftarrow> TreeConnectRequest_Path res;
           hdr \<leftarrow> reply_header pkt;
           let d = tables srv;
           let w = e_world env;
           let go = e_go env;
           (if HasSuffix rpath IPC
            then connect_tree env hdr 2 IPC_ACCESS IPC (IpcTree (new_tree w cn IPC) (map fst (origShares d)) None) srv cn
            else let parts = str_split (CHR 0x5C) rpath in
              if length parts < 1 then refuse_tree env hdr STATUS_BAD_NETWORK_NAME srv cn
              else let path = last parts in
                case find_share go d path of
                  None \<Rightarrow> refuse_tree env hdr STATUS_BAD_NETWORK_NAME srv cn
                | Some fs \<Rightarrow> do {
                    granted \<leftarrow> share_access go d (active_session cn) path;
                    (if \<not> granted then refuse_tree env hdr STATUS_ACCESS_DENIED srv cn
                     else connect_tree env hdr 1 DISK_ACCESS path
                       (FileTree (new_tree w cn path) fs (\<lambda>_. False) False
                         (if 0 < maxIOReads d then maxIOReads d else DEFAULT_IOPS)
                         (if 0 < maxIOWrites d then maxIOWrites d else DEFAULT_IOPS)) srv cn) }) }) }) }"

text \<open>Dropping one reference of the tree at \<open>ptr\<close>.\<close>

definition release_tree :: "nat \<Rightarrow> conn \<Rightarrow> (treeConn \<times> conn) option" where
  "release_tree ptr cn = do {
     t \<leftarrow> obj_deref ptr (tree_objs cn);
     let t' = map_tree (\<lambda>tc. tc\<lparr>tc_refCount := tc_refCount tc - 1\<rparr>) t;
     let tc = getTree t';
     let cn = cn\<lparr>tree_objs := obj_modify ptr (\<lambda>_. t') (tree_objs cn)\<rparr>;
     Some (tc, if tc_refCount tc = 0
       then cn\<lparr>treeMapByName := (treeMapByName cn)(tc_path tc := None),
              treeMapById := (treeMapById cn)(tc_treeId tc := None)\<rparr>
       else cn) }"

definition treeDisconnect :: "'a env \<Rightarrow> slice \<Rightarrow> ('a, 'z) server_scheme \<Rightarrow> conn \<Rightarrow> ('a, 'z) outcome_of" where
  "treeDisconnect env pkt srv cn = do {
     tid \<leftarrow> p_TreeId pkt;
     hdr \<leftarrow> reply_header pkt;
     (case treeMapById cn tid of
        None \<Rightarrow> sent srv (sendPacket (e_world env) (hdr, TreeDisconnectResponse) None None cn)
      | Some ptr \<Rightarrow> do {
          (tc, cn) \<leftarrow> release_tree ptr cn;
          sent srv (sendPacket (e_world env) (hdr, TreeDisconnectResponse) (Some tc) None cn) }) }"

subsection \<open>Run\<close>

text \<open>
  The methods of \<^verbatim>\<open>treeOps\<close> are the argument \<open>ops\<close>: the command, the tree, the compound context
  and the request.  What \<^verbatim>\<open>Run\<close> does with one request; an error ends the loop.
\<close>

type_synonym ('a, 'z) tree_ops = "u16 \<Rightarrow> nat \<Rightarrow> nat option \<Rightarrow> slice \<Rightarrow> ('a, 'z) server_scheme \<Rightarrow> conn \<Rightarrow> ('a, 'z) outcome_of"

definition is_tree_command :: "u16 \<Rightarrow> bool" where
  "is_tree_command cmd \<longleftrightarrow> cmd \<in> {SMB2_CREATE, SMB2_CLOSE, SMB2_FLUSH, SMB2_READ, SMB2_WRITE, SMB2_LOCK,
     SMB2_IOCTL, SMB2_CANCEL, SMB2_QUERY_DIRECTORY, SMB2_CHANGE_NOTIFY, SMB2_QUERY_INFO, SMB2_SET_INFO,
     SMB2_OPLOCK_BREAK}"

definition is_negotiate :: "u16 \<Rightarrow> bool" where
  "is_negotiate cmd \<longleftrightarrow> cmd = SMB2_NEGOTIATE \<or> cmd = SMB_COM_NEGOTIATE"

definition ignoring_error :: "('a, 'z) outcome_of \<Rightarrow> ('a, 'z) outcome_of" where
  "ignoring_error r = map_option (\<lambda>(e, srv, cn). (None, srv, cn)) r"

definition last_status :: "nat option \<Rightarrow> conn \<Rightarrow> u32 option" where
  "last_status cp cn = (case cp of None \<Rightarrow> Some 0
     | Some ptr \<Rightarrow> do { x \<leftarrow> obj_deref ptr (compound_objs cn); Some (lastStatus x) })"

definition dispatch_tree :: "'a env \<Rightarrow> ('a, 'z) tree_ops \<Rightarrow> u16 \<Rightarrow> nat option \<Rightarrow> slice \<Rightarrow> ('a, 'z) server_scheme \<Rightarrow> conn \<Rightarrow> ('a, 'z) outcome_of" where
  "dispatch_tree env ops cmd cp pkt srv cn = do {
     tid \<leftarrow> p_TreeId pkt;
     (case treeMapById cn tid of
        None \<Rightarrow> ignoring_error (send_error env pkt STATUS_NETWORK_NAME_DELETED None cp srv cn)
      | Some ptr \<Rightarrow> do {
          st \<leftarrow> last_status cp cn;
          t \<leftarrow> obj_deref ptr (tree_objs cn);
          (if st \<noteq> 0 then ignoring_error (send_error env pkt st (Some (getTree t)) cp srv cn)
           else if is_tree_command cmd then ops cmd ptr cp pkt srv cn
           else ignoring_error (send_error env pkt STATUS_NOT_SUPPORTED (Some (getTree t)) cp srv cn)) }) }"

definition dispatch :: "'a env \<Rightarrow> ('a, 'z) tree_ops \<Rightarrow> nat option \<Rightarrow> slice \<Rightarrow> ('a, 'z) server_scheme \<Rightarrow> conn \<Rightarrow> ('a, 'z) outcome_of" where
  "dispatch env ops cp pkt srv cn = do {
     cmd \<leftarrow> p_Command pkt;
     (if is_negotiate cmd then negotiate env pkt srv cn
      else if cmd = SMB2_SESSION_SETUP then sessionSetup env pkt srv cn
      else if cmd = SMB2_LOGOFF then logoff env pkt srv cn
      else if cmd = SMB2_TREE_CONNECT then treeConnect env pkt srv cn
      else if cmd = SMB2_TREE_DISCONNECT then treeDisconnect env pkt srv cn
      else if cmd = SMB2_ECHO then echo env pkt srv cn
      else dispatch_tree env ops cmd cp pkt srv cn) }"

definition handle :: "'a env \<Rightarrow> ('a, 'z) tree_ops \<Rightarrow> nat option \<Rightarrow> slice \<Rightarrow> ('a, 'z) server_scheme \<Rightarrow> conn \<Rightarrow> ('a, 'z) outcome_of" where
  "handle env ops cp pkt srv cn = do {
     cmd \<leftarrow> p_Command pkt;
     fl \<leftarrow> p_Flags pkt;
     (if is_negotiate cmd \<or> cmd = SMB2_SESSION_SETUP \<or> cmd = SMB2_ECHO \<or> \<not> useSession cn
      then dispatch env ops cp pkt srv cn
      else do {
        sid \<leftarrow> p_SessionId pkt;
        let (s, cn) = setActiveSession sid cn;
        (if s = None
         then ignoring_error (send_error env pkt STATUS_USER_SESSION_DELETED None cp srv cn)
         else dispatch env ops cp pkt srv cn) }) }"

end
