(* ===== verification/Frame.thy ===== *)
theory Frame
  imports Server
begin

section \<open>What sending and receiving leave alone\<close>

text \<open>
  Every handler ends in \<^verbatim>\<open>sendPacket\<close>.  These lemmas say once what it can change: credits, hashes,
  the compound contexts, the wire, and the running state of the signer of the active session, never
  its key.
\<close>

named_theorems frame_intros \<open>steps that keep the sessions and trees of a connection\<close>

text \<open>A hash that has absorbed other messages but has the same key.\<close>

definition hash_like :: "crypto \<Rightarrow> hasher option \<Rightarrow> hasher option \<Rightarrow> bool" where
  "hash_like cr a b \<longleftrightarrow> (a = None \<longleftrightarrow> b = None)
     \<and> (\<forall>h. a = Some h \<and> good_hash cr h \<longrightarrow>
          (\<exists>h'. b = Some h' \<and> good_hash cr h' \<and> hash_mac cr h' = hash_mac cr h))"

definition same_session :: "crypto \<Rightarrow> session \<Rightarrow> session \<Rightarrow> bool" where
  "same_session cr s s' \<longleftrightarrow>
     (\<exists>sg vf. s' = s\<lparr>signer := sg, verifier := vf\<rparr> \<and> hash_like cr (signer s) sg \<and> hash_like cr (verifier s) vf)"

definition same_store :: "crypto \<Rightarrow> session list \<Rightarrow> session list \<Rightarrow> bool" where
  "same_store cr ss ss' \<longleftrightarrow> list_all2 (same_session cr) ss ss'"

definition same_trees :: "conn \<Rightarrow> conn \<Rightarrow> bool" where
  "same_trees cn cn' \<longleftrightarrow> tree_objs cn' = tree_objs cn \<and> treeMapByName cn' = treeMapByName cn
     \<and> treeMapById cn' = treeMapById cn"

definition same_config :: "conn \<Rightarrow> conn \<Rightarrow> bool" where
  "same_config cn cn' \<longleftrightarrow> c_dialect cn' = c_dialect cn \<and> c_cipherId cn' = c_cipherId cn
     \<and> useSession cn' = useSession cn \<and> serverState cn' = serverState cn
     \<and> c_sessions cn' = c_sessions cn \<and> map_option ps_sessionId (pendingSetup cn') = map_option ps_sessionId (pendingSetup cn)"

definition keeps :: "crypto \<Rightarrow> conn \<Rightarrow> conn \<Rightarrow> bool" where
  "keeps cr cn cn' \<longleftrightarrow> same_config cn cn' \<and> c_session cn' = c_session cn
     \<and> same_store cr (session_objs cn) (session_objs cn')"

lemma hash_like_refl [simp]: "hash_like cr a a"
  by (auto simp: hash_like_def)

lemma hash_like_trans: "hash_like cr a b \<Longrightarrow> hash_like cr b d \<Longrightarrow> hash_like cr a d"
  unfolding hash_like_def by (cases a) fastforce+

lemma same_session_refl [simp]: "same_session cr s s"
  unfolding same_session_def by (rule exI [of _ "signer s"], rule exI [of _ "verifier s"]) simp

lemma same_session_trans: "same_session cr s t \<Longrightarrow> same_session cr t u \<Longrightarrow> same_session cr s u"
proof -
  assume "same_session cr s t" "same_session cr t u"
  then obtain sg vf sg' vf' where t: "t = s\<lparr>signer := sg, verifier := vf\<rparr>" "u = t\<lparr>signer := sg', verifier := vf'\<rparr>"
    and h: "hash_like cr (signer s) sg" "hash_like cr (verifier s) vf"
      "hash_like cr (signer t) sg'" "hash_like cr (verifier t) vf'"
    unfolding same_session_def by blast
  have "u = s\<lparr>signer := sg', verifier := vf'\<rparr>" "hash_like cr (signer s) sg'" "hash_like cr (verifier s) vf'"
    using t h by (auto intro: hash_like_trans)
  then show ?thesis unfolding same_session_def by blast
qed

lemma same_store_refl [simp]: "same_store cr ss ss"
  by (simp add: same_store_def list_all2_refl)

lemma same_store_trans: "same_store cr a b \<Longrightarrow> same_store cr b d \<Longrightarrow> same_store cr a d"
  unfolding same_store_def by (rule list_all2_trans [of "same_session cr" "same_session cr"]) (rule same_session_trans)

lemma same_store_modify:
  assumes "obj_deref ptr ss = Some s" "same_session cr s s'"
  shows "same_store cr ss (obj_modify ptr (\<lambda>_. s') ss)"
proof -
  have "list_all2 (same_session cr) ss (ss[ptr := s'])"
    using assms by (auto simp: list_all2_conv_all_nth obj_deref_def nth_list_update split: if_splits)
  then show ?thesis using assms(1) by (auto simp: same_store_def obj_modify_def obj_deref_def split: if_splits)
qed

lemma same_store_deref:
  "same_store cr ss ss' \<Longrightarrow> obj_deref ptr ss = Some s \<Longrightarrow> \<exists>s'. obj_deref ptr ss' = Some s' \<and> same_session cr s s'"
  by (auto simp: same_store_def obj_deref_def list_all2_conv_all_nth split: if_splits)

lemma same_store_back:
  "same_store cr ss ss' \<Longrightarrow> obj_deref ptr ss' = Some s' \<Longrightarrow> \<exists>s. obj_deref ptr ss = Some s \<and> same_session cr s s'"
  by (auto simp: same_store_def obj_deref_def list_all2_conv_all_nth split: if_splits)

lemma keeps_refl [simp]: "keeps cr cn cn"
  by (simp add: keeps_def same_config_def)

lemma keeps_trans: "keeps cr a b \<Longrightarrow> keeps cr b d \<Longrightarrow> keeps cr a d"
  by (auto simp: keeps_def same_config_def intro: same_store_trans)

lemma same_trees_refl [simp]: "same_trees cn cn"
  by (simp add: same_trees_def)

lemma same_trees_trans: "same_trees a b \<Longrightarrow> same_trees b d \<Longrightarrow> same_trees a d"
  by (simp add: same_trees_def)

subsection \<open>Signing and verifying\<close>

lemma hash_step:
  assumes "hash_Sum cr (hash_Write (hash_Reset h) x) [] = (h', tg)"
  shows "hash_like cr (Some h) (Some h')"
proof -
  have t: "hs.tag cr h x = (h', tg)" using assms by (simp add: hs.tag_def)
  have "hash_ok h \<Longrightarrow> hash_ok h' \<and> hash_mac cr h' = hash_mac cr h"
    using hs.tag_inv [of h cr x] hs.tag_key [of h cr x] t by simp
  then show ?thesis by (auto simp: hash_like_def good_hash_def)
qed

lemma sign_same: "sign cr s pkt = Some (s', q) \<Longrightarrow> same_session cr s s'"
proof -
  assume "sign cr s pkt = Some (s', q)"
  then obtain h x where h: "signer s = Some h"
      and r: "(let (h, tg) = hash_Sum cr (hash_Write (hash_Reset h) x) [] in
        do { pkt \<leftarrow> p_SetSignature tg x; Some (s\<lparr>signer := Some h\<rparr>, pkt) }) = Some (s', q)"
    by (auto simp: sign_def bind_Some_iff)
  obtain h' tg where hs: "hash_Sum cr (hash_Write (hash_Reset h) x) [] = (h', tg)" by fastforce
  with r have "s' = s\<lparr>signer := Some h'\<rparr>" by (auto simp: bind_Some_iff)
  note h hs this
  then show ?thesis
    using hash_step unfolding same_session_def
    by (intro exI [of _ "Some h'"] exI [of _ "verifier s"]) simp
qed

lemma verify_same: "verify cr s pkt = Some (ok, s', q) \<Longrightarrow> same_session cr s s'"
proof -
  assume v: "verify cr s pkt = Some (ok, s', q)"
  show ?thesis
  proof (cases "signed_session s \<and> verifier s \<noteq> None")
    case False
    then have "s' = s" using v by (auto simp: verify_def bind_Some_iff split: if_splits)
    then show ?thesis by simp
  next
    case True
    then obtain h x where h: "verifier s = Some h"
        and r: "(let (h, tg) = hash_Sum cr (hash_Write (hash_Reset h) x) [] in
          do { pkt1 \<leftarrow> p_SetSignature tg x;
               Some (\<exists>sig. p_Signature (Slice pkt []) = Some sig \<and> vis sig = rd 48 16 pkt1,
                 s\<lparr>verifier := Some h\<rparr>, pkt1) }) = Some (ok, s', q)"
      using v by (auto simp: verify_def bind_Some_iff)
    obtain h' tg where hs: "hash_Sum cr (hash_Write (hash_Reset h) x) [] = (h', tg)" by fastforce
    with r have "s' = s\<lparr>verifier := Some h'\<rparr>" by (auto simp: bind_Some_iff)
    with h hs show ?thesis
      using hash_step unfolding same_session_def
      by (intro exI [of _ "signer s"] exI [of _ "Some h'"]) simp
  qed
qed

subsection \<open>Sending\<close>

lemma sign_with_keeps:
  assumes "sign_with w ptr s pkt cn = Some (r, cn')" "obj_deref ptr (session_objs cn) = Some s"
  shows "keeps (w_crypto w) cn cn' \<and> same_trees cn cn'"
proof -
  obtain s' q where "sign (w_crypto w) s pkt = Some (s', q)"
      "cn' = cn\<lparr>session_objs := obj_modify ptr (\<lambda>_. s') (session_objs cn)\<rparr>"
    using assms(1) by (auto simp: sign_with_def bind_Some_iff)
  then show ?thesis
    using assms(2) same_store_modify [OF assms(2) sign_same]
    by (simp add: keeps_def same_config_def same_trees_def)
qed

lemma protectPacket_keeps:
  "protectPacket w pkt tc cn = Some (r, cn') \<Longrightarrow> keeps (w_crypto w) cn cn' \<and> same_trees cn cn'"
  by (auto simp: protectPacket_def bind_Some_iff split: option.splits if_splits dest!: sign_with_keeps)

lemma calcPreauthHash_keeps [simp]: "keeps cr cn (calcPreauthHash w pkt cn)" "same_trees cn (calcPreauthHash w pkt cn)"
  by (simp_all add: calcPreauthHash_def keeps_def same_config_def same_trees_def)

lemma hash_pending_keeps: "hash_pending w pkt cn = Some cn' \<Longrightarrow> keeps cr cn cn' \<and> same_trees cn cn'"
  by (auto simp: hash_pending_def keeps_def same_config_def same_trees_def bind_Some_iff split: option.splits if_splits)

lemma write_packet_keeps: "keeps cr cn (snd (write_packet q pkt cn)) \<and> same_trees cn (snd (write_packet q pkt cn))"
  by (cases q) (simp_all add: keeps_def same_config_def same_trees_def)

lemma transmit_keeps:
  assumes "transmit w pkt tc cn = Some (e, cn')"
  shows "keeps (w_crypto w) cn cn' \<and> same_trees cn cn'"
proof -
  obtain r cn1 where p: "protectPacket w pkt tc cn = Some (r, cn1)"
    using assms by (auto simp: transmit_def bind_Some_iff)
  note k1 = protectPacket_keeps [OF p]
  show ?thesis
  proof (cases r)
    case (Inl e)
    then show ?thesis using assms p k1 by (simp add: transmit_def)
  next
    case (Inr q)
    let ?cn2 = "if serverState cn1 \<noteq> STATE_SESSION_ACTIVE then calcPreauthHash w q cn1 else cn1"
    obtain cn3 where h: "hash_pending w q ?cn2 = Some cn3" "write_packet (w_write w) q cn3 = (e, cn')"
      using assms p Inr by (auto simp: transmit_def bind_Some_iff Let_def simp del: if_split)
    have "keeps (w_crypto w) cn1 ?cn2 \<and> same_trees cn1 ?cn2" by simp
    moreover note hash_pending_keeps [OF h(1), of "w_crypto w"]
    moreover have "keeps (w_crypto w) cn3 cn' \<and> same_trees cn3 cn'"
      using write_packet_keeps [of "w_crypto w" cn3 "w_write w" q] h(2) by simp
    ultimately show ?thesis using k1 by (meson keeps_trans same_trees_trans)
  qed
qed

lemma encodePacketRaw_keeps:
  assumes "encodePacketRaw pk tc cn = Some (b, hdr, cn')"
  shows "keeps cr cn cn' \<and> same_trees cn cn'"
proof -
  have o: "outgoing_header tc (fst pk) cn = (hdr, cn')"
    using assms by (auto simp: encodePacketRaw_def bind_Some_iff split: prod.splits)
  then obtain n acc where "cn' = cn\<lparr>sequenceWindow := n, c_account := acc\<rparr>"
    by (auto simp: outgoing_header_def Let_def account_opening_def split: option.splits if_splits)
  then show ?thesis by (simp add: keeps_def same_config_def same_trees_def)
qed

lemma sendPacket_keeps:
  assumes "sendPacket w pk tc cp cn = Some (e, cn')"
  shows "keeps (w_crypto w) cn cn' \<and> same_trees cn cn'"
proof (cases cp)
  case None
  then obtain b hdr cn1 where "encodePacketRaw pk tc cn = Some (b, hdr, cn1)" "transmit w b tc cn1 = Some (e, cn')"
    using assms by (auto simp: sendPacket_def bind_Some_iff)
  then show ?thesis
    using encodePacketRaw_keeps [of pk tc cn b hdr cn1 "w_crypto w"] transmit_keeps [of w b tc cn1 e cn']
    by (meson keeps_trans same_trees_trans)
next
  case (Some ptr)
  then obtain x b hdr cn1 where e: "encodePacketRaw (compound_header x pk, snd pk) tc cn = Some (b, hdr, cn1)"
      and rest: "(let x = addResponse b (x\<lparr>lastStatus := Status hdr\<rparr>);
         cn = cn1\<lparr>compound_objs := obj_modify ptr (\<lambda>_. x) (compound_objs cn1)\<rparr>
       in if MessageId hdr \<noteq> lastMsgId x then Some (None, cn)
          else do { buf \<leftarrow> ctx_Encode x (zeros (ctx_Size x)); transmit w buf tc cn }) = Some (e, cn')"
    using assms by (auto simp: sendPacket_def bind_Some_iff)
  let ?cn = "\<lambda>x. cn1\<lparr>compound_objs := obj_modify ptr (\<lambda>_. x) (compound_objs cn1)\<rparr>"
  have "\<exists>x. keeps (w_crypto w) (?cn x) cn' \<and> same_trees (?cn x) cn'"
    using rest by (auto simp: Let_def bind_Some_iff split: if_splits dest: transmit_keeps
        intro: exI [of _ "addResponse b (x\<lparr>lastStatus := Status hdr\<rparr>)"])
  moreover have "keeps (w_crypto w) cn1 (?cn x) \<and> same_trees cn1 (?cn x)" for x
    by (simp add: keeps_def same_config_def same_trees_def)
  ultimately show ?thesis
    using encodePacketRaw_keeps [OF e, of "w_crypto w"] by (meson keeps_trans same_trees_trans)
qed

lemma sent_keeps:
  "sent srv (sendPacket w pk tc cp cn) = Some (e, srv', cn') \<Longrightarrow>
   srv' = srv \<and> keeps (w_crypto w) cn cn' \<and> same_trees cn cn'"
  by (auto simp: sent_def dest: sendPacket_keeps)

lemma send_error_keeps:
  "send_error env pkt st tc cp srv cn = Some (e, srv', cn') \<Longrightarrow>
   srv' = srv \<and> keeps (w_crypto (e_world env)) cn cn' \<and> same_trees cn cn'"
  by (auto simp: send_error_def bind_Some_iff dest!: sent_keeps)

subsection \<open>Sending succeeds\<close>

text \<open>The active session has the keys that its flags and the tree ask for.\<close>

definition sendable :: "crypto \<Rightarrow> treeConn option \<Rightarrow> conn \<Rightarrow> bool" where
  "sendable cr tc cn \<longleftrightarrow> (\<forall>ptr. c_session cn = Some ptr \<longrightarrow> (\<exists>s. obj_deref ptr (session_objs cn) = Some s
     \<and> (signed_session s \<longrightarrow> signing_session cr s)
     \<and> (wants_encryption s tc \<longrightarrow> (\<exists>a. encrypter s = Some a \<and> aead_ok cr a))))"

lemma sendable_no_session [simp]: "c_session cn = None \<Longrightarrow> sendable cr tc cn"
  by (simp add: sendable_def)

lemma protectPacket_succeeds:
  assumes "sendable (w_crypto w) tc cn" "64 \<le> length pkt" "length pkt < 2 ^ 32"
    and "p_IsInvalid (Slice pkt []) = Some False" "\<And>n. length (w_nonce w n) = n"
  shows "\<exists>q cn'. protectPacket w pkt tc cn = Some (Inr q, cn') \<and> 64 \<le> length q \<and> wire cn' = wire cn"
proof (cases "c_session cn")
  case None
  then show ?thesis using assms(2) by (simp add: protectPacket_def)
next
  case (Some ptr)
  then obtain s where s: "obj_deref ptr (session_objs cn) = Some s"
      "signed_session s \<Longrightarrow> signing_session (w_crypto w) s"
      "wants_encryption s tc \<Longrightarrow> \<exists>a. encrypter s = Some a \<and> aead_ok (w_crypto w) a"
    using assms(1) by (auto simp: sendable_def)
  obtain cmd fl where f: "p_Command (Slice pkt []) = Some cmd" "p_Flags (Slice pkt []) = Some fl"
    using p_Command_total full_header_reads(1) [of "Slice pkt []"] assms(2) by fastforce
  have sg: "\<exists>q cn'. sign_with w ptr s pkt cn = Some (Inr q, cn') \<and> 64 \<le> length q \<and> wire cn' = wire cn"
    if "signed_session s"
    using sign_with_eq [OF assms(2) s(2) [OF that] refl, of ptr cn] assms(2) by auto
  have en: "\<exists>a q. encrypter s = Some a \<and> encrypt (w_crypto w) (c_dialect cn) (w_nonce w (NonceSize a)) s pkt = Some q
      \<and> 64 \<le> length q" if e: "wants_encryption s tc"
  proof -
    obtain a where a: "encrypter s = Some a" "aead_ok (w_crypto w) a" using s(3) [OF e] by blast
    show ?thesis using encrypt_opens [OF a assms(5) assms(2,3), of "c_dialect cn"] a(1) assms(2) by auto
  qed
  show ?thesis
    using Some s(1) f assms(2,4) sg en by (auto simp: protectPacket_def)
qed

lemma send_succeeds:
  assumes "rsp_ok (snd pk)" "NextCommand (fst pk) = 0" "rsp_Size (snd pk) < 2 ^ 32"
    and "sendable (w_crypto w) tc cn" "\<And>n. length (w_nonce w n) = n" "w_write w = Sent"
  shows "\<exists>q cn'. sendPacket w pk tc None cn = Some (None, cn') \<and> wire cn' = wire cn @ [q]"
proof -
  obtain b hdr cn1 where e: "encodePacketRaw pk tc cn = Some (b, hdr, cn1)"
      and o: "outgoing_header tc (fst pk) cn = (hdr, cn1)" and l: "length b = rsp_Size (snd pk)"
      and val: "p_IsInvalid (Slice b []) = Some False"
    using encodePacketRaw_plain [OF assms(1,2), of tc cn] by blast
  note k = outgoing_header_keeps [OF o]
  have l64: "64 \<le> length b" using l rsp_Size_ge [of "snd pk"] by simp
  have "sendable (w_crypto w) tc cn1" using assms(4) k by (simp add: sendable_def)
  from protectPacket_succeeds [OF this l64 _ val assms(5)]
  obtain q cn2 where p: "protectPacket w b tc cn1 = Some (Inr q, cn2)" "64 \<le> length q" "wire cn2 = wire cn1"
    using l assms(3) by auto
  obtain h ps where "transmit w b tc cn1 =
      Some (None, cn2\<lparr>preauthIntegrityHashValue := h, pendingSetup := ps, wire := wire cn2 @ [q]\<rparr>)"
    using transmit_sent [OF p(1,2) assms(6)] by blast
  then show ?thesis using e p(3) k by (simp add: sendPacket_def)
qed

end
