(* ===== verification/Access.thy ===== *)
theory Access
  imports Frame
begin

section \<open>Access to shares\<close>

text \<open>
  What \<^verbatim>\<open>treeConnect\<close> and \<^verbatim>\<open>treeDisconnect\<close> decide and do: who gets a tree, what the reference
  counts say about the two maps of a connection, and where the decision can be got around.
\<close>

subsection \<open>A request that reaches the decision\<close>

definition tree_request :: "slice \<Rightarrow> string \<Rightarrow> bool" where
  "tree_request pkt rpath \<longleftrightarrow> (\<exists>res hdr. accept SMB2_TREE_CONNECT pkt = Some (res, None)
     \<and> TreeConnectRequest_IsInvalid res = Some False \<and> TreeConnectRequest_Path res = Some rpath
     \<and> reply_header pkt = Some hdr)"

text \<open>The access that a session has to a share of that name.\<close>

definition permitted :: "gostr \<Rightarrow> share_tables \<Rightarrow> session \<Rightarrow> string \<Rightarrow> bool" where
  "permitted go d s path \<longleftrightarrow>
     (if is_guest_session go (Some s) then isShareGuest go d path
      else isShareAllowed go d path (username s))"

lemma share_access_permitted: "share_access go d (Some s) path = Some (permitted go d s path)"
  by (simp add: share_access_def permitted_def)

definition disk_tree :: "'a env \<Rightarrow> ('a, 'z) server_scheme \<Rightarrow> conn \<Rightarrow> string \<Rightarrow> nat \<Rightarrow> treeOps" where
  "disk_tree env srv cn path fs = FileTree (new_tree (e_world env) cn path) fs (\<lambda>_. False) False
     (if 0 < maxIOReads (tables srv) then maxIOReads (tables srv) else DEFAULT_IOPS)
     (if 0 < maxIOWrites (tables srv) then maxIOWrites (tables srv) else DEFAULT_IOPS)"

lemma treeConnect_hdr: "reply_header pkt = Some hdr \<Longrightarrow> NextCommand hdr = 0"
  by (auto simp: reply_header_def bind_Some_iff new_header_def)

text \<open>Everything before and after the decision, once and for all.\<close>

lemma treeConnect_disk:
  assumes "tree_request pkt rpath" "\<not> HasSuffix rpath IPC" "path = last (str_split (CHR 0x5C) rpath)"
    and "find_share (e_go env) (tables srv) path = Some fs"
  shows "\<exists>hdr. NextCommand hdr = 0 \<and> treeConnect env pkt srv cn = do {
      granted \<leftarrow> share_access (e_go env) (tables srv) (active_session cn) path;
      (if \<not> granted then refuse_tree env hdr STATUS_ACCESS_DENIED srv cn
       else connect_tree env hdr 1 DISK_ACCESS path (disk_tree env srv cn path fs) srv cn) }"
proof -
  obtain res hdr where r: "accept SMB2_TREE_CONNECT pkt = Some (res, None)"
      "TreeConnectRequest_IsInvalid res = Some False" "TreeConnectRequest_Path res = Some rpath"
      "reply_header pkt = Some hdr"
    using assms(1) by (auto simp: tree_request_def)
  then show ?thesis
    using assms(2,3,4) str_split_nonempty [of "CHR 0x5C" rpath]
    by (intro exI [of _ hdr]) (simp add: treeConnect_hdr treeConnect_def disk_tree_def Let_def cong: if_cong split del: if_split)
qed

lemma refuse_tree_keeps:
  "refuse_tree env hdr st srv cn = Some (e, srv', cn') \<Longrightarrow> same_trees cn cn' \<and> keeps (w_crypto (e_world env)) cn cn'"
  by (auto simp: refuse_tree_def dest: sent_keeps)

text \<open>What mounting does to the maps.\<close>

definition mounted :: "string \<Rightarrow> conn \<Rightarrow> treeOps option" where
  "mounted path cn = do { ptr \<leftarrow> treeMapByName cn path; obj_deref ptr (tree_objs cn) }"

lemma mount_tree_mounted:
  assumes "mount_tree path new cn = Some (tid, tc, cn')" "tc_refCount (getTree new) = 1"
  shows "\<exists>t. mounted path cn' = Some t \<and> getTree t = tc
    \<and> (case mounted path cn of
         None \<Rightarrow> t = new
       | Some t0 \<Rightarrow> t = map_tree (\<lambda>tc. tc\<lparr>tc_refCount := tc_refCount tc + 1\<rparr>) t0)"
proof (cases "treeMapByName cn path")
  case None
  then have "tc = getTree new" "cn' = cn\<lparr>tree_objs := tree_objs cn @ [new],
      treeMapByName := (treeMapByName cn)(path := Some (length (tree_objs cn))),
      treeMapById := (treeMapById cn)(tc_treeId (getTree new) := Some (length (tree_objs cn)))\<rparr>"
    using assms(1) by (auto simp: mount_tree_def obj_alloc_def Let_def)
  with None show ?thesis by (simp add: mounted_def obj_deref_def)
next
  case (Some ptr)
  then obtain t where t: "obj_deref ptr (tree_objs cn) = Some t"
    using assms(1) by (auto simp: mount_tree_def bind_Some_iff)
  let ?t' = "map_tree (\<lambda>tc. tc\<lparr>tc_refCount := tc_refCount tc + 1\<rparr>) t"
  have "tc = getTree ?t'" "cn' = cn\<lparr>tree_objs := obj_modify ptr (\<lambda>_. ?t') (tree_objs cn)\<rparr>"
    using assms(1) Some t by (auto simp: mount_tree_def Let_def)
  with Some t show ?thesis by (simp add: mounted_def)
qed

lemma mounted_same_trees: "same_trees cn cn' \<Longrightarrow> mounted path cn' = mounted path cn"
  by (simp add: same_trees_def mounted_def)

lemma connect_tree_mounted:
  assumes "connect_tree env hdr ty acc path new srv cn = Some (e, srv', cn')" "tc_refCount (getTree new) = 1"
  shows "\<exists>t. mounted path cn' = Some t
    \<and> (case mounted path cn of
         None \<Rightarrow> t = new
       | Some t0 \<Rightarrow> t = map_tree (\<lambda>tc. tc\<lparr>tc_refCount := tc_refCount tc + 1\<rparr>) t0)"
proof -
  obtain tid tc cn1 where m: "mount_tree path new cn = Some (tid, tc, cn1)"
      and s: "sent srv (sendPacket (e_world env) (tree_response hdr ty tid acc) (Some tc) None cn1) = Some (e, srv', cn')"
    using assms(1) by (auto simp: connect_tree_def bind_Some_iff)
  have "same_trees cn1 cn'" using sent_keeps [OF s] by simp
  then show ?thesis using mount_tree_mounted [OF m assms(2)] by (auto simp: mounted_same_trees)
qed

subsection \<open>The maps and their reference counts\<close>

text \<open>
  The trees of a connection are well kept: the two maps name the same live trees, under their own
  name and id, and every one of them has at least one reference.
\<close>

definition trees_ok :: "conn \<Rightarrow> bool" where
  "trees_ok cn \<longleftrightarrow>
     (\<forall>path ptr. treeMapByName cn path = Some ptr \<longrightarrow>
        (\<exists>t. obj_deref ptr (tree_objs cn) = Some t \<and> tc_path (getTree t) = path
           \<and> treeMapById cn (tc_treeId (getTree t)) = Some ptr))
     \<and> (\<forall>tid ptr. treeMapById cn tid = Some ptr \<longrightarrow>
        (\<exists>t. obj_deref ptr (tree_objs cn) = Some t \<and> tc_treeId (getTree t) = tid \<and> 1 \<le> tc_refCount (getTree t)
           \<and> treeMapByName cn (tc_path (getTree t)) = Some ptr))"

lemma trees_ok_new_conn: "trees_ok (new_conn a)"
  by (simp add: trees_ok_def new_conn_def)

lemma trees_ok_same: "same_trees cn cn' \<Longrightarrow> trees_ok cn \<Longrightarrow> trees_ok cn'"
  by (simp add: trees_ok_def same_trees_def)

lemma getTree_map [simp]: "getTree (map_tree f t) = f (getTree t)"
  by (cases t) auto

lemma trees_okD:
  assumes "trees_ok cn"
  shows "treeMapByName cn path = Some ptr \<Longrightarrow> \<exists>t. obj_deref ptr (tree_objs cn) = Some t
      \<and> tc_path (getTree t) = path \<and> treeMapById cn (tc_treeId (getTree t)) = Some ptr"
    and "treeMapById cn tid = Some ptr \<Longrightarrow> \<exists>t. obj_deref ptr (tree_objs cn) = Some t
      \<and> tc_treeId (getTree t) = tid \<and> 1 \<le> tc_refCount (getTree t) \<and> treeMapByName cn (tc_path (getTree t)) = Some ptr"
  using assms by (simp_all add: trees_ok_def)

text \<open>A change of one tree that keeps its name, its id and a positive count.\<close>

lemma trees_ok_modify:
  assumes "trees_ok cn" "obj_deref ptr (tree_objs cn) = Some t"
    and "tc_path (getTree t') = tc_path (getTree t)" "tc_treeId (getTree t') = tc_treeId (getTree t)"
    and "1 \<le> tc_refCount (getTree t')"
  shows "trees_ok (cn\<lparr>tree_objs := obj_modify ptr (\<lambda>_. t') (tree_objs cn)\<rparr>)"
proof -
  let ?cn = "cn\<lparr>tree_objs := obj_modify ptr (\<lambda>_. t') (tree_objs cn)\<rparr>"
  have d: "\<exists>t1. obj_deref q (tree_objs ?cn) = Some t1
      \<and> tc_path (getTree t1) = tc_path (getTree t0) \<and> tc_treeId (getTree t1) = tc_treeId (getTree t0)
      \<and> (1 \<le> tc_refCount (getTree t0) \<longrightarrow> 1 \<le> tc_refCount (getTree t1))"
    if "obj_deref q (tree_objs cn) = Some t0" for q t0
    using that assms(2-5) by (cases "q = ptr") auto
  have "\<exists>t. obj_deref q (tree_objs ?cn) = Some t \<and> tc_path (getTree t) = n
      \<and> treeMapById ?cn (tc_treeId (getTree t)) = Some q" if "treeMapByName ?cn n = Some q" for n q
  proof -
    from that have "treeMapByName cn n = Some q" by simp
    from trees_okD(1) [OF assms(1) this] obtain t0 where t0: "obj_deref q (tree_objs cn) = Some t0"
      "tc_path (getTree t0) = n" "treeMapById cn (tc_treeId (getTree t0)) = Some q" by blast
    from d [OF t0(1)] t0(2,3) show ?thesis by auto
  qed
  moreover have "\<exists>t. obj_deref q (tree_objs ?cn) = Some t \<and> tc_treeId (getTree t) = i \<and> 1 \<le> tc_refCount (getTree t)
      \<and> treeMapByName ?cn (tc_path (getTree t)) = Some q" if "treeMapById ?cn i = Some q" for i q
  proof -
    from that have "treeMapById cn i = Some q" by simp
    from trees_okD(2) [OF assms(1) this] obtain t0 where t0: "obj_deref q (tree_objs cn) = Some t0"
      "tc_treeId (getTree t0) = i" "1 \<le> tc_refCount (getTree t0)"
      "treeMapByName cn (tc_path (getTree t0)) = Some q" by blast
    from d [OF t0(1)] t0(2-4) show ?thesis by auto
  qed
  ultimately show ?thesis unfolding trees_ok_def by blast
qed

lemma mount_tree_ok:
  assumes "trees_ok cn" "mount_tree path new cn = Some (tid, tc, cn')"
    and "tc_path (getTree new) = path" "tc_refCount (getTree new) = 1"
    and fresh: "treeMapById cn (tc_treeId (getTree new)) = None"
  shows "trees_ok cn'"
proof (cases "treeMapByName cn path")
  case None
  let ?ptr = "length (tree_objs cn)"
  have cn': "cn' = cn\<lparr>tree_objs := tree_objs cn @ [new], treeMapByName := (treeMapByName cn)(path := Some ?ptr),
      treeMapById := (treeMapById cn)(tc_treeId (getTree new) := Some ?ptr)\<rparr>"
    using assms(2) None by (auto simp: mount_tree_def obj_alloc_def Let_def)
  have old: "obj_deref q (tree_objs cn @ [new]) = Some t" if "obj_deref q (tree_objs cn) = Some t" for q t
    using that by (auto simp: obj_deref_def nth_append split: if_splits)
  have new: "obj_deref ?ptr (tree_objs cn @ [new]) = Some new" by (simp add: obj_deref_def)
  have names: "\<exists>t. obj_deref q (tree_objs cn') = Some t \<and> tc_path (getTree t) = n
      \<and> treeMapById cn' (tc_treeId (getTree t)) = Some q" if "treeMapByName cn' n = Some q" for n q
  proof (cases "n = path")
    case True
    then show ?thesis using that new assms(3) by (simp add: cn')
  next
    case False
    then have "treeMapByName cn n = Some q" using that by (simp add: cn')
    from trees_okD(1) [OF assms(1) this] obtain t where t: "obj_deref q (tree_objs cn) = Some t"
      "tc_path (getTree t) = n" "treeMapById cn (tc_treeId (getTree t)) = Some q" by blast
    then have "tc_treeId (getTree t) \<noteq> tc_treeId (getTree new)" using fresh by auto
    then show ?thesis using t old [OF t(1)] by (simp add: cn')
  qed
  have ids: "\<exists>t. obj_deref q (tree_objs cn') = Some t \<and> tc_treeId (getTree t) = i \<and> 1 \<le> tc_refCount (getTree t)
      \<and> treeMapByName cn' (tc_path (getTree t)) = Some q" if "treeMapById cn' i = Some q" for i q
  proof (cases "i = tc_treeId (getTree new)")
    case True
    then show ?thesis using that new assms(3,4) by (simp add: cn')
  next
    case False
    then have "treeMapById cn i = Some q" using that by (simp add: cn')
    from trees_okD(2) [OF assms(1) this] obtain t where t: "obj_deref q (tree_objs cn) = Some t"
      "tc_treeId (getTree t) = i" "1 \<le> tc_refCount (getTree t)"
      "treeMapByName cn (tc_path (getTree t)) = Some q" by blast
    then have "tc_path (getTree t) \<noteq> path" using None by auto
    then show ?thesis using t old [OF t(1)] by (simp add: cn')
  qed
  show ?thesis unfolding trees_ok_def using names ids by blast
next
  case (Some ptr)
  then obtain t where t: "obj_deref ptr (tree_objs cn) = Some t" "1 \<le> tc_refCount (getTree t)"
    using trees_okD [OF assms(1)] by (metis option.inject)
  have "cn' = cn\<lparr>tree_objs := obj_modify ptr (\<lambda>_. map_tree (\<lambda>tc. tc\<lparr>tc_refCount := tc_refCount tc + 1\<rparr>) t) (tree_objs cn)\<rparr>"
    using assms(2) Some t(1) by (simp add: mount_tree_def Let_def)
  then show ?thesis using trees_ok_modify [OF assms(1) t(1)] t(2) by simp
qed

lemma release_tree_ok:
  assumes "trees_ok cn" "release_tree ptr cn = Some (tc, cn')" "treeMapById cn tid = Some ptr"
  shows "trees_ok cn'"
proof -
  obtain t where t: "obj_deref ptr (tree_objs cn) = Some t" "tc_treeId (getTree t) = tid"
      "1 \<le> tc_refCount (getTree t)" "treeMapByName cn (tc_path (getTree t)) = Some ptr"
    using trees_okD(2) [OF assms(1,3)] by blast
  let ?t' = "map_tree (\<lambda>tc. tc\<lparr>tc_refCount := tc_refCount tc - 1\<rparr>) t"
  let ?cn = "cn\<lparr>tree_objs := obj_modify ptr (\<lambda>_. ?t') (tree_objs cn)\<rparr>"
  show ?thesis
  proof (cases "tc_refCount (getTree t) = 1")
    case False
    then have "cn' = ?cn" using assms(2) t(1) by (auto simp: release_tree_def Let_def)
    then show ?thesis using trees_ok_modify [OF assms(1) t(1)] t(3) False by simp
  next
    case True
    then have cn': "cn' = ?cn\<lparr>treeMapByName := (treeMapByName cn)(tc_path (getTree t) := None),
        treeMapById := (treeMapById cn)(tid := None)\<rparr>"
      using assms(2) t(1,2) by (auto simp: release_tree_def Let_def)
    have names: "\<exists>t0. obj_deref q (tree_objs cn') = Some t0 \<and> tc_path (getTree t0) = n
        \<and> treeMapById cn' (tc_treeId (getTree t0)) = Some q" if "treeMapByName cn' n = Some q" for n q
    proof -
      have n: "n \<noteq> tc_path (getTree t)" "treeMapByName cn n = Some q"
        using that by (auto simp: cn' split: if_splits)
      from trees_okD(1) [OF assms(1) n(2)] obtain t0 where t0: "obj_deref q (tree_objs cn) = Some t0"
        "tc_path (getTree t0) = n" "treeMapById cn (tc_treeId (getTree t0)) = Some q" by blast
      then have "q \<noteq> ptr" using n(1) t(1) by auto
      moreover from this have "tc_treeId (getTree t0) \<noteq> tid" using t0(3) assms(3) by auto
      ultimately show ?thesis using t0 by (simp add: cn')
    qed
    have ids: "\<exists>t0. obj_deref q (tree_objs cn') = Some t0 \<and> tc_treeId (getTree t0) = i
        \<and> 1 \<le> tc_refCount (getTree t0) \<and> treeMapByName cn' (tc_path (getTree t0)) = Some q"
      if "treeMapById cn' i = Some q" for i q
    proof -
      have i: "i \<noteq> tid" "treeMapById cn i = Some q" using that by (auto simp: cn' split: if_splits)
      from trees_okD(2) [OF assms(1) i(2)] obtain t0 where t0: "obj_deref q (tree_objs cn) = Some t0"
        "tc_treeId (getTree t0) = i" "1 \<le> tc_refCount (getTree t0)"
        "treeMapByName cn (tc_path (getTree t0)) = Some q" by blast
      then have "q \<noteq> ptr" using i(1) t(1,2) by auto
      moreover from this have "tc_path (getTree t0) \<noteq> tc_path (getTree t)" using t0(4) t(4) by auto
      ultimately show ?thesis using t0 by (simp add: cn')
    qed
    show ?thesis unfolding trees_ok_def using names ids by blast
  qed
qed

subsection \<open>Runs\<close>

lemma connect_tree_ok:
  assumes "trees_ok cn" "connect_tree env hdr ty acc path new srv cn = Some (e, srv', cn')"
    and "tc_path (getTree new) = path" "tc_refCount (getTree new) = 1"
    and "treeMapById cn (tc_treeId (getTree new)) = None"
  shows "trees_ok cn'"
proof -
  obtain tid tc cn1 where m: "mount_tree path new cn = Some (tid, tc, cn1)"
      and s: "sent srv (sendPacket (e_world env) (tree_response hdr ty tid acc) (Some tc) None cn1) = Some (e, srv', cn')"
    using assms(2) by (auto simp: connect_tree_def bind_Some_iff)
  have "same_trees cn1 cn'" using sent_keeps [OF s] by simp
  then show ?thesis using mount_tree_ok [OF assms(1) m assms(3-5)] trees_ok_same by blast
qed

lemma refuse_tree_ok: "trees_ok cn \<Longrightarrow> refuse_tree env hdr st srv cn = Some (e, srv', cn') \<Longrightarrow> trees_ok cn'"
  using refuse_tree_keeps trees_ok_same by blast

lemma new_tree_fields [simp]:
  "tc_path (new_tree w cn path) = path" "tc_refCount (new_tree w cn path) = 1" "tc_treeId (new_tree w cn path) = w_rand32 w"
  by (simp_all add: new_tree_def)

lemma treeConnect_ok:
  assumes "trees_ok cn" "treeConnect env pkt srv cn = Some (e, srv', cn')"
    and "treeMapById cn (w_rand32 (e_world env)) = None"
  shows "trees_ok cn'"
  using assms
  by (auto simp: treeConnect_def bind_Some_iff Let_def split: if_splits option.splits
      intro: refuse_tree_ok connect_tree_ok [OF assms(1)])

lemma treeDisconnect_ok:
  assumes "trees_ok cn" "treeDisconnect env pkt srv cn = Some (e, srv', cn')"
  shows "trees_ok cn'"
proof -
  obtain tid hdr where t: "p_TreeId pkt = Some tid" "reply_header pkt = Some hdr"
    using assms(2) by (auto simp: treeDisconnect_def bind_Some_iff)
  show ?thesis
  proof (cases "treeMapById cn tid")
    case None
    then have "same_trees cn cn'" using assms(2) t by (auto simp: treeDisconnect_def dest: sent_keeps)
    then show ?thesis using assms(1) trees_ok_same by blast
  next
    case (Some ptr)
    then obtain tc cn1 where r: "release_tree ptr cn = Some (tc, cn1)"
        and s: "sent srv (sendPacket (e_world env) (hdr, TreeDisconnectResponse) (Some tc) None cn1) = Some (e, srv', cn')"
      using assms(2) t by (auto simp: treeDisconnect_def bind_Some_iff)
    have "same_trees cn1 cn'" using sent_keeps [OF s] by simp
    then show ?thesis using release_tree_ok [OF assms(1) r Some] trees_ok_same by blast
  qed
qed

text \<open>
  The trees of a connection over its life: mounts whose random id is not in use, disconnects, and
  everything that leaves the trees alone.
\<close>

inductive tree_reach :: "('a \<times> 'z) itself \<Rightarrow> conn \<Rightarrow> bool" for ty where
  opened: "tree_reach ty (new_conn a)"
| connected: "tree_reach ty cn \<Longrightarrow> treeConnect (env :: 'a env) pkt (srv :: ('a, 'z) server_scheme) cn = Some (e, srv', cn') \<Longrightarrow>
    treeMapById cn (w_rand32 (e_world env)) = None \<Longrightarrow> tree_reach ty cn'"
| disconnected: "tree_reach ty cn \<Longrightarrow> treeDisconnect (env :: 'a env) pkt (srv :: ('a, 'z) server_scheme) cn = Some (e, srv', cn') \<Longrightarrow> tree_reach ty cn'"
| other: "tree_reach ty cn \<Longrightarrow> same_trees cn cn' \<Longrightarrow> tree_reach ty cn'"

lemma tree_reach_ok: "tree_reach ty cn \<Longrightarrow> trees_ok cn"
  by (induction rule: tree_reach.induct)
    (blast intro: trees_ok_new_conn treeConnect_ok treeDisconnect_ok trees_ok_same)+

subsection \<open>Concrete requests\<close>

text \<open>
  A client asks for \<^verbatim>\<open>\\h\secret\<close>; the request as it is on the wire.
\<close>

definition secret_path :: string where
  "secret_path = [CHR 0x5C, CHR 0x5C, CHR ''h'', CHR 0x5C] @ ''secret''"

definition secret_bytes :: "byte list" where
  "secret_bytes = [0x5C, 0, 0x5C, 0, 0x68, 0, 0x5C, 0, 0x73, 0, 0x65, 0, 0x63, 0, 0x72, 0, 0x65, 0, 0x74, 0]"

definition secret_packet :: "byte list" where
  "secret_packet = wrs [(0, MAGIC), (4, le_enc 2 (64 :: u16)), (12, le_enc 2 (3 :: u16)), (24, le_enc 8 (2 :: u64)),
     (64, le_enc 2 (9 :: u16)), (68, le_enc 2 (72 :: u16)), (70, le_enc 2 (20 :: u16)), (72, secret_bytes)] (zeros 92)"

lemma secret_decoded: "DecodeToString secret_bytes = secret_path"
  by (simp add: DecodeToString_def secret_bytes_def secret_path_def string_of_runes_def utf8_of_rune_def Let_def
      utf16_Decode.simps scalar_def char_of_def bit_0)

lemma secret_fields:
  "accept SMB2_TREE_CONNECT (Slice secret_packet []) = Some (Slice (drop 64 secret_packet) [], None)"
  "TreeConnectRequest_IsInvalid (Slice (drop 64 secret_packet) []) = Some False"
  "TreeConnectRequest_PathOffset (Slice (drop 64 secret_packet) []) = Some 72"
  "TreeConnectRequest_PathLength (Slice (drop 64 secret_packet) []) = Some 20"
  "region16 72 20 (Slice (drop 64 secret_packet) []) = Some (Slice secret_bytes [])"
  "reply_header (Slice secret_packet []) = Some (new_header\<lparr>CreditRequestResponse := 0, MessageId := 2, Flags := 1\<rparr>)"
  by code_simp+

lemma secret_request: "tree_request (Slice secret_packet []) secret_path"
  unfolding tree_request_def
  by (intro exI conjI, rule secret_fields, rule secret_fields, simp_all add: TreeConnectRequest_Path_def secret_fields secret_decoded)

lemma secret_name: "\<not> HasSuffix secret_path IPC" "last (str_split (CHR 0x5C) secret_path) = ''secret''"
  by code_simp+

subsection \<open>The outcome of the decision\<close>

text \<open>The server can write to the client, whatever tree the response is for.\<close>

definition can_reply :: "world \<Rightarrow> conn \<Rightarrow> bool" where
  "can_reply w cn \<longleftrightarrow> (\<forall>tc. sendable (w_crypto w) tc cn) \<and> (\<forall>n. length (w_nonce w n) = n) \<and> w_write w = Sent"

lemma tree_reply_sent:
  assumes "can_reply w cn" "NextCommand hdr = 0" "c_session cn1 = c_session cn" "session_objs cn1 = session_objs cn"
  shows "\<exists>q cn'. sendPacket w (hdr, TreeConnectResponse ty fl caps acc) tc None cn1 = Some (None, cn')
    \<and> wire cn' = wire cn1 @ [q] \<and> same_trees cn1 cn'"
proof -
  have "\<exists>q cn'. sendPacket w (hdr, TreeConnectResponse ty fl caps acc) tc None cn1 = Some (None, cn') \<and> wire cn' = wire cn1 @ [q]"
    using assms by (intro send_succeeds) (auto simp: can_reply_def sendable_def rsp_ok_def)
  then show ?thesis using sendPacket_keeps by blast
qed

lemma refuse_tree_runs:
  assumes "can_reply (e_world env) cn" "NextCommand hdr = 0"
  shows "\<exists>q cn'. refuse_tree env hdr st srv cn = Some (None, srv, cn') \<and> wire cn' = wire cn @ [q] \<and> same_trees cn cn'"
  using tree_reply_sent [OF assms(1), of "hdr\<lparr>Status := st\<rparr>" cn 0 0 0 0 None] assms(2)
  by (auto simp: refuse_tree_def sent_def)

lemma mount_tree_total:
  assumes "trees_ok cn"
  shows "\<exists>tid tc cn'. mount_tree path new cn = Some (tid, tc, cn') \<and> wire cn' = wire cn
    \<and> c_session cn' = c_session cn \<and> session_objs cn' = session_objs cn"
proof (cases "treeMapByName cn path")
  case None
  then show ?thesis by (auto simp: mount_tree_def obj_alloc_def)
next
  case (Some ptr)
  then obtain t where "obj_deref ptr (tree_objs cn) = Some t" using trees_okD(1) [OF assms] by blast
  with Some show ?thesis by (auto simp: mount_tree_def Let_def)
qed

lemma connect_tree_runs:
  assumes "trees_ok cn" "can_reply (e_world env) cn" "NextCommand hdr = 0" "tc_refCount (getTree new) = 1"
  shows "\<exists>q cn' t. connect_tree env hdr ty acc path new srv cn = Some (None, srv, cn') \<and> wire cn' = wire cn @ [q]
    \<and> mounted path cn' = Some t
    \<and> (case mounted path cn of
         None \<Rightarrow> t = new
       | Some t0 \<Rightarrow> t = map_tree (\<lambda>tc. tc\<lparr>tc_refCount := tc_refCount tc + 1\<rparr>) t0)"
proof -
  obtain tid tc cn1 where m: "mount_tree path new cn = Some (tid, tc, cn1)" "wire cn1 = wire cn"
      "c_session cn1 = c_session cn" "session_objs cn1 = session_objs cn"
    using mount_tree_total [OF assms(1)] by blast
  have "NextCommand (hdr\<lparr>TreeId := tid\<rparr>) = 0" using assms(3) by simp
  from tree_reply_sent [OF assms(2) this m(3,4)] obtain q cn'
    where s: "sendPacket (e_world env) (tree_response hdr ty tid acc) (Some tc) None cn1 = Some (None, cn')"
      "wire cn' = wire cn1 @ [q]"
    unfolding tree_response_def by blast
  have c: "connect_tree env hdr ty acc path new srv cn = Some (None, srv, cn')"
    using m(1) s(1) by (simp add: connect_tree_def sent_def)
  show ?thesis using connect_tree_mounted [OF c assms(4)] c m(2) s(2) by auto
qed

text \<open>A server with the share \<^verbatim>\<open>secret$\<close> for Alice and the guest share \<^verbatim>\<open>secret\<close> or only the first; Bob is logged in.\<close>

definition toy_env :: "unit env" where
  "toy_env = \<lparr>e_world = toy_world,
     e_codec = \<lparr>EncodeNegTokenInit = \<lambda>_. Inr [], DecodeNegTokenInit = \<lambda>_. Inl (ErrorString []),
       EncodeNegTokenResp = \<lambda>_ _. Inr [], DecodeNegTokenResp = \<lambda>_. Inl (ErrorString []), EncodeNegTokenAccepted = Inr []\<rparr>,
     e_auth = \<lparr>a_oid = NlmpOid, a_challenge = \<lambda>a _. Some (Inr [], a), a_authenticate = \<lambda>a _. Some (Inr ''bob'', a),
       a_sessionKey = \<lambda>_. Some [1], a_infoMap = \<lambda>_. None\<rparr>,
     e_go = ascii_go\<rparr>"

definition toy_server :: "(string \<times> bool) list \<Rightarrow> (string \<times> nat) list \<Rightarrow> unit server" where
  "toy_server guests shs = \<lparr>RequireMessageSigning = True, SpecifiedDialect = SMB311, Spnego = None, auths = [()],
     authenticator = 0, serverGuid = zeros 16, SRVSVC_GUID = \<lparr>Persistent = zeros 8, Volatile = zeros 8\<rparr>, refIds = 0x10000,
     tables = NewServer ascii_go (sample_config\<lparr>ShareGuest := guests\<rparr>) shs\<rparr>"

definition bob_session :: session where
  "bob_session = user_session\<lparr>username := ''bob'', encrypter := Some (GCM [3])\<rparr>"

definition bob_conn :: conn where
  "bob_conn = user_conn\<lparr>session_objs := [bob_session]\<rparr>"

lemma toy_env_fields [simp]: "e_world toy_env = toy_world" "e_go toy_env = ascii_go"
  "e_auth toy_env = \<lparr>a_oid = NlmpOid, a_challenge = \<lambda>a _. Some (Inr [], a), a_authenticate = \<lambda>a _. Some (Inr ''bob'', a),
       a_sessionKey = \<lambda>_. Some [1], a_infoMap = \<lambda>_. None\<rparr>"
  by (simp_all add: toy_env_def)

lemma bob_conn_trees: "trees_ok bob_conn" "mounted path bob_conn = None"
  by (simp_all add: bob_conn_def user_conn_def setSession_def new_conn_def trees_ok_def mounted_def Let_def obj_alloc_def)

lemma new_conn_trees: "mounted path (new_conn a) = None" "c_session (new_conn a) = None"
  by (simp_all add: new_conn_def mounted_def)

lemma bob_active: "active_session bob_conn = Some bob_session"
  by (simp add: active_session_def bob_conn_def obj_deref_def)

lemma bob_fields: "encrypter bob_session = Some (GCM [3])" "aead_ok toy_crypto (GCM [3])" "username bob_session = ''bob''" "sessionFlags bob_session = 0" "signed_session bob_session"
  "signing_session toy_crypto bob_session"
  using user_session_keyed(2) keyed_signing [OF user_session_keyed(1)] toy_crypto_ok
  by (simp_all add: bob_session_def crypto_ok_def user_session_def blank_session_def signed_session_def signing_session_def)

lemma toy_can_reply: "can_reply toy_world bob_conn" "can_reply toy_world (new_conn a)"
  using bob_fields by (simp_all add: can_reply_def sendable_def bob_conn_def obj_deref_def wants_encryption_def new_conn_trees)

subsection \<open>Properties\<close>



text \<open>
  C26. The list of allowed users of a share \<^verbatim>\<open>X$\<close> is not consulted for a client that asks for \<^verbatim>\<open>X\<close>: the
  share is found under \<^verbatim>\<open>X$\<close>, the list is looked up under \<^verbatim>\<open>X\<close>.  Where no share and no list is called
  \<^verbatim>\<open>X\<close>, every authenticated user gets the file system of \<^verbatim>\<open>X$\<close>, listed or not.
\<close>

theorem hidden_share_bypass:
  assumes "tree_request pkt rpath" "\<not> HasSuffix rpath IPC" "path = last (str_split (CHR 0x5C) rpath)"
    and "shares (tables srv) (ToUpper (e_go env) path) = None"
    and "shares (tables srv) (ToUpper (e_go env) path @ ''$'') = Some fs"
    and "shareUsers (tables srv) (ToUpper (e_go env) path) = None"
    and "active_session cn = Some s" "\<not> is_guest_session (e_go env) (Some s)"
    and "trees_ok cn" "can_reply (e_world env) cn" "mounted path cn = None"
  shows "\<exists>cn'. treeConnect env pkt srv cn = Some (None, srv, cn')
    \<and> mounted path cn' = Some (disk_tree env srv cn path fs)"
proof -
  have f: "find_share (e_go env) (tables srv) path = Some fs" using assms(4,5) by (simp add: find_share_def)
  have p: "permitted (e_go env) (tables srv) s path" using assms(6,8) by (simp add: permitted_def isShareAllowed_def)
  obtain hdr where hdr: "NextCommand hdr = 0" and eq: "treeConnect env pkt srv cn = do {
      granted \<leftarrow> share_access (e_go env) (tables srv) (active_session cn) path;
      (if \<not> granted then refuse_tree env hdr STATUS_ACCESS_DENIED srv cn
       else connect_tree env hdr 1 DISK_ACCESS path (disk_tree env srv cn path fs) srv cn) }"
    using treeConnect_disk [OF assms(1-3) f] by blast
  have one: "tc_refCount (getTree (disk_tree env srv cn path fs)) = 1" by (simp add: disk_tree_def)
  show ?thesis
    using connect_tree_runs [OF assms(9,10) hdr one, of 1 DISK_ACCESS path srv] p assms(7,11)
    by (auto simp: eq share_access_permitted)
qed

lemma hidden_share_bypass_witness:
  "\<not> isShareAllowed ascii_go (tables (toy_server [] [(''secret$'', 5)])) ''secret$'' (username bob_session)
   \<and> (\<exists>cn'. treeConnect toy_env (Slice secret_packet []) (toy_server [] [(''secret$'', 5)]) bob_conn
        = Some (None, toy_server [] [(''secret$'', 5)], cn')
      \<and> mounted ''secret'' cn' = Some (disk_tree toy_env (toy_server [] [(''secret$'', 5)]) bob_conn ''secret'' 5))"
proof -
  let ?srv = "toy_server [] [(''secret$'', 5)]"
  have f: "shares (tables ?srv) (ToUpper (e_go toy_env) ''secret'') = None"
    "shares (tables ?srv) (ToUpper (e_go toy_env) ''secret'' @ ''$'') = Some 5"
    "shareUsers (tables ?srv) (ToUpper (e_go toy_env) ''secret'') = None"
    "\<not> is_guest_session (e_go toy_env) (Some bob_session)"
    "\<not> isShareAllowed ascii_go (tables ?srv) ''secret$'' (username bob_session)"
    by code_simp+
  show ?thesis
    using hidden_share_bypass [OF secret_request secret_name(1) secret_name(2) [symmetric] f(1-3) bob_active f(4)
        bob_conn_trees(1) _ bob_conn_trees(2)] toy_can_reply(1) f(5)
    by auto
qed

text \<open>
  Nobody has to log in to ask for a share.  On a connection without a session, a request for an
  existing disk share ends the process if the share is not a guest share, for the refusal is logged
  with the user name of a session that is \<^verbatim>\<open>nil\<close>, and mounts the share if it is.
\<close>

theorem tree_connect_without_session:
  assumes "tree_request pkt rpath" "\<not> HasSuffix rpath IPC" "path = last (str_split (CHR 0x5C) rpath)"
    and "find_share (e_go env) (tables srv) path = Some fs" "c_session cn = None" "mounted path cn = None"
    and "trees_ok cn" "can_reply (e_world env) cn"
  shows "(treeConnect env pkt srv cn = None \<longleftrightarrow> \<not> isShareGuest (e_go env) (tables srv) path)
    \<and> (isShareGuest (e_go env) (tables srv) path \<longrightarrow> (\<exists>cn'. treeConnect env pkt srv cn = Some (None, srv, cn')
          \<and> mounted path cn' = Some (disk_tree env srv cn path fs)))"
proof -
  obtain hdr where hdr: "NextCommand hdr = 0" and eq: "treeConnect env pkt srv cn = do {
      granted \<leftarrow> share_access (e_go env) (tables srv) (active_session cn) path;
      (if \<not> granted then refuse_tree env hdr STATUS_ACCESS_DENIED srv cn
       else connect_tree env hdr 1 DISK_ACCESS path (disk_tree env srv cn path fs) srv cn) }"
    using treeConnect_disk [OF assms(1-4)] by blast
  have one: "tc_refCount (getTree (disk_tree env srv cn path fs)) = 1" by (simp add: disk_tree_def)
  have a: "active_session cn = None" using assms(5) by (simp add: active_session_def)
  obtain cn' where run: "connect_tree env hdr 1 DISK_ACCESS path (disk_tree env srv cn path fs) srv cn = Some (None, srv, cn')"
      "mounted path cn' = Some (disk_tree env srv cn path fs)"
    using connect_tree_runs [OF assms(7,8) hdr one, of 1 DISK_ACCESS path srv] assms(6) by auto
  show ?thesis by (simp add: eq a share_access_def is_guest_session_def run)
qed

lemma tree_connect_without_session_witness:
  "treeConnect toy_env (Slice secret_packet []) (toy_server [] [(''secret'', 5)]) (new_conn \<lparr>balance = 1, cap = 128, deficit = 0\<rparr>) = None"
proof -
  let ?srv = "toy_server [] [(''secret'', 5)]"
  have f: "find_share (e_go toy_env) (tables ?srv) ''secret'' = Some 5"
    "\<not> isShareGuest (e_go toy_env) (tables ?srv) ''secret''"
    by code_simp+
  show ?thesis
    using tree_connect_without_session [OF secret_request secret_name(1) secret_name(2) [symmetric] f(1)
        new_conn_trees(2) new_conn_trees(1) trees_ok_new_conn] toy_can_reply(2) f(2)
    by simp
qed

text \<open>
  C40. Over the life of a connection - any number of tree connects and disconnects, whatever they carry,
  between steps that leave the trees alone - the two maps of the trees agree: each name and each id
  leads to a live tree of that name and id, the other map leads to the same tree, and it has at least
  one reference.  The random id of a new tree must not be in use; the code does not check that.
\<close>

theorem tree_maps_invariant:
  assumes "tree_reach ty cn"
  shows "trees_ok cn"
  using assms by (rule tree_reach_ok)

lemma tree_maps_invariant_witness:
  "\<exists>cn'. treeConnect toy_env (Slice secret_packet []) (toy_server [(''secret'', True)] [(''secret'', 5)])
       (new_conn \<lparr>balance = 1, cap = 128, deficit = 0\<rparr>) = Some (None, toy_server [(''secret'', True)] [(''secret'', 5)], cn')
     \<and> mounted ''secret'' cn' \<noteq> None \<and> trees_ok cn'"
proof -
  let ?srv = "toy_server [(''secret'', True)] [(''secret'', 5)]"
  let ?cn = "new_conn \<lparr>balance = 1, cap = 128, deficit = 0\<rparr>"
  have f: "find_share (e_go toy_env) (tables ?srv) ''secret'' = Some 5"
    "isShareGuest (e_go toy_env) (tables ?srv) ''secret''"
    by code_simp+
  obtain hdr where hdr: "NextCommand hdr = 0" and eq: "treeConnect toy_env (Slice secret_packet []) ?srv ?cn = do {
      granted \<leftarrow> share_access (e_go toy_env) (tables ?srv) (active_session ?cn) ''secret'';
      (if \<not> granted then refuse_tree toy_env hdr STATUS_ACCESS_DENIED ?srv ?cn
       else connect_tree toy_env hdr 1 DISK_ACCESS ''secret'' (disk_tree toy_env ?srv ?cn ''secret'' 5) ?srv ?cn) }"
    using treeConnect_disk [OF secret_request secret_name(1) secret_name(2) [symmetric] f(1)] by blast
  have one: "tc_refCount (getTree (disk_tree toy_env ?srv ?cn ''secret'' 5)) = 1" by (simp add: disk_tree_def)
  have cr: "can_reply (e_world toy_env) ?cn" using toy_can_reply(2) by simp
  obtain cn' where c: "connect_tree toy_env hdr 1 DISK_ACCESS ''secret'' (disk_tree toy_env ?srv ?cn ''secret'' 5) ?srv ?cn
      = Some (None, ?srv, cn')" "mounted ''secret'' cn' \<noteq> None"
    using connect_tree_runs [OF trees_ok_new_conn cr hdr one, of 1 DISK_ACCESS "''secret''" ?srv] by blast
  have a: "active_session ?cn = None" by (simp add: active_session_def new_conn_trees)
  have run: "treeConnect toy_env (Slice secret_packet []) ?srv ?cn = Some (None, ?srv, cn')"
    using f(2) c(1) by (simp add: eq share_access_def is_guest_session_def a del: One_nat_def)
  note run = run c(2)
  have "tree_reach TYPE(unit \<times> unit) cn'"
    using tree_reach.connected [OF tree_reach.opened run(1)] by (simp add: new_conn_def)
  from tree_maps_invariant [OF this] run show ?thesis by blast
qed

end
