(* ===== verification/Attr.thy ===== *)
theory Attr
  imports Security Go_Strings Server
begin

section \<open>Attributes of files\<close>

text \<open>
  \<^verbatim>\<open>smb/vfs/attributes.go\<close>, \<^verbatim>\<open>file_type.go\<close>, \<^verbatim>\<open>permissions.go\<close> and \<^verbatim>\<open>fs_attributes.go\<close>, and the helpers of
  \<^verbatim>\<open>smb/internal/smb2/util.go\<close> that turn them into what the protocol says.  A \<^verbatim>\<open>time.Time\<close> is its
  \<^verbatim>\<open>UnixNano\<close>; a getter that panics when its field was not set is an \<open>option\<close>.
\<close>

datatype FileType = FileTypeRegularFile | FileTypeDirectory | FileTypeSymlink | FileTypeBlockDevice
  | FileTypeCharacterDevice | FileTypeFIFO | FileTypeSocket | FileTypeNamedAttributeDir
  | FileTypeNamedAttribute | FileTypeOther

record Attributes =
  fieldsPresent :: u32
  a_changeID :: u64
  a_deviceNumber :: u64
  a_fileHandle :: u64
  a_fileType :: FileType
  a_inodeNumber :: u64
  a_mTime :: u64
  a_aTime :: u64
  a_cTime :: u64
  a_bTime :: u64
  a_linkCount :: u32
  a_permissions :: byte
  a_sizeBytes :: u64
  a_diskSize :: u64
  a_uid :: u32
  a_gid :: u32
  a_unixMode :: u32
  symlinkTargetDir :: bool

definition no_attributes :: Attributes where
  "no_attributes = \<lparr>fieldsPresent = 0, a_changeID = 0, a_deviceNumber = 0, a_fileHandle = 0, a_fileType = FileTypeRegularFile, a_inodeNumber = 0, a_mTime = 0, a_aTime = 0, a_cTime = 0, a_bTime = 0, a_linkCount = 0, a_permissions = 0, a_sizeBytes = 0, a_diskSize = 0, a_uid = 0, a_gid = 0, a_unixMode = 0,
     symlinkTargetDir = False\<rparr>"

text \<open>The masks, and a test for the presence of a field.\<close>

abbreviation (input) "AttributesMaskChangeID \<equiv> (0x1 :: u32)"
abbreviation (input) "AttributesMaskDeviceNumber \<equiv> (0x2 :: u32)"
abbreviation (input) "AttributesMaskFileHandle \<equiv> (0x4 :: u32)"
abbreviation (input) "AttributesMaskFileType \<equiv> (0x8 :: u32)"
abbreviation (input) "AttributesMaskInodeNumber \<equiv> (0x10 :: u32)"
abbreviation (input) "AttributesMaskLastDataModificationTime \<equiv> (0x20 :: u32)"
abbreviation (input) "AttributesMaskAccessTime \<equiv> (0x40 :: u32)"
abbreviation (input) "AttributesMaskLastStatusChangeTime \<equiv> (0x80 :: u32)"
abbreviation (input) "AttributesMaskBirthTime \<equiv> (0x100 :: u32)"
abbreviation (input) "AttributesMaskLinkCount \<equiv> (0x200 :: u32)"
abbreviation (input) "AttributesMaskPermissions \<equiv> (0x400 :: u32)"
abbreviation (input) "AttributesMaskSizeBytes \<equiv> (0x800 :: u32)"
abbreviation (input) "AttributesMaskDiskSizeBytes \<equiv> (0x1000 :: u32)"
abbreviation (input) "AttributesMaskUserID \<equiv> (0x2000 :: u32)"
abbreviation (input) "AttributesMaskGroupID \<equiv> (0x4000 :: u32)"
abbreviation (input) "AttributesMaskUnixMode \<equiv> (0x8000 :: u32)"

definition present :: "u32 \<Rightarrow> Attributes \<Rightarrow> bool" where
  "present m a \<longleftrightarrow> fieldsPresent a AND m \<noteq> 0"

definition GetChangeID :: "Attributes \<Rightarrow> u64 option" where
  "GetChangeID a = (if present AttributesMaskChangeID a then Some (a_changeID a) else None)"

definition SetChangeID :: "u64 \<Rightarrow> Attributes \<Rightarrow> Attributes" where
  "SetChangeID x a = a\<lparr>a_changeID := x, fieldsPresent := fieldsPresent a OR AttributesMaskChangeID\<rparr>"

definition GetDeviceNumber :: "Attributes \<Rightarrow> u64 \<times> bool" where
  "GetDeviceNumber a = (a_deviceNumber a, present AttributesMaskDeviceNumber a)"

definition SetDeviceNumber :: "u64 \<Rightarrow> Attributes \<Rightarrow> Attributes" where
  "SetDeviceNumber x a = a\<lparr>a_deviceNumber := x, fieldsPresent := fieldsPresent a OR AttributesMaskDeviceNumber\<rparr>"

definition GetFileHandle :: "Attributes \<Rightarrow> u64 option" where
  "GetFileHandle a = (if present AttributesMaskFileHandle a then Some (a_fileHandle a) else None)"

definition SetFileHandle :: "u64 \<Rightarrow> Attributes \<Rightarrow> Attributes" where
  "SetFileHandle x a = a\<lparr>a_fileHandle := x, fieldsPresent := fieldsPresent a OR AttributesMaskFileHandle\<rparr>"

definition GetFileType :: "Attributes \<Rightarrow> FileType option" where
  "GetFileType a = (if present AttributesMaskFileType a then Some (a_fileType a) else None)"

definition SetFileType :: "FileType \<Rightarrow> Attributes \<Rightarrow> Attributes" where
  "SetFileType x a = a\<lparr>a_fileType := x, fieldsPresent := fieldsPresent a OR AttributesMaskFileType\<rparr>"

definition GetInodeNumber :: "Attributes \<Rightarrow> u64 option" where
  "GetInodeNumber a = (if present AttributesMaskInodeNumber a then Some (a_inodeNumber a) else None)"

definition SetInodeNumber :: "u64 \<Rightarrow> Attributes \<Rightarrow> Attributes" where
  "SetInodeNumber x a = a\<lparr>a_inodeNumber := x, fieldsPresent := fieldsPresent a OR AttributesMaskInodeNumber\<rparr>"

definition GetLastDataModificationTime :: "Attributes \<Rightarrow> u64 \<times> bool" where
  "GetLastDataModificationTime a = (a_mTime a, present AttributesMaskLastDataModificationTime a)"

definition SetLastDataModificationTime :: "u64 \<Rightarrow> Attributes \<Rightarrow> Attributes" where
  "SetLastDataModificationTime x a = a\<lparr>a_mTime := x, fieldsPresent := fieldsPresent a OR AttributesMaskLastDataModificationTime\<rparr>"

definition GetAccessTime :: "Attributes \<Rightarrow> u64 \<times> bool" where
  "GetAccessTime a = (a_aTime a, present AttributesMaskAccessTime a)"

definition SetAccessTime :: "u64 \<Rightarrow> Attributes \<Rightarrow> Attributes" where
  "SetAccessTime x a = a\<lparr>a_aTime := x, fieldsPresent := fieldsPresent a OR AttributesMaskAccessTime\<rparr>"

definition GetLastStatusChangeTime :: "Attributes \<Rightarrow> u64 \<times> bool" where
  "GetLastStatusChangeTime a = (a_cTime a, present AttributesMaskLastStatusChangeTime a)"

definition SetLastStatusChangeTime :: "u64 \<Rightarrow> Attributes \<Rightarrow> Attributes" where
  "SetLastStatusChangeTime x a = a\<lparr>a_cTime := x, fieldsPresent := fieldsPresent a OR AttributesMaskLastStatusChangeTime\<rparr>"

definition GetBirthTime :: "Attributes \<Rightarrow> u64 \<times> bool" where
  "GetBirthTime a = (a_bTime a, present AttributesMaskBirthTime a)"

definition SetBirthTime :: "u64 \<Rightarrow> Attributes \<Rightarrow> Attributes" where
  "SetBirthTime x a = a\<lparr>a_bTime := x, fieldsPresent := fieldsPresent a OR AttributesMaskBirthTime\<rparr>"

definition GetLinkCount :: "Attributes \<Rightarrow> u32 option" where
  "GetLinkCount a = (if present AttributesMaskLinkCount a then Some (a_linkCount a) else None)"

definition SetLinkCount :: "u32 \<Rightarrow> Attributes \<Rightarrow> Attributes" where
  "SetLinkCount x a = a\<lparr>a_linkCount := x, fieldsPresent := fieldsPresent a OR AttributesMaskLinkCount\<rparr>"

definition GetPermissions :: "Attributes \<Rightarrow> byte \<times> bool" where
  "GetPermissions a = (a_permissions a, present AttributesMaskPermissions a)"

definition SetPermissions :: "byte \<Rightarrow> Attributes \<Rightarrow> Attributes" where
  "SetPermissions x a = a\<lparr>a_permissions := x, fieldsPresent := fieldsPresent a OR AttributesMaskPermissions\<rparr>"

definition GetSizeBytes :: "Attributes \<Rightarrow> u64 \<times> bool" where
  "GetSizeBytes a = (a_sizeBytes a, present AttributesMaskSizeBytes a)"

definition SetSizeBytes :: "u64 \<Rightarrow> Attributes \<Rightarrow> Attributes" where
  "SetSizeBytes x a = a\<lparr>a_sizeBytes := x, fieldsPresent := fieldsPresent a OR AttributesMaskSizeBytes\<rparr>"

definition GetDiskSizeBytes :: "Attributes \<Rightarrow> u64 \<times> bool" where
  "GetDiskSizeBytes a = (a_diskSize a, present AttributesMaskDiskSizeBytes a)"

definition SetDiskSizeBytes :: "u64 \<Rightarrow> Attributes \<Rightarrow> Attributes" where
  "SetDiskSizeBytes x a = a\<lparr>a_diskSize := x, fieldsPresent := fieldsPresent a OR AttributesMaskDiskSizeBytes\<rparr>"

definition GetUID :: "Attributes \<Rightarrow> u32 \<times> bool" where
  "GetUID a = (a_uid a, present AttributesMaskUserID a)"

definition SetUID :: "u32 \<Rightarrow> Attributes \<Rightarrow> Attributes" where
  "SetUID x a = a\<lparr>a_uid := x, fieldsPresent := fieldsPresent a OR AttributesMaskUserID\<rparr>"

definition GetGID :: "Attributes \<Rightarrow> u32 \<times> bool" where
  "GetGID a = (a_gid a, present AttributesMaskGroupID a)"

definition SetGID :: "u32 \<Rightarrow> Attributes \<Rightarrow> Attributes" where
  "SetGID x a = a\<lparr>a_gid := x, fieldsPresent := fieldsPresent a OR AttributesMaskGroupID\<rparr>"

definition GetUnixMode :: "Attributes \<Rightarrow> u32 \<times> bool" where
  "GetUnixMode a = (a_unixMode a, present AttributesMaskUnixMode a)"

definition SetUnixMode :: "u32 \<Rightarrow> Attributes \<Rightarrow> Attributes" where
  "SetUnixMode x a = a\<lparr>a_unixMode := x, fieldsPresent := fieldsPresent a OR AttributesMaskUnixMode\<rparr>"

lemmas attr_getters = present_def GetChangeID_def GetDeviceNumber_def GetFileHandle_def GetFileType_def GetInodeNumber_def GetLastDataModificationTime_def GetAccessTime_def GetLastStatusChangeTime_def GetBirthTime_def GetLinkCount_def GetPermissions_def GetSizeBytes_def GetDiskSizeBytes_def GetUID_def GetGID_def GetUnixMode_def

lemmas attr_setters = SetChangeID_def SetDeviceNumber_def SetFileHandle_def SetFileType_def SetInodeNumber_def SetLastDataModificationTime_def SetAccessTime_def SetLastStatusChangeTime_def SetBirthTime_def SetLinkCount_def SetPermissions_def SetSizeBytes_def SetDiskSizeBytes_def SetUID_def SetGID_def SetUnixMode_def

definition SetSymlinkTargetDir :: "bool \<Rightarrow> Attributes \<Rightarrow> Attributes" where
  "SetSymlinkTargetDir d a = a\<lparr>symlinkTargetDir := d\<rparr>"

subsection \<open>Permissions\<close>

abbreviation (input) "PermissionsRead \<equiv> (1 :: byte)"
abbreviation (input) "PermissionsWrite \<equiv> (2 :: byte)"
abbreviation (input) "PermissionsExecute \<equiv> (4 :: byte)"

definition NewPermissionsFromMode :: "u32 \<Rightarrow> byte" where
  "NewPermissionsFromMode m =
     (if m AND 0x124 \<noteq> 0 then PermissionsRead else 0) OR (if m AND 0x92 \<noteq> 0 then PermissionsWrite else 0)
     OR (if m AND 0x49 \<noteq> 0 then PermissionsExecute else 0)"

definition ToMode :: "byte \<Rightarrow> u32" where
  "ToMode pm =
     (if pm AND PermissionsRead \<noteq> 0 then 0x124 else 0) OR (if pm AND PermissionsWrite \<noteq> 0 then 0x80 else 0)
     OR (if pm AND PermissionsExecute \<noteq> 0 then 0x49 else 0)"

subsection \<open>Attributes of a file system\<close>

record FSAttributes =
  fs_fieldsPresent :: u32
  fs_bsize :: u64
  fs_iosize :: u64
  fs_blocks :: u64
  fs_bfree :: u64
  fs_bavail :: u64
  fs_files :: u64
  fs_ffree :: u64

definition no_fs_attributes :: FSAttributes where
  "no_fs_attributes = \<lparr>fs_fieldsPresent = 0, fs_bsize = 0, fs_iosize = 0, fs_blocks = 0, fs_bfree = 0, fs_bavail = 0, fs_files = 0, fs_ffree = 0\<rparr>"

definition GetBlockSize :: "FSAttributes \<Rightarrow> u64 \<times> bool" where
  "GetBlockSize a = (fs_bsize a, fs_fieldsPresent a AND 0x1 \<noteq> 0)"

definition SetBlockSize :: "u64 \<Rightarrow> FSAttributes \<Rightarrow> FSAttributes" where
  "SetBlockSize x a = a\<lparr>fs_bsize := x, fs_fieldsPresent := fs_fieldsPresent a OR 0x1\<rparr>"

definition GetIOkSize :: "FSAttributes \<Rightarrow> u64 \<times> bool" where
  "GetIOkSize a = (fs_iosize a, fs_fieldsPresent a AND 0x2 \<noteq> 0)"

definition SetIOSize :: "u64 \<Rightarrow> FSAttributes \<Rightarrow> FSAttributes" where
  "SetIOSize x a = a\<lparr>fs_iosize := x, fs_fieldsPresent := fs_fieldsPresent a OR 0x2\<rparr>"

definition GetBlocks :: "FSAttributes \<Rightarrow> u64 \<times> bool" where
  "GetBlocks a = (fs_blocks a, fs_fieldsPresent a AND 0x4 \<noteq> 0)"

definition SetBlocks :: "u64 \<Rightarrow> FSAttributes \<Rightarrow> FSAttributes" where
  "SetBlocks x a = a\<lparr>fs_blocks := x, fs_fieldsPresent := fs_fieldsPresent a OR 0x4\<rparr>"

definition GetFreeBlocks :: "FSAttributes \<Rightarrow> u64 \<times> bool" where
  "GetFreeBlocks a = (fs_bfree a, fs_fieldsPresent a AND 0x8 \<noteq> 0)"

definition SetFreeBlocks :: "u64 \<Rightarrow> FSAttributes \<Rightarrow> FSAttributes" where
  "SetFreeBlocks x a = a\<lparr>fs_bfree := x, fs_fieldsPresent := fs_fieldsPresent a OR 0x8\<rparr>"

definition GetAvailableBlocks :: "FSAttributes \<Rightarrow> u64 \<times> bool" where
  "GetAvailableBlocks a = (fs_bavail a, fs_fieldsPresent a AND 0x10 \<noteq> 0)"

definition SetAvailableBlocks :: "u64 \<Rightarrow> FSAttributes \<Rightarrow> FSAttributes" where
  "SetAvailableBlocks x a = a\<lparr>fs_bavail := x, fs_fieldsPresent := fs_fieldsPresent a OR 0x10\<rparr>"

definition GetFiles :: "FSAttributes \<Rightarrow> u64 \<times> bool" where
  "GetFiles a = (fs_files a, fs_fieldsPresent a AND 0x20 \<noteq> 0)"

definition SetFiles :: "u64 \<Rightarrow> FSAttributes \<Rightarrow> FSAttributes" where
  "SetFiles x a = a\<lparr>fs_files := x, fs_fieldsPresent := fs_fieldsPresent a OR 0x20\<rparr>"

definition GetFreeFiles :: "FSAttributes \<Rightarrow> u64 \<times> bool" where
  "GetFreeFiles a = (fs_ffree a, fs_fieldsPresent a AND 0x40 \<noteq> 0)"

definition SetFreeFiles :: "u64 \<Rightarrow> FSAttributes \<Rightarrow> FSAttributes" where
  "SetFreeFiles x a = a\<lparr>fs_ffree := x, fs_fieldsPresent := fs_fieldsPresent a OR 0x40\<rparr>"

subsection \<open>What the protocol says of a file (util.go)\<close>

abbreviation (input) "FILE_READ_DATA \<equiv> (1 :: u32)"
abbreviation (input) "FILE_WRITE_DATA \<equiv> (2 :: u32)"
abbreviation (input) "FILE_APPEND_DATA \<equiv> (4 :: u32)"
abbreviation (input) "FILE_READ_EA \<equiv> (8 :: u32)"
abbreviation (input) "FILE_WRITE_EA \<equiv> (0x10 :: u32)"
abbreviation (input) "FILE_EXECUTE \<equiv> (0x20 :: u32)"
abbreviation (input) "FILE_DELETE_CHILD \<equiv> (0x40 :: u32)"
abbreviation (input) "FILE_READ_ATTRIBUTES \<equiv> (0x80 :: u32)"
abbreviation (input) "FILE_WRITE_ATTRIBUTES \<equiv> (0x100 :: u32)"
abbreviation (input) "DELETE \<equiv> (0x10000 :: u32)"
abbreviation (input) "READ_CONTROL \<equiv> (0x20000 :: u32)"
abbreviation (input) "WRITE_DAC \<equiv> (0x40000 :: u32)"
abbreviation (input) "WRITE_OWNER \<equiv> (0x80000 :: u32)"
abbreviation (input) "SYNCHRONIZE \<equiv> (0x100000 :: u32)"
abbreviation (input) "GENERIC_ALL \<equiv> (0x10000000 :: u32)"
abbreviation (input) "GENERIC_WRITE \<equiv> (0x40000000 :: u32)"

abbreviation (input) "FILE_ATTRIBUTE_READONLY \<equiv> (1 :: u32)"
abbreviation (input) "FILE_ATTRIBUTE_HIDDEN \<equiv> (2 :: u32)"
abbreviation (input) "FILE_ATTRIBUTE_DIRECTORY \<equiv> (0x10 :: u32)"
abbreviation (input) "FILE_ATTRIBUTE_ARCHIVE \<equiv> (0x20 :: u32)"
abbreviation (input) "FILE_ATTRIBUTE_NORMAL \<equiv> (0x80 :: u32)"
abbreviation (input) "FILE_ATTRIBUTE_REPARSE_POINT \<equiv> (0x400 :: u32)"
abbreviation (input) "IO_REPARSE_TAG_SYMLINK \<equiv> (0xA000000C :: u32)"

definition zero_Filetime :: Filetime where
  "zero_Filetime = \<lparr>LowDateTime = 0, HighDateTime = 0\<rparr>"

definition time_of :: "u64 \<times> bool \<Rightarrow> Filetime" where
  "time_of t = (if snd t then NsecToFiletime (fst t) else zero_Filetime)"

definition BirthTimeFromVfs :: "Attributes \<Rightarrow> Filetime" where
  "BirthTimeFromVfs a = time_of (GetBirthTime a)"

definition AccessTimeFromVfs :: "Attributes \<Rightarrow> Filetime" where
  "AccessTimeFromVfs a = time_of (GetAccessTime a)"

definition ModifiedTimeFromVfs :: "Attributes \<Rightarrow> Filetime" where
  "ModifiedTimeFromVfs a = time_of (GetLastDataModificationTime a)"

definition ChangeTimeFromVfs :: "Attributes \<Rightarrow> Filetime" where
  "ChangeTimeFromVfs a = time_of (GetLastStatusChangeTime a)"

definition SizeFromVfs :: "Attributes \<Rightarrow> u64" where
  "SizeFromVfs a = (let (s, ok) = GetSizeBytes a in if ok then s else 0)"

definition DiskSizeFromVfs :: "Attributes \<Rightarrow> u64" where
  "DiskSizeFromVfs a = (let (s, ok) = GetDiskSizeBytes a in if ok then s else SizeFromVfs a)"

definition UnixModeFromVfs :: "Attributes \<Rightarrow> u16 option" where
  "UnixModeFromVfs a = do {
     let (s, ok) = GetUnixMode a;
     let m = (if ok then ucast s else 0x1FF);
     ty \<leftarrow> GetFileType a;
     Some (case ty of
         FileTypeDirectory \<Rightarrow> m OR 0x4000
       | FileTypeRegularFile \<Rightarrow> m OR 0x8000
       | FileTypeSymlink \<Rightarrow> m OR 0xA000
       | _ \<Rightarrow> m) }"

definition PosixWireModeFromVfs :: "Attributes \<Rightarrow> u32 option" where
  "PosixWireModeFromVfs a = do {
     let (m, ok) = GetUnixMode a;
     let perm = (if ok then m AND 0xFFF else 0x1FF);
     ty \<leftarrow> GetFileType a;
     Some (perm OR push_bit 12 (case ty of FileTypeDirectory \<Rightarrow> 1 | FileTypeSymlink \<Rightarrow> 2 | _ \<Rightarrow> 0)) }"

definition PermissionsFromVfs :: "Attributes \<Rightarrow> string \<Rightarrow> bool \<Rightarrow> u32 option" where
  "PermissionsFromVfs a path hideDotfiles = do {
     let name = path_Base path;
     let perm = (if hideDotfiles \<and> name \<noteq> [] \<and> hd name = dot
           then FILE_ATTRIBUTE_HIDDEN OR FILE_ATTRIBUTE_ARCHIVE else 0);
     let (pm, ok) = GetPermissions a;
     let perm = (if ok
           then if pm AND PermissionsWrite = 0 \<and> pm AND PermissionsRead = 0 \<and> pm AND PermissionsExecute = 0
                then FILE_ATTRIBUTE_HIDDEN OR FILE_ATTRIBUTE_READONLY
                else if pm AND PermissionsWrite = 0 then FILE_ATTRIBUTE_READONLY else perm
           else perm);
     ty \<leftarrow> GetFileType a;
     let perm = (if ty = FileTypeDirectory then perm OR FILE_ATTRIBUTE_DIRECTORY else perm);
     let perm = (if ty = FileTypeSymlink then perm OR FILE_ATTRIBUTE_REPARSE_POINT else perm);
     Some (if perm = 0 then FILE_ATTRIBUTE_NORMAL else perm) }"

definition MaxAccessFromVfs :: "Attributes \<Rightarrow> u32" where
  "MaxAccessFromVfs a =
     (let (m, ok) = GetUnixMode a;
          m = (if ok then m else 0x1FF);
          acc = SYNCHRONIZE;
          acc = (if m AND 0x104 \<noteq> 0
                 then acc OR FILE_READ_ATTRIBUTES OR FILE_READ_DATA OR FILE_READ_EA
                   OR (if m AND 0x100 \<noteq> 0 then READ_CONTROL else 0)
                 else acc);
          acc = (if m AND 0x82 \<noteq> 0
                 then acc OR FILE_WRITE_ATTRIBUTES OR FILE_WRITE_DATA OR FILE_WRITE_EA OR FILE_APPEND_DATA
                   OR (if m AND 0x80 \<noteq> 0 then WRITE_DAC OR WRITE_OWNER OR DELETE OR FILE_DELETE_CHILD else 0)
                 else acc);
          acc = (if m AND 0x41 \<noteq> 0 then acc OR FILE_EXECUTE else acc)
      in if m AND 0x124 \<noteq> 0 then acc OR FILE_EXECUTE else acc)"

subsection \<open>Handles, streams and wildcards (util.go)\<close>

definition HandleId :: "FileId \<Rightarrow> u64" where
  "HandleId f = le_dec (Volatile f)"

definition NodeId :: "FileId \<Rightarrow> u64" where
  "NodeId f = le_dec (Persistent f)"

definition SetHandleId :: "u64 \<Rightarrow> FileId \<Rightarrow> FileId" where
  "SetHandleId n f = f\<lparr>Volatile := le_enc 8 n\<rparr>"

definition SetNodeId :: "u64 \<Rightarrow> FileId \<Rightarrow> FileId" where
  "SetNodeId n f = f\<lparr>Persistent := le_enc 8 n\<rparr>"

definition FileIdDecoder_Decode :: "slice \<Rightarrow> FileId option" where
  "FileIdDecoder_Decode fd = do {
     a \<leftarrow> sl_range 0 8 fd;
     b \<leftarrow> sl_range 8 16 fd;
     Some \<lparr>Persistent = vis a, Volatile = vis b\<rparr> }"

definition IsInvalidFileId :: "FileId \<Rightarrow> bool" where
  "IsInvalidFileId f \<longleftrightarrow> Persistent f = replicate 8 0xFF \<and> Volatile f = replicate 8 0xFF"

definition IsEA :: "string \<Rightarrow> bool" where
  "IsEA s \<longleftrightarrow> CHR 0x3A \<in> set s"

definition SplitEA :: "string \<Rightarrow> (string \<times> string) option" where
  "SplitEA s = (let a = str_split (CHR 0x3A) s in if length a < 2 then None else Some (a ! 0, a ! 1))"

definition ContainsWildcard :: "string \<Rightarrow> bool" where
  "ContainsWildcard s \<longleftrightarrow> CHR 0x2A \<in> set s \<or> CHR 0x3F \<in> set s"

definition wildcardToRegexp :: "string \<Rightarrow> string" where
  "wildcardToRegexp pattern =
     CHR 0x5E # replace_str (CHR 0x2A) ''.*'' (replace_str (CHR 0x3F) ''.'' pattern) @ ''$''"

text \<open>\<^verbatim>\<open>regexp.Compile\<close> and \<^verbatim>\<open>MatchString\<close> are the argument \<open>rx\<close>: \<open>None\<close> when the expression does not compile.\<close>

type_synonym regexp = "string \<Rightarrow> (string \<Rightarrow> bool) option"

definition MatchWildcard :: "regexp \<Rightarrow> string \<Rightarrow> string \<Rightarrow> bool" where
  "MatchWildcard rx s pattern =
     (case rx (wildcardToRegexp pattern) of None \<Rightarrow> False | Some m \<Rightarrow> m s)"

end
