(* ===== verification/Info.thy ===== *)
theory Info
  imports Attr Utf16
begin

section \<open>Information classes\<close>

text \<open>
  \<^verbatim>\<open>smb/server/info_fs.go\<close>: the structures that directory listings and information queries return,
  as the runs of fields that their encoders store in a buffer of \<^verbatim>\<open>Size()\<close> zero bytes, and the
  decoders of what a client sets.  \<open>name_len\<close> and \<open>name_bytes\<close> are \<^verbatim>\<open>utf16le.EncodedStringLen\<close> and the
  bytes that \<^verbatim>\<open>utf16le.EncodeString\<close> stores.
\<close>

abbreviation name_len :: "string \<Rightarrow> nat" where "name_len \<equiv> EncodedStringLen"

definition name_bytes :: "string \<Rightarrow> byte list" where
  "name_bytes s = word_bytes (utf16_Encode (runes s))"

definition align8 :: "nat \<Rightarrow> nat" where
  "align8 n = nat (Align (int n) 8)"

definition ft_field :: "nat \<Rightarrow> Filetime \<Rightarrow> fields" where
  "ft_field off t = [(off, le_enc 4 (LowDateTime t)), (off + 4, le_enc 4 (HighDateTime t))]"

definition shifted :: "nat \<Rightarrow> fields \<Rightarrow> fields" where
  "shifted off fs = map (\<lambda>(o1, bs). (off + o1, bs)) fs"

definition name_field :: "nat \<Rightarrow> string \<Rightarrow> fields" where
  "name_field off s = [(off, name_bytes s)]"

abbreviation le32 :: "u32 \<Rightarrow> byte list" where "le32 v \<equiv> le_enc 4 v"
abbreviation le64 :: "u64 \<Rightarrow> byte list" where "le64 v \<equiv> le_enc 8 v"
abbreviation le16 :: "u16 \<Rightarrow> byte list" where "le16 v \<equiv> le_enc 2 v"

subsection \<open>Entries of a directory\<close>

text \<open>What all entries have; \<^verbatim>\<open>NextEntryOffset\<close> is zero until the list is encoded.\<close>

record entry =
  e_FileIndex :: u32
  e_CreationTime :: Filetime
  e_LastAccessTime :: Filetime
  e_LastWriteTime :: Filetime
  e_ChangeTime :: Filetime
  e_EndOfFile :: u64
  e_AllocationSize :: u64
  e_FileAttributes :: u32
  e_FileName :: string

text \<open>
  The fields behind are: \<^verbatim>\<open>EaSize\<close> (\<^verbatim>\<open>MaxAccess\<close> for \<open>FileIdBoth2\<close>), \<^verbatim>\<open>FileId\<close>, \<^verbatim>\<open>UnixMode\<close>; for a POSIX
  entry \<^verbatim>\<open>Inode\<close>, \<^verbatim>\<open>HardLinks\<close>, \<^verbatim>\<open>ReparseTag\<close>, \<^verbatim>\<open>Mode\<close>, \<^verbatim>\<open>OwnerSid\<close>, \<^verbatim>\<open>GroupSid\<close>.
\<close>

datatype dir_item =
    FileDirectoryInformationInfo entry
  | FileFullDirectoryInformationInfo entry u32
  | FileIdFullDirectoryInformationInfo entry u32 u64
  | FileBothDirectoryInformationInfo entry u32
  | FileIdBothDirectoryInformationInfo entry u32 u64
  | FileIdBothDirectoryInformationInfo2 entry u32 u64 u16
  | FileIdAllExtdBothDirectoryInformationInfo entry u32 u64
  | FileNamesInformationInfo string
  | FilePosixDirectoryInformationInfo entry u64 u32 u32 u32 "byte list" "byte list"

definition entry_fields :: "entry \<Rightarrow> fields" where
  "entry_fields e = [(0, le32 0), (4, le32 (e_FileIndex e))] @ ft_field 8 (e_CreationTime e)
     @ ft_field 16 (e_LastAccessTime e) @ ft_field 24 (e_LastWriteTime e) @ ft_field 32 (e_ChangeTime e)
     @ [(40, le64 (e_EndOfFile e)), (48, le64 (e_AllocationSize e)), (56, le32 (e_FileAttributes e))]"

definition name_len_field :: "nat \<Rightarrow> string \<Rightarrow> fields" where
  "name_len_field off s = [(off, le32 (of_nat (name_len s)))]"

definition FileDirectory_Size :: "entry \<Rightarrow> nat" where
  "FileDirectory_Size e = align8 (64 + name_len (e_FileName e))"

definition FileDirectory_Encode :: "entry \<Rightarrow> fields" where
  "FileDirectory_Encode e = entry_fields e @ name_len_field 60 (e_FileName e) @ name_field 64 (e_FileName e)"

definition FileFullDirectory_Size :: "entry \<Rightarrow> nat" where
  "FileFullDirectory_Size e = align8 (68 + name_len (e_FileName e))"

definition FileFullDirectory_Encode :: "entry \<Rightarrow> u32 \<Rightarrow> fields" where
  "FileFullDirectory_Encode e ea = entry_fields e @ name_len_field 60 (e_FileName e) @ [(64, le32 ea)]
     @ name_field 68 (e_FileName e)"

definition FileIdFullDirectory_Size :: "entry \<Rightarrow> nat" where
  "FileIdFullDirectory_Size e = align8 (80 + name_len (e_FileName e))"

definition FileIdFullDirectory_Encode :: "entry \<Rightarrow> u32 \<Rightarrow> u64 \<Rightarrow> fields" where
  "FileIdFullDirectory_Encode e ea fid = entry_fields e @ name_len_field 60 (e_FileName e)
     @ [(64, le32 ea), (72, le64 fid)] @ name_field 80 (e_FileName e)"

definition FileBothDirectory_Size :: "entry \<Rightarrow> nat" where
  "FileBothDirectory_Size e = align8 (82 + name_len (e_FileName e))"

definition FileBothDirectory_Encode :: "entry \<Rightarrow> u32 \<Rightarrow> fields" where
  "FileBothDirectory_Encode e ea = entry_fields e @ name_len_field 60 (e_FileName e) @ [(64, le32 ea)]
     @ name_field 82 (e_FileName e)"

definition FileIdBothDirectory_Size :: "entry \<Rightarrow> nat" where
  "FileIdBothDirectory_Size e = align8 (104 + name_len (e_FileName e))"

definition FileIdBothDirectory_Encode :: "entry \<Rightarrow> u32 \<Rightarrow> u64 \<Rightarrow> fields" where
  "FileIdBothDirectory_Encode e ea fid = entry_fields e @ name_len_field 60 (e_FileName e)
     @ [(64, le32 ea), (96, le64 fid)] @ name_field 104 (e_FileName e)"

text \<open>The short name length, the resource fork and the Finder information stay zero.\<close>

definition FileIdBothDirectory2_Encode :: "entry \<Rightarrow> u32 \<Rightarrow> u64 \<Rightarrow> u16 \<Rightarrow> fields" where
  "FileIdBothDirectory2_Encode e acc fid mode = entry_fields e @ name_len_field 60 (e_FileName e)
     @ [(64, le32 acc), (68, [0]), (70, le64 0), (78, zeros 16), (94, le16 mode), (96, le64 fid)]
     @ name_field 104 (e_FileName e)"

definition FileIdAllExtdBothDirectory_Size :: "entry \<Rightarrow> nat" where
  "FileIdAllExtdBothDirectory_Size e = align8 (122 + name_len (e_FileName e))"

definition FileIdAllExtdBothDirectory_Encode :: "entry \<Rightarrow> u32 \<Rightarrow> u64 \<Rightarrow> fields" where
  "FileIdAllExtdBothDirectory_Encode e ea fid = entry_fields e @ name_len_field 60 (e_FileName e)
     @ [(64, le32 ea), (68, le32 0), (72, le64 fid), (80, le64 0), (88, le64 0), (96, [0]), (97, [0]), (98, zeros 24)]
     @ name_field 122 (e_FileName e)"

definition FileNames_Size :: "string \<Rightarrow> nat" where
  "FileNames_Size s = align8 (12 + name_len s)"

definition FileNames_Encode :: "string \<Rightarrow> fields" where
  "FileNames_Encode s = [(0, le32 0), (4, le64 0)] @ name_len_field 8 s @ name_field 12 s"

definition FilePosixDirectory_Size :: "entry \<Rightarrow> byte list \<Rightarrow> byte list \<Rightarrow> nat" where
  "FilePosixDirectory_Size e ow gr = align8 (88 + length ow + length gr + 4 + name_len (e_FileName e))"

definition FilePosixDirectory_Encode ::
    "entry \<Rightarrow> u64 \<Rightarrow> u32 \<Rightarrow> u32 \<Rightarrow> u32 \<Rightarrow> byte list \<Rightarrow> byte list \<Rightarrow> fields" where
  "FilePosixDirectory_Encode e ino links tag mode ow gr = entry_fields e
     @ [(60, le64 ino), (68, le32 0), (72, le32 0), (76, le32 links), (80, le32 tag), (84, le32 mode),
        (88, ow), (88 + length ow, gr)]
     @ name_len_field (88 + length ow + length gr) (e_FileName e)
     @ name_field (88 + length ow + length gr + 4) (e_FileName e)"

fun item_Size :: "dir_item \<Rightarrow> nat" where
  "item_Size (FileDirectoryInformationInfo e) = FileDirectory_Size e"
| "item_Size (FileFullDirectoryInformationInfo e ea) = FileFullDirectory_Size e"
| "item_Size (FileIdFullDirectoryInformationInfo e ea fid) = FileIdFullDirectory_Size e"
| "item_Size (FileBothDirectoryInformationInfo e ea) = FileBothDirectory_Size e"
| "item_Size (FileIdBothDirectoryInformationInfo e ea fid) = FileIdBothDirectory_Size e"
| "item_Size (FileIdBothDirectoryInformationInfo2 e acc fid mode) = FileIdBothDirectory_Size e"
| "item_Size (FileIdAllExtdBothDirectoryInformationInfo e ea fid) = FileIdAllExtdBothDirectory_Size e"
| "item_Size (FileNamesInformationInfo s) = FileNames_Size s"
| "item_Size (FilePosixDirectoryInformationInfo e ino links tag mode ow gr) = FilePosixDirectory_Size e ow gr"

fun item_Encode :: "dir_item \<Rightarrow> fields" where
  "item_Encode (FileDirectoryInformationInfo e) = FileDirectory_Encode e"
| "item_Encode (FileFullDirectoryInformationInfo e ea) = FileFullDirectory_Encode e ea"
| "item_Encode (FileIdFullDirectoryInformationInfo e ea fid) = FileIdFullDirectory_Encode e ea fid"
| "item_Encode (FileBothDirectoryInformationInfo e ea) = FileBothDirectory_Encode e ea"
| "item_Encode (FileIdBothDirectoryInformationInfo e ea fid) = FileIdBothDirectory_Encode e ea fid"
| "item_Encode (FileIdBothDirectoryInformationInfo2 e acc fid mode) = FileIdBothDirectory2_Encode e acc fid mode"
| "item_Encode (FileIdAllExtdBothDirectoryInformationInfo e ea fid) = FileIdAllExtdBothDirectory_Encode e ea fid"
| "item_Encode (FileNamesInformationInfo s) = FileNames_Encode s"
| "item_Encode (FilePosixDirectoryInformationInfo e ino links tag mode ow gr) =
     FilePosixDirectory_Encode e ino links tag mode ow gr"

text \<open>\<^verbatim>\<open>FileInformationInfoResponse\<close>: the items one after another, each with the offset of the next.\<close>

definition items_Size :: "dir_item list \<Rightarrow> nat" where
  "items_Size is = sum_list (map item_Size is)"

fun items_Encode :: "nat \<Rightarrow> dir_item list \<Rightarrow> fields" where
  "items_Encode off [] = []"
| "items_Encode off (i # is) = shifted off (item_Encode i)
     @ (off, le32 (of_nat (if is = [] then 0 else item_Size i))) # items_Encode (off + item_Size i) is"

subsection \<open>Information about one file\<close>

text \<open>The pieces of \<^verbatim>\<open>FileAllInformationInfo\<close>, in their order.\<close>

record all_info =
  ai_CreationTime :: Filetime
  ai_LastAccessTime :: Filetime
  ai_LastWriteTime :: Filetime
  ai_ChangeTime :: Filetime
  ai_FileAttributes :: u32
  ai_AllocationSize :: u64
  ai_EndOfFile :: u64
  ai_NumberOfLinks :: u32
  ai_DeletePending :: byte
  ai_Directory :: byte
  ai_IndexNumber :: u64
  ai_EaSize :: u32
  ai_AccessFlags :: u32
  ai_CurrentByteOffset :: u64
  ai_Mode :: u32
  ai_AlignmentRequirement :: u32
  ai_FileName :: string

definition FileBasic_Encode :: "Filetime \<Rightarrow> Filetime \<Rightarrow> Filetime \<Rightarrow> Filetime \<Rightarrow> u32 \<Rightarrow> fields" where
  "FileBasic_Encode ct at wt ht attrs = ft_field 0 ct @ ft_field 8 at @ ft_field 16 wt @ ft_field 24 ht @ [(32, le32 attrs)]"

definition FileStandard_Encode :: "u64 \<Rightarrow> u64 \<Rightarrow> u32 \<Rightarrow> byte \<Rightarrow> byte \<Rightarrow> fields" where
  "FileStandard_Encode al eof links del dir = [(0, le64 al), (8, le64 eof), (16, le32 links), (20, [del]), (21, [dir])]"

definition FileName_Size :: "string \<Rightarrow> nat" where
  "FileName_Size s = name_len s + 4"

definition FileName_Encode :: "string \<Rightarrow> fields" where
  "FileName_Encode s = name_len_field 0 s @ name_field 4 s"

definition FileAll_Size :: "all_info \<Rightarrow> nat" where
  "FileAll_Size i = 40 + 24 + 8 + 4 + 4 + 8 + 4 + 4 + FileName_Size (ai_FileName i)"

definition FileAll_Encode :: "all_info \<Rightarrow> fields" where
  "FileAll_Encode i =
     FileBasic_Encode (ai_CreationTime i) (ai_LastAccessTime i) (ai_LastWriteTime i) (ai_ChangeTime i) (ai_FileAttributes i)
     @ shifted 40 (FileStandard_Encode (ai_AllocationSize i) (ai_EndOfFile i) (ai_NumberOfLinks i)
         (ai_DeletePending i) (ai_Directory i))
     @ [(64, le64 (ai_IndexNumber i)), (72, le32 (ai_EaSize i)), (76, le32 (ai_AccessFlags i)),
        (80, le64 (ai_CurrentByteOffset i)), (88, le32 (ai_Mode i)), (92, le32 (ai_AlignmentRequirement i))]
     @ shifted 96 (FileName_Encode (ai_FileName i))"

definition FileNetworkOpen_Encode :: "Filetime \<Rightarrow> Filetime \<Rightarrow> Filetime \<Rightarrow> Filetime \<Rightarrow> u64 \<Rightarrow> u64 \<Rightarrow> u32 \<Rightarrow> fields" where
  "FileNetworkOpen_Encode ct at wt ht al eof attrs = ft_field 0 ct @ ft_field 8 at @ ft_field 16 wt @ ft_field 24 ht
     @ [(32, le64 al), (40, le64 eof), (48, le32 attrs)]"

text \<open>Streams: size, allocated size, name.\<close>

type_synonym stream_item = "u64 \<times> u64 \<times> string"

definition FileStream_Size :: "stream_item \<Rightarrow> nat" where
  "FileStream_Size i = nat (Roundup (24 + int (name_len (snd (snd i)))) 8)"

definition FileStream_Encode :: "u32 \<Rightarrow> stream_item \<Rightarrow> fields" where
  "FileStream_Encode nxt i = (0, le32 nxt) # name_len_field 4 (snd (snd i)) @ [(8, le64 (fst i)), (16, le64 (fst (snd i)))]
     @ name_field 24 (snd (snd i))"

definition streams_Size :: "stream_item list \<Rightarrow> nat" where
  "streams_Size is = sum_list (map FileStream_Size is)"

fun streams_Encode :: "nat \<Rightarrow> stream_item list \<Rightarrow> fields" where
  "streams_Encode off [] = []"
| "streams_Encode off (i # is) =
     (let nxt = (if is = [] then 0 else of_nat (FileStream_Size i)) in
      shifted off (FileStream_Encode nxt i) @ streams_Encode (off + unat nxt) is)"

record posix_info =
  pi_CreationTime :: Filetime
  pi_LastAccessTime :: Filetime
  pi_LastWriteTime :: Filetime
  pi_ChangeTime :: Filetime
  pi_EndOfFile :: u64
  pi_AllocationSize :: u64
  pi_DosAttributes :: u32
  pi_Inode :: u64
  pi_HardLinks :: u32
  pi_ReparseTag :: u32
  pi_Mode :: u32
  pi_OwnerSid :: "byte list"
  pi_GroupSid :: "byte list"

definition PosixFile_Size :: "posix_info \<Rightarrow> nat" where
  "PosixFile_Size i = 80 + max 40 (length (pi_OwnerSid i) + length (pi_GroupSid i))"

definition PosixFile_Encode :: "posix_info \<Rightarrow> fields" where
  "PosixFile_Encode i = ft_field 0 (pi_CreationTime i) @ ft_field 8 (pi_LastAccessTime i) @ ft_field 16 (pi_LastWriteTime i)
     @ ft_field 24 (pi_ChangeTime i)
     @ [(32, le64 (pi_EndOfFile i)), (40, le64 (pi_AllocationSize i)), (48, le32 (pi_DosAttributes i)), (52, le64 (pi_Inode i)),
        (60, le32 0), (64, le32 0), (68, le32 (pi_HardLinks i)), (72, le32 (pi_ReparseTag i)), (76, le32 (pi_Mode i)),
        (80, zeros 40), (80, pi_OwnerSid i), (80 + length (pi_OwnerSid i), pi_GroupSid i)]"

subsection \<open>Information about a file system\<close>

definition FsVolume_Size :: "string \<Rightarrow> nat" where
  "FsVolume_Size label = align8 (18 + name_len label)"

definition FsVolume_Encode :: "string \<Rightarrow> fields" where
  "FsVolume_Encode label = ft_field 0 zero_Filetime @ [(8, le32 0)] @ name_len_field 12 label @ name_field 18 label"

definition FsSize_Encode :: "u64 \<Rightarrow> u64 \<Rightarrow> u32 \<Rightarrow> u32 \<Rightarrow> fields" where
  "FsSize_Encode tot avail spau bps = [(0, le64 tot), (8, le64 avail), (16, le32 spau), (20, le32 bps)]"

definition FsDevice_Encode :: "u32 \<Rightarrow> u32 \<Rightarrow> fields" where
  "FsDevice_Encode ty ch = [(0, le32 ty), (4, le32 ch)]"

definition FsAttribute_Size :: "string \<Rightarrow> nat" where
  "FsAttribute_Size name = align8 (12 + name_len name)"

definition FsAttribute_Encode :: "u32 \<Rightarrow> u32 \<Rightarrow> string \<Rightarrow> fields" where
  "FsAttribute_Encode attrs mx name = [(0, le32 attrs), (4, le32 mx)] @ name_len_field 8 name @ name_field 12 name"

text \<open>The third field is stored at 18, over the two bytes behind it.\<close>

definition FsFullSize_Encode :: "u64 \<Rightarrow> u64 \<Rightarrow> u64 \<Rightarrow> u32 \<Rightarrow> u32 \<Rightarrow> fields" where
  "FsFullSize_Encode tot caller actual spau bps =
     [(0, le64 tot), (8, le64 caller), (18, le64 actual), (24, le32 spau), (28, le32 bps)]"

definition FsSectorSize_Encode :: "u32 \<Rightarrow> u32 \<Rightarrow> u32 \<Rightarrow> u32 \<Rightarrow> u32 \<Rightarrow> u32 \<Rightarrow> u32 \<Rightarrow> fields" where
  "FsSectorSize_Encode a b c1 d e f g =
     [(0, le32 a), (4, le32 b), (8, le32 c1), (12, le32 d), (16, le32 e), (20, le32 f), (24, le32 g)]"

definition FsPosix_Encode :: "u32 \<Rightarrow> u32 \<Rightarrow> u64 \<Rightarrow> u64 \<Rightarrow> u64 \<Rightarrow> u64 \<Rightarrow> u64 \<Rightarrow> u64 \<Rightarrow> fields" where
  "FsPosix_Encode opt bs tot avail user nodes free ident =
     [(0, le32 opt), (4, le32 bs), (8, le64 tot), (16, le64 avail), (24, le64 user), (32, le64 nodes),
      (40, le64 free), (48, le64 ident)]"

definition ObjectId_Encode :: "byte list \<Rightarrow> byte list \<Rightarrow> byte list \<Rightarrow> byte list \<Rightarrow> fields" where
  "ObjectId_Encode oid vol birth dmn = [(0, oid), (16, vol), (32, birth), (48, dmn)]"

subsection \<open>Answers to an information query\<close>

datatype info =
    FileAllInformationInfo all_info
  | FileBasicInformationInfo Filetime Filetime Filetime Filetime u32
  | FileStandardInformationInfo u64 u64 u32 byte byte
  | FileEaInformationInfo u32
  | FileStreamInformationInfoItems "stream_item list"
  | FileNetworkOpenInformationInfo Filetime Filetime Filetime Filetime u64 u64 u32
  | FileNormalizedNameInformationInfo string
  | FileInternalInformationInfo u64
  | PosixFileInfo posix_info
  | FileFsVolumeInformationInfo string
  | FileFsSizeInformationInfo u64 u64 u32 u32
  | FileFsDeviceInformationInfo u32 u32
  | FileFsAttributeInformationInfo u32 u32 string
  | FileFsFullSizeInformationInfo u64 u64 u64 u32 u32
  | FileFsSectorSizeInformationInfo u32 u32 u32 u32 u32 u32 u32
  | FileObjectId1 "byte list" "byte list" "byte list" "byte list"
  | FileFsPosixInformationInfo u32 u32 u64 u64 u64 u64 u64 u64

fun info_Size :: "info \<Rightarrow> nat" where
  "info_Size (FileAllInformationInfo i) = FileAll_Size i"
| "info_Size (FileBasicInformationInfo ct at wt ht attrs) = 40"
| "info_Size (FileStandardInformationInfo al eof links del dir) = 24"
| "info_Size (FileEaInformationInfo n) = 4"
| "info_Size (FileStreamInformationInfoItems is) = streams_Size is"
| "info_Size (FileNetworkOpenInformationInfo ct at wt ht al eof attrs) = 56"
| "info_Size (FileNormalizedNameInformationInfo s) = FileName_Size s"
| "info_Size (FileInternalInformationInfo n) = 8"
| "info_Size (PosixFileInfo i) = PosixFile_Size i"
| "info_Size (FileFsVolumeInformationInfo label) = FsVolume_Size label"
| "info_Size (FileFsSizeInformationInfo a b d e) = 24"
| "info_Size (FileFsDeviceInformationInfo a b) = 8"
| "info_Size (FileFsAttributeInformationInfo a b name) = FsAttribute_Size name"
| "info_Size (FileFsFullSizeInformationInfo a b d e f) = 32"
| "info_Size (FileFsSectorSizeInformationInfo a b d e f g h) = 28"
| "info_Size (FileObjectId1 a b d e) = 64"
| "info_Size (FileFsPosixInformationInfo a b d e f g h i) = 56"

fun info_fields :: "info \<Rightarrow> fields" where
  "info_fields (FileAllInformationInfo i) = FileAll_Encode i"
| "info_fields (FileBasicInformationInfo ct at wt ht attrs) = FileBasic_Encode ct at wt ht attrs"
| "info_fields (FileStandardInformationInfo al eof links del dir) = FileStandard_Encode al eof links del dir"
| "info_fields (FileEaInformationInfo n) = [(0, le32 n)]"
| "info_fields (FileStreamInformationInfoItems is) = streams_Encode 0 is"
| "info_fields (FileNetworkOpenInformationInfo ct at wt ht al eof attrs) = FileNetworkOpen_Encode ct at wt ht al eof attrs"
| "info_fields (FileNormalizedNameInformationInfo s) = FileName_Encode s"
| "info_fields (FileInternalInformationInfo n) = [(0, le64 n)]"
| "info_fields (PosixFileInfo i) = PosixFile_Encode i"
| "info_fields (FileFsVolumeInformationInfo label) = FsVolume_Encode label"
| "info_fields (FileFsSizeInformationInfo a b d e) = FsSize_Encode a b d e"
| "info_fields (FileFsDeviceInformationInfo a b) = FsDevice_Encode a b"
| "info_fields (FileFsAttributeInformationInfo a b name) = FsAttribute_Encode a b name"
| "info_fields (FileFsFullSizeInformationInfo a b d e f) = FsFullSize_Encode a b d e f"
| "info_fields (FileFsSectorSizeInformationInfo a b d e f g h) = FsSectorSize_Encode a b d e f g h"
| "info_fields (FileObjectId1 a b d e) = ObjectId_Encode a b d e"
| "info_fields (FileFsPosixInformationInfo a b d e f g h i) = FsPosix_Encode a b d e f g h i"

definition info_Encode :: "info \<Rightarrow> byte list option" where
  "info_Encode i = puts (info_fields i) (zeros (info_Size i))"

definition listing_Encode :: "dir_item list \<Rightarrow> byte list option" where
  "listing_Encode is = puts (items_Encode 0 is) (zeros (items_Size is))"

subsection \<open>What a client sets\<close>

definition FileBasicInformation_LastAccessTime :: "slice \<Rightarrow> Filetime option" where
  "FileBasicInformation_LastAccessTime f = do { t \<leftarrow> sl_range 8 16 f; FiletimeDecoder_Decode t }"

definition FileBasicInformation_LastWriteTime :: "slice \<Rightarrow> Filetime option" where
  "FileBasicInformation_LastWriteTime f = do { t \<leftarrow> sl_range 16 24 f; FiletimeDecoder_Decode t }"

definition FileBasicInformation_ChangeTime :: "slice \<Rightarrow> Filetime option" where
  "FileBasicInformation_ChangeTime f = do { t \<leftarrow> sl_range 24 32 f; FiletimeDecoder_Decode t }"

definition FileBasicInformation_CreationTime :: "slice \<Rightarrow> Filetime option" where
  "FileBasicInformation_CreationTime f = do { t \<leftarrow> sl_range 0 8 f; FiletimeDecoder_Decode t }"

definition FileEndOfFileInformation_EndOfFile :: "slice \<Rightarrow> u64 option" where
  "FileEndOfFileInformation_EndOfFile f = u64_in 0 8 f"

definition FileDispositionInformation_DeletePending :: "slice \<Rightarrow> byte option" where
  "FileDispositionInformation_DeletePending f = sl_at 0 f"

definition FileRenameInformation_ReplaceIfExists :: "slice \<Rightarrow> byte option" where
  "FileRenameInformation_ReplaceIfExists f = sl_at 0 f"

definition FileRenameInformation_RootDirectory :: "slice \<Rightarrow> u64 option" where
  "FileRenameInformation_RootDirectory f = u64_in 8 16 f"

definition FileRenameInformation_FileNameLength :: "slice \<Rightarrow> u32 option" where
  "FileRenameInformation_FileNameLength f = u32_in 16 20 f"

definition FileRenameInformation_FileName :: "slice \<Rightarrow> string option" where
  "FileRenameInformation_FileName f = do {
     n \<leftarrow> FileRenameInformation_FileNameLength f;
     s \<leftarrow> sl_range 20 (unat (20 + n)) f;
     Some (DecodeToString (vis s)) }"

subsection \<open>Change notifications and Finder information\<close>

type_synonym notification = "u32 \<times> string"

definition FileNotify_Size :: "notification \<Rightarrow> nat" where
  "FileNotify_Size i = 12 + name_len (snd i)"

definition FileNotify_Encode :: "u32 \<Rightarrow> notification \<Rightarrow> fields" where
  "FileNotify_Encode nxt i = [(0, le32 nxt), (4, le32 (fst i))] @ name_len_field 8 (snd i) @ name_field 12 (snd i)"

definition pad4 :: "nat \<Rightarrow> nat" where
  "pad4 n = nat ((int n + 3) AND NOT 3)"

fun notifications_Size :: "notification list \<Rightarrow> nat" where
  "notifications_Size [] = 0"
| "notifications_Size (i # is) = (if is = [] then FileNotify_Size i else pad4 (FileNotify_Size i)) + notifications_Size is"

fun notifications_Encode :: "nat \<Rightarrow> notification list \<Rightarrow> fields" where
  "notifications_Encode off [] = []"
| "notifications_Encode off (i # is) =
     (let s = FileNotify_Size i;
          padded = (if is = [] then s else pad4 s)
      in shifted off (FileNotify_Encode (if is = [] then 0 else of_nat padded) i)
         @ (off + s, zeros (padded - s)) # notifications_Encode (off + padded) is)"

definition AfpInfo_Encode :: "byte list \<Rightarrow> byte list \<Rightarrow> fields" where
  "AfpInfo_Encode sig finder = [(0, sig), (4, zeros 4), (8, zeros 2), (12, finder), (44, zeros 6)]"

subsection \<open>Reparse data (fscc.go)\<close>

definition SymlinkReparse_Size :: "string \<Rightarrow> string \<Rightarrow> nat" where
  "SymlinkReparse_Size subst printed = 20 + name_len subst + name_len printed"

definition SymlinkReparse_Encode :: "u32 \<Rightarrow> string \<Rightarrow> string \<Rightarrow> nat \<Rightarrow> fields" where
  "SymlinkReparse_Encode fl subst printed n =
     (let s = length (name_bytes subst);
          t = length (name_bytes printed)
      in [(20, name_bytes subst), (20 + s, name_bytes printed), (0, le32 IO_REPARSE_TAG_SYMLINK),
          (4, le16 (of_nat (n - 8))), (8, le16 0), (10, le16 (of_nat s)), (14, le16 (of_nat t)),
          (12, le16 (of_nat s)), (16, le32 fl)])"

definition SymlinkReparse_ReparseTag :: "slice \<Rightarrow> u32 option" where
  "SymlinkReparse_ReparseTag r = u32_in 0 4 r"

definition SymlinkReparse_ReparseDataLength :: "slice \<Rightarrow> u16 option" where
  "SymlinkReparse_ReparseDataLength r = u16_in 4 6 r"

definition SymlinkReparse_SubstituteNameOffset :: "slice \<Rightarrow> u16 option" where
  "SymlinkReparse_SubstituteNameOffset r = u16_in 8 10 r"

definition SymlinkReparse_SubstituteNameLength :: "slice \<Rightarrow> u16 option" where
  "SymlinkReparse_SubstituteNameLength r = u16_in 10 12 r"

definition SymlinkReparse_PrintNameOffset :: "slice \<Rightarrow> u16 option" where
  "SymlinkReparse_PrintNameOffset r = u16_in 12 14 r"

definition SymlinkReparse_PrintNameLength :: "slice \<Rightarrow> u16 option" where
  "SymlinkReparse_PrintNameLength r = u16_in 14 16 r"

definition SymlinkReparse_Flags :: "slice \<Rightarrow> u32 option" where
  "SymlinkReparse_Flags r = u32_in 16 20 r"

definition SymlinkReparse_PathBuffer :: "slice \<Rightarrow> slice option" where
  "SymlinkReparse_PathBuffer r = sl_from 20 r"

definition SymlinkReparse_IsInvalid :: "slice \<Rightarrow> bool option" where
  "SymlinkReparse_IsInvalid r =
     (if len r < 20 then Some True
      else do {
        tag \<leftarrow> SymlinkReparse_ReparseTag r;
        (if tag \<noteq> IO_REPARSE_TAG_SYMLINK then Some True
         else do {
           rlen \<leftarrow> map_option unat (SymlinkReparse_ReparseDataLength r);
           soff \<leftarrow> map_option unat (SymlinkReparse_SubstituteNameOffset r);
           slen \<leftarrow> map_option unat (SymlinkReparse_SubstituteNameLength r);
           poff \<leftarrow> map_option unat (SymlinkReparse_PrintNameOffset r);
           plen \<leftarrow> map_option unat (SymlinkReparse_PrintNameLength r);
           Some (odd soff \<or> odd poff \<or> len r < 8 + rlen \<or> rlen < 12 + soff + slen \<or> rlen < 12 + poff + plen) }) })"

text \<open>The bounds are computed in 16 bits; they cannot wrap for a valid buffer.\<close>

definition SymlinkReparse_SubstituteName :: "slice \<Rightarrow> string option" where
  "SymlinkReparse_SubstituteName r = do {
     off \<leftarrow> SymlinkReparse_SubstituteNameOffset r;
     n \<leftarrow> SymlinkReparse_SubstituteNameLength r;
     b \<leftarrow> SymlinkReparse_PathBuffer r;
     s \<leftarrow> sl_range (unat off) (unat (off + n)) b;
     Some (DecodeToString (vis s)) }"

definition SymlinkReparse_PrintName :: "slice \<Rightarrow> string option" where
  "SymlinkReparse_PrintName r = do {
     off \<leftarrow> SymlinkReparse_PrintNameOffset r;
     n \<leftarrow> SymlinkReparse_PrintNameLength r;
     b \<leftarrow> SymlinkReparse_PathBuffer r;
     s \<leftarrow> sl_range (unat off) (unat (off + n)) b;
     Some (DecodeToString (vis s)) }"

subsection \<open>Payloads of create contexts and error data (response.go, request.go)\<close>

definition MaximalAccess_Encode :: "u32 \<Rightarrow> u32 \<Rightarrow> byte list" where
  "MaximalAccess_Encode st acc = le32 st @ le32 acc"

definition AAPLServerQueryRequest_CommandCode :: "slice \<Rightarrow> u32 option" where
  "AAPLServerQueryRequest_CommandCode r = u32_from 0 r"

definition AAPLServerQuery_Size :: "string \<Rightarrow> nat" where
  "AAPLServerQuery_Size model = nat (Roundup (40 + int (name_len model)) 8)"

definition AAPLServerQuery_Encode :: "u32 \<Rightarrow> u64 \<Rightarrow> u64 \<Rightarrow> u64 \<Rightarrow> string \<Rightarrow> fields" where
  "AAPLServerQuery_Encode code bitmap caps volume model =
     [(0, le32 code), (8, le64 bitmap), (16, le64 caps), (24, le64 volume)]
     @ name_len_field 36 model @ name_field 40 model"

definition DiskId_Encode :: "u64 \<Rightarrow> u64 \<Rightarrow> byte list" where
  "DiskId_Encode disk vol = le64 disk @ le64 vol @ zeros 16"

definition PosixCreate_Encode :: "u32 \<Rightarrow> u32 \<Rightarrow> u32 \<Rightarrow> byte list \<Rightarrow> byte list \<Rightarrow> byte list" where
  "PosixCreate_Encode links tag mode ow gr = le32 links @ le32 tag @ le32 mode @ ow @ gr"

definition SmallBufferError_Encode :: "u32 \<Rightarrow> byte list" where
  "SmallBufferError_Encode n = le32 n"

definition SMB2_CREATE_TAG_POSIX :: "byte list" where
  "SMB2_CREATE_TAG_POSIX = [0x93, 0xAD, 0x25, 0x50, 0x9C, 0xB4, 0x11, 0xE7, 0xB4, 0x23, 0x83, 0xDE, 0x96, 0x8B, 0xCD, 0x7C]"

end
