(* ===== verification/Files.thy ===== *)
theory Files
  imports Info Frame
begin

section \<open>File trees: opening, reading, writing, closing\<close>

text \<open>
  The handlers of \<^verbatim>\<open>smb/server/file_tree.go\<close> for CREATE, CLOSE, FLUSH, READ, WRITE, LOCK, CANCEL and
  OPLOCK_BREAK, the table of open files of \<^verbatim>\<open>server.go\<close>, and the notification of watchers.  The file
  systems are behind the interface \<^verbatim>\<open>VFSFileSystem\<close> of \<^verbatim>\<open>smb/vfs/vfs.go\<close>: a record of operations on the
  state of all of them, whose first argument says which one.  A callback that only logs is left out.
\<close>

subsection \<open>The interface of a file system (vfs.go)\<close>

record 's vfs =
  v_BasePath :: "nat \<Rightarrow> 's \<Rightarrow> string"
  v_IsReadOnly :: "nat \<Rightarrow> 's \<Rightarrow> bool"
  v_GetAttr :: "nat \<Rightarrow> u64 \<Rightarrow> 's \<Rightarrow> (error + Attributes) \<times> 's"
  v_SetAttr :: "nat \<Rightarrow> u64 \<Rightarrow> Attributes \<Rightarrow> 's \<Rightarrow> error option \<times> 's"
  v_StatFS :: "nat \<Rightarrow> u64 \<Rightarrow> 's \<Rightarrow> (error + FSAttributes) \<times> 's"
  v_Flush :: "nat \<Rightarrow> u64 \<Rightarrow> 's \<Rightarrow> error option \<times> 's"
  v_Open :: "nat \<Rightarrow> string \<Rightarrow> u32 \<Rightarrow> u32 \<Rightarrow> 's \<Rightarrow> (error + u64) \<times> 's"
  v_Close :: "nat \<Rightarrow> u64 \<Rightarrow> 's \<Rightarrow> error option \<times> 's"
  v_Lookup :: "nat \<Rightarrow> u64 \<Rightarrow> string \<Rightarrow> 's \<Rightarrow> (error + Attributes) \<times> 's"
  v_Mkdir :: "nat \<Rightarrow> string \<Rightarrow> u32 \<Rightarrow> 's \<Rightarrow> error option \<times> 's"
  v_Read :: "nat \<Rightarrow> u64 \<Rightarrow> nat \<Rightarrow> u64 \<Rightarrow> 's \<Rightarrow> (byte list \<times> error option) \<times> 's"
  v_Write :: "nat \<Rightarrow> u64 \<Rightarrow> byte list \<Rightarrow> u64 \<Rightarrow> 's \<Rightarrow> (nat \<times> error option) \<times> 's"
  v_OpenDir :: "nat \<Rightarrow> string \<Rightarrow> 's \<Rightarrow> (error + u64) \<times> 's"
  v_ReadDir :: "nat \<Rightarrow> u64 \<Rightarrow> int \<Rightarrow> int \<Rightarrow> 's \<Rightarrow> (error + (string \<times> Attributes) list) \<times> 's"
  v_PutBackDirEntries :: "nat \<Rightarrow> u64 \<Rightarrow> (string \<times> Attributes) list \<Rightarrow> 's \<Rightarrow> 's"
  v_Readlink :: "nat \<Rightarrow> u64 \<Rightarrow> 's \<Rightarrow> (error + string) \<times> 's"
  v_Unlink :: "nat \<Rightarrow> u64 \<Rightarrow> 's \<Rightarrow> error option \<times> 's"
  v_Truncate :: "nat \<Rightarrow> u64 \<Rightarrow> u64 \<Rightarrow> 's \<Rightarrow> error option \<times> 's"
  v_Rename :: "nat \<Rightarrow> u64 \<Rightarrow> string \<Rightarrow> int \<Rightarrow> 's \<Rightarrow> error option \<times> 's"
  v_Symlink :: "nat \<Rightarrow> u64 \<Rightarrow> string \<Rightarrow> int \<Rightarrow> 's \<Rightarrow> error option \<times> 's"
  v_Listxattr :: "nat \<Rightarrow> u64 \<Rightarrow> 's \<Rightarrow> (error + string list) \<times> 's"
  v_Getxattr :: "nat \<Rightarrow> u64 \<Rightarrow> string \<Rightarrow> 's \<Rightarrow> (error + byte list) \<times> 's"
  v_Setxattr :: "nat \<Rightarrow> u64 \<Rightarrow> string \<Rightarrow> byte list \<Rightarrow> 's \<Rightarrow> error option \<times> 's"
  v_Removexattr :: "nat \<Rightarrow> u64 \<Rightarrow> string \<Rightarrow> 's \<Rightarrow> error option \<times> 's"

text \<open>
  A query of the size of an extended attribute (\<^verbatim>\<open>Getxattr\<close> with a \<^verbatim>\<open>nil\<close> buffer) is the length of its
  value.
\<close>

definition xattr_size :: "(error + byte list) \<times> 's \<Rightarrow> (error + nat) \<times> 's" where
  "xattr_size r = (case r of (Inl e, s) \<Rightarrow> (Inl e, s) | (Inr v, s) \<Rightarrow> (Inr (length v), s))"

subsection \<open>Open files (server.go)\<close>

record Open =
  o_fileId :: u64
  durableFileId :: u64
  o_conn :: "nat option"
  o_session :: "nat option"
  o_tree :: nat
  grantedAccess :: u32
  oplockLevel :: byte
  pathName :: string
  createOptions :: u32
  createDisposition :: u32
  fileAttributes :: u32
  isEa :: bool
  eaKey :: string
  isSymlink :: bool
  deleteAfterClose :: bool
  isDurable :: bool
  createGuid :: "byte list"
  notifyReq :: "byte list option"
  notifyReqAsyncId :: u64
  notifyCancel :: "bool option"
  notifyCh :: "(u32 \<times> string) list option"
  notifyWatchTree :: bool
  fsWatchPath :: string

text \<open>
  What the goroutine that a CHANGE_NOTIFY starts has captured: the open file, its handle, the id of
  the asynchronous request, the request, and where its answer goes.
\<close>

record notify_task =
  nt_open :: nat
  nt_handle :: u64
  nt_asyncId :: u64
  nt_request :: slice
  nt_tree :: treeConn
  nt_ctx :: "nat option"
  nt_conn :: nat

text \<open>
  \<^verbatim>\<open>notifyCancel\<close> is a channel of capacity one: \<open>Some True\<close> when a token is in it.  \<^verbatim>\<open>notifyCh\<close> holds at
  most 64 events.  What the server keeps beside what all handlers use:
\<close>

record ('a, 's) file_server = "'a server" +
  opens :: "u64 \<Rightarrow> nat option"
  open_objs :: "Open list"
  opensByGuid :: "(byte list \<Rightarrow> nat option) option"
  fsWatcher :: bool
  fsWatchRefs :: "string \<Rightarrow> int option"
  fsWatchRoot :: "string \<Rightarrow> string option"
  hideDotfiles :: bool
  xattrs :: bool
  ignoreSetAttrErr :: bool
  waiting :: "notify_task list"
  fs_state :: 's

text \<open>What file handlers are given: \<open>f_watch\<close> says which paths can be watched, \<open>f_pending\<close> is the world of interim responses.\<close>

record 's file_env =
  f_vfs :: "'s vfs"
  f_regexp :: regexp
  f_watch :: "string \<Rightarrow> bool"
  f_pending :: world

definition getOpen :: "u64 \<Rightarrow> ('a, 's) file_server \<Rightarrow> (nat \<times> Open) option" where
  "getOpen h srv = do { ptr \<leftarrow> opens srv h; o1 \<leftarrow> obj_deref ptr (open_objs srv); Some (ptr, o1) }"

text \<open>A durable open would be stored in a map that is \<^verbatim>\<open>nil\<close>.\<close>

definition addOpen :: "Open \<Rightarrow> ('a, 's) file_server \<Rightarrow> ('a, 's) file_server option" where
  "addOpen o1 srv =
     (let (ptr, objs) = obj_alloc o1 (open_objs srv);
          srv = srv\<lparr>open_objs := objs, opens := (opens srv)(o_fileId o1 := Some ptr)\<rparr>
      in if isDurable o1
         then map_option (\<lambda>m. srv\<lparr>opensByGuid := Some (m(createGuid o1 := Some ptr))\<rparr>) (opensByGuid srv)
         else Some srv)"

definition deleteOpen :: "u64 \<Rightarrow> ('a, 's) file_server \<Rightarrow> ('a, 's) file_server" where
  "deleteOpen h srv =
     (case getOpen h srv of
        None \<Rightarrow> srv
      | Some (ptr, o1) \<Rightarrow>
          let srv = srv\<lparr>opens := (opens srv)(h := None)\<rparr>
          in if isDurable o1 then srv\<lparr>opensByGuid := map_option (\<lambda>m. m(createGuid o1 := None)) (opensByGuid srv)\<rparr>
             else srv)"

definition modify_open :: "nat \<Rightarrow> (Open \<Rightarrow> Open) \<Rightarrow> ('a, 's) file_server \<Rightarrow> ('a, 's) file_server" where
  "modify_open ptr f srv = srv\<lparr>open_objs := obj_modify ptr f (open_objs srv)\<rparr>"

definition addFsWatch :: "'s file_env \<Rightarrow> string \<Rightarrow> string \<Rightarrow> ('a, 's) file_server \<Rightarrow> ('a, 's) file_server" where
  "addFsWatch fe realPath shareRoot srv =
     (if \<not> fsWatcher srv then srv
      else let n = (case fsWatchRefs srv realPath of None \<Rightarrow> 0 | Some n \<Rightarrow> n) + 1
        in if n = 1
           then if f_watch fe realPath
                then srv\<lparr>fsWatchRefs := (fsWatchRefs srv)(realPath \<mapsto> 1), fsWatchRoot := (fsWatchRoot srv)(realPath \<mapsto> shareRoot)\<rparr>
                else srv\<lparr>fsWatchRefs := (fsWatchRefs srv)(realPath := None), fsWatchRoot := (fsWatchRoot srv)(realPath := None)\<rparr>
           else srv\<lparr>fsWatchRefs := (fsWatchRefs srv)(realPath \<mapsto> n)\<rparr>)"

definition removeFsWatch :: "string \<Rightarrow> ('a, 's) file_server \<Rightarrow> ('a, 's) file_server" where
  "removeFsWatch realPath srv =
     (if \<not> fsWatcher srv then srv
      else let n = (case fsWatchRefs srv realPath of None \<Rightarrow> 0 | Some n \<Rightarrow> n) - 1
        in if n \<le> 0
           then srv\<lparr>fsWatchRefs := (fsWatchRefs srv)(realPath := None), fsWatchRoot := (fsWatchRoot srv)(realPath := None)\<rparr>
           else srv\<lparr>fsWatchRefs := (fsWatchRefs srv)(realPath \<mapsto> n)\<rparr>)"

subsection \<open>notifyChange\<close>

text \<open>Directory and base name of a path: what is before and behind the last slash.\<close>

definition parent_dir :: "string \<Rightarrow> string" where
  "parent_dir path = (if slash \<in> set path then butlast (rev (dropWhile (\<lambda>x. x \<noteq> slash) (rev path))) else [])"

definition base_name :: "string \<Rightarrow> string" where
  "base_name path = rev (takeWhile (\<lambda>x. x \<noteq> slash) (rev path))"

definition hidden_by_mac :: "string \<Rightarrow> bool" where
  "hidden_by_mac name \<longleftrightarrow> HasPrefix name ''._'' \<or> name = ''.DS_Store''"

definition open_dir :: "Open \<Rightarrow> string" where
  "open_dir o1 = (if pathName o1 = [slash] then [] else pathName o1)"

definition watches :: "Open \<Rightarrow> string \<Rightarrow> bool" where
  "watches o1 dir \<longleftrightarrow> open_dir o1 = dir \<or> notifyWatchTree o1 \<and> HasPrefix dir (open_dir o1)"

definition notify_open :: "string \<Rightarrow> u32 \<times> string \<Rightarrow> Open \<Rightarrow> Open" where
  "notify_open dir ev o1 =
     (case notifyCh o1 of
        None \<Rightarrow> o1
      | Some q \<Rightarrow> if watches o1 dir \<and> length q < 64 then o1\<lparr>notifyCh := Some (q @ [ev])\<rparr> else o1)"

text \<open>Only the opens in the table are notified.\<close>

definition notifyChange :: "string \<Rightarrow> u32 \<Rightarrow> ('a, 's) file_server \<Rightarrow> ('a, 's) file_server" where
  "notifyChange path action srv =
     (let dir = parent_dir path; name = base_name path in
      if hidden_by_mac name then srv
      else srv\<lparr>open_objs := map (\<lambda>i. let o1 = open_objs srv ! i in
             if opens srv (o_fileId o1) = Some i then notify_open dir (action, to_backslash name) o1 else o1)
           [0 ..< length (open_objs srv)]\<rparr>)"

text \<open>
  One event of the watcher of the operating system: what happened to a path.  The share is found by the
  directory, and those who watch that directory are notified.
\<close>

datatype fs_op = fs_Create | fs_Remove | fs_Write | fs_Rename

definition fs_action :: "fs_op set \<Rightarrow> u32 option" where
  "fs_action ops =
     (if fs_Create \<in> ops then Some 1 else if fs_Remove \<in> ops then Some 2 else if fs_Write \<in> ops then Some 3
      else if fs_Rename \<in> ops then Some 4 else None)"

definition watched_path :: "('a, 's) file_server \<Rightarrow> string \<Rightarrow> string option" where
  "watched_path srv name =
     (let dir = path_Dir name in
      case fsWatchRoot srv dir of
        None \<Rightarrow> None
      | Some root \<Rightarrow>
          if root = [] then None
          else map_option (\<lambda>rel. if rel = [dot] then path_Base name else rel @ slash # path_Base name) (path_Rel root dir))"

definition fs_event :: "string \<Rightarrow> fs_op set \<Rightarrow> ('a, 's) file_server \<Rightarrow> ('a, 's) file_server" where
  "fs_event name ops srv =
     (case (watched_path srv name, fs_action ops) of
        (Some path, Some action) \<Rightarrow> notifyChange path action srv
      | _ \<Rightarrow> srv)"

subsection \<open>What handlers share\<close>

type_synonym ('a, 's) file_outcome = "(error option \<times> ('a, 's) file_server \<times> conn) option"

definition file_tree :: "nat \<Rightarrow> conn \<Rightarrow> (treeConn \<times> nat \<times> bool) option" where
  "file_tree ptr cn =
     (case obj_deref ptr (tree_objs cn) of
        Some (FileTree tc fs op aapl rs ws) \<Rightarrow> Some (tc, fs, aapl)
      | _ \<Rightarrow> None)"

text \<open>\<^verbatim>\<open>t.session.conn\<close>: the tree of a connection that nobody logged in on has no session.\<close>

definition tree_session :: "treeConn \<Rightarrow> conn \<Rightarrow> session option" where
  "tree_session tc cn = do { ptr \<leftarrow> tc_session tc; obj_deref ptr (session_objs cn) }"

definition t_isUserReadOnly :: "'a env \<Rightarrow> treeConn \<Rightarrow> ('a, 'z) server_scheme \<Rightarrow> conn \<Rightarrow> bool" where
  "t_isUserReadOnly env tc srv cn =
     (case tree_session tc cn of None \<Rightarrow> False
      | Some s \<Rightarrow> isUserReadOnly (e_go env) (tables srv) (username s))"

definition t_isShareReadOnly :: "'s file_env \<Rightarrow> nat \<Rightarrow> ('a, 's) file_server \<Rightarrow> bool" where
  "t_isShareReadOnly fe fs srv = v_IsReadOnly (f_vfs fe) fs (fs_state srv)"

definition on_fs :: "('s \<Rightarrow> 'r \<times> 's) \<Rightarrow> ('a, 's) file_server \<Rightarrow> 'r \<times> ('a, 's) file_server" where
  "on_fs f srv = (let (r, s) = f (fs_state srv) in (r, srv\<lparr>fs_state := s\<rparr>))"

definition reply ::
    "'a env \<Rightarrow> slice \<Rightarrow> treeConn \<Rightarrow> nat option \<Rightarrow> u32 \<Rightarrow> Response \<Rightarrow> ('a, 'z) server_scheme \<Rightarrow> conn \<Rightarrow> ('a, 'z) outcome_of" where
  "reply env pkt tc cp status body srv cn = do {
     hdr \<leftarrow> PrepareResponse new_header pkt status;
     sent srv (sendPacket (e_world env) (hdr, body) (Some tc) cp cn) }"

definition reply_async ::
    "'a env \<Rightarrow> slice \<Rightarrow> treeConn \<Rightarrow> nat option \<Rightarrow> u64 \<Rightarrow> u32 \<Rightarrow> Response \<Rightarrow> ('a, 'z) server_scheme \<Rightarrow> conn \<Rightarrow> ('a, 'z) outcome_of" where
  "reply_async env pkt tc cp asyncId status body srv cn = do {
     hdr \<leftarrow> PrepareAsyncResponse new_header pkt asyncId status;
     sent srv (sendPacket (e_world env) (hdr, body) (Some tc) cp cn) }"

abbreviation deny where
  "deny env pkt tc cp status srv cn \<equiv> reply env pkt tc cp status (ErrorResponse None) srv cn"

text \<open>The file that a request is about: that of the chain it is in, if a CREATE came before.\<close>

definition ctx_fileId :: "nat option \<Rightarrow> conn \<Rightarrow> FileId option option" where
  "ctx_fileId cp cn = (case cp of None \<Rightarrow> Some None
     | Some ptr \<Rightarrow> do { x \<leftarrow> obj_deref ptr (compound_objs cn); Some (fileId x) })"

definition request_file :: "slice option \<Rightarrow> nat option \<Rightarrow> conn \<Rightarrow> FileId option" where
  "request_file fid cp cn = do {
     fd \<leftarrow> fid;
     f \<leftarrow> FileIdDecoder_Decode fd;
     x \<leftarrow> ctx_fileId cp cn;
     Some (case x of None \<Rightarrow> f | Some g \<Rightarrow> g) }"

definition fid_bytes :: "FileId \<Rightarrow> byte list" where
  "fid_bytes f = Persistent f @ Volatile f"

definition accepted :: "u16 \<Rightarrow> slice \<Rightarrow> slice option" where
  "accepted cmd pkt = map_option fst (accept cmd pkt)"

subsection \<open>create\<close>

abbreviation (input) "FILE_SUPERSEDE \<equiv> (0 :: u32)"
abbreviation (input) "FILE_OPEN \<equiv> (1 :: u32)"
abbreviation (input) "FILE_CREATE \<equiv> (2 :: u32)"
abbreviation (input) "FILE_OPEN_IF \<equiv> (3 :: u32)"
abbreviation (input) "FILE_OVERWRITE \<equiv> (4 :: u32)"
abbreviation (input) "FILE_OVERWRITE_IF \<equiv> (5 :: u32)"
abbreviation (input) "FILE_SUPERSEDED \<equiv> (0 :: u32)"
abbreviation (input) "FILE_OPENED \<equiv> (1 :: u32)"
abbreviation (input) "FILE_CREATED \<equiv> (2 :: u32)"
abbreviation (input) "FILE_OVERWRITTEN \<equiv> (3 :: u32)"
abbreviation (input) "FILE_DIRECTORY_FILE \<equiv> (1 :: u32)"
abbreviation (input) "FILE_DELETE_ON_CLOSE \<equiv> (0x1000 :: u32)"
abbreviation (input) "FILE_OPEN_REPARSE_POINT \<equiv> (0x200000 :: u32)"
abbreviation (input) "O_RDWR \<equiv> (2 :: u32)"
abbreviation (input) "O_CREATE \<equiv> (0x40 :: u32)"
abbreviation (input) "O_EXCL \<equiv> (0x80 :: u32)"
abbreviation (input) "O_TRUNC \<equiv> (0x200 :: u32)"
abbreviation (input) "O_PATH_NOFOLLOW \<equiv> (0x220000 :: u32)"

definition STATUS_PENDING :: u32 where "STATUS_PENDING = 0x103"
definition STATUS_OBJECT_NAME_EXISTS :: u32 where "STATUS_OBJECT_NAME_EXISTS = 0x40000000"
definition STATUS_NO_MORE_FILES :: u32 where "STATUS_NO_MORE_FILES = 0x80000006"
definition STATUS_INFO_LENGTH_MISMATCH :: u32 where "STATUS_INFO_LENGTH_MISMATCH = 0xC0000004"
definition STATUS_INVALID_HANDLE :: u32 where "STATUS_INVALID_HANDLE = 0xC0000008"
definition STATUS_NO_SUCH_FILE :: u32 where "STATUS_NO_SUCH_FILE = 0xC000000F"
definition STATUS_END_OF_FILE :: u32 where "STATUS_END_OF_FILE = 0xC0000011"
definition STATUS_BUFFER_TOO_SMALL :: u32 where "STATUS_BUFFER_TOO_SMALL = 0xC0000023"
definition STATUS_NO_EAS_ON_FILE :: u32 where "STATUS_NO_EAS_ON_FILE = 0xC0000052"
definition STATUS_DIRECTORY_NOT_EMPTY :: u32 where "STATUS_DIRECTORY_NOT_EMPTY = 0xC0000101"
definition STATUS_NOT_A_DIRECTORY :: u32 where "STATUS_NOT_A_DIRECTORY = 0xC0000103"
definition STATUS_CANCELLED :: u32 where "STATUS_CANCELLED = 0xC0000120"
definition STATUS_OPEN_FAILED :: u32 where "STATUS_OPEN_FAILED = 0xC0000136"
definition STATUS_IO_DEVICE_ERROR :: u32 where "STATUS_IO_DEVICE_ERROR = 0xC0000185"
definition STATUS_NOT_FOUND :: u32 where "STATUS_NOT_FOUND = 0xC0000225"

text \<open>What a disposition asks for: a refusal, or the action, the flags and whether to make a directory.\<close>

definition create_disposition :: "u32 \<Rightarrow> bool \<Rightarrow> bool \<Rightarrow> u32 + u32 \<times> u32 \<times> bool" where
  "create_disposition d fileExists createDir =
     (if d = FILE_OPEN_IF
      then Inr (if fileExists then FILE_OPENED else FILE_CREATED, O_CREATE, \<not> fileExists \<and> createDir)
      else if d = FILE_OPEN
      then if fileExists then Inr (FILE_OPENED, 0, False) else Inl STATUS_NO_SUCH_FILE
      else if d = FILE_CREATE
      then if fileExists then Inl STATUS_OBJECT_NAME_COLLISION else Inr (FILE_CREATED, O_CREATE OR O_EXCL, createDir)
      else if d = FILE_OVERWRITE
      then if fileExists then Inr (FILE_OVERWRITTEN, O_CREATE OR O_TRUNC, False) else Inl STATUS_NO_SUCH_FILE
      else if d = FILE_OVERWRITE_IF
      then Inr (if fileExists then FILE_OVERWRITTEN else FILE_CREATED, O_CREATE OR O_TRUNC, False)
      else if d = FILE_SUPERSEDE
      then Inr (if fileExists then FILE_SUPERSEDED else FILE_CREATED, O_CREATE OR O_TRUNC, False)
      else Inr (FILE_OPENED, 0, False))"

definition open_flags :: "u32 \<Rightarrow> u32 \<Rightarrow> bool \<Rightarrow> bool \<Rightarrow> bool \<Rightarrow> u32" where
  "open_flags flags access ea symlink reparse =
     (let fl = (if access AND (FILE_WRITE_DATA OR GENERIC_WRITE) \<noteq> 0 then flags OR O_RDWR else flags);
          fl = (if ea then 0 else fl)
      in if symlink then O_PATH_NOFOLLOW else if reparse then fl OR O_PATH_NOFOLLOW else fl)"

definition wants_write :: "u32 \<Rightarrow> bool" where
  "wants_write access \<longleftrightarrow> access AND (FILE_WRITE_DATA OR FILE_APPEND_DATA OR FILE_WRITE_ATTRIBUTES OR FILE_WRITE_EA
     OR DELETE OR WRITE_DAC OR WRITE_OWNER OR GENERIC_WRITE) \<noteq> 0"

text \<open>\<^verbatim>\<open>handleCreateEA\<close>: the status when it fails.\<close>

definition set_or :: "u32 \<Rightarrow> 's vfs \<Rightarrow> nat \<Rightarrow> u64 \<Rightarrow> string \<Rightarrow> 's \<Rightarrow> u32 option \<times> 's" where
  "set_or st V fs h key s = (case v_Setxattr V fs h key [] s of (None, s) \<Rightarrow> (None, s) | (Some e, s) \<Rightarrow> (Some st, s))"

definition handleCreateEA :: "'s vfs \<Rightarrow> nat \<Rightarrow> u32 \<Rightarrow> u64 \<Rightarrow> string \<Rightarrow> 's \<Rightarrow> u32 option \<times> 's" where
  "handleCreateEA V fs disp h key s =
     (if key = ''AFP_AfpInfo'' then (None, s)
      else if disp = FILE_OPEN_IF
      then case v_Getxattr V fs h key s of (Inr v, s) \<Rightarrow> (None, s) | (Inl e, s) \<Rightarrow> set_or STATUS_OPEN_FAILED V fs h key s
      else if disp = FILE_OPEN
      then case v_Getxattr V fs h key s of (Inr v, s) \<Rightarrow> (None, s)
           | (Inl e, s) \<Rightarrow> set_or STATUS_OBJECT_NAME_NOT_FOUND V fs h key s
      else if disp = FILE_CREATE
      then case v_Getxattr V fs h key s of (Inr v, s) \<Rightarrow> (Some STATUS_OBJECT_NAME_EXISTS, s)
           | (Inl e, s) \<Rightarrow> set_or STATUS_OPEN_FAILED V fs h key s
      else if disp = FILE_OVERWRITE
      then set_or STATUS_OPEN_FAILED V fs h key (snd (v_Getxattr V fs h key s))
      else if disp = FILE_SUPERSEDE \<or> disp = FILE_OVERWRITE_IF
      then set_or STATUS_OPEN_FAILED V fs h key s
      else (None, s))"

text \<open>The create contexts that get an answer.\<close>

definition handleMaxAccessCC :: "Attributes \<Rightarrow> CreateContext" where
  "handleMaxAccessCC attrs = CreateContext (ascii ''MxAc'') (MaximalAccess_Encode 0 (MaxAccessFromVfs attrs))"

definition handleAAPLCC :: "slice \<Rightarrow> CreateContext option option" where
  "handleAAPLCC buf = do {
     code \<leftarrow> AAPLServerQueryRequest_CommandCode buf;
     (if code = 1
      then do {
        b \<leftarrow> puts (AAPLServerQuery_Encode 1 7 (1 OR 4 OR 8) 4 ''CloudMachine'') (zeros (AAPLServerQuery_Size ''CloudMachine''));
        Some (Some (CreateContext (ascii ''AAPL'') b)) }
      else Some None) }"

definition handleQFid :: "'s vfs \<Rightarrow> nat \<Rightarrow> u64 \<Rightarrow> 's \<Rightarrow> (CreateContext \<times> 's) option" where
  "handleQFid V fs node s =
     (case v_GetAttr V fs 0 s of
        (Inl e, s) \<Rightarrow> None
      | (Inr a, s) \<Rightarrow> do {
          vol \<leftarrow> GetInodeNumber a;
          Some (CreateContext (ascii ''QFid'') (DiskId_Encode node vol), s) })"

definition posix_sids :: "Attributes \<Rightarrow> (byte list \<times> byte list) option" where
  "posix_sids a = do {
     let ow = PosixSIDFromUid (fst (GetUID a));
     let gr = PosixSIDFromGid (fst (GetGID a));
     x \<leftarrow> SID_Encode 0 ow (zeros (SID_Size ow));
     y \<leftarrow> SID_Encode 0 gr (zeros (SID_Size gr));
     Some (x, y) }"

definition reparse_tag :: "Attributes \<Rightarrow> u32 option" where
  "reparse_tag a = do { ty \<leftarrow> GetFileType a; Some (if ty = FileTypeSymlink then IO_REPARSE_TAG_SYMLINK else 0) }"

definition handlePosixCC :: "Attributes \<Rightarrow> CreateContext option" where
  "handlePosixCC a = do {
     mode \<leftarrow> PosixWireModeFromVfs a;
     links \<leftarrow> GetLinkCount a;
     (ow, gr) \<leftarrow> posix_sids a;
     tag \<leftarrow> reparse_tag a;
     Some (CreateContext SMB2_CREATE_TAG_POSIX (PosixCreate_Encode links tag mode ow gr)) }"

definition set_aapl :: "nat \<Rightarrow> conn \<Rightarrow> conn" where
  "set_aapl ptr cn = cn\<lparr>tree_objs := obj_modify ptr (\<lambda>t. case t of
       FileTree tc fs op aapl rs ws \<Rightarrow> FileTree tc fs op True rs ws | t \<Rightarrow> t) (tree_objs cn)\<rparr>"

text \<open>\<^verbatim>\<open>DH2Q\<close> and \<^verbatim>\<open>RqLs\<close> read their buffer and get no answer.\<close>

definition create_context ::
    "'a env \<Rightarrow> 's file_env \<Rightarrow> nat \<Rightarrow> nat \<Rightarrow> Attributes \<Rightarrow> u64 \<Rightarrow> slice \<Rightarrow> ('a, 's) file_server \<Rightarrow> conn
     \<Rightarrow> (CreateContext list \<times> ('a, 's) file_server \<times> conn) option" where
  "create_context env fe ptr fs attrs node cc srv cn = do {
     name \<leftarrow> CreateContext_Name cc;
     (if name = ascii ''MxAc'' then Some ([handleMaxAccessCC attrs], srv, cn)
      else if name = ascii ''AAPL''
      then do {
        let cn = setClientOS (e_go env) ''macOS'' ''AAPL create context'' 90 (set_aapl ptr cn);
        buf \<leftarrow> CreateContext_Buffer cc;
        r \<leftarrow> handleAAPLCC buf;
        Some (case r of None \<Rightarrow> [] | Some x \<Rightarrow> [x], srv, cn) }
      else if name = ascii ''DH2Q'' \<or> name = ascii ''RqLs''
      then do { buf \<leftarrow> CreateContext_Buffer cc; Some ([], srv, cn) }
      else if name = ascii ''QFid''
      then do {
        buf \<leftarrow> CreateContext_Buffer cc;
        (x, s) \<leftarrow> handleQFid (f_vfs fe) fs node (fs_state srv);
        Some ([x], srv\<lparr>fs_state := s\<rparr>, cn) }
      else if posixExtensions cn \<and> name = SMB2_CREATE_TAG_POSIX
      then do {
        x \<leftarrow> handlePosixCC attrs;
        Some ([x], srv, setClientOS (e_go env) ''linux'' ''POSIX create context'' 80 cn) }
      else Some ([], srv, cn)) }"

lemma sl_from_len: "sl_from n s = Some t \<Longrightarrow> len t = len s - n \<and> n \<le> len s"
  by (auto simp: sl_from_def len_def split: if_splits)

function create_contexts_loop ::
    "'a env \<Rightarrow> 's file_env \<Rightarrow> nat \<Rightarrow> nat \<Rightarrow> Attributes \<Rightarrow> u64 \<Rightarrow> slice \<Rightarrow> ('a, 's) file_server \<Rightarrow> conn
     \<Rightarrow> (CreateContext list \<times> ('a, 's) file_server \<times> conn) option" where
  "create_contexts_loop env fe ptr fs attrs node cc srv cn =
     (if len cc = 0 then Some ([], srv, cn)
      else do {
        (xs, srv, cn) \<leftarrow> create_context env fe ptr fs attrs node cc srv cn;
        nxt \<leftarrow> CreateContext_Next cc;
        rest \<leftarrow> sl_from (unat nxt) cc;
        (if nxt = 0 then Some (xs, srv, cn)
         else do {
           (ys, srv, cn) \<leftarrow> create_contexts_loop env fe ptr fs attrs node rest srv cn;
           Some (xs @ ys, srv, cn) }) })"
  by pat_completeness auto

termination
  by (relation "measure (\<lambda>(env, fe, ptr, fs, attrs, node, cc, srv, cn). len cc)")
    (auto dest!: sl_from_len simp: unat_gt_0)

declare create_contexts_loop.simps [simp del]

text \<open>
  The name that a request is for, and its stream.  The code reads the name, the options and the
  disposition where it needs them; they are the same each time.
\<close>

definition create_name :: "string \<Rightarrow> (string \<times> bool \<times> string) option" where
  "create_name rname =
     (let name = (if rname = [] then [slash] else to_slash rname) in
      if IsEA name then map_option (\<lambda>(a, b). (a, True, b)) (SplitEA name) else Some (name, False, []))"

text \<open>Opening the file or directory, its attributes, and the stream.\<close>

definition create_open ::
    "'s vfs \<Rightarrow> nat \<Rightarrow> string \<Rightarrow> bool \<Rightarrow> string \<Rightarrow> u32 \<Rightarrow> bool \<Rightarrow> u32 \<Rightarrow> 's \<Rightarrow> (u32 + u64 \<times> Attributes) \<times> 's" where
  "create_open V fs name ea key d isDir fl s =
     (case (if isDir then v_OpenDir V fs name s else v_Open V fs name fl 0x1A4 s) of
        (Inl e, s) \<Rightarrow> (Inl STATUS_ACCESS_DENIED, s)
      | (Inr h, s) \<Rightarrow>
          (case v_GetAttr V fs h s of
             (Inl e, s) \<Rightarrow> (Inl STATUS_ACCESS_DENIED, s)
           | (Inr attrs, s) \<Rightarrow>
               if ea
               then (case handleCreateEA V fs d h key s of
                       (None, s) \<Rightarrow> (Inr (h, attrs), s)
                     | (Some st, s) \<Rightarrow> (Inl st, snd (v_Close V fs h s)))
               else (Inr (h, attrs), s)))"

definition stream_size :: "'s vfs \<Rightarrow> nat \<Rightarrow> u64 \<Rightarrow> string \<Rightarrow> 's \<Rightarrow> nat \<times> 's" where
  "stream_size V fs h key s = (case xattr_size (v_Getxattr V fs h key s) of (Inl e, s) \<Rightarrow> (0, s) | (Inr n, s) \<Rightarrow> (n, s))"

definition notify_created :: "string \<Rightarrow> bool \<Rightarrow> u32 \<Rightarrow> ('a, 's) file_server \<Rightarrow> ('a, 's) file_server" where
  "notify_created name ea action srv =
     (if ea \<or> name = [] then srv
      else if action = FILE_CREATED then notifyChange name 1 srv
      else if action = FILE_OVERWRITTEN \<or> action = FILE_SUPERSEDED then notifyChange name 3 srv
      else srv)"

text \<open>The answer to a CREATE that opened the file \<open>h\<close>.\<close>

definition create_reply ::
    "'a env \<Rightarrow> 's file_env \<Rightarrow> nat \<Rightarrow> treeConn \<Rightarrow> nat \<Rightarrow> nat option \<Rightarrow> slice \<Rightarrow> slice \<Rightarrow> string \<Rightarrow> bool \<Rightarrow> string
     \<Rightarrow> bool \<Rightarrow> u32 \<Rightarrow> u64 \<Rightarrow> Attributes \<Rightarrow> ('a, 's) file_server \<Rightarrow> conn \<Rightarrow> ('a, 's) file_outcome" where
  "create_reply env fe ptr tc fs cp pkt r name ea key symlink action h attrs srv cn = do {
     node \<leftarrow> GetInodeNumber attrs;
     let fid = \<lparr>Persistent = le_enc 8 node, Volatile = le_enc 8 h\<rparr>;
     fa \<leftarrow> PermissionsFromVfs attrs name (hideDotfiles srv);
     let times = \<lparr>CreationTime = Some (BirthTimeFromVfs attrs), LastAccessTime = Some (AccessTimeFromVfs attrs),
           LastWriteTime = Some (ModifiedTimeFromVfs attrs), ChangeTime = Some (ChangeTimeFromVfs attrs)\<rparr>;
     let ((eof, al), srv) = (if \<not> ea then ((SizeFromVfs attrs, DiskSizeFromVfs attrs), srv)
           else let (n, srv) = on_fs (stream_size (f_vfs fe) fs h key) srv in ((of_nat n, of_nat n), srv));
     access \<leftarrow> CreateRequest_DesiredAccess r;
     opts \<leftarrow> CreateRequest_CreateOptions r;
     d \<leftarrow> CreateRequest_CreateDisposition r;
     let o1 = \<lparr>o_fileId = h, durableFileId = node, o_conn = Some (c_id cn), o_session = tc_session tc, o_tree = ptr,
           grantedAccess = access, oplockLevel = 0, pathName = name, createOptions = opts, createDisposition = d,
           fileAttributes = fa, isEa = ea, eaKey = key, isSymlink = symlink,
           deleteAfterClose = opts AND FILE_DELETE_ON_CLOSE \<noteq> 0, isDurable = False, createGuid = zeros 16,
           notifyReq = None, notifyReqAsyncId = 0, notifyCancel = None, notifyCh = None, notifyWatchTree = False,
           fsWatchPath = []\<rparr>;
     cc \<leftarrow> CreateRequest_CreateContexts r;
     (ctxs, srv, cn) \<leftarrow> create_contexts_loop env fe ptr fs attrs node cc srv cn;
     let cn = (case cp of None \<Rightarrow> cn
           | Some q \<Rightarrow> cn\<lparr>compound_objs := obj_modify q (\<lambda>x. x\<lparr>fileId := Some fid\<rparr>) (compound_objs cn)\<rparr>);
     srv \<leftarrow> addOpen o1 srv;
     (e, srv, cn) \<leftarrow> reply env pkt tc cp 0 (CreateResponse 0 0 action times al eof fa (fid_bytes fid) ctxs) srv cn;
     Some (e, notify_created name ea action srv, cn) }"

definition create ::
    "'a env \<Rightarrow> 's file_env \<Rightarrow> nat \<Rightarrow> nat option \<Rightarrow> slice \<Rightarrow> ('a, 's) file_server \<Rightarrow> conn \<Rightarrow> ('a, 's) file_outcome" where
  "create env fe ptr cp pkt srv cn = do {
     (tc, fs, aapl) \<leftarrow> file_tree ptr cn;
     sess \<leftarrow> tree_session tc cn;
     (r, err) \<leftarrow> accept SMB2_CREATE pkt;
     (if err \<noteq> None then Some (err, srv, cn)
      else do {
        inv \<leftarrow> CreateRequest_IsInvalid r;
        (if inv then Some (Some (InvalidRequestError ''broken create format''), srv, cn)
         else do {
           let V = f_vfs fe;
           rname \<leftarrow> CreateRequest_Name r;
           opts \<leftarrow> CreateRequest_CreateOptions r;
           d \<leftarrow> CreateRequest_CreateDisposition r;
           access \<leftarrow> CreateRequest_DesiredAccess r;
           (name, ea, key) \<leftarrow> create_name rname;
           let shareReadOnly = t_isShareReadOnly fe fs srv;
           let (found, srv) = on_fs (v_Lookup V fs 0 name) srv;
           ty \<leftarrow> (case found of Inl e \<Rightarrow> Some None | Inr a \<Rightarrow> map_option Some (GetFileType a));
           let fileExists = (ty \<noteq> None);
           let isDir = (ty = Some FileTypeDirectory);
           let createDir = (opts AND FILE_DIRECTORY_FILE \<noteq> 0);
           let reparse = (opts AND FILE_OPEN_REPARSE_POINT \<noteq> 0 \<and> ty = Some FileTypeSymlink);
           let symlink = (ty = Some FileTypeSymlink \<and> opts AND FILE_OPEN_REPARSE_POINT = 0);
           let readOnly = (t_isUserReadOnly env tc srv cn \<or> shareReadOnly);
           (if readOnly \<and> opts AND FILE_DELETE_ON_CLOSE \<noteq> 0 then deny env pkt tc cp STATUS_ACCESS_DENIED srv cn
            else if readOnly \<and> (wants_write access \<or> d \<noteq> FILE_OPEN \<or> createDir)
            then deny env pkt tc cp STATUS_ACCESS_DENIED srv cn
            else if fileExists \<and> \<not> isDir \<and> createDir
            then deny env pkt tc cp (if d \<noteq> FILE_CREATE then STATUS_NOT_A_DIRECTORY else STATUS_OBJECT_NAME_COLLISION) srv cn
            else if ea \<and> \<not> fileExists then deny env pkt tc cp STATUS_NO_SUCH_FILE srv cn
            else case create_disposition d fileExists createDir of
                Inl st \<Rightarrow> deny env pkt tc cp st srv cn
              | Inr (action, flags, mkdir) \<Rightarrow> do {
                  let (merr, srv) = (if mkdir then on_fs (v_Mkdir V fs name 0x1FF) srv else (None, srv));
                  (if merr \<noteq> None then deny env pkt tc cp STATUS_ACCESS_DENIED srv cn
                   else do {
                     let fl = open_flags flags access ea symlink reparse;
                     let (opened, srv) = on_fs (create_open V fs name ea key d (isDir \<or> mkdir) fl) srv;
                     (case opened of
                        Inl st \<Rightarrow> deny env pkt tc cp st srv cn
                      | Inr (h, attrs) \<Rightarrow>
                          create_reply env fe ptr tc fs cp pkt r name ea key symlink action h attrs srv cn) }) }) }) }) }"

subsection \<open>close and flush\<close>

definition close_attributes ::
    "'s file_env \<Rightarrow> nat \<Rightarrow> u64 \<Rightarrow> Open option \<Rightarrow> u16 \<Rightarrow> ('a, 's) file_server \<Rightarrow> (Response \<times> ('a, 's) file_server) option" where
  "close_attributes fe fs h o1 fl srv =
     (let none = CloseResponse 0 \<lparr>CreationTime = None, LastAccessTime = None, LastWriteTime = None, ChangeTime = None\<rparr> 0 0 0
      in if fl AND 1 = 0 then Some (none, srv)
         else let (r, srv) = on_fs (v_GetAttr (f_vfs fe) fs h) srv
           in case (r, o1) of
                (Inr a, Some o1) \<Rightarrow> do {
                  fa \<leftarrow> PermissionsFromVfs a (pathName o1) (hideDotfiles srv);
                  Some (CloseResponse 1 \<lparr>CreationTime = Some (BirthTimeFromVfs a), LastAccessTime = Some (AccessTimeFromVfs a),
                      LastWriteTime = Some (ModifiedTimeFromVfs a), ChangeTime = Some (ChangeTimeFromVfs a)\<rparr>
                    (DiskSizeFromVfs a) (SizeFromVfs a) fa, srv) }
              | _ \<Rightarrow> Some (none, srv))"

definition close_delete ::
    "'s file_env \<Rightarrow> nat \<Rightarrow> u64 \<Rightarrow> Open option \<Rightarrow> u32 \<Rightarrow> ('a, 's) file_server \<Rightarrow> u32 \<times> ('a, 's) file_server" where
  "close_delete fe fs h o1 status srv =
     (case o1 of
        None \<Rightarrow> (status, srv)
      | Some o1 \<Rightarrow>
          if \<not> deleteAfterClose o1 then (status, srv)
          else let (e, srv) = on_fs (v_Unlink (f_vfs fe) fs h) srv
            in if e \<noteq> None then (if status = 0 then STATUS_ACCESS_DENIED else status, srv)
               else (status, if pathName o1 \<noteq> [] then notifyChange (pathName o1) 2 srv else srv))"

definition cancel_notify :: "Open \<Rightarrow> Open" where
  "cancel_notify o1 = o1\<lparr>notifyCancel := map_option (\<lambda>_. True) (notifyCancel o1)\<rparr>"

definition close_watch :: "nat option \<Rightarrow> ('a, 's) file_server \<Rightarrow> ('a, 's) file_server" where
  "close_watch optr srv =
     (case Option.bind optr (\<lambda>q. obj_deref q (open_objs srv)) of
        None \<Rightarrow> srv
      | Some o1 \<Rightarrow>
          let srv = modify_open (the optr) cancel_notify srv
          in if fsWatchPath o1 \<noteq> [] then removeFsWatch (fsWatchPath o1) srv else srv)"

definition close_status :: "nat option \<Rightarrow> conn \<Rightarrow> u32 option" where
  "close_status cp cn = (case cp of None \<Rightarrow> Some 0
     | Some q \<Rightarrow> do { x \<leftarrow> obj_deref q (compound_objs cn); Some (if fileId x \<noteq> None then lastStatus x else 0) })"

definition close ::
    "'a env \<Rightarrow> 's file_env \<Rightarrow> nat \<Rightarrow> nat option \<Rightarrow> slice \<Rightarrow> ('a, 's) file_server \<Rightarrow> conn \<Rightarrow> ('a, 's) file_outcome" where
  "close env fe ptr cp pkt srv cn = do {
     (tc, fs, aapl) \<leftarrow> file_tree ptr cn;
     sess \<leftarrow> tree_session tc cn;
     (r, err) \<leftarrow> accept SMB2_CLOSE pkt;
     (if err \<noteq> None then Some (err, srv, cn)
      else do {
        inv \<leftarrow> CloseRequest_IsInvalid r;
        (if inv then Some (Some (InvalidRequestError ''broken close request''), srv, cn)
         else do {
           fid \<leftarrow> request_file (CloseRequest_FileId r) cp cn;
           status \<leftarrow> close_status cp cn;
           (if IsInvalidFileId fid then deny env pkt tc cp STATUS_INVALID_HANDLE srv cn
            else do {
              let h = HandleId fid;
              let found = getOpen h srv;
              fl \<leftarrow> CloseRequest_Flags r;
              (body, srv) \<leftarrow> close_attributes fe fs h (map_option snd found) fl srv;
              let (status, srv) = close_delete fe fs h (map_option snd found) status srv;
              let srv = deleteOpen h srv;
              let (e, srv) = on_fs (v_Close (f_vfs fe) fs h) srv;
              (e, srv, cn) \<leftarrow> reply env pkt tc cp status body srv cn;
              Some (None, close_watch (map_option fst found) srv, cn) }) }) }) }"

definition flush ::
    "'a env \<Rightarrow> 's file_env \<Rightarrow> nat \<Rightarrow> nat option \<Rightarrow> slice \<Rightarrow> ('a, 's) file_server \<Rightarrow> conn \<Rightarrow> ('a, 's) file_outcome" where
  "flush env fe ptr cp pkt srv cn = do {
     (tc, fs, aapl) \<leftarrow> file_tree ptr cn;
     sess \<leftarrow> tree_session tc cn;
     r \<leftarrow> accepted SMB2_FLUSH pkt;
     fid \<leftarrow> request_file (FlushRequest_FileId r) cp cn;
     (if IsInvalidFileId fid then deny env pkt tc cp STATUS_INVALID_HANDLE srv cn
      else let (e, srv) = on_fs (v_Flush (f_vfs fe) fs (HandleId fid)) srv
        in reply env pkt tc cp 0 FlushResponse srv cn) }"

subsection \<open>read\<close>

text \<open>The part of a stream that a read returns, or the status.\<close>

definition stream_part :: "u64 \<Rightarrow> u32 \<Rightarrow> byte list \<Rightarrow> u32 + byte list" where
  "stream_part off n full =
     (let nfull = int (length full);
          start = sint off;
          stop = min (start + int (unat n)) nfull
      in if start < 0 \<or> start > nfull \<or> stop < start then Inl STATUS_END_OF_FILE
         else Inr (take (nat (stop - start)) (drop (nat start) full)))"

definition read_stream :: "'s vfs \<Rightarrow> nat \<Rightarrow> u64 \<Rightarrow> string \<Rightarrow> u64 \<Rightarrow> u32 \<Rightarrow> 's \<Rightarrow> (u32 + byte list) \<times> 's" where
  "read_stream V fs h key off n s =
     (case xattr_size (v_Getxattr V fs h key s) of
        (Inl e, s) \<Rightarrow> (Inl (if e = ErrNotExist \<or> e = ENODATA then STATUS_OBJECT_NAME_NOT_FOUND else STATUS_ACCESS_DENIED), s)
      | (Inr tot, s) \<Rightarrow>
          if tot = 0 \<or> int tot \<le> sint off then (Inr [], s)
          else case v_Getxattr V fs h key s of
                 (Inl e, s) \<Rightarrow> (Inl STATUS_ACCESS_DENIED, s)
               | (Inr full, s) \<Rightarrow> (stream_part off n full, s))"

definition readEA ::
    "'a env \<Rightarrow> 's file_env \<Rightarrow> treeConn \<Rightarrow> nat \<Rightarrow> nat option \<Rightarrow> u64 \<Rightarrow> string \<Rightarrow> slice \<Rightarrow> u64 \<Rightarrow> u32
     \<Rightarrow> ('a, 's) file_server \<Rightarrow> conn \<Rightarrow> ('a, 's) file_outcome" where
  "readEA env fe tc fs cp h key pkt off n srv cn =
     (if EqualFold (e_go env) (clientOS (c_profile cn)) ''macOS'' \<and> EqualFold (e_go env) key ''com.apple.TextEncoding''
      then deny env pkt tc cp STATUS_OBJECT_NAME_NOT_FOUND srv cn
      else let (r, srv) = on_fs (read_stream (f_vfs fe) fs h key off n) srv
        in case r of
             Inr dat \<Rightarrow> reply env pkt tc cp 0 (ReadResponse dat 0) srv cn
           | Inl st \<Rightarrow>
               if key = ''AFP_AfpInfo'' \<and> n = 60
               then do {
                 b \<leftarrow> puts (AfpInfo_Encode (ascii ''AFP_'') (zeros 32)) (zeros 60);
                 reply env pkt tc cp 0 (ReadResponse b 0) srv cn }
               else deny env pkt tc cp st srv cn)"

definition readImpl ::
    "'a env \<Rightarrow> 's file_env \<Rightarrow> treeConn \<Rightarrow> nat \<Rightarrow> nat option \<Rightarrow> slice \<Rightarrow> slice \<Rightarrow> u64 \<Rightarrow> Open
     \<Rightarrow> ('a, 's) file_server \<Rightarrow> conn \<Rightarrow> ('a, 's) file_outcome" where
  "readImpl env fe tc fs cp pkt r h o1 srv cn = do {
     off \<leftarrow> ReadRequest_Offset r;
     n \<leftarrow> ReadRequest_Length r;
     (if isEa o1 then readEA env fe tc fs cp h (eaKey o1) pkt off n srv cn
      else let ((dat, err), srv) = on_fs (v_Read (f_vfs fe) fs h (unat n) off) srv
        in if err \<noteq> None \<and> dat = []
           then deny env pkt tc cp (if err = Some EOF then STATUS_END_OF_FILE else STATUS_ACCESS_DENIED) srv cn
           else reply env pkt tc cp 0 (ReadResponse dat 0) srv cn) }"

definition read ::
    "'a env \<Rightarrow> 's file_env \<Rightarrow> nat \<Rightarrow> nat option \<Rightarrow> slice \<Rightarrow> ('a, 's) file_server \<Rightarrow> conn \<Rightarrow> ('a, 's) file_outcome" where
  "read env fe ptr cp pkt srv cn = do {
     (tc, fs, aapl) \<leftarrow> file_tree ptr cn;
     sess \<leftarrow> tree_session tc cn;
     r \<leftarrow> accepted SMB2_READ pkt;
     ch \<leftarrow> ReadRequest_Channel r;
     cl \<leftarrow> ReadRequest_ReadChannelInfoLength r;
     (if ch \<noteq> 0 \<or> cl \<noteq> 0 then deny env pkt tc cp STATUS_NOT_SUPPORTED srv cn
      else do {
        fid \<leftarrow> request_file (ReadRequest_FileId r) cp cn;
        (if IsInvalidFileId fid then deny env pkt tc cp STATUS_INVALID_HANDLE srv cn
         else case getOpen (HandleId fid) srv of
             None \<Rightarrow> deny env pkt tc cp STATUS_INVALID_HANDLE srv cn
           | Some (q, o1) \<Rightarrow> readImpl env fe tc fs cp pkt r (HandleId fid) o1 srv cn) }) }"

subsection \<open>write\<close>

definition writeImpl ::
    "'a env \<Rightarrow> 's file_env \<Rightarrow> treeConn \<Rightarrow> nat \<Rightarrow> nat option \<Rightarrow> slice \<Rightarrow> slice \<Rightarrow> u64 \<Rightarrow> Open \<Rightarrow> u64
     \<Rightarrow> ('a, 's) file_server \<Rightarrow> conn \<Rightarrow> ('a, 's) file_outcome" where
  "writeImpl env fe tc fs cp pkt r h o1 asyncId srv cn = do {
     dat \<leftarrow> map_option vis (WriteRequest_Data r);
     off \<leftarrow> WriteRequest_Offset r;
     let ((n, err), srv) = (if isEa o1
           then let (e, srv) = on_fs (v_Setxattr (f_vfs fe) fs h (eaKey o1) dat) srv in ((length dat, None), srv)
           else on_fs (v_Write (f_vfs fe) fs h dat off) srv);
     (if err \<noteq> None then reply_async env pkt tc cp asyncId STATUS_IO_DEVICE_ERROR (ErrorResponse None) srv cn
      else reply_async env pkt tc cp asyncId 0 (WriteResponse (of_nat n) 0) srv cn) }"

text \<open>A write outside of a chain is announced by an interim response; how sending that went is ignored.\<close>

definition write_file ::
    "'a env \<Rightarrow> 's file_env \<Rightarrow> nat \<Rightarrow> nat option \<Rightarrow> slice \<Rightarrow> ('a, 's) file_server \<Rightarrow> conn \<Rightarrow> ('a, 's) file_outcome" where
  "write_file env fe ptr cp pkt srv cn = do {
     (tc, fs, aapl) \<leftarrow> file_tree ptr cn;
     sess \<leftarrow> tree_session tc cn;
     (if t_isUserReadOnly env tc srv cn then deny env pkt tc cp STATUS_ACCESS_DENIED srv cn
      else do {
        r \<leftarrow> accepted SMB2_WRITE pkt;
        fid \<leftarrow> request_file (WriteRequest_FileId r) cp cn;
        (if IsInvalidFileId fid then deny env pkt tc cp STATUS_INVALID_HANDLE srv cn
         else case getOpen (HandleId fid) srv of
             None \<Rightarrow> deny env pkt tc cp STATUS_INVALID_HANDLE srv cn
           | Some (q, o1) \<Rightarrow>
               if cp \<noteq> None \<or> isEa o1 then writeImpl env fe tc fs cp pkt r (HandleId fid) o1 0 srv cn
               else do {
                 let asyncId = w_rand64 (e_world env);
                 (e, srv, cn) \<leftarrow> reply_async (env\<lparr>e_world := f_pending fe\<rparr>) pkt tc cp asyncId STATUS_PENDING
                   (ErrorResponse None) srv cn;
                 writeImpl env fe tc fs cp pkt r (HandleId fid) o1 asyncId srv cn }) }) }"

subsection \<open>lock, cancel and oplockBreak\<close>

definition lock ::
    "'a env \<Rightarrow> nat \<Rightarrow> nat option \<Rightarrow> slice \<Rightarrow> ('a, 's) file_server \<Rightarrow> conn \<Rightarrow> ('a, 's) file_outcome" where
  "lock env ptr cp pkt srv cn = do {
     (tc, fs, aapl) \<leftarrow> file_tree ptr cn;
     sess \<leftarrow> tree_session tc cn;
     reply env pkt tc cp 0 LockResponse srv cn }"

definition live_open :: "('a, 's) file_server \<Rightarrow> nat \<Rightarrow> bool" where
  "live_open srv i \<longleftrightarrow> i < length (open_objs srv) \<and> opens srv (o_fileId (open_objs srv ! i)) = Some i"

definition cancel ::
    "nat \<Rightarrow> slice \<Rightarrow> ('a, 's) file_server \<Rightarrow> conn \<Rightarrow> ('a, 's) file_outcome" where
  "cancel ptr pkt srv cn = do {
     (tc, fs, aapl) \<leftarrow> file_tree ptr cn;
     asyncId \<leftarrow> p_AsyncId pkt;
     (if asyncId = 0 then Some (None, srv, cn)
      else if tree_session tc cn = None
        \<and> (\<exists>i \<in> set [0 ..< length (open_objs srv)]. live_open srv i \<and> o_session (open_objs srv ! i) \<noteq> None)
      then None
      else Some (None, srv\<lparr>open_objs := map (\<lambda>i. let o1 = open_objs srv ! i in
             if live_open srv i \<and> o_session o1 \<noteq> None \<and> o_conn o1 = Some (c_id cn) then cancel_notify o1 else o1)
           [0 ..< length (open_objs srv)]\<rparr>, cn)) }"

definition oplockBreak ::
    "'a env \<Rightarrow> nat \<Rightarrow> nat option \<Rightarrow> slice \<Rightarrow> ('a, 's) file_server \<Rightarrow> conn \<Rightarrow> ('a, 's) file_outcome" where
  "oplockBreak env ptr cp pkt srv cn = do {
     (tc, fs, aapl) \<leftarrow> file_tree ptr cn;
     sess \<leftarrow> tree_session tc cn;
     (r, err) \<leftarrow> accept SMB2_OPLOCK_BREAK pkt;
     (if err \<noteq> None then Some (err, srv, cn)
      else if len r < 2 then deny env pkt tc cp STATUS_INVALID_PARAMETER srv cn
      else do {
        size \<leftarrow> u16_in 0 2 r;
        (if size = 24 \<and> 24 \<le> len r \<or> size = 36 \<and> 36 \<le> len r
         then do {
           body \<leftarrow> sl_range 0 (unat size) r;
           reply env pkt tc cp 0 (OplockBreakResponse (vis body)) srv cn }
         else deny env pkt tc cp STATUS_INVALID_PARAMETER srv cn) }) }"

end
