(* ===== verification/Query.thy ===== *)
theory Query
  imports Files
begin

section \<open>File trees: directories and queries\<close>

text \<open>
  The handlers of \<^verbatim>\<open>smb/server/file_tree.go\<close> for QUERY_DIRECTORY, CHANGE_NOTIFY and QUERY_INFO.  A
  listing stops when the client's buffer is full; what is left is put back for the next request.
\<close>

subsection \<open>Entries of a listing\<close>

abbreviation (input) "FileDirectoryInformation \<equiv> (1 :: byte)"
abbreviation (input) "FileFullDirectoryInformation \<equiv> (2 :: byte)"
abbreviation (input) "FileBothDirectoryInformation \<equiv> (3 :: byte)"
abbreviation (input) "FileNamesInformation \<equiv> (12 :: byte)"
abbreviation (input) "FileIdBothDirectoryInformation \<equiv> (37 :: byte)"
abbreviation (input) "FileIdFullDirectoryInformation \<equiv> (38 :: byte)"
abbreviation (input) "FileIdAllExtdBothDirectoryInformation \<equiv> (81 :: byte)"
abbreviation (input) "FilePosixInformation \<equiv> (0x64 :: byte)"
abbreviation (input) "RESTART_SCANS \<equiv> (1 :: byte)"
abbreviation (input) "RETURN_SINGLE_ENTRY \<equiv> (2 :: byte)"

type_synonym DirInfo = "string \<times> Attributes"

definition new_entry :: "DirInfo \<Rightarrow> bool \<Rightarrow> entry option" where
  "new_entry d hide = do {
     let a = snd d;
     fa \<leftarrow> PermissionsFromVfs a (fst d) hide;
     Some \<lparr>e_FileIndex = 0, e_CreationTime = BirthTimeFromVfs a, e_LastAccessTime = AccessTimeFromVfs a,
       e_LastWriteTime = ModifiedTimeFromVfs a, e_ChangeTime = ChangeTimeFromVfs a, e_EndOfFile = SizeFromVfs a,
       e_AllocationSize = DiskSizeFromVfs a, e_FileAttributes = fa, e_FileName = fst d\<rparr> }"

text \<open>The \<^verbatim>\<open>EaSize\<close> of a symbolic link is its reparse tag.\<close>

definition ea_or_tag :: "entry \<Rightarrow> u32 \<Rightarrow> u32" where
  "ea_or_tag e n = (if e_FileAttributes e AND FILE_ATTRIBUTE_REPARSE_POINT \<noteq> 0 then IO_REPARSE_TAG_SYMLINK else n)"

definition newFileDirectoryInformationInfo :: "DirInfo \<Rightarrow> bool \<Rightarrow> dir_item option" where
  "newFileDirectoryInformationInfo d hide = do { e \<leftarrow> new_entry d hide; Some (FileDirectoryInformationInfo e) }"

definition newFileFullDirectoryInformationInfo :: "DirInfo \<Rightarrow> bool \<Rightarrow> dir_item option" where
  "newFileFullDirectoryInformationInfo d hide = do {
     e \<leftarrow> new_entry d hide;
     Some (FileFullDirectoryInformationInfo e (ea_or_tag e 0)) }"

definition newFileIdFullDirectoryInformationInfo :: "DirInfo \<Rightarrow> bool \<Rightarrow> dir_item option" where
  "newFileIdFullDirectoryInformationInfo d hide = do {
     e \<leftarrow> new_entry d hide;
     Some (FileIdFullDirectoryInformationInfo e (ea_or_tag e 0) 0) }"

definition newFileIdBothDirectoryInformationInfo :: "DirInfo \<Rightarrow> bool \<Rightarrow> dir_item option" where
  "newFileIdBothDirectoryInformationInfo d hide = do {
     ino \<leftarrow> GetInodeNumber (snd d);
     e \<leftarrow> new_entry d hide;
     Some (FileIdBothDirectoryInformationInfo e (ea_or_tag e 0) ino) }"

definition newFileBothDirectoryInformationInfo :: "DirInfo \<Rightarrow> bool \<Rightarrow> dir_item option" where
  "newFileBothDirectoryInformationInfo d hide = do {
     e \<leftarrow> new_entry d hide;
     Some (FileBothDirectoryInformationInfo e (ea_or_tag e 0)) }"

definition newFileIdAllExtdBothDirectoryInformationInfo :: "DirInfo \<Rightarrow> bool \<Rightarrow> dir_item option" where
  "newFileIdAllExtdBothDirectoryInformationInfo d hide = do {
     ino \<leftarrow> GetInodeNumber (snd d);
     e \<leftarrow> new_entry d hide;
     Some (FileIdAllExtdBothDirectoryInformationInfo e (ea_or_tag e 0) ino) }"

definition newFileIdBothDirectoryInformationInfo2 :: "DirInfo \<Rightarrow> bool \<Rightarrow> dir_item option" where
  "newFileIdBothDirectoryInformationInfo2 d hide = do {
     ino \<leftarrow> GetInodeNumber (snd d);
     mode \<leftarrow> UnixModeFromVfs (snd d);
     e \<leftarrow> new_entry d hide;
     Some (FileIdBothDirectoryInformationInfo2 e (ea_or_tag e (MaxAccessFromVfs (snd d))) ino mode) }"

definition newFileNamesInformationInfo :: "DirInfo \<Rightarrow> dir_item" where
  "newFileNamesInformationInfo d = FileNamesInformationInfo (fst d)"

definition newFilePosixDirectoryInformationInfo :: "DirInfo \<Rightarrow> bool \<Rightarrow> dir_item option" where
  "newFilePosixDirectoryInformationInfo d hide = do {
     let a = snd d;
     mode \<leftarrow> PosixWireModeFromVfs a;
     links \<leftarrow> GetLinkCount a;
     (ow, gr) \<leftarrow> posix_sids a;
     tag \<leftarrow> reparse_tag a;
     ino \<leftarrow> GetInodeNumber a;
     e \<leftarrow> new_entry d hide;
     Some (FilePosixDirectoryInformationInfo e ino links tag mode ow gr) }"

text \<open>The item of an unknown class is \<^verbatim>\<open>nil\<close>, and its size is asked for.\<close>

definition makeItem :: "bool \<Rightarrow> bool \<Rightarrow> byte \<Rightarrow> DirInfo \<Rightarrow> dir_item option" where
  "makeItem hide aapl class d =
     (if class = FileBothDirectoryInformation then newFileBothDirectoryInformationInfo d hide
      else if class = FileNamesInformation then Some (newFileNamesInformationInfo d)
      else if class = FileIdBothDirectoryInformation
      then if aapl then newFileIdBothDirectoryInformationInfo2 d hide else newFileIdBothDirectoryInformationInfo d hide
      else if class = FileDirectoryInformation then newFileDirectoryInformationInfo d hide
      else if class = FileFullDirectoryInformation then newFileFullDirectoryInformationInfo d hide
      else if class = FileIdFullDirectoryInformation then newFileIdFullDirectoryInformationInfo d hide
      else if class = FileIdAllExtdBothDirectoryInformation then newFileIdAllExtdBothDirectoryInformationInfo d hide
      else if class = FilePosixInformation then newFilePosixDirectoryInformationInfo d hide
      else None)"

subsection \<open>queryDirectory\<close>

definition listing_class :: "byte \<Rightarrow> bool" where
  "listing_class class \<longleftrightarrow> class \<in> {FileIdBothDirectoryInformation, FileFullDirectoryInformation, FileNamesInformation,
     FileDirectoryInformation, FileIdFullDirectoryInformation, FileBothDirectoryInformation,
     FileIdAllExtdBothDirectoryInformation, FilePosixInformation}"

text \<open>
  One pass over the entries that the file system returned: the items that fit, and the entries to put
  back.  \<open>acc\<close> is the size of the items so far.
\<close>

fun take_entries ::
    "(DirInfo \<Rightarrow> dir_item option) \<Rightarrow> (string \<Rightarrow> bool) \<Rightarrow> bool \<Rightarrow> nat \<Rightarrow> nat \<Rightarrow> DirInfo list
     \<Rightarrow> (dir_item list \<times> DirInfo list) option" where
  "take_entries mk wanted single room acc [] = Some ([], [])"
| "take_entries mk wanted single room acc (d # ds) =
     (if \<not> wanted (fst d) then take_entries mk wanted single room acc ds
      else do {
        i \<leftarrow> mk d;
        (if 0 < acc \<and> room < acc + item_Size i then Some ([], d # ds)
         else if single then Some ([i], ds)
         else do {
           (is, rest) \<leftarrow> take_entries mk wanted single room (acc + item_Size i) ds;
           Some (i # is, rest) }) })"

definition listing_wanted :: "regexp \<Rightarrow> bool \<Rightarrow> string \<Rightarrow> string \<Rightarrow> bool" where
  "listing_wanted rx aapl pattern name \<longleftrightarrow> \<not> (aapl \<and> hidden_by_mac name) \<and> MatchWildcard rx name pattern"

definition put_back :: "'s vfs \<Rightarrow> nat \<Rightarrow> u64 \<Rightarrow> DirInfo list \<Rightarrow> 's \<Rightarrow> 's" where
  "put_back V fs h rest s = (if rest = [] then s else v_PutBackDirEntries V fs h rest s)"

text \<open>The items found, or the status when there are none.\<close>

definition lookup_entry ::
    "'s vfs \<Rightarrow> nat \<Rightarrow> u64 \<Rightarrow> (DirInfo \<Rightarrow> dir_item option) \<Rightarrow> string \<Rightarrow> 's \<Rightarrow> ((u32 + dir_item list) \<times> 's) option" where
  "lookup_entry V fs h mk name s =
     (case v_Lookup V fs h name s of
        (Inr a, s) \<Rightarrow> do { i \<leftarrow> mk (name, a); Some (Inr [i], s) }
      | (Inl e, s) \<Rightarrow> Some (Inl STATUS_NO_SUCH_FILE, s))"

definition read_entries ::
    "'s vfs \<Rightarrow> nat \<Rightarrow> u64 \<Rightarrow> (DirInfo \<Rightarrow> dir_item option) \<Rightarrow> (string \<Rightarrow> bool) \<Rightarrow> bool \<Rightarrow> nat \<Rightarrow> bool
     \<Rightarrow> 's \<Rightarrow> ((u32 + dir_item list) \<times> 's) option" where
  "read_entries V fs h mk wanted single room restart s =
     (case v_ReadDir V fs h (if restart then 1 else 0) 1000 s of
        (Inl e, s) \<Rightarrow> Some (Inl (if e = EOF then STATUS_NO_MORE_FILES else STATUS_ACCESS_DENIED), s)
      | (Inr ds, s) \<Rightarrow> do {
          (is, rest) \<leftarrow> take_entries mk wanted single room 0 ds;
          Some (if is = [] then Inl STATUS_NO_SUCH_FILE else Inr is, put_back V fs h rest s) })"

definition queryDirectory ::
    "'a env \<Rightarrow> 's file_env \<Rightarrow> nat \<Rightarrow> nat option \<Rightarrow> slice \<Rightarrow> ('a, 's) file_server \<Rightarrow> conn \<Rightarrow> ('a, 's) file_outcome" where
  "queryDirectory env fe ptr cp pkt srv cn = do {
     (tc, fs, aapl) \<leftarrow> file_tree ptr cn;
     sess \<leftarrow> tree_session tc cn;
     (r, err) \<leftarrow> accept SMB2_QUERY_DIRECTORY pkt;
     (if err \<noteq> None then deny env pkt tc cp STATUS_INVALID_PARAMETER srv cn
      else do {
        inv \<leftarrow> QueryDirectoryRequest_IsInvalid r;
        (if inv then deny env pkt tc cp STATUS_INVALID_PARAMETER srv cn
         else do {
           class \<leftarrow> QueryDirectoryRequest_FileInfoClass r;
           (if \<not> listing_class class then deny env pkt tc cp STATUS_INVALID_PARAMETER srv cn
            else do {
              name \<leftarrow> QueryDirectoryRequest_FileName r;
              fid \<leftarrow> request_file (QueryDirectoryRequest_FileId r) cp cn;
              (if IsInvalidFileId fid then deny env pkt tc cp STATUS_INVALID_HANDLE srv cn
               else do {
                 st \<leftarrow> last_status cp cn;
                 fl \<leftarrow> QueryDirectoryRequest_Flags r;
                 n \<leftarrow> QueryDirectoryRequest_OutputBufferLength r;
                 let room = (if n = 0 then 65536 else unat n);
                 let mk = makeItem (hideDotfiles srv) aapl class;
                 (if st \<noteq> 0 then deny env pkt tc cp st srv cn
                  else do {
                    (found, s) \<leftarrow> (if \<not> ContainsWildcard name
                       then lookup_entry (f_vfs fe) fs (HandleId fid) mk name (fs_state srv)
                       else read_entries (f_vfs fe) fs (HandleId fid) mk (listing_wanted (f_regexp fe) aapl name)
                              (fl AND RETURN_SINGLE_ENTRY \<noteq> 0) room (fl AND RESTART_SCANS \<noteq> 0) (fs_state srv));
                    let srv = srv\<lparr>fs_state := s\<rparr>;
                    (case found of
                       Inl status \<Rightarrow> deny env pkt tc cp status srv cn
                     | Inr is \<Rightarrow> do {
                         b \<leftarrow> listing_Encode is;
                         reply env pkt tc cp 0 (QueryDirectoryResponse (Some b)) srv cn }) }) }) }) }) }) }"

subsection \<open>changeNotify\<close>

definition watch_open :: "'s file_env \<Rightarrow> nat \<Rightarrow> nat \<Rightarrow> ('a, 's) file_server \<Rightarrow> ('a, 's) file_server" where
  "watch_open fe fs optr srv =
     (case obj_deref optr (open_objs srv) of
        None \<Rightarrow> srv
      | Some o1 \<Rightarrow>
          if fsWatchPath o1 \<noteq> [] then srv
          else let root = v_BasePath (f_vfs fe) fs (fs_state srv);
                   real = path_Join [root, pathName o1]
            in modify_open optr (\<lambda>o2. o2\<lparr>fsWatchPath := real\<rparr>) (addFsWatch fe real root srv))"

definition await_events :: "u64 \<Rightarrow> byte list \<Rightarrow> bool \<Rightarrow> Open \<Rightarrow> Open" where
  "await_events asyncId req tree o1 = o1\<lparr>notifyReqAsyncId := asyncId, notifyReq := Some req, notifyCancel := Some False,
     notifyCh := Some (case notifyCh o1 of None \<Rightarrow> [] | Some q \<Rightarrow> q), notifyWatchTree := tree\<rparr>"

definition changeNotify ::
    "'a env \<Rightarrow> 's file_env \<Rightarrow> nat \<Rightarrow> nat option \<Rightarrow> slice \<Rightarrow> ('a, 's) file_server \<Rightarrow> conn
     \<Rightarrow> ('a, 's) file_outcome" where
  "changeNotify env fe ptr cp pkt srv cn = do {
     (tc, fs, aapl) \<leftarrow> file_tree ptr cn;
     sess \<leftarrow> tree_session tc cn;
     r \<leftarrow> accepted SMB2_CHANGE_NOTIFY pkt;
     fid \<leftarrow> request_file (ChangeNotifyRequest_FileId r) cp cn;
     (if IsInvalidFileId fid then deny env pkt tc cp STATUS_ACCESS_DENIED srv cn
      else case getOpen (HandleId fid) srv of
          None \<Rightarrow> deny env pkt tc cp STATUS_INVALID_HANDLE srv cn
        | Some (q, o1) \<Rightarrow> do {
            let asyncId = w_rand64 (e_world env);
            (e, srv, cn) \<leftarrow> reply_async env pkt tc cp asyncId STATUS_PENDING (ErrorResponse None) srv cn;
            (if e \<noteq> None then Some (e, srv, cn)
             else do {
               fl \<leftarrow> ChangeNotifyRequest_Flags r;
               let srv = watch_open fe fs q (modify_open q (await_events asyncId (vis pkt) (fl AND 1 \<noteq> 0)) srv);
               let tk = \<lparr>nt_open = q, nt_handle = HandleId fid, nt_asyncId = asyncId, nt_request = pkt,
                     nt_tree = tc, nt_ctx = cp, nt_conn = c_id cn\<rparr>;
               Some (None, srv\<lparr>waiting := waiting srv @ [tk]\<rparr>, cn) }) }) }"

text \<open>
  The end of that goroutine, with the events it has collected: none if it was cancelled.  It answers
  only while the file is open.
\<close>

definition notify_finish ::
    "'a env \<Rightarrow> notify_task \<Rightarrow> (u32 \<times> string) list \<Rightarrow> ('a, 's) file_server \<Rightarrow> conn \<Rightarrow> ('a, 's) file_outcome" where
  "notify_finish env tk evs srv cn =
     (let srv = srv\<lparr>waiting := remove1 tk (waiting srv)\<rparr> in
      if getOpen (nt_handle tk) srv = None then Some (None, srv, cn)
      else
        let srv = modify_open (nt_open tk) (\<lambda>o1. o1\<lparr>notifyReq := None, notifyCancel := None\<rparr>) srv;
            send = (\<lambda>status body. map_option (\<lambda>(e, srv, cn). (None, srv, cn))
              (reply_async env (nt_request tk) (nt_tree tk) (nt_ctx tk) (nt_asyncId tk) status body srv cn))
        in if evs = [] then send STATUS_CANCELLED (ErrorResponse None)
           else let ns = map (\<lambda>(a, n). (a, to_backslash n)) evs in do {
             b \<leftarrow> puts (notifications_Encode 0 ns) (zeros (notifications_Size ns));
             send 0 (ChangeNotifyResponse (Some b)) })"


subsection \<open>queryInfo: file systems\<close>

abbreviation (input) "SMB2_0_INFO_FILE \<equiv> (1 :: byte)"
abbreviation (input) "SMB2_0_INFO_FILESYSTEM \<equiv> (2 :: byte)"
abbreviation (input) "SMB2_0_INFO_SECURITY \<equiv> (3 :: byte)"

text \<open>The root directory of a file system without attributes is a \<^verbatim>\<open>nil\<close> dereference.\<close>

definition object_id :: "'s vfs \<Rightarrow> nat \<Rightarrow> FileId \<Rightarrow> 's \<Rightarrow> (info \<times> 's) option" where
  "object_id V fs fid s =
     (case v_GetAttr V fs 0 s of
        (Inl e, s) \<Rightarrow> None
      | (Inr a, s) \<Rightarrow> do {
          vol \<leftarrow> GetInodeNumber a;
          let oid = Persistent fid @ zeros 8;
          Some (FileObjectId1 oid (le64 vol @ zeros 8) oid (zeros 16), s) })"

definition fs_attributes :: "bool \<Rightarrow> u32" where
  "fs_attributes xa = 0x01000000 OR 0x00010000 OR 2 OR 8 OR 0x40 OR 4 OR 0x00400000 OR 0x80
     OR (if xa then 0x00800000 OR 0x00040000 else 0)"

definition fs_number :: "u64 \<Rightarrow> u64 \<times> bool \<Rightarrow> u64" where
  "fs_number dflt x = (if snd x then fst x else dflt)"

text \<open>The information of a class, or nothing if the class is not supported.\<close>

definition fs_info ::
    "'s vfs \<Rightarrow> nat \<Rightarrow> bool \<Rightarrow> string \<Rightarrow> byte \<Rightarrow> FileId option \<Rightarrow> FSAttributes \<Rightarrow> 's \<Rightarrow> (info option \<times> 's) option" where
  "fs_info V fs xa label class fid a s =
     (let bs = ucast (fs_number 512 (GetBlockSize a)) :: u32;
          au = fs_number (- 1) (GetAvailableBlocks a);
          ta = fs_number (- 1) (GetBlocks a)
      in if class = 1 then Some (Some (FileFsVolumeInformationInfo label), s)
         else if class = 3 then Some (Some (FileFsSizeInformationInfo ta au (bs div 512) 512), s)
         else if class = 4 then Some (Some (FileFsDeviceInformationInfo 7 0), s)
         else if class = 5 then Some (Some (FileFsAttributeInformationInfo (fs_attributes xa) 255 ''APFS''), s)
         else if class = 7 then Some (Some (FileFsFullSizeInformationInfo ta au au (bs div 512) 512), s)
         else if class = 11 then Some (Some (FileFsSectorSizeInformationInfo 512 bs bs bs 0 0 0), s)
         else if class = 8
         then do { fid \<leftarrow> fid; (i, s) \<leftarrow> object_id V fs fid s; Some (Some i, s) }
         else if class = FilePosixInformation
         then Some (Some (FileFsPosixInformationInfo bs bs ta au au 1000000 1000000 0), s)
         else Some (None, s))"

text \<open>An answer that does not fit in what the client has room for is refused.\<close>

definition send_info ::
    "'a env \<Rightarrow> slice \<Rightarrow> treeConn \<Rightarrow> nat option \<Rightarrow> info option \<Rightarrow> u32 \<Rightarrow> ('a, 'z) server_scheme \<Rightarrow> conn \<Rightarrow> ('a, 'z) outcome_of" where
  "send_info env pkt tc cp i room srv cn =
     (case i of
        None \<Rightarrow> reply env pkt tc cp 0 (QueryInfoResponse None) srv cn
      | Some i \<Rightarrow>
          if unat room < info_Size i then deny env pkt tc cp STATUS_INFO_LENGTH_MISMATCH srv cn
          else do {
            b \<leftarrow> info_Encode i;
            reply env pkt tc cp 0 (QueryInfoResponse (Some b)) srv cn })"

definition queryInfoFileSystem ::
    "'a env \<Rightarrow> 's file_env \<Rightarrow> nat \<Rightarrow> nat option \<Rightarrow> slice \<Rightarrow> ('a, 's) file_server \<Rightarrow> conn \<Rightarrow> ('a, 's) file_outcome" where
  "queryInfoFileSystem env fe ptr cp pkt srv cn = do {
     (tc, fs, aapl) \<leftarrow> file_tree ptr cn;
     sess \<leftarrow> tree_session tc cn;
     r \<leftarrow> accepted SMB2_QUERY_INFO pkt;
     let (st, srv) = on_fs (v_StatFS (f_vfs fe) fs 0) srv;
     a \<leftarrow> (case st of Inl e \<Rightarrow> None | Inr a \<Rightarrow> Some a);
     class \<leftarrow> QueryInfoRequest_FileInfoClass r;
     room \<leftarrow> QueryInfoRequest_OutputBufferLength r;
     (i, s) \<leftarrow> fs_info (f_vfs fe) fs (xattrs srv) (tc_path tc) class
       (request_file (QueryInfoRequest_FileId r) cp cn) a (fs_state srv);
     let srv = srv\<lparr>fs_state := s\<rparr>;
     (if i = None then deny env pkt tc cp STATUS_NOT_SUPPORTED srv cn
      else send_info env pkt tc cp i room srv cn) }"

subsection \<open>queryInfo: files\<close>

definition file_all_info :: "Attributes \<Rightarrow> string \<Rightarrow> bool \<Rightarrow> info option" where
  "file_all_info a name hide = do {
     fa \<leftarrow> PermissionsFromVfs a name hide;
     links \<leftarrow> GetLinkCount a;
     ino \<leftarrow> GetInodeNumber a;
     ty \<leftarrow> GetFileType a;
     Some (FileAllInformationInfo \<lparr>ai_CreationTime = BirthTimeFromVfs a, ai_LastAccessTime = AccessTimeFromVfs a,
       ai_LastWriteTime = ModifiedTimeFromVfs a, ai_ChangeTime = ChangeTimeFromVfs a, ai_FileAttributes = fa,
       ai_AllocationSize = DiskSizeFromVfs a, ai_EndOfFile = SizeFromVfs a, ai_NumberOfLinks = links,
       ai_DeletePending = 0, ai_Directory = (if ty = FileTypeDirectory then 1 else 0), ai_IndexNumber = ino,
       ai_EaSize = 0, ai_AccessFlags = MaxAccessFromVfs a, ai_CurrentByteOffset = 0, ai_Mode = 0x10,
       ai_AlignmentRequirement = 0, ai_FileName = to_backslash name\<rparr>) }"

text \<open>The streams of a file: its data, and the extended attributes that can be read.\<close>

fun xattr_streams :: "'s vfs \<Rightarrow> nat \<Rightarrow> u64 \<Rightarrow> string list \<Rightarrow> 's \<Rightarrow> stream_item list \<times> 's" where
  "xattr_streams V fs h [] s = ([], s)"
| "xattr_streams V fs h (k # ks) s =
     (case xattr_size (v_Getxattr V fs h k s) of
        (Inl e, s) \<Rightarrow> xattr_streams V fs h ks s
      | (Inr n, s) \<Rightarrow> let (is, s) = xattr_streams V fs h ks s
          in ((of_nat n, of_nat n, '':'' @ k @ '':$DATA'') # is, s))"

definition file_streams :: "'s vfs \<Rightarrow> nat \<Rightarrow> bool \<Rightarrow> u64 \<Rightarrow> Attributes \<Rightarrow> 's \<Rightarrow> info \<times> 's" where
  "file_streams V fs xa h a s =
     (let dat = (SizeFromVfs a, DiskSizeFromVfs a, ''::$DATA'') in
      case v_Listxattr V fs h s of
        (Inr ks, s) \<Rightarrow>
          if xa then let (is, s) = xattr_streams V fs h ks s in (FileStreamInformationInfoItems (dat # is), s)
          else (FileStreamInformationInfoItems [dat], s)
      | (Inl e, s) \<Rightarrow> (FileStreamInformationInfoItems [dat], s))"

definition network_open_info ::
    "'s vfs \<Rightarrow> nat \<Rightarrow> u64 \<Rightarrow> Open \<Rightarrow> bool \<Rightarrow> Attributes \<Rightarrow> 's \<Rightarrow> (info \<times> 's) option" where
  "network_open_info V fs h o1 hide a s =
     (let mk = FileNetworkOpenInformationInfo (BirthTimeFromVfs a) (AccessTimeFromVfs a) (ModifiedTimeFromVfs a)
            (ChangeTimeFromVfs a)
      in if isEa o1
         then let (n, s) = stream_size V fs h (eaKey o1) s in Some (mk (of_nat n) (of_nat n) 0, s)
         else do {
           fa \<leftarrow> PermissionsFromVfs a (pathName o1) hide;
           Some (mk (DiskSizeFromVfs a) (SizeFromVfs a) fa, s) })"

definition normalized_name :: "string \<Rightarrow> string" where
  "normalized_name name = (let n = to_backslash name in if HasPrefix n [backslash] then n else backslash # n)"

definition posix_file_info :: "Attributes \<Rightarrow> string \<Rightarrow> bool \<Rightarrow> info option" where
  "posix_file_info a name hide = do {
     mode \<leftarrow> PosixWireModeFromVfs a;
     links \<leftarrow> GetLinkCount a;
     (ow, gr) \<leftarrow> posix_sids a;
     tag \<leftarrow> reparse_tag a;
     fa \<leftarrow> PermissionsFromVfs a name hide;
     ino \<leftarrow> GetInodeNumber a;
     Some (PosixFileInfo \<lparr>pi_CreationTime = BirthTimeFromVfs a, pi_LastAccessTime = AccessTimeFromVfs a,
       pi_LastWriteTime = ModifiedTimeFromVfs a, pi_ChangeTime = ChangeTimeFromVfs a, pi_EndOfFile = SizeFromVfs a,
       pi_AllocationSize = DiskSizeFromVfs a, pi_DosAttributes = fa, pi_Inode = ino, pi_HardLinks = links,
       pi_ReparseTag = tag, pi_Mode = mode, pi_OwnerSid = ow, pi_GroupSid = gr\<rparr>) }"

text \<open>The information of a class, or the status of the refusal.\<close>

definition file_info ::
    "'s vfs \<Rightarrow> nat \<Rightarrow> bool \<Rightarrow> bool \<Rightarrow> bool \<Rightarrow> byte \<Rightarrow> u64 \<Rightarrow> Open \<Rightarrow> Attributes \<Rightarrow> 's
     \<Rightarrow> ((u32 + info option) \<times> 's) option" where
  "file_info V fs xa hide posix class h o1 a s =
     (let pure = map_option (\<lambda>i. (Inr (Some i), s)) in
      if class = 18 then pure (file_all_info a (pathName o1) hide)
      else if class = 7 then pure (Some (FileEaInformationInfo 0))
      else if class = 22
      then do {
        ty \<leftarrow> GetFileType a;
        Some (if ty = FileTypeDirectory then (Inr None, s)
              else let (i, s) = file_streams V fs xa h a s in (Inr (Some i), s)) }
      else if class = 34
      then do { (i, s) \<leftarrow> network_open_info V fs h o1 hide a s; Some (Inr (Some i), s) }
      else if class = 48 then pure (Some (FileNormalizedNameInformationInfo (normalized_name (pathName o1))))
      else if class = 6 then pure (map_option FileInternalInformationInfo (GetInodeNumber a))
      else if class = 15 then Some (Inl STATUS_NO_EAS_ON_FILE, s)
      else if class = FilePosixInformation
      then if posix then pure (posix_file_info a (pathName o1) hide) else Some (Inl STATUS_NOT_SUPPORTED, s)
      else Some (Inl STATUS_NOT_SUPPORTED, s))"

definition queryInfoFile ::
    "'a env \<Rightarrow> 's file_env \<Rightarrow> nat \<Rightarrow> nat option \<Rightarrow> slice \<Rightarrow> ('a, 's) file_server \<Rightarrow> conn \<Rightarrow> ('a, 's) file_outcome" where
  "queryInfoFile env fe ptr cp pkt srv cn = do {
     (tc, fs, aapl) \<leftarrow> file_tree ptr cn;
     sess \<leftarrow> tree_session tc cn;
     r \<leftarrow> accepted SMB2_QUERY_INFO pkt;
     class \<leftarrow> QueryInfoRequest_FileInfoClass r;
     room \<leftarrow> QueryInfoRequest_OutputBufferLength r;
     fid \<leftarrow> request_file (QueryInfoRequest_FileId r) cp cn;
     (if IsInvalidFileId fid then deny env pkt tc cp STATUS_INVALID_HANDLE srv cn
      else case getOpen (HandleId fid) srv of
          None \<Rightarrow> deny env pkt tc cp STATUS_INVALID_HANDLE srv cn
        | Some (q, o1) \<Rightarrow>
            let (got, srv) = on_fs (v_GetAttr (f_vfs fe) fs (HandleId fid)) srv
            in case got of
                 Inl e \<Rightarrow> deny env pkt tc cp STATUS_INVALID_HANDLE srv cn
               | Inr a \<Rightarrow> do {
                   ty \<leftarrow> GetFileType a;
                   (i, s) \<leftarrow> file_info (f_vfs fe) fs (xattrs srv) (hideDotfiles srv) (posixExtensions cn) class
                     (HandleId fid) o1 a (fs_state srv);
                   let srv = srv\<lparr>fs_state := s\<rparr>;
                   (case i of
                      Inl status \<Rightarrow> deny env pkt tc cp status srv cn
                    | Inr i \<Rightarrow> send_info env pkt tc cp i room srv cn) }) }"

subsection \<open>queryInfo: security\<close>

definition LOCAL_SYSTEM :: SID where
  "LOCAL_SYSTEM = \<lparr>Authority = SECURITY_NT_AUTHORITY, Subs = [18]\<rparr>"

text \<open>
  The descriptor of every file: owned by the system, a medium-integrity label, everyone may do
  everything, as far as the client asks.
\<close>

definition reported_descriptor :: "u32 \<Rightarrow> SecurityDescriptor" where
  "reported_descriptor ai =
     \<lparr>OwnerSid = (if ai AND 1 \<noteq> 0 then Some LOCAL_SYSTEM else None),
      GroupSid = (if ai AND 2 \<noteq> 0 then Some LOCAL_SYSTEM else None),
      Sacl = (if ai AND (8 OR 0x10) \<noteq> 0
        then Some [\<lparr>AceSid = \<lparr>Authority = MANDATORY_LABEL_AUTHORITY, Subs = [8192]\<rparr>, AceType = 0x11, AceMask = 0\<rparr>]
        else None),
      Dacl = (if ai AND 4 \<noteq> 0
        then Some [\<lparr>AceSid = \<lparr>Authority = WORLD_SID_AUTHORITY, Subs = [0]\<rparr>, AceType = 0, AceMask = GENERIC_ALL\<rparr>]
        else None)\<rparr>"

definition queryInfoSec ::
    "'a env \<Rightarrow> nat \<Rightarrow> nat option \<Rightarrow> slice \<Rightarrow> ('a, 's) file_server \<Rightarrow> conn \<Rightarrow> ('a, 's) file_outcome" where
  "queryInfoSec env ptr cp pkt srv cn = do {
     (tc, fs, aapl) \<leftarrow> file_tree ptr cn;
     sess \<leftarrow> tree_session tc cn;
     r \<leftarrow> accepted SMB2_QUERY_INFO pkt;
     fid \<leftarrow> request_file (QueryInfoRequest_FileId r) cp cn;
     (if IsInvalidFileId fid \<or> getOpen (HandleId fid) srv = None then deny env pkt tc cp STATUS_INVALID_HANDLE srv cn
      else do {
        ai \<leftarrow> QueryInfoRequest_AdditionalInformation r;
        room \<leftarrow> QueryInfoRequest_OutputBufferLength r;
        let sd = reported_descriptor ai;
        (if unat room < SD_Size sd
         then reply env pkt tc cp STATUS_BUFFER_TOO_SMALL
                (ErrorResponse (Some (OtherErrorData (SmallBufferError_Encode (of_nat (SD_Size sd)))))) srv cn
         else do {
           b \<leftarrow> SD_Encode sd (zeros (SD_Size sd));
           reply env pkt tc cp 0 (QueryInfoResponse (Some b)) srv cn }) }) }"

definition queryInfo ::
    "'a env \<Rightarrow> 's file_env \<Rightarrow> nat \<Rightarrow> nat option \<Rightarrow> slice \<Rightarrow> ('a, 's) file_server \<Rightarrow> conn \<Rightarrow> ('a, 's) file_outcome" where
  "queryInfo env fe ptr cp pkt srv cn = do {
     (tc, fs, aapl) \<leftarrow> file_tree ptr cn;
     sess \<leftarrow> tree_session tc cn;
     (r, err) \<leftarrow> accept SMB2_QUERY_INFO pkt;
     (if err \<noteq> None then Some (err, srv, cn)
      else do {
        inv \<leftarrow> QueryInfoRequest_IsInvalid r;
        (if inv then Some (Some (InvalidRequestError ''broken quety info format''), srv, cn)
         else do {
           ty \<leftarrow> QueryInfoRequest_InfoType r;
           (if ty = SMB2_0_INFO_FILE then queryInfoFile env fe ptr cp pkt srv cn
            else if ty = SMB2_0_INFO_FILESYSTEM then queryInfoFileSystem env fe ptr cp pkt srv cn
            else if ty = SMB2_0_INFO_SECURITY then queryInfoSec env ptr cp pkt srv cn
            else deny env pkt tc cp STATUS_NOT_SUPPORTED srv cn) }) }) }"

end
