(* ===== verification/SetInfo.thy ===== *)
theory SetInfo
  imports Query
begin

section \<open>File trees: changes and control codes\<close>

text \<open>
  The handlers of \<^verbatim>\<open>smb/server/file_tree.go\<close> for SET_INFO and IOCTL, and the table that sends a command
  to the handler of its tree.
\<close>

subsection \<open>Times, sizes and deletion\<close>

abbreviation set_done where
  "set_done env pkt tc cp srv cn \<equiv> reply env pkt tc cp 0 SetInfoResponse srv cn"

text \<open>A time of zero is not set.\<close>

definition set_time :: "(u64 \<Rightarrow> Attributes \<Rightarrow> Attributes) \<Rightarrow> Filetime \<Rightarrow> Attributes \<Rightarrow> Attributes" where
  "set_time f t a = (let ns = Nanoseconds t in if ns \<noteq> 0 then f ns a else a)"

definition basic_attributes :: "slice \<Rightarrow> Attributes option" where
  "basic_attributes b = do {
     at \<leftarrow> FileBasicInformation_LastAccessTime b;
     wt \<leftarrow> FileBasicInformation_LastWriteTime b;
     ht \<leftarrow> FileBasicInformation_ChangeTime b;
     ct \<leftarrow> FileBasicInformation_CreationTime b;
     Some (set_time SetBirthTime ct (set_time SetLastStatusChangeTime ht
       (set_time SetLastDataModificationTime wt (set_time SetAccessTime at no_attributes)))) }"

definition setBasicInfo ::
    "'a env \<Rightarrow> 's file_env \<Rightarrow> treeConn \<Rightarrow> nat \<Rightarrow> nat option \<Rightarrow> u64 \<Rightarrow> Open \<Rightarrow> slice \<Rightarrow> slice
     \<Rightarrow> ('a, 's) file_server \<Rightarrow> conn \<Rightarrow> ('a, 's) file_outcome" where
  "setBasicInfo env fe tc fs cp h o1 pkt r srv cn = do {
     b \<leftarrow> SetInfoRequest_Buffer r;
     a \<leftarrow> basic_attributes b;
     let (e, srv) = (if isEa o1 then (None, srv) else on_fs (v_SetAttr (f_vfs fe) fs h a) srv);
     (if e \<noteq> None \<and> \<not> ignoreSetAttrErr srv then deny env pkt tc cp STATUS_NOT_SUPPORTED srv cn
      else set_done env pkt tc cp srv cn) }"

definition setEndOfFileInfo ::
    "'a env \<Rightarrow> 's file_env \<Rightarrow> treeConn \<Rightarrow> nat \<Rightarrow> nat option \<Rightarrow> u64 \<Rightarrow> slice \<Rightarrow> slice
     \<Rightarrow> ('a, 's) file_server \<Rightarrow> conn \<Rightarrow> ('a, 's) file_outcome" where
  "setEndOfFileInfo env fe tc fs cp h pkt r srv cn = do {
     b \<leftarrow> SetInfoRequest_Buffer r;
     n \<leftarrow> FileEndOfFileInformation_EndOfFile b;
     let (e, srv) = on_fs (v_Truncate (f_vfs fe) fs h n) srv;
     (if e \<noteq> None then deny env pkt tc cp STATUS_ACCESS_DENIED srv cn else set_done env pkt tc cp srv cn) }"

text \<open>\<^verbatim>\<open>make\<close> panics when the length is negative or beyond the address space of a 64-bit machine.\<close>

definition make_bytes :: "u64 \<Rightarrow> byte list option" where
  "make_bytes n = (if sint n < 0 \<or> 2 ^ 48 < sint n then None else Some (zeros (unat n)))"

definition setEndOfFileInfoEa ::
    "'a env \<Rightarrow> 's file_env \<Rightarrow> treeConn \<Rightarrow> nat \<Rightarrow> nat option \<Rightarrow> u64 \<Rightarrow> string \<Rightarrow> slice \<Rightarrow> slice
     \<Rightarrow> ('a, 's) file_server \<Rightarrow> conn \<Rightarrow> ('a, 's) file_outcome" where
  "setEndOfFileInfoEa env fe tc fs cp h key pkt r srv cn = do {
     b \<leftarrow> SetInfoRequest_Buffer r;
     n \<leftarrow> FileEndOfFileInformation_EndOfFile b;
     v \<leftarrow> make_bytes n;
     let (e, srv) = on_fs (v_Setxattr (f_vfs fe) fs h key v) srv;
     set_done env pkt tc cp srv cn }"

definition only_dots :: "DirInfo list \<Rightarrow> bool" where
  "only_dots ds \<longleftrightarrow> (\<forall>d \<in> set ds. fst d = ''.'' \<or> fst d = ''..'')"

definition setDispositionInfo ::
    "'a env \<Rightarrow> 's file_env \<Rightarrow> treeConn \<Rightarrow> nat \<Rightarrow> nat option \<Rightarrow> u64 \<Rightarrow> nat \<Rightarrow> slice \<Rightarrow> slice
     \<Rightarrow> ('a, 's) file_server \<Rightarrow> conn \<Rightarrow> ('a, 's) file_outcome" where
  "setDispositionInfo env fe tc fs cp h optr pkt r srv cn = do {
     b \<leftarrow> SetInfoRequest_Buffer r;
     del \<leftarrow> FileDispositionInformation_DeletePending b;
     (if del = 0 then set_done env pkt tc cp (modify_open optr (\<lambda>o1. o1\<lparr>deleteAfterClose := False\<rparr>) srv) cn
      else
        let (got, srv) = on_fs (v_GetAttr (f_vfs fe) fs h) srv
        in case got of
             Inl e \<Rightarrow> deny env pkt tc cp STATUS_ACCESS_DENIED srv cn
           | Inr a \<Rightarrow> do {
               ty \<leftarrow> GetFileType a;
               let (full, srv) = (if ty = FileTypeDirectory
                     then let (ds, srv) = on_fs (v_ReadDir (f_vfs fe) fs h 0 1000) srv
                       in (case ds of Inl e \<Rightarrow> False | Inr ds \<Rightarrow> \<not> only_dots ds, srv)
                     else (False, srv));
               (if full then deny env pkt tc cp STATUS_DIRECTORY_NOT_EMPTY srv cn
                else set_done env pkt tc cp (modify_open optr (\<lambda>o1. o1\<lparr>deleteAfterClose := True\<rparr>) srv) cn) }) }"

definition setDispositionInfoEa ::
    "'a env \<Rightarrow> 's file_env \<Rightarrow> treeConn \<Rightarrow> nat \<Rightarrow> nat option \<Rightarrow> u64 \<Rightarrow> string \<Rightarrow> slice
     \<Rightarrow> ('a, 's) file_server \<Rightarrow> conn \<Rightarrow> ('a, 's) file_outcome" where
  "setDispositionInfoEa env fe tc fs cp h key pkt srv cn =
     (let (e, srv) = on_fs (v_Removexattr (f_vfs fe) fs h key) srv
      in if e \<noteq> None \<and> e \<noteq> Some ENODATA then deny env pkt tc cp STATUS_NOT_FOUND srv cn
         else set_done env pkt tc cp srv cn)"

subsection \<open>Renaming\<close>

definition notify_renamed :: "string \<Rightarrow> u32 \<Rightarrow> ('a, 's) file_server \<Rightarrow> ('a, 's) file_server" where
  "notify_renamed path action srv = (if path = [] then srv else notifyChange path action srv)"

definition setRename ::
    "'a env \<Rightarrow> 's file_env \<Rightarrow> treeConn \<Rightarrow> nat \<Rightarrow> nat option \<Rightarrow> u64 \<Rightarrow> slice \<Rightarrow> slice
     \<Rightarrow> ('a, 's) file_server \<Rightarrow> conn \<Rightarrow> ('a, 's) file_outcome" where
  "setRename env fe tc fs cp h pkt r srv cn = do {
     b \<leftarrow> SetInfoRequest_Buffer r;
     name \<leftarrow> FileRenameInformation_FileName b;
     root \<leftarrow> FileRenameInformation_RootDirectory b;
     repl \<leftarrow> FileRenameInformation_ReplaceIfExists b;
     let to = to_slash name;
     let o1 = getOpen h srv;
     let (e, srv) = on_fs (v_Rename (f_vfs fe) fs h to (uint repl)) srv;
     (if e \<noteq> None then deny env pkt tc cp STATUS_ACCESS_DENIED srv cn
      else do {
        (e, srv, cn) \<leftarrow> set_done env pkt tc cp srv cn;
        let srv = (case o1 of None \<Rightarrow> srv | Some (q, o1) \<Rightarrow> notify_renamed (pathName o1) 4 srv);
        Some (e, notify_renamed to 5 srv, cn) }) }"

subsection \<open>Security descriptors\<close>

text \<open>
  The POSIX user (\<open>kind\<close> 1) or group (\<open>kind\<close> 2) that a SID stands for: \<^verbatim>\<open>S-1-22-kind-n\<close> or
  \<^verbatim>\<open>S-1-5-88-kind-n\<close>.
\<close>

definition sid_parts :: "slice \<Rightarrow> (u64 \<times> u32 list) option" where
  "sid_parts s = do {
     subs \<leftarrow> SidDecoder_SubAuthority s;
     auth \<leftarrow> SidDecoder_IdentifierAuthority s;
     Some (auth, subs) }"

definition posix_id :: "u32 \<Rightarrow> slice \<Rightarrow> u32 option option" where
  "posix_id kind s = do {
     inv \<leftarrow> SidDecoder_IsInvalid s;
     (if inv then Some None
      else do {
        (auth, subs) \<leftarrow> sid_parts s;
        Some (if auth = 22 \<and> length subs = 2 \<and> subs ! 0 = kind then Some (subs ! 1)
              else if auth = 5 \<and> length subs = 3 \<and> subs ! 0 = 88 \<and> subs ! 1 = kind then Some (subs ! 2)
              else None) }) }"

definition sd_id :: "u32 \<Rightarrow> slice option \<Rightarrow> u32 option option" where
  "sd_id kind s = (case s of None \<Rightarrow> Some None | Some s \<Rightarrow> posix_id kind s)"

text \<open>The mode in the entry of an NFS mode SID, \<^verbatim>\<open>S-1-x-88-3-mode\<close>, of the first \<open>n\<close> entries.\<close>

fun nfs_mode :: "nat \<Rightarrow> slice \<Rightarrow> u32 option option" where
  "nfs_mode 0 b = Some None"
| "nfs_mode (Suc n) b = do {
     sid \<leftarrow> AceDecoder_Sid b;
     (auth, subs) \<leftarrow> sid_parts sid;
     ty \<leftarrow> AceDecoder_Type b;
     acc \<leftarrow> AceDecoder_Mask b;
     (if length subs = 3 \<and> subs ! 0 = 88 \<and> subs ! 1 = 3 then Some (Some (subs ! 2))
      else do {
        k \<leftarrow> AceDecoder_Size b;
        rest \<leftarrow> sl_from (unat k) b;
        nfs_mode n rest }) }"

definition mask_bits :: "u32 \<Rightarrow> u32" where
  "mask_bits acc = (if acc AND 1 \<noteq> 0 then 4 else 0) OR (if acc AND 2 \<noteq> 0 then 2 else 0)
     OR (if acc AND 0x20 \<noteq> 0 then 1 else 0)"

text \<open>What access masks say for owner, group and others.\<close>

type_synonym modes = "u32 option \<times> u32 option \<times> u32 option"

definition ace_modes :: "u64 \<Rightarrow> u32 list \<Rightarrow> u32 \<Rightarrow> modes \<Rightarrow> modes" where
  "ace_modes auth subs bits m = (case m of (ow, gr, ot) \<Rightarrow>
     if auth = 5 \<and> length subs = 3 \<and> subs ! 0 = 88 \<and> subs ! 1 = 1 then (Some bits, gr, ot)
     else if auth = 22 \<and> length subs = 2 \<and> subs ! 0 = 1 then (Some bits, gr, ot)
     else if auth = 5 \<and> length subs = 3 \<and> subs ! 0 = 88 \<and> subs ! 1 = 2 then (ow, Some bits, ot)
     else if auth = 22 \<and> length subs = 2 \<and> subs ! 0 = 2 then (ow, Some bits, ot)
     else if auth = 1 \<and> length subs = 1 \<and> subs ! 0 = 0 then (ow, gr, Some bits)
     else (ow, gr, ot))"

fun derived_modes :: "nat \<Rightarrow> slice \<Rightarrow> modes \<Rightarrow> modes option" where
  "derived_modes 0 b m = Some m"
| "derived_modes (Suc n) b m = do {
     ty \<leftarrow> AceDecoder_Type b;
     m \<leftarrow> (if ty = 0
       then do {
         sid \<leftarrow> AceDecoder_Sid b;
         (auth, subs) \<leftarrow> sid_parts sid;
         acc \<leftarrow> AceDecoder_Mask b;
         Some (ace_modes auth subs (mask_bits acc) m) }
       else Some m);
     k \<leftarrow> AceDecoder_Size b;
     rest \<leftarrow> sl_from (unat k) b;
     derived_modes n rest m }"

definition mode_of :: "modes \<Rightarrow> u32 option" where
  "mode_of m = (case m of (None, None, None) \<Rightarrow> None
     | (ow, gr, ot) \<Rightarrow> (let v = (\<lambda>x. case x of None \<Rightarrow> 0 | Some b \<Rightarrow> b) in
         Some (push_bit 6 (v ow) OR push_bit 3 (v gr) OR v ot)))"

definition dacl_mode :: "slice \<Rightarrow> u32 option option" where
  "dacl_mode d = do {
     n \<leftarrow> AclDecoder_AceCount d;
     b \<leftarrow> AclDecoder_Aces d;
     found \<leftarrow> nfs_mode (unat n) b;
     (case found of
        Some m \<Rightarrow> Some (Some m)
      | None \<Rightarrow> map_option mode_of (derived_modes (unat n) b (None, None, None))) }"

definition set_opt :: "(u32 \<Rightarrow> Attributes \<Rightarrow> Attributes) \<Rightarrow> u32 option \<Rightarrow> Attributes \<Rightarrow> Attributes" where
  "set_opt f x a = (case x of None \<Rightarrow> a | Some v \<Rightarrow> f v a)"

text \<open>Owner, group and mode that a descriptor sets.\<close>

definition sd_attributes :: "slice \<Rightarrow> (u32 option \<times> u32 option \<times> u32 option) option" where
  "sd_attributes sd = do {
     ow \<leftarrow> SecurityDescriptorDecoder_OwnerSid sd;
     uid \<leftarrow> sd_id 1 ow;
     gr \<leftarrow> SecurityDescriptorDecoder_GroupSid sd;
     gid \<leftarrow> sd_id 2 gr;
     dacl \<leftarrow> SecurityDescriptorDecoder_Dacl sd;
     mode \<leftarrow> (case dacl of None \<Rightarrow> Some None | Some d \<Rightarrow> dacl_mode d);
     Some (uid, gid, mode) }"

definition owner_attributes :: "u32 option \<times> u32 option \<times> u32 option \<Rightarrow> Attributes option" where
  "owner_attributes x = (case x of (uid, gid, mode) \<Rightarrow>
     if uid = None \<and> gid = None \<and> mode = None then None
     else Some (set_opt SetUnixMode mode (set_opt SetGID gid (set_opt SetUID uid no_attributes))))"

definition change_owner :: "'s vfs \<Rightarrow> nat \<Rightarrow> u64 \<Rightarrow> Attributes option \<Rightarrow> 's \<Rightarrow> 's" where
  "change_owner V fs h a s = (case a of None \<Rightarrow> s | Some a \<Rightarrow> snd (v_SetAttr V fs h a s))"

definition setSecInfo ::
    "'a env \<Rightarrow> 's file_env \<Rightarrow> treeConn \<Rightarrow> nat \<Rightarrow> nat option \<Rightarrow> u64 \<Rightarrow> slice \<Rightarrow> slice
     \<Rightarrow> ('a, 's) file_server \<Rightarrow> conn \<Rightarrow> ('a, 's) file_outcome" where
  "setSecInfo env fe tc fs cp h pkt r srv cn = do {
     sd \<leftarrow> SetInfoRequest_Buffer r;
     x \<leftarrow> sd_attributes sd;
     set_done env pkt tc cp (srv\<lparr>fs_state := change_owner (f_vfs fe) fs h (owner_attributes x) (fs_state srv)\<rparr>) cn }"

subsection \<open>POSIX attributes\<close>

text \<open>One SID of the pair behind the fixed part, and what follows it: a SID that does not fit stays.\<close>

definition posix_sid :: "u32 \<Rightarrow> slice \<Rightarrow> (u32 option \<times> slice) option" where
  "posix_sid kind b =
     (if len b < 8 then Some (None, b)
      else do {
        n \<leftarrow> sl_at 1 b;
        let size = 8 + unat n * 4;
        (if len b < size then Some (None, b)
         else do {
           s \<leftarrow> sl_range 0 size b;
           rest \<leftarrow> sl_from size b;
           inv \<leftarrow> SidDecoder_IsInvalid s;
           (if inv then Some (None, rest)
            else do {
              (auth, subs) \<leftarrow> sid_parts s;
              Some (if auth = 22 \<and> n = 2 \<and> subs ! 0 = kind then Some (subs ! 1) else None, rest) }) }) })"

definition posix_attributes :: "slice \<Rightarrow> (u32 option \<times> u32 option \<times> u32 option) option" where
  "posix_attributes b = do {
     mode \<leftarrow> (if 80 \<le> len b
       then do { m \<leftarrow> u32_in 76 80 b; Some (if m \<noteq> 0 then Some m else None) } else Some None);
     (uid, gid) \<leftarrow> (if 80 < len b
       then do {
         s \<leftarrow> sl_from 80 b;
         (uid, s) \<leftarrow> posix_sid 1 s;
         (gid, s) \<leftarrow> posix_sid 2 s;
         Some (uid, gid) }
       else Some (None, None));
     Some (uid, gid, mode) }"

definition setPosixInfo ::
    "'a env \<Rightarrow> 's file_env \<Rightarrow> treeConn \<Rightarrow> nat \<Rightarrow> nat option \<Rightarrow> u64 \<Rightarrow> slice \<Rightarrow> slice
     \<Rightarrow> ('a, 's) file_server \<Rightarrow> conn \<Rightarrow> ('a, 's) file_outcome" where
  "setPosixInfo env fe tc fs cp h pkt r srv cn = do {
     b \<leftarrow> SetInfoRequest_Buffer r;
     x \<leftarrow> posix_attributes b;
     set_done env pkt tc cp (srv\<lparr>fs_state := change_owner (f_vfs fe) fs h (owner_attributes x) (fs_state srv)\<rparr>) cn }"

subsection \<open>setInfo\<close>

definition set_class ::
    "'a env \<Rightarrow> 's file_env \<Rightarrow> treeConn \<Rightarrow> nat \<Rightarrow> nat option \<Rightarrow> byte \<Rightarrow> u64 \<Rightarrow> nat \<Rightarrow> Open \<Rightarrow> slice \<Rightarrow> slice
     \<Rightarrow> ('a, 's) file_server \<Rightarrow> conn \<Rightarrow> ('a, 's) file_outcome" where
  "set_class env fe tc fs cp class h optr o1 pkt r srv cn =
     (if class = 4 then setBasicInfo env fe tc fs cp h o1 pkt r srv cn
      else if class = 20
      then if isEa o1 then setEndOfFileInfoEa env fe tc fs cp h (eaKey o1) pkt r srv cn
           else setEndOfFileInfo env fe tc fs cp h pkt r srv cn
      else if class = 13
      then if isEa o1 then setDispositionInfoEa env fe tc fs cp h (eaKey o1) pkt srv cn
           else setDispositionInfo env fe tc fs cp h optr pkt r srv cn
      else if class = 10 \<and> \<not> isEa o1 then setRename env fe tc fs cp h pkt r srv cn
      else if class = FilePosixInformation then setPosixInfo env fe tc fs cp h pkt r srv cn
      else if class = 19 then set_done env pkt tc cp srv cn
      else deny env pkt tc cp STATUS_NOT_SUPPORTED srv cn)"

definition setInfo ::
    "'a env \<Rightarrow> 's file_env \<Rightarrow> nat \<Rightarrow> nat option \<Rightarrow> slice \<Rightarrow> ('a, 's) file_server \<Rightarrow> conn \<Rightarrow> ('a, 's) file_outcome" where
  "setInfo env fe ptr cp pkt srv cn = do {
     (tc, fs, aapl) \<leftarrow> file_tree ptr cn;
     sess \<leftarrow> tree_session tc cn;
     (if t_isUserReadOnly env tc srv cn \<or> t_isShareReadOnly fe fs srv
      then deny env pkt tc cp STATUS_ACCESS_DENIED srv cn
      else do {
        r \<leftarrow> accepted SMB2_SET_INFO pkt;
        fid \<leftarrow> request_file (SetInfoRequest_FileId r) cp cn;
        (if IsInvalidFileId fid then deny env pkt tc cp STATUS_INVALID_HANDLE srv cn
         else case getOpen (HandleId fid) srv of
             None \<Rightarrow> deny env pkt tc cp STATUS_INVALID_HANDLE srv cn
           | Some (q, o1) \<Rightarrow> do {
               let h = HandleId fid;
               class \<leftarrow> SetInfoRequest_FileInfoClass r;
               let (e, srv) = on_fs (v_Flush (f_vfs fe) fs h) srv;
               ty \<leftarrow> SetInfoRequest_InfoType r;
               (if ty = SMB2_0_INFO_SECURITY then setSecInfo env fe tc fs cp h pkt r srv cn
                else set_class env fe tc fs cp class h q o1 pkt r srv cn) }) }) }"

subsection \<open>ioctl\<close>

abbreviation (input) "FSCTL_SET_REPARSE_POINT \<equiv> (0x900A4 :: u32)"
abbreviation (input) "FSCTL_GET_REPARSE_POINT \<equiv> (0x900A8 :: u32)"
abbreviation (input) "FSCTL_DELETE_REPARSE_POINT \<equiv> (0x900AC :: u32)"
abbreviation (input) "FSCTL_CREATE_OR_GET_OBJECT_ID \<equiv> (0x900C0 :: u32)"

definition ioctl_done ::
    "'a env \<Rightarrow> slice \<Rightarrow> treeConn \<Rightarrow> nat option \<Rightarrow> u32 \<Rightarrow> FileId \<Rightarrow> byte list option \<Rightarrow> ('a, 'z) server_scheme \<Rightarrow> conn
     \<Rightarrow> ('a, 'z) outcome_of" where
  "ioctl_done env pkt tc cp ctl fid outp srv cn =
     reply env pkt tc cp 0 (IoctlResponse ctl (fid_bytes fid) 0 None outp) srv cn"

text \<open>A refusal of the reparse data logs its tag, whether it is there or not.\<close>

definition handleReparsePointReq ::
    "'a env \<Rightarrow> 's file_env \<Rightarrow> treeConn \<Rightarrow> nat \<Rightarrow> nat option \<Rightarrow> slice \<Rightarrow> slice
     \<Rightarrow> ('a, 's) file_server \<Rightarrow> conn \<Rightarrow> ('a, 's) file_outcome" where
  "handleReparsePointReq env fe tc fs cp pkt r srv cn = do {
     rd \<leftarrow> IoctlRequest_Data r;
     inv \<leftarrow> SymlinkReparse_IsInvalid rd;
     (if inv then do {
        tag \<leftarrow> SymlinkReparse_ReparseTag rd;
        deny env pkt tc cp STATUS_NOT_SUPPORTED srv cn }
      else do {
        fid \<leftarrow> request_file (IoctlRequest_FileId r) cp cn;
        (if IsInvalidFileId fid then deny env pkt tc cp STATUS_INVALID_HANDLE srv cn
         else do {
           name \<leftarrow> SymlinkReparse_SubstituteName rd;
           fl \<leftarrow> SymlinkReparse_Flags rd;
           let (e, srv) = on_fs (v_Symlink (f_vfs fe) fs (HandleId fid) (to_slash name) (uint fl)) srv;
           (if e \<noteq> None then deny env pkt tc cp STATUS_ACCESS_DENIED srv cn
            else ioctl_done env pkt tc cp FSCTL_SET_REPARSE_POINT fid None srv cn) }) }) }"

definition symlink_flags :: "string \<Rightarrow> u32" where
  "symlink_flags l = (if path_IsAbs l then 0 else 1)"

definition handleGetReparsePointReq ::
    "'a env \<Rightarrow> 's file_env \<Rightarrow> treeConn \<Rightarrow> nat \<Rightarrow> nat option \<Rightarrow> slice \<Rightarrow> slice
     \<Rightarrow> ('a, 's) file_server \<Rightarrow> conn \<Rightarrow> ('a, 's) file_outcome" where
  "handleGetReparsePointReq env fe tc fs cp pkt r srv cn = do {
     fid \<leftarrow> request_file (IoctlRequest_FileId r) cp cn;
     (if IsInvalidFileId fid then deny env pkt tc cp STATUS_INVALID_HANDLE srv cn
      else
        let (got, srv) = on_fs (v_Readlink (f_vfs fe) fs (HandleId fid)) srv
        in case got of
             Inl e \<Rightarrow> deny env pkt tc cp STATUS_ACCESS_DENIED srv cn
           | Inr l \<Rightarrow> do {
               let l = to_backslash l;
               let n = SymlinkReparse_Size l l;
               b \<leftarrow> puts (SymlinkReparse_Encode (symlink_flags l) l l n) (zeros n);
               ioctl_done env pkt tc cp FSCTL_GET_REPARSE_POINT fid (Some b) srv cn }) }"

definition handleDeleteReparsePointReq ::
    "'a env \<Rightarrow> 's file_env \<Rightarrow> treeConn \<Rightarrow> nat \<Rightarrow> nat option \<Rightarrow> slice \<Rightarrow> slice
     \<Rightarrow> ('a, 's) file_server \<Rightarrow> conn \<Rightarrow> ('a, 's) file_outcome" where
  "handleDeleteReparsePointReq env fe tc fs cp pkt r srv cn = do {
     fid \<leftarrow> request_file (IoctlRequest_FileId r) cp cn;
     (if IsInvalidFileId fid then deny env pkt tc cp STATUS_INVALID_HANDLE srv cn
      else
        let (e, srv) = on_fs (v_Unlink (f_vfs fe) fs (HandleId fid)) srv
        in if e \<noteq> None then deny env pkt tc cp STATUS_ACCESS_DENIED srv cn
           else ioctl_done env pkt tc cp FSCTL_GET_REPARSE_POINT fid None srv cn) }"

definition handleCreateOrGetObjectId ::
    "'a env \<Rightarrow> 's file_env \<Rightarrow> treeConn \<Rightarrow> nat \<Rightarrow> nat option \<Rightarrow> slice \<Rightarrow> slice
     \<Rightarrow> ('a, 's) file_server \<Rightarrow> conn \<Rightarrow> ('a, 's) file_outcome" where
  "handleCreateOrGetObjectId env fe tc fs cp pkt r srv cn = do {
     fid \<leftarrow> request_file (IoctlRequest_FileId r) cp cn;
     (if IsInvalidFileId fid then deny env pkt tc cp STATUS_INVALID_HANDLE srv cn
      else do {
        (i, s) \<leftarrow> object_id (f_vfs fe) fs fid (fs_state srv);
        b \<leftarrow> info_Encode i;
        ioctl_done env pkt tc cp FSCTL_CREATE_OR_GET_OBJECT_ID fid (Some b) (srv\<lparr>fs_state := s\<rparr>) cn }) }"

definition ioctl ::
    "'a env \<Rightarrow> 's file_env \<Rightarrow> nat \<Rightarrow> nat option \<Rightarrow> slice \<Rightarrow> ('a, 's) file_server \<Rightarrow> conn \<Rightarrow> ('a, 's) file_outcome" where
  "ioctl env fe ptr cp pkt srv cn = do {
     (tc, fs, aapl) \<leftarrow> file_tree ptr cn;
     sess \<leftarrow> tree_session tc cn;
     (r, err) \<leftarrow> accept SMB2_IOCTL pkt;
     (if err \<noteq> None then Some (err, srv, cn)
      else do {
        inv \<leftarrow> IoctlRequest_IsInvalid r;
        (if inv then deny env pkt tc cp STATUS_INVALID_PARAMETER srv cn
         else do {
           ctl \<leftarrow> IoctlRequest_CtlCode r;
           (if ctl = FSCTL_SET_REPARSE_POINT then handleReparsePointReq env fe tc fs cp pkt r srv cn
            else if ctl = FSCTL_GET_REPARSE_POINT then handleGetReparsePointReq env fe tc fs cp pkt r srv cn
            else if ctl = FSCTL_DELETE_REPARSE_POINT then handleDeleteReparsePointReq env fe tc fs cp pkt r srv cn
            else if ctl = FSCTL_CREATE_OR_GET_OBJECT_ID then handleCreateOrGetObjectId env fe tc fs cp pkt r srv cn
            else deny env pkt tc cp STATUS_NOT_SUPPORTED srv cn) }) }) }"

subsection \<open>The methods of a file tree\<close>

definition file_ops :: "'a env \<Rightarrow> 's file_env \<Rightarrow> u16 \<Rightarrow> nat \<Rightarrow> nat option \<Rightarrow> slice \<Rightarrow> ('a, 's) file_server \<Rightarrow> conn
     \<Rightarrow> ('a, 's) file_outcome" where
  "file_ops env fe cmd ptr cp pkt srv cn =
     (if cmd = SMB2_CREATE then create env fe ptr cp pkt srv cn
      else if cmd = SMB2_CLOSE then close env fe ptr cp pkt srv cn
      else if cmd = SMB2_FLUSH then flush env fe ptr cp pkt srv cn
      else if cmd = SMB2_READ then read env fe ptr cp pkt srv cn
      else if cmd = SMB2_WRITE then write_file env fe ptr cp pkt srv cn
      else if cmd = SMB2_LOCK then lock env ptr cp pkt srv cn
      else if cmd = SMB2_IOCTL then ioctl env fe ptr cp pkt srv cn
      else if cmd = SMB2_CANCEL then cancel ptr pkt srv cn
      else if cmd = SMB2_QUERY_DIRECTORY then queryDirectory env fe ptr cp pkt srv cn
      else if cmd = SMB2_CHANGE_NOTIFY then changeNotify env fe ptr cp pkt srv cn
      else if cmd = SMB2_QUERY_INFO then queryInfo env fe ptr cp pkt srv cn
      else if cmd = SMB2_SET_INFO then setInfo env fe ptr cp pkt srv cn
      else oplockBreak env ptr cp pkt srv cn)"

end
