(* ===== verification/Passthrough.thy ===== *)
theory Passthrough
  imports SetInfo
begin

section \<open>Serving a directory\<close>

text \<open>
  \<^verbatim>\<open>fs.go\<close>, \<^verbatim>\<open>fs_xattr_unix.go\<close> and \<^verbatim>\<open>smb/vfs/fileinfo_linux.go\<close>: the file system that passes every
  operation on to the operating system, below a root directory.  The calls of the packages \<^verbatim>\<open>os\<close> and
  \<^verbatim>\<open>unix\<close> are a record of functions on the state of the operating system.  Callbacks, timing and
  statistics are left out; the operations of one file system run one after another, so no file is
  being closed while it is read.
\<close>

subsection \<open>The operating system\<close>

text \<open>\<^verbatim>\<open>os.FileInfo\<close> with the \<^verbatim>\<open>Stat_t\<close> behind it; \<open>fi_sys\<close> says that it is there.\<close>

record FileInfo =
  fi_sys :: bool
  fi_ino :: u64
  fi_size :: u64
  fi_blocks :: u64
  fi_mode :: u32
  fi_uid :: u32
  fi_gid :: u32
  fi_nlink :: u32
  fi_atime :: u64
  fi_mtime :: u64
  fi_ctime :: u64

type_synonym fd = nat

text \<open>
  The state of the operating system is what is on its disks, \<open>'d\<close>, and the open descriptors with what
  else a read may change, \<open>'f\<close>.  A call that only reads does not return a disk: in particular
  \<^verbatim>\<open>os.OpenFile\<close> with \<^verbatim>\<open>O_RDONLY\<close>, which is \<open>os_OpenRead\<close>.
\<close>

record ('d, 'f) os =
  os_Stat :: "string \<Rightarrow> 'd \<Rightarrow> error + FileInfo"
  os_Lstat :: "string \<Rightarrow> 'd \<Rightarrow> error + FileInfo"
  os_OpenRead :: "string \<Rightarrow> 'd \<times> 'f \<Rightarrow> (error + fd) \<times> 'f"
  os_OpenFile :: "string \<Rightarrow> u32 \<Rightarrow> u32 \<Rightarrow> 'd \<times> 'f \<Rightarrow> (error + fd) \<times> 'd \<times> 'f"
  os_Mkdir :: "string \<Rightarrow> u32 \<Rightarrow> 'd \<Rightarrow> error option \<times> 'd"
  os_Remove :: "string \<Rightarrow> 'd \<Rightarrow> error option \<times> 'd"
  os_Rename :: "string \<Rightarrow> string \<Rightarrow> 'd \<Rightarrow> error option \<times> 'd"
  os_Symlink :: "string \<Rightarrow> string \<Rightarrow> 'd \<Rightarrow> error option \<times> 'd"
  os_Readlink :: "string \<Rightarrow> 'd \<Rightarrow> error + string"
  os_Truncate :: "string \<Rightarrow> u64 \<Rightarrow> 'd \<Rightarrow> error option \<times> 'd"
  os_Chtimes :: "string \<Rightarrow> u64 \<Rightarrow> u64 \<Rightarrow> 'd \<Rightarrow> error option \<times> 'd"
  os_Chmod :: "string \<Rightarrow> u32 \<Rightarrow> 'd \<Rightarrow> error option \<times> 'd"
  os_Lchown :: "string \<Rightarrow> u32 option \<Rightarrow> u32 option \<Rightarrow> 'd \<Rightarrow> error option \<times> 'd"
  os_f_Stat :: "fd \<Rightarrow> 'd \<times> 'f \<Rightarrow> error + FileInfo"
  os_f_ReadAt :: "fd \<Rightarrow> nat \<Rightarrow> u64 \<Rightarrow> 'd \<times> 'f \<Rightarrow> byte list \<times> error option"
  os_f_WriteAt :: "fd \<Rightarrow> byte list \<Rightarrow> u64 \<Rightarrow> 'd \<times> 'f \<Rightarrow> (nat \<times> error option) \<times> 'd"
  os_f_ReadDir :: "fd \<Rightarrow> int \<Rightarrow> 'd \<times> 'f \<Rightarrow> ((string \<times> (error + FileInfo)) list \<times> error option) \<times> 'f"
  os_f_Seek0 :: "fd \<Rightarrow> 'f \<Rightarrow> 'f"
  os_f_Truncate :: "fd \<Rightarrow> u64 \<Rightarrow> 'd \<times> 'f \<Rightarrow> error option \<times> 'd"
  os_f_Close :: "fd \<Rightarrow> 'f \<Rightarrow> 'f"
  os_Listxattr :: "string \<Rightarrow> 'd \<Rightarrow> error + string"
  os_Getxattr :: "string \<Rightarrow> string \<Rightarrow> 'd \<Rightarrow> error + byte list"
  os_Setxattr :: "string \<Rightarrow> string \<Rightarrow> byte list \<Rightarrow> 'd \<Rightarrow> error option \<times> 'd"
  os_Removexattr :: "string \<Rightarrow> string \<Rightarrow> 'd \<Rightarrow> error option \<times> 'd"
  os_rand64 :: "'f \<Rightarrow> u64 \<times> 'f"

text \<open>\<^verbatim>\<open>os.ModeDir\<close> and \<^verbatim>\<open>os.ModeSymlink\<close>.\<close>

abbreviation (input) "ModeDir \<equiv> (0x80000000 :: u32)"
abbreviation (input) "ModeSymlink \<equiv> (0x08000000 :: u32)"

subsection \<open>State\<close>

text \<open>An open file; \<open>pf_f\<close> is \<open>None\<close> for a \<^verbatim>\<open>nil\<close> file.\<close>

record OpenFile =
  pf_path :: string
  pf_isDir :: bool
  pf_f :: "fd option"
  pf_h :: u64
  pf_dirPos :: int
  pf_dirBuffer :: "DirInfo list"

record PassthroughFS =
  rootPath :: string
  readOnly :: bool
  openFiles :: "u64 \<Rightarrow> OpenFile option"

type_synonym ('d, 'f) pstate = "PassthroughFS \<times> 'd \<times> 'f"

definition NewPassthroughFS :: "string \<Rightarrow> bool \<Rightarrow> PassthroughFS" where
  "NewPassthroughFS root ro = \<lparr>rootPath = root, readOnly = ro, openFiles = (\<lambda>_. None)\<rparr>"

definition bad_handle :: error where "bad_handle = ErrorString ''bad handle''"
definition read_only_share :: error where "read_only_share = ErrorString ''read-only share''"
definition ErrInvalid :: error where "ErrInvalid = ErrorString ''invalid argument''"

definition relativePath :: "PassthroughFS \<Rightarrow> string \<Rightarrow> string" where
  "relativePath ps full = TrimPrefix (TrimPrefix full (rootPath ps)) [slash]"

definition set_file :: "u64 \<Rightarrow> (OpenFile \<Rightarrow> OpenFile) \<Rightarrow> PassthroughFS \<Rightarrow> PassthroughFS" where
  "set_file h f ps = ps\<lparr>openFiles := (openFiles ps)(h := map_option f (openFiles ps h))\<rparr>"

text \<open>A file that a handle stands for: handle 0 is the root, which some operations do not have.\<close>

definition with_file :: "u64 \<Rightarrow> ('d, 'f) pstate \<Rightarrow> (error + 'r) \<times> ('d, 'f) pstate \<Rightarrow> (OpenFile \<Rightarrow> (error + 'r) \<times> ('d, 'f) pstate)
    \<Rightarrow> (error + 'r) \<times> ('d, 'f) pstate" where
  "with_file h st zero f = (if h = 0 then zero else case openFiles (fst st) h of None \<Rightarrow> (Inl bad_handle, st) | Some fl \<Rightarrow> f fl)"

definition changing :: "u64 \<Rightarrow> ('d, 'f) pstate \<Rightarrow> (OpenFile \<Rightarrow> error option \<times> ('d, 'f) pstate) \<Rightarrow> error option \<times> ('d, 'f) pstate" where
  "changing h st f =
     (if readOnly (fst st) then (Some read_only_share, st)
      else if h = 0 then (Some bad_handle, st)
      else case openFiles (fst st) h of None \<Rightarrow> (Some bad_handle, st) | Some fl \<Rightarrow> f fl)"

text \<open>Calls of the operating system: one that changes the disk, and one that does not.\<close>

definition disk :: "('d, 'f) pstate \<Rightarrow> 'd" where "disk st = fst (snd st)"
definition descs :: "('d, 'f) pstate \<Rightarrow> 'f" where "descs st = snd (snd st)"

definition disk_call :: "('d \<Rightarrow> 'r \<times> 'd) \<Rightarrow> ('d, 'f) pstate \<Rightarrow> 'r \<times> ('d, 'f) pstate" where
  "disk_call f st = (let (r, d) = f (disk st) in (r, fst st, d, descs st))"

definition read_call :: "('d \<times> 'f \<Rightarrow> 'r \<times> 'f) \<Rightarrow> ('d, 'f) pstate \<Rightarrow> 'r \<times> ('d, 'f) pstate" where
  "read_call f st = (let (r, q) = f (snd st) in (r, fst st, disk st, q))"

definition close_file :: "('d, 'f) os \<Rightarrow> fd option \<Rightarrow> 'd \<times> 'f \<Rightarrow> 'd \<times> 'f" where
  "close_file os f s = (fst s, case f of None \<Rightarrow> snd s | Some f \<Rightarrow> os_f_Close os f (snd s))"

subsection \<open>Attributes\<close>

definition fileInfoToAttr :: "FileInfo \<Rightarrow> error + Attributes" where
  "fileInfoToAttr i =
     (if \<not> fi_sys i then Inl (ErrorString ''failed to convert stat'')
      else let a = SetInodeNumber (fi_ino i) no_attributes;
               a = SetDiskSizeBytes (fi_blocks i * 512) (SetSizeBytes (fi_size i) a);
               a = SetPermissions (NewPermissionsFromMode (fi_mode i AND 0x1FF)) (SetUnixMode (fi_mode i) a);
               a = SetLinkCount (fi_nlink i) (SetGID (fi_gid i) (SetUID (fi_uid i) a));
               a = SetLastDataModificationTime (fi_mtime i) (SetAccessTime (fi_atime i) a);
               a = SetLastStatusChangeTime (fi_ctime i) (SetBirthTime 0 a)
        in Inr (SetFileType (if fi_mode i AND ModeDir \<noteq> 0 then FileTypeDirectory
             else if fi_mode i AND ModeSymlink \<noteq> 0 then FileTypeSymlink else FileTypeRegularFile) a))"

definition stat_attr :: "error + FileInfo \<Rightarrow> error + Attributes" where
  "stat_attr r = (case r of Inl e \<Rightarrow> Inl e | Inr i \<Rightarrow> fileInfoToAttr i)"

definition p_GetAttr :: "('d, 'f) os \<Rightarrow> u64 \<Rightarrow> ('d, 'f) pstate \<Rightarrow> (error + Attributes) \<times> ('d, 'f) pstate" where
  "p_GetAttr os h st =
     (let ps = fst st; s = snd st in
      with_file h st (stat_attr (os_Lstat os (rootPath ps) (fst s)), st) (\<lambda>fl.
        (case pf_f fl of
           None \<Rightarrow> stat_attr (os_Lstat os (pf_path fl) (fst s))
         | Some f \<Rightarrow> (case os_f_Stat os f s of
             Inr i \<Rightarrow> fileInfoToAttr i
           | Inl e \<Rightarrow> stat_attr (os_Lstat os (pf_path fl) (fst s))), st)))"

definition set_times :: "('d, 'f) os \<Rightarrow> string \<Rightarrow> Attributes \<Rightarrow> Attributes \<Rightarrow> 'd \<Rightarrow> 'd" where
  "set_times os path a old s =
     (let (at, aset) = GetAccessTime a;
          at = (if aset then at else fst (GetAccessTime old));
          (mt, mset) = GetLastDataModificationTime a;
          mt = (if mset then mt else fst (GetLastDataModificationTime old))
      in if aset \<or> mset then snd (os_Chtimes os path at mt s) else s)"

definition set_mode :: "('d, 'f) os \<Rightarrow> string \<Rightarrow> Attributes \<Rightarrow> 'd \<Rightarrow> 'd" where
  "set_mode os path a s =
     (let (mode, mset) = GetUnixMode a in
      if mset
      then (case os_Lstat os path s of
              Inr i \<Rightarrow> if fi_mode i AND ModeSymlink = 0 then snd (os_Chmod os path (mode AND 0x1FF) s) else s
            | Inl e \<Rightarrow> s)
      else s)"

definition set_owner :: "('d, 'f) os \<Rightarrow> string \<Rightarrow> Attributes \<Rightarrow> 'd \<Rightarrow> 'd" where
  "set_owner os path a s =
     (let (uid, uset) = GetUID a; (gid, gset) = GetGID a in
      if uset \<or> gset
      then snd (os_Lchown os path (if uset then Some uid else None) (if gset then Some gid else None) s)
      else s)"

text \<open>What the operating system says of these calls is ignored.\<close>

definition p_SetAttr :: "('d, 'f) os \<Rightarrow> u64 \<Rightarrow> Attributes \<Rightarrow> ('d, 'f) pstate \<Rightarrow> error option \<times> ('d, 'f) pstate" where
  "p_SetAttr os h a st = changing h st (\<lambda>fl.
     case p_GetAttr os h st of
       (Inl e, st) \<Rightarrow> (Some (ErrorString ''failed to read attributes''), st)
     | (Inr old, (ps, d, q)) \<Rightarrow>
         (None, ps, set_owner os (pf_path fl) a (set_mode os (pf_path fl) a (set_times os (pf_path fl) a old d)), q))"

definition p_StatFS :: "('d, 'f) pstate \<Rightarrow> (error + FSAttributes) \<times> ('d, 'f) pstate" where
  "p_StatFS st = (Inr (SetIOSize 4096 (SetFreeFiles 1000000 (SetFreeBlocks 1000000 (SetFiles 1000000
     (SetBlocks 10000000 (SetBlockSize 4096 (SetAvailableBlocks 1000000 no_fs_attributes))))))), st)"

definition p_Flush :: "('d, 'f) pstate \<Rightarrow> error option \<times> ('d, 'f) pstate" where
  "p_Flush st = (None, st)"

subsection \<open>Opening and closing\<close>

definition open_at :: "string \<Rightarrow> bool \<Rightarrow> ('f \<Rightarrow> u64 \<times> 'f) \<Rightarrow> (error + fd) \<times> ('d, 'f) pstate \<Rightarrow> (error + u64) \<times> ('d, 'f) pstate" where
  "open_at full dir rand r =
     (case r of
        (Inl e, st) \<Rightarrow> (Inl e, st)
      | (Inr f, (ps, d, q)) \<Rightarrow>
          let (h, q) = rand q in
          (Inr h, ps\<lparr>openFiles := (openFiles ps)(h \<mapsto> \<lparr>pf_path = full, pf_isDir = dir, pf_f = Some f, pf_h = h,
             pf_dirPos = 0, pf_dirBuffer = []\<rparr>)\<rparr>, d, q))"

text \<open>On a read-only share the flags are those of a read; so they are when they are zero.\<close>

definition open_call :: "('d, 'f) os \<Rightarrow> string \<Rightarrow> u32 \<Rightarrow> u32 \<Rightarrow> ('d, 'f) pstate \<Rightarrow> (error + fd) \<times> ('d, 'f) pstate" where
  "open_call os full flags mode st =
     (if flags = 0 then read_call (os_OpenRead os full) st
      else let (r, s) = os_OpenFile os full flags mode (snd st) in (r, fst st, s))"

definition p_Open :: "('d, 'f) os \<Rightarrow> string \<Rightarrow> u32 \<Rightarrow> u32 \<Rightarrow> ('d, 'f) pstate \<Rightarrow> (error + u64) \<times> ('d, 'f) pstate" where
  "p_Open os name flags mode st =
     (let full = path_Join [rootPath (fst st), name] in
      open_at full False (os_rand64 os) (open_call os full (if readOnly (fst st) then 0 else flags) mode st))"

definition p_OpenDir :: "('d, 'f) os \<Rightarrow> string \<Rightarrow> ('d, 'f) pstate \<Rightarrow> (error + u64) \<times> ('d, 'f) pstate" where
  "p_OpenDir os name st =
     (let full = path_Join [rootPath (fst st), name] in
      open_at full True (os_rand64 os) (open_call os full 0 0 st))"

definition p_Close :: "('d, 'f) os \<Rightarrow> u64 \<Rightarrow> ('d, 'f) pstate \<Rightarrow> error option \<times> ('d, 'f) pstate" where
  "p_Close os h st =
     (case openFiles (fst st) h of
        None \<Rightarrow> (Some bad_handle, st)
      | Some fl \<Rightarrow>
          (None, (fst st)\<lparr>openFiles := (openFiles (fst st))(h := None)\<rparr>,
           close_file os (pf_f fl) (snd st)))"

definition p_Lookup :: "('d, 'f) os \<Rightarrow> u64 \<Rightarrow> string \<Rightarrow> ('d, 'f) pstate \<Rightarrow> (error + Attributes) \<times> ('d, 'f) pstate" where
  "p_Lookup os h name st =
     (let root = rootPath (fst st); s = disk st;
          look = (\<lambda>ps. let full = path_Join [ps, name] in
            (stat_attr (if h = 0 \<and> path_Clean full = path_Clean root then os_Stat os full s else os_Lstat os full s), st))
      in with_file h st (look root) (\<lambda>fl. look (pf_path fl)))"

text \<open>A new directory whose attributes cannot be read is an error, though it was made.\<close>

definition stat_error :: "error + Attributes \<Rightarrow> error option" where
  "stat_error r = (case r of Inl e \<Rightarrow> Some e | Inr a \<Rightarrow> None)"

definition p_Mkdir :: "('d, 'f) os \<Rightarrow> string \<Rightarrow> u32 \<Rightarrow> ('d, 'f) pstate \<Rightarrow> error option \<times> ('d, 'f) pstate" where
  "p_Mkdir os name mode st =
     (if readOnly (fst st) then (Some read_only_share, st)
      else let full = path_Join [rootPath (fst st), name] in
        case disk_call (os_Mkdir os full mode) st of
          (Some e, st) \<Rightarrow> (Some e, st)
        | (None, st) \<Rightarrow> (stat_error (stat_attr (os_Stat os full (disk st))), st))"

subsection \<open>Reading and writing\<close>

definition isClosedError :: "error \<Rightarrow> bool" where
  "isClosedError e = (case e of ErrorString t \<Rightarrow> str_contains t ''bad file descriptor'' \<or> str_contains t ''file already closed''
     | _ \<Rightarrow> False)"

definition p_Read :: "('d, 'f) os \<Rightarrow> u64 \<Rightarrow> nat \<Rightarrow> u64 \<Rightarrow> ('d, 'f) pstate \<Rightarrow> (byte list \<times> error option) \<times> ('d, 'f) pstate" where
  "p_Read os h n off st =
     (if h = 0 then (([], Some EOF), st)
      else case openFiles (fst st) h of
          None \<Rightarrow> (([], Some bad_handle), st)
        | Some fl \<Rightarrow>
            let (dat, err) = (case pf_f fl of None \<Rightarrow> ([], Some ErrInvalid) | Some f \<Rightarrow> os_f_ReadAt os f n off (snd st))
            in ((dat, map_option (\<lambda>e. if e = ErrNotExist \<or> isClosedError e then EOF else e) err), st))"

definition p_Write :: "('d, 'f) os \<Rightarrow> u64 \<Rightarrow> byte list \<Rightarrow> u64 \<Rightarrow> ('d, 'f) pstate \<Rightarrow> (nat \<times> error option) \<times> ('d, 'f) pstate" where
  "p_Write os h dat off st =
     (if readOnly (fst st) then ((0, Some read_only_share), st)
      else if h = 0 then ((0, Some bad_handle), st)
      else case openFiles (fst st) h of
          None \<Rightarrow> ((0, Some bad_handle), st)
        | Some fl \<Rightarrow> (case pf_f fl of
            None \<Rightarrow> ((0, Some ErrInvalid), st)
          | Some f \<Rightarrow> disk_call (\<lambda>d. os_f_WriteAt os f dat off (d, descs st)) st))"

definition p_Truncate :: "('d, 'f) os \<Rightarrow> u64 \<Rightarrow> u64 \<Rightarrow> ('d, 'f) pstate \<Rightarrow> error option \<times> ('d, 'f) pstate" where
  "p_Truncate os h n st =
     (if readOnly (fst st) then (Some read_only_share, st)
      else case openFiles (fst st) h of
          None \<Rightarrow> (Some bad_handle, st)
        | Some fl \<Rightarrow> (case pf_f fl of
            None \<Rightarrow> disk_call (os_Truncate os (pf_path fl) n) st
          | Some f \<Rightarrow> disk_call (\<lambda>d. os_f_Truncate os f n (d, descs st)) st))"

subsection \<open>Directories\<close>

definition entry_info :: "string \<times> (error + FileInfo) \<Rightarrow> DirInfo list" where
  "entry_info e = (case stat_attr (snd e) of Inl _ \<Rightarrow> [] | Inr a \<Rightarrow> [(fst e, a)])"

text \<open>
  What the file returns after the \<open>got\<close> entries that are there already; at most \<open>n\<close> of them.  The
  names of entries that are gone are skipped.
\<close>

definition read_more :: "('d, 'f) os \<Rightarrow> u64 \<Rightarrow> fd option \<Rightarrow> int \<Rightarrow> DirInfo list \<Rightarrow> ('d, 'f) pstate \<Rightarrow> (error + DirInfo list) \<times> ('d, 'f) pstate" where
  "read_more os h f n got st =
     (let ((es, err), st) = (case f of None \<Rightarrow> (([], Some ErrInvalid), st) | Some f \<Rightarrow> read_call (os_f_ReadDir os f n) st)
      in if err \<noteq> None \<and> err \<noteq> Some EOF then (Inl (the err), st)
         else let res = got @ concat (map entry_info es);
                  st = (set_file h (\<lambda>fl. fl\<lparr>pf_dirPos := 1\<rparr>) (fst st), snd st)
           in if err = Some EOF \<and> res = [] then (Inl EOF, st) else (Inr res, st))"

definition rewind_dir :: "('d, 'f) os \<Rightarrow> u64 \<Rightarrow> OpenFile \<Rightarrow> ('d, 'f) pstate \<Rightarrow> ('d, 'f) pstate" where
  "rewind_dir os h fl st =
     (set_file h (\<lambda>fl. fl\<lparr>pf_dirPos := 0, pf_dirBuffer := []\<rparr>) (fst st),
      disk st, case pf_f fl of None \<Rightarrow> descs st | Some f \<Rightarrow> os_f_Seek0 os f (descs st))"

text \<open>Draining the buffer of entries that were put back.\<close>

definition drain :: "('d, 'f) os \<Rightarrow> u64 \<Rightarrow> OpenFile \<Rightarrow> int \<Rightarrow> DirInfo list \<Rightarrow> ('d, 'f) pstate \<Rightarrow> (error + DirInfo list) \<times> ('d, 'f) pstate" where
  "drain os h fl n got st =
     (let buf = pf_dirBuffer fl in
      if buf = [] then read_more os h (pf_f fl) n got st
      else if int (length buf) \<le> n
      then let res = got @ buf;
               st = (set_file h (\<lambda>fl. fl\<lparr>pf_dirBuffer := []\<rparr>) (fst st), snd st);
               n = n - int (length res)
        in if n \<le> 0 then (Inr res, set_file h (\<lambda>fl. fl\<lparr>pf_dirPos := 1\<rparr>) (fst st), snd st)
           else read_more os h (pf_f fl) n res st
      else (Inr (got @ take (nat n) buf),
            set_file h (\<lambda>fl. fl\<lparr>pf_dirBuffer := drop (nat n) buf, pf_dirPos := 1\<rparr>) (fst st), snd st))"

definition p_ReadDir :: "('d, 'f) os \<Rightarrow> u64 \<Rightarrow> int \<Rightarrow> int \<Rightarrow> ('d, 'f) pstate \<Rightarrow> (error + DirInfo list) \<times> ('d, 'f) pstate" where
  "p_ReadDir os h pos n st =
     with_file h st (Inr [], st) (\<lambda>fl.
       let st = (if pos \<noteq> 0 then rewind_dir os h fl st else st);
           fl = (if pos \<noteq> 0 then fl\<lparr>pf_dirPos := 0, pf_dirBuffer := []\<rparr> else fl)
       in if pf_dirPos fl = 0
          then (case p_GetAttr os (pf_h fl) st of
                  (Inl e, st) \<Rightarrow> (Inl e, st)
                | (Inr a, st) \<Rightarrow> drain os h fl n [(''.'', a), (''..'', a)] st)
          else drain os h fl n [] st)"

definition p_PutBackDirEntries :: "u64 \<Rightarrow> DirInfo list \<Rightarrow> ('d, 'f) pstate \<Rightarrow> ('d, 'f) pstate" where
  "p_PutBackDirEntries h es st =
     (if h = 0 \<or> es = [] then st
      else (set_file h (\<lambda>fl. fl\<lparr>pf_dirBuffer := es @ pf_dirBuffer fl\<rparr>) (fst st), snd st))"

subsection \<open>Links, deletion and renaming\<close>

definition p_Readlink :: "('d, 'f) os \<Rightarrow> u64 \<Rightarrow> ('d, 'f) pstate \<Rightarrow> (error + string) \<times> ('d, 'f) pstate" where
  "p_Readlink os h st = with_file h st (Inl bad_handle, st) (\<lambda>fl. (os_Readlink os (pf_path fl) (disk st), st))"

definition p_Unlink :: "('d, 'f) os \<Rightarrow> u64 \<Rightarrow> ('d, 'f) pstate \<Rightarrow> error option \<times> ('d, 'f) pstate" where
  "p_Unlink os h st = changing h st (\<lambda>fl. disk_call (os_Remove os (pf_path fl)) st)"

definition p_Rename :: "('d, 'f) os \<Rightarrow> u64 \<Rightarrow> string \<Rightarrow> int \<Rightarrow> ('d, 'f) pstate \<Rightarrow> error option \<times> ('d, 'f) pstate" where
  "p_Rename os h to flags st = changing h st (\<lambda>fl.
     let new = path_Join [rootPath (fst st), to] in
     if flags = 0 \<and> (case os_Lstat os new (disk st) of Inl e \<Rightarrow> False | Inr i \<Rightarrow> True)
     then (Some (ErrorString ''already exists''), st)
     else case disk_call (os_Rename os (pf_path fl) new) st of
         (Some e, st) \<Rightarrow> (Some e, st)
       | (None, st) \<Rightarrow> (None, set_file h (\<lambda>fl. fl\<lparr>pf_path := new\<rparr>) (fst st), snd st))"

text \<open>The file that the CREATE request made is closed and removed first.\<close>

definition p_Symlink :: "('d, 'f) os \<Rightarrow> u64 \<Rightarrow> string \<Rightarrow> int \<Rightarrow> ('d, 'f) pstate \<Rightarrow> error option \<times> ('d, 'f) pstate" where
  "p_Symlink os h target fl0 st = changing h st (\<lambda>fl.
     let link = pf_path fl;
         s = close_file os (pf_f fl) (snd st);
         st = (set_file h (\<lambda>fl. fl\<lparr>pf_f := None\<rparr>) (fst st), s);
         st = snd (disk_call (os_Remove os link) st)
     in case disk_call (os_Symlink os target link) st of
          (Some e, st) \<Rightarrow> (Some e, st)
        | (None, st) \<Rightarrow> (stat_error (stat_attr (os_Lstat os link (disk st))), st))"

subsection \<open>Extended attributes (fs_xattr_unix.go)\<close>

definition user_names :: "string \<Rightarrow> string list" where
  "user_names buf = map (drop 5) (filter (\<lambda>w. HasPrefix w ''user.'') (str_split (CHR 0x00) buf))"

definition p_Listxattr :: "('d, 'f) os \<Rightarrow> u64 \<Rightarrow> ('d, 'f) pstate \<Rightarrow> (error + string list) \<times> ('d, 'f) pstate" where
  "p_Listxattr os h st = with_file h st (Inl bad_handle, st) (\<lambda>fl.
     (case os_Listxattr os (pf_path fl) (disk st) of Inl e \<Rightarrow> Inl e | Inr buf \<Rightarrow> Inr (user_names buf), st))"

definition p_Getxattr :: "('d, 'f) os \<Rightarrow> u64 \<Rightarrow> string \<Rightarrow> ('d, 'f) pstate \<Rightarrow> (error + byte list) \<times> ('d, 'f) pstate" where
  "p_Getxattr os h key st = with_file h st (Inl bad_handle, st) (\<lambda>fl.
     (os_Getxattr os (pf_path fl) (''user.'' @ key) (disk st), st))"

definition xattr_change :: "u64 \<Rightarrow> (string \<Rightarrow> 'd \<Rightarrow> error option \<times> 'd) \<Rightarrow> ('d, 'f) pstate \<Rightarrow> error option \<times> ('d, 'f) pstate" where
  "xattr_change h f st =
     (if h = 0 then (Some bad_handle, st)
      else case openFiles (fst st) h of None \<Rightarrow> (Some bad_handle, st) | Some fl \<Rightarrow> disk_call (f (pf_path fl)) st)"

definition p_Setxattr :: "('d, 'f) os \<Rightarrow> u64 \<Rightarrow> string \<Rightarrow> byte list \<Rightarrow> ('d, 'f) pstate \<Rightarrow> error option \<times> ('d, 'f) pstate" where
  "p_Setxattr os h key v = xattr_change h (\<lambda>path. os_Setxattr os path (''user.'' @ key) v)"

definition p_Removexattr :: "('d, 'f) os \<Rightarrow> u64 \<Rightarrow> string \<Rightarrow> ('d, 'f) pstate \<Rightarrow> error option \<times> ('d, 'f) pstate" where
  "p_Removexattr os h key = xattr_change h (\<lambda>path. os_Removexattr os path (''user.'' @ key))"

subsection \<open>All shares\<close>

text \<open>The file systems of a server share the operating system; they are numbered.\<close>

type_synonym ('d, 'f) shares_state = "(nat \<Rightarrow> PassthroughFS) \<times> 'd \<times> 'f"

definition at_share :: "nat \<Rightarrow> (('d, 'f) pstate \<Rightarrow> 'r \<times> ('d, 'f) pstate) \<Rightarrow> ('d, 'f) shares_state \<Rightarrow> 'r \<times> ('d, 'f) shares_state" where
  "at_share n f st = (let (r, (ps, s)) = f (fst st n, snd st) in (r, (fst st)(n := ps), s))"

definition passthrough :: "('d, 'f) os \<Rightarrow> ('d, 'f) shares_state vfs" where
  "passthrough os = \<lparr>
     v_BasePath = (\<lambda>n st. rootPath (fst st n)),
     v_IsReadOnly = (\<lambda>n st. readOnly (fst st n)),
     v_GetAttr = (\<lambda>n h. at_share n (p_GetAttr os h)),
     v_SetAttr = (\<lambda>n h a. at_share n (p_SetAttr os h a)),
     v_StatFS = (\<lambda>n h. at_share n p_StatFS),
     v_Flush = (\<lambda>n h. at_share n p_Flush),
     v_Open = (\<lambda>n name fl mode. at_share n (p_Open os name fl mode)),
     v_Close = (\<lambda>n h. at_share n (p_Close os h)),
     v_Lookup = (\<lambda>n h name. at_share n (p_Lookup os h name)),
     v_Mkdir = (\<lambda>n name mode. at_share n (p_Mkdir os name mode)),
     v_Read = (\<lambda>n h len off. at_share n (p_Read os h len off)),
     v_Write = (\<lambda>n h dat off. at_share n (p_Write os h dat off)),
     v_OpenDir = (\<lambda>n name. at_share n (p_OpenDir os name)),
     v_ReadDir = (\<lambda>n h pos mx. at_share n (p_ReadDir os h pos mx)),
     v_PutBackDirEntries = (\<lambda>n h es st. snd (at_share n (\<lambda>st. ((), p_PutBackDirEntries h es st)) st)),
     v_Readlink = (\<lambda>n h. at_share n (p_Readlink os h)),
     v_Unlink = (\<lambda>n h. at_share n (p_Unlink os h)),
     v_Truncate = (\<lambda>n h len. at_share n (p_Truncate os h len)),
     v_Rename = (\<lambda>n h to fl. at_share n (p_Rename os h to fl)),
     v_Symlink = (\<lambda>n h target fl. at_share n (p_Symlink os h target fl)),
     v_Listxattr = (\<lambda>n h. at_share n (p_Listxattr os h)),
     v_Getxattr = (\<lambda>n h key. at_share n (p_Getxattr os h key)),
     v_Setxattr = (\<lambda>n h key v. at_share n (p_Setxattr os h key v)),
     v_Removexattr = (\<lambda>n h key. at_share n (p_Removexattr os h key))\<rparr>"

end
