(* ===== verification/Effects.thy ===== *)
theory Effects
  imports Passthrough
begin

section \<open>What a request does to a file system\<close>

text \<open>
  Every handler of a file tree is a sequence of calls of its file system.  \<open>fs_reach\<close> is what calls of a
  given kind can make of the state; a small calculus of outcomes shows for every handler which calls it
  makes.  On top of it: what a read-only share and a read-only user are protected from, and from what not.
\<close>

subsection \<open>Calls\<close>

datatype vfs_call =
    C_GetAttr u64 | C_SetAttr u64 Attributes | C_StatFS u64 | C_Flush u64 | C_Open string u32 u32
  | C_Close u64 | C_Lookup u64 string | C_Mkdir string u32 | C_Read u64 nat u64 | C_Write u64 "byte list" u64
  | C_OpenDir string | C_ReadDir u64 int int | C_PutBackDirEntries u64 "DirInfo list" | C_Readlink u64
  | C_Unlink u64 | C_Truncate u64 u64 | C_Rename u64 string int | C_Symlink u64 string int
  | C_Listxattr u64 | C_Getxattr u64 string | C_Setxattr u64 string "byte list" | C_Removexattr u64 string

fun run_call :: "'s vfs \<Rightarrow> nat \<Rightarrow> vfs_call \<Rightarrow> 's \<Rightarrow> 's" where
  "run_call V n (C_GetAttr h) s = snd (v_GetAttr V n h s)"
| "run_call V n (C_SetAttr h a) s = snd (v_SetAttr V n h a s)"
| "run_call V n (C_StatFS h) s = snd (v_StatFS V n h s)"
| "run_call V n (C_Flush h) s = snd (v_Flush V n h s)"
| "run_call V n (C_Open name fl mode) s = snd (v_Open V n name fl mode s)"
| "run_call V n (C_Close h) s = snd (v_Close V n h s)"
| "run_call V n (C_Lookup h name) s = snd (v_Lookup V n h name s)"
| "run_call V n (C_Mkdir name mode) s = snd (v_Mkdir V n name mode s)"
| "run_call V n (C_Read h ln off) s = snd (v_Read V n h ln off s)"
| "run_call V n (C_Write h dat off) s = snd (v_Write V n h dat off s)"
| "run_call V n (C_OpenDir name) s = snd (v_OpenDir V n name s)"
| "run_call V n (C_ReadDir h pos mx) s = snd (v_ReadDir V n h pos mx s)"
| "run_call V n (C_PutBackDirEntries h es) s = v_PutBackDirEntries V n h es s"
| "run_call V n (C_Readlink h) s = snd (v_Readlink V n h s)"
| "run_call V n (C_Unlink h) s = snd (v_Unlink V n h s)"
| "run_call V n (C_Truncate h ln) s = snd (v_Truncate V n h ln s)"
| "run_call V n (C_Rename h to fl) s = snd (v_Rename V n h to fl s)"
| "run_call V n (C_Symlink h target fl) s = snd (v_Symlink V n h target fl s)"
| "run_call V n (C_Listxattr h) s = snd (v_Listxattr V n h s)"
| "run_call V n (C_Getxattr h key) s = snd (v_Getxattr V n h key s)"
| "run_call V n (C_Setxattr h key v) s = snd (v_Setxattr V n h key v s)"
| "run_call V n (C_Removexattr h key) s = snd (v_Removexattr V n h key s)"

inductive fs_reach :: "'s vfs \<Rightarrow> nat \<Rightarrow> vfs_call set \<Rightarrow> 's \<Rightarrow> 's \<Rightarrow> bool" for V n S s where
  fs_refl: "fs_reach V n S s s"
| fs_step: "fs_reach V n S s t \<Longrightarrow> cl \<in> S \<Longrightarrow> fs_reach V n S s (run_call V n cl t)"

lemma fs_reach_mono: "fs_reach V n S s t \<Longrightarrow> S \<subseteq> S' \<Longrightarrow> fs_reach V n S' s t"
  by (induction rule: fs_reach.induct) (auto intro: fs_reach.intros)

text \<open>A step in the form in which handlers make it.\<close>

named_theorems fs_calls

lemma fs_call_steps [fs_calls]:
  assumes "fs_reach V n S s t"
  shows "C_GetAttr h \<in> S \<Longrightarrow> fs_reach V n S s (snd (v_GetAttr V n h t))"
    "C_SetAttr h a \<in> S \<Longrightarrow> fs_reach V n S s (snd (v_SetAttr V n h a t))"
    "C_StatFS h \<in> S \<Longrightarrow> fs_reach V n S s (snd (v_StatFS V n h t))"
    "C_Flush h \<in> S \<Longrightarrow> fs_reach V n S s (snd (v_Flush V n h t))"
    "C_Open name fl mode \<in> S \<Longrightarrow> fs_reach V n S s (snd (v_Open V n name fl mode t))"
    "C_Close h \<in> S \<Longrightarrow> fs_reach V n S s (snd (v_Close V n h t))"
    "C_Lookup h name \<in> S \<Longrightarrow> fs_reach V n S s (snd (v_Lookup V n h name t))"
    "C_Mkdir name mode \<in> S \<Longrightarrow> fs_reach V n S s (snd (v_Mkdir V n name mode t))"
    "C_Read h ln off \<in> S \<Longrightarrow> fs_reach V n S s (snd (v_Read V n h ln off t))"
    "C_Write h dat off \<in> S \<Longrightarrow> fs_reach V n S s (snd (v_Write V n h dat off t))"
    "C_OpenDir name \<in> S \<Longrightarrow> fs_reach V n S s (snd (v_OpenDir V n name t))"
    "C_ReadDir h pos mx \<in> S \<Longrightarrow> fs_reach V n S s (snd (v_ReadDir V n h pos mx t))"
    "C_Readlink h \<in> S \<Longrightarrow> fs_reach V n S s (snd (v_Readlink V n h t))"
    "C_Unlink h \<in> S \<Longrightarrow> fs_reach V n S s (snd (v_Unlink V n h t))"
    "C_Truncate h sz \<in> S \<Longrightarrow> fs_reach V n S s (snd (v_Truncate V n h sz t))"
    "C_Rename h to rp \<in> S \<Longrightarrow> fs_reach V n S s (snd (v_Rename V n h to rp t))"
    "C_Symlink h target rp \<in> S \<Longrightarrow> fs_reach V n S s (snd (v_Symlink V n h target rp t))"
    "C_Listxattr h \<in> S \<Longrightarrow> fs_reach V n S s (snd (v_Listxattr V n h t))"
    "C_Getxattr h key \<in> S \<Longrightarrow> fs_reach V n S s (snd (v_Getxattr V n h key t))"
    "C_Setxattr h key v \<in> S \<Longrightarrow> fs_reach V n S s (snd (v_Setxattr V n h key v t))"
    "C_Removexattr h key \<in> S \<Longrightarrow> fs_reach V n S s (snd (v_Removexattr V n h key t))"
    "C_PutBackDirEntries h es \<in> S \<Longrightarrow> fs_reach V n S s (v_PutBackDirEntries V n h es t)"
  using fs_step[OF assms] by (metis run_call.simps)+

lemma snd_xattr_size [simp]: "snd (xattr_size r) = snd r"
  by (auto simp: xattr_size_def split: prod.splits sum.splits)

subsection \<open>Outcomes\<close>

text \<open>What holds of the state that a handler leaves, if it does not panic.\<close>

definition leads :: "(('a, 'z) server_scheme \<Rightarrow> conn \<Rightarrow> bool) \<Rightarrow> ('a, 'z) outcome_of \<Rightarrow> bool" where
  "leads Q r \<longleftrightarrow> (\<forall>e srv cn. r = Some (e, srv, cn) \<longrightarrow> Q srv cn)"

named_theorems leads_intros

lemma leads_None [leads_intros]: "leads Q None"
  by (simp add: leads_def)

lemma leads_Some [leads_intros]: "Q srv cn \<Longrightarrow> leads Q (Some (e, srv, cn))"
  by (simp add: leads_def)

lemma leads_bind [leads_intros]: "(\<And>x. m = Some x \<Longrightarrow> leads Q (f x)) \<Longrightarrow> leads Q (Option.bind m f)"
  by (cases m) (auto simp: leads_def)

lemma leads_if [leads_intros]: "(b \<Longrightarrow> leads Q x) \<Longrightarrow> (\<not> b \<Longrightarrow> leads Q y) \<Longrightarrow> leads Q (if b then x else y)"
  by simp

lemma leads_Let [leads_intros]: "leads Q (f t) \<Longrightarrow> leads Q (let x = t in f x)"
  by simp

lemma leads_prod [leads_intros]: "leads Q (f (fst x) (snd x)) \<Longrightarrow> leads Q (case x of (a, b) \<Rightarrow> f a b)"
  by (cases x) simp

lemma leads_prod_fun [leads_intros]:
  "leads Q (f (fst x) (snd x) y) \<Longrightarrow> leads Q ((case x of (a, b) \<Rightarrow> f a b) y)"
  by (cases x) simp

lemma leads_option [leads_intros]:
  "(x = None \<Longrightarrow> leads Q a) \<Longrightarrow> (\<And>y. x = Some y \<Longrightarrow> leads Q (f y)) \<Longrightarrow> leads Q (case x of None \<Rightarrow> a | Some y \<Rightarrow> f y)"
  by (cases x) auto

lemma leads_sum [leads_intros]:
  "(\<And>y. x = Inl y \<Longrightarrow> leads Q (f y)) \<Longrightarrow> (\<And>y. x = Inr y \<Longrightarrow> leads Q (g y))
   \<Longrightarrow> leads Q (case x of Inl y \<Rightarrow> f y | Inr y \<Rightarrow> g y)"
  by (cases x) auto

lemma reply_server: "reply env pkt tc cp status body srv cn = Some (e, srv', cn') \<Longrightarrow> srv' = srv"
  by (auto simp: reply_def sent_def split: Option.bind_splits)

lemma reply_async_server: "reply_async env pkt tc cp i status body srv cn = Some (e, srv', cn') \<Longrightarrow> srv' = srv"
  by (auto simp: reply_async_def sent_def split: Option.bind_splits)

lemma leads_reply [leads_intros]: "(\<And>cn. Q srv cn) \<Longrightarrow> leads Q (reply env pkt tc cp status body srv cn)"
  by (auto simp: leads_def dest: reply_server)

lemma leads_reply_async [leads_intros]: "(\<And>cn. Q srv cn) \<Longrightarrow> leads Q (reply_async env pkt tc cp i status body srv cn)"
  by (auto simp: leads_def dest: reply_async_server)

lemma leads_mono: "leads Q r \<Longrightarrow> (\<And>srv cn. Q srv cn \<Longrightarrow> Q' srv cn) \<Longrightarrow> leads Q' r"
  by (auto simp: leads_def)

lemma leads_map_None [leads_intros]:
  "leads Q r \<Longrightarrow> leads Q (map_option (\<lambda>(e, srv, cn). (None, srv, cn)) r)"
  by (cases r) (auto simp: leads_def)

subsection \<open>What does not touch the file system\<close>

lemma fs_state_modify_open [simp]: "fs_state (modify_open q f srv) = fs_state srv"
  by (simp add: modify_open_def)

lemma fs_state_notifyChange [simp]: "fs_state (notifyChange path action srv) = fs_state srv"
  by (simp add: notifyChange_def Let_def)

lemma fs_state_notify_created [simp]: "fs_state (notify_created name ea action srv) = fs_state srv"
  by (simp add: notify_created_def)

lemma fs_state_notify_renamed [simp]: "fs_state (notify_renamed path action srv) = fs_state srv"
  by (simp add: notify_renamed_def)

lemma fs_state_deleteOpen [simp]: "fs_state (deleteOpen h srv) = fs_state srv"
  by (simp add: deleteOpen_def Let_def split: option.splits prod.splits)

lemma fs_state_addOpen: "addOpen o1 srv = Some srv' \<Longrightarrow> fs_state srv' = fs_state srv"
  by (auto simp: addOpen_def Let_def split: prod.splits if_splits option.splits)

lemma fs_state_addFsWatch [simp]: "fs_state (addFsWatch fe real root srv) = fs_state srv"
  by (simp add: addFsWatch_def Let_def)

lemma fs_state_removeFsWatch [simp]: "fs_state (removeFsWatch real srv) = fs_state srv"
  by (simp add: removeFsWatch_def Let_def)

lemma fs_state_close_watch [simp]: "fs_state (close_watch q srv) = fs_state srv"
  by (simp add: close_watch_def Let_def split: option.splits)

lemma fs_state_watch_open [simp]: "fs_state (watch_open fe fs q srv) = fs_state srv"
  by (simp add: watch_open_def Let_def split: option.splits)

lemma on_fs_simps [simp]:
  "fst (on_fs g srv) = fst (g (fs_state srv))" "snd (on_fs g srv) = srv\<lparr>fs_state := snd (g (fs_state srv))\<rparr>"
  by (simp_all add: on_fs_def split: prod.splits)

end
