(* ===== verification/Readonly.thy ===== *)
theory Readonly
  imports Effects
begin

section \<open>Read-only shares and read-only users\<close>

subsection \<open>Which calls the handlers make\<close>

text \<open>Calls that read; an open for reading, or of the path alone.\<close>

fun reading_call :: "vfs_call \<Rightarrow> bool" where
  "reading_call (C_SetAttr h a) = False"
| "reading_call (C_Open name fl mode) = (fl = 0 \<or> fl = O_PATH_NOFOLLOW)"
| "reading_call (C_Mkdir name mode) = False"
| "reading_call (C_Write h dat off) = False"
| "reading_call (C_Unlink h) = False"
| "reading_call (C_Truncate h n) = False"
| "reading_call (C_Rename h to fl) = False"
| "reading_call (C_Symlink h target fl) = False"
| "reading_call (C_Setxattr h key v) = False"
| "reading_call (C_Removexattr h key) = False"
| "reading_call c1 = True"

definition reads :: "vfs_call set" where
  "reads = {c1. reading_call c1}"

lemma reads_subset: "reads \<subseteq> S \<Longrightarrow> reading_call c1 \<Longrightarrow> c1 \<in> S"
  by (auto simp: reads_def)

abbreviation keeps_to where
  "keeps_to V n S s0 \<equiv> leads (\<lambda>srv cn. fs_reach V n S s0 (fs_state srv))"

lemma flush_calls:
  assumes "file_tree ptr cn = Some (tc, fs, aapl)" "reads \<subseteq> S" "fs_reach (f_vfs fe) fs S s0 (fs_state srv)"
  shows "keeps_to (f_vfs fe) fs S s0 (flush env fe ptr cp pkt srv cn)"
  unfolding flush_def assms(1) using assms(2,3)
  by (intro leads_intros) (auto intro!: fs_calls reads_subset)

lemma read_stream_calls [fs_calls]:
  assumes "fs_reach V n S s0 t" "reads \<subseteq> S"
  shows "fs_reach V n S s0 (snd (read_stream V n h key off ln t))"
  using assms unfolding read_stream_def
  by (auto simp: split_beta split: sum.splits intro!: fs_calls reads_subset)

lemma read_calls:
  assumes "file_tree ptr cn = Some (tc, fs, aapl)" "reads \<subseteq> S" "fs_reach (f_vfs fe) fs S s0 (fs_state srv)"
  shows "keeps_to (f_vfs fe) fs S s0 (read env fe ptr cp pkt srv cn)"
  unfolding read_def readImpl_def readEA_def assms(1) using assms(2,3)
  by (intro leads_intros) (auto intro!: fs_calls reads_subset)


lemma lock_calls:
  assumes "file_tree ptr cn = Some (tc, fs, aapl)" "fs_reach (f_vfs fe) fs S s0 (fs_state srv)"
  shows "keeps_to (f_vfs fe) fs S s0 (lock env ptr cp pkt srv cn)"
    "keeps_to (f_vfs fe) fs S s0 (cancel ptr pkt srv cn)"
    "keeps_to (f_vfs fe) fs S s0 (oplockBreak env ptr cp pkt srv cn)"
  unfolding lock_def cancel_def oplockBreak_def assms(1) using assms(2)
  by (intro leads_intros; auto)+

lemma changeNotify_calls:
  assumes "file_tree ptr cn = Some (tc, fs, aapl)" "fs_reach (f_vfs fe) fs S s0 (fs_state srv)"
  shows "keeps_to (f_vfs fe) fs S s0 (changeNotify env fe ptr cp pkt srv cn)"
  unfolding changeNotify_def assms(1) using assms(2)
  by (intro leads_intros) (auto dest!: reply_async_server)

lemma read_entries_calls:
  assumes "read_entries V n h mk wanted single room restart t = Some (r, t')" "fs_reach V n S s0 t" "reads \<subseteq> S"
  shows "fs_reach V n S s0 t'"
  using assms unfolding read_entries_def put_back_def
  by (auto simp: split_beta split: sum.splits Option.bind_splits if_splits intro!: fs_calls reads_subset)

lemma lookup_entry_calls:
  assumes "lookup_entry V n h mk name t = Some (r, t')" "fs_reach V n S s0 t" "reads \<subseteq> S"
  shows "fs_reach V n S s0 t'"
  using assms unfolding lookup_entry_def
  by (auto simp: split_beta split: sum.splits Option.bind_splits intro!: fs_calls reads_subset)

lemma queryDirectory_calls:
  assumes "file_tree ptr cn = Some (tc, fs, aapl)" "reads \<subseteq> S" "fs_reach (f_vfs fe) fs S s0 (fs_state srv)"
  shows "keeps_to (f_vfs fe) fs S s0 (queryDirectory env fe ptr cp pkt srv cn)"
  unfolding queryDirectory_def assms(1) using assms(2,3)
  by (intro leads_intros) (auto intro: read_entries_calls lookup_entry_calls split: if_splits)


lemma object_id_calls:
  assumes "object_id V n fid t = Some (r, t')" "fs_reach V n S s0 t" "reads \<subseteq> S"
  shows "fs_reach V n S s0 t'"
  using assms unfolding object_id_def Let_def
  by (auto simp: split_beta split: sum.splits Option.bind_splits intro!: fs_calls reads_subset)

lemma fs_info_calls:
  assumes "fs_info V n xa label class fid a t = Some (r, t')" "fs_reach V n S s0 t" "reads \<subseteq> S"
  shows "fs_reach V n S s0 t'"
  using assms unfolding fs_info_def Let_def
  by (auto split: if_splits Option.bind_splits intro: object_id_calls)

lemma send_info_calls [leads_intros]:
  "fs_reach V n S s0 (fs_state srv) \<Longrightarrow> keeps_to V n S s0 (send_info env pkt tc cp i room srv cn)"
  unfolding send_info_def by (intro leads_intros)

lemma xattr_streams_calls:
  "fs_reach V n S s0 t \<Longrightarrow> reads \<subseteq> S \<Longrightarrow> fs_reach V n S s0 (snd (xattr_streams V n h ks t))"
proof (induction ks arbitrary: t)
  case (Cons k ks)
  have "fs_reach V n S s0 (snd (v_Getxattr V n h k t))"
    using Cons.prems by (auto intro!: fs_calls reads_subset)
  then show ?case using Cons.IH Cons.prems(2)
    by (cases "xattr_size (v_Getxattr V n h k t)") (auto simp: split_beta split: sum.splits simp flip: snd_xattr_size)
qed simp

lemma stream_size_calls:
  "fs_reach V n S s0 t \<Longrightarrow> reads \<subseteq> S \<Longrightarrow> fs_reach V n S s0 (snd (stream_size V n h key t))"
  by (auto simp: stream_size_def split_beta split: sum.splits intro!: fs_calls reads_subset)

lemma file_info_calls:
  assumes "file_info V n xa hide posix class h o1 a t = Some (r, t')" "fs_reach V n S s0 t" "reads \<subseteq> S"
  shows "fs_reach V n S s0 t'"
  using assms unfolding file_info_def Let_def network_open_info_def file_streams_def
  by (auto simp: split_beta split: if_splits Option.bind_splits sum.splits
      intro!: fs_calls reads_subset xattr_streams_calls stream_size_calls)

lemma queryInfo_calls:
  assumes "file_tree ptr cn = Some (tc, fs, aapl)" "reads \<subseteq> S" "fs_reach (f_vfs fe) fs S s0 (fs_state srv)"
  shows "keeps_to (f_vfs fe) fs S s0 (queryInfo env fe ptr cp pkt srv cn)"
proof -
  have "keeps_to (f_vfs fe) fs S s0 (queryInfoFile env fe ptr cp pkt srv cn)"
    unfolding queryInfoFile_def assms(1) using assms(2,3)
    by (intro leads_intros) (auto elim!: file_info_calls intro!: fs_calls reads_subset)
  moreover have "keeps_to (f_vfs fe) fs S s0 (queryInfoFileSystem env fe ptr cp pkt srv cn)"
    unfolding queryInfoFileSystem_def assms(1) using assms(2,3)
    by (intro leads_intros) (auto elim!: fs_info_calls intro!: fs_calls reads_subset)
  moreover have "keeps_to (f_vfs fe) fs S s0 (queryInfoSec env ptr cp pkt srv cn)"
    unfolding queryInfoSec_def assms(1) using assms(2,3)
    by (intro leads_intros) auto
  ultimately show ?thesis
    unfolding queryInfo_def assms(1) using assms(2,3) by (intro leads_intros) auto
qed

text \<open>Of the other handlers: which calls they make beside reads.\<close>

lemma close_calls:
  assumes "file_tree ptr cn = Some (tc, fs, aapl)" "reads \<subseteq> S" "range C_Unlink \<subseteq> S"
    "fs_reach (f_vfs fe) fs S s0 (fs_state srv)"
  shows "keeps_to (f_vfs fe) fs S s0 (close env fe ptr cp pkt srv cn)"
proof -
  have at: "fs_reach (f_vfs fe) fs S s0 (fs_state srv')"
    if "close_attributes fe fs h o1 fl srv = Some (body, srv')" for h o1 fl body srv'
    using that assms(2,4) unfolding close_attributes_def Let_def
    by (auto simp: split_beta split: if_splits Option.bind_splits sum.splits option.splits intro!: fs_calls reads_subset)
  have del: "fs_reach (f_vfs fe) fs S s0 (fs_state (snd (close_delete fe fs h o1 st srv')))"
    if "fs_reach (f_vfs fe) fs S s0 (fs_state srv')" for h o1 st srv'
    using that assms(3) unfolding close_delete_def Let_def
    by (auto simp: split_beta split: option.splits intro!: fs_calls)
  show ?thesis
    unfolding close_def assms(1) using assms(2,4)
    by (intro leads_intros) (auto dest!: reply_server at intro!: fs_calls del reads_subset)
qed

lemma write_calls:
  assumes "file_tree ptr cn = Some (tc, fs, aapl)" "fs_reach (f_vfs fe) fs S s0 (fs_state srv)"
    "t_isUserReadOnly env tc srv cn \<or> (\<forall>h key dat off. C_Setxattr h key dat \<in> S \<and> C_Write h dat off \<in> S)"
  shows "keeps_to (f_vfs fe) fs S s0 (write_file env fe ptr cp pkt srv cn)"
proof (cases "t_isUserReadOnly env tc srv cn")
  case True
  then show ?thesis unfolding write_file_def assms(1) using assms(2) by (intro leads_intros) auto
next
  case False
  then have "\<forall>h key dat off. C_Setxattr h key dat \<in> S \<and> C_Write h dat off \<in> S" using assms(3) by auto
  then show ?thesis
    unfolding write_file_def writeImpl_def assms(1) using assms(2)
    by (intro leads_intros) (auto simp: split_beta dest!: reply_async_server intro!: fs_calls split: if_splits)
qed

lemma ioctl_calls:
  assumes "file_tree ptr cn = Some (tc, fs, aapl)" "reads \<subseteq> S" "range C_Unlink \<subseteq> S"
    "\<forall>h target fl. C_Symlink h target fl \<in> S" "fs_reach (f_vfs fe) fs S s0 (fs_state srv)"
  shows "keeps_to (f_vfs fe) fs S s0 (ioctl env fe ptr cp pkt srv cn)"
proof -
  note reach = assms(2-5)
  have "keeps_to (f_vfs fe) fs S s0 (handleReparsePointReq env fe tc fs cp pkt r srv cn)" for r
    unfolding handleReparsePointReq_def ioctl_done_def using reach(3,4)
    by (intro leads_intros) (simp_all add: fs_calls)
  moreover have "keeps_to (f_vfs fe) fs S s0 (handleGetReparsePointReq env fe tc fs cp pkt r srv cn)" for r
    unfolding handleGetReparsePointReq_def ioctl_done_def using reach(1,4)
    by (intro leads_intros) (auto intro!: fs_calls reads_subset)
  moreover have "keeps_to (f_vfs fe) fs S s0 (handleDeleteReparsePointReq env fe tc fs cp pkt r srv cn)" for r
    unfolding handleDeleteReparsePointReq_def ioctl_done_def using reach(2,4)
    by (intro leads_intros) (auto intro!: fs_calls)
  moreover have "keeps_to (f_vfs fe) fs S s0 (handleCreateOrGetObjectId env fe tc fs cp pkt r srv cn)" for r
    unfolding handleCreateOrGetObjectId_def ioctl_done_def using reach(4) reach(1)
    by (intro leads_intros) (auto intro: object_id_calls)
  ultimately show ?thesis
    unfolding ioctl_def assms(1) using reach(4) by (intro leads_intros) auto
qed

lemma setInfo_denied:
  assumes "file_tree ptr cn = Some (tc, fs, aapl)" "t_isUserReadOnly env tc srv cn \<or> t_isShareReadOnly fe fs srv"
    "fs_reach V n S s0 (fs_state srv)"
  shows "keeps_to V n S s0 (setInfo env fe ptr cp pkt srv cn)"
  unfolding setInfo_def assms(1) using assms(2,3) by (intro leads_intros) auto


lemma handleCreateEA_calls:
  assumes "fs_reach V n S s0 t" "reads \<subseteq> S" "\<forall>h key v. C_Setxattr h key v \<in> S"
  shows "fs_reach V n S s0 (snd (handleCreateEA V n d h key t))"
proof -
  have set_or: "fs_reach V n S s0 (snd (set_or st V n h key t))" if "fs_reach V n S s0 t" for st t
    using that assms(3) unfolding set_or_def by (auto simp: split_beta split: option.splits intro!: fs_calls)
  have get: "fs_reach V n S s0 (snd (v_Getxattr V n h key t))"
    using assms(1,2) by (auto intro!: fs_calls reads_subset)
  show ?thesis
    using assms(1) get set_or unfolding handleCreateEA_def by (simp add: split_beta split: sum.splits)
qed

lemma create_open_calls:
  assumes "fs_reach V n S s0 t" "reads \<subseteq> S" "\<forall>h key v. C_Setxattr h key v \<in> S" "C_Open name fl 0x1A4 \<in> S \<or> isDir"
  shows "fs_reach V n S s0 (snd (create_open V n name ea key d isDir fl t))"
  using assms unfolding create_open_def
  by (auto simp: split_beta split: sum.splits option.splits intro!: fs_calls handleCreateEA_calls reads_subset)

lemma create_context_calls:
  assumes "create_context env fe ptr fs attrs node cc srv cn = Some (xs, srv', cn')" "reads \<subseteq> S"
    "fs_reach (f_vfs fe) fs S s0 (fs_state srv)"
  shows "fs_reach (f_vfs fe) fs S s0 (fs_state srv')"
  using assms unfolding create_context_def handleQFid_def Let_def
  by (auto simp: split_beta split: if_splits Option.bind_splits sum.splits intro!: fs_calls reads_subset)

lemma create_contexts_loop_calls:
  assumes "create_contexts_loop env fe ptr fs attrs node cc srv cn = Some (xs, srv', cn')" "reads \<subseteq> S"
    "fs_reach (f_vfs fe) fs S s0 (fs_state srv)"
  shows "fs_reach (f_vfs fe) fs S s0 (fs_state srv')"
  using assms(1,3)
proof (induction env fe ptr fs attrs node cc srv cn arbitrary: xs srv' cn' rule: create_contexts_loop.induct)
  case (1 env fe ptr fs attrs node cc srv cn)
  show ?case
  proof (cases "len cc = 0")
    case True
    with "1.prems" show ?thesis by (simp add: create_contexts_loop.simps)
  next
    case False
    with "1.prems"(1) obtain ys srv1 cn1 nxt rest where one:
      "create_context env fe ptr fs attrs node cc srv cn = Some (ys, srv1, cn1)"
      "CreateContext_Next cc = Some nxt" "sl_from (unat nxt) cc = Some rest"
      by (subst (asm) create_contexts_loop.simps) (auto split: Option.bind_splits)
    have r1: "fs_reach (f_vfs fe) fs S s0 (fs_state srv1)"
      by (rule create_context_calls[OF one(1) assms(2) "1.prems"(2)])
    show ?thesis
    proof (cases "nxt = 0")
      case True
      with "1.prems"(1) one False r1 show ?thesis by (simp add: create_contexts_loop.simps)
    next
      case False2: False
      with "1.prems"(1) one False obtain zs where
        "create_contexts_loop env fe ptr fs attrs node rest srv1 cn1 = Some (zs, srv', cn')"
        by (subst (asm) create_contexts_loop.simps) (auto split: Option.bind_splits)
      from "1.IH"[OF False one(1) refl refl one(2,3) False2 this r1] show ?thesis .
    qed
  qed
qed

lemma create_reply_calls:
  assumes "reads \<subseteq> S" "fs_reach (f_vfs fe) fs S s0 (fs_state srv)"
  shows "keeps_to (f_vfs fe) fs S s0
    (create_reply env fe ptr tc fs cp pkt r name ea key symlink action h attrs srv cn)"
proof -
  have size: "fs_reach (f_vfs fe) fs S s0 (fs_state (snd (if \<not> ea then (x, srv)
      else let (n, srv) = on_fs (stream_size (f_vfs fe) fs h key) srv in ((of_nat n, of_nat n), srv))))" for x
    using assms by (auto simp: split_beta intro!: stream_size_calls)
  show ?thesis
    unfolding create_reply_def using assms(1)
    by (intro leads_intros)
      (auto dest!: reply_server fs_state_addOpen elim!: create_contexts_loop_calls simp del: on_fs_simps intro!: size)
qed

lemma t_isUserReadOnly_fs_state [simp]:
  "t_isUserReadOnly env tc (srv\<lparr>fs_state := s\<rparr>) cn = t_isUserReadOnly env tc srv cn"
  by (simp add: t_isUserReadOnly_def split: option.split)

text \<open>In a read-only context a CREATE that is not refused opens what exists, for reading.\<close>

lemma create_permits:
  assumes "reads \<subseteq> S" "ro \<or> (\<forall>name fl mode. C_Open name fl mode \<in> S \<and> C_Mkdir name mode \<in> S)"
    "\<not> (ro \<and> (wants_write access \<or> d \<noteq> FILE_OPEN \<or> cd))" "create_disposition d ex cd' = Inr r"
  shows "C_Open name (open_flags (fst (snd r)) access ea symlink reparse) mode \<in> S"
    "snd (snd r) \<Longrightarrow> C_Mkdir name mode \<in> S"
proof -
  have "access AND (FILE_WRITE_DATA OR GENERIC_WRITE) = 0" if "\<not> wants_write access"
    using that and.assoc[of access 1074594070 1073741826] unfolding wants_write_def by simp
  then show "C_Open name (open_flags (fst (snd r)) access ea symlink reparse) mode \<in> S"
    "snd (snd r) \<Longrightarrow> C_Mkdir name mode \<in> S"
    using assms unfolding create_disposition_def open_flags_def
    by (auto simp: Let_def split: if_splits intro: reads_subset)
qed

lemma create_calls:
  assumes "file_tree ptr cn = Some (tc, fs, aapl)" "reads \<subseteq> S" "\<forall>h key v. C_Setxattr h key v \<in> S"
    "t_isUserReadOnly env tc srv cn \<or> t_isShareReadOnly fe fs srv
     \<or> (\<forall>name fl mode. C_Open name fl mode \<in> S \<and> C_Mkdir name mode \<in> S)"
    "fs_reach (f_vfs fe) fs S s0 (fs_state srv)"
  shows "keeps_to (f_vfs fe) fs S s0 (create env fe ptr cp pkt srv cn)"
proof -
  let ?r = "\<lambda>srv. fs_reach (f_vfs fe) fs S s0 (fs_state srv)"
  let ?ro = "t_isUserReadOnly env tc srv cn \<or> t_isShareReadOnly fe fs srv"
  have look: "?r (snd (on_fs (v_Lookup (f_vfs fe) fs 0 name) srv))" for name
    using assms(2,5) by (auto intro!: fs_calls reads_subset)
  have mk: "?r (snd (if mk then on_fs (v_Mkdir (f_vfs fe) fs name 0x1FF) srv1 else (None, srv1)))"
    if "?r srv1" "mk \<Longrightarrow> C_Mkdir name 0x1FF \<in> S" for mk name srv1
    using that by (auto intro!: fs_calls)
  have op: "?r (snd (on_fs (create_open (f_vfs fe) fs name ea key d isDir fl) srv1))"
    if "?r srv1" "C_Open name fl 0x1A4 \<in> S" for name ea key d isDir fl srv1
    using that assms(2,3) by (auto intro!: create_open_calls)
  have user: "t_isUserReadOnly env tc (snd (on_fs g srv)) cn = t_isUserReadOnly env tc srv cn" for g by simp
  have ro: "?ro \<or> (\<forall>name fl mode. C_Open name fl mode \<in> S \<and> C_Mkdir name mode \<in> S)" using assms(4) by auto
  note ok = create_permits[OF assms(2) ro]
  show ?thesis
    unfolding create_def assms(1) Option.bind.simps prod.case using assms(2,5)
    apply (intro leads_intros)
    apply (simp add: look del: on_fs_simps; fail)+
    apply (simp_all only: user)
      apply (intro mk look ok(2); assumption)
     apply (intro op mk look ok; assumption)
    apply (intro create_reply_calls assms(2) op mk look ok; assumption)
    done
qed

subsection \<open>Commands\<close>

text \<open>All calls but the removal of extended attributes and, where \<open>x\<close> does not hold, their setting.\<close>

fun sets_xattr :: "vfs_call \<Rightarrow> bool" where
  "sets_xattr (C_Setxattr h key v) = True"
| "sets_xattr cl = False"

fun removes_xattr :: "vfs_call \<Rightarrow> bool" where
  "removes_xattr (C_Removexattr h key) = True"
| "removes_xattr cl = False"

definition other_calls :: "bool \<Rightarrow> vfs_call set" where
  "other_calls x = {cl. \<not> removes_xattr cl \<and> (x \<or> \<not> sets_xattr cl)}"

definition user_calls :: "bool \<Rightarrow> vfs_call set" where
  "user_calls x = {cl. reading_call cl \<or> (x \<and> sets_xattr cl)}"

lemma reads_in_calls [simp]: "reads \<subseteq> other_calls x" "reads \<subseteq> user_calls x"
  by (auto simp: reads_def other_calls_def user_calls_def elim: reading_call.elims)

lemma in_calls [simp]:
  "C_Unlink h \<in> other_calls x" "C_Symlink h target fl \<in> other_calls x" "C_Write h dat off \<in> other_calls x"
  "C_Setxattr h key dat \<in> other_calls x \<longleftrightarrow> x" "C_Setxattr h key dat \<in> user_calls x \<longleftrightarrow> x"
  by (simp_all add: other_calls_def user_calls_def)

lemma file_ops_share_calls:
  assumes tree: "file_tree ptr cn = Some (tc, fs, aapl)" and "t_isShareReadOnly fe fs srv"
  shows "keeps_to (f_vfs fe) fs (other_calls (cmd = SMB2_CREATE \<or> cmd = SMB2_WRITE)) (fs_state srv)
    (file_ops env fe cmd ptr cp pkt srv cn)"
  unfolding file_ops_def using assms(2)
  by (intro leads_if)
      (auto intro!: flush_calls[OF tree] read_calls[OF tree] lock_calls[OF tree] changeNotify_calls[OF tree]
        queryDirectory_calls[OF tree] queryInfo_calls[OF tree] close_calls[OF tree] write_calls[OF tree]
        ioctl_calls[OF tree] setInfo_denied[OF tree] create_calls[OF tree] fs_refl
        intro: subsetD[OF reads_in_calls(1)] subsetD[OF reads_in_calls(2)])

lemma file_ops_user_calls:
  assumes tree: "file_tree ptr cn = Some (tc, fs, aapl)" and "t_isUserReadOnly env tc srv cn"
    and "cmd \<noteq> SMB2_IOCTL" "cmd \<noteq> SMB2_CLOSE"
  shows "keeps_to (f_vfs fe) fs (user_calls (cmd = SMB2_CREATE)) (fs_state srv)
    (file_ops env fe cmd ptr cp pkt srv cn)"
  unfolding file_ops_def using assms(2-4)
  by (intro leads_if)
      (auto intro!: flush_calls[OF tree] read_calls[OF tree] lock_calls[OF tree] changeNotify_calls[OF tree]
        queryDirectory_calls[OF tree] queryInfo_calls[OF tree] write_calls[OF tree]
        setInfo_denied[OF tree] create_calls[OF tree] fs_refl
        intro: subsetD[OF reads_in_calls(1)] subsetD[OF reads_in_calls(2)])

subsection \<open>File systems whose disk some calls do not change\<close>

locale guarded_vfs =
  fixes V :: "'s vfs" and share :: nat and guard :: "'s \<Rightarrow> bool" and safe :: "vfs_call \<Rightarrow> bool"
    and contents :: "'s \<Rightarrow> 'c" and set_attr :: "'c \<Rightarrow> 'c \<Rightarrow> bool"
  assumes guard_stays: "guard s \<Longrightarrow> safe cl \<or> sets_xattr cl \<Longrightarrow> guard (run_call V share cl s)"
    and contents_stay: "guard s \<Longrightarrow> safe cl \<Longrightarrow> contents (run_call V share cl s) = contents s"
    and set_attr_step: "guard s \<Longrightarrow> sets_xattr cl \<Longrightarrow> set_attr\<^sup>*\<^sup>* (contents s) (contents (run_call V share cl s))"
begin

lemma reach_contents:
  assumes "fs_reach V share S s t" "guard s" "\<And>cl. cl \<in> S \<Longrightarrow> safe cl \<or> sets_xattr cl"
  shows "guard t \<and> set_attr\<^sup>*\<^sup>* (contents s) (contents t)"
  using assms
proof (induction rule: fs_reach.induct)
  case (fs_step t cl)
  then have "safe cl \<or> sets_xattr cl" "guard t" "set_attr\<^sup>*\<^sup>* (contents s) (contents t)" by auto
  then show ?case
    by (metis contents_stay guard_stays set_attr_step rtranclp_trans)
qed simp

lemma reach_same:
  assumes "fs_reach V share S s t" "guard s" "\<And>cl. cl \<in> S \<Longrightarrow> safe cl"
  shows "contents t = contents s"
proof -
  have "guard t \<and> contents t = contents s"
    using assms by (induction rule: fs_reach.induct) (auto simp: guard_stays contents_stay)
  then show ?thesis ..
qed

end

end
