(* ===== verification/Protection.thy ===== *)
theory Protection
  imports Readonly Access
begin

section \<open>What a read-only share and a read-only user protect\<close>

text \<open>
  The calls that commands make (theory \<open>Readonly\<close>) meet the operations of a passed-through directory: for
  a read-only share the interface \<open>guarded_vfs\<close> is provided by \<open>passthrough\<close>.  A small operating system
  whose disk is a list of extended attributes serves the examples.
\<close>

subsection \<open>The directory of a read-only share\<close>

lemma readOnly_set_file [simp]: "readOnly (set_file h f ps) = readOnly ps"
  by (simp add: set_file_def)

lemma disk_call_snd [simp]: "snd (disk_call f st) = (fst st, snd (f (disk st)), descs st)"
  by (simp add: disk_call_def split: prod.split)

lemma read_call_snd [simp]: "snd (read_call f st) = (fst st, disk st, snd (f (snd st)))"
  by (simp add: read_call_def split: prod.split)

lemma disk_sel [simp]: "disk (a, d, q) = d" "descs (a, d, q) = q" "disk st = fst (snd st)"
  by (simp_all add: disk_def descs_def)

text \<open>What a call leaves of a share: its mode, and the disk where it only reads.\<close>

definition mode_kept where
  "mode_kept st st' \<longleftrightarrow> readOnly (fst st') = readOnly (fst st)"

definition disk_kept where
  "disk_kept st st' \<longleftrightarrow> mode_kept st st' \<and> disk st' = disk st"

named_theorems p_keeps

lemma p_reads [p_keeps]:
  "disk_kept st (snd (p_GetAttr os h st))" "disk_kept st (snd (p_StatFS st))" "disk_kept st (snd (p_Flush st))"
  "disk_kept st (snd (p_Close os h st))" "disk_kept st (snd (p_Lookup os h name st))"
  "disk_kept st (snd (p_Read os h n off st))" "disk_kept st (snd (p_Readlink os h st))"
  "disk_kept st (snd (p_Listxattr os h st))" "disk_kept st (snd (p_Getxattr os h key st))"
  "disk_kept st (p_PutBackDirEntries h es st)"
  by (auto simp: p_GetAttr_def p_StatFS_def p_Flush_def p_Close_def p_Lookup_def p_Read_def p_Readlink_def
      p_Listxattr_def p_Getxattr_def p_PutBackDirEntries_def with_file_def Let_def close_file_def disk_kept_def
      mode_kept_def split: option.splits prod.splits sum.splits)

lemma disk_kept_simps [simp]:
  "disk_kept st (ps, snd st') \<longleftrightarrow> readOnly ps = readOnly (fst st) \<and> disk st' = disk st"
  "disk_kept st (ps, d, q) \<longleftrightarrow> readOnly ps = readOnly (fst st) \<and> d = disk st"
  "disk_kept st st"
  by (auto simp: disk_kept_def mode_kept_def)

lemma disk_keptD: "disk_kept st st' \<Longrightarrow> readOnly (fst st') = readOnly (fst st)" "disk_kept st st' \<Longrightarrow> fst (snd st') = fst (snd st)"
  by (auto simp: disk_kept_def mode_kept_def)

lemma open_at_keeps: "disk_kept st (snd r) \<Longrightarrow> disk_kept st (snd (open_at full dir rand r))"
  by (auto simp: open_at_def split: prod.splits sum.splits)

lemma p_opens [p_keeps]:
  "disk_kept st (snd (p_OpenDir os name st))"
  "readOnly (fst st) \<or> fl = 0 \<Longrightarrow> disk_kept st (snd (p_Open os name fl mode st))"
  by (auto simp: p_OpenDir_def p_Open_def open_call_def Let_def intro!: open_at_keeps)

lemma read_more_keeps: "disk_kept st st' \<Longrightarrow> disk_kept st (snd (read_more os h f n got st'))"
  by (auto simp: read_more_def Let_def read_call_def disk_keptD split: option.splits prod.splits)

lemma drain_keeps: "disk_kept st st' \<Longrightarrow> disk_kept st (snd (drain os h fl n got st'))"
  unfolding drain_def Let_def
  by (auto simp: disk_keptD intro!: read_more_keeps)

lemma p_ReadDir_keeps [p_keeps]: "disk_kept st (snd (p_ReadDir os h pos n st))"
proof -
  have rewind: "disk_kept st (rewind_dir os h fl st)" for fl
    by (simp add: rewind_dir_def)
  have go: "disk_kept st (snd (case p_GetAttr os q st' of (Inl e, st) \<Rightarrow> (Inl e, st) | (Inr a, st) \<Rightarrow> drain os h fl n (g a) st))"
    if "disk_kept st st'" for q st' fl g
  proof -
    have "disk_kept st (snd (p_GetAttr os q st'))"
      using that p_reads(1)[of st' os q] by (simp add: disk_kept_def mode_kept_def)
    then show ?thesis by (auto split: prod.splits sum.splits intro!: drain_keeps)
  qed
  show ?thesis
    unfolding p_ReadDir_def with_file_def Let_def
    by (auto split: option.split intro!: drain_keeps go rewind)
qed

text \<open>The changing operations of a read-only share.\<close>

lemma p_denied [p_keeps]:
  assumes "readOnly (fst st)"
  shows "disk_kept st (snd (p_SetAttr os h a st))" "disk_kept st (snd (p_Mkdir os name mode st))"
    "disk_kept st (snd (p_Write os h dat off st))" "disk_kept st (snd (p_Truncate os h ln st))"
    "disk_kept st (snd (p_Unlink os h st))" "disk_kept st (snd (p_Rename os h to rp st))"
    "disk_kept st (snd (p_Symlink os h target rp st))"
  using assms
  by (simp_all add: p_SetAttr_def p_Mkdir_def p_Write_def p_Truncate_def p_Unlink_def p_Rename_def p_Symlink_def
      changing_def disk_kept_def mode_kept_def)

definition xattr_set :: "('d, 'f) os \<Rightarrow> 'd \<Rightarrow> 'd \<Rightarrow> bool" where
  "xattr_set os d d' \<longleftrightarrow> (\<exists>path key v. d' = snd (os_Setxattr os path (''user.'' @ key) v d))"

lemma xattr_setI: "(xattr_set os)\<^sup>*\<^sup>* d (snd (os_Setxattr os path (''user.'' @ key) v d))"
  by (rule r_into_rtranclp) (unfold xattr_set_def, blast)

lemma p_Setxattr_keeps:
  "mode_kept st (snd (p_Setxattr os h key v st))"
  "(xattr_set os)\<^sup>*\<^sup>* (disk st) (disk (snd (p_Setxattr os h key v st)))"
  using xattr_setI[of os "disk st" _ key v, simplified]
  by (auto simp: p_Setxattr_def xattr_change_def mode_kept_def split: option.splits)

lemma at_share_snd: "snd (at_share n f st) =
    ((fst st)(n := fst (snd (f (fst st n, snd st)))), snd (snd (f (fst st n, snd st))))"
  by (simp add: at_share_def split: prod.split)

lemma at_share_keeps:
  assumes "disk_kept (fst st n, snd st) (snd (f (fst st n, snd st)))"
  shows "readOnly (fst (snd (at_share n f st)) n) = readOnly (fst st n)" "fst (snd (snd (at_share n f st))) = fst (snd st)"
  using assms by (simp_all add: at_share_snd disk_kept_def mode_kept_def)

lemma passthrough_safe:
  assumes "readOnly (fst s n)" "\<not> sets_xattr cl" "\<not> removes_xattr cl"
  shows "readOnly (fst (run_call (passthrough os) n cl s) n) \<and> fst (snd (run_call (passthrough os) n cl s)) = fst (snd s)"
  using assms
  by (cases cl) (simp_all add: passthrough_def at_share_keeps p_keeps)

lemma passthrough_sets:
  assumes "sets_xattr cl"
  shows "readOnly (fst (run_call (passthrough os) n cl s) n) = readOnly (fst s n)"
    "(xattr_set os)\<^sup>*\<^sup>* (fst (snd s)) (fst (snd (run_call (passthrough os) n cl s)))"
  using assms p_Setxattr_keeps[where st = "(fst s n, snd s)", unfolded mode_kept_def]
  by (cases cl; simp add: passthrough_def at_share_snd)+

interpretation ro_share: guarded_vfs "passthrough os" n "\<lambda>s. readOnly (fst s n)"
    "\<lambda>cl. \<not> sets_xattr cl \<and> \<not> removes_xattr cl" "\<lambda>s. fst (snd s)" "xattr_set os" for os n
  by unfold_locales (auto simp: passthrough_safe passthrough_sets)

subsection \<open>A directory to try things on\<close>

text \<open>A disk that holds extended attributes only; every path can be opened.\<close>

type_synonym toy_disk = "(string \<times> string \<times> byte list) list"

definition toy_info :: FileInfo where
  "toy_info = \<lparr>fi_sys = True, fi_ino = 9, fi_size = 0, fi_blocks = 0, fi_mode = 0x1A4, fi_uid = 0, fi_gid = 0, fi_nlink = 1,
     fi_atime = 0, fi_mtime = 0, fi_ctime = 0\<rparr>"

definition toy_os :: "(toy_disk, nat) os" where
  "toy_os = \<lparr>os_Stat = \<lambda>path d. Inr toy_info, os_Lstat = \<lambda>path d. Inr toy_info, os_OpenRead = \<lambda>path s. (Inr (snd s), snd s),
     os_OpenFile = \<lambda>path fl mode s. (Inr (snd s), s), os_Mkdir = \<lambda>path mode d. (Some ErrPermission, d),
     os_Remove = \<lambda>path d. (None, filter (\<lambda>e. fst e \<noteq> path) d), os_Rename = \<lambda>old new d. (Some ErrPermission, d),
     os_Symlink = \<lambda>target path d. (Some ErrPermission, d), os_Readlink = \<lambda>path d. Inl ErrInvalid,
     os_Truncate = \<lambda>path n d. (Some ErrPermission, d), os_Chtimes = \<lambda>path at mt d. (None, d), os_Chmod = \<lambda>path mode d. (None, d),
     os_Lchown = \<lambda>path uid gid d. (None, d), os_f_Stat = \<lambda>f s. Inr toy_info, os_f_ReadAt = \<lambda>f n off s. ([], Some EOF),
     os_f_WriteAt = \<lambda>f dat off s. ((0, Some ErrPermission), fst s), os_f_ReadDir = \<lambda>f n s. (([], Some EOF), snd s),
     os_f_Seek0 = \<lambda>f q. q, os_f_Truncate = \<lambda>f n s. (Some ErrPermission, fst s), os_f_Close = \<lambda>f q. q,
     os_Listxattr = \<lambda>path d. Inr [], os_Getxattr = \<lambda>path key d. (case map_of (map (\<lambda>(path, key, v). ((path, key), v)) d) (path, key) of
       None \<Rightarrow> Inl ENODATA | Some v \<Rightarrow> Inr v),
     os_Setxattr = \<lambda>path key v d. (None, (path, key, v) # d), os_Removexattr = \<lambda>path key d. (None, d),
     os_rand64 = \<lambda>q. (of_nat (Suc q), Suc q)\<rparr>"

definition toy_file_env :: "(toy_disk, nat) shares_state file_env" where
  "toy_file_env = \<lparr>f_vfs = passthrough toy_os, f_regexp = \<lambda>t. None, f_watch = \<lambda>path. False, f_pending = toy_world\<rparr>"

definition toy_file_server :: "string list \<Rightarrow> bool \<Rightarrow> (unit, (toy_disk, nat) shares_state) file_server" where
  "toy_file_server readers ro = \<lparr>RequireMessageSigning = True, SpecifiedDialect = SMB311, Spnego = None, auths = [()],
     authenticator = 0, serverGuid = zeros 16, SRVSVC_GUID = \<lparr>Persistent = zeros 8, Volatile = zeros 8\<rparr>, refIds = 0x10000,
     tables = NewServer ascii_go (sample_config\<lparr>UserReadonly := map (\<lambda>u. (u, True)) readers\<rparr>) [(''public'', 0)],
     opens = \<lambda>h. None, open_objs = [], opensByGuid = None, fsWatcher = False, fsWatchRefs = \<lambda>p. None, fsWatchRoot = \<lambda>p. None,
     hideDotfiles = False, xattrs = True, ignoreSetAttrErr = False, waiting = [],
     fs_state = ((\<lambda>n. NewPassthroughFS ''/srv'' ro), [], 5)\<rparr>"

definition toy_tree :: treeConn where
  "toy_tree = \<lparr>tc_session = Some 0, tc_treeId = 1, tc_shareFlags = 0, tc_path = ''public'', tc_refCount = 1\<rparr>"

definition toy_file_conn :: conn where
  "toy_file_conn = bob_conn\<lparr>tree_objs := [FileTree toy_tree 0 (\<lambda>h. False) False 0 0]\<rparr>"

lemma toy_file_tree: "file_tree 0 toy_file_conn = Some (toy_tree, 0, False)" "tree_session toy_tree toy_file_conn = Some bob_session"
  by (simp_all add: toy_file_conn_def toy_tree_def file_tree_def tree_session_def obj_deref_def bob_conn_def)

lemma toy_denied:
  "\<exists>cn'. deny toy_env (Slice secret_packet []) toy_tree None st srv toy_file_conn = Some (None, srv, cn')"
proof -
  have "64 \<le> len (Slice secret_packet [])" by code_simp
  note reads = full_header_reads[OF this] p_Command_total[of "Slice secret_packet []"]
  obtain hdr where h: "PrepareResponse new_header (Slice secret_packet []) st = Some hdr" "NextCommand hdr = 0"
    using reads by (auto simp: PrepareResponse_def new_header_def)
  have "\<exists>q cn'. sendPacket toy_world (hdr, ErrorResponse None) (Some toy_tree) None toy_file_conn = Some (None, cn') \<and> wire cn' = wire toy_file_conn @ [q]"
    using h toy_can_reply(1) by (intro send_succeeds) (auto simp: can_reply_def sendable_def rsp_ok_def toy_file_conn_def)
  then show ?thesis using h by (auto simp: reply_def sent_def)
qed

lemma toy_users: "t_isUserReadOnly toy_env toy_tree (toy_file_server us ro) toy_file_conn \<longleftrightarrow> (\<exists>u \<in> set us. ToLower ascii_go (TrimSpace ascii_go u) = ''bob'')"
proof -
  have "ToLower ascii_go (TrimSpace ascii_go ''bob'') = ''bob''" by code_simp
  then show ?thesis
    by (auto simp: t_isUserReadOnly_def toy_file_tree bob_fields isUserReadOnly_def toy_file_server_def NewServer_def readonly_users_iff)
qed

lemma toy_fs [simp]:
  "f_vfs toy_file_env = passthrough toy_os"
  "fs_state (toy_file_server us ro) = ((\<lambda>n. NewPassthroughFS ''/srv'' ro), [], 5)"
  "readOnly (NewPassthroughFS root ro) = ro"
  by (simp_all add: toy_file_env_def toy_file_server_def NewPassthroughFS_def)

lemma toy_os_xattr [simp]:
  "os_Getxattr toy_os path key [] = Inl ENODATA" "os_Setxattr toy_os path key v d = (None, (path, key, v) # d)"
  by (simp_all add: toy_os_def)

lemma toy_share: "t_isShareReadOnly toy_file_env fs (toy_file_server us ro) = ro"
  by (simp add: t_isShareReadOnly_def toy_file_env_def passthrough_def toy_file_server_def NewPassthroughFS_def)

subsection \<open>Properties\<close>

text \<open>
  C27. Whatever a client sends to a tree of a read-only share, the directory that is served stays as it is but
  for extended attributes that are set.  Only CREATE and WRITE set them; any other command leaves the
  disk alone, and the share stays read-only.
\<close>

theorem read_only_share_disk:
  assumes "file_tree ptr cn = Some (tc, fs, aapl)" "f_vfs fe = passthrough os" "t_isShareReadOnly fe fs srv"
    and "file_ops env fe cmd ptr cp pkt srv cn = Some (e, srv', cn')"
  shows "readOnly (fst (fs_state srv') fs) \<and> (xattr_set os)\<^sup>*\<^sup>* (fst (snd (fs_state srv))) (fst (snd (fs_state srv')))
    \<and> (cmd \<noteq> SMB2_CREATE \<and> cmd \<noteq> SMB2_WRITE \<longrightarrow> fst (snd (fs_state srv')) = fst (snd (fs_state srv)))"
proof -
  have ro: "readOnly (fst (fs_state srv) fs)"
    using assms(2,3) by (simp add: t_isShareReadOnly_def passthrough_def)
  have reach: "fs_reach (passthrough os) fs (other_calls (cmd = SMB2_CREATE \<or> cmd = SMB2_WRITE)) (fs_state srv) (fs_state srv')"
    using file_ops_share_calls[OF assms(1,3), where env = env and cmd = cmd and cp = cp and pkt = pkt] assms(2,4) by (simp add: leads_def)
  show ?thesis
    using ro_share.reach_contents[OF reach ro] ro_share.reach_same[OF reach ro]
    by (auto simp: other_calls_def)
qed

lemma read_only_share_disk_witness:
  "\<exists>srv' cn'. file_ops toy_env toy_file_env SMB2_SET_INFO 0 None (Slice secret_packet []) (toy_file_server [] True) toy_file_conn
     = Some (None, srv', cn') \<and> readOnly (fst (fs_state srv') 0) \<and> fst (snd (fs_state srv')) = []"
proof -
  have "\<exists>cn'. file_ops toy_env toy_file_env SMB2_SET_INFO 0 None (Slice secret_packet []) (toy_file_server [] True) toy_file_conn
     = Some (None, toy_file_server [] True, cn')"
    using toy_denied by (simp add: file_ops_def setInfo_def toy_file_tree toy_share)
  then obtain cn' where run: "file_ops toy_env toy_file_env SMB2_SET_INFO 0 None (Slice secret_packet []) (toy_file_server [] True)
      toy_file_conn = Some (None, toy_file_server [] True, cn')" by blast
  show ?thesis
    using read_only_share_disk[OF toy_file_tree(1) toy_fs(1) _ run] run by (auto simp: toy_share)
qed

text \<open>
  C28. A user who may only read: commands other than IOCTL and CLOSE make no call of the file system that
  changes anything, but that CREATE can set an extended attribute.
\<close>

theorem read_only_user_calls:
  assumes "file_tree ptr cn = Some (tc, fs, aapl)" "t_isUserReadOnly env tc srv cn" "cmd \<noteq> SMB2_IOCTL" "cmd \<noteq> SMB2_CLOSE"
    and "file_ops env fe cmd ptr cp pkt srv cn = Some (e, srv', cn')"
  shows "fs_reach (f_vfs fe) fs {cl. reading_call cl \<or> (cmd = SMB2_CREATE \<and> sets_xattr cl)} (fs_state srv) (fs_state srv')"
  using file_ops_user_calls[OF assms(1-4), where fe = fe and cp = cp and pkt = pkt] assms(5) by (simp add: leads_def user_calls_def)

lemma read_only_user_calls_witness:
  "\<exists>srv' cn'. file_ops toy_env toy_file_env SMB2_WRITE 0 None (Slice secret_packet []) (toy_file_server [''Bob ''] False) toy_file_conn
     = Some (None, srv', cn') \<and> fs_reach (passthrough toy_os) 0 reads (fs_state (toy_file_server [''Bob ''] False)) (fs_state srv')"
proof -
  have ro: "t_isUserReadOnly toy_env toy_tree (toy_file_server [''Bob ''] False) toy_file_conn"
    unfolding toy_users by (simp, code_simp)
  have "\<exists>cn'. file_ops toy_env toy_file_env SMB2_WRITE 0 None (Slice secret_packet []) (toy_file_server [''Bob ''] False) toy_file_conn
     = Some (None, toy_file_server [''Bob ''] False, cn')"
    using toy_denied ro by (simp add: file_ops_def write_file_def toy_file_tree)
  then obtain cn' where run: "file_ops toy_env toy_file_env SMB2_WRITE 0 None (Slice secret_packet []) (toy_file_server [''Bob ''] False)
      toy_file_conn = Some (None, toy_file_server [''Bob ''] False, cn')" by blast
  show ?thesis
    using read_only_user_calls[OF toy_file_tree(1) ro _ _ run] run
    by (auto simp: reads_def)
qed



end
