(* ===== verification/Ntlm.thy ===== *)
theory Ntlm
  imports Negotiation Shares Utf16 Security
begin

section \<open>NTLM: keys, message signatures and attribute pairs\<close>

text \<open>
  \<^verbatim>\<open>smb/internal/ntlm/ntlm.go\<close> and \<^verbatim>\<open>session.go\<close>.  MD4 and MD5 are arguments; HMAC, RC4 and CRC-32 of the standard
  library are defined here.
\<close>

subsection \<open>HMAC, RC4 and CRC-32\<close>

record hashes =
  md4 :: "byte list \<Rightarrow> byte list"
  md5 :: "byte list \<Rightarrow> byte list"

definition hashes_ok :: "hashes \<Rightarrow> bool" where
  "hashes_ok H \<longleftrightarrow> (\<forall>m. length (md4 H m) = 16 \<and> length (md5 H m) = 16)"

definition hmac_md5 :: "hashes \<Rightarrow> byte list \<Rightarrow> byte list \<Rightarrow> byte list" where
  "hmac_md5 H key m =
     (let k = (if 64 < length key then md5 H key else key);
          k = k @ zeros (64 - length k)
      in md5 H (map ((XOR) 0x5c) k @ md5 H (map ((XOR) 0x36) k @ m)))"

record rc4 =
  rc_s :: "byte list"
  rc_i :: byte
  rc_j :: byte

definition swap_at :: "nat \<Rightarrow> nat \<Rightarrow> byte list \<Rightarrow> byte list" where
  "swap_at i j xs = xs[i := xs ! j, j := xs ! i]"

definition rc4_schedule :: "byte list \<Rightarrow> byte list" where
  "rc4_schedule key = fst (fold (\<lambda>i (xs, j).
     let j = j + xs ! i + key ! (i mod length key) in (swap_at i (unat j) xs, j)) [0..<256] (map of_nat [0..<256], 0))"

definition rc4_NewCipher :: "byte list \<Rightarrow> error + rc4" where
  "rc4_NewCipher key =
     (if length key < 1 \<or> 256 < length key then Inl (ErrorString ''crypto/rc4: invalid key size'')
      else Inr \<lparr>rc_s = rc4_schedule key, rc_i = 0, rc_j = 0\<rparr>)"

text \<open>The byte of the key stream is read after the two are exchanged.\<close>

definition rc4_next :: "rc4 \<Rightarrow> byte \<times> rc4" where
  "rc4_next r =
     (let i = rc_i r + 1;
          x = rc_s r ! unat i;
          j = rc_j r + x;
          y = rc_s r ! unat j;
          xs = swap_at (unat i) (unat j) (rc_s r)
      in (xs ! unat (x + y), \<lparr>rc_s = xs, rc_i = i, rc_j = j\<rparr>))"

fun rc4_xor :: "rc4 \<Rightarrow> byte list \<Rightarrow> byte list \<times> rc4" where
  "rc4_xor r [] = ([], r)"
| "rc4_xor r (x # xs) = (let (k, r) = rc4_next r; (ys, r) = rc4_xor r xs in ((x XOR k) # ys, r))"

fun crc_bits :: "nat \<Rightarrow> u32 \<Rightarrow> u32" where
  "crc_bits 0 v = v"
| "crc_bits (Suc n) v = crc_bits n (if v AND 1 = 1 then drop_bit 1 v XOR 0xEDB88320 else drop_bit 1 v)"

definition ChecksumIEEE :: "byte list \<Rightarrow> u32" where
  "ChecksumIEEE m = NOT (fold (\<lambda>b v. crc_bits 8 (v XOR ucast b)) m 0xFFFFFFFF)"

subsection \<open>Constants\<close>

definition nt_signature :: "byte list" where "nt_signature = ascii ''NTLMSSP'' @ [0]"
definition nt_version :: "byte list" where "nt_version = [0x0a, 0, 0, 0, 0, 0, 0, 0x0f]"

abbreviation (input) "NTLMSSP_REQUEST_TARGET \<equiv> (0x4 :: u32)"
abbreviation (input) "NTLMSSP_NEGOTIATE_SIGN \<equiv> (0x10 :: u32)"
abbreviation (input) "NTLMSSP_NEGOTIATE_SEAL \<equiv> (0x20 :: u32)"
abbreviation (input) "NTLMSSP_NEGOTIATE_DATAGRAM \<equiv> (0x40 :: u32)"
abbreviation (input) "NTLMSSP_NEGOTIATE_LM_KEY \<equiv> (0x80 :: u32)"
abbreviation (input) "NTLMSSP_NEGOTIATE_EXTENDED_SESSIONSECURITY \<equiv> (0x80000 :: u32)"
abbreviation (input) "NTLMSSP_NEGOTIATE_TARGET_INFO \<equiv> (0x800000 :: u32)"
abbreviation (input) "NTLMSSP_NEGOTIATE_VERSION \<equiv> (0x2000000 :: u32)"
abbreviation (input) "NTLMSSP_NEGOTIATE_128 \<equiv> (0x20000000 :: u32)"
abbreviation (input) "NTLMSSP_NEGOTIATE_KEY_EXCH \<equiv> (0x40000000 :: u32)"
abbreviation (input) "NTLMSSP_NEGOTIATE_56 \<equiv> (0x80000000 :: u32)"

text \<open>56, KEY_EXCH, 128, VERSION, TARGET_INFO, EXTENDED_SESSIONSECURITY, ALWAYS_SIGN, NTLM, SIGN, REQUEST_TARGET, UNICODE.\<close>

definition defaultFlags :: u32 where "defaultFlags = 0xE2888215"

abbreviation (input) "MsvAvEOL \<equiv> (0 :: u16)"
abbreviation (input) "MsvAvNbComputerName \<equiv> (1 :: u16)"
abbreviation (input) "MsvAvNbDomainName \<equiv> (2 :: u16)"
abbreviation (input) "MsvAvDnsComputerName \<equiv> (3 :: u16)"
abbreviation (input) "MsvAvDnsDomainName \<equiv> (4 :: u16)"
abbreviation (input) "MsvAvFlags \<equiv> (6 :: u16)"
abbreviation (input) "MsvAvTimestamp \<equiv> (7 :: u16)"
abbreviation (input) "MsvAvTargetName \<equiv> (9 :: u16)"
abbreviation (input) "MsvAvChannelBindings \<equiv> (10 :: u16)"

subsection \<open>Keys\<close>

definition ntowfv2Hash :: "hashes \<Rightarrow> byte list \<Rightarrow> byte list \<Rightarrow> byte list \<Rightarrow> byte list" where
  "ntowfv2Hash H user hash domain = hmac_md5 H hash (user @ domain)"

definition ntowfv2 :: "hashes \<Rightarrow> byte list \<Rightarrow> byte list \<Rightarrow> byte list \<Rightarrow> byte list" where
  "ntowfv2 H user password domain = ntowfv2Hash H user (md4 H password) domain"

definition signKey :: "hashes \<Rightarrow> u32 \<Rightarrow> byte list \<Rightarrow> bool \<Rightarrow> byte list" where
  "signKey H flags key fromClient =
     (if flags AND NTLMSSP_NEGOTIATE_EXTENDED_SESSIONSECURITY \<noteq> 0
      then md5 H (key @ ascii (if fromClient then ''session key to client-to-server signing key magic constant''
             else ''session key to server-to-client signing key magic constant'') @ [0])
      else [])"

text \<open>The session key has sixteen bytes; a shorter one would make the slices panic.\<close>

definition sealKey :: "hashes \<Rightarrow> u32 \<Rightarrow> byte list \<Rightarrow> bool \<Rightarrow> byte list option" where
  "sealKey H flags key fromClient =
     (if flags AND NTLMSSP_NEGOTIATE_EXTENDED_SESSIONSECURITY \<noteq> 0
      then do {
        part \<leftarrow> (if flags AND NTLMSSP_NEGOTIATE_128 \<noteq> 0 then Some key
          else if flags AND NTLMSSP_NEGOTIATE_56 \<noteq> 0 then map_option vis (sl_range 0 7 (Slice key []))
          else map_option vis (sl_range 0 5 (Slice key [])));
        Some (md5 H (part @ ascii (if fromClient then ''session key to client-to-server sealing key magic constant''
             else ''session key to server-to-client sealing key magic constant'') @ [0])) }
      else if flags AND NTLMSSP_NEGOTIATE_LM_KEY \<noteq> 0
      then if flags AND NTLMSSP_NEGOTIATE_56 \<noteq> 0
        then map_option (\<lambda>part. vis part @ [0xa0]) (sl_range 0 7 (Slice key []))
        else map_option (\<lambda>part. vis part @ [0xe5, 0x38, 0xb0]) (sl_range 0 5 (Slice key []))
      else Some key)"

subsection \<open>Message signatures\<close>

text \<open>
  \<^verbatim>\<open>mac\<close>: \<open>tg\<close> is what the sixteen bytes of the signature hold before - zeros in a fresh slice.  Using a
  cipher that is \<^verbatim>\<open>nil\<close> panics.
\<close>

definition rc4_use :: "rc4 option \<Rightarrow> byte list \<Rightarrow> (byte list \<times> rc4 option) option" where
  "rc4_use h bs = map_option (\<lambda>r. let (xs, r) = rc4_xor r bs in (xs, Some r)) h"

definition ntlm_mac ::
    "hashes \<Rightarrow> byte list \<Rightarrow> u32 \<Rightarrow> rc4 option \<Rightarrow> byte list \<Rightarrow> u32 \<Rightarrow> byte list \<Rightarrow> (byte list \<times> u32 \<times> rc4 option) option" where
  "ntlm_mac H tg flags handle signingKey seqNum msg =
     (if flags AND NTLMSSP_NEGOTIATE_EXTENDED_SESSIONSECURITY = 0
      then do {
        (a, handle) \<leftarrow> rc4_use handle (rd 4 4 tg);
        (b, handle) \<leftarrow> rc4_use handle (le_enc 4 (ChecksumIEEE msg));
        (e, handle) \<leftarrow> rc4_use handle (rd 12 4 tg);
        Some (le_enc 4 (1 :: u32) @ zeros 4 @ b @ map2 (XOR) e (le_enc 4 seqNum),
          if flags AND NTLMSSP_NEGOTIATE_DATAGRAM = 0 then seqNum + 1 else seqNum, handle) }
      else do {
        let tgs = take 8 (hmac_md5 H signingKey (le_enc 4 seqNum @ msg));
        (tgs, handle) \<leftarrow> (if flags AND NTLMSSP_NEGOTIATE_KEY_EXCH \<noteq> 0 then rc4_use handle tgs else Some (tgs, handle));
        Some (le_enc 4 (1 :: u32) @ tgs @ le_enc 4 seqNum, seqNum + 1, handle) })"

record ntlm_session =
  isClientSide :: bool
  ns_user :: string
  negotiateFlags :: u32
  exportedSessionKey :: "byte list"
  clientSigningKey :: "byte list"
  serverSigningKey :: "byte list"
  clientHandle :: "rc4 option"
  serverHandle :: "rc4 option"
  ns_infoMap :: "u16 \<Rightarrow> byte list option"

definition InfoMap_of :: "ntlm_session \<Rightarrow> InfoMap" where
  "InfoMap_of s =
     (let get = (\<lambda>k. case ns_infoMap s k of None \<Rightarrow> [] | Some v \<Rightarrow> DecodeToString v) in
      \<lparr>NbComputerName = get MsvAvNbComputerName, NbDomainName = get MsvAvNbDomainName,
       DnsComputerName = get MsvAvDnsComputerName, DnsDomainName = get MsvAvDnsDomainName, DnsTreeName = get 5\<rparr>)"

text \<open>A signature with the keys of one direction; the cipher that was used has moved on.\<close>

definition mac_own :: "hashes \<Rightarrow> byte list \<Rightarrow> ntlm_session \<Rightarrow> bool \<Rightarrow> u32 \<Rightarrow> byte list
    \<Rightarrow> (byte list \<times> u32 \<times> ntlm_session) option" where
  "mac_own H tg s client seqNum msg =
     (if client
      then map_option (\<lambda>(t, n, h). (t, n, s\<lparr>clientHandle := h\<rparr>))
             (ntlm_mac H tg (negotiateFlags s) (clientHandle s) (clientSigningKey s) seqNum msg)
      else map_option (\<lambda>(t, n, h). (t, n, s\<lparr>serverHandle := h\<rparr>))
             (ntlm_mac H tg (negotiateFlags s) (serverHandle s) (serverSigningKey s) seqNum msg))"

definition Sum :: "hashes \<Rightarrow> byte list \<Rightarrow> u32 \<Rightarrow> ntlm_session \<Rightarrow> (byte list \<times> u32 \<times> ntlm_session) option" where
  "Sum H msg seqNum s =
     (if negotiateFlags s AND NTLMSSP_NEGOTIATE_SIGN = 0 then Some ([], 0, s)
      else mac_own H (zeros 16) s (isClientSide s) seqNum msg)"

definition CheckSum :: "hashes \<Rightarrow> byte list \<Rightarrow> byte list \<Rightarrow> u32 \<Rightarrow> ntlm_session \<Rightarrow> (bool \<times> u32 \<times> ntlm_session) option" where
  "CheckSum H tgs msg seqNum s =
     (if negotiateFlags s AND NTLMSSP_NEGOTIATE_SIGN = 0 then Some (tgs = [], 0, s)
      else do {
        (ret, n, s) \<leftarrow> mac_own H (zeros 16) s (\<not> isClientSide s) seqNum msg;
        Some (if tgs \<noteq> ret then (False, 0, s) else (True, n, s)) })"

text \<open>
  \<^verbatim>\<open>Seal\<close> with a destination without spare capacity: a signature of sixteen bytes, then the message.  It
  encrypts with the cipher of the client on both sides.
\<close>

definition ntlm_Seal :: "hashes \<Rightarrow> byte list \<Rightarrow> u32 \<Rightarrow> ntlm_session \<Rightarrow> (byte list \<times> u32 \<times> ntlm_session) option" where
  "ntlm_Seal H msg seqNum s =
     (if negotiateFlags s AND NTLMSSP_NEGOTIATE_SEAL \<noteq> 0
      then do {
        (ct, h) \<leftarrow> rc4_use (clientHandle s) msg;
        (t, n, s) \<leftarrow> mac_own H (zeros 16) (s\<lparr>clientHandle := h\<rparr>) (isClientSide s) seqNum msg;
        Some (t @ ct, n, s) }
      else if negotiateFlags s AND NTLMSSP_NEGOTIATE_SIGN \<noteq> 0
      then do { (t, n, s) \<leftarrow> mac_own H (zeros 16) s (isClientSide s) seqNum msg; Some (t @ msg, n, s) }
      else Some (zeros 16 @ zeros (length msg), seqNum, s))"

text \<open>\<^verbatim>\<open>Unseal\<close> of at least sixteen bytes; it decrypts with the cipher of the server on both sides.\<close>

definition signature_mismatch :: error where "signature_mismatch = ErrorString ''signature mismatch''"

definition ntlm_Unseal :: "hashes \<Rightarrow> byte list \<Rightarrow> u32 \<Rightarrow> ntlm_session
    \<Rightarrow> ((error + byte list \<times> u32) \<times> ntlm_session) option" where
  "ntlm_Unseal H ct seqNum s =
     (if length ct < 16 then None
      else let body = drop 16 ct; tgs = take 16 ct in
        if negotiateFlags s AND NTLMSSP_NEGOTIATE_SEAL \<noteq> 0
        then do {
          (msg, h) \<leftarrow> rc4_use (serverHandle s) body;
          (t, n, s) \<leftarrow> mac_own H (zeros 16) (s\<lparr>serverHandle := h\<rparr>) (\<not> isClientSide s) seqNum msg;
          Some (if tgs \<noteq> t then Inl signature_mismatch else Inr (msg, n), s) }
        else if negotiateFlags s AND NTLMSSP_NEGOTIATE_SIGN \<noteq> 0
        then do {
          (t, n, s) \<leftarrow> mac_own H (zeros 16) s (\<not> isClientSide s) seqNum body;
          Some (if tgs \<noteq> t then Inl signature_mismatch else Inr (body, n), s) }
        else Some (if \<exists>b \<in> set tgs. b \<noteq> 0 then Inl signature_mismatch else Inr (body, seqNum), s))"

subsection \<open>Attribute pairs\<close>

text \<open>
  The pairs of a target information block with the offsets of their values: a later pair of the same
  type hides an earlier one.
\<close>

fun av_pairs :: "nat \<Rightarrow> byte list \<Rightarrow> (u16 \<times> nat \<times> nat) list option" where
  "av_pairs off [] = Some []"
| "av_pairs off (a1 # a2 # n1 # n2 # bs) =
     (let n = unat (le_dec [n1, n2] :: u16) in
      if length bs < n then None
      else map_option (Cons (le_dec [a1, a2], off + 4, n)) (av_pairs (off + 4 + n) (drop n bs)))"
| "av_pairs off bs = None"

definition parseAvPairs :: "byte list \<Rightarrow> (u16 \<times> nat \<times> nat) list option" where
  "parseAvPairs bs =
     (if length bs < 4 \<or> drop (length bs - 4) bs \<noteq> [0, 0, 0, 0] then None else av_pairs 0 bs)"

definition av_lookup :: "(u16 \<times> nat \<times> nat) list \<Rightarrow> u16 \<Rightarrow> (nat \<times> nat) option" where
  "av_lookup ps = map_of (rev ps)"

definition av_value :: "byte list \<Rightarrow> (u16 \<times> nat \<times> nat) list \<Rightarrow> u16 \<Rightarrow> byte list option" where
  "av_value bs ps k = map_option (\<lambda>(off, n). rd off n bs) (av_lookup ps k)"

type_synonym TargetInfo = "(u16 \<times> byte list) list"

definition TargetInfo_Size :: "TargetInfo \<Rightarrow> nat" where
  "TargetInfo_Size t = sum_list (map (\<lambda>(k, v). 4 + length v) t)"

fun TargetInfo_Encode :: "nat \<Rightarrow> TargetInfo \<Rightarrow> byte list \<Rightarrow> byte list option" where
  "TargetInfo_Encode off [] b = Some b"
| "TargetInfo_Encode off ((k, v) # ps) b = do {
     b \<leftarrow> put16 off k b;
     b \<leftarrow> put16 (off + 2) (of_nat (length v)) b;
     b \<leftarrow> copy_at (off + 4) v b;
     TargetInfo_Encode (off + 4 + min (length v) (length b - (off + 4))) ps b }"

text \<open>What a client puts at the end of its response: the server's pairs without the last, flags, an empty channel binding, the name of the service.\<close>

definition info_tail :: "bool \<Rightarrow> byte list \<Rightarrow> byte list" where
  "info_tail flags spn =
     (if flags then [] else le_enc 2 MsvAvFlags @ le_enc 2 (4 :: u16) @ le_enc 4 (2 :: u32))
     @ le_enc 2 MsvAvChannelBindings @ le_enc 2 (16 :: u16) @ zeros 16
     @ (if spn = [] then [] else le_enc 2 MsvAvTargetName @ le_enc 2 (of_nat (length spn) :: u16) @ spn)
     @ le_enc 2 MsvAvEOL @ le_enc 2 (0 :: u16)"

definition info_size :: "byte list \<Rightarrow> byte list \<Rightarrow> (u16 \<times> nat \<times> nat) list \<Rightarrow> nat" where
  "info_size info spn ps =
     length info + (if av_lookup ps MsvAvFlags = None then 8 else 0) + 20 + (if spn \<noteq> [] then 4 + length spn else 0)"

text \<open>
  The response to a challenge, in a buffer of its size; \<open>put_info\<close> writes the target information at offset 44.
  The sixteen bytes of the proof go in front of what they are computed from.
\<close>

definition encodeNtlmv2Response :: "hashes \<Rightarrow> byte list \<Rightarrow> byte list \<Rightarrow> byte list \<Rightarrow> byte list
    \<Rightarrow> (byte list \<Rightarrow> byte list option) \<Rightarrow> byte list \<Rightarrow> byte list option" where
  "encodeNtlmv2Response H key serverChallenge clientChallenge timeStamp put_info dst = do {
     dst \<leftarrow> puts [(16, [1]), (17, [1]), (24, take 8 timeStamp), (32, take 8 clientChallenge)] dst;
     dst \<leftarrow> put_info dst;
     put 0 (hmac_md5 H key (serverChallenge @ drop 16 dst)) dst }"

end
