(* ===== verification/NtlmAuth.thy ===== *)
theory NtlmAuth
  imports Ntlm
begin

section \<open>NTLM: server, client and authenticator\<close>

text \<open>
  \<^verbatim>\<open>smb/internal/ntlm/server.go\<close>, \<^verbatim>\<open>client.go\<close> and the \<^verbatim>\<open>NTLMAuthenticator\<close> of \<^verbatim>\<open>smb/server/authenticator.go\<close>.
  The clock, the random bytes and the upper case of user names are arguments.
\<close>

subsection \<open>The challenge\<close>

record ntlm_server =
  targetName :: string
  nbName :: string
  nbDomain :: string
  dnsDomain :: string
  dnsName :: string
  accounts :: "string \<Rightarrow> string option"
  allowGuest :: bool
  s_nmsg :: "byte list"
  s_cmsg :: "byte list"
  s_session :: "ntlm_session option"

definition ntlm_NewServer :: "string \<Rightarrow> string \<Rightarrow> string \<Rightarrow> string \<Rightarrow> string \<Rightarrow> ntlm_server" where
  "ntlm_NewServer target name domain dname ddomain = \<lparr>targetName = target, nbName = name, nbDomain = domain,
     dnsDomain = ddomain, dnsName = dname, accounts = \<lambda>_. None, allowGuest = False, s_nmsg = [], s_cmsg = [], s_session = None\<rparr>"

definition AddAccount :: "string \<Rightarrow> string \<Rightarrow> ntlm_server \<Rightarrow> ntlm_server" where
  "AddAccount user password s = s\<lparr>accounts := (accounts s)(user \<mapsto> password)\<rparr>"

definition AllowGuest_on :: "ntlm_server \<Rightarrow> ntlm_server" where
  "AllowGuest_on s = s\<lparr>allowGuest := True\<rparr>"

definition guestSession :: "u32 \<Rightarrow> ntlm_session" where
  "guestSession flags = \<lparr>isClientSide = False, ns_user = ''guest'', negotiateFlags = flags, exportedSessionKey = zeros 16,
     clientSigningKey = [], serverSigningKey = [], clientHandle = None, serverHandle = None, ns_infoMap = \<lambda>_. None\<rparr>"

text \<open>The pairs of a challenge.  The names stand in the reverse order in which the code prepends them.\<close>

definition challenge_info :: "u64 \<Rightarrow> ntlm_server \<Rightarrow> TargetInfo option" where
  "challenge_info now s = do {
     t \<leftarrow> Filetime_Encode 0 (NsecToFiletime now) (zeros 8);
     let pair = (\<lambda>k name. if name = [] then [] else [(k, EncodeStringToBytes name)]);
     Some ((MsvAvTimestamp, t) # pair MsvAvDnsComputerName (dnsName s) @ pair MsvAvDnsDomainName (dnsDomain s)
       @ pair MsvAvNbComputerName (nbName s) @ pair MsvAvNbDomainName (nbDomain s) @ [(MsvAvEOL, [])]) }"

definition challenge_flags :: "u32 \<Rightarrow> u32" where
  "challenge_flags fl = (fl AND defaultFlags) OR NTLMSSP_NEGOTIATE_TARGET_INFO"

text \<open>The eight bytes that describe \<open>n\<close> bytes at an offset: their number, twice, and the offset.\<close>

definition field_at_off :: "nat \<Rightarrow> nat \<Rightarrow> nat \<Rightarrow> fields" where
  "field_at_off pos n off = [(pos, le_enc 2 (of_nat n :: u16)), (pos + 2, le_enc 2 (of_nat n :: u16)), (pos + 4, le_enc 4 (of_nat off :: u32))]"

text \<open>
  The target information is placed behind where the offset stands after the name of the target was
  written, less its own size: with a name it goes over the end of its region.
\<close>

definition challenge_message :: "u32 \<Rightarrow> TargetInfo \<Rightarrow> byte list \<Rightarrow> (error + byte list) \<Rightarrow> (error + byte list) option" where
  "challenge_message flags ti target rnd = do {
     let off = 48 + TargetInfo_Size ti + (if flags AND NTLMSSP_NEGOTIATE_VERSION \<noteq> 0 then 8 else 0);
     cmsg \<leftarrow> puts [(0, nt_signature), (8, le_enc 4 (2 :: u32)), (20, le_enc 4 flags)] (zeros (off + length target + 4));
     let named = (target \<noteq> [] \<and> flags AND NTLMSSP_REQUEST_TARGET \<noteq> 0);
     cmsg \<leftarrow> (if named
       then puts ((off, target) # field_at_off 12 (length target) off) cmsg
       else Some cmsg);
     let off = (if named then off + length target else off) - TargetInfo_Size ti;
     cmsg \<leftarrow> TargetInfo_Encode off ti cmsg;
     cmsg \<leftarrow> puts (field_at_off 40 (TargetInfo_Size ti) off) cmsg;
     (case rnd of
        Inl e \<Rightarrow> Some (Inl e)
      | Inr r \<Rightarrow> do {
          cmsg \<leftarrow> put 24 r cmsg;
          cmsg \<leftarrow> (if flags AND NTLMSSP_NEGOTIATE_VERSION \<noteq> 0 then put 48 nt_version cmsg else Some cmsg);
          Some (Inr cmsg) }) }"

definition ntlm_Challenge :: "u64 \<Rightarrow> (error + byte list) \<Rightarrow> slice \<Rightarrow> ntlm_server \<Rightarrow> ((error + byte list) \<times> ntlm_server) option" where
  "ntlm_Challenge now rnd nmsg s =
     (let s = s\<lparr>s_nmsg := vis nmsg\<rparr> in
      if len nmsg < 32 then Some (Inl (ErrorString ''message length is too short''), s)
      else do {
        sig \<leftarrow> sl_range 0 8 nmsg;
        ty \<leftarrow> u32_in 8 12 nmsg;
        (if vis sig \<noteq> nt_signature then Some (Inl (ErrorString ''invalid signature''), s)
         else if ty \<noteq> 1 then Some (Inl (ErrorString ''invalid message type''), s)
         else do {
           fl \<leftarrow> u32_in 12 16 nmsg;
           ti \<leftarrow> challenge_info now s;
           r \<leftarrow> challenge_message (challenge_flags fl) ti (EncodeStringToBytes (targetName s)) rnd;
           Some (r, case r of Inl e \<Rightarrow> s | Inr cmsg \<Rightarrow> s\<lparr>s_cmsg := cmsg\<rparr>) }) })"

subsection \<open>Reading an AUTHENTICATE message\<close>

definition and_then :: "(error + 'a) option \<Rightarrow> ('a \<Rightarrow> (error + 'b) option) \<Rightarrow> (error + 'b) option" where
  "and_then m f = (case m of None \<Rightarrow> None | Some (Inl e) \<Rightarrow> Some (Inl e) | Some (Inr x) \<Rightarrow> f x)"

text \<open>A field: length, maximal length and offset.  The end is computed with 32 bits.\<close>

definition message_field :: "nat \<Rightarrow> string \<Rightarrow> slice \<Rightarrow> (error + slice) option" where
  "message_field pos msg m = do {
     n \<leftarrow> u16_in pos (pos + 2) m;
     mx \<leftarrow> u16_in (pos + 2) (pos + 4) m;
     (if mx < n then Some (Inl (ErrorString msg))
      else do {
        off \<leftarrow> u32_in (pos + 4) (pos + 8) m;
        let stop = off + ucast n;
        (if len m < unat stop then Some (Inl (ErrorString msg))
         else map_option Inr (sl_range (unat off) (unat stop) m)) }) }"

text \<open>Flags, response, domain, user and encrypted session key.\<close>

definition read_authenticate :: "slice \<Rightarrow> (error + u32 \<times> byte list \<times> byte list \<times> byte list \<times> byte list) option" where
  "read_authenticate amsg =
     (if len amsg < 64 then Some (Inl (ErrorString ''message length is too short''))
      else do {
        sig \<leftarrow> sl_range 0 8 amsg;
        ty \<leftarrow> u32_in 8 12 amsg;
        (if vis sig \<noteq> nt_signature then Some (Inl (ErrorString ''invalid signature''))
         else if ty \<noteq> 3 then Some (Inl (ErrorString ''invalid message type''))
         else do {
           flags \<leftarrow> u32_in 60 64 amsg;
           and_then (message_field 20 ''invalid LM challenge format'' amsg) (\<lambda>nt.
           and_then (message_field 28 ''invalid domain name format'' amsg) (\<lambda>domain.
           and_then (message_field 36 ''invalid user name format'' amsg) (\<lambda>user.
           and_then (message_field 52 ''invalid user name format'' amsg) (\<lambda>key.
             Some (Inr (flags, vis nt, vis domain, vis user, vis key)))))) }) })"

subsection \<open>Authentication\<close>

text \<open>The response that the server expects, and the key from which the session keys come.\<close>

definition response_key :: "hashes \<Rightarrow> gostr \<Rightarrow> string \<Rightarrow> string \<Rightarrow> byte list \<Rightarrow> byte list" where
  "response_key H go user password domain =
     ntowfv2 H (EncodeStringToBytes (ToUpper go user)) (EncodeStringToBytes password) domain"

definition expected_response :: "hashes \<Rightarrow> byte list \<Rightarrow> byte list \<Rightarrow> byte list \<Rightarrow> byte list option" where
  "expected_response H key serverChallenge nt =
     (let ch = drop 16 nt in
      encodeNtlmv2Response H key serverChallenge (rd 16 8 ch) (rd 8 8 ch)
        (\<lambda>dst. copy_at 44 (drop 28 ch) dst) (zeros (length nt)))"

text \<open>The exported session key: sixteen bytes of the client, encrypted, if keys are exchanged.\<close>

definition exported_key :: "u32 \<Rightarrow> byte list \<Rightarrow> byte list \<Rightarrow> (error + byte list) option" where
  "exported_key flags base encrypted =
     (if flags AND NTLMSSP_NEGOTIATE_KEY_EXCH = 0 then Some (Inr base)
      else case rc4_NewCipher base of
          Inl e \<Rightarrow> Some (Inl e)
        | Inr r \<Rightarrow> if 16 < length encrypted then None
            else Some (Inr (fst (rc4_xor r encrypted) @ zeros (16 - length encrypted))))"

text \<open>The message with sixteen bytes cleared, and the integrity code that was there.\<close>

definition cut_mic :: "u32 \<Rightarrow> slice \<Rightarrow> (byte list \<times> byte list) option" where
  "cut_mic flags amsg = do {
     let lo = (if flags AND NTLMSSP_NEGOTIATE_VERSION \<noteq> 0 then 72 else 64);
     mic \<leftarrow> sl_range lo (lo + 16) amsg;
     Some (vis mic, take (len amsg) (wr lo (zeros 16) (vis amsg @ ext amsg))) }"

text \<open>Whether the client asked for a check of the integrity code, and its outcome.\<close>

definition mic_ok :: "hashes \<Rightarrow> u32 \<Rightarrow> byte list \<Rightarrow> byte list \<Rightarrow> slice \<Rightarrow> ntlm_server \<Rightarrow> bool option" where
  "mic_ok H flags key info amsg s =
     (case Option.bind (parseAvPairs info) (\<lambda>ps. av_value info ps MsvAvFlags) of
        None \<Rightarrow> Some True
      | Some fl \<Rightarrow> do {
          v \<leftarrow> le_Uint32 (Slice fl []);
          (if v AND 2 = 0 then Some True
           else do {
             (mic, cleared) \<leftarrow> cut_mic flags amsg;
             Some (mic = hmac_md5 H key (s_nmsg s @ s_cmsg s @ cleared)) }) })"

definition session_keys :: "hashes \<Rightarrow> u32 \<Rightarrow> byte list \<Rightarrow> ntlm_session \<Rightarrow> (error + ntlm_session) option" where
  "session_keys H flags key ses = do {
     ck \<leftarrow> sealKey H flags key True;
     sk \<leftarrow> sealKey H flags key False;
     (case (rc4_NewCipher ck, rc4_NewCipher sk) of
        (Inr ch, Inr sh) \<Rightarrow> Some (Inr (ses\<lparr>clientSigningKey := signKey H flags key True,
          serverSigningKey := signKey H flags key False, clientHandle := Some ch, serverHandle := Some sh\<rparr>))
      | (Inl e, _) \<Rightarrow> Some (Inl e)
      | (_, Inl e) \<Rightarrow> Some (Inl e)) }"

definition login_failure :: error where "login_failure = ErrorString ''login failure''"

text \<open>A wrong password, or a wrong integrity code.\<close>

definition refused :: "u32 \<Rightarrow> ntlm_server \<Rightarrow> error option \<times> ntlm_server" where
  "refused flags s = (if allowGuest s then (None, s\<lparr>s_session := Some (guestSession flags)\<rparr>) else (Some login_failure, s))"

definition check_account ::
    "hashes \<Rightarrow> gostr \<Rightarrow> slice \<Rightarrow> u32 \<Rightarrow> byte list \<Rightarrow> byte list \<Rightarrow> string \<Rightarrow> string \<Rightarrow> byte list \<Rightarrow> ntlm_server
     \<Rightarrow> (error option \<times> ntlm_server) option" where
  "check_account H go amsg flags nt domain user password encrypted s =
     (if length nt < 44 then Some (Some (ErrorString ''invalid challenge response''), s)
      else do {
        let key = response_key H go user password domain;
        sch \<leftarrow> sl_range 24 32 (Slice (s_cmsg s) []);
        expected \<leftarrow> expected_response H key (vis sch) nt;
        (if nt \<noteq> expected then Some (refused flags s)
         else do {
           ek \<leftarrow> exported_key flags (hmac_md5 H key (take 16 nt)) encrypted;
           (case ek of
              Inl e \<Rightarrow> Some (Some e, s)
            | Inr ek \<Rightarrow> do {
                ok \<leftarrow> mic_ok H flags ek (drop 44 nt) amsg s;
                (if \<not> ok then Some (refused flags s)
                 else do {
                   r \<leftarrow> session_keys H flags ek ((guestSession flags)\<lparr>ns_user := user, exportedSessionKey := ek\<rparr>);
                   Some (case r of Inl e \<Rightarrow> (Some e, s) | Inr ses \<Rightarrow> (None, s\<lparr>s_session := Some ses\<rparr>)) }) }) }) })"

definition ntlm_Authenticate ::
    "hashes \<Rightarrow> gostr \<Rightarrow> slice \<Rightarrow> ntlm_server \<Rightarrow> (error option \<times> ntlm_server) option" where
  "ntlm_Authenticate H go amsg s = do {
     r \<leftarrow> read_authenticate amsg;
     (case r of
        Inl e \<Rightarrow> Some (Some e, s)
      | Inr (flags, nt, domain, userName, encrypted) \<Rightarrow>
          if userName = [] \<and> nt = []
          then Some (if allowGuest s then (None, s\<lparr>s_session := Some (guestSession flags)\<rparr>)
                     else (Some (ErrorString ''credential is empty''), s))
          else let user = DecodeToString userName in
            case accounts s user of
              None \<Rightarrow> Some (if allowGuest s then (None, s\<lparr>s_session := Some (guestSession flags)\<rparr>)
                            else (Some (ErrorString (''no such user '' @ user)), s))
            | Some password \<Rightarrow> check_account H go amsg flags nt domain user password encrypted s) }"

subsection \<open>The client\<close>

record ntlm_client =
  c_User :: string
  c_Password :: string
  c_Hash :: "byte list option"
  c_Domain :: string
  c_Workstation :: string
  c_TargetSPN :: string
  c_nmsg :: "byte list"
  cl_session :: "ntlm_session option"

definition Negotiate :: "ntlm_client \<Rightarrow> (byte list \<times> ntlm_client) option" where
  "Negotiate cl = do {
     nmsg \<leftarrow> puts [(0, nt_signature), (8, le_enc 4 (1 :: u32)), (12, le_enc 4 defaultFlags), (32, nt_version)] (zeros 40);
     Some (nmsg, cl\<lparr>c_nmsg := nmsg\<rparr>) }"

text \<open>Flags, target name, and the target information with its offset.\<close>

definition read_challenge :: "byte list \<Rightarrow> byte list \<Rightarrow> (error + u32 \<times> byte list \<times> nat \<times> byte list) option" where
  "read_challenge nmsg cmsg =
     (let m = Slice cmsg [] in
      if length cmsg < 48 then Some (Inl (ErrorString ''message length is too short''))
      else if rd 0 8 cmsg \<noteq> nt_signature then Some (Inl (ErrorString ''invalid signature''))
      else if (le_dec (rd 8 4 cmsg) :: u32) \<noteq> 2 then Some (Inl (ErrorString ''invalid message type''))
      else do {
        mine \<leftarrow> u32_in 12 16 (Slice nmsg []);
        theirs \<leftarrow> u32_in 20 24 m;
        let flags = mine AND theirs;
        (if flags AND NTLMSSP_REQUEST_TARGET = 0 then Some (Inl (ErrorString ''invalid negotiate flags''))
         else and_then (message_field 12 ''invalid target name format'' m) (\<lambda>target.
           if flags AND NTLMSSP_NEGOTIATE_TARGET_INFO = 0 then Some (Inl (ErrorString ''invalid negotiate flags''))
           else and_then (message_field 40 ''invalid target info format'' m) (\<lambda>info. do {
             off \<leftarrow> u32_in 44 48 m;
             Some (Inr (flags, vis target, unat off, vis info)) }))) })"

text \<open>
  A flags pair of the server is changed where it stands: in the challenge, which the integrity code is
  computed over afterwards.
\<close>

definition mark_flags :: "nat \<Rightarrow> (u16 \<times> nat \<times> nat) list \<Rightarrow> byte list \<Rightarrow> byte list option" where
  "mark_flags base ps cmsg =
     (case av_lookup ps MsvAvFlags of
        None \<Rightarrow> Some cmsg
      | Some (o1, n) \<Rightarrow> do {
          v \<leftarrow> le_Uint32 (Slice (rd (base + o1) n cmsg) []);
          put32 (base + o1) (v OR 2) cmsg })"

text \<open>Bytes, and a field for them, unless they are \<^verbatim>\<open>nil\<close>; the offset moves on.\<close>

fun client_fields :: "(nat \<times> byte list option) list \<Rightarrow> nat \<Rightarrow> fields \<times> nat" where
  "client_fields [] off = ([], off)"
| "client_fields ((pos, None) # xs) off = client_fields xs off"
| "client_fields ((pos, Some bs) # xs) off =
     (let (fs, stop) = client_fields xs (off + length bs) in ((off, bs) # field_at_off pos (length bs) off @ fs, stop))"

definition bytes_opt :: "string \<Rightarrow> byte list option" where
  "bytes_opt t = (if t = [] then None else Some (EncodeStringToBytes t))"

definition client_key :: "hashes \<Rightarrow> gostr \<Rightarrow> ntlm_client \<Rightarrow> byte list \<Rightarrow> byte list" where
  "client_key H go cl domain =
     (let user = EncodeStringToBytes (ToUpper go (c_User cl)) in
      case c_Hash cl of Some h \<Rightarrow> ntowfv2Hash H user h domain
      | None \<Rightarrow> ntowfv2 H user (EncodeStringToBytes (c_Password cl)) domain)"

text \<open>What a client draws: a challenge of eight bytes, a session key of sixteen, and the time.\<close>

record client_random =
  cr_challenge :: "byte list"
  cr_key :: "byte list"
  cr_time :: u64

text \<open>The response with the target information of the challenge, marked and extended.\<close>

definition client_response ::
    "hashes \<Rightarrow> byte list \<Rightarrow> client_random \<Rightarrow> byte list \<Rightarrow> byte list \<Rightarrow> byte list \<Rightarrow> (u16 \<times> nat \<times> nat) list \<Rightarrow> byte list \<Rightarrow> nat
     \<Rightarrow> byte list option" where
  "client_response H key r sch info marked ps spn n = do {
     let ts = (case av_value info ps MsvAvTimestamp of Some t \<Rightarrow> t | None \<Rightarrow> le_enc 8 (cr_time r));
     encodeNtlmv2Response H key sch (cr_challenge r) ts
       (puts [(44, take (length info - 4) marked), (44 + (length info - 4), info_tail (av_lookup ps MsvAvFlags \<noteq> None) spn)])
       (zeros n) }"

definition client_message ::
    "hashes \<Rightarrow> gostr \<Rightarrow> client_random \<Rightarrow> byte list \<Rightarrow> u32 \<Rightarrow> byte list \<Rightarrow> nat \<Rightarrow> byte list \<Rightarrow> (u16 \<times> nat \<times> nat) list \<Rightarrow> ntlm_client
     \<Rightarrow> ((error + byte list) \<times> ntlm_client) option" where
  "client_message H go r cmsg flags target toff info ps cl = do {
     let domain = (if c_Domain cl = [] then target else EncodeStringToBytes (c_Domain cl));
     let spn = EncodeStringToBytes (c_TargetSPN cl);
     let names = client_fields [(28, Some domain), (36, bytes_opt (c_User cl)), (44, bytes_opt (c_Workstation cl))] 88;
     let off = snd names;
     let n = 16 + (28 + info_size info spn ps + 4);
     amsg \<leftarrow> puts ([(0, nt_signature), (8, le_enc 4 (3 :: u32))] @ fst names) (zeros (off + 24 + n + 16));
     (if c_User cl = [] \<and> c_Password cl = [] \<and> c_Hash cl = None then Some (Inr amsg, cl)
      else do {
        let key = client_key H go cl domain;
        cmsg \<leftarrow> mark_flags toff ps cmsg;
        let marked = rd toff (length info) cmsg;
        nt \<leftarrow> client_response H key r (rd 24 8 cmsg) info marked ps spn n;
        amsg \<leftarrow> puts (field_at_off 12 24 off @ [(off + 24, nt)] @ field_at_off 20 n (off + 24)) amsg;
        let base = hmac_md5 H key (take 16 nt);
        let exch = (flags AND NTLMSSP_NEGOTIATE_KEY_EXCH \<noteq> 0);
        let ek = (if exch then cr_key r else base);
        (case rc4_NewCipher base of
           Inl e \<Rightarrow> Some (Inl e, cl)
         | Inr ciph \<Rightarrow> do {
             amsg \<leftarrow> (if exch
               then puts ((off + 24 + n, fst (rc4_xor ciph (cr_key r))) # field_at_off 52 16 (off + 24 + n)) amsg
               else Some amsg);
             amsg \<leftarrow> puts [(60, le_enc 4 flags), (64, nt_version)] amsg;
             amsg \<leftarrow> put 72 (hmac_md5 H ek (c_nmsg cl @ cmsg @ amsg)) amsg;
             ses \<leftarrow> session_keys H flags ek ((guestSession flags)\<lparr>isClientSide := True, ns_user := c_User cl,
               exportedSessionKey := ek, ns_infoMap := av_value marked ps\<rparr>);
             Some (case ses of Inl e \<Rightarrow> (Inl e, cl) | Inr ses \<Rightarrow> (Inr amsg, cl\<lparr>cl_session := Some ses\<rparr>)) }) }) }"

text \<open>
  The flags of the server's pairs are marked in the challenge itself, before anything is computed from it
  but the time stamp; a cipher is made only if keys are exchanged, but making it cannot fail, for the
  key has sixteen bytes.
\<close>

definition client_Authenticate ::
    "hashes \<Rightarrow> gostr \<Rightarrow> client_random \<Rightarrow> byte list \<Rightarrow> ntlm_client \<Rightarrow> ((error + byte list) \<times> ntlm_client) option" where
  "client_Authenticate H go r cmsg cl = do {
     x \<leftarrow> read_challenge (c_nmsg cl) cmsg;
     (case x of
        Inl e \<Rightarrow> Some (Inl e, cl)
      | Inr (flags, target, off, info) \<Rightarrow>
          (case parseAvPairs info of
             None \<Rightarrow> Some (Inl (ErrorString ''invalid target info format''), cl)
           | Some ps \<Rightarrow> client_message H go r cmsg flags target off info ps cl)) }"

subsection \<open>The authenticator of the server (authenticator.go)\<close>

record ntlm_config =
  UserPassword :: "(string \<times> string) list"
  TargetSPN :: string
  cfg_NbDomain :: string
  cfg_NbName :: string
  cfg_DnsName :: string
  cfg_DnsDomain :: string
  cfg_AllowGuest :: bool

definition new_ntlm :: "ntlm_config \<Rightarrow> ntlm_server" where
  "new_ntlm cfg =
     (let s = ntlm_NewServer (TargetSPN cfg) (cfg_NbName cfg) (cfg_NbDomain cfg) (cfg_DnsName cfg) (cfg_DnsDomain cfg);
          s = fold (\<lambda>(u, pw). AddAccount u pw) (UserPassword cfg) s
      in if cfg_AllowGuest cfg then AllowGuest_on s else s)"

text \<open>
  The state is \<^verbatim>\<open>i.ntlm\<close>: \<^verbatim>\<open>nil\<close> before the first challenge.  Its methods on a \<^verbatim>\<open>nil\<close> server or session panic.
\<close>

definition NTLMAuthenticator ::
    "hashes \<Rightarrow> gostr \<Rightarrow> u64 \<Rightarrow> (error + byte list) \<Rightarrow> ntlm_config \<Rightarrow> ntlm_server option Authenticator" where
  "NTLMAuthenticator H go now rnd cfg = \<lparr>
     a_oid = NlmpOid,
     a_challenge = (\<lambda>i sc. map_option (\<lambda>(r, s). (r, Some s)) (ntlm_Challenge now rnd (Slice sc []) (new_ntlm cfg))),
     a_authenticate = (\<lambda>i sc. do {
       s \<leftarrow> i;
       (e, s) \<leftarrow> ntlm_Authenticate H go (Slice sc []) s;
       (case e of
          Some e \<Rightarrow> Some (Inl e, Some s)
        | None \<Rightarrow> do { ses \<leftarrow> s_session s; Some (Inr (ns_user ses), Some s) }) }),
     a_sessionKey = (\<lambda>i. do { s \<leftarrow> i; ses \<leftarrow> s_session s; Some (exportedSessionKey ses) }),
     a_infoMap = (\<lambda>i. do { s \<leftarrow> i; ses \<leftarrow> s_session s; Some (InfoMap_of ses) })\<rparr>"

end
