(* ===== verification/NtlmProps.thy ===== *)
theory NtlmProps
  imports NtlmAuth
begin

section \<open>What NTLM authentication guarantees\<close>

text \<open>
  A login needs the password; the client of the same package, with the right password, is let in with the
  keys of the server; signatures check; and where hostile messages break the server.
\<close>

subsection \<open>Responses\<close>

lemma length_hmac: "hashes_ok H \<Longrightarrow> length (hmac_md5 H key m) = 16"
  by (simp add: hmac_md5_def hashes_ok_def Let_def)

text \<open>The part of a response that its proof covers.\<close>

definition response_blob :: "byte list \<Rightarrow> byte list \<Rightarrow> byte list \<Rightarrow> byte list" where
  "response_blob ts cc info = [1, 1] @ zeros 6 @ ts @ cc @ zeros 4 @ info"

lemma drop_wr_0: "length xs \<le> length b \<Longrightarrow> wr 0 xs b = xs @ drop (length xs) b"
  by (simp add: wr_def)

lemma put_mid: "length xs = off \<Longrightarrow> length ys = length bs \<Longrightarrow> put off bs (xs @ ys @ zs) = Some (xs @ bs @ zs)"
  by (simp add: put_def wr_def)

lemma response_start:
  assumes "length ts = 8" "length cc = 8"
  shows "puts [(16, [1]), (17, [1]), (24, ts), (32, cc)] (zeros (44 + n)) = Some (zeros 16 @ response_blob ts cc (zeros n))"
proof -
  have "zeros (44 + n) = zeros 16 @ [0] @ [0] @ zeros 6 @ zeros 8 @ zeros 8 @ zeros 4 @ zeros n"
    by (simp add: zeros_def flip: replicate_add replicate_Suc)
  moreover have "put 16 [1] (zeros 16 @ [0] @ zs) = Some (zeros 16 @ [1] @ zs)" for zs
    by (rule put_mid) simp_all
  moreover have "put 17 [1] (zeros 16 @ [1] @ [0] @ zs) = Some (zeros 16 @ [1] @ [1] @ zs)" for zs
    using put_mid[of "zeros 16 @ [1]" 17 "[0]" "[1]" zs] by simp
  moreover have "put 24 ts (zeros 16 @ [1] @ [1] @ zeros 6 @ zeros 8 @ zs) = Some (zeros 16 @ [1] @ [1] @ zeros 6 @ ts @ zs)" for zs
    using put_mid[of "zeros 16 @ [1] @ [1] @ zeros 6" 24 "zeros 8" ts zs] assms by simp
  moreover have "put 32 cc (zeros 16 @ [1] @ [1] @ zeros 6 @ ts @ zeros 8 @ zs) = Some (zeros 16 @ [1] @ [1] @ zeros 6 @ ts @ cc @ zs)" for zs
    using put_mid[of "zeros 16 @ [1] @ [1] @ zeros 6 @ ts" 32 "zeros 8" cc zs] assms by simp
  ultimately show ?thesis by (simp only: puts.simps response_blob_def append.simps Option.bind.simps)
qed

lemma encode_response:
  assumes H: "hashes_ok H" and "length ts = 8" "length cc = 8"
    and "put_info (zeros 16 @ response_blob ts cc (zeros n)) = Some (zeros 16 @ response_blob ts cc info)"
  shows "encodeNtlmv2Response H key sch cc ts put_info (zeros (44 + n))
    = Some (hmac_md5 H key (sch @ response_blob ts cc info) @ response_blob ts cc info)"
proof -
  have "put 0 (hmac_md5 H key (sch @ drop 16 (zeros 16 @ response_blob ts cc info))) (zeros 16 @ response_blob ts cc info)
      = Some (hmac_md5 H key (sch @ response_blob ts cc info) @ response_blob ts cc info)"
    using put_mid[of "[]" 0 "zeros 16"] length_hmac[OF H] by simp
  then show ?thesis
    using assms(2-4) by (simp only: encodeNtlmv2Response_def response_start take_all_iff order_refl take_all Option.bind.simps)
qed

lemma expected_response_eq:
  assumes H: "hashes_ok H" and "44 \<le> length nt"
  shows "expected_response H key sch nt
    = Some (let blob = response_blob (rd 24 8 nt) (rd 32 8 nt) (drop 44 nt) in hmac_md5 H key (sch @ blob) @ blob)"
proof -
  have l: "length nt = 44 + (length nt - 44)" using assms(2) by simp
  have a: "rd 8 8 (drop 16 nt) = rd 24 8 nt" "rd 16 8 (drop 16 nt) = rd 32 8 nt" "drop 28 (drop 16 nt) = drop 44 nt"
    by (simp_all add: rd_def)
  have len: "length (rd 24 8 nt) = 8" "length (rd 32 8 nt) = 8" "length (zeros 16 @ response_blob (rd 24 8 nt) (rd 32 8 nt) xs) = 44 + length xs" for xs
    using assms(2) by (simp_all add: rd_def response_blob_def)
  have "take 44 (zeros 16 @ response_blob (rd 24 8 nt) (rd 32 8 nt) xs) @ ys = zeros 16 @ response_blob (rd 24 8 nt) (rd 32 8 nt) ys" for xs ys
    using len by (simp add: response_blob_def)
  then have "copy_at 44 (drop 44 nt) (zeros 16 @ response_blob (rd 24 8 nt) (rd 32 8 nt) (zeros (length nt - 44)))
      = Some (zeros 16 @ response_blob (rd 24 8 nt) (rd 32 8 nt) (drop 44 nt))"
    using len by (simp add: copy_at_def wr_def)
  from encode_response[where put_info = "copy_at 44 (drop 44 nt)", OF H len(1,2) this, of key sch] show ?thesis
    unfolding expected_response_def Let_def a by (simp only: l[symmetric])
qed

text \<open>A response that is accepted has a proof of the key over the server's challenge and the rest of it.\<close>

lemma response_blob_iff:
  assumes "length xs = 8" "length zs = 4"
  shows "xs @ ts @ cc @ zs @ info = response_blob ts cc info \<longleftrightarrow> xs = [1, 1] @ zeros 6 \<and> zs = zeros 4"
proof -
  have "xs @ ys = ([1, 1] @ zeros 6) @ ys' \<longleftrightarrow> xs = [1, 1] @ zeros 6 \<and> ys = ys'" for ys ys'
    using assms(1) by (subst append_eq_append_conv) auto
  then show ?thesis using assms(2) by (simp add: response_blob_def)
qed

lemma accepted_response:
  assumes "hashes_ok H" "44 \<le> length nt"
  shows "Some nt = expected_response H key sch nt \<longleftrightarrow>
    take 16 nt = hmac_md5 H key (sch @ drop 16 nt) \<and> rd 16 8 nt = [1, 1] @ zeros 6 \<and> rd 40 4 nt = zeros 4"
proof -
  let ?blob = "response_blob (rd 24 8 nt) (rd 32 8 nt) (drop 44 nt)"
  have parts: "drop 16 nt = rd 16 8 nt @ rd 24 8 nt @ rd 32 8 nt @ rd 40 4 nt @ drop 44 nt"
    using append_take_drop_id[of 8 "drop 16 nt"] append_take_drop_id[of 8 "drop 24 nt"] append_take_drop_id[of 8 "drop 32 nt"]
      append_take_drop_id[of 4 "drop 40 nt"] by (simp add: rd_def)
  have "drop 16 nt = ?blob \<longleftrightarrow> rd 16 8 nt = [1, 1] @ zeros 6 \<and> rd 40 4 nt = zeros 4"
    unfolding parts using assms(2) by (subst response_blob_iff) (simp_all add: rd_def)
  moreover have "nt = hmac_md5 H key m @ bs \<longleftrightarrow> take 16 nt = hmac_md5 H key m \<and> drop 16 nt = bs" for m bs
    using length_hmac[OF assms(1), of key m] by (metis append_eq_conv_conj append_take_drop_id)
  ultimately show ?thesis
    unfolding expected_response_eq[OF assms] by (auto simp: Let_def)
qed

subsection \<open>Messages\<close>

lemma message_field_panics_iff:
  assumes "pos + 8 \<le> len m"
  defines "n \<equiv> le_dec (rd pos 2 (vis m)) :: u16" and "mx \<equiv> le_dec (rd (pos + 2) 2 (vis m)) :: u16"
    and "off \<equiv> le_dec (rd (pos + 4) 4 (vis m)) :: u32"
  shows "message_field pos msg m = None \<longleftrightarrow> n \<le> mx \<and> unat (off + ucast n) \<le> len m \<and> off + ucast n < off"
proof -
  have r: "u16_in pos (pos + 2) m = Some n" "u16_in (pos + 2) (pos + 4) m = Some mx" "u32_in (pos + 4) (pos + 8) m = Some off"
    using assms(1) by (simp_all add: u16_in_in u32_in_in n_def mx_def off_def rd_def)
  have "sl_range (unat off) (unat (off + ucast n)) m = None \<longleftrightarrow> unat (off + ucast n) < unat off"
    if "unat (off + ucast n) \<le> len m"
  proof (cases "unat (off + ucast n) < unat off")
    case False
    with that show ?thesis by (simp add: sl_range_in)
  qed (simp add: sl_range_None)
  then show ?thesis
    unfolding message_field_def r by (auto simp: word_less_nat_alt word_le_nat_alt Let_def)
qed

subsection \<open>Target information\<close>

definition pair_bytes :: "u16 \<times> byte list \<Rightarrow> byte list" where
  "pair_bytes kv = le_enc 2 (fst kv) @ le_enc 2 (of_nat (length (snd kv)) :: u16) @ snd kv"

definition info_bytes :: "TargetInfo \<Rightarrow> byte list" where
  "info_bytes ti = concat (map pair_bytes ti)"

lemma info_bytes_simps [simp]: "info_bytes [] = []" "info_bytes (kv # ti) = pair_bytes kv @ info_bytes ti"
    "info_bytes (ti @ ti') = info_bytes ti @ info_bytes ti'"
  by (simp_all add: info_bytes_def)

lemma length_pair_bytes [simp]: "length (pair_bytes kv) = 4 + length (snd kv)"
  by (simp add: pair_bytes_def)

lemma length_info_bytes: "length (info_bytes ti) = TargetInfo_Size ti"
  by (induction ti) (auto simp: TargetInfo_Size_def)

lemma TargetInfo_Encode_bytes:
  "off + TargetInfo_Size ti \<le> length b \<Longrightarrow> TargetInfo_Encode off ti b = Some (wr off (info_bytes ti) b)"
proof (induction off ti b rule: TargetInfo_Encode.induct)
  case (2 off k v ps b)
  let ?b1 = "wr off (le_enc 2 k) b" and ?n = "le_enc 2 (of_nat (length v) :: u16)"
  let ?b2 = "wr (off + 2) ?n ?b1"
  have l: "off + 4 + length v + TargetInfo_Size ps \<le> length b" using "2.prems" by (simp add: TargetInfo_Size_def)
  have ps: "length (info_bytes ps) = TargetInfo_Size ps" by (rule length_info_bytes)
  have b1: "put16 off k b = Some ?b1" "length ?b1 = length b" using l by (simp_all add: put_in length_wr)
  have b2: "put16 (off + 2) (of_nat (length v)) ?b1 = Some ?b2" "length ?b2 = length b" using l b1(2) by (simp_all add: put_in length_wr)
  have b3: "copy_at (off + 4) v ?b2 = Some (wr (off + 4) v ?b2)" "length (wr (off + 4) v ?b2) = length b"
    using l b2(2) by (simp_all add: copy_at_in length_wr)
  have joined: "wr (off + 4) v ?b2 = wr off (pair_bytes (k, v)) b"
    using wr_adjacent[of off "le_enc 2 k" ?n b] wr_adjacent[of off "le_enc 2 k @ ?n" v b] l by (simp add: pair_bytes_def)
  have "TargetInfo_Encode (off + 4 + min (length v) (length (wr (off + 4) v ?b2) - (off + 4))) ps (wr (off + 4) v ?b2)
      = Some (wr (off + 4 + length v) (info_bytes ps) (wr (off + 4) v ?b2))"
  proof -
    have m: "min (length v) (length b - (off + 4)) = length v" using l by linarith
    have "off + 4 + length v + TargetInfo_Size ps \<le> length (wr (off + 4) v ?b2)" using l b3(2) by linarith
    with "2.IH"[OF b1(1) b2(1) b3(1)] show ?thesis by (simp only: b3(2) m)
  qed
  also have "\<dots> = Some (wr off (info_bytes ((k, v) # ps)) b)"
    unfolding joined using wr_adjacent[of off "pair_bytes (k, v)" "info_bytes ps" b] l by (simp add: length_info_bytes add.assoc)
  finally show ?case by (simp only: TargetInfo_Encode.simps b1(1) b2(1) b3(1) Option.bind.simps)
qed (simp add: wr_def)

fun pair_offsets :: "nat \<Rightarrow> TargetInfo \<Rightarrow> (u16 \<times> nat \<times> nat) list" where
  "pair_offsets off [] = []"
| "pair_offsets off ((k, v) # ti) = (k, off + 4, length v) # pair_offsets (off + 4 + length v) ti"

lemma le_enc_2_cases: obtains a1 a2 where "le_enc 2 (k :: u16) = [a1, a2]" "le_dec [a1, a2] = k"
proof -
  obtain a1 a2 where "le_enc 2 k = [a1, a2]" by (auto simp: numeral_2_eq_2)
  with le_dec_enc_full[of 2 k] that show thesis by simp
qed

lemma av_pairs_bytes:
  assumes "list_all (\<lambda>(k, v). length v < 65536) ti"
  shows "av_pairs off (info_bytes ti @ rest) = map_option (append (pair_offsets off ti)) (av_pairs (off + TargetInfo_Size ti) rest)"
  using assms
proof (induction ti arbitrary: off)
  case Nil
  show ?case by (cases "av_pairs off rest") (auto simp: TargetInfo_Size_def)
next
  case (Cons kv ti)
  obtain k v where kv: "kv = (k, v)" by fastforce
  obtain a1 a2 where a: "le_enc 2 k = [a1, a2]" "le_dec [a1, a2] = k" by (rule le_enc_2_cases)
  obtain n1 n2 where n: "le_enc 2 (of_nat (length v) :: u16) = [n1, n2]" "le_dec [n1, n2] = (of_nat (length v) :: u16)"
    by (rule le_enc_2_cases)
  have un: "unat (of_nat (length v) :: u16) = length v" using Cons.prems kv by (simp add: unat_of_nat)
  have rest: "av_pairs (off + 4 + length v) (info_bytes ti @ rest)
      = map_option (append (pair_offsets (off + 4 + length v) ti)) (av_pairs (off + 4 + length v + TargetInfo_Size ti) rest)"
    using Cons by simp
  have s: "TargetInfo_Size (kv # ti) = 4 + length v + TargetInfo_Size ti" by (simp add: kv TargetInfo_Size_def)
  show ?case
    using rest by (cases "av_pairs (off + 4 + length v + TargetInfo_Size ti) rest") (simp_all add: kv pair_bytes_def a n un s[unfolded kv] Let_def add.assoc del: le_dec.simps)
qed

subsection \<open>The challenge\<close>

definition challenge_named :: "u32 \<Rightarrow> byte list \<Rightarrow> bool" where
  "challenge_named flags target \<longleftrightarrow> target \<noteq> [] \<and> flags AND NTLMSSP_REQUEST_TARGET \<noteq> 0"

definition info_offset :: "u32 \<Rightarrow> byte list \<Rightarrow> nat" where
  "info_offset flags target = (if challenge_named flags target then 56 + length target else 56)"

definition target_fields :: "u32 \<Rightarrow> nat \<Rightarrow> byte list \<Rightarrow> fields" where
  "target_fields flags sz target =
     (if challenge_named flags target then (56 + sz, target) # field_at_off 12 (length target) (56 + sz) else [])"

definition challenge_fields :: "u32 \<Rightarrow> TargetInfo \<Rightarrow> byte list \<Rightarrow> byte list \<Rightarrow> fields" where
  "challenge_fields flags ti target rnd =
     [(0, nt_signature), (8, le_enc 4 (2 :: u32)), (20, le_enc 4 flags)] @ target_fields flags (TargetInfo_Size ti) target
     @ [(info_offset flags target, info_bytes ti)] @ field_at_off 40 (TargetInfo_Size ti) (info_offset flags target)
     @ [(24, rnd), (48, nt_version)]"

definition challenge_length :: "TargetInfo \<Rightarrow> byte list \<Rightarrow> nat" where
  "challenge_length ti target = 60 + TargetInfo_Size ti + length target"

lemma length_nt [simp]: "length nt_signature = 8" "length nt_version = 8"
  by (simp_all add: nt_signature_def nt_version_def ascii_def)

lemma fits_challenge:
  "length rnd = 8 \<Longrightarrow> fits (challenge_length ti target) (challenge_fields flags ti target rnd)"
  by (simp add: challenge_length_def challenge_fields_def target_fields_def field_at_off_def info_offset_def length_info_bytes)

lemma challenge_message_eq:
  assumes "length rnd = 8" "flags AND NTLMSSP_NEGOTIATE_VERSION \<noteq> 0"
  shows "challenge_message flags ti target (Inr rnd)
    = Some (Inr (wrs (challenge_fields flags ti target rnd) (zeros (challenge_length ti target))))"
proof -
  let ?T = "TargetInfo_Size ti" and ?z = "zeros (challenge_length ti target)"
  let ?f1 = "[(0, nt_signature), (8, le_enc 4 (2 :: u32)), (20, le_enc 4 flags)]"
  let ?f2 = "target_fields flags ?T target"
  let ?f3 = "field_at_off 40 ?T (info_offset flags target)"
  note [simp] = challenge_length_def length_wrs
  have l1: "length (wrs ?f1 ?z) = length ?z" by (rule length_wrs) simp
  have f2: "fits (challenge_length ti target) ?f2" by (simp add: target_fields_def field_at_off_def)
  have l2: "length (wrs ?f2 (wrs ?f1 ?z)) = length ?z" using f2 l1 by (simp add: length_wrs)
  let ?b3 = "wr (info_offset flags target) (info_bytes ti) (wrs ?f2 (wrs ?f1 ?z))"
  have room: "info_offset flags target + ?T \<le> length ?z" by (simp add: info_offset_def)
  have l3: "length ?b3 = length ?z" using l2 room by (simp add: length_wr length_info_bytes)
  have l4: "length (wrs ?f3 ?b3) = length ?z" 
  proof -
    have "fits (length ?b3) ?f3" unfolding l3 by (simp add: field_at_off_def)
    from length_wrs[OF this] l3 show ?thesis by (simp only:)
  qed
  have l5: "length (wr 24 rnd (wrs ?f3 ?b3)) = length ?z" using l4 assms(1) by (simp add: length_wr)
  have "puts ?f1 ?z = Some (wrs ?f1 ?z)" by (rule puts_wrs) simp
  moreover have "(if challenge_named flags target then puts ((56 + ?T, target) # field_at_off 12 (length target) (56 + ?T)) (wrs ?f1 ?z)
      else Some (wrs ?f1 ?z)) = Some (wrs ?f2 (wrs ?f1 ?z))"
  proof -
    have "puts ?f2 (wrs ?f1 ?z) = Some (wrs ?f2 (wrs ?f1 ?z))"
      by (rule puts_wrs, unfold l1) (use f2 in simp)
    then show ?thesis
      by (cases "challenge_named flags target") (simp_all only: target_fields_def if_True if_False wrs.simps(1))
  qed
  moreover have "TargetInfo_Encode (info_offset flags target) ti (wrs ?f2 (wrs ?f1 ?z)) = Some ?b3"
    using l2 room by (intro TargetInfo_Encode_bytes) simp
  moreover have "puts ?f3 ?b3 = Some (wrs ?f3 ?b3)"
    by (rule puts_wrs, unfold l3) (simp add: field_at_off_def)
  moreover have "put 24 rnd (wrs ?f3 ?b3) = Some (wr 24 rnd (wrs ?f3 ?b3))"
    "put 48 nt_version (wr 24 rnd (wrs ?f3 ?b3)) = Some (wr 48 nt_version (wr 24 rnd (wrs ?f3 ?b3)))"
    using l4 l5 assms(1) by (simp_all add: put_in)
  moreover have "wrs (challenge_fields flags ti target rnd) ?z = wr 48 nt_version (wr 24 rnd (wrs ?f3 ?b3))"
    by (simp add: challenge_fields_def wrs_append)
  moreover have "(if challenge_named flags target then 56 + ?T + length target else 56 + ?T) - ?T = info_offset flags target"
    by (simp add: info_offset_def)
  moreover have "48 + ?T + 8 = 56 + ?T" "56 + ?T + length target + 4 = challenge_length ti target" by simp_all
  ultimately show ?thesis
    unfolding challenge_message_def Let_def challenge_named_def[symmetric] using assms(2)
    by (simp only: if_True not_False_eq_True simp_thms Option.bind.simps sum.case if_False)
qed

lemma message_field_reads:
  assumes "pos + 8 \<le> len m" "rd pos 2 (vis m) = le_enc 2 (of_nat n :: u16)" "rd (pos + 2) 2 (vis m) = le_enc 2 (of_nat n :: u16)"
    "rd (pos + 4) 4 (vis m) = le_enc 4 (of_nat off :: u32)" "n < 65536" "off + n < 2 ^ 32" "off + n \<le> len m"
  shows "message_field pos msg m = Some (Inr (Slice (rd off n (vis m)) (drop (off + n) (vis m) @ ext m)))"
proof -
  have r: "u16_in pos (pos + 2) m = Some (of_nat n)" "u16_in (pos + 2) (pos + 4) m = Some (of_nat n)"
    "u32_in (pos + 4) (pos + 8) m = Some (of_nat off)"
    using assms(1-4) by (simp_all add: u16_in_in u32_in_in rd_vis del: le_dec.simps)
  have "ucast (of_nat n :: u16) = (of_nat n :: u32)"
    using assms(5) by (simp add: ucast16_32 unat_of_nat word_unat_eq_iff)
  then have "unat (of_nat off + ucast (of_nat n :: u16) :: u32) = off + n" "unat (of_nat off :: u32) = off"
    using assms(6) by (simp_all add: unat_of_nat flip: of_nat_add)
  with assms(7) show ?thesis
    unfolding message_field_def r by (simp add: sl_range_in rd_def del: le_dec.simps)
qed

definition default_nmsg :: "byte list" where
  "default_nmsg = wrs [(0, nt_signature), (8, le_enc 4 (1 :: u32)), (12, le_enc 4 defaultFlags), (32, nt_version)] (zeros 40)"

lemma Negotiate_eq: "Negotiate cl = Some (default_nmsg, cl\<lparr>c_nmsg := default_nmsg\<rparr>)"
  by (simp add: Negotiate_def default_nmsg_def put_def length_wr)

lemma default_nmsg_reads:
  "length default_nmsg = 40" "rd 0 8 default_nmsg = nt_signature" "rd 8 4 default_nmsg = le_enc 4 (1 :: u32)"
  "rd 12 4 default_nmsg = le_enc 4 defaultFlags"
  by (simp_all add: default_nmsg_def length_wr rd_wr_same rd_wr_before rd_wr_after)

lemma challenge_reads:
  fixes ti flags target rnd
  defines "m \<equiv> wrs (challenge_fields flags ti target rnd) (zeros (challenge_length ti target))"
  assumes "length rnd = 8"
  shows "length m = challenge_length ti target" "rd 0 8 m = nt_signature" "rd 8 4 m = le_enc 4 (2 :: u32)"
    "rd 20 4 m = le_enc 4 flags" "rd 24 8 m = rnd" "rd 40 2 m = le_enc 2 (of_nat (TargetInfo_Size ti) :: u16)"
    "rd 42 2 m = le_enc 2 (of_nat (TargetInfo_Size ti) :: u16)" "rd 44 4 m = le_enc 4 (of_nat (info_offset flags target) :: u32)"
    "0 < TargetInfo_Size ti \<Longrightarrow> rd (info_offset flags target) (TargetInfo_Size ti) m = info_bytes ti"
    "challenge_named flags target \<Longrightarrow> rd 12 2 m = le_enc 2 (of_nat (length target) :: u16) \<and>
       rd 14 2 m = le_enc 2 (of_nat (length target) :: u16) \<and> rd 16 4 m = le_enc 4 (of_nat (56 + TargetInfo_Size ti) :: u32)"
    "\<not> challenge_named flags target \<Longrightarrow> rd 12 2 m = zeros 2 \<and> rd 14 2 m = zeros 2 \<and> rd 16 4 m = zeros 4"
proof -
  have f: "fits (length (zeros (challenge_length ti target))) (challenge_fields flags ti target rnd)"
    using fits_challenge[OF assms(2)] by simp
  note defs = challenge_fields_def target_fields_def field_at_off_def info_offset_def length_info_bytes
  note at = rd_wrs[OF f]
  show "length m = challenge_length ti target" unfolding m_def using length_wrs[OF f] by simp
  show "rd 0 8 m = nt_signature" "rd 8 4 m = le_enc 4 (2 :: u32)" "rd 20 4 m = le_enc 4 flags" "rd 24 8 m = rnd"
    "rd 40 2 m = le_enc 2 (of_nat (TargetInfo_Size ti) :: u16)" "rd 42 2 m = le_enc 2 (of_nat (TargetInfo_Size ti) :: u16)"
    "rd 44 4 m = le_enc 4 (of_nat (info_offset flags target) :: u32)"
    unfolding m_def using assms(2) by - (rule at; simp add: defs)+
  show "rd (info_offset flags target) (TargetInfo_Size ti) m = info_bytes ti" if "0 < TargetInfo_Size ti"
    unfolding m_def using assms(2) that by - (rule at, simp add: defs)
  show "rd 12 2 m = le_enc 2 (of_nat (length target) :: u16) \<and>
       rd 14 2 m = le_enc 2 (of_nat (length target) :: u16) \<and> rd 16 4 m = le_enc 4 (of_nat (56 + TargetInfo_Size ti) :: u32)"
    if "challenge_named flags target"
    unfolding m_def using assms(2) that by - (intro conjI; (rule at; simp add: defs))
  show "rd 12 2 m = zeros 2 \<and> rd 14 2 m = zeros 2 \<and> rd 16 4 m = zeros 4" if "\<not> challenge_named flags target"
    unfolding m_def using f that assms(2)
    by - (intro conjI; subst rd_wrs_apart; simp add: defs rd_zeros challenge_length_def)
qed

text \<open>What the client makes of a challenge; the target name is whatever stands where it should be.\<close>

lemma default_flags [simp]: "challenge_flags defaultFlags = defaultFlags" "defaultFlags AND NTLMSSP_NEGOTIATE_VERSION \<noteq> 0"
  "defaultFlags AND NTLMSSP_REQUEST_TARGET \<noteq> 0" "defaultFlags AND NTLMSSP_NEGOTIATE_TARGET_INFO \<noteq> 0"
  "defaultFlags AND NTLMSSP_NEGOTIATE_KEY_EXCH \<noteq> 0" "defaultFlags AND defaultFlags = defaultFlags"
  by (simp_all add: challenge_flags_def defaultFlags_def)

lemma read_challenge_ok:
  fixes ti target rnd
  defines "m \<equiv> wrs (challenge_fields defaultFlags ti target rnd) (zeros (challenge_length ti target))"
  assumes "length rnd = 8" "challenge_length ti target < 65536" "0 < TargetInfo_Size ti"
  shows "\<exists>tgt. read_challenge default_nmsg m
    = Some (Inr (defaultFlags, tgt, info_offset defaultFlags target, info_bytes ti)) \<and> length tgt \<le> length target"
proof -
  note r = challenge_reads[where ti = ti and flags = defaultFlags and target = target, OF assms(2), folded m_def]
  let ?T = "TargetInfo_Size ti" and ?off = "info_offset defaultFlags target"
  have L: "60 + ?T + length target < 65536" using assms(3) by (simp add: challenge_length_def)
  have "48 \<le> length m" by (simp add: r(1) challenge_length_def)
  have info: "message_field 40 msg (Slice m []) = Some (Inr (Slice (info_bytes ti) (drop (?off + ?T) m)))" for msg
    using message_field_reads[of 40 "Slice m []" ?T ?off] r(1,6-9) L assms(4) by (simp add: info_offset_def challenge_length_def)
  have "\<exists>t. message_field 12 msg (Slice m []) = Some (Inr t) \<and> length (vis t) \<le> length target" for msg
  proof (cases "challenge_named defaultFlags target")
    case True
    then show ?thesis
      using message_field_reads[of 12 "Slice m []" "length target" "56 + ?T" msg] r(1,10) L
      by (simp add: challenge_length_def rd_def)
  next
    case False
    then show ?thesis
      using message_field_reads[of 12 "Slice m []" 0 0 msg] r(1,11) L
      by (simp add: challenge_length_def rd_def le_enc_0)
  qed
  then obtain t where t: "message_field 12 ''invalid target name format'' (Slice m []) = Some (Inr t)" "length (vis t) \<le> length target" by blast
  have "u32_in 12 16 (Slice default_nmsg []) = Some defaultFlags" "u32_in 20 24 (Slice m []) = Some defaultFlags"
    "u32_in 44 48 (Slice m []) = Some (of_nat ?off)"
    using r(1,4,8) default_nmsg_reads by (simp_all add: u32_in_in challenge_length_def del: le_dec.simps flip: rd_def)
  moreover have "unat (of_nat ?off :: u32) = ?off" using L by (simp add: info_offset_def unat_of_nat)
  ultimately show ?thesis
    using r(1-3) t info L
    by (simp add: read_challenge_def challenge_length_def and_then_def del: le_dec.simps)
qed

subsection \<open>The client's response\<close>

lemma pair_offsets_append: "pair_offsets off (ti @ ti') = pair_offsets off ti @ pair_offsets (off + TargetInfo_Size ti) ti'"
  by (induction off ti rule: pair_offsets.induct) (auto simp: TargetInfo_Size_def add.assoc)

lemma fst_pair_offsets: "fst ` set (pair_offsets off ti) = fst ` set ti"
  by (induction off ti rule: pair_offsets.induct) auto

lemma av_lookup_None: "k \<notin> fst ` set ti \<Longrightarrow> av_lookup (pair_offsets off ti) k = None"
  using fst_pair_offsets[of off ti] by (auto simp: av_lookup_def map_of_eq_None_iff)

lemma av_lookup_unique:
  assumes "k \<notin> fst ` set ti'"
  shows "av_lookup (pair_offsets off (ti @ (k, v) # ti')) k = Some (off + TargetInfo_Size ti + 4, length v)"
proof -
  let ?rest = "pair_offsets (off + TargetInfo_Size ti + 4 + length v) ti'"
  have "map_of (rev ?rest) k = None"
    using assms fst_pair_offsets[of "off + TargetInfo_Size ti + 4 + length v" ti'] by (auto simp: map_of_eq_None_iff)
  then show ?thesis by (simp add: av_lookup_def pair_offsets_append map_add_def)
qed

lemma av_value_unique:
  assumes "k \<notin> fst ` set ti'"
  shows "av_value (info_bytes (ti @ (k, v) # ti') @ rest) (pair_offsets 0 (ti @ (k, v) # ti')) k = Some v"
  using length_info_bytes[of ti]
  by (simp add: av_value_def av_lookup_unique[OF assms] rd_def pair_bytes_def)

lemma parse_info_bytes:
  assumes "list_all (\<lambda>(k, v). length v < 65536) ti"
  shows "parseAvPairs (info_bytes (ti @ [(0, [])])) = Some (pair_offsets 0 (ti @ [(0, [])]))"
proof -
  have e: "pair_bytes (0, []) = [0, 0, 0, 0]" by (simp add: pair_bytes_def le_enc_0 zeros_def numeral_eq_Suc)
  have "av_pairs 0 (info_bytes (ti @ [(0, [])]) @ []) = Some (pair_offsets 0 (ti @ [(0, [])]))"
    using assms by (subst av_pairs_bytes) simp_all
  then show ?thesis by (simp add: parseAvPairs_def e)
qed

text \<open>The pairs of the client: those of the server without the last, and its own.\<close>

definition client_info :: "TargetInfo \<Rightarrow> byte list \<Rightarrow> TargetInfo" where
  "client_info ti spn = ti @ [(MsvAvFlags, le_enc 4 (2 :: u32)), (MsvAvChannelBindings, zeros 16)]
     @ (if spn = [] then [] else [(MsvAvTargetName, spn)]) @ [(MsvAvEOL, [])]"

lemma info_tail_bytes: "info_bytes ti @ info_tail False spn = info_bytes (client_info ti spn)"
  by (simp add: info_tail_def client_info_def pair_bytes_def)

lemma TargetInfo_Size_simps [simp]: "TargetInfo_Size [] = 0" "TargetInfo_Size ((k, v) # ti) = 4 + length v + TargetInfo_Size ti"
  "TargetInfo_Size (ti @ ti') = TargetInfo_Size ti + TargetInfo_Size ti'"
  by (simp_all add: TargetInfo_Size_def)

lemma client_info_size: "TargetInfo_Size (client_info ti spn) = TargetInfo_Size ti + 32 + (if spn = [] then 0 else 4 + length spn)"
  by (simp add: client_info_def TargetInfo_Size_def)

lemma client_response_eq:
  assumes H: "hashes_ok H" and "length (cr_challenge r) = 8" "length t = 8"
    and ti: "ti = (MsvAvTimestamp, t) # ti'" "MsvAvTimestamp \<notin> fst ` set ti'" "MsvAvFlags \<notin> fst ` set ti'"
    and n: "n = 16 + (28 + info_size (info_bytes (ti @ [(0, [])])) spn (pair_offsets 0 (ti @ [(0, [])])) + 4)"
  shows "client_response H key r sch (info_bytes (ti @ [(0, [])])) (info_bytes (ti @ [(0, [])])) (pair_offsets 0 (ti @ [(0, [])])) spn n
    = Some (let blob = response_blob t (cr_challenge r) (info_bytes (client_info ti spn @ [(0, [])])) in hmac_md5 H key (sch @ blob) @ blob)"
proof -
  let ?info = "info_bytes (ti @ [(0, [])])" and ?ps = "pair_offsets 0 (ti @ [(0, [])])"
  let ?blob = "response_blob t (cr_challenge r)"
  have fl: "av_lookup ?ps MsvAvFlags = None" by (rule av_lookup_None) (use ti in auto)
  have ts: "av_value ?info ?ps MsvAvTimestamp = Some t"
    using av_value_unique[of MsvAvTimestamp "ti' @ [(0, [])]" "[]" t "[]"] ti(2) by (simp add: ti(1))
  have e: "pair_bytes (0, []) = zeros 4" by (simp add: pair_bytes_def le_enc_0 zeros_def numeral_eq_Suc)
  have li: "length ?info = TargetInfo_Size ti + 4" "take (length ?info - 4) ?info = info_bytes ti"
    using length_info_bytes[of ti] by simp_all
  let ?k = "TargetInfo_Size (client_info ti spn) + 4"
  have n': "n = 44 + ?k" using n fl li(1) by (simp add: info_size_def client_info_size)
  have tail: "length (info_tail False spn) = 32 + (if spn = [] then 0 else 4 + length spn)" by (simp add: info_tail_def)
  have blob0: "zeros 16 @ ?blob (zeros ?k) = (zeros 16 @ ?blob []) @ zeros (TargetInfo_Size ti) @ zeros (length (info_tail False spn)) @ zeros 4"
    by (simp add: response_blob_def client_info_size tail zeros_def flip: replicate_add)
  have l: "length (zeros 16 @ ?blob []) = 44" using assms(2,3) by (simp add: response_blob_def)
  have "put 44 (info_bytes ti) (zeros 16 @ ?blob (zeros ?k))
      = Some ((zeros 16 @ ?blob []) @ info_bytes ti @ zeros (length (info_tail False spn)) @ zeros 4)"
    unfolding blob0 using l by (intro put_mid) (simp_all add: length_info_bytes)
  moreover have "put (44 + TargetInfo_Size ti) (info_tail False spn) ((zeros 16 @ ?blob []) @ info_bytes ti @ zeros (length (info_tail False spn)) @ zeros 4)
      = Some ((zeros 16 @ ?blob []) @ info_bytes ti @ info_tail False spn @ zeros 4)"
    using put_mid[of "(zeros 16 @ ?blob []) @ info_bytes ti" "44 + TargetInfo_Size ti" "zeros (length (info_tail False spn))" "info_tail False spn" "zeros 4"] l
    by (simp add: length_info_bytes)
  ultimately have "puts [(44, info_bytes ti), (44 + TargetInfo_Size ti, info_tail False spn)] (zeros 16 @ ?blob (zeros ?k))
      = Some ((zeros 16 @ ?blob []) @ info_bytes ti @ info_tail False spn @ zeros 4)"
    by (simp only: puts.simps Option.bind.simps)
  also have "(zeros 16 @ ?blob []) @ info_bytes ti @ info_tail False spn @ zeros 4 = zeros 16 @ ?blob (info_bytes (client_info ti spn @ [(0, [])]))"
    using info_tail_bytes[of ti spn] by (simp add: response_blob_def e)
  finally have "encodeNtlmv2Response H key sch (cr_challenge r) t (puts [(44, info_bytes ti), (44 + TargetInfo_Size ti, info_tail False spn)]) (zeros (44 + ?k))
      = Some (hmac_md5 H key (sch @ ?blob (info_bytes (client_info ti spn @ [(0, [])]))) @ ?blob (info_bytes (client_info ti spn @ [(0, [])])))"
    by (rule encode_response[OF H assms(3,2)])
  moreover have "length ?info - 4 = TargetInfo_Size ti" using li(1) by simp
  ultimately show ?thesis
    unfolding client_response_def ts fl option.case Let_def n' li(2) by simp
qed

subsection \<open>The client's message\<close>

definition work_fields :: "byte list option \<Rightarrow> nat \<Rightarrow> fields" where
  "work_fields w off = (case w of None \<Rightarrow> [] | Some bs \<Rightarrow> (off, bs) # field_at_off 44 (length bs) off)"

definition work_length :: "byte list option \<Rightarrow> nat" where
  "work_length w = (case w of None \<Rightarrow> 0 | Some bs \<Rightarrow> length bs)"

lemma client_fields_eq:
  "client_fields [(28, Some dm), (36, Some us), (44, w)] 88 =
   ((88, dm) # field_at_off 28 (length dm) 88 @ (88 + length dm, us) # field_at_off 36 (length us) (88 + length dm)
      @ work_fields w (88 + length dm + length us), 88 + length dm + length us + work_length w)"
  by (cases w) (simp_all add: work_fields_def work_length_def Let_def)

definition auth_fields :: "byte list \<Rightarrow> byte list \<Rightarrow> byte list option \<Rightarrow> byte list \<Rightarrow> byte list \<Rightarrow> u32 \<Rightarrow> fields" where
  "auth_fields dm us w nt ek flags =
     (let off = 88 + length dm + length us + work_length w; n = length nt in
      [(0, nt_signature), (8, le_enc 4 (3 :: u32))]
      @ (88, dm) # field_at_off 28 (length dm) 88 @ (88 + length dm, us) # field_at_off 36 (length us) (88 + length dm)
      @ work_fields w (88 + length dm + length us)
      @ field_at_off 12 24 off @ [(off + 24, nt)] @ field_at_off 20 n (off + 24)
      @ (off + 24 + n, ek) # field_at_off 52 16 (off + 24 + n)
      @ [(60, le_enc 4 flags), (64, nt_version)])"

definition auth_length :: "byte list \<Rightarrow> byte list \<Rightarrow> byte list option \<Rightarrow> byte list \<Rightarrow> nat" where
  "auth_length dm us w nt = 88 + length dm + length us + work_length w + 24 + length nt + 16"

definition auth_bytes :: "byte list \<Rightarrow> byte list \<Rightarrow> byte list option \<Rightarrow> byte list \<Rightarrow> byte list \<Rightarrow> u32 \<Rightarrow> byte list" where
  "auth_bytes dm us w nt ek flags = wrs (auth_fields dm us w nt ek flags) (zeros (auth_length dm us w nt))"

lemma work_fields_apart:
  "(a + m \<le> 44 \<and> a + m \<le> off) \<or> (52 \<le> a \<and> (a + m \<le> off \<or> off + work_length w \<le> a)) \<Longrightarrow> apart a m (work_fields w off)"
  "off + work_length w \<le> k \<Longrightarrow> 52 \<le> k \<Longrightarrow> fits k (work_fields w off)"
proof -
  assume a: "(a + m \<le> 44 \<and> a + m \<le> off) \<or> (52 \<le> a \<and> (a + m \<le> off \<or> off + work_length w \<le> a))"
  then have "44 + 2 \<le> a \<or> a + m \<le> 44" "46 + 2 \<le> a \<or> a + m \<le> 46" "48 + 4 \<le> a \<or> a + m \<le> 48" by linarith+
  with a show "apart a m (work_fields w off)"
    by (cases w) (auto simp: work_fields_def work_length_def field_at_off_def)
next
  assume "off + work_length w \<le> k" "52 \<le> k"
  then show "fits k (work_fields w off)"
    by (cases w) (simp_all add: work_fields_def work_length_def field_at_off_def)
qed

lemma auth_reads:
  fixes dm us w nt ek flags
  defines "m \<equiv> auth_bytes dm us w nt ek flags" and "off \<equiv> 88 + length dm + length us + work_length w"
  assumes "length ek = 16" "0 < length nt" "0 < length dm" "0 < length us"
  shows "length m = auth_length dm us w nt" "rd 0 8 m = nt_signature" "rd 8 4 m = le_enc 4 (3 :: u32)"
    "rd 20 2 m = le_enc 2 (of_nat (length nt) :: u16)" "rd 22 2 m = le_enc 2 (of_nat (length nt) :: u16)"
    "rd 24 4 m = le_enc 4 (of_nat (off + 24) :: u32)" "rd (off + 24) (length nt) m = nt"
    "rd 28 2 m = le_enc 2 (of_nat (length dm) :: u16)" "rd 30 2 m = le_enc 2 (of_nat (length dm) :: u16)"
    "rd 32 4 m = le_enc 4 (88 :: u32)" "rd 88 (length dm) m = dm"
    "rd 36 2 m = le_enc 2 (of_nat (length us) :: u16)" "rd 38 2 m = le_enc 2 (of_nat (length us) :: u16)"
    "rd 40 4 m = le_enc 4 (of_nat (88 + length dm) :: u32)" "rd (88 + length dm) (length us) m = us"
    "rd 52 2 m = le_enc 2 (16 :: u16)" "rd 54 2 m = le_enc 2 (16 :: u16)"
    "rd 56 4 m = le_enc 4 (of_nat (off + 24 + length nt) :: u32)" "rd (off + 24 + length nt) 16 m = ek"
    "rd 60 4 m = le_enc 4 flags" "rd 72 16 m = zeros 16"
proof -
  have f: "fits (length (zeros (auth_length dm us w nt))) (auth_fields dm us w nt ek flags)"
    using assms(3) work_fields_apart(2)
    by (simp add: auth_fields_def auth_length_def Let_def field_at_off_def)
  note defs = auth_fields_def auth_length_def Let_def field_at_off_def off_def field_at_append work_fields_apart field_at_apart
  show "length m = auth_length dm us w nt" unfolding m_def auth_bytes_def using length_wrs[OF f] by simp
  show "rd 0 8 m = nt_signature" "rd 8 4 m = le_enc 4 (3 :: u32)"
    "rd 20 2 m = le_enc 2 (of_nat (length nt) :: u16)" "rd 22 2 m = le_enc 2 (of_nat (length nt) :: u16)"
    "rd 24 4 m = le_enc 4 (of_nat (off + 24) :: u32)" "rd (off + 24) (length nt) m = nt"
    "rd 28 2 m = le_enc 2 (of_nat (length dm) :: u16)" "rd 30 2 m = le_enc 2 (of_nat (length dm) :: u16)"
    "rd 32 4 m = le_enc 4 (88 :: u32)" "rd 88 (length dm) m = dm"
    "rd 36 2 m = le_enc 2 (of_nat (length us) :: u16)" "rd 38 2 m = le_enc 2 (of_nat (length us) :: u16)"
    "rd 40 4 m = le_enc 4 (of_nat (88 + length dm) :: u32)" "rd (88 + length dm) (length us) m = us"
    "rd 52 2 m = le_enc 2 (16 :: u16)" "rd 54 2 m = le_enc 2 (16 :: u16)"
    "rd 56 4 m = le_enc 4 (of_nat (off + 24 + length nt) :: u32)" "rd (off + 24 + length nt) 16 m = ek"
    "rd 60 4 m = le_enc 4 flags"
    unfolding m_def auth_bytes_def using assms(3-6) by - (rule rd_wrs[OF f]; simp add: defs)+
  show "rd 72 16 m = zeros 16"
    unfolding m_def auth_bytes_def using f assms(3) by (subst rd_wrs_apart) (simp_all add: defs rd_zeros)
qed

lemma length_rc4_xor [simp]: "length (fst (rc4_xor r xs)) = length xs"
  by (induction r xs rule: rc4_xor.induct) (auto split: prod.splits)

lemma rc4_xor_twice [simp]: "fst (rc4_xor r (fst (rc4_xor r xs))) = xs"
  by (induction xs arbitrary: r) (simp_all add: split_beta Let_def xor.assoc)

lemma rc4_NewCipher_16: "length key = 16 \<Longrightarrow> \<exists>r. rc4_NewCipher key = Inr r"
  by (simp add: rc4_NewCipher_def)

text \<open>With the flags that client and server agree on.\<close>

definition default_keys :: "hashes \<Rightarrow> byte list \<Rightarrow> ntlm_session \<Rightarrow> ntlm_session" where
  "default_keys H key ses = (case session_keys H defaultFlags key ses of Some (Inr s) \<Rightarrow> s | _ \<Rightarrow> ses)"

lemma session_keys_default:
  assumes "hashes_ok H"
  obtains ch sh where "\<And>ses. session_keys H defaultFlags key ses = Some (Inr (ses\<lparr>clientSigningKey := signKey H defaultFlags key True,
     serverSigningKey := signKey H defaultFlags key False, clientHandle := Some ch, serverHandle := Some sh\<rparr>))"
proof -
  have seal: "\<exists>k. sealKey H defaultFlags key b = Some k \<and> length k = 16" for b
    using assms by (simp add: sealKey_def defaultFlags_def hashes_ok_def)
  then obtain ck sk where "sealKey H defaultFlags key True = Some ck" "length ck = 16"
    "sealKey H defaultFlags key False = Some sk" "length sk = 16" by metis
  with rc4_NewCipher_16 obtain ch sh where "sealKey H defaultFlags key True = Some ck" "rc4_NewCipher ck = Inr ch"
    "sealKey H defaultFlags key False = Some sk" "rc4_NewCipher sk = Inr sh" by metis
  then show thesis using that by (simp add: session_keys_def)
qed

lemma session_keys_default_eq:
  "hashes_ok H \<Longrightarrow> session_keys H defaultFlags key ses = Some (Inr (default_keys H key ses))"
  by (rule session_keys_default[of H key]) (auto simp: default_keys_def)

lemma puts_four: "puts (as @ bs @ cs @ ds) z = Some x
    \<Longrightarrow> \<exists>b1 b2 b3. puts as z = Some b1 \<and> puts bs b1 = Some b2 \<and> puts cs b2 = Some b3 \<and> puts ds b3 = Some x"
  by (auto simp: puts_append bind_Some_iff)

lemma auth_puts:
  assumes "length ek = 16"
  shows "\<exists>b1 b2 b3. puts ([(0, nt_signature), (8, le_enc 4 (3 :: u32))]
        @ fst (client_fields [(28, Some dm), (36, Some us), (44, w)] 88)) (zeros (auth_length dm us w nt)) = Some b1
    \<and> puts (field_at_off 12 24 (88 + length dm + length us + work_length w) @ [(88 + length dm + length us + work_length w + 24, nt)]
        @ field_at_off 20 (length nt) (88 + length dm + length us + work_length w + 24)) b1 = Some b2
    \<and> puts ((88 + length dm + length us + work_length w + 24 + length nt, ek)
        # field_at_off 52 16 (88 + length dm + length us + work_length w + 24 + length nt)) b2 = Some b3
    \<and> puts [(60, le_enc 4 flags), (64, nt_version)] b3 = Some (auth_bytes dm us w nt ek flags)"
proof -
  have f: "fits (length (zeros (auth_length dm us w nt))) (auth_fields dm us w nt ek flags)"
    using assms work_fields_apart(2)
    by (simp add: auth_fields_def auth_length_def Let_def field_at_off_def)
  have "puts (auth_fields dm us w nt ek flags) (zeros (auth_length dm us w nt)) = Some (auth_bytes dm us w nt ek flags)"
    unfolding auth_bytes_def by (rule puts_wrs[OF f])
  moreover have "auth_fields dm us w nt ek flags =
      ([(0, nt_signature), (8, le_enc 4 (3 :: u32))] @ fst (client_fields [(28, Some dm), (36, Some us), (44, w)] 88))
      @ (field_at_off 12 24 (88 + length dm + length us + work_length w) @ [(88 + length dm + length us + work_length w + 24, nt)]
        @ field_at_off 20 (length nt) (88 + length dm + length us + work_length w + 24))
      @ ((88 + length dm + length us + work_length w + 24 + length nt, ek)
        # field_at_off 52 16 (88 + length dm + length us + work_length w + 24 + length nt))
      @ [(60, le_enc 4 flags), (64, nt_version)]"
    unfolding client_fields_eq auth_fields_def Let_def by simp
  ultimately show ?thesis by (intro puts_four) (simp only:)
qed

text \<open>The message, its session key encrypted, with the integrity code over what the peers have sent.\<close>

definition client_amsg :: "hashes \<Rightarrow> byte list \<Rightarrow> byte list \<Rightarrow> byte list \<Rightarrow> byte list" where
  "client_amsg H ek sent a0 = wr 72 (hmac_md5 H ek (sent @ a0)) a0"

lemma client_message_eq:
  fixes go :: gostr
  assumes H: "hashes_ok H" and r: "length (cr_challenge r) = 8" "length (cr_key r) = 16" and t: "length t = 8"
    and ti: "ti = (MsvAvTimestamp, t) # ti'" "MsvAvTimestamp \<notin> fst ` set ti'" "MsvAvFlags \<notin> fst ` set ti'"
    and info: "rd toff (length (info_bytes (ti @ [(0, [])]))) cmsg = info_bytes (ti @ [(0, [])])"
    and cl: "c_Domain cl \<noteq> []" "c_User cl \<noteq> []" "c_Hash cl = None"
  defines "dm \<equiv> EncodeStringToBytes (c_Domain cl)" and "us \<equiv> EncodeStringToBytes (c_User cl)" and "w \<equiv> bytes_opt (c_Workstation cl)"
    and "key \<equiv> response_key H go (c_User cl) (c_Password cl) (EncodeStringToBytes (c_Domain cl))"
  defines "nt \<equiv> (let blob = response_blob t (cr_challenge r) (info_bytes (client_info ti (EncodeStringToBytes (c_TargetSPN cl)) @ [(0, [])]))
      in hmac_md5 H key (rd 24 8 cmsg @ blob) @ blob)"
  shows "\<exists>ciph ses. rc4_NewCipher (hmac_md5 H key (take 16 nt)) = Inr ciph
    \<and> client_message H go r cmsg defaultFlags target toff (info_bytes (ti @ [(0, [])])) (pair_offsets 0 (ti @ [(0, [])])) cl
      = Some (Inr (client_amsg H (cr_key r) (c_nmsg cl @ cmsg) (auth_bytes dm us w nt (fst (rc4_xor ciph (cr_key r))) defaultFlags)),
          cl\<lparr>cl_session := Some (default_keys H (cr_key r) ses)\<rparr>)
    \<and> exportedSessionKey ses = cr_key r"
proof -
  let ?info = "info_bytes (ti @ [(0, [])])" and ?ps = "pair_offsets 0 (ti @ [(0, [])])" and ?spn = "EncodeStringToBytes (c_TargetSPN cl)"
  let ?n = "16 + (28 + info_size ?info ?spn ?ps + 4)" and ?off = "88 + length dm + length us + work_length w"
  have fl: "av_lookup ?ps MsvAvFlags = None" by (rule av_lookup_None) (use ti in auto)
  have key: "client_key H go cl dm = key" by (simp add: client_key_def cl key_def response_key_def dm_def)
  have "length ?info = TargetInfo_Size ti + 4" by (simp add: length_info_bytes)
  then have ln: "?n = length nt"
    using r(1) t length_hmac[OF H] fl
    by (simp add: nt_def Let_def response_blob_def length_info_bytes client_info_size info_size_def del: info_bytes_simps(3))
  have resp: "client_response H key r (rd 24 8 cmsg) ?info ?info ?ps ?spn ?n = Some nt"
    using client_response_eq[OF H r(1) t ti refl] unfolding nt_def by blast
  obtain ciph where ciph: "rc4_NewCipher (hmac_md5 H key (take 16 nt)) = Inr ciph" using rc4_NewCipher_16 length_hmac[OF H] by blast
  let ?ek = "fst (rc4_xor ciph (cr_key r))"
  obtain b1 b2 b3 where b: "puts ([(0, nt_signature), (8, le_enc 4 (3 :: u32))]
        @ fst (client_fields [(28, Some dm), (36, Some us), (44, w)] 88)) (zeros (auth_length dm us w nt)) = Some b1"
      "puts (field_at_off 12 24 ?off @ [(?off + 24, nt)] @ field_at_off 20 (length nt) (?off + 24)) b1 = Some b2"
      "puts ((?off + 24 + length nt, ?ek) # field_at_off 52 16 (?off + 24 + length nt)) b2 = Some b3"
      "puts [(60, le_enc 4 defaultFlags), (64, nt_version)] b3 = Some (auth_bytes dm us w nt ?ek defaultFlags)"
    using auth_puts[of ?ek dm us w nt defaultFlags] r(2) by auto
  let ?a0 = "auth_bytes dm us w nt ?ek defaultFlags"
  have "length ?a0 = auth_length dm us w nt" using puts_length[OF b(4)] puts_length[OF b(3)] puts_length[OF b(2)] puts_length[OF b(1)] by simp
  then have mic: "put 72 (hmac_md5 H (cr_key r) ((c_nmsg cl @ cmsg) @ ?a0)) ?a0 = Some (client_amsg H (cr_key r) (c_nmsg cl @ cmsg) ?a0)"
    using length_hmac[OF H] by (simp add: put_in client_amsg_def auth_length_def)
  have us: "bytes_opt (c_User cl) = Some us" by (simp add: bytes_opt_def cl us_def)
  have tot: "snd (client_fields [(28, Some dm), (36, Some us), (44, w)] 88) = ?off" "?off + 24 + length nt + 16 = auth_length dm us w nt"
    by (simp_all add: client_fields_eq auth_length_def del: client_fields.simps)
  show ?thesis
    unfolding client_message_def Let_def
    by (rule exI[of _ ciph], rule exI, intro conjI, rule ciph)
      (simp only: cl us tot key ln mark_flags_def fl option.case info resp[unfolded ln] dm_def[symmetric] w_def[symmetric] if_False if_True
        default_flags session_keys_default_eq[OF H] Option.bind.simps sum.case simp_thms ciph b mic[unfolded append_assoc] not_False_eq_True, simp)
qed

subsection \<open>What the server reads\<close>

lemma rd_client_amsg:
  assumes "hashes_ok H" "88 \<le> length a0"
  shows "length (client_amsg H ek sent a0) = length a0"
    "a + m \<le> 72 \<or> 88 \<le> a \<Longrightarrow> rd a m (client_amsg H ek sent a0) = rd a m a0"
    "rd 72 16 (client_amsg H ek sent a0) = hmac_md5 H ek (sent @ a0)"
  using assms length_hmac[OF assms(1), of ek "sent @ a0"]
  by (auto simp: client_amsg_def length_wr rd_wr_before rd_wr_after rd_wr_same)

lemma read_authenticate_ok:
  assumes H: "hashes_ok H" and l: "length enc = 16" "0 < length nt" "0 < length dm" "0 < length us"
    and room: "auth_length dm us w nt < 65536"
  shows "read_authenticate (Slice (client_amsg H ek sent (auth_bytes dm us w nt enc flags)) ex)
    = Some (Inr (flags, nt, dm, us, enc))"
proof -
  let ?a0 = "auth_bytes dm us w nt enc flags" and ?off = "88 + length dm + length us + work_length w"
  let ?m = "client_amsg H ek sent ?a0"
  note r = auth_reads[OF l, of w flags]
  have L: "?off + 24 + length nt + 16 < 65536" using room by (simp add: auth_length_def)
  have len0: "88 \<le> length ?a0" by (simp add: r(1) auth_length_def)
  note c = rd_client_amsg[where ek = ek and sent = sent, OF H len0]
  have lenm: "length ?m = ?off + 24 + length nt + 16" by (simp add: c(1) r(1) auth_length_def)
  have nt: "message_field 20 msg (Slice ?m ex) = Some (Inr (Slice nt (drop (?off + 24 + length nt) ?m @ ex)))" for msg
    using message_field_reads[of 20 "Slice ?m ex" "length nt" "?off + 24" msg] c(2) r(4-7) lenm L by simp
  have dm: "message_field 28 msg (Slice ?m ex) = Some (Inr (Slice dm (drop (88 + length dm) ?m @ ex)))" for msg
    using message_field_reads[of 28 "Slice ?m ex" "length dm" 88 msg] c(2) r(8-11) lenm L by simp
  have us: "message_field 36 msg (Slice ?m ex) = Some (Inr (Slice us (drop (88 + length dm + length us) ?m @ ex)))" for msg
    using message_field_reads[of 36 "Slice ?m ex" "length us" "88 + length dm" msg] c(2) r(12-15) lenm L by simp
  have enc: "message_field 52 msg (Slice ?m ex) = Some (Inr (Slice enc (drop (?off + 24 + length nt + 16) ?m @ ex)))" for msg
    using message_field_reads[of 52 "Slice ?m ex" 16 "?off + 24 + length nt" msg] c(2) r(16-19) lenm L by simp
  have "sl_range 0 8 (Slice ?m ex) = Some (Slice nt_signature (drop 8 ?m @ ex))"
    "u32_in 8 12 (Slice ?m ex) = Some 3" "u32_in 60 64 (Slice ?m ex) = Some flags"
    using c(2)[of 0 8] c(2)[of 8 4] c(2)[of 60 4] r(2,3,20) lenm
    by (simp_all add: sl_range_in u32_in_in rd_def del: le_dec.simps)
  then show ?thesis
    using lenm by (simp add: read_authenticate_def nt dm us enc and_then_def)
qed

lemma cut_mic_ok:
  assumes "hashes_ok H" "88 \<le> length a0" "rd 72 16 a0 = zeros 16" "flags AND NTLMSSP_NEGOTIATE_VERSION \<noteq> 0"
  shows "cut_mic flags (Slice (client_amsg H ek sent a0) ex) = Some (hmac_md5 H ek (sent @ a0), a0)"
proof -
  let ?m = "client_amsg H ek sent a0"
  note c = rd_client_amsg[where ek = ek and sent = sent, OF assms(1,2)]
  have hm: "length (hmac_md5 H ek (sent @ a0)) = 16" by (rule length_hmac[OF assms(1)])
  have "take (length a0) (wr 72 (zeros 16) (?m @ ex)) = wr 72 (zeros 16) ?m"
    using assms(2) c(1) by (simp add: wr_def)
  also have "\<dots> = wr 72 (zeros 16) a0"
    using assms(2) hm by (simp add: client_amsg_def wr_def min_def)
  also have "\<dots> = a0" using assms(2,3) by (intro wr_gap) simp_all
  finally show ?thesis
    using assms(2,4) c(1,3) by (simp add: cut_mic_def sl_range_in rd_def)
qed

lemma session_keys_fields:
  "session_keys H flags key ses = Some (Inr ses') \<Longrightarrow> ns_user ses' = ns_user ses \<and> exportedSessionKey ses' = exportedSessionKey ses"
  by (cases "sealKey H flags key True"; cases "sealKey H flags key False";
      cases "rc4_NewCipher (the (sealKey H flags key True))"; cases "rc4_NewCipher (the (sealKey H flags key False))")
    (auto simp: session_keys_def)

subsection \<open>Properties\<close>

text \<open>
  C30. Without guest access a login proves the password.  When \<^verbatim>\<open>Authenticate\<close> succeeds, the message named an
  account, the first sixteen bytes of its response are the code, under the key of that account's
  password, of the server's challenge and the rest of the response, and the session is that user's.
\<close>

theorem login_proves_password:
  assumes "hashes_ok H" "\<not> allowGuest s" "ntlm_Authenticate H go amsg s = Some (None, s')"
  shows "\<exists>flags nt domain name enc password ses.
    read_authenticate amsg = Some (Inr (flags, nt, domain, name, enc)) \<and> accounts s (DecodeToString name) = Some password
    \<and> 44 \<le> length nt \<and> 32 \<le> length (s_cmsg s)
    \<and> take 16 nt = hmac_md5 H (response_key H go (DecodeToString name) password domain) (rd 24 8 (s_cmsg s) @ drop 16 nt)
    \<and> s' = s\<lparr>s_session := Some ses\<rparr> \<and> ns_user ses = DecodeToString name"
proof -
  obtain x where x: "read_authenticate amsg = Some x" using assms(3) by (auto simp: ntlm_Authenticate_def bind_Some_iff)
  then obtain flags nt domain name enc where msg: "read_authenticate amsg = Some (Inr (flags, nt, domain, name, enc))"
    using assms(3) by (cases x) (auto simp: ntlm_Authenticate_def)
  obtain password where acc: "accounts s (DecodeToString name) = Some password"
    and chk: "check_account H go amsg flags nt domain (DecodeToString name) password enc s = Some (None, s')"
    using assms(2,3) msg by (auto simp: ntlm_Authenticate_def Let_def split: if_splits option.splits)
  let ?key = "response_key H go (DecodeToString name) password domain"
  have l44: "44 \<le> length nt" using chk by (auto simp: check_account_def split: if_splits)
  then obtain sch expected where sch: "sl_range 24 32 (Slice (s_cmsg s) []) = Some sch"
    "expected_response H ?key (vis sch) nt = Some expected"
    using chk by (auto simp: check_account_def Let_def bind_Some_iff)
  have eq: "nt = expected"
    using chk l44 sch assms(2) by (auto simp: check_account_def Let_def refused_def login_failure_def split: if_splits)
  have "Option.bind (exported_key flags (hmac_md5 H ?key (take 16 nt)) enc) (\<lambda>ek. case ek of Inl e \<Rightarrow> Some (Some e, s)
      | Inr ek \<Rightarrow> Option.bind (mic_ok H flags ek (drop 44 nt) amsg s) (\<lambda>ok. if \<not> ok then Some (refused flags s)
          else Option.bind (session_keys H flags ek ((guestSession flags)\<lparr>ns_user := DecodeToString name, exportedSessionKey := ek\<rparr>))
            (\<lambda>r. Some (case r of Inl e \<Rightarrow> (Some e, s) | Inr ses \<Rightarrow> (None, s\<lparr>s_session := Some ses\<rparr>))))) = Some (None, s')"
    using chk l44 sch(1) sch(2)[folded eq] by (simp add: check_account_def Let_def)
  then obtain ek where ek: "exported_key flags (hmac_md5 H ?key (take 16 nt)) enc = Some (Inr ek)"
    "Option.bind (mic_ok H flags ek (drop 44 nt) amsg s) (\<lambda>ok. if \<not> ok then Some (refused flags s)
          else Option.bind (session_keys H flags ek ((guestSession flags)\<lparr>ns_user := DecodeToString name, exportedSessionKey := ek\<rparr>))
            (\<lambda>r. Some (case r of Inl e \<Rightarrow> (Some e, s) | Inr ses \<Rightarrow> (None, s\<lparr>s_session := Some ses\<rparr>)))) = Some (None, s')"
    by (cases "exported_key flags (hmac_md5 H ?key (take 16 nt)) enc"; cases "the (exported_key flags (hmac_md5 H ?key (take 16 nt)) enc)") auto
  then obtain r where r: "session_keys H flags ek ((guestSession flags)\<lparr>ns_user := DecodeToString name, exportedSessionKey := ek\<rparr>) = Some r"
    "(case r of Inl e \<Rightarrow> (Some e, s) | Inr ses \<Rightarrow> (None, s\<lparr>s_session := Some ses\<rparr>)) = (None, s')"
    using assms(2) by (auto simp: bind_Some_iff refused_def split: if_split_asm)
  then obtain ses where "session_keys H flags ek ((guestSession flags)\<lparr>ns_user := DecodeToString name, exportedSessionKey := ek\<rparr>) = Some (Inr ses)"
    "s' = s\<lparr>s_session := Some ses\<rparr>"
    by (cases r) auto
  moreover from this have "ns_user ses = DecodeToString name"
    by (auto dest: session_keys_fields)
  moreover have "32 \<le> length (s_cmsg s)" "vis sch = rd 24 8 (s_cmsg s)"
    using sch(1) by (auto simp: sl_range_def rd_def Let_def split: if_splits)
  moreover have "take 16 nt = hmac_md5 H ?key (vis sch @ drop 16 nt)"
    using accepted_response[OF assms(1) l44, of ?key "vis sch"] sch(2) eq by simp
  ultimately show ?thesis using msg acc l44 by auto
qed

lemma server_accepts_client:
  assumes H: "hashes_ok H" and rnd: "length rnd = 8" "length (cr_challenge r) = 8" "length (cr_key r) = 16" and t: "length t = 8"
    and ti: "ti = (MsvAvTimestamp, t) # ti'" "MsvAvTimestamp \<notin> fst ` set ti'" "MsvAvFlags \<notin> fst ` set ti'"
    and sizes0: "list_all (\<lambda>(k, v). length v < 65536) ti"
    and info: "rd toff (length (info_bytes (ti @ [(0, [])]))) cmsg = info_bytes (ti @ [(0, [])])"
    and cmsg: "rd 24 8 cmsg = rnd" "32 \<le> length cmsg"
    and srv: "s_cmsg srv = cmsg" "s_nmsg srv = nmsg" "c_nmsg cl = nmsg"
    and cl: "c_Domain cl \<noteq> []" "c_User cl \<noteq> []" "c_Hash cl = None"
    and acc: "accounts srv (c_User cl) = Some (c_Password cl)"
    and name: "DecodeToString (EncodeStringToBytes (c_User cl)) = c_User cl" "EncodeStringToBytes (c_User cl) \<noteq> []"
      "EncodeStringToBytes (c_Domain cl) \<noteq> []"
    and room: "length (EncodeStringToBytes (c_Domain cl)) + length (EncodeStringToBytes (c_User cl))
      + length (EncodeStringToBytes (c_Workstation cl)) + TargetInfo_Size ti + length (EncodeStringToBytes (c_TargetSPN cl)) < 65200"
  shows "\<exists>amsg ses. client_message H go r cmsg defaultFlags target toff (info_bytes (ti @ [(0, [])])) (pair_offsets 0 (ti @ [(0, [])])) cl
      = Some (Inr amsg, cl\<lparr>cl_session := Some (default_keys H (cr_key r) ses)\<rparr>) \<and> exportedSessionKey ses = cr_key r
    \<and> ntlm_Authenticate H go (Slice amsg ex) srv = Some (None, srv\<lparr>s_session := Some (default_keys H (cr_key r)
        ((guestSession defaultFlags)\<lparr>ns_user := c_User cl, exportedSessionKey := cr_key r\<rparr>))\<rparr>)"
proof -
  let ?dm = "EncodeStringToBytes (c_Domain cl)" and ?us = "EncodeStringToBytes (c_User cl)" and ?w = "bytes_opt (c_Workstation cl)"
  let ?spn = "EncodeStringToBytes (c_TargetSPN cl)"
  let ?key = "response_key H go (c_User cl) (c_Password cl) ?dm"
  let ?X = "info_bytes (client_info ti ?spn @ [(0, [])])"
  let ?blob = "response_blob t (cr_challenge r) ?X"
  let ?nt = "hmac_md5 H ?key (rnd @ ?blob) @ ?blob"
  obtain ciph ses where ciph: "rc4_NewCipher (hmac_md5 H ?key (take 16 ?nt)) = Inr ciph"
    and msg: "client_message H go r cmsg defaultFlags target toff (info_bytes (ti @ [(0, [])])) (pair_offsets 0 (ti @ [(0, [])])) cl
      = Some (Inr (client_amsg H (cr_key r) (nmsg @ cmsg) (auth_bytes ?dm ?us ?w ?nt (fst (rc4_xor ciph (cr_key r))) defaultFlags)),
          cl\<lparr>cl_session := Some (default_keys H (cr_key r) ses)\<rparr>)" "exportedSessionKey ses = cr_key r"
    using client_message_eq[OF H rnd(2,3) t ti info cl, of go target] unfolding Let_def cmsg(1) srv(3) by blast
  let ?enc = "fst (rc4_xor ciph (cr_key r))"
  let ?a0 = "auth_bytes ?dm ?us ?w ?nt ?enc defaultFlags"
  let ?amsg = "client_amsg H (cr_key r) (nmsg @ cmsg) ?a0"
  have lX: "length ?X = TargetInfo_Size ti + 36 + (if ?spn = [] then 0 else 4 + length ?spn)"
    unfolding length_info_bytes by (simp add: client_info_size)
  have lnt: "length ?nt = 44 + length ?X" using length_hmac[OF H] t rnd(2) by (simp add: response_blob_def)
  have w: "work_length ?w = length (EncodeStringToBytes (c_Workstation cl))"
    by (simp add: work_length_def bytes_opt_def EncodeStringToBytes_def)
  have room': "auth_length ?dm ?us ?w ?nt < 65536"
    unfolding auth_length_def lnt lX w using room by simp
  have pos: "length ?enc = 16" "0 < length ?nt" "0 < length ?dm" "0 < length ?us"
    unfolding lnt using name rnd(3) by simp_all
  have reads: "read_authenticate (Slice ?amsg ex) = Some (Inr (defaultFlags, ?nt, ?dm, ?us, ?enc))"
    by (rule read_authenticate_ok[OF H pos room'])
  have ntp: "take 16 ?nt = hmac_md5 H ?key (rnd @ ?blob)" "drop 16 ?nt = ?blob" "drop 44 ?nt = ?X"
      "rd 16 8 ?nt = [1, 1] @ zeros 6" "rd 40 4 ?nt = zeros 4"
    using length_hmac[OF H] t rnd(2) by (simp_all add: response_blob_def rd_def)
  have expected: "expected_response H ?key rnd ?nt = Some ?nt"
  proof -
    have "44 \<le> length ?nt" unfolding lnt by simp
    moreover have "take 16 ?nt = hmac_md5 H ?key (rnd @ drop 16 ?nt)" unfolding ntp(2) by (rule ntp(1))
    ultimately show ?thesis using accepted_response[OF H] ntp(4,5) by metis
  qed
  have l0: "length ?a0 = auth_length ?dm ?us ?w ?nt" "rd 72 16 ?a0 = zeros 16"
    by (rule auth_reads(1)[OF pos], rule auth_reads(21)[OF pos])
  have cut: "cut_mic defaultFlags (Slice ?amsg ex) = Some (hmac_md5 H (cr_key r) ((nmsg @ cmsg) @ ?a0), ?a0)"
  proof (rule cut_mic_ok[OF H _ l0(2)])
    show "88 \<le> length ?a0" unfolding l0(1) auth_length_def by simp
  qed simp
  have sizes: "list_all (\<lambda>(k, v). length v < 65536) (client_info ti ?spn)"
    using sizes0 room by (simp add: client_info_def)
  have flags: "av_value ?X (pair_offsets 0 (client_info ti ?spn @ [(0, [])])) MsvAvFlags = Some (le_enc 4 (2 :: u32))"
    using av_value_unique[of MsvAvFlags "[(MsvAvChannelBindings, zeros 16)] @ (if ?spn = [] then [] else [(MsvAvTargetName, ?spn)])
        @ [(MsvAvEOL, []), (0, [])]" ti "le_enc 4 (2 :: u32)" "[]"]
    by (simp add: client_info_def del: info_bytes_simps pair_offsets.simps)
  have mic: "mic_ok H defaultFlags (cr_key r) (drop 44 ?nt) (Slice ?amsg ex) srv = Some True"
    unfolding mic_ok_def ntp(3) parse_info_bytes[OF sizes] Option.bind.simps flags option.case
    by (simp add: le_Uint32_def cut srv del: le_dec.simps info_bytes_simps)
  have exch: "exported_key defaultFlags (hmac_md5 H ?key (take 16 ?nt)) ?enc = Some (Inr (cr_key r))"
    using ciph by (simp add: exported_key_def rnd(3))
  let ?ses0 = "(guestSession defaultFlags)\<lparr>ns_user := c_User cl, exportedSessionKey := cr_key r\<rparr>"
  have sch: "sl_range 24 32 (Slice (s_cmsg srv) []) = Some (Slice rnd (drop 32 cmsg))"
    using cmsg srv by (simp add: sl_range_in rd_def)
  have server: "ntlm_Authenticate H go (Slice ?amsg ex) srv = Some (None, srv\<lparr>s_session := Some (default_keys H (cr_key r) ?ses0)\<rparr>)"
  proof -
    have l44: "\<not> length ?nt < 44" unfolding lnt by simp
    have chk: "check_account H go (Slice ?amsg ex) defaultFlags ?nt ?dm (c_User cl) (c_Password cl) ?enc srv
        = Some (None, srv\<lparr>s_session := Some (default_keys H (cr_key r) ?ses0)\<rparr>)"
      unfolding check_account_def Let_def sch
      by (simp only: l44 if_False Option.bind.simps slice.sel expected simp_thms exch sum.case mic session_keys_default_eq[OF H])
    show ?thesis
      unfolding ntlm_Authenticate_def reads
      by (simp only: Option.bind.simps sum.case prod.case name(1,2) simp_thms if_False Let_def acc option.case chk)
  qed
  show ?thesis using msg server srv by auto
qed


text \<open>A small instance: hashes that are constant, a user \<^verbatim>\<open>a\<close> of a domain \<^verbatim>\<open>d\<close>.\<close>

definition toy_hashes :: hashes where
  "toy_hashes = \<lparr>md4 = \<lambda>m. zeros 16, md5 = \<lambda>m. zeros 16\<rparr>"

definition toy_client :: ntlm_client where
  "toy_client = \<lparr>c_User = ''a'', c_Password = ''pw'', c_Hash = None, c_Domain = ''d'', c_Workstation = [], c_TargetSPN = [],
     c_nmsg = [], cl_session = None\<rparr>"

definition toy_draws :: client_random where
  "toy_draws = \<lparr>cr_challenge = zeros 8, cr_key = zeros 16, cr_time = 0\<rparr>"

definition toy_ntlm :: ntlm_server where
  "toy_ntlm = AddAccount ''a'' ''pw'' (ntlm_NewServer ''srv'' [] [] [] [])"

lemma toy_hashes_ok: "hashes_ok toy_hashes"
  by (simp add: hashes_ok_def toy_hashes_def)

lemma toy_runes: "runes ''a'' = [97]" "runes ''d'' = [100]" "runes ''srv'' = [115, 114, 118]"
  by (simp_all add: runes_def bytes_of_string_def runes_of.simps DecodeRune.simps)

lemma toy_units: "le_enc 2 (97 :: u16) = [97, 0]" "le_enc 2 (100 :: u16) = [100, 0]"
  "le_enc 2 (115 :: u16) = [115, 0]" "le_enc 2 (114 :: u16) = [114, 0]" "le_enc 2 (118 :: u16) = [118, 0]"
  by code_simp+

lemma toy_names: "EncodeStringToBytes ''a'' = [97, 0]" "EncodeStringToBytes ''d'' = [100, 0]"
  "EncodeStringToBytes ''srv'' = [115, 0, 114, 0, 118, 0]" "DecodeToString [97, 0] = ''a''"
  by (simp_all add: EncodeStringToBytes_def word_bytes_def toy_runes toy_units DecodeToString_def string_of_runes_def utf8_of_rune_def
      scalar_def utf16_Decode.simps char_of_def bit_0)


definition toy_answer :: "byte list" where
  "toy_answer = zeros 16 @ [1, 1] @ zeros 26"

definition toy_message :: "byte list" where
  "toy_message = wrs [(0, nt_signature), (8, [3]), (20, [44, 0, 44, 0, 66]), (36, [2, 0, 2, 0, 64])] (zeros 64) @ [97, 0] @ toy_answer"

lemma toy_message_reads: "read_authenticate (Slice toy_message []) = Some (Inr (0, toy_answer, [], [97, 0], []))"
  by code_simp

lemma toy_hmac: "hmac_md5 toy_hashes key m = zeros 16"
  by (simp add: hmac_md5_def toy_hashes_def)

definition toy_challenged :: ntlm_server where
  "toy_challenged = toy_ntlm\<lparr>s_cmsg := zeros 64\<rparr>"

lemma toy_expected: "expected_response toy_hashes key (zeros 8) toy_answer = Some toy_answer"
proof -
  have "length toy_answer = 44" "take 16 toy_answer = zeros 16" "rd 16 8 toy_answer = [1, 1] @ zeros 6" "rd 40 4 toy_answer = zeros 4"
    by code_simp+
  then show ?thesis using accepted_response[OF toy_hashes_ok] toy_hmac by (metis order_refl)
qed

lemma login_proves_password_witness:
  "\<exists>ses. ntlm_Authenticate toy_hashes ascii_go (Slice toy_message []) toy_challenged
      = Some (None, toy_challenged\<lparr>s_session := Some ses\<rparr>) \<and> ns_user ses = ''a''"
proof -
  have st: "accounts toy_challenged ''a'' = Some ''pw''" "\<not> allowGuest toy_challenged" "s_cmsg toy_challenged = zeros 64"
    by (simp_all add: toy_challenged_def toy_ntlm_def AddAccount_def ntlm_NewServer_def)
  have ans: "length toy_answer = 44" "drop 44 toy_answer = []" by code_simp+
  obtain r where r: "rc4_NewCipher (zeros 16) = Inr r" using rc4_NewCipher_16[of "zeros 16"] by auto
  have sch: "sl_range 24 32 (Slice (zeros 64) []) = Some (Slice (zeros 8) (zeros 32))" by code_simp
  have "\<exists>ses. ntlm_Authenticate toy_hashes ascii_go (Slice toy_message []) toy_challenged = Some (None, toy_challenged\<lparr>s_session := Some ses\<rparr>)"
    by (simp add: ntlm_Authenticate_def toy_message_reads toy_names st check_account_def ans sch toy_expected toy_hmac
        exported_key_def mic_ok_def session_keys_def sealKey_def r parseAvPairs_def) (rule exI, rule refl)
  then obtain ses where run: "ntlm_Authenticate toy_hashes ascii_go (Slice toy_message []) toy_challenged = Some (None, toy_challenged\<lparr>s_session := Some ses\<rparr>)" ..
  from login_proves_password[OF toy_hashes_ok st(2) run] have "ns_user ses = ''a''"
    by (auto simp: toy_message_reads toy_names)
      (metis ntlm_server.select_convs(10) ntlm_server.surjective ntlm_server.update_convs(10) option.inject)
  with run show ?thesis by blast
qed
text \<open>
  C32. A message of sixty-four bytes ends the process, before any authentication: the end of a field is
  computed with 32 bits, so an offset near \<open>2 ^ 32\<close> wraps around, passes the check against the
  length of the message, and the slice that follows has its bounds in the wrong order.
\<close>

theorem wrapped_field_panics:
  assumes "64 \<le> len amsg" "rd 0 8 (vis amsg) = nt_signature" "(le_dec (rd 8 4 (vis amsg)) :: u32) = 3"
  defines "n \<equiv> le_dec (rd 20 2 (vis amsg)) :: u16" and "mx \<equiv> le_dec (rd 22 2 (vis amsg)) :: u16"
    and "off \<equiv> le_dec (rd 24 4 (vis amsg)) :: u32"
  assumes "n \<le> mx" "unat (off + ucast n) \<le> len amsg" "off + ucast n < off"
  shows "ntlm_Authenticate H go amsg s = None"
proof -
  have "message_field 20 msg amsg = None" for msg
    using message_field_panics_iff[of 20 amsg msg] assms(1) assms(7-9) unfolding n_def mx_def off_def by simp
  moreover have "sl_range 0 8 amsg = Some (Slice nt_signature (drop 8 (vis amsg) @ ext amsg))" "u32_in 8 12 amsg = Some 3"
    "\<exists>f. u32_in 60 64 amsg = Some f"
    using assms(1-3) by (simp_all add: sl_range_in u32_in_in rd_def len_def)
  ultimately show ?thesis
    using assms(1) by (auto simp: ntlm_Authenticate_def read_authenticate_def and_then_def)
qed

lemma wrapped_field_panics_witness:
  "ntlm_Authenticate toy_hashes ascii_go (Slice (wrs [(0, nt_signature), (8, [3]), (20, [1, 0, 1, 0, 0xff, 0xff, 0xff, 0xff])] (zeros 64)) [])
     toy_ntlm = None"
  by (rule wrapped_field_panics) code_simp+

text \<open>
  The name of the target is lost in a challenge that has one: the target information is written over
  it.  The bytes that the field of the name describes are the last bytes of the target information.
\<close>

theorem challenge_covers_target_name:
  assumes "length rnd = 8" "flags AND NTLMSSP_NEGOTIATE_VERSION \<noteq> 0" "flags AND NTLMSSP_REQUEST_TARGET \<noteq> 0"
    and "target \<noteq> []" "length target \<le> TargetInfo_Size ti"
  shows "\<exists>cmsg. challenge_message flags ti target (Inr rnd) = Some (Inr cmsg)
    \<and> rd 12 2 cmsg = le_enc 2 (of_nat (length target) :: u16) \<and> rd 16 4 cmsg = le_enc 4 (of_nat (56 + TargetInfo_Size ti) :: u32)
    \<and> rd (56 + TargetInfo_Size ti) (length target) cmsg = drop (TargetInfo_Size ti - length target) (info_bytes ti)"
proof -
  let ?T = "TargetInfo_Size ti" and ?L = "length target"
  let ?m = "wrs (challenge_fields flags ti target rnd) (zeros (challenge_length ti target))"
  have named: "challenge_named flags target" using assms(3,4) by (simp add: challenge_named_def)
  note r = challenge_reads[where flags = flags and ti = ti and target = target, OF assms(1)]
  have L: "0 < ?L" using assms(4) by simp
  then have "0 < ?T" using assms(5) by linarith
  have "rd (56 + ?T) ?L ?m = rd (56 + ?L + (?T - ?L)) ?L ?m" using assms(5) by simp
  also have "\<dots> = drop (?T - ?L) (rd (56 + ?L) ?T ?m)"
    using assms(5) by (simp add: rd_def drop_take add.commute)
  also have "rd (56 + ?L) ?T ?m = info_bytes ti"
    using r(9)[OF \<open>0 < ?T\<close>] named by (simp add: info_offset_def)
  finally show ?thesis
    using challenge_message_eq[OF assms(1,2), of ti target] r(10)[OF named] by blast
qed

lemma challenge_covers_target_name_witness:
  "\<exists>cmsg. challenge_message defaultFlags [(MsvAvTimestamp, zeros 8), (0, [])] [115, 0] (Inr (zeros 8)) = Some (Inr cmsg)
    \<and> rd 72 2 cmsg = [0, 0]"
proof -
  let ?ti = "[(MsvAvTimestamp, zeros 8), (0, [])]"
  have "TargetInfo_Size ?ti = 16" "drop 14 (info_bytes ?ti) = [0, 0]" "defaultFlags AND NTLMSSP_NEGOTIATE_VERSION \<noteq> 0"
    "defaultFlags AND NTLMSSP_REQUEST_TARGET \<noteq> 0"
    by code_simp+
  then show ?thesis
    using challenge_covers_target_name[of "zeros 8" defaultFlags "[115, 0]" ?ti] by (auto simp: numeral_2_eq_2)
qed

end
