(* ===== verification/Dcerpc.thy ===== *)
theory Dcerpc
  imports Session Utf16
begin

section \<open>Remote procedure calls over a named pipe\<close>

text \<open>
  \<^verbatim>\<open>internal/smb2/dcerpc.go\<close>: the requests that a client writes to the pipe \<^verbatim>\<open>srvsvc\<close> (a bind, and the
  two calls that the server knows) and the answers.  A decoder reads where the code does and panics where it
  does; an encoder lists the fields that it stores, from an offset on.  Every encoder that
  stores a reference takes the counter \<^verbatim>\<open>_refId\<close> and returns it.
\<close>

abbreviation (input) "PacketTypeRequest \<equiv> (0 :: byte)"
abbreviation (input) "PacketTypeResponse \<equiv> (2 :: byte)"
abbreviation (input) "PacketTypeBind \<equiv> (11 :: byte)"
abbreviation (input) "PacketTypeBindAck \<equiv> (12 :: byte)"
abbreviation (input) "OpNetShareEnumAll \<equiv> (15 :: u16)"
abbreviation (input) "OpNetShareGetInfo \<equiv> (16 :: u16)"
abbreviation (input) "StypeDisktree \<equiv> (0 :: u32)"

definition SRVSVC_UUID :: "byte list" where
  "SRVSVC_UUID = [0xc8, 0x4f, 0x32, 0x4b, 0x70, 0x16, 0xd3, 0x01, 0x12, 0x78, 0x5a, 0x47, 0xbf, 0x6e, 0xe1, 0x88]"

definition NDR_UUID :: "byte list" where
  "NDR_UUID = [0x04, 0x5d, 0x88, 0x8a, 0xeb, 0x1c, 0xc9, 0x11, 0x9f, 0xe8, 0x08, 0x00, 0x2b, 0x10, 0x48, 0x60]"

subsection \<open>Requests\<close>

record DCEHeader =
  dce_Version :: byte
  dce_VersionMinor :: byte
  dce_PacketType :: byte
  dce_PacketFlags :: byte
  dce_DataRepresentation :: "byte list"
  dce_FragLength :: u16
  dce_AuthLength :: u16
  dce_CallID :: u32

definition DCERequest_IsInvalid :: "slice \<Rightarrow> bool" where
  "DCERequest_IsInvalid r \<longleftrightarrow> len r < 16"

text \<open>\<^verbatim>\<open>copy(dst[:], r[off:])\<close> for an array of \<open>n\<close> zeros.\<close>

definition array_from :: "nat \<Rightarrow> nat \<Rightarrow> slice \<Rightarrow> byte list option" where
  "array_from n off r = map_option (\<lambda>s. take n (vis s @ zeros n)) (sl_from off r)"

definition DCERequest_Header :: "slice \<Rightarrow> DCEHeader option" where
  "DCERequest_Header r = do {
     v \<leftarrow> sl_at 0 r;
     vm \<leftarrow> sl_at 1 r;
     pt \<leftarrow> sl_at 2 r;
     pf \<leftarrow> sl_at 3 r;
     dr \<leftarrow> array_from 4 4 r;
     fl \<leftarrow> u16_in 8 10 r;
     al \<leftarrow> u16_in 10 12 r;
     call \<leftarrow> u32_in 12 16 r;
     Some \<lparr>dce_Version = v, dce_VersionMinor = vm, dce_PacketType = pt, dce_PacketFlags = pf,
       dce_DataRepresentation = dr, dce_FragLength = fl, dce_AuthLength = al, dce_CallID = call\<rparr> }"

record TransferSyntax =
  SyntaxUUID :: "byte list"
  ts_VersionMajor :: u16
  ts_VersionMinor :: u16

record ContextRequestItem =
  ContextID :: u16
  TransferSyntaxCount :: byte
  InterfaceUUID :: "byte list"
  cri_VersionMajor :: u16
  cri_VersionMinor :: u16
  TransferSyntaxes :: "TransferSyntax list"

definition BindRequest_MaxSendFragSize :: "slice \<Rightarrow> u16 option" where "BindRequest_MaxSendFragSize r = u16_in 16 18 r"
definition BindRequest_MaxRecvFragSize :: "slice \<Rightarrow> u16 option" where "BindRequest_MaxRecvFragSize r = u16_in 18 20 r"
definition BindRequest_AssocGroupID :: "slice \<Rightarrow> u32 option" where "BindRequest_AssocGroupID r = u32_in 20 24 r"
definition BindRequest_NumCtxItems :: "slice \<Rightarrow> byte option" where "BindRequest_NumCtxItems r = sl_at 24 r"

fun transfer_syntaxes :: "nat \<Rightarrow> nat \<Rightarrow> slice \<Rightarrow> (TransferSyntax list \<times> nat) option" where
  "transfer_syntaxes 0 off r = Some ([], off)"
| "transfer_syntaxes (Suc k) off r = do {
     uuid \<leftarrow> array_from 16 off r;
     major \<leftarrow> u16_in (off + 16) (off + 18) r;
     minor \<leftarrow> u16_in (off + 18) (off + 20) r;
     (ts, off) \<leftarrow> transfer_syntaxes k (off + 20) r;
     Some (\<lparr>SyntaxUUID = uuid, ts_VersionMajor = major, ts_VersionMinor = minor\<rparr> # ts, off) }"

fun ctx_items :: "nat \<Rightarrow> nat \<Rightarrow> slice \<Rightarrow> ContextRequestItem list option" where
  "ctx_items 0 off r = Some []"
| "ctx_items (Suc k) off r = do {
     cid \<leftarrow> u16_in off (off + 2) r;
     n \<leftarrow> sl_at (off + 2) r;
     uuid \<leftarrow> array_from 16 (off + 4) r;
     major \<leftarrow> u16_in (off + 20) (off + 22) r;
     minor \<leftarrow> u16_in (off + 22) (off + 24) r;
     (ts, off) \<leftarrow> transfer_syntaxes (unat n) (off + 24) r;
     is \<leftarrow> ctx_items k off r;
     Some (\<lparr>ContextID = cid, TransferSyntaxCount = n, InterfaceUUID = uuid, cri_VersionMajor = major,
       cri_VersionMinor = minor, TransferSyntaxes = ts\<rparr> # is) }"

definition BindRequest_CtxItems :: "slice \<Rightarrow> ContextRequestItem list option" where
  "BindRequest_CtxItems r = do { n \<leftarrow> BindRequest_NumCtxItems r; ctx_items (unat n) 28 r }"

definition RequestReq_AllocHint :: "slice \<Rightarrow> u32 option" where "RequestReq_AllocHint r = u32_in 16 20 r"
definition RequestReq_ContextId :: "slice \<Rightarrow> u16 option" where "RequestReq_ContextId r = u16_in 20 22 r"
definition RequestReq_Opnum :: "slice \<Rightarrow> u16 option" where "RequestReq_Opnum r = u16_in 22 24 r"
definition RequestReq_Data :: "slice \<Rightarrow> slice option" where "RequestReq_Data r = sl_from 24 r"

definition align2 :: "nat \<Rightarrow> nat" where "align2 n = nat (Align (int n) 2)"
definition align4 :: "nat \<Rightarrow> nat" where "align4 n = nat (Align (int n) 4)"

definition GetInfoRequest_ServerName :: "slice \<Rightarrow> string option" where
  "GetInfoRequest_ServerName r = do {
     n \<leftarrow> u32_from 12 r;
     (if len r < 16 + unat n * 2 then Some []
      else map_option (\<lambda>s. DecodeToString (vis s)) (sl_range 16 (16 + unat n * 2) r)) }"

definition GetInfoRequest_ShareName :: "slice \<Rightarrow> string option" where
  "GetInfoRequest_ShareName r = do {
     server \<leftarrow> GetInfoRequest_ServerName r;
     let off = 16 + align2 (length server) * 2;
     n \<leftarrow> u32_from (off + 8) r;
     (if len r < off + off + 12 + unat n * 2 then Some []
      else map_option (\<lambda>s. DecodeToString (vis s)) (sl_range (off + 12) (off + 12 + unat n * 2) r)) }"

definition GetInfoRequest_Level :: "slice \<Rightarrow> u32 option" where
  "GetInfoRequest_Level r = do {
     server \<leftarrow> GetInfoRequest_ServerName r;
     share \<leftarrow> GetInfoRequest_ShareName r;
     let off = 28 + align2 (length server) * 2 + align2 (length share) * 2;
     (if len r < off then Some 0 else u32_from off r) }"

subsection \<open>Strings\<close>

record UnicodeStr =
  MaxCount :: u32
  us_Offset :: u32
  ActualCount :: u32
  EncodedString :: "byte list"

text \<open>The counts are those of the bytes of the string, with the zero at its end.\<close>

definition makeUnicodeStr :: "string \<Rightarrow> UnicodeStr" where
  "makeUnicodeStr s =
     (let str = s @ [CHR 0x00] in
      \<lparr>MaxCount = of_nat (length str), us_Offset = 0, ActualCount = of_nat (length str), EncodedString = EncodeStringToBytes str\<rparr>)"

definition UnicodeStr_Size :: "UnicodeStr \<Rightarrow> nat" where
  "UnicodeStr_Size s = 12 + align4 (unat (ActualCount s * 2))"

definition UnicodeStr_Encode :: "nat \<Rightarrow> UnicodeStr \<Rightarrow> fields" where
  "UnicodeStr_Encode off s =
     [(off, le_enc 4 (MaxCount s)), (off + 4, le_enc 4 (us_Offset s)), (off + 8, le_enc 4 (ActualCount s)),
      (off + 12, EncodedString s)]"

subsection \<open>Enumerating the shares\<close>

record ShareInfo1 =
  si_Name :: UnicodeStr
  si_Type :: u32
  si_Comment :: UnicodeStr

record NetShareInfo1 =
  ni_Count :: u32
  ni_Pointer :: "ShareInfo1 list"

record NetShareCtr1 =
  nc1_Count :: u32
  nc1_Info :: NetShareInfo1

record NetShareCtr =
  nc_Ctr :: u32
  nc_Pointer :: NetShareCtr1

record NetShareEnumAllResponse =
  ea_Level :: u32
  ea_Ctr :: NetShareCtr
  ea_TotalEntries :: u32
  ea_ResumeHandle :: u32
  ea_WindowsError :: u32

definition ShareInfo1_Size :: "ShareInfo1 \<Rightarrow> nat" where
  "ShareInfo1_Size i = UnicodeStr_Size (si_Comment i) + UnicodeStr_Size (si_Name i) + 12"

definition NetShareInfo1_Size :: "NetShareInfo1 \<Rightarrow> nat" where
  "NetShareInfo1_Size n = 4 + sum_list (map ShareInfo1_Size (ni_Pointer n))"

fun info1_entries :: "nat \<Rightarrow> u32 \<Rightarrow> ShareInfo1 list \<Rightarrow> fields \<times> nat \<times> u32" where
  "info1_entries off ref [] = ([], off, ref)"
| "info1_entries off ref (i # is) =
     (let (fs, stop, ref') = info1_entries (off + 12) (ref + 2) is in
      ([(off, le_enc 4 ref), (off + 4, le_enc 4 (si_Type i)), (off + 8, le_enc 4 (ref + 1))] @ fs, stop, ref'))"

fun info1_strings :: "nat \<Rightarrow> ShareInfo1 list \<Rightarrow> fields" where
  "info1_strings off [] = []"
| "info1_strings off (i # is) =
     (let off2 = off + UnicodeStr_Size (si_Name i) in
      UnicodeStr_Encode off (si_Name i) @ UnicodeStr_Encode off2 (si_Comment i)
      @ info1_strings (off2 + UnicodeStr_Size (si_Comment i)) is)"

definition NetShareInfo1_Encode :: "nat \<Rightarrow> u32 \<Rightarrow> NetShareInfo1 \<Rightarrow> fields \<times> u32" where
  "NetShareInfo1_Encode off ref n =
     (let (fs, stop, ref') = info1_entries (off + 4) ref (ni_Pointer n) in
      ((off, le_enc 4 (ni_Count n)) # fs @ info1_strings stop (ni_Pointer n), ref'))"

definition NetShareCtr1_Size :: "NetShareCtr1 \<Rightarrow> nat" where
  "NetShareCtr1_Size n = NetShareInfo1_Size (nc1_Info n) + 8"

definition NetShareCtr1_Encode :: "nat \<Rightarrow> u32 \<Rightarrow> NetShareCtr1 \<Rightarrow> fields \<times> u32" where
  "NetShareCtr1_Encode off ref n =
     (let (fs, ref') = NetShareInfo1_Encode (off + 8) (ref + 1) (nc1_Info n) in
      ([(off, le_enc 4 (nc1_Count n)), (off + 4, le_enc 4 ref)] @ fs, ref'))"

definition NetShareCtr_Size :: "NetShareCtr \<Rightarrow> nat" where
  "NetShareCtr_Size n = (if nc_Ctr n = 1 then 8 + NetShareCtr1_Size (nc_Pointer n) else 0)"

definition NetShareCtr_Encode :: "nat \<Rightarrow> u32 \<Rightarrow> NetShareCtr \<Rightarrow> fields \<times> u32" where
  "NetShareCtr_Encode off ref n =
     (let (fs, ref') = NetShareCtr1_Encode (off + 8) (ref + 1) (nc_Pointer n) in
      ([(off, le_enc 4 (nc_Ctr n)), (off + 4, le_enc 4 ref)] @ fs, ref'))"

definition EnumAll_Size :: "NetShareEnumAllResponse \<Rightarrow> nat" where
  "EnumAll_Size r = 20 + NetShareCtr_Size (ea_Ctr r)"

definition EnumAll_Encode :: "nat \<Rightarrow> u32 \<Rightarrow> NetShareEnumAllResponse \<Rightarrow> fields \<times> u32" where
  "EnumAll_Encode base ref r =
     (let (fs, ref') = NetShareCtr_Encode (base + 4) ref (ea_Ctr r);
          off = base + 4 + NetShareCtr_Size (ea_Ctr r)
      in ((base, le_enc 4 (ea_Level r)) # fs
          @ [(off, le_enc 4 (ea_TotalEntries r)), (off + 4, le_enc 4 ref'), (off + 8, le_enc 4 (ea_ResumeHandle r)),
             (off + 12, le_enc 4 (ea_WindowsError r))], ref' + 1))"

definition MakeNetShareEnumAllResponse :: "string list \<Rightarrow> NetShareEnumAllResponse" where
  "MakeNetShareEnumAllResponse shs =
     (let n = of_nat (length shs);
          infos = map (\<lambda>s. \<lparr>si_Name = makeUnicodeStr s, si_Type = StypeDisktree, si_Comment = makeUnicodeStr []\<rparr>) shs
      in \<lparr>ea_Level = 1,
          ea_Ctr = \<lparr>nc_Ctr = 1, nc_Pointer = \<lparr>nc1_Count = n, nc1_Info = \<lparr>ni_Count = n, ni_Pointer = infos\<rparr>\<rparr>\<rparr>,
          ea_TotalEntries = n, ea_ResumeHandle = 0, ea_WindowsError = 0\<rparr>)"

subsection \<open>One share\<close>

record NetShareGetInfoResponse =
  gi_Level :: u32
  gi_Pointer :: ShareInfo1
  gi_WindowsError :: u32

definition MakeGetInfoShareResponse :: "string \<Rightarrow> NetShareGetInfoResponse" where
  "MakeGetInfoShareResponse share =
     \<lparr>gi_Level = 1, gi_Pointer = \<lparr>si_Name = makeUnicodeStr share, si_Type = StypeDisktree,
        si_Comment = makeUnicodeStr ''comment''\<rparr>, gi_WindowsError = 0\<rparr>"

definition GetInfo1_Encode :: "nat \<Rightarrow> u32 \<Rightarrow> ShareInfo1 \<Rightarrow> fields \<times> u32" where
  "GetInfo1_Encode off ref i =
     ([(off, le_enc 4 ref), (off + 4, le_enc 4 (si_Type i)), (off + 8, le_enc 4 (ref + 1))]
      @ UnicodeStr_Encode (off + 12) (si_Name i)
      @ UnicodeStr_Encode (off + 12 + UnicodeStr_Size (si_Name i)) (si_Comment i), ref + 2)"

definition GetInfo_Size :: "NetShareGetInfoResponse \<Rightarrow> nat" where
  "GetInfo_Size n = ShareInfo1_Size (gi_Pointer n) + 12"

definition GetInfo_Encode :: "nat \<Rightarrow> u32 \<Rightarrow> NetShareGetInfoResponse \<Rightarrow> fields \<times> u32" where
  "GetInfo_Encode base ref n =
     (let (fs, ref') = GetInfo1_Encode (base + 8) (ref + 1) (gi_Pointer n) in
      ([(base, le_enc 4 (gi_Level n)), (base + 4, le_enc 4 ref)] @ fs
       @ [(base + 8 + ShareInfo1_Size (gi_Pointer n), le_enc 4 (gi_WindowsError n))], ref'))"

subsection \<open>Answers\<close>

definition DCEHeader_encode :: "byte \<Rightarrow> nat \<Rightarrow> u32 \<Rightarrow> fields" where
  "DCEHeader_encode ty n call =
     [(0, [5]), (1, [0]), (2, [ty]), (3, [3]), (4, [0x10, 0, 0, 0]), (8, le_enc 2 (of_nat n :: u16)),
      (10, le_enc 2 (0 :: u16)), (12, le_enc 4 call)]"

record ContextResponseItem =
  cr_Result :: u32
  TransferUUID :: "byte list"
  TransferVersion :: u32

record DCEBindAck =
  ba_CallID :: u32
  MaxSendFragSize :: u16
  MaxRecvFragSize :: u16
  AssocGroupID :: u32
  SecAddrLen :: u16
  SecAddr :: "byte list"
  CtxCount :: byte
  CtxItems :: "ContextResponseItem list"

definition BindAck_Size :: "DCEBindAck \<Rightarrow> nat" where
  "BindAck_Size r = align2 (30 + unat (SecAddrLen r)) + unat (CtxCount r) * 24"

fun ack_items :: "nat \<Rightarrow> ContextResponseItem list \<Rightarrow> fields" where
  "ack_items off [] = []"
| "ack_items off (i # is) =
     [(off, le_enc 4 (cr_Result i)), (off + 4, TransferUUID i), (off + 20, le_enc 4 (TransferVersion i))] @ ack_items (off + 24) is"

definition frag_size :: "u16 \<Rightarrow> u16" where "frag_size n = (if n = 0 then 5840 else n)"

definition BindAck_Encode :: "DCEBindAck \<Rightarrow> fields" where
  "BindAck_Encode r =
     DCEHeader_encode PacketTypeBindAck (BindAck_Size r) (ba_CallID r)
     @ [(16, le_enc 2 (frag_size (MaxSendFragSize r))), (18, le_enc 2 (frag_size (MaxRecvFragSize r))),
        (20, le_enc 4 (AssocGroupID r)), (24, le_enc 2 (SecAddrLen r)), (26, SecAddr r), (39, [0]), (40, [CtxCount r])]
     @ ack_items 44 (CtxItems r)"

datatype rpc_data = EnumAll NetShareEnumAllResponse | GetInfo NetShareGetInfoResponse

fun data_Size :: "rpc_data \<Rightarrow> nat" where
  "data_Size (EnumAll r) = EnumAll_Size r"
| "data_Size (GetInfo r) = GetInfo_Size r"

fun data_Encode :: "nat \<Rightarrow> u32 \<Rightarrow> rpc_data \<Rightarrow> fields \<times> u32" where
  "data_Encode off ref (EnumAll r) = EnumAll_Encode off ref r"
| "data_Encode off ref (GetInfo r) = GetInfo_Encode off ref r"

record DCERequestRes =
  rr_CallID :: u32
  rr_AllocHint :: u32
  rr_ContextId :: u16
  rr_CancelCount :: byte
  rr_Data :: "rpc_data option"

definition RequestRes_Size :: "DCERequestRes \<Rightarrow> nat" where
  "RequestRes_Size r = (case rr_Data r of None \<Rightarrow> 24 | Some d \<Rightarrow> 24 + data_Size d)"

definition RequestRes_Encode :: "u32 \<Rightarrow> DCERequestRes \<Rightarrow> fields \<times> u32" where
  "RequestRes_Encode ref r =
     (let (fs, ref') = (case rr_Data r of None \<Rightarrow> ([], ref) | Some d \<Rightarrow> data_Encode 24 ref d) in
      (DCEHeader_encode PacketTypeResponse (RequestRes_Size r) (rr_CallID r)
       @ [(16, le_enc 4 (rr_AllocHint r)), (20, le_enc 2 (rr_ContextId r)), (22, [rr_CancelCount r])] @ fs, ref'))"

datatype rpc = Ack DCEBindAck | Res DCERequestRes

text \<open>\<^verbatim>\<open>make([]byte, rpc.Size())\<close> and \<^verbatim>\<open>rpc.Encode\<close>.\<close>

definition rpc_bytes :: "u32 \<Rightarrow> rpc \<Rightarrow> (byte list \<times> u32) option" where
  "rpc_bytes ref x =
     (case x of
        Ack a \<Rightarrow> map_option (\<lambda>bs. (bs, ref)) (puts (BindAck_Encode a) (zeros (BindAck_Size a)))
      | Res r \<Rightarrow> map_option (\<lambda>bs. (bs, snd (RequestRes_Encode ref r)))
          (puts (fst (RequestRes_Encode ref r)) (zeros (RequestRes_Size r))))"

end
