(* ===== verification/Ipc.thy ===== *)
theory Ipc
  imports SetInfo Dcerpc
begin

section \<open>The tree of IPC$\<close>

text \<open>
  \<^verbatim>\<open>smb/server/ipc_tree.go\<close>: one named pipe, \<^verbatim>\<open>srvsvc\<close>.  A remote procedure call is an IOCTL, or a WRITE that
  leaves the request in the tree (\<^verbatim>\<open>dceReq\<close>, \<open>None\<close> for \<^verbatim>\<open>nil\<close>) and a READ that answers it.  The answer of a call is
  encoded where the code makes it; the counter of references is a part of the server.
\<close>

definition ipc_tree :: "nat \<Rightarrow> conn \<Rightarrow> (treeConn \<times> string list \<times> slice option) option" where
  "ipc_tree ptr cn =
     (case obj_deref ptr (tree_objs cn) of
        Some (IpcTree tc shs req) \<Rightarrow> Some (tc, shs, req)
      | _ \<Rightarrow> None)"

definition set_dceReq :: "nat \<Rightarrow> slice option \<Rightarrow> conn \<Rightarrow> conn" where
  "set_dceReq ptr req cn =
     cn\<lparr>tree_objs := obj_modify ptr (\<lambda>t. case t of IpcTree tc shs _ \<Rightarrow> IpcTree tc shs req | t \<Rightarrow> t) (tree_objs cn)\<rparr>"

definition STATUS_FS_DRIVER_REQUIRED :: u32 where "STATUS_FS_DRIVER_REQUIRED = 0xC000019C"
definition STATUS_DATA_ERROR :: u32 where "STATUS_DATA_ERROR = 0xC000003E"
definition STATUS_INVALID_INFO_CLASS :: u32 where "STATUS_INVALID_INFO_CLASS = 0xC0000003"

abbreviation (input) "FSCTL_DFS_GET_REFERRALS \<equiv> (0x60194 :: u32)"
abbreviation (input) "FSCTL_PIPE_TRANSCEIVE \<equiv> (0x11C017 :: u32)"

definition no_times :: FileTimes where
  "no_times = \<lparr>CreationTime = Some zero_Filetime, LastAccessTime = Some zero_Filetime,
     LastWriteTime = Some zero_Filetime, ChangeTime = Some zero_Filetime\<rparr>"

subsection \<open>create, close, write\<close>

definition ipc_create :: "'a env \<Rightarrow> nat \<Rightarrow> nat option \<Rightarrow> slice \<Rightarrow> ('a, 'z) server_scheme \<Rightarrow> conn \<Rightarrow> ('a, 'z) outcome_of" where
  "ipc_create env ptr cp pkt srv cn = do {
     (tc, shs, req) \<leftarrow> ipc_tree ptr cn;
     sess \<leftarrow> tree_session tc cn;
     (r, err) \<leftarrow> accept SMB2_CREATE pkt;
     (if err \<noteq> None then Some (err, srv, cn)
      else do {
        inv \<leftarrow> CreateRequest_IsInvalid r;
        (if inv then Some (Some (InvalidRequestError ''broken create format''), srv, cn)
         else do {
           name \<leftarrow> CreateRequest_Name r;
           let pipe = (name = ''srvsvc'');
           reply env pkt tc cp (if pipe then 0 else STATUS_NOT_SUPPORTED)
             (CreateResponse 0 0 1 no_times 0 0 FILE_ATTRIBUTE_NORMAL (if pipe then fid_bytes (SRVSVC_GUID srv) else zeros 16) [])
             srv cn }) }) }"

definition ipc_close :: "'a env \<Rightarrow> nat \<Rightarrow> nat option \<Rightarrow> slice \<Rightarrow> ('a, 'z) server_scheme \<Rightarrow> conn \<Rightarrow> ('a, 'z) outcome_of" where
  "ipc_close env ptr cp pkt srv cn = do {
     (tc, shs, req) \<leftarrow> ipc_tree ptr cn;
     sess \<leftarrow> tree_session tc cn;
     (r, err) \<leftarrow> accept SMB2_CLOSE pkt;
     (if err \<noteq> None then Some (err, srv, cn)
      else do {
        inv \<leftarrow> CloseRequest_IsInvalid r;
        (if inv then Some (Some (InvalidRequestError ''broken close request''), srv, cn)
         else do {
           fid \<leftarrow> CloseRequest_FileId r;
           per \<leftarrow> sl_range 0 8 fid;
           (if vis per \<noteq> Persistent (SRVSVC_GUID srv)
            then Some (Some (InvalidRequestError ''bad file in close request''), srv, cn)
            else reply env pkt tc cp 0 (CloseResponse 0 no_times 0 0 FILE_ATTRIBUTE_NORMAL) srv cn) }) }) }"

definition ipc_flush :: "('a, 'z) server_scheme \<Rightarrow> conn \<Rightarrow> ('a, 'z) outcome_of" where
  "ipc_flush srv cn = Some (Some (InvalidRequestError ''invalid flush request for ipcTree''), srv, cn)"

text \<open>\<^verbatim>\<open>WriteRequestDecoder.Data\<close>, with \<^verbatim>\<open>nil\<close> told apart from an empty slice.\<close>

definition written_data :: "slice \<Rightarrow> slice option option" where
  "written_data r = do {
     d \<leftarrow> WriteRequest_Data r;
     off \<leftarrow> WriteRequest_DataOffset r;
     (if off < 64 then Some None
      else do {
        n \<leftarrow> WriteRequest_Length r;
        Some (if len r < unat (ucast (off - 64) + n :: u32) then None else Some d) }) }"

text \<open>The error of \<^verbatim>\<open>accept\<close> is not looked at, and the request is not checked.\<close>

definition ipc_write :: "'a env \<Rightarrow> nat \<Rightarrow> nat option \<Rightarrow> slice \<Rightarrow> ('a, 'z) server_scheme \<Rightarrow> conn \<Rightarrow> ('a, 'z) outcome_of" where
  "ipc_write env ptr cp pkt srv cn = do {
     (tc, shs, req) \<leftarrow> ipc_tree ptr cn;
     sess \<leftarrow> tree_session tc cn;
     r \<leftarrow> accepted SMB2_WRITE pkt;
     data \<leftarrow> written_data r;
     let n = (case data of None \<Rightarrow> 0 | Some d \<Rightarrow> len d);
     reply env pkt tc cp 0 (WriteResponse (of_nat n) 0) srv (set_dceReq ptr data cn) }"

subsection \<open>Remote procedure calls\<close>

text \<open>
  The answer to one context of a bind.  A context without transfer syntaxes panics: the code
  reports the wrong number and then takes the first.
\<close>

definition answer_item :: "ContextRequestItem \<Rightarrow> ContextResponseItem option" where
  "answer_item item =
     (let result = (if InterfaceUUID item \<noteq> SRVSVC_UUID then 1 else 0);
          result = (if length (TransferSyntaxes item) \<noteq> 1 then 2 else result)
      in case TransferSyntaxes item of
           [] \<Rightarrow> None
         | t # ts \<Rightarrow>
             let result = (if SyntaxUUID t \<noteq> NDR_UUID then 2 else result) in
             Some (if result = 0
               then \<lparr>cr_Result = 0, TransferUUID = SyntaxUUID t,
                      TransferVersion = push_bit 16 (ucast (ts_VersionMinor t)) OR ucast (ts_VersionMajor t)\<rparr>
               else \<lparr>cr_Result = result, TransferUUID = [], TransferVersion = 0\<rparr>))"

fun answer_items :: "ContextRequestItem list \<Rightarrow> ContextResponseItem list option" where
  "answer_items [] = Some []"
| "answer_items (i # is) = do { x \<leftarrow> answer_item i; xs \<leftarrow> answer_items is; Some (x # xs) }"

definition ipcTreeBindReq :: "slice \<Rightarrow> rpc option" where
  "ipcTreeBindReq req = do {
     is \<leftarrow> BindRequest_CtxItems req;
     xs \<leftarrow> answer_items is;
     recv \<leftarrow> BindRequest_MaxRecvFragSize req;
     send \<leftarrow> BindRequest_MaxSendFragSize req;
     hdr \<leftarrow> DCERequest_Header req;
     Some (Ack \<lparr>ba_CallID = dce_CallID hdr, MaxSendFragSize = send, MaxRecvFragSize = recv, AssocGroupID = 0xcc21,
       SecAddrLen = 13, SecAddr = ascii (CHR 0x5C # ''pipe'' @ CHR 0x5C # ''srvsvc'') @ [0],
       CtxCount = of_nat (length xs), CtxItems = xs\<rparr>) }"

definition ipcTreeReq :: "string list \<Rightarrow> slice \<Rightarrow> (error + rpc) option" where
  "ipcTreeReq shs req = do {
     op \<leftarrow> RequestReq_Opnum req;
     data \<leftarrow> (if op = OpNetShareEnumAll then Some (Some (EnumAll (MakeNetShareEnumAllResponse shs)))
       else if op = OpNetShareGetInfo
       then do {
         d \<leftarrow> RequestReq_Data req;
         name \<leftarrow> GetInfoRequest_ShareName d;
         Some (Some (GetInfo (MakeGetInfoShareResponse name))) }
       else Some None);
     hdr \<leftarrow> DCERequest_Header req;
     (case data of
        None \<Rightarrow> Some (Inl (RequestError STATUS_NOT_SUPPORTED))
      | Some d \<Rightarrow> do {
          rest \<leftarrow> RequestReq_Data req;
          Some (Inr (Res \<lparr>rr_CallID = dce_CallID hdr, rr_AllocHint = 0, rr_ContextId = 0, rr_CancelCount = 0,
            rr_Data = Some d\<rparr>)) }) }"

subsection \<open>read and ioctl\<close>

definition ipc_read :: "'a env \<Rightarrow> nat \<Rightarrow> nat option \<Rightarrow> slice \<Rightarrow> ('a, 'z) server_scheme \<Rightarrow> conn \<Rightarrow> ('a, 'z) outcome_of" where
  "ipc_read env ptr cp pkt srv cn = do {
     (tc, shs, req) \<leftarrow> ipc_tree ptr cn;
     sess \<leftarrow> tree_session tc cn;
     (case req of
        None \<Rightarrow> reply env pkt tc cp 0 (ReadResponse [] 0) srv cn
      | Some req \<Rightarrow>
          if DCERequest_IsInvalid req then deny env pkt tc cp 0 srv cn
          else do {
            hdr \<leftarrow> DCERequest_Header req;
            x \<leftarrow> (if dce_PacketType hdr = PacketTypeBind then map_option Inr (ipcTreeBindReq req)
              else if dce_PacketType hdr = PacketTypeRequest then ipcTreeReq shs req
              else Some (Inl (InvalidRequestError ''invalid read request for ipcTree'')));
            (case x of
               Inl e \<Rightarrow> deny env pkt tc cp STATUS_DATA_ERROR srv cn
             | Inr rpc \<Rightarrow> do {
                 (bs, ref) \<leftarrow> rpc_bytes (refIds srv) rpc;
                 reply env pkt tc cp 0 (ReadResponse bs 0) (srv\<lparr>refIds := ref\<rparr>) (set_dceReq ptr None cn) }) }) }"

definition ipc_ioctl :: "'a env \<Rightarrow> nat \<Rightarrow> nat option \<Rightarrow> slice \<Rightarrow> ('a, 'z) server_scheme \<Rightarrow> conn \<Rightarrow> ('a, 'z) outcome_of" where
  "ipc_ioctl env ptr cp pkt srv cn = do {
     (tc, shs, req) \<leftarrow> ipc_tree ptr cn;
     sess \<leftarrow> tree_session tc cn;
     (r, err) \<leftarrow> accept SMB2_IOCTL pkt;
     (if err \<noteq> None then Some (err, srv, cn)
      else do {
        inv \<leftarrow> IoctlRequest_IsInvalid r;
        (if inv then Some (Some (InvalidRequestError ''broken ioctl request''), srv, cn)
         else do {
           ctl \<leftarrow> IoctlRequest_CtlCode r;
           fid \<leftarrow> IoctlRequest_FileId r;
           fid \<leftarrow> FileIdDecoder_Decode fid;
           (if ctl = FSCTL_DFS_GET_REFERRALS then deny env pkt tc cp STATUS_FS_DRIVER_REQUIRED srv cn
            else if ctl \<noteq> FSCTL_PIPE_TRANSCEIVE \<or> fid \<noteq> SRVSVC_GUID srv then deny env pkt tc cp STATUS_NOT_SUPPORTED srv cn
            else do {
              d \<leftarrow> IoctlRequest_Data r;
              hdr \<leftarrow> DCERequest_Header d;
              (if dce_PacketType hdr \<noteq> PacketTypeRequest \<and> dce_PacketType hdr \<noteq> PacketTypeBind
               then deny env pkt tc cp STATUS_NOT_SUPPORTED srv cn
               else do {
                 x \<leftarrow> (if dce_PacketType hdr = PacketTypeRequest then ipcTreeReq shs d else map_option Inr (ipcTreeBindReq d));
                 (case x of
                    Inl (RequestError code) \<Rightarrow> deny env pkt tc cp code srv cn
                  | Inl (InvalidRequestError e) \<Rightarrow> deny env pkt tc cp STATUS_NOT_SUPPORTED srv cn
                  | Inl _ \<Rightarrow> deny env pkt tc cp STATUS_ACCESS_DENIED srv cn
                  | Inr rpc \<Rightarrow> do {
                      (bs, ref) \<leftarrow> rpc_bytes (refIds srv) rpc;
                      ioctl_done env pkt tc cp FSCTL_PIPE_TRANSCEIVE (SRVSVC_GUID srv) (Some bs) (srv\<lparr>refIds := ref\<rparr>) cn }) }) }) }) }) }"

subsection \<open>queryInfo\<close>

definition pipe_all_info :: all_info where
  "pipe_all_info = \<lparr>ai_CreationTime = zero_Filetime, ai_LastAccessTime = zero_Filetime, ai_LastWriteTime = zero_Filetime,
     ai_ChangeTime = zero_Filetime, ai_FileAttributes = FILE_ATTRIBUTE_NORMAL, ai_AllocationSize = 0, ai_EndOfFile = 0,
     ai_NumberOfLinks = 1, ai_DeletePending = 0, ai_Directory = 0, ai_IndexNumber = 0, ai_EaSize = 0,
     ai_AccessFlags = 0x80000000 OR GENERIC_WRITE OR READ_CONTROL, ai_CurrentByteOffset = 0, ai_Mode = 0x10,
     ai_AlignmentRequirement = 0, ai_FileName = ''srvsvc''\<rparr>"

definition pipe_info :: "byte \<Rightarrow> info option" where
  "pipe_info class =
     (let z = zero_Filetime in
      if class = 4 then Some (FileBasicInformationInfo z z z z FILE_ATTRIBUTE_NORMAL)
      else if class = 5 then Some (FileStandardInformationInfo 0 0 1 0 0)
      else if class = 6 then Some (FileInternalInformationInfo 0)
      else if class = 7 then Some (FileEaInformationInfo 0)
      else if class = 34 then Some (FileNetworkOpenInformationInfo z z z z 0 0 FILE_ATTRIBUTE_NORMAL)
      else if class = 18 then Some (FileAllInformationInfo pipe_all_info)
      else None)"

definition ipc_queryInfo :: "'a env \<Rightarrow> nat \<Rightarrow> nat option \<Rightarrow> slice \<Rightarrow> ('a, 'z) server_scheme \<Rightarrow> conn \<Rightarrow> ('a, 'z) outcome_of" where
  "ipc_queryInfo env ptr cp pkt srv cn = do {
     (tc, shs, req) \<leftarrow> ipc_tree ptr cn;
     sess \<leftarrow> tree_session tc cn;
     (r, err) \<leftarrow> accept SMB2_QUERY_INFO pkt;
     (if err \<noteq> None then Some (err, srv, cn)
      else do {
        inv \<leftarrow> QueryInfoRequest_IsInvalid r;
        (if inv then Some (Some (InvalidRequestError ''broken query info request for ipcTree''), srv, cn)
         else do {
           fid \<leftarrow> QueryInfoRequest_FileId r;
           fid \<leftarrow> FileIdDecoder_Decode fid;
           (if fid \<noteq> SRVSVC_GUID srv then deny env pkt tc cp STATUS_INVALID_HANDLE srv cn
            else do {
              ty \<leftarrow> QueryInfoRequest_InfoType r;
              room \<leftarrow> QueryInfoRequest_OutputBufferLength r;
              (if ty = SMB2_0_INFO_SECURITY
               then do {
                 ai \<leftarrow> QueryInfoRequest_AdditionalInformation r;
                 let sd = reported_descriptor ai;
                 (if unat room < SD_Size sd
                  then reply env pkt tc cp STATUS_BUFFER_TOO_SMALL
                    (ErrorResponse (Some (OtherErrorData (SmallBufferError_Encode (of_nat (SD_Size sd)))))) srv cn
                  else do {
                    b \<leftarrow> SD_Encode sd (zeros (SD_Size sd));
                    reply env pkt tc cp 0 (QueryInfoResponse (Some b)) srv cn }) }
               else if ty = SMB2_0_INFO_FILE
               then do {
                 class \<leftarrow> QueryInfoRequest_FileInfoClass r;
                 (case pipe_info class of
                    None \<Rightarrow> deny env pkt tc cp STATUS_INVALID_INFO_CLASS srv cn
                  | Some i \<Rightarrow> send_info env pkt tc cp (Some i) room srv cn) }
               else deny env pkt tc cp STATUS_NOT_SUPPORTED srv cn) }) }) }) }"

subsection \<open>All methods\<close>

text \<open>CANCEL, QUERY_DIRECTORY, CHANGE_NOTIFY, SET_INFO, LOCK and OPLOCK_BREAK are not supported.\<close>

definition ipc_unsupported :: "'a env \<Rightarrow> nat \<Rightarrow> nat option \<Rightarrow> slice \<Rightarrow> ('a, 'z) server_scheme \<Rightarrow> conn \<Rightarrow> ('a, 'z) outcome_of" where
  "ipc_unsupported env ptr cp pkt srv cn = do {
     (tc, shs, req) \<leftarrow> ipc_tree ptr cn;
     sess \<leftarrow> tree_session tc cn;
     deny env pkt tc cp STATUS_NOT_SUPPORTED srv cn }"

definition ipc_ops :: "'a env \<Rightarrow> ('a, 'z) tree_ops" where
  "ipc_ops env cmd ptr cp pkt srv cn =
     (if cmd = SMB2_CREATE then ipc_create env ptr cp pkt srv cn
      else if cmd = SMB2_CLOSE then ipc_close env ptr cp pkt srv cn
      else if cmd = SMB2_FLUSH then ipc_flush srv cn
      else if cmd = SMB2_READ then ipc_read env ptr cp pkt srv cn
      else if cmd = SMB2_WRITE then ipc_write env ptr cp pkt srv cn
      else if cmd = SMB2_IOCTL then ipc_ioctl env ptr cp pkt srv cn
      else if cmd = SMB2_QUERY_INFO then ipc_queryInfo env ptr cp pkt srv cn
      else ipc_unsupported env ptr cp pkt srv cn)"

text \<open>The methods of \<^verbatim>\<open>treeOps\<close>, chosen by the tree, which closes the loop of the server.\<close>

definition tree_methods :: "'a env \<Rightarrow> 's file_env \<Rightarrow> u16 \<Rightarrow> nat \<Rightarrow> nat option \<Rightarrow> slice \<Rightarrow> ('a, 's) file_server \<Rightarrow> conn
     \<Rightarrow> ('a, 's) file_outcome" where
  "tree_methods env fe cmd ptr cp pkt srv cn =
     (case obj_deref ptr (tree_objs cn) of
        Some (IpcTree tc shs req) \<Rightarrow> ipc_ops env cmd ptr cp pkt srv cn
      | _ \<Rightarrow> file_ops env fe cmd ptr cp pkt srv cn)"

definition serve_request :: "'a env \<Rightarrow> 's file_env \<Rightarrow> nat option \<Rightarrow> slice \<Rightarrow> ('a, 's) file_server \<Rightarrow> conn \<Rightarrow> ('a, 's) file_outcome" where
  "serve_request env fe cp pkt srv cn = handle env (tree_methods env fe) cp pkt srv cn"

end
