(* ===== verification/Msrpc.thy ===== *)
theory Msrpc
  imports Dcerpc
begin

section \<open>The client's side of remote procedure calls\<close>

text \<open>
  \<^verbatim>\<open>internal/msrpc/msrpc.go\<close>: what a client sends to bind to \<^verbatim>\<open>srvsvc\<close> and to enumerate shares, and
  how it reads the answers.
\<close>

abbreviation (input) "OP_NET_SHARE_ENUM \<equiv> (15 :: u16)"

definition msrpc_roundup :: "nat \<Rightarrow> nat \<Rightarrow> nat" where
  "msrpc_roundup x align = nat (Roundup (int x) (int align))"

subsection \<open>Requests\<close>

definition Bind_Size :: nat where "Bind_Size = 72"

definition Bind_Encode :: "u32 \<Rightarrow> fields" where
  "Bind_Encode call =
     [(0, [5]), (1, [0]), (2, [11]), (3, [3]), (4, [0x10]), (5, [0]), (6, [0]), (7, [0]), (8, le_enc 2 (72 :: u16)),
      (10, le_enc 2 (0 :: u16)), (12, le_enc 4 call), (16, le_enc 2 (4280 :: u16)), (18, le_enc 2 (4280 :: u16)),
      (20, le_enc 4 (0 :: u32)), (24, le_enc 4 (1 :: u32)), (28, le_enc 2 (0 :: u16)), (30, le_enc 2 (1 :: u16)),
      (32, SRVSVC_UUID), (48, le_enc 2 (3 :: u16)), (50, le_enc 2 (0 :: u16)), (52, NDR_UUID), (68, le_enc 4 (2 :: u32))]"

definition Bind_bytes :: "u32 \<Rightarrow> byte list option" where
  "Bind_bytes call = puts (Bind_Encode call) (zeros Bind_Size)"

record NetShareEnumAllRequest =
  er_CallId :: u32
  er_ServerName :: string
  er_Level :: u32

definition EnumRequest_Size :: "NetShareEnumAllRequest \<Rightarrow> nat" where
  "EnumRequest_Size r = msrpc_roundup (40 + EncodedStringLen (er_ServerName r) + 2) 4 + 24 + 4"

definition EnumRequest_Encode :: "NetShareEnumAllRequest \<Rightarrow> fields" where
  "EnumRequest_Encode r =
     (let count = EncodedStringLen (er_ServerName r) div 2 + 1;
          off = msrpc_roundup (40 + count * 2) 4;
          stop = off + 28
      in [(0, [5]), (1, [0]), (2, [0]), (3, [3]), (4, [0x10]), (5, [0]), (6, [0]), (7, [0]), (10, le_enc 2 (0 :: u16)),
          (12, le_enc 4 (er_CallId r)), (20, le_enc 2 (0 :: u16)), (22, le_enc 2 OP_NET_SHARE_ENUM),
          (24, le_enc 4 (0x20000 :: u32)), (28, le_enc 4 (of_nat count :: u32)), (32, le_enc 4 (0 :: u32)),
          (36, le_enc 4 (of_nat count :: u32)), (40, EncodeStringToBytes (er_ServerName r)),
          (off, le_enc 4 (er_Level r)), (off + 4, le_enc 4 (1 :: u32)), (off + 8, le_enc 4 (0x20004 :: u32)),
          (off + 12, le_enc 4 (0 :: u32)), (off + 16, le_enc 4 (0 :: u32)), (off + 20, le_enc 4 (0xffffffff :: u32)),
          (off + 24, le_enc 4 (0 :: u32)), (8, le_enc 2 (of_nat stop :: u16)), (16, le_enc 4 (of_nat (stop - 24) :: u32))])"

definition EnumRequest_bytes :: "NetShareEnumAllRequest \<Rightarrow> byte list option" where
  "EnumRequest_bytes r = puts (EnumRequest_Encode r) (zeros (EnumRequest_Size r))"

subsection \<open>Answers\<close>

text \<open>The accessors of both decoders; they read the header at the same places.\<close>

definition rpc_Version :: "slice \<Rightarrow> byte option" where "rpc_Version r = sl_at 0 r"
definition rpc_VersionMinor :: "slice \<Rightarrow> byte option" where "rpc_VersionMinor r = sl_at 1 r"
definition rpc_PacketType :: "slice \<Rightarrow> byte option" where "rpc_PacketType r = sl_at 2 r"
definition rpc_PacketFlags :: "slice \<Rightarrow> byte option" where "rpc_PacketFlags r = sl_at 3 r"
definition rpc_DataRepresentation :: "slice \<Rightarrow> slice option" where "rpc_DataRepresentation r = sl_range 4 8 r"
definition rpc_FragLength :: "slice \<Rightarrow> u16 option" where "rpc_FragLength r = u16_in 8 10 r"
definition rpc_AuthLength :: "slice \<Rightarrow> u16 option" where "rpc_AuthLength r = u16_in 10 12 r"
definition rpc_CallId :: "slice \<Rightarrow> u32 option" where "rpc_CallId r = u32_in 12 16 r"

definition BindAck_MaxXmitFrag :: "slice \<Rightarrow> u16 option" where "BindAck_MaxXmitFrag r = u16_in 16 18 r"
definition BindAck_MaxRecvFrag :: "slice \<Rightarrow> u16 option" where "BindAck_MaxRecvFrag r = u16_in 18 20 r"
definition BindAck_AssocGroupId :: "slice \<Rightarrow> u32 option" where "BindAck_AssocGroupId r = u32_in 20 24 r"
definition EnumResponse_AllocHint :: "slice \<Rightarrow> u32 option" where "EnumResponse_AllocHint r = u32_in 16 20 r"
definition EnumResponse_ContextId :: "slice \<Rightarrow> u16 option" where "EnumResponse_ContextId r = u16_in 20 22 r"
definition EnumResponse_CancelCount :: "slice \<Rightarrow> byte option" where "EnumResponse_CancelCount r = sl_at 22 r"
definition EnumResponse_Buffer :: "slice \<Rightarrow> slice option" where "EnumResponse_Buffer r = sl_from 24 r"

definition rpc_invalid :: "byte \<Rightarrow> slice \<Rightarrow> bool option" where
  "rpc_invalid ty r =
     (if len r < 24 then Some True
      else do {
        v \<leftarrow> rpc_Version r;
        vm \<leftarrow> rpc_VersionMinor r;
        pt \<leftarrow> rpc_PacketType r;
        Some (v \<noteq> 5 \<or> vm \<noteq> 0 \<or> pt \<noteq> ty) })"

definition BindAck_IsInvalid :: "slice \<Rightarrow> bool option" where "BindAck_IsInvalid r = rpc_invalid 12 r"
definition EnumResponse_IsInvalid :: "slice \<Rightarrow> bool option" where "EnumResponse_IsInvalid r = rpc_invalid 2 r"

text \<open>The end of the string at an offset, or \<open>None\<close> if the answer ends before it.\<close>

definition string_end :: "nat \<Rightarrow> slice \<Rightarrow> nat option option" where
  "string_end off r =
     (if len r < off + 12 then Some None
      else do {
        noff \<leftarrow> u32_in (off + 4) (off + 8) r;
        n \<leftarrow> u32_in (off + 8) (off + 12) r;
        let stop = msrpc_roundup (off + 12 + unat noff + unat n * 2) 4;
        Some (if len r < stop then None else Some stop) })"

fun strings_incomplete :: "nat \<Rightarrow> nat \<Rightarrow> slice \<Rightarrow> bool option" where
  "strings_incomplete 0 off r = Some False"
| "strings_incomplete (Suc k) off r = do {
     x \<leftarrow> string_end off r;
     (case x of None \<Rightarrow> Some True | Some off \<Rightarrow> strings_incomplete k off r) }"

definition EnumResponse_IsIncomplete :: "slice \<Rightarrow> bool option" where
  "EnumResponse_IsIncomplete r =
     (if len r < 48 then Some True
      else do {
        level \<leftarrow> u32_in 24 28 r;
        n \<leftarrow> u32_in 36 40 r;
        let count = unat n;
        (if level = 0
         then if len r < 48 + count * 4 then Some True else strings_incomplete count (48 + count * 4) r
         else if level = 1
         then if len r < 48 + count * 12 then Some True else strings_incomplete (2 * count) (48 + count * 12) r
         else Some True) })"

text \<open>The string at an offset, and where the next begins; a comment is passed over.\<close>

definition name_at :: "nat \<Rightarrow> slice \<Rightarrow> (string \<times> nat) option" where
  "name_at off r = do {
     noff \<leftarrow> u32_in (off + 4) (off + 8) r;
     n \<leftarrow> u32_in (off + 8) (off + 12) r;
     let lo = off + 12 + unat noff;
     s \<leftarrow> sl_range lo (lo + unat n * 2) r;
     Some (DecodeToString (vis s), msrpc_roundup (lo + unat n * 2) 4) }"

definition after_comment :: "nat \<Rightarrow> slice \<Rightarrow> nat option" where
  "after_comment off r = do {
     noff \<leftarrow> u32_in (off + 4) (off + 8) r;
     n \<leftarrow> u32_in (off + 8) (off + 12) r;
     Some (msrpc_roundup (off + 12 + unat noff + unat n * 2) 4) }"

fun names_from :: "bool \<Rightarrow> nat \<Rightarrow> nat \<Rightarrow> slice \<Rightarrow> string list option" where
  "names_from comments 0 off r = Some []"
| "names_from comments (Suc k) off r = do {
     (s, off) \<leftarrow> name_at off r;
     off \<leftarrow> (if comments then after_comment off r else Some off);
     ss \<leftarrow> names_from comments k off r;
     Some (s # ss) }"

text \<open>A level that is neither 0 nor 1 gives \<^verbatim>\<open>nil\<close>.\<close>

definition EnumResponse_ShareNameList :: "slice \<Rightarrow> string list option" where
  "EnumResponse_ShareNameList r = do {
     level \<leftarrow> u32_in 24 28 r;
     n \<leftarrow> u32_in 36 40 r;
     let count = unat n;
     (if level = 0 then names_from False count (48 + count * 4) r
      else if level = 1 then names_from True count (48 + count * 12) r
      else Some []) }"

end
