(* ===== verification/IpcProps.thy ===== *)
theory IpcProps
  imports Ipc Msrpc Access
begin

section \<open>What the pipe of IPC$ guarantees\<close>

subsection \<open>Fields one after another\<close>

fun ascending :: "nat \<Rightarrow> fields \<Rightarrow> nat \<Rightarrow> bool" where
  "ascending lo [] hi \<longleftrightarrow> lo \<le> hi"
| "ascending lo ((off, bs) # fs) hi \<longleftrightarrow> lo \<le> off \<and> ascending (off + length bs) fs hi"

lemma ascending_le: "ascending lo fs hi \<Longrightarrow> lo \<le> hi"
  by (induction lo fs hi rule: ascending.induct) auto

lemma ascending_weaken: "lo \<le> lo' \<Longrightarrow> ascending lo' fs hi \<Longrightarrow> ascending lo fs hi"
  by (cases fs) auto

lemma ascending_append: "ascending lo fs mid \<Longrightarrow> ascending mid gs hi \<Longrightarrow> ascending lo (fs @ gs) hi"
  by (induction lo fs mid rule: ascending.induct) (auto intro: ascending_weaken)

lemma ascending_fits: "ascending lo fs hi \<Longrightarrow> fits hi fs"
  by (induction lo fs hi rule: ascending.induct) (auto dest: ascending_le)

lemma ascending_apart: "ascending lo fs hi \<Longrightarrow> a + n \<le> lo \<Longrightarrow> apart a n fs"
  by (induction lo fs hi rule: ascending.induct) auto

lemma rd_ascending:
  "ascending lo fs hi \<Longrightarrow> hi \<le> length b \<Longrightarrow> (off, bs) \<in> set fs \<Longrightarrow> rd off (length bs) (wrs fs b) = bs"
proof (induction fs arbitrary: lo b)
  case (Cons f fs)
  obtain o1 bs1 where f: "f = (o1, bs1)" by fastforce
  have asc: "ascending (o1 + length bs1) fs hi" "o1 + length bs1 \<le> hi"
    using Cons.prems(1) by (auto simp: f dest: ascending_le)
  have l: "length (wr o1 bs1 b) = length b" using asc(2) Cons.prems(2) by (simp add: length_wr)
  show ?case
  proof (cases "(off, bs) = f")
    case True
    then have "rd off (length bs) (wrs fs (wr o1 bs1 b)) = rd off (length bs) (wr o1 bs1 b)"
      using rd_wrs_apart[of "wr o1 bs1 b" fs off "length bs"] ascending_fits[OF asc(1)] ascending_apart[OF asc(1)] Cons.prems(2) l
      by (metis f fits_mono le_refl prod.inject)
    then show ?thesis using True f asc(2) Cons.prems(2) by (simp add: rd_wr_same)
  next
    case False
    then show ?thesis using Cons.IH[OF asc(1)] Cons.prems(2,3) l by (auto simp: f)
  qed
qed simp

subsection \<open>Strings\<close>

lemma align4_eq: "align4 n = 4 * ((n + 3) div 4)"
proof -
  have "Align (int n) 4 = 4 * ((int n + 3) div 4)"
    using int_and_not_mask[of "int n + 3" 2] by (simp add: Align_def mask_eq_exp_minus_1 add.commute)
  then show ?thesis by (simp add: align4_def nat_mult_distrib nat_div_distrib nat_add_distrib)
qed

lemma msrpc_roundup_4: "msrpc_roundup n 4 = align4 n"
  by (simp add: msrpc_roundup_def align4_def Roundup_Align)

lemma align4_ge: "n \<le> align4 n"
  unfolding align4_eq by presburger

lemma align4_add: "off mod 4 = 0 \<Longrightarrow> align4 (off + n) = off + align4 n"
  unfolding align4_eq by presburger

lemma align4_mod: "align4 n mod 4 = 0"
  by (simp add: align4_eq)

definition plain :: "string \<Rightarrow> bool" where
  "plain s \<longleftrightarrow> list_all (\<lambda>ch. of_char ch < (128 :: nat)) s"

lemma runes_plain: "plain s \<Longrightarrow> runes s = map of_char s"
proof -
  have "list_all (\<lambda>b. b < 128) bs \<Longrightarrow> runes_of bs = bs" for bs
  proof (induction bs)
    case (Cons b bs)
    then show ?case by (simp add: runes_of.simps[of "b # bs"] DecodeRune.simps)
  qed (simp add: runes_of.simps)
  then show "plain s \<Longrightarrow> runes s = map of_char s"
    by (simp add: runes_def bytes_of_string_def plain_def list_all_iff)
qed

lemma utf16_plain: "list_all (\<lambda>b. b < 128) bs \<Longrightarrow> utf16_Encode bs = map of_nat bs"
  by (induction bs) auto

lemma string_of_plain: "plain s \<Longrightarrow> string_of_runes (map of_char s) = s"
  by (induction s) (auto simp: plain_def string_of_runes_def utf8_of_rune_def scalar_def)

lemma encode_plain: "plain s \<Longrightarrow> s \<noteq> [] \<Longrightarrow> EncodeStringToBytes s = word_bytes (map (\<lambda>ch. of_nat (of_char ch)) s)"
  using utf16_plain[of "map of_char s"] runes_plain[of s] by (simp add: EncodeStringToBytes_def plain_def list_all_iff comp_def)

lemma plain_zero: "plain s \<Longrightarrow> plain (s @ [CHR 0x00])"
  by (simp add: plain_def)

lemma length_zero_ended: "plain s \<Longrightarrow> length (EncodeStringToBytes (s @ [CHR 0x00])) = 2 * (length s + 1)"
  using encode_plain[OF plain_zero] by simp

lemma decode_zero_ended:
  assumes "plain s"
  shows "DecodeToString (EncodeStringToBytes (s @ [CHR 0x00])) = s"
proof -
  let ?ws = "map (\<lambda>ch. of_nat (of_char ch)) s :: u16 list"
  have e: "EncodeStringToBytes (s @ [CHR 0x00]) = word_bytes (?ws @ [0])"
    using encode_plain[OF plain_zero[OF assms]] by simp
  have ws: "?ws = utf16_Encode (map of_char s)"
    using utf16_plain[of "map of_char s"] assms by (simp add: plain_def list_all_iff comp_def)
  have "list_all scalar (map of_char s)"
    using assms by (auto simp: plain_def list_all_iff scalar_def)
  then have d: "utf16_Decode ?ws = map of_char s"
    unfolding ws by (rule utf16_Decode_Encode)
  have "word_bytes (?ws @ [0]) \<noteq> []"
    by (metis length_0_conv length_word_bytes length_append_singleton mult_eq_0_iff nat.distinct(1) zero_neq_numeral)
  then show ?thesis
    unfolding e using d string_of_plain[OF assms] by (simp add: DecodeToString_def del: of_nat_of_char)
qed

text \<open>A string that is short enough for its counts.\<close>

definition small_name :: "string \<Rightarrow> bool" where
  "small_name s \<longleftrightarrow> plain s \<and> length s < 2 ^ 30"

lemma unicode_str:
  assumes "small_name s"
  shows "ActualCount (makeUnicodeStr s) = of_nat (length s + 1)" "unat (ActualCount (makeUnicodeStr s)) = length s + 1"
    "UnicodeStr_Size (makeUnicodeStr s) = 12 + align4 (2 * (length s + 1))"
    "length (EncodedString (makeUnicodeStr s)) = 2 * (length s + 1)"
    "us_Offset (makeUnicodeStr s) = 0"
    "DecodeToString (EncodedString (makeUnicodeStr s)) = s"
proof -
  have small: "length s + 1 < 2 ^ 31" using assms by (simp add: small_name_def)
  show c: "ActualCount (makeUnicodeStr s) = of_nat (length s + 1)" by (simp add: makeUnicodeStr_def)
  show u: "unat (ActualCount (makeUnicodeStr s)) = length s + 1"
    unfolding c using small by (simp only: unat_of_nat) simp
  have "ActualCount (makeUnicodeStr s) * 2 = of_nat ((length s + 1) * 2)"
    unfolding c by simp
  then have "unat (ActualCount (makeUnicodeStr s) * 2) = (length s + 1) * 2"
    using small by (simp only: unat_of_nat) simp
  then show "UnicodeStr_Size (makeUnicodeStr s) = 12 + align4 (2 * (length s + 1))"
    by (simp add: UnicodeStr_Size_def mult.commute)
  show "length (EncodedString (makeUnicodeStr s)) = 2 * (length s + 1)" "DecodeToString (EncodedString (makeUnicodeStr s)) = s"
    using assms length_zero_ended decode_zero_ended by (simp_all add: makeUnicodeStr_def small_name_def)
  show "us_Offset (makeUnicodeStr s) = 0" by (simp add: makeUnicodeStr_def)
qed

subsection \<open>The list of shares\<close>

definition share_info :: "string \<Rightarrow> ShareInfo1" where
  "share_info s = \<lparr>si_Name = makeUnicodeStr s, si_Type = StypeDisktree, si_Comment = makeUnicodeStr []\<rparr>"

lemma share_info_simps [simp]: "si_Name (share_info s) = makeUnicodeStr s" "si_Comment (share_info s) = makeUnicodeStr []"
  by (simp_all add: share_info_def)

lemma small_empty [simp]: "small_name []"
  by (simp add: small_name_def plain_def)

definition name_room :: "string \<Rightarrow> nat" where
  "name_room s = 28 + align4 (2 * (length s + 1))"

lemma name_room_parts:
  assumes "small_name s"
  shows "UnicodeStr_Size (makeUnicodeStr s) + UnicodeStr_Size (makeUnicodeStr []) = name_room s"
    "ShareInfo1_Size (share_info s) = 12 + name_room s" "name_room s mod 4 = 0"
proof -
  have e: "align4 2 = 4" by (simp add: align4_eq)
  show "UnicodeStr_Size (makeUnicodeStr s) + UnicodeStr_Size (makeUnicodeStr []) = name_room s"
    "ShareInfo1_Size (share_info s) = 12 + name_room s"
    using unicode_str(3)[OF assms] unicode_str(3)[OF small_empty] by (simp_all add: name_room_def ShareInfo1_Size_def e)
  show "name_room s mod 4 = 0" unfolding name_room_def align4_eq by presburger
qed

lemma entries_ascending:
  "info1_entries off ref (map share_info shs) = (fs, stop, ref') \<Longrightarrow> stop = off + 12 * length shs \<and> ascending off fs stop"
proof (induction shs arbitrary: off ref fs)
  case (Cons s shs)
  obtain gs where gs: "info1_entries (off + 12) (ref + 2) (map share_info shs) = (gs, stop, ref')"
    using Cons.prems by (auto split: prod.splits)
  then show ?case using Cons.IH[OF gs] Cons.prems by (auto simp: ac_simps)
qed simp

lemma string_ascending: "small_name s \<Longrightarrow> ascending off (UnicodeStr_Encode off (makeUnicodeStr s)) (off + UnicodeStr_Size (makeUnicodeStr s))"
  using unicode_str(3,4)[of s] align4_ge[of "2 * (length s + 1)"] by (simp add: UnicodeStr_Encode_def)

lemma strings_ascending:
  "list_all small_name shs \<Longrightarrow> ascending off (info1_strings off (map share_info shs)) (off + sum_list (map name_room shs))"
proof (induction shs arbitrary: off)
  case (Cons s shs)
  let ?o2 = "off + UnicodeStr_Size (makeUnicodeStr s)"
  have o3: "?o2 + UnicodeStr_Size (makeUnicodeStr []) = off + name_room s"
    using name_room_parts(1)[of s] Cons.prems by simp
  have small: "small_name s" "list_all small_name shs" using Cons.prems by simp_all
  note two = ascending_append[OF string_ascending[OF small(1), of off]
      ascending_append[OF string_ascending[OF small_empty, of ?o2, unfolded o3] Cons.IH[OF small(2), of "off + name_room s"]]]
  show ?case
    using two by (simp only: info1_strings.simps list.map share_info_simps Let_def o3 sum_list.Cons add.assoc[symmetric])
qed simp

text \<open>Reading one string of the list.\<close>

lemma string_reads:
  assumes "\<And>o1 bs. (o1, bs) \<in> set (UnicodeStr_Encode off (makeUnicodeStr s)) \<Longrightarrow> rd o1 (length bs) (vis r) = bs"
    and "off + UnicodeStr_Size (makeUnicodeStr s) \<le> len r" "small_name s" "off mod 4 = 0"
  shows "name_at off r = Some (s, off + UnicodeStr_Size (makeUnicodeStr s))"
    "after_comment off r = Some (off + UnicodeStr_Size (makeUnicodeStr s))"
    "string_end off r = Some (Some (off + UnicodeStr_Size (makeUnicodeStr s)))"
proof -
  note us = unicode_str[OF assms(3)]
  let ?n = "2 * (length s + 1)"
  have room: "off + 12 + ?n \<le> len r" using assms(2) us(3) align4_ge[of ?n] by simp
  have rds: "rd (off + 4) 4 (vis r) = le_enc 4 (0 :: u32)" "rd (off + 8) 4 (vis r) = le_enc 4 (of_nat (length s + 1) :: u32)"
    "rd (off + 12) ?n (vis r) = EncodedString (makeUnicodeStr s)"
    using assms(1)[of "off + 4"] assms(1)[of "off + 8"] assms(1)[of "off + 12" "EncodedString (makeUnicodeStr s)"] us(1,4,5)
    by (simp_all add: UnicodeStr_Encode_def)
  have f: "u32_in (off + 4) (off + 8) r = Some 0" "u32_in (off + 8) (off + 12) r = Some (of_nat (length s + 1))"
    using rds room by (simp_all add: u32_in_in rd_vis le_dec_enc_full del: le_dec.simps of_nat_add of_nat_Suc)
  have n: "unat (of_nat (length s + 1) :: u32) * 2 = ?n" using us(1,2) by simp
  have stop: "msrpc_roundup (off + 12 + ?n) 4 = off + UnicodeStr_Size (makeUnicodeStr s)"
    using align4_add[of "off + 12" ?n] assms(4) us(3) by (simp add: msrpc_roundup_4 mod_add_eq[symmetric])
  have sl: "sl_range (off + 12) (off + 12 + ?n) r = Some (Slice (rd (off + 12) ?n (vis r)) (drop (off + 12 + ?n) (vis r) @ ext r))"
    using room by (simp add: sl_range_in rd_def)
  show "name_at off r = Some (s, off + UnicodeStr_Size (makeUnicodeStr s))"
    unfolding name_at_def using f n sl rds(3) us(6) stop by (simp del: of_nat_add of_nat_Suc)
  show "after_comment off r = Some (off + UnicodeStr_Size (makeUnicodeStr s))"
    unfolding after_comment_def using f n stop by (simp del: of_nat_add of_nat_Suc)
  show "string_end off r = Some (Some (off + UnicodeStr_Size (makeUnicodeStr s)))"
    unfolding string_end_def using f n stop assms(2) room by (simp del: of_nat_add of_nat_Suc)
qed

lemma names_read:
  assumes "\<And>o1 bs. (o1, bs) \<in> set (info1_strings off (map share_info shs)) \<Longrightarrow> rd o1 (length bs) (vis r) = bs"
    and "off + sum_list (map name_room shs) \<le> len r" "list_all small_name shs" "off mod 4 = 0"
  shows "names_from True (length shs) off r = Some shs \<and> strings_incomplete (2 * length shs) off r = Some False"
  using assms
proof (induction shs arbitrary: off)
  case (Cons s shs)
  let ?o2 = "off + UnicodeStr_Size (makeUnicodeStr s)"
  have small: "small_name s" using Cons.prems(3) by simp
  have o3: "?o2 + UnicodeStr_Size (makeUnicodeStr []) = off + name_room s" using name_room_parts(1)[OF small] by simp
  have mods: "?o2 mod 4 = 0" "(off + name_room s) mod 4 = 0"
    using Cons.prems(4) name_room_parts(3)[OF small] unicode_str(3)[OF small] align4_mod[of "2 * (length s + 1)"]
    by (simp_all add: mod_add_eq[symmetric])
  have l: "?o2 + UnicodeStr_Size (makeUnicodeStr []) \<le> len r" "?o2 \<le> len r" using Cons.prems(2) o3 by simp_all
  have one: "name_at off r = Some (s, ?o2)" "string_end off r = Some (Some ?o2)"
    using string_reads[of off s r] Cons.prems(1,4) l(2) small by (simp_all add: Let_def)
  have two: "after_comment ?o2 r = Some (off + name_room s)" "string_end ?o2 r = Some (Some (off + name_room s))"
    using string_reads[of ?o2 "[]" r] Cons.prems(1) mods(1) l(1) o3 by (simp_all add: Let_def)
  have "names_from True (length shs) (off + name_room s) r = Some shs
      \<and> strings_incomplete (2 * length shs) (off + name_room s) r = Some False"
    by (rule Cons.IH) (use Cons.prems mods o3 in \<open>auto simp: Let_def\<close>)
  then show ?case using one two by simp
qed simp

subsection \<open>The answer to an enumeration\<close>

definition enum_reply :: "u32 \<Rightarrow> string list \<Rightarrow> DCERequestRes" where
  "enum_reply call shs = \<lparr>rr_CallID = call, rr_AllocHint = 0, rr_ContextId = 0, rr_CancelCount = 0,
     rr_Data = Some (EnumAll (MakeNetShareEnumAllResponse shs))\<rparr>"

definition reply_length :: "string list \<Rightarrow> nat" where
  "reply_length shs = 64 + 12 * length shs + sum_list (map name_room shs)"

lemma make_enum:
  "MakeNetShareEnumAllResponse shs = \<lparr>ea_Level = 1, ea_Ctr = \<lparr>nc_Ctr = 1, nc_Pointer = \<lparr>nc1_Count = of_nat (length shs),
     nc1_Info = \<lparr>ni_Count = of_nat (length shs), ni_Pointer = map share_info shs\<rparr>\<rparr>\<rparr>,
     ea_TotalEntries = of_nat (length shs), ea_ResumeHandle = 0, ea_WindowsError = 0\<rparr>"
  by (simp add: MakeNetShareEnumAllResponse_def share_info_def Let_def)

lemma enum_sizes:
  assumes "list_all small_name shs"
  shows "NetShareCtr_Size (ea_Ctr (MakeNetShareEnumAllResponse shs)) = 20 + 12 * length shs + sum_list (map name_room shs)"
    "RequestRes_Size (enum_reply call shs) = reply_length shs"
proof -
  have "sum_list (map ShareInfo1_Size (map share_info shs)) = 12 * length shs + sum_list (map name_room shs)"
    using assms name_room_parts(2) by (induction shs) auto
  then show "NetShareCtr_Size (ea_Ctr (MakeNetShareEnumAllResponse shs)) = 20 + 12 * length shs + sum_list (map name_room shs)"
    by (simp add: make_enum NetShareCtr_Size_def NetShareCtr1_Size_def NetShareInfo1_Size_def)
  then show "RequestRes_Size (enum_reply call shs) = reply_length shs"
    by (simp add: RequestRes_Size_def enum_reply_def EnumAll_Size_def reply_length_def)
qed

text \<open>The fields of the answer: fixed ones, the entries, the strings, and the end.\<close>

lemma enum_fields:
  assumes "list_all small_name shs"
  obtains mid last ref' where
    "RequestRes_Encode ref (enum_reply call shs) = (DCEHeader_encode PacketTypeResponse (reply_length shs) call
       @ [(16, le_enc 4 (0 :: u32)), (20, le_enc 2 (0 :: u16)), (22, [0]), (24, le_enc 4 (1 :: u32)), (28, le_enc 4 (1 :: u32)),
          (32, le_enc 4 ref), (36, le_enc 4 (of_nat (length shs) :: u32)), (40, le_enc 4 (ref + 1)), (44, le_enc 4 (of_nat (length shs) :: u32))]
       @ mid @ info1_strings (48 + 12 * length shs) (map share_info shs) @ last, ref')"
    "ascending 48 mid (48 + 12 * length shs)" "ascending (reply_length shs - 16) last (reply_length shs)"
proof -
  obtain mid stop ref' where mid: "info1_entries 48 (ref + 2) (map share_info shs) = (mid, stop, ref')"
    by (metis prod_cases3)
  have stop: "stop = 48 + 12 * length shs" "ascending 48 mid stop"
    using entries_ascending[OF mid] by blast+
  let ?off = "48 + 12 * length shs + sum_list (map name_room shs)"
  let ?last = "[(?off, le_enc 4 (of_nat (length shs) :: u32)), (?off + 4, le_enc 4 ref'), (?off + 8, le_enc 4 (0 :: u32)), (?off + 12, le_enc 4 (0 :: u32))]"
  have ctr: "NetShareCtr_Encode 28 ref (ea_Ctr (MakeNetShareEnumAllResponse shs))
      = ([(28, le_enc 4 (1 :: u32)), (32, le_enc 4 ref), (36, le_enc 4 (of_nat (length shs) :: u32)), (40, le_enc 4 (ref + 1)),
          (44, le_enc 4 (of_nat (length shs) :: u32))] @ mid @ info1_strings stop (map share_info shs), ref')"
    using mid by (simp add: make_enum NetShareCtr_Encode_def NetShareCtr1_Encode_def NetShareInfo1_Encode_def add.assoc)
  have all: "EnumAll_Encode 24 ref (MakeNetShareEnumAllResponse shs)
      = ((24, le_enc 4 (1 :: u32)) # ([(28, le_enc 4 (1 :: u32)), (32, le_enc 4 ref), (36, le_enc 4 (of_nat (length shs) :: u32)),
          (40, le_enc 4 (ref + 1)), (44, le_enc 4 (of_nat (length shs) :: u32))] @ mid @ info1_strings stop (map share_info shs)) @ ?last, ref' + 1)"
    using ctr enum_sizes(1)[OF assms] by (simp add: EnumAll_Encode_def make_enum)
  show thesis
  proof (rule that[of mid ?last "ref' + 1"])
    show "ascending 48 mid (48 + 12 * length shs)" by (rule stop(2)[unfolded stop(1)])
    show "ascending (reply_length shs - 16) ?last (reply_length shs)" by (simp add: reply_length_def)
    show "RequestRes_Encode ref (enum_reply call shs) = (DCEHeader_encode PacketTypeResponse (reply_length shs) call
       @ [(16, le_enc 4 (0 :: u32)), (20, le_enc 2 (0 :: u16)), (22, [0]), (24, le_enc 4 (1 :: u32)), (28, le_enc 4 (1 :: u32)),
          (32, le_enc 4 ref), (36, le_enc 4 (of_nat (length shs) :: u32)), (40, le_enc 4 (ref + 1)), (44, le_enc 4 (of_nat (length shs) :: u32))]
       @ mid @ info1_strings (48 + 12 * length shs) (map share_info shs) @ ?last, ref' + 1)"
      using all enum_sizes(2)[OF assms, of call] by (simp add: RequestRes_Encode_def enum_reply_def stop(1))
  qed
qed

lemma enum_reply_read:
  assumes "list_all small_name shs" "length shs < 2 ^ 32"
  shows "\<exists>bs ref'. rpc_bytes ref (Res (enum_reply call shs)) = Some (bs, ref') \<and> length bs = reply_length shs
    \<and> rpc_CallId (Slice bs ex) = Some call
    \<and> EnumResponse_IsInvalid (Slice bs ex) = Some False \<and> EnumResponse_IsIncomplete (Slice bs ex) = Some False
    \<and> EnumResponse_ShareNameList (Slice bs ex) = Some shs"
proof -
  let ?n = "length shs" and ?N = "reply_length shs"
  obtain mid last ref' where f: "RequestRes_Encode ref (enum_reply call shs) = (DCEHeader_encode PacketTypeResponse ?N call
       @ [(16, le_enc 4 (0 :: u32)), (20, le_enc 2 (0 :: u16)), (22, [0]), (24, le_enc 4 (1 :: u32)), (28, le_enc 4 (1 :: u32)),
          (32, le_enc 4 ref), (36, le_enc 4 (of_nat ?n :: u32)), (40, le_enc 4 (ref + 1)), (44, le_enc 4 (of_nat ?n :: u32))]
       @ mid @ info1_strings (48 + 12 * ?n) (map share_info shs) @ last, ref')"
    "ascending 48 mid (48 + 12 * ?n)" "ascending (?N - 16) last ?N"
    using enum_fields[OF assms(1)] by blast
  let ?str = "info1_strings (48 + 12 * ?n) (map share_info shs)"
  let ?fs = "fst (RequestRes_Encode ref (enum_reply call shs))"
  have "?N - 16 = 48 + 12 * ?n + sum_list (map name_room shs)" by (simp add: reply_length_def)
  then have "ascending (48 + 12 * ?n + sum_list (map name_room shs)) last ?N" using f(3) by simp
  then have tail: "ascending 48 (mid @ ?str @ last) ?N"
    by (rule ascending_append[OF f(2) ascending_append[OF strings_ascending[OF assms(1)]]])
  then have asc: "ascending 0 ?fs ?N" unfolding f(1) by (simp add: DCEHeader_encode_def)
  let ?b = "wrs ?fs (zeros ?N)" and ?r = "Slice (wrs ?fs (zeros ?N)) ex"
  have fits: "fits (length (zeros ?N)) ?fs" using ascending_fits[OF asc] by simp
  have bytes: "rpc_bytes ref (Res (enum_reply call shs)) = Some (?b, ref')"
    using puts_wrs[OF fits] f(1) enum_sizes(2)[OF assms(1), of call] by (simp add: rpc_bytes_def)
  have l: "length ?b = ?N" using length_wrs[OF fits] by simp
  have rds: "rd o1 (length bs) ?b = bs" if "(o1, bs) \<in> set ?fs" for o1 bs
    using rd_ascending[OF asc _ that, of "zeros ?N"] by simp
  have N: "64 + 12 * ?n \<le> ?N" by (simp add: reply_length_def)
  have fixed: "rd 12 4 ?b = le_enc 4 call" "rd 24 4 ?b = le_enc 4 (1 :: u32)" "rd 36 4 ?b = le_enc 4 (of_nat ?n :: u32)"
    "rd 0 1 ?b = [5]" "rd 1 1 ?b = [0]" "rd 2 1 ?b = [2]"
    using rds[of 12 "le_enc 4 call"] rds[of 24 "le_enc 4 (1 :: u32)"] rds[of 36 "le_enc 4 (of_nat ?n :: u32)"]
      rds[of 0 "[5]"] rds[of 1 "[0]"] rds[of 2 "[2]"] unfolding f(1) DCEHeader_encode_def by simp_all
  have words: "u32_in 12 16 ?r = Some call" "u32_in 24 28 ?r = Some 1" "u32_in 36 40 ?r = Some (of_nat ?n)"
    using fixed l N by (simp_all add: u32_in_in rd_def le_dec_enc_full del: le_dec.simps le_enc.simps)
  have at: "sl_at i ?r = Some x" if "rd i 1 ?b = [x]" for i x
    using that by (cases "drop i ?b") (auto simp: rd_def sl_at_def len_def nth_via_drop drop_eq_Nil[symmetric] not_le[symmetric] simp del: drop_eq_Nil)
  have invalid: "EnumResponse_IsInvalid ?r = Some False"
    using at[OF fixed(4)] at[OF fixed(5)] at[OF fixed(6)] l N
    by (simp add: EnumResponse_IsInvalid_def rpc_invalid_def rpc_Version_def rpc_VersionMinor_def rpc_PacketType_def)
  have n: "unat (of_nat ?n :: u32) = ?n" using assms(2) by (simp add: unat_of_nat)
  have "names_from True ?n (48 + 12 * ?n) ?r = Some shs \<and> strings_incomplete (2 * ?n) (48 + 12 * ?n) ?r = Some False"
  proof (rule names_read[OF _ _ assms(1)])
    fix o1 bs assume "(o1, bs) \<in> set ?str"
    then have "(o1, bs) \<in> set ?fs" unfolding f(1) by simp
    then show "rd o1 (length bs) (vis ?r) = bs" using rds by simp
  next
    show "48 + 12 * ?n + sum_list (map name_room shs) \<le> len ?r" using l by (simp add: reply_length_def)
    show "(48 + 12 * ?n) mod 4 = 0" by presburger
  qed
  then show ?thesis
    using bytes l words(1) invalid words(2,3) N n
    by (intro exI[of _ ?b] exI[of _ ref']) (simp add: EnumResponse_IsIncomplete_def EnumResponse_ShareNameList_def rpc_CallId_def mult.commute)
qed

subsection \<open>Requests\<close>

lemma header_read:
  assumes "16 \<le> len r"
  obtains h where "DCERequest_Header r = Some h" "dce_CallID h = le_dec (rd 12 4 (vis r))" "dce_PacketType h = vis r ! 2"
  using assms that
  by (simp add: DCERequest_Header_def sl_at_in array_from_def sl_from_in u16_in_in u32_in_in rd_vis)

lemma length_encoded: "length (EncodeStringToBytes s) = EncodedStringLen s" "even (EncodedStringLen s)"
proof -
  have "EncodedStringLen s = 2 * length (utf16_Encode (runes s))"
    using length_utf16_Encode[of "runes s"] by (simp add: EncodedStringLen_def)
  moreover have "s = [] \<Longrightarrow> EncodedStringLen s = 0"
    by (simp add: EncodedStringLen_def runes_def bytes_of_string_def runes_of.simps)
  ultimately show "length (EncodeStringToBytes s) = EncodedStringLen s" "even (EncodedStringLen s)"
    by (auto simp: EncodeStringToBytes_def)
qed

lemma enum_request_read:
  obtains req where "EnumRequest_bytes r = Some req" "68 \<le> length req" "rd 22 2 req = le_enc 2 (15 :: u16)" "rd 12 4 req = le_enc 4 (er_CallId r)"
proof -
  let ?k = "EncodedStringLen (er_ServerName r)"
  have k: "?k div 2 * 2 = ?k" using length_encoded(2)[of "er_ServerName r"] by simp
  let ?off = "align4 (42 + ?k)"
  have off: "42 + ?k \<le> ?off" by (rule align4_ge)
  have count: "40 + (?k div 2 + 1) * 2 = 42 + ?k" using k by simp
  have n: "EnumRequest_Size r = ?off + 28" by (simp add: EnumRequest_Size_def msrpc_roundup_4 add.commute)
  have fits: "fits (length (zeros (EnumRequest_Size r))) (EnumRequest_Encode r)"
    using off unfolding n EnumRequest_Encode_def Let_def count msrpc_roundup_4 by (simp add: length_encoded(1))
  have at: "field_at (EnumRequest_Encode r) 22 2 = Some (le_enc 2 (15 :: u16))" "field_at (EnumRequest_Encode r) 12 4 = Some (le_enc 4 (er_CallId r))"
    using off unfolding EnumRequest_Encode_def Let_def count msrpc_roundup_4 by (simp_all del: le_enc.simps)
  show thesis
  proof (rule that)
    show "EnumRequest_bytes r = Some (wrs (EnumRequest_Encode r) (zeros (EnumRequest_Size r)))"
      using puts_wrs[OF fits] by (simp add: EnumRequest_bytes_def)
    show "68 \<le> length (wrs (EnumRequest_Encode r) (zeros (EnumRequest_Size r)))"
      using length_wrs[OF fits] off by (simp add: n)
  qed (use rd_wrs[OF fits] at in auto)
qed

text \<open>Reading a byte, and the first half of a field.\<close>

lemma sl_at_rd: "rd off n (vis r) = bs \<Longrightarrow> length bs = n \<Longrightarrow> off \<le> i \<Longrightarrow> i < off + n \<Longrightarrow> sl_at i r = Some (bs ! (i - off))"
proof -
  assume a: "rd off n (vis r) = bs" "length bs = n" "off \<le> i" "i < off + n"
  then have "n \<le> length (vis r) - off" by (auto simp: rd_def)
  then have "i < length (vis r)" using a(3,4) by linarith
  then show ?thesis using a by (auto simp: sl_at_def len_def rd_def)
qed

lemma array_from_rd: "rd off n (vis r) = bs \<Longrightarrow> length bs = n \<Longrightarrow> 0 < n \<Longrightarrow> array_from n off r = Some bs"
  by (auto simp: array_from_def sl_from_def len_def rd_def)

lemma u16_in_rd: "rd off 2 (vis r) = le_enc 2 x \<Longrightarrow> off + 2 \<le> len r \<Longrightarrow> u16_in off (off + 2) r = Some x"
  by (simp add: u16_in_in rd_vis le_dec_enc_full del: le_dec.simps le_enc.simps)

lemma length_uuids [simp]: "length SRVSVC_UUID = 16" "length NDR_UUID = 16"
  by (simp_all add: SRVSVC_UUID_def NDR_UUID_def)

lemma bind_bytes_read:
  obtains req where "Bind_bytes call = Some req" "length req = 72" "\<And>off bs. (off, bs) \<in> set (Bind_Encode call) \<Longrightarrow> rd off (length bs) req = bs"
proof -
  have asc: "ascending 0 (Bind_Encode call) 72"
    by (simp add: Bind_Encode_def)
  note fits = ascending_fits[OF asc]
  show thesis
    by (rule that[of "wrs (Bind_Encode call) (zeros 72)"])
      (use puts_wrs[of "zeros 72"] fits length_wrs[of "zeros 72"] rd_ascending[OF asc] in \<open>simp_all add: Bind_bytes_def Bind_Size_def\<close>)
qed

definition srvsvc_ack :: "u32 \<Rightarrow> DCEBindAck" where
  "srvsvc_ack call = \<lparr>ba_CallID = call, MaxSendFragSize = 4280, MaxRecvFragSize = 4280, AssocGroupID = 0xcc21,
     SecAddrLen = 13, SecAddr = ascii (CHR 0x5C # ''pipe'' @ CHR 0x5C # ''srvsvc'') @ [0],
     CtxCount = 1, CtxItems = [\<lparr>cr_Result = 0, TransferUUID = NDR_UUID, TransferVersion = 2\<rparr>]\<rparr>"

lemma bind_answer:
  assumes "length req = 72" "\<And>off bs. (off, bs) \<in> set (Bind_Encode call) \<Longrightarrow> rd off (length bs) req = bs"
  shows "ipcTreeBindReq (Slice req ex) = Some (Ack (srvsvc_ack call))"
proof -
  let ?r = "Slice req ex"
  have e: "le_enc 4 (1 :: u32) = [1, 0, 0, 0]" "le_enc 2 (1 :: u16) = [1, 0]" "le_enc 4 (2 :: u32) = [2, 0, 0, 0]"
    "le_enc 2 (2 :: u16) = [2, 0]" "le_enc 2 (0 :: u16) = [0, 0]"
    by code_simp+
  have rds: "rd 12 4 req = le_enc 4 call" "rd 16 2 req = le_enc 2 (4280 :: u16)" "rd 18 2 req = le_enc 2 (4280 :: u16)"
    "rd 24 4 req = le_enc 4 (1 :: u32)" "rd 28 2 req = le_enc 2 (0 :: u16)" "rd 30 2 req = le_enc 2 (1 :: u16)" "rd 32 16 req = SRVSVC_UUID"
    "rd 48 2 req = le_enc 2 (3 :: u16)" "rd 50 2 req = le_enc 2 (0 :: u16)" "rd 52 16 req = NDR_UUID" "rd 68 4 req = le_enc 4 (2 :: u32)"
    using assms(2)[of 12] assms(2)[of 16] assms(2)[of 18] assms(2)[of 24] assms(2)[of 28] assms(2)[of 30] assms(2)[of 32]
      assms(2)[of 48] assms(2)[of 50] assms(2)[of 52] assms(2)[of 68]
    by (simp_all add: Bind_Encode_def del: le_enc.simps)
  have r68: "rd 68 2 req = le_enc 2 (2 :: u16)" "rd 70 2 req = le_enc 2 (0 :: u16)"
  proof -
    have "rd 68 2 req = take 2 (rd 68 4 req)" "rd 70 2 req = drop 2 (rd 68 4 req)"
      by (simp_all add: rd_def drop_take min_def)
    then show "rd 68 2 req = le_enc 2 (2 :: u16)" "rd 70 2 req = le_enc 2 (0 :: u16)" unfolding rds(11) e by simp_all
  qed
  have ats: "sl_at 24 ?r = Some 1" "sl_at 30 ?r = Some 1"
    using sl_at_rd[of 24 4 ?r "[1, 0, 0, 0]" 24] sl_at_rd[of 30 2 ?r "[1, 0]" 30] rds(4,6)[unfolded e] by simp_all
  have arrays: "array_from 16 32 ?r = Some SRVSVC_UUID" "array_from 16 52 ?r = Some NDR_UUID"
    using array_from_rd[of 32 16 ?r] array_from_rd[of 52 16 ?r] rds(7,10) by simp_all
  have words: "u16_in 16 18 ?r = Some 4280" "u16_in 18 20 ?r = Some 4280" "u16_in 28 30 ?r = Some 0" "u16_in 48 50 ?r = Some 3"
    "u16_in 50 52 ?r = Some 0" "u16_in 68 70 ?r = Some 2" "u16_in 70 72 ?r = Some 0"
    using u16_in_rd[of 16 ?r] u16_in_rd[of 18 ?r] u16_in_rd[of 28 ?r] u16_in_rd[of 48 ?r] u16_in_rd[of 50 ?r] u16_in_rd[of 68 ?r]
      u16_in_rd[of 70 ?r] rds(2,3,5,8,9) r68 assms(1) by (simp_all del: le_enc.simps)
  have items: "BindRequest_CtxItems ?r = Some [\<lparr>ContextID = 0, TransferSyntaxCount = 1, InterfaceUUID = SRVSVC_UUID, cri_VersionMajor = 3,
      cri_VersionMinor = 0, TransferSyntaxes = [\<lparr>SyntaxUUID = NDR_UUID, ts_VersionMajor = 2, ts_VersionMinor = 0\<rparr>]\<rparr>]"
    using ats arrays words by (simp add: BindRequest_CtxItems_def BindRequest_NumCtxItems_def)
  obtain h where h: "DCERequest_Header ?r = Some h" "dce_CallID h = le_dec (rd 12 4 req)"
    using header_read[of ?r] assms(1) by auto
  have "dce_CallID h = call" unfolding h(2) rds(1) by (simp add: le_dec_enc_full del: le_dec.simps le_enc.simps)
  then show ?thesis
    using items h(1) words(1,2)
    by (simp add: ipcTreeBindReq_def answer_item_def BindRequest_MaxRecvFragSize_def BindRequest_MaxSendFragSize_def srvsvc_ack_def)
qed

lemma ack_read:
  "\<exists>bs. rpc_bytes ref (Ack (srvsvc_ack call)) = Some (bs, ref) \<and> BindAck_IsInvalid (Slice bs ex) = Some False \<and> rpc_CallId (Slice bs ex) = Some call"
proof -
  let ?a = "srvsvc_ack call"
  have sz: "BindAck_Size ?a = 68" by (simp add: BindAck_Size_def srvsvc_ack_def align2_def Align_def) 
  have asc: "ascending 0 (BindAck_Encode ?a) 68"
    by (simp add: BindAck_Encode_def DCEHeader_encode_def srvsvc_ack_def ascii_def)
  let ?b = "wrs (BindAck_Encode ?a) (zeros 68)"
  have rds: "rd 12 4 ?b = le_enc 4 call" "rd 0 1 ?b = [5]" "rd 1 1 ?b = [0]" "rd 2 1 ?b = [12]"
    using rd_ascending[OF asc, of "zeros 68" 12 "le_enc 4 call"] rd_ascending[OF asc, of "zeros 68" 0 "[5]"]
      rd_ascending[OF asc, of "zeros 68" 1 "[0]"] rd_ascending[OF asc, of "zeros 68" 2 "[12]"]
    by (simp_all add: BindAck_Encode_def DCEHeader_encode_def srvsvc_ack_def del: le_enc.simps)
  have l: "length ?b = 68" using length_wrs[of "zeros 68"] ascending_fits[OF asc] by simp
  have "BindAck_IsInvalid (Slice ?b ex) = Some False"
    using sl_at_rd[of 0 1 "Slice ?b ex" "[5]" 0] sl_at_rd[of 1 1 "Slice ?b ex" "[0]" 1] sl_at_rd[of 2 1 "Slice ?b ex" "[12]" 2] rds(2-4) l
    by (simp add: BindAck_IsInvalid_def rpc_invalid_def rpc_Version_def rpc_VersionMinor_def rpc_PacketType_def)
  moreover have "rpc_CallId (Slice ?b ex) = Some call"
    using rds(1) l by (simp add: rpc_CallId_def u32_in_in rd_def le_dec_enc_full del: le_dec.simps le_enc.simps)
  moreover have "rpc_bytes ref (Ack ?a) = Some (?b, ref)"
    using puts_wrs[of "zeros 68"] ascending_fits[OF asc] by (simp add: rpc_bytes_def sz)
  ultimately show ?thesis by blast
qed

subsection \<open>Properties\<close>

text \<open>
  C37. A client gets the names of the shares.  For names of ASCII characters, the server understands the
  request that the client of the package encodes, and the client reads from the encoded answer
  exactly the names of the shares, in order, and the number of its call; the answer is
  complete and has the length that was computed for it.
\<close>

theorem shares_are_enumerated:
  assumes "list_all small_name shs" "length shs < 2 ^ 32"
  shows "\<exists>req rpc bs ref'. EnumRequest_bytes r = Some req \<and> ipcTreeReq shs (Slice req ex) = Some (Inr rpc)
    \<and> rpc_bytes ref rpc = Some (bs, ref') \<and> rpc_CallId (Slice bs ex') = Some (er_CallId r)
    \<and> EnumResponse_IsInvalid (Slice bs ex') = Some False \<and> EnumResponse_IsIncomplete (Slice bs ex') = Some False
    \<and> EnumResponse_ShareNameList (Slice bs ex') = Some shs"
proof -
  obtain req where req: "EnumRequest_bytes r = Some req" "68 \<le> length req" "rd 22 2 req = le_enc 2 (15 :: u16)"
      "rd 12 4 req = le_enc 4 (er_CallId r)"
    by (rule enum_request_read)
  obtain h where h: "DCERequest_Header (Slice req ex) = Some h" "dce_CallID h = le_dec (rd 12 4 req)"
    using header_read[of "Slice req ex"] req(2) by auto
  have call: "dce_CallID h = er_CallId r" unfolding h(2) req(4) by (simp add: le_dec_enc_full del: le_dec.simps le_enc.simps)
  have op: "RequestReq_Opnum (Slice req ex) = Some 15"
    using req(2,3) by (simp add: RequestReq_Opnum_def u16_in_in rd_def le_dec_enc_full del: le_dec.simps le_enc.simps)
  have "ipcTreeReq shs (Slice req ex) = Some (Inr (Res (enum_reply (er_CallId r) shs)))"
    using op h(1) call req(2) by (simp add: ipcTreeReq_def RequestReq_Data_def sl_from_in enum_reply_def)
  then show ?thesis
    using req(1) enum_reply_read[OF assms, of ref "er_CallId r" ex'] by blast
qed

lemma shares_are_enumerated_witness:
  "\<exists>req rpc bs ref'. EnumRequest_bytes \<lparr>er_CallId = 7, er_ServerName = ''h'', er_Level = 1\<rparr> = Some req
    \<and> ipcTreeReq [''media'', ''a''] (Slice req []) = Some (Inr rpc) \<and> rpc_bytes 0x10000 rpc = Some (bs, ref')
    \<and> EnumResponse_ShareNameList (Slice bs []) = Some [''media'', ''a'']"
  using shares_are_enumerated[where shs = "[''media'', ''a'']" and r = "\<lparr>er_CallId = 7, er_ServerName = ''h'', er_Level = 1\<rparr>"
    and ex = "[]" and ref = "0x10000" and ex' = "[]"]
  by (auto simp: small_name_def plain_def)

text \<open>
  A client can bind to the pipe: the server accepts the one context of the bind that the client of the
  package encodes, with the transfer syntax that it offers, and the client finds the encoded
  answer valid, with the number of its call.
\<close>

theorem bind_is_accepted:
  "\<exists>req ack bs. Bind_bytes call = Some req \<and> ipcTreeBindReq (Slice req ex) = Some (Ack ack)
    \<and> map cr_Result (CtxItems ack) = [0] \<and> map TransferUUID (CtxItems ack) = [NDR_UUID]
    \<and> rpc_bytes ref (Ack ack) = Some (bs, ref) \<and> BindAck_IsInvalid (Slice bs ex') = Some False \<and> rpc_CallId (Slice bs ex') = Some call"
proof -
  obtain req where "Bind_bytes call = Some req" "ipcTreeBindReq (Slice req ex) = Some (Ack (srvsvc_ack call))"
    using bind_bytes_read[of call] bind_answer[of _ call ex] by metis
  then show ?thesis using ack_read[of ref call ex'] by (fastforce simp: srvsvc_ack_def)
qed

text \<open>
  The arguments of NetrShareGetInfo as NDR encodes them: a pointer to the name of the server, that name and
  the name of the share as conformant varying strings - maximum, offset, count, characters with a
  final zero, padded to a multiple of four bytes - and the level.
\<close>

definition ndr_string :: "nat \<Rightarrow> string \<Rightarrow> fields" where
  "ndr_string off s = UnicodeStr_Encode off (makeUnicodeStr s)"

definition get_info_fields :: "string \<Rightarrow> string \<Rightarrow> u32 \<Rightarrow> fields" where
  "get_info_fields server share level =
     (let off = 4 + UnicodeStr_Size (makeUnicodeStr server); stop = off + UnicodeStr_Size (makeUnicodeStr share) in
      (0, le_enc 4 (0x20000 :: u32)) # ndr_string 4 server @ ndr_string off share @ [(stop, le_enc 4 level)])"

definition get_info_length :: "string \<Rightarrow> string \<Rightarrow> nat" where
  "get_info_length server share = 8 + UnicodeStr_Size (makeUnicodeStr server) + UnicodeStr_Size (makeUnicodeStr share)"

lemma get_info_reads:
  fixes level :: u32
  assumes "small_name server" "small_name share"
  defines "b \<equiv> wrs (get_info_fields server share level) (zeros (get_info_length server share))"
  shows "length b = get_info_length server share" "rd 12 4 b = le_enc 4 (of_nat (length server + 1) :: u32)"
    "rd 16 (2 * (length server + 1)) b = EncodedString (makeUnicodeStr server)"
    "rd (8 + UnicodeStr_Size (makeUnicodeStr server)) 4 b = le_enc 4 (0 :: u32)"
    "rd (12 + UnicodeStr_Size (makeUnicodeStr server)) 4 b = le_enc 4 (of_nat (length share + 1) :: u32)"
proof -
  let ?o = "4 + UnicodeStr_Size (makeUnicodeStr server)"
  have "ascending 4 (ndr_string 4 server @ ndr_string ?o share @ [(?o + UnicodeStr_Size (makeUnicodeStr share), le_enc 4 level)])
      (get_info_length server share)"
    unfolding ndr_string_def
    by (rule ascending_append[OF string_ascending[OF assms(1)] ascending_append[OF string_ascending[OF assms(2)]]])
      (simp add: get_info_length_def)
  then have asc: "ascending 0 (get_info_fields server share level) (get_info_length server share)"
    by (simp add: get_info_fields_def Let_def)
  have rds: "rd off (length bs) b = bs" if "(off, bs) \<in> set (get_info_fields server share level)" for off bs
    using rd_ascending[OF asc _ that, of "zeros (get_info_length server share)"] unfolding b_def by simp
  show "length b = get_info_length server share"
    unfolding b_def using length_wrs[of "zeros (get_info_length server share)"] ascending_fits[OF asc] by simp
  show "rd 12 4 b = le_enc 4 (of_nat (length server + 1) :: u32)"
    using rds[of 12 "le_enc 4 (of_nat (length server + 1) :: u32)"] unicode_str(1)[OF assms(1)]
    by (simp add: get_info_fields_def ndr_string_def UnicodeStr_Encode_def Let_def)
  show "rd 16 (2 * (length server + 1)) b = EncodedString (makeUnicodeStr server)"
    using rds[of 16 "EncodedString (makeUnicodeStr server)"] unicode_str(4)[OF assms(1)]
    by (simp add: get_info_fields_def ndr_string_def UnicodeStr_Encode_def Let_def)
  show "rd (8 + UnicodeStr_Size (makeUnicodeStr server)) 4 b = le_enc 4 (0 :: u32)"
    using rds[of "8 + UnicodeStr_Size (makeUnicodeStr server)" "le_enc 4 (0 :: u32)"] unicode_str(5)[OF assms(2)]
    by (simp add: get_info_fields_def ndr_string_def UnicodeStr_Encode_def Let_def)
  show "rd (12 + UnicodeStr_Size (makeUnicodeStr server)) 4 b = le_enc 4 (of_nat (length share + 1) :: u32)"
    using rds[of "12 + UnicodeStr_Size (makeUnicodeStr server)" "le_enc 4 (of_nat (length share + 1) :: u32)"] unicode_str(1)[OF assms(2)]
    by (simp add: get_info_fields_def ndr_string_def UnicodeStr_Encode_def Let_def)
qed

text \<open>
  The name in a request for one share is never found.  For every server name and share name of
  ASCII characters, the decoder reads the empty string where the well-formed request has the name of
  the share: it adds the offset of the name twice when it checks the length, and for a server name
  of even length it looks four bytes too early.
\<close>

theorem share_name_is_lost:
  assumes "small_name server" "small_name share"
  shows "GetInfoRequest_ShareName (Slice (wrs (get_info_fields server share level) (zeros (get_info_length server share))) ex) = Some []"
proof -
  let ?b = "wrs (get_info_fields server share level) (zeros (get_info_length server share))"
  note r = get_info_reads[OF assms, of level]
  let ?n = "length server + 1"
  have sz: "UnicodeStr_Size (makeUnicodeStr server) = 12 + align4 (2 * ?n)" by (rule unicode_str(3)[OF assms(1)])
  have sz2: "UnicodeStr_Size (makeUnicodeStr share) = 12 + align4 (2 * (length share + 1))" by (rule unicode_str(3)[OF assms(2)])
  have l: "length ?b = 32 + align4 (2 * ?n) + align4 (2 * (length share + 1))" using r(1) by (simp add: get_info_length_def sz sz2)
  have pad: "2 * ?n \<le> align4 (2 * ?n)" by (rule align4_ge)
  have n32: "unat (of_nat ?n :: u32) = ?n" using unicode_str(1,2)[OF assms(1)] by simp
  have first: "u32_from 12 (Slice ?b ex) = Some (of_nat ?n)"
    using r(2) l by (simp add: u32_from_in rd_def le_dec_enc_full del: le_dec.simps le_enc.simps of_nat_add of_nat_Suc)
  have name: "GetInfoRequest_ServerName (Slice ?b ex) = Some server"
  proof -
    have "sl_range 16 (16 + ?n * 2) (Slice ?b ex) = Some (Slice (rd 16 (2 * ?n) ?b) (drop (16 + 2 * ?n) ?b @ ex))"
      using l pad by (simp add: sl_range_in rd_def mult.commute)
    then show ?thesis
      using first l pad n32 r(3) unicode_str(6)[OF assms(1)]
      by (simp add: GetInfoRequest_ServerName_def del: of_nat_add of_nat_Suc)
  qed
  let ?off = "16 + align2 (length server) * 2"
  have align2_eq: "align2 m = 2 * ((m + 1) div 2)" for m
  proof -
    have "Align (int m) 2 = 2 * ((int m + 1) div 2)"
      using int_and_not_mask[of "int m + 1" 1] by (simp add: Align_def mask_eq_exp_minus_1 add.commute)
    then show ?thesis by (simp add: align2_def nat_mult_distrib nat_div_distrib nat_add_distrib)
  qed
  show ?thesis
  proof (cases "even (length server)")
    case True
    then have o8: "?off + 8 = 8 + UnicodeStr_Size (makeUnicodeStr server)" unfolding sz align2_eq align4_eq by presburger
    have second: "u32_from (?off + 8) (Slice ?b ex) = Some 0"
      using r(4) l unfolding o8 sz by (simp add: u32_from_in rd_def le_dec_enc_full del: le_dec.simps le_enc.simps)
    have "GetInfoRequest_ShareName (Slice ?b ex) = (if len (Slice ?b ex) < ?off + ?off + 12 then Some []
        else map_option (\<lambda>s. DecodeToString (vis s)) (sl_range (?off + 12) (?off + 12) (Slice ?b ex)))"
      by (simp only: GetInfoRequest_ShareName_def name Option.bind.simps Let_def second unsigned_0 mult_0 add_0_right)
    moreover have "sl_range (?off + 12) (?off + 12) (Slice ?b ex) = Some (Slice [] (drop (?off + 12) ?b @ ex))"
      if "?off + ?off + 12 \<le> len (Slice ?b ex)"
      using sl_range_in[of "?off + 12" "?off + 12" "Slice ?b ex"] that by simp
    ultimately show ?thesis
      by (simp add: DecodeToString_def not_less)
  next
    case False
    then have o8: "?off + 8 = 12 + UnicodeStr_Size (makeUnicodeStr server)" and oo: "?off = 16 + align4 (2 * ?n)" "2 \<le> ?n"
      unfolding sz align2_eq align4_eq by presburger+
    have n2: "unat (of_nat (length share + 1) :: u32) = length share + 1" using unicode_str(1,2)[OF assms(2)] by simp
    have second: "u32_from (?off + 8) (Slice ?b ex) = Some (of_nat (length share + 1))"
      using r(5) l unfolding o8 sz by (simp add: u32_from_in rd_def le_dec_enc_full del: le_dec.simps le_enc.simps of_nat_add of_nat_Suc)
    have "align4 (2 * (length share + 1)) \<le> 2 * (length share + 1) + 3" unfolding align4_eq by presburger
    then have "len (Slice ?b ex) < ?off + ?off + 12 + (length share + 1) * 2"
      using l pad oo by simp
    then show ?thesis
      using name second n2 by (simp add: GetInfoRequest_ShareName_def del: of_nat_add of_nat_Suc)
  qed
qed

lemma share_name_is_lost_witness:
  "GetInfoRequest_ShareName (Slice (wrs (get_info_fields ''srv'' ''media'' 1) (zeros (get_info_length ''srv'' ''media''))) []) = Some []"
  by (rule share_name_is_lost) (simp_all add: small_name_def plain_def)

text \<open>
  C38. One malformed call ends the process.  If the request in the pipe is a bind whose first context has no
  transfer syntax, or a call with less than twenty-four bytes (in a buffer that ends there), the
  READ that should answer it panics.
\<close>

theorem malformed_call_panics:
  assumes "ipc_tree ptr cn = Some (tc, shs, Some req)" "16 \<le> len req"
    and "vis req ! 2 = PacketTypeBind \<and> 52 \<le> len req \<and> vis req ! 24 \<noteq> 0 \<and> vis req ! 30 = 0
      \<or> vis req ! 2 = PacketTypeRequest \<and> capacity req < 24"
  shows "ipc_read env ptr cp pkt srv cn = None"
proof -
  obtain h where h: "DCERequest_Header req = Some h" "dce_PacketType h = vis req ! 2"
    using header_read[OF assms(2)] by blast
  have inv: "\<not> DCERequest_IsInvalid req" using assms(2) by (simp add: DCERequest_IsInvalid_def)
  consider (bind) "dce_PacketType h = PacketTypeBind" "52 \<le> len req" "vis req ! 24 \<noteq> 0" "vis req ! 30 = 0"
    | (call) "dce_PacketType h = PacketTypeRequest" "capacity req < 24"
    using assms(3) h(2) by auto
  then show ?thesis
  proof cases
    case bind
    obtain k where k: "unat (vis req ! 24) = Suc k" using bind(3) by (metis not0_implies_Suc unat_eq_0)
    have "sl_at 24 req = Some (vis req ! 24)" "sl_at 30 req = Some 0"
      using bind by (simp_all add: sl_at_in)
    then have "\<exists>i is. BindRequest_CtxItems req = None \<or> BindRequest_CtxItems req = Some (i # is) \<and> TransferSyntaxes i = []"
      using k by (cases "BindRequest_CtxItems req") (auto simp: BindRequest_CtxItems_def BindRequest_NumCtxItems_def bind_Some_iff)
    then have "ipcTreeBindReq req = None"
      by (auto simp: ipcTreeBindReq_def bind_None_iff answer_item_def)
    then show ?thesis using assms(1) inv h(1) bind(1) by (simp add: ipc_read_def bind_None_iff)
  next
    case call
    then have "ipcTreeReq shs req = None" by (simp add: ipcTreeReq_def RequestReq_Opnum_def u16_in_None)
    then show ?thesis using assms(1) inv h(1) call(1) by (simp add: ipc_read_def bind_None_iff)
  qed
qed

definition toy_pipe :: "slice \<Rightarrow> conn" where
  "toy_pipe req = bob_conn\<lparr>tree_objs := [IpcTree (new_tree toy_world bob_conn IPC) [] (Some req)]\<rparr>"

lemma malformed_call_panics_witness:
  "ipc_read toy_env 0 None nil_slice (toy_server [] []) (toy_pipe (Slice ([5, 0, 0, 3] @ zeros 12) [])) = None"
  by (rule malformed_call_panics[where tc = "new_tree toy_world bob_conn IPC" and shs = "[]" and req = "Slice ([5, 0, 0, 3] @ zeros 12) []"])
    (simp_all add: ipc_tree_def toy_pipe_def obj_deref_def)

subsection \<open>What the pipe does not touch\<close>

definition only_refs :: "('a, 'z) server_scheme \<Rightarrow> ('a, 'z) outcome_of \<Rightarrow> bool" where
  "only_refs srv r \<longleftrightarrow> (\<forall>e srv' cn'. r = Some (e, srv', cn') \<longrightarrow> srv' = srv\<lparr>refIds := refIds srv'\<rparr>)"

lemma only_refs_Some: "only_refs srv (Some (e, srv, cn))"
  by (simp add: only_refs_def)

lemma only_refs_None: "only_refs srv None"
  by (simp add: only_refs_def)

lemma only_refs_reply: "only_refs srv (reply env pkt tc cp status body srv cn)"
  by (auto simp: only_refs_def reply_def sent_def bind_Some_iff)

lemma only_refs_counted: "only_refs srv (reply env pkt tc cp status body (srv\<lparr>refIds := n\<rparr>) cn)"
  by (auto simp: only_refs_def reply_def sent_def bind_Some_iff)

lemma only_refs_bind: "(\<And>x. only_refs srv (f x)) \<Longrightarrow> only_refs srv (Option.bind m f)"
  by (cases m) (simp_all add: only_refs_None)

lemma only_refs_if: "only_refs srv a \<Longrightarrow> only_refs srv b \<Longrightarrow> only_refs srv (if x then a else b)"
  by simp

lemmas only_refs_rules = only_refs_Some only_refs_None only_refs_reply only_refs_counted only_refs_bind only_refs_if

lemma ipc_only_refs:
  "only_refs srv (ipc_create env ptr cp pkt srv cn)" "only_refs srv (ipc_close env ptr cp pkt srv cn)"
  "only_refs srv (ipc_flush srv cn)" "only_refs srv (ipc_write env ptr cp pkt srv cn)"
  "only_refs srv (ipc_unsupported env ptr cp pkt srv cn)"
  unfolding ipc_create_def ipc_close_def ipc_flush_def ipc_write_def ipc_unsupported_def Let_def
  by (auto intro!: only_refs_rules split: prod.split)

lemma ipc_calls_only_refs: "only_refs srv (ipc_read env ptr cp pkt srv cn)" "only_refs srv (ipc_ioctl env ptr cp pkt srv cn)"
  unfolding ipc_read_def ipc_ioctl_def ioctl_done_def Let_def
  by (auto intro!: only_refs_rules split: prod.split option.split sum.split error.split)

lemma ipc_queryInfo_only_refs: "only_refs srv (ipc_queryInfo env ptr cp pkt srv cn)"
  unfolding ipc_queryInfo_def send_info_def Let_def
  by (auto intro!: only_refs_rules split: prod.split option.split)

text \<open>
  C39. The pipe leaves the files alone.  Whatever a client sends to the tree of IPC$, the methods of the tree
  change nothing of the server but its counter of references: no share, no open file, no
  authenticator and no state of a file system.
\<close>

theorem pipe_leaves_server:
  assumes "ipc_ops env cmd ptr cp pkt srv cn = Some (e, srv', cn')"
  shows "srv' = srv\<lparr>refIds := refIds srv'\<rparr>"
proof -
  have "only_refs srv (ipc_ops env cmd ptr cp pkt srv cn)"
    unfolding ipc_ops_def by (intro only_refs_if ipc_only_refs ipc_calls_only_refs ipc_queryInfo_only_refs)
  then show ?thesis using assms by (simp add: only_refs_def)
qed

lemma pipe_leaves_server_witness:
  "\<exists>e cn'. ipc_ops toy_env SMB2_FLUSH 0 None nil_slice (toy_server [] []) (toy_pipe nil_slice) = Some (e, toy_server [] [], cn')"
proof -
  let ?srv = "toy_server [] []"
  have run: "ipc_ops toy_env SMB2_FLUSH 0 None nil_slice ?srv (toy_pipe nil_slice)
      = Some (Some (InvalidRequestError ''invalid flush request for ipcTree''), ?srv, toy_pipe nil_slice)"
    by (simp add: ipc_ops_def ipc_flush_def)
  have "?srv = ?srv\<lparr>refIds := refIds ?srv\<rparr>" by (rule pipe_leaves_server[OF run])
  with run show ?thesis by blast
qed

end
