(* ===== verification/Confine.thy ===== *)
theory Confine
  imports Protection
begin

section \<open>Staying below the root of a share\<close>

text \<open>
  A share serves a directory.  Every path that a client names is joined to the root with \<^verbatim>\<open>path.Join\<close>, which
  resolves \<^verbatim>\<open>..\<close>; nothing else keeps a client below the root.
\<close>

subsection \<open>Joining a name to the root\<close>

text \<open>A root as \<^verbatim>\<open>path.Clean\<close> leaves it, other than \<^verbatim>\<open>/\<close>: its segments are plain.\<close>

definition clean_root :: "string list \<Rightarrow> string \<Rightarrow> bool" where
  "clean_root segs root \<longleftrightarrow> segs \<noteq> [] \<and> (\<forall>w \<in> set segs. plain_segment w) \<and> root = slash # str_join slash segs"

definition no_dotdot :: "string \<Rightarrow> bool" where
  "no_dotdot name \<longleftrightarrow> dotdot \<notin> set (str_split slash name)"

definition below :: "string \<Rightarrow> string \<Rightarrow> bool" where
  "below root path \<longleftrightarrow> path = root \<or> HasPrefix path (root @ [slash])"

lemma root_split:
  assumes "clean_root segs root"
  shows "str_split slash root = [] # segs"
proof -
  have "\<forall>w \<in> set segs. slash \<notin> set w" using assms by (auto simp: clean_root_def plain_segment_def)
  then show ?thesis using assms str_split_join[of segs slash] by (simp add: clean_root_def)
qed

lemma clean_first: "clean_segments r ([] # xs) out = clean_segments r xs out"
  by (simp add: clean_segments_def clean_step_def)

lemma join_root:
  assumes "clean_root segs root"
  shows "path_Join [root, name] = slash # str_join slash (clean_segments True (str_split slash name) segs)"
proof -
  have segs: "clean_segments True segs [] = segs"
    using assms clean_segments_plain[of segs True "[]"] by (simp add: clean_root_def)
  have root: "root \<noteq> []" "hd root = slash" using assms by (simp_all add: clean_root_def)
  show ?thesis
  proof (cases "name = []")
    case True
    then show ?thesis
      using root root_split[OF assms] segs
      by (simp add: path_Join_def path_Clean_def clean_first Let_def) (simp add: clean_segments_def clean_step_def)
  next
    case False
    have "str_split slash (root @ slash # name) = ([] # segs) @ str_split slash name"
      by (simp add: str_split_append root_split[OF assms])
    then show ?thesis
      using False root segs by (simp add: path_Join_def path_Clean_def clean_first Let_def)
  qed
qed

lemma str_join_append: "xs \<noteq> [] \<Longrightarrow> ys \<noteq> [] \<Longrightarrow> str_join sep (xs @ ys) = str_join sep xs @ sep # str_join sep ys"
  by (induction sep xs rule: str_join.induct) (auto simp: str_join_Cons neq_Nil_conv)

lemma join_below:
  assumes "clean_root segs root" "no_dotdot name"
  shows "below root (path_Join [root, name])"
proof -
  obtain rest where "clean_segments True (str_split slash name) segs = segs @ rest"
    using assms(2) clean_segments_no_dotdot by (simp add: no_dotdot_def)
  then show ?thesis
    using assms(1) join_root[OF assms(1), of name]
    by (cases "rest = []") (auto simp: below_def clean_root_def str_join_append HasPrefix_iff)
qed

lemma climb: "length out = k \<Longrightarrow> (\<forall>w \<in> set out. plain_segment w) \<Longrightarrow> clean_segments True (replicate k dotdot) out = []"
proof (induction k arbitrary: out)
  case (Suc k)
  then have "out \<noteq> []" by auto
  then have "plain_segment (last out)" using Suc.prems(2) by simp
  with \<open>out \<noteq> []\<close> have "clean_step True dotdot out = butlast out" by (simp add: clean_step_def plain_segment_def)
  moreover have "\<forall>w \<in> set (butlast out). plain_segment w" using Suc.prems(2) by (auto dest: in_set_butlastD)
  ultimately show ?case using Suc.IH[of "butlast out"] Suc.prems(1) by (simp add: clean_segments_def)
qed (simp add: clean_segments_def)

subsection \<open>Properties\<close>



subsection \<open>Open files\<close>

fun call_names :: "vfs_call \<Rightarrow> string list" where
  "call_names (C_Open name fl mode) = [name]"
| "call_names (C_OpenDir name) = [name]"
| "call_names (C_Mkdir name mode) = [name]"
| "call_names (C_Lookup h name) = [name]"
| "call_names (C_Rename h to fl) = [to]"
| "call_names cl = []"

definition confined_calls :: "vfs_call set" where
  "confined_calls = {cl. list_all no_dotdot (call_names cl)}"

definition files_below :: "PassthroughFS \<Rightarrow> bool" where
  "files_below ps \<longleftrightarrow> (\<forall>h fl. openFiles ps h = Some fl \<longrightarrow> below (rootPath ps) (pf_path fl))"

text \<open>What an operation does with the open files: the root stays, paths stay or become paths below.\<close>

definition paths_kept :: "('d, 'f) pstate \<Rightarrow> ('d, 'f) pstate \<Rightarrow> bool" where
  "paths_kept st st' \<longleftrightarrow> rootPath (fst st') = rootPath (fst st)
     \<and> (\<forall>h fl. openFiles (fst st') h = Some fl \<longrightarrow> (\<exists>h0 fl0. openFiles (fst st) h0 = Some fl0 \<and> pf_path fl = pf_path fl0)
          \<or> below (rootPath (fst st)) (pf_path fl))"

lemma paths_kept_refl [simp]: "fst st' = fst st \<Longrightarrow> paths_kept st st'"
  by (auto simp: paths_kept_def)

lemma paths_kept_files: "paths_kept st st' \<Longrightarrow> files_below (fst st) \<Longrightarrow> files_below (fst st')"
  unfolding paths_kept_def files_below_def by (metis (full_types))

lemma paths_kept_trans: "paths_kept a b \<Longrightarrow> paths_kept b d \<Longrightarrow> paths_kept a d"
  unfolding paths_kept_def by (metis (full_types))

lemma paths_kept_set: "(\<And>fl. pf_path (f fl) = pf_path fl) \<Longrightarrow> paths_kept (ps, s) (set_file h f ps, s')"
  by (auto simp: paths_kept_def set_file_def split: if_splits)


lemma paths_kept_file: "openFiles ps h = Some fl \<Longrightarrow> paths_kept (ps, s) (ps\<lparr>openFiles := (openFiles ps)(h := None)\<rparr>, s')"
  by (auto simp: paths_kept_def)

lemma paths_kept_at:
  "below (rootPath ps) (pf_path fl) \<Longrightarrow> paths_kept (ps, s) (ps\<lparr>openFiles := (openFiles ps)(h \<mapsto> fl)\<rparr>, s')"
  by (auto simp: paths_kept_def)

lemma paths_kept_move:
  "below (rootPath ps) new \<Longrightarrow> paths_kept (ps, s) (set_file h (\<lambda>fl. fl\<lparr>pf_path := new\<rparr>) ps, s')"
  by (auto simp: paths_kept_def set_file_def split: if_splits)

text \<open>Calls that leave the file system as it is.\<close>

lemma disk_call_fst: "fst (snd (disk_call f st)) = fst st"
  by (simp add: disk_call_def split_def Let_def)

lemma read_call_fst: "fst (snd (read_call f st)) = fst st"
  by (simp add: read_call_def split_def Let_def)

lemma with_file_paths:
  assumes "paths_kept st (snd z)" "\<And>fl. openFiles (fst st) h = Some fl \<Longrightarrow> paths_kept st (snd (f fl))"
  shows "paths_kept st (snd (with_file h st z f))"
  using assms by (auto simp: with_file_def split: option.split)

lemma changing_paths:
  assumes "\<And>fl. openFiles (fst st) h = Some fl \<Longrightarrow> paths_kept st (snd (f fl))"
  shows "paths_kept st (snd (changing h st f))"
  using assms by (auto simp: changing_def split: option.split)

lemma open_at_paths:
  assumes "below (rootPath (fst st)) full" "fst (snd r) = fst st"
  shows "paths_kept st (snd (open_at full dir rand r))"
  using assms by (cases r; cases st; cases "fst r") (auto simp: open_at_def split_def Let_def intro: paths_kept_at)

lemma open_call_fst: "fst (snd (open_call os full flags mode st)) = fst st"
  by (simp add: open_call_def read_call_fst split_def Let_def)

lemma GetAttr_snd: "snd (p_GetAttr os h st) = st"
  by (auto simp: p_GetAttr_def with_file_def Let_def split: option.split sum.split)

lemma read_more_paths: "paths_kept st (snd (read_more os h f n got st))"
proof -
  obtain es err st' where st': "(case f of None \<Rightarrow> (([], Some ErrInvalid), st) | Some f \<Rightarrow> read_call (os_f_ReadDir os f n) st) = ((es, err), st')"
    by (metis prod.exhaust)
  then have "fst st' = fst st"
    by (cases f) (auto simp: read_call_def split_def Let_def split: prod.splits)
  then have "paths_kept st (set_file h (\<lambda>fl. fl\<lparr>pf_dirPos := 1\<rparr>) (fst st'), snd st')"
    using paths_kept_set[of "\<lambda>fl. fl\<lparr>pf_dirPos := 1\<rparr>" "fst st" "snd st" h "snd st'"] by simp
  then show ?thesis using \<open>fst st' = fst st\<close> by (simp add: read_more_def st' Let_def)
qed

lemma paths_kept_set': "(\<And>fl. pf_path (f fl) = pf_path fl) \<Longrightarrow> paths_kept st (set_file h f (fst st), s')"
  using paths_kept_set[of f "fst st" "snd st"] by simp

lemma drain_paths: "paths_kept st (snd (drain os h fl n got st))"
proof -
  let ?st = "(set_file h (\<lambda>fl. fl\<lparr>pf_dirBuffer := []\<rparr>) (fst st), snd st)"
  have 1: "paths_kept st ?st" by (simp add: paths_kept_set')
  have 2: "paths_kept ?st (set_file h (\<lambda>fl. fl\<lparr>pf_dirPos := 1\<rparr>) (fst ?st), snd ?st)" by (rule paths_kept_set') simp
  have 3: "paths_kept st (snd (read_more os h f k res ?st))" for f k res
    by (rule paths_kept_trans[OF 1 read_more_paths])
  have 4: "paths_kept st (set_file h (\<lambda>fl. fl\<lparr>pf_dirBuffer := xs, pf_dirPos := 1\<rparr>) (fst st), snd st)" for xs
    by (rule paths_kept_set') simp
  show ?thesis
    using paths_kept_trans[OF 1 2] 3 4 by (simp add: drain_def read_more_paths Let_def)
qed

lemma rewind_paths: "paths_kept st (rewind_dir os h fl st)"
  by (simp add: rewind_dir_def paths_kept_set')

lemma p_ReadDir_paths: "paths_kept st (snd (p_ReadDir os h pos n st))"
  unfolding p_ReadDir_def Let_def
proof (rule with_file_paths, simp)
  fix fl
  let ?st = "if pos \<noteq> 0 then rewind_dir os h fl st else st"
  let ?fl = "if pos \<noteq> 0 then fl\<lparr>pf_dirPos := 0, pf_dirBuffer := []\<rparr> else fl"
  have 1: "paths_kept st ?st" by (simp add: rewind_paths)
  obtain r where r: "p_GetAttr os (pf_h ?fl) ?st = (r, ?st)" by (metis GetAttr_snd prod.collapse)
  show "paths_kept st (snd (if pf_dirPos ?fl = 0
      then case p_GetAttr os (pf_h ?fl) ?st of (Inl e, st) \<Rightarrow> (Inl e, st)
           | (Inr a, st) \<Rightarrow> drain os h ?fl n [(''.'', a), (''..'', a)] st
      else drain os h ?fl n [] ?st))"
    unfolding r by (cases r) (simp_all only: prod.case sum.case fst_conv snd_conv if_distrib[of snd]
        paths_kept_trans[OF 1 drain_paths] 1 split: if_split, auto intro: paths_kept_trans[OF 1 drain_paths] 1)
qed

lemma p_Rename_paths:
  assumes "clean_root segs (rootPath (fst st))" "no_dotdot to"
  shows "paths_kept st (snd (p_Rename os h to fl st))"
  unfolding p_Rename_def Let_def
proof (rule changing_paths)
  fix f assume "openFiles (fst st) h = Some f"
  let ?new = "path_Join [rootPath (fst st), to]"
  obtain e st' where r: "disk_call (os_Rename os (pf_path f) ?new) st = (e, st')" by (metis prod.exhaust)
  have fst': "fst st' = fst st" using disk_call_fst[of "os_Rename os (pf_path f) ?new" st] r by simp
  have "paths_kept st (set_file h (\<lambda>fl. fl\<lparr>pf_path := ?new\<rparr>) (fst st), snd st')"
    using paths_kept_move[OF join_below[OF assms], of "snd st" h "snd st'"] by simp
  then show "paths_kept st (snd (if fl = 0 \<and> (case os_Lstat os ?new (disk st) of Inl e \<Rightarrow> False | Inr i \<Rightarrow> True)
      then (Some (ErrorString ''already exists''), st)
      else case disk_call (os_Rename os (pf_path f) ?new) st of (None, st) \<Rightarrow> (None, set_file h (\<lambda>fl. fl\<lparr>pf_path := ?new\<rparr>) (fst st), snd st)
         | (Some e, st) \<Rightarrow> (Some e, st)))"
    unfolding r using fst' by (cases e) simp_all
qed


lemma p_Symlink_paths: "paths_kept st (snd (p_Symlink os h target fl0 st))"
  unfolding p_Symlink_def Let_def
proof (rule changing_paths)
  fix fl assume "openFiles (fst st) h = Some fl"
  let ?st = "(set_file h (\<lambda>fl. fl\<lparr>pf_f := None\<rparr>) (fst st), close_file os (pf_f fl) (snd st))"
  let ?rm = "snd (disk_call (os_Remove os (pf_path fl)) ?st)"
  have rm: "fst ?rm = set_file h (\<lambda>fl. fl\<lparr>pf_f := None\<rparr>) (fst st)" by (simp add: disk_call_fst)
  obtain e st' where r: "disk_call (os_Symlink os target (pf_path fl)) ?rm = (e, st')" by (metis prod.exhaust)
  then have "fst st' = set_file h (\<lambda>fl. fl\<lparr>pf_f := None\<rparr>) (fst st)"
    using disk_call_fst[of "os_Symlink os target (pf_path fl)" ?rm] rm by simp
  moreover have "paths_kept st (set_file h (\<lambda>fl. fl\<lparr>pf_f := None\<rparr>) (fst st), snd st')" by (rule paths_kept_set') simp
  ultimately have "paths_kept st st'" by (metis prod.collapse)
  then show "paths_kept st (snd (case disk_call (os_Symlink os target (pf_path fl)) ?rm of
      (None, st) \<Rightarrow> (stat_error (stat_attr (os_Lstat os (pf_path fl) (disk st))), st) | (Some e, st) \<Rightarrow> (Some e, st)))"
    unfolding r by (cases e) simp_all
qed

lemma p_kept_simple:
  "paths_kept st (snd (p_GetAttr os h st))" "paths_kept st (snd (p_StatFS st))" "paths_kept st (snd (p_Flush st))"
  "paths_kept st (snd (p_Lookup os h name st))" "paths_kept st (snd (p_Read os h ln off st))"
  "paths_kept st (snd (p_Readlink os h st))" "paths_kept st (snd (p_Listxattr os h st))" "paths_kept st (snd (p_Getxattr os h key st))"
  by (simp add: GetAttr_snd)
    (auto simp: p_StatFS_def p_Flush_def p_Lookup_def p_Read_def p_Readlink_def p_Listxattr_def p_Getxattr_def Let_def
       intro!: with_file_paths split: option.split prod.split)

lemma p_kept_disk:
  "paths_kept st (snd (p_Write os h dat off st))" "paths_kept st (snd (p_Truncate os h ln st))"
  "paths_kept st (snd (p_Unlink os h st))" "paths_kept st (snd (p_Setxattr os h key v st))" "paths_kept st (snd (p_Removexattr os h key st))"
  unfolding p_Write_def p_Truncate_def p_Unlink_def p_Setxattr_def p_Removexattr_def xattr_change_def
  by (auto intro!: changing_paths simp: disk_call_fst split: option.split)

lemma p_Mkdir_paths: "paths_kept st (snd (p_Mkdir os name mode st))"
proof -
  let ?full = "path_Join [rootPath (fst st), name]"
  obtain e st' where r: "disk_call (os_Mkdir os ?full mode) st = (e, st')" by (metis prod.exhaust)
  then have "fst st' = fst st" using disk_call_fst[of "os_Mkdir os ?full mode" st] by simp
  then show ?thesis by (cases e) (simp_all add: p_Mkdir_def r)
qed

lemma p_SetAttr_paths: "paths_kept st (snd (p_SetAttr os h a st))"
  unfolding p_SetAttr_def
proof (rule changing_paths)
  fix fl assume "openFiles (fst st) h = Some fl"
  obtain r where "p_GetAttr os h st = (r, st)" by (metis GetAttr_snd prod.collapse)
  then show "paths_kept st (snd (case p_GetAttr os h st of
       (Inl e, st) \<Rightarrow> (Some (ErrorString ''failed to read attributes''), st)
     | (Inr old, (ps, d, q)) \<Rightarrow>
         (None, ps, set_owner os (pf_path fl) a (set_mode os (pf_path fl) a (set_times os (pf_path fl) a old d)), q)))"
    by (cases st) (auto split: sum.split)
qed

lemma p_PutBack_paths: "paths_kept st (p_PutBackDirEntries h es st)"
  by (simp add: p_PutBackDirEntries_def paths_kept_set')

lemma p_Close_paths: "paths_kept st (snd (p_Close os h st))"
  using paths_kept_file[of "fst st" h _ "snd st"] by (auto simp: p_Close_def split: option.split)

lemma p_opens_paths:
  assumes "clean_root segs (rootPath (fst st))" "no_dotdot name"
  shows "paths_kept st (snd (p_Open os name fl mode st))" "paths_kept st (snd (p_OpenDir os name st))"
  using join_below[OF assms] by (auto simp: p_Open_def p_OpenDir_def Let_def open_call_fst intro!: open_at_paths)

lemmas paths_rules = p_kept_simple p_kept_disk p_Mkdir_paths p_SetAttr_paths p_PutBack_paths p_Close_paths
  p_Symlink_paths p_ReadDir_paths

lemmas named_paths_rules = p_opens_paths p_Rename_paths


subsection \<open>Any sequence of calls\<close>

definition share_confined :: "string \<Rightarrow> PassthroughFS \<Rightarrow> bool" where
  "share_confined root ps \<longleftrightarrow> files_below ps \<and> rootPath ps = root"

lemma at_share_paths:
  assumes "paths_kept (fst s n, snd s) (snd (f (fst s n, snd s)))" "share_confined root (fst s n)"
  shows "share_confined root (fst (snd (at_share n f s)) n)"
  using assms paths_kept_files[OF assms(1)] by (auto simp: share_confined_def at_share_def split_def Let_def paths_kept_def)

lemma confined_call_files:
  assumes "cl \<in> confined_calls" "clean_root segs root" "share_confined root (fst s n)"
  shows "share_confined root (fst (run_call (passthrough os) n cl s) n)"
proof -
  have root: "clean_root segs (rootPath (fst (fst s n, snd s)))" using assms(2,3) by (simp add: share_confined_def)
  have names: "list_all no_dotdot (call_names cl)" using assms(1) by (simp add: confined_calls_def)
  show ?thesis
    using names by (cases cl) (simp_all add: passthrough_def at_share_paths[OF _ assms(3)] paths_rules named_paths_rules[OF root])
qed

text \<open>
  C35. Without \<^verbatim>\<open>..\<close> nobody leaves the share.  Whatever calls the handlers make on a share, as long as no
  name that they pass has a segment \<^verbatim>\<open>..\<close>, every file that is ever open in the share has a path below
  its root: opening, renaming, closing, listing and making links keep this.
\<close>

theorem open_files_stay_below:
  assumes "fs_reach (passthrough os) n confined_calls s t" "fst s n = NewPassthroughFS root ro" "clean_root segs root"
    and "openFiles (fst t n) h = Some fl"
  shows "below root (pf_path fl)"
proof -
  have "share_confined root (fst t n)"
    using assms(1)
  proof (induction rule: fs_reach.induct)
    case fs_refl
    then show ?case using assms(2) by (simp add: NewPassthroughFS_def files_below_def share_confined_def)
  next
    case (fs_step t cl)
    then show ?case using confined_call_files[OF fs_step(2) assms(3)] by blast
  qed
  then show ?thesis using assms(4) by (auto simp: files_below_def share_confined_def)
qed

lemma open_files_stay_below_witness:
  "\<exists>fl. openFiles (fst (run_call (passthrough toy_os) 0 (C_Open ''a/b'' 0 0) (\<lambda>_. NewPassthroughFS ''/srv'' True, [], 5)) 0) 6 = Some fl
    \<and> pf_path fl = ''/srv/a/b'' \<and> below ''/srv'' (pf_path fl)"
proof -
  let ?s = "(\<lambda>_ :: nat. NewPassthroughFS ''/srv'' True, [], 5 :: nat)"
  let ?t = "run_call (passthrough toy_os) 0 (C_Open ''a/b'' 0 0) ?s"
  have reach: "fs_reach (passthrough toy_os) 0 confined_calls ?s ?t"
    by (intro fs_reach.intros) (simp add: confined_calls_def no_dotdot_def)
  have path: "path_Join [''/srv'', ''a/b''] = ''/srv/a/b''" by code_simp
  have "openFiles (fst ?t 0) 6 = Some \<lparr>pf_path = ''/srv/a/b'', pf_isDir = False, pf_f = Some 5, pf_h = 6, pf_dirPos = 0, pf_dirBuffer = []\<rparr>"
    by (simp add: passthrough_def at_share_def p_Open_def open_at_def open_call_def read_call_def NewPassthroughFS_def path
        toy_os_def disk_def)
  moreover have "below ''/srv'' (pf_path fl)" if "openFiles (fst ?t 0) 6 = Some fl" for fl
    using open_files_stay_below[OF reach _ _ that, of "''/srv''" True "[''srv'']"]
    by (simp add: clean_root_def plain_segment_def)
  ultimately show ?thesis by fastforce
qed

end
