(* ===== verification/Listing.thy ===== *)
theory Listing
  imports Protection
begin

section \<open>Listing a directory\<close>

text \<open>
  A client lists a directory in rounds: each QUERY_DIRECTORY gets the entries that fit into its buffer, the
  rest is put back.  First what one round sends, then that the rounds together send every entry once.
\<close>

subsection \<open>One round\<close>

text \<open>The cases of a pass: the entry is passed over, does not fit, is the only one asked for, or is taken.\<close>

lemma take_entries_cases:
  assumes "take_entries mk wanted single room acc (d # ds) = Some (is, rest)"
  obtains (skip) "\<not> wanted (fst d)" "take_entries mk wanted single room acc ds = Some (is, rest)"
    | (full) i where "wanted (fst d)" "mk d = Some i" "0 < acc" "room < acc + item_Size i" "is = []" "rest = d # ds"
    | (one) i where "wanted (fst d)" "mk d = Some i" "single" "acc = 0 \<or> acc + item_Size i \<le> room" "is = [i]" "rest = ds"
    | (more) i js where "wanted (fst d)" "mk d = Some i" "\<not> single" "acc = 0 \<or> acc + item_Size i \<le> room" "is = i # js"
        "take_entries mk wanted single room (acc + item_Size i) ds = Some (js, rest)"
  using assms by (auto simp: bind_Some_iff split: if_splits)

lemma take_entries_used:
  "take_entries mk wanted single room acc ds = Some (is, rest) \<Longrightarrow>
     \<exists>used. ds = used @ rest \<and> map Some is = map mk (filter (\<lambda>d. wanted (fst d)) used)"
proof (induction ds arbitrary: acc "is")
  case (Cons d ds)
  from Cons.prems show ?case
  proof (cases rule: take_entries_cases)
    case skip
    then obtain used where "ds = used @ rest" "map Some is = map mk (filter (\<lambda>d. wanted (fst d)) used)"
      using Cons.IH by blast
    with skip show ?thesis by (intro exI[of _ "d # used"]) simp
  next
    case full
    then show ?thesis by simp
  next
    case one
    then show ?thesis by (intro exI[of _ "[d]"]) simp
  next
    case (more i js)
    then obtain used where "ds = used @ rest" "map Some js = map mk (filter (\<lambda>d. wanted (fst d)) used)"
      using Cons.IH by blast
    with more show ?thesis by (intro exI[of _ "d # used"]) simp
  qed
qed simp

lemma align8_le: "n \<le> align8 n"
  using Align_8_bounds[of "int n"] by (simp add: align8_def)

lemma align8_pos: "0 < n \<Longrightarrow> 0 < align8 n"
  using align8_le[of n] by simp

lemma item_Size_pos: "0 < item_Size i"
  by (cases i) (simp_all add: FileDirectory_Size_def FileFullDirectory_Size_def FileIdFullDirectory_Size_def
    FileBothDirectory_Size_def FileIdBothDirectory_Size_def FileIdAllExtdBothDirectory_Size_def FileNames_Size_def
    FilePosixDirectory_Size_def align8_pos)

lemma take_entries_room:
  "take_entries mk wanted single room acc ds = Some (is, rest) \<Longrightarrow> is = [] \<or> acc + items_Size is \<le> room \<or> acc = 0 \<and> length is = 1"
proof (induction ds arbitrary: acc "is")
  case (Cons d ds)
  from Cons.prems show ?case
  proof (cases rule: take_entries_cases)
    case skip
    then show ?thesis using Cons.IH by blast
  next
    case (more i js)
    then show ?thesis
      using Cons.IH[OF more(6)] item_Size_pos[of i] by (cases "js = []") (auto simp: items_Size_def)
  qed (auto simp: items_Size_def)
qed simp

lemma take_entries_next:
  "take_entries mk wanted single room acc ds = Some (is, rest) \<Longrightarrow> rest \<noteq> [] \<Longrightarrow> \<not> single
     \<Longrightarrow> \<exists>i. mk (hd rest) = Some i \<and> room < acc + items_Size is + item_Size i"
proof (induction ds arbitrary: acc "is")
  case (Cons d ds)
  from Cons.prems(1) show ?case
  proof (cases rule: take_entries_cases)
    case skip
    then show ?thesis using Cons by blast
  next
    case (more i js)
    then show ?thesis using Cons.IH[OF more(6) Cons.prems(2,3)] by (auto simp: items_Size_def add.assoc)
  next
    case one
    then show ?thesis using Cons.prems(3) by simp
  qed (auto simp: items_Size_def)
qed simp


lemma take_entries_total:
  "\<forall>d \<in> set ds. wanted (fst d) \<and> mk d \<noteq> None \<Longrightarrow> \<exists>is rest. take_entries mk wanted single room acc ds = Some (is, rest)"
proof (induction ds arbitrary: acc)
  case (Cons d ds)
  have IH: "\<exists>is rest. take_entries mk wanted single room acc' ds = Some (is, rest)" for acc' using Cons by simp
  obtain js rest where js: "take_entries mk wanted single room (acc + item_Size (the (mk d))) ds = Some (js, rest)"
    using IH by blast
  obtain ks rest' where ks: "take_entries mk wanted single room acc ds = Some (ks, rest')" using IH by blast
  obtain i where "mk d = Some i" using Cons.prems by auto
  then show ?case using js ks by (cases single) auto
qed simp

lemma take_entries_some:
  "take_entries mk wanted single room 0 ds = Some (is, rest) \<Longrightarrow> ds \<noteq> [] \<Longrightarrow> wanted (fst (hd ds)) \<Longrightarrow> ds \<noteq> rest"
  by (cases ds) (auto simp: bind_Some_iff dest!: take_entries_used split: if_splits)

subsection \<open>All rounds\<close>

text \<open>A client that asks until there is no more: what it got, and the status that ended the listing.\<close>

fun listing_rounds :: "nat \<Rightarrow> 's vfs \<Rightarrow> nat \<Rightarrow> u64 \<Rightarrow> (DirInfo \<Rightarrow> dir_item option) \<Rightarrow> (string \<Rightarrow> bool) \<Rightarrow> bool \<Rightarrow> nat
     \<Rightarrow> 's \<Rightarrow> (dir_item list \<times> u32) option" where
  "listing_rounds 0 V fs h mk wanted single room s = None"
| "listing_rounds (Suc k) V fs h mk wanted single room s =
     (case read_entries V fs h mk wanted single room False s of
        None \<Rightarrow> None
      | Some (Inl status, s) \<Rightarrow> Some ([], status)
      | Some (Inr is, s) \<Rightarrow> map_option (\<lambda>(js, status). (is @ js, status)) (listing_rounds k V fs h mk wanted single room s))"

text \<open>
  What the handler relies on: a call of \<^verbatim>\<open>ReadDir\<close> returns some of the entries that are pending, from their
  beginning, or says that there are none; \<^verbatim>\<open>PutBackDirEntries\<close> makes entries pending again.
\<close>

locale dir_reader =
  fixes V :: "'s vfs" and n :: nat and h :: u64 and pending :: "'s \<Rightarrow> DirInfo list" and ok started :: "'s \<Rightarrow> bool"
  assumes started_ok: "started s \<Longrightarrow> ok s"
    and read_dir: "ok s \<Longrightarrow> \<exists>ds t. v_ReadDir V n h 0 1000 s = ((if ds = [] then Inl EOF else Inr ds), t)
      \<and> ds @ pending t = pending s \<and> (ds = [] \<longrightarrow> pending s = []) \<and> started t"
    and put_back_dir: "started s \<Longrightarrow> pending (v_PutBackDirEntries V n h es s) = es @ pending s \<and> started (v_PutBackDirEntries V n h es s)"
begin

lemma round_end:
  assumes "ok s" "pending s = []"
  shows "\<exists>t. read_entries V n h mk wanted single room False s = Some (Inl STATUS_NO_MORE_FILES, t)"
proof -
  obtain ds t where "v_ReadDir V n h 0 1000 s = ((if ds = [] then Inl EOF else Inr ds), t)" "ds @ pending t = pending s"
    using read_dir[OF assms(1)] by blast
  then show ?thesis using assms(2) by (simp add: read_entries_def)
qed

lemma round_more:
  assumes "ok s" "pending s \<noteq> []" "\<forall>d \<in> set (pending s). wanted (fst d) \<and> mk d \<noteq> None"
  shows "\<exists>used t. used \<noteq> [] \<and> used @ pending t = pending s \<and> started t
    \<and> read_entries V n h mk wanted single room False s = Some (Inr (map (the \<circ> mk) used), t)"
proof -
  obtain ds s' where rd: "v_ReadDir V n h 0 1000 s = ((if ds = [] then Inl EOF else Inr ds), s')"
      "ds @ pending s' = pending s" "ds = [] \<longrightarrow> pending s = []" "started s'"
    using read_dir[OF assms(1)] by blast
  have ds: "ds \<noteq> []" using rd(3) assms(2) by blast
  have good: "\<forall>d \<in> set ds. wanted (fst d) \<and> mk d \<noteq> None" using assms(3) rd(2) by (metis Un_iff set_append)
  obtain "is" rest where te: "take_entries mk wanted single room 0 ds = Some (is, rest)"
    using take_entries_total[of ds wanted mk single room 0] good by blast
  obtain used where used: "ds = used @ rest" "map Some is = map mk (filter (\<lambda>d. wanted (fst d)) used)"
    using take_entries_used[OF te] by blast
  have all: "filter (\<lambda>d. wanted (fst d)) used = used" using good used(1) by (simp add: filter_id_conv)
  have is_eq: "is = map (the \<circ> mk) used"
  proof -
    have "map the (map Some is) = map the (map mk used)" by (simp only: used(2) all)
    then show ?thesis by (simp add: comp_def)
  qed
  have "ds \<noteq> rest" by (rule take_entries_some[OF te ds]) (use good ds in simp)
  then have ne: "used \<noteq> []" using used(1) by fastforce
  let ?t = "put_back V n h rest s'"
  have t: "pending ?t = rest @ pending s' \<and> started ?t"
    using put_back_dir[OF rd(4), of rest] rd(4) by (simp add: put_back_def)
  have "read_entries V n h mk wanted single room False s = Some (Inr is, ?t)"
    using rd(1) ds te ne is_eq by (simp add: read_entries_def)
  then show ?thesis using ne t used(1) rd(2) is_eq by (metis append.assoc)
qed

lemma rounds_complete:
  assumes "ok s" "\<forall>d \<in> set (pending s). wanted (fst d) \<and> mk d \<noteq> None" "length (pending s) < k"
  shows "listing_rounds k V n h mk wanted single room s = Some (map (the \<circ> mk) (pending s), STATUS_NO_MORE_FILES)"
  using assms
proof (induction k arbitrary: s)
  case (Suc k)
  show ?case
  proof (cases "pending s = []")
    case True
    then show ?thesis using round_end[OF Suc.prems(1) True, of mk wanted single room] by auto
  next
    case False
    then obtain used t where r: "used \<noteq> []" "used @ pending t = pending s" "started t"
        "read_entries V n h mk wanted single room False s = Some (Inr (map (the \<circ> mk) used), t)"
      using round_more[OF Suc.prems(1) False Suc.prems(2)] by blast
    have len: "length used + length (pending t) = length (pending s)" using r(2) by (metis length_append)
    have "0 < length used" using r(1) by simp
    with len have "length (pending t) < k" using Suc.prems(3) by linarith
    moreover have "\<forall>d \<in> set (pending t). wanted (fst d) \<and> mk d \<noteq> None" using Suc.prems(2) r(2) by (metis Un_iff set_append)
    ultimately have "listing_rounds k V n h mk wanted single room t = Some (map (the \<circ> mk) (pending t), STATUS_NO_MORE_FILES)"
      using Suc.IH started_ok r(3) by blast
    moreover have "map (the \<circ> mk) (pending s) = map (the \<circ> mk) used @ map (the \<circ> mk) (pending t)" using r(2) by (metis map_append)
    ultimately show ?thesis using r(4) by (simp add: comp_def)
  qed
qed simp

end


subsection \<open>The passed-through directory\<close>

text \<open>
  What is documented of \<^verbatim>\<open>File.ReadDir\<close> with a positive count: it returns some of the entries that are left,
  or \<^verbatim>\<open>io.EOF\<close> and nothing when none is left.
\<close>

definition dir_stream :: "('d, 'f) os \<Rightarrow> (fd \<Rightarrow> 'f \<Rightarrow> (string \<times> (error + FileInfo)) list) \<Rightarrow> bool" where
  "dir_stream os left \<longleftrightarrow> (\<forall>f n d q es err q'. 0 < n \<longrightarrow> os_f_ReadDir os f n (d, q) = ((es, err), q')
     \<longrightarrow> es @ left f q' = left f q \<and> (if left f q = [] then err = Some EOF else es \<noteq> [] \<and> err = None))"

definition infos :: "(string \<times> (error + FileInfo)) list \<Rightarrow> DirInfo list" where
  "infos es = concat (map entry_info es)"

definition reading :: "('d, 'f) os \<Rightarrow> (fd \<Rightarrow> 'f \<Rightarrow> (string \<times> (error + FileInfo)) list) \<Rightarrow> fd \<Rightarrow> u64 \<Rightarrow> ('d, 'f) pstate \<Rightarrow> OpenFile \<Rightarrow> bool" where
  "reading os left f h st fl \<longleftrightarrow> h \<noteq> 0 \<and> dir_stream os left \<and> openFiles (fst st) h = Some fl \<and> pf_f fl = Some f \<and> pf_h fl = h
     \<and> (\<forall>e \<in> set (left f (descs st)). entry_info e \<noteq> [])"

definition dots :: "('d, 'f) os \<Rightarrow> u64 \<Rightarrow> ('d, 'f) pstate \<Rightarrow> DirInfo list" where
  "dots os h st = (case fst (p_GetAttr os h st) of Inl e \<Rightarrow> [] | Inr a \<Rightarrow> [(''.'', a), (''..'', a)])"

definition dir_pending :: "('d, 'f) os \<Rightarrow> (fd \<Rightarrow> 'f \<Rightarrow> (string \<times> (error + FileInfo)) list) \<Rightarrow> fd \<Rightarrow> u64 \<Rightarrow> ('d, 'f) pstate \<Rightarrow> DirInfo list" where
  "dir_pending os left f h st =
     (case openFiles (fst st) h of
        None \<Rightarrow> []
      | Some fl \<Rightarrow> (if pf_dirPos fl = 0 then dots os h st else []) @ pf_dirBuffer fl @ infos (left f (descs st)))"

definition dir_started :: "('d, 'f) os \<Rightarrow> (fd \<Rightarrow> 'f \<Rightarrow> (string \<times> (error + FileInfo)) list) \<Rightarrow> fd \<Rightarrow> u64 \<Rightarrow> ('d, 'f) pstate \<Rightarrow> bool" where
  "dir_started os left f h st \<longleftrightarrow> (\<exists>fl. reading os left f h st fl \<and> pf_dirPos fl \<noteq> 0)"

definition dir_ok :: "('d, 'f) os \<Rightarrow> (fd \<Rightarrow> 'f \<Rightarrow> (string \<times> (error + FileInfo)) list) \<Rightarrow> fd \<Rightarrow> u64 \<Rightarrow> ('d, 'f) pstate \<Rightarrow> bool" where
  "dir_ok os left f h st \<longleftrightarrow> dir_started os left f h st
     \<or> (\<exists>fl. reading os left f h st fl \<and> pf_dirPos fl = 0 \<and> pf_dirBuffer fl = [] \<and> dots os h st \<noteq> [])"

lemma infos_simps: "infos [] = []" "infos (xs @ ys) = infos xs @ infos ys"
  by (simp_all add: infos_def)

lemma infos_Nil: "\<forall>e \<in> set es. entry_info e \<noteq> [] \<Longrightarrow> infos es = [] \<longleftrightarrow> es = []"
  by (cases es) (auto simp: infos_def)

text \<open>One call of \<^verbatim>\<open>ReadDir\<close> of the file.\<close>

lemma read_more_stream:
  assumes "reading os left f h st fl" "0 < n"
  shows "\<exists>ds t. read_more os h (Some f) n got st = ((if got @ ds = [] then Inl EOF else Inr (got @ ds)), t)
     \<and> ds @ infos (left f (descs t)) = infos (left f (descs st)) \<and> (ds = [] \<longrightarrow> infos (left f (descs st)) = [])
     \<and> reading os left f h t (fl\<lparr>pf_dirPos := 1\<rparr>)"
proof -
  obtain ps d q where st: "st = (ps, d, q)" by (metis prod.exhaust)
  obtain es err q' where call: "os_f_ReadDir os f n (d, q) = ((es, err), q')" by (metis prod.exhaust)
  have str: "es @ left f q' = left f q" "if left f q = [] then err = Some EOF else es \<noteq> [] \<and> err = None"
    using assms call unfolding reading_def dir_stream_def by blast+
  have good: "\<forall>e \<in> set (left f q). entry_info e \<noteq> []" using assms(1) by (simp add: reading_def st descs_def)
  have good': "\<forall>e \<in> set es. entry_info e \<noteq> []" "\<forall>e \<in> set (left f q'). entry_info e \<noteq> []" using good str(1) by (metis Un_iff set_append)+
  let ?t = "(set_file h (\<lambda>fl. fl\<lparr>pf_dirPos := 1\<rparr>) ps, d, q')"
  have "reading os left f h ?t (fl\<lparr>pf_dirPos := 1\<rparr>)"
    using assms(1) good'(2) by (simp add: reading_def st descs_def set_file_def)
  moreover have "read_more os h (Some f) n got st = ((if got @ infos es = [] then Inl EOF else Inr (got @ infos es)), ?t)"
    using str infos_Nil[OF good'(1)] by (auto simp: read_more_def read_call_def st call disk_def infos_def split: if_splits)
  moreover have "infos es @ infos (left f q') = infos (left f q)" by (metis infos_simps(2) str(1))
  moreover have "infos es = [] \<longrightarrow> infos (left f q) = []"
    using str infos_Nil[OF good'(1)] infos_simps(1) by metis
  ultimately show ?thesis by (intro exI[of _ "infos es"] exI[of _ ?t]) (simp add: st descs_def)
qed


lemma started_pending:
  assumes "reading os left f h st fl" "pf_dirPos fl \<noteq> 0"
  shows "dir_started os left f h st" "dir_pending os left f h st = pf_dirBuffer fl @ infos (left f (descs st))"
  using assms by (auto simp: dir_started_def dir_pending_def reading_def)

lemma reading_set:
  assumes "reading os left f h st fl" "pf_f (g fl) = pf_f fl" "pf_h (g fl) = pf_h fl"
  shows "reading os left f h (set_file h g (fst st), snd st) (g fl)"
  using assms by (simp add: reading_def set_file_def descs_def)

lemma drain_stream:
  assumes "reading os left f h st fl" "0 < n"
  shows "\<exists>ds t. drain os h fl n got st = ((if got @ ds = [] then Inl EOF else Inr (got @ ds)), t)
     \<and> ds @ dir_pending os left f h t = pf_dirBuffer fl @ infos (left f (descs st))
     \<and> (ds = [] \<longrightarrow> pf_dirBuffer fl @ infos (left f (descs st)) = []) \<and> dir_started os left f h t"
proof -
  let ?buf = "pf_dirBuffer fl"
  have pf: "pf_f fl = Some f" using assms(1) by (simp add: reading_def)
  let ?st = "(set_file h (\<lambda>fl. fl\<lparr>pf_dirBuffer := []\<rparr>) (fst st), snd st)"
  have st: "reading os left f h ?st (fl\<lparr>pf_dirBuffer := []\<rparr>)" by (rule reading_set[OF assms(1)]) simp_all
  consider (empty) "?buf = []" | (fill) "?buf \<noteq> []" "int (length ?buf) \<le> n" "n - int (length (got @ ?buf)) \<le> 0"
    | (more) "?buf \<noteq> []" "int (length ?buf) \<le> n" "0 < n - int (length (got @ ?buf))" | (cut) "?buf \<noteq> []" "n < int (length ?buf)"
    by linarith
  then show ?thesis
  proof cases
    case empty
    obtain ds t where t: "read_more os h (Some f) n got st = ((if got @ ds = [] then Inl EOF else Inr (got @ ds)), t)"
        "ds @ infos (left f (descs t)) = infos (left f (descs st))" "ds = [] \<longrightarrow> infos (left f (descs st)) = []"
        "reading os left f h t (fl\<lparr>pf_dirPos := 1\<rparr>)"
      using read_more_stream[OF assms] by blast
    then show ?thesis using started_pending[OF t(4)] empty pf by (intro exI[of _ ds] exI[of _ t]) (simp add: drain_def)
  next
    case fill
    let ?t = "(set_file h (\<lambda>fl. fl\<lparr>pf_dirPos := 1\<rparr>) (fst ?st), snd ?st)"
    have t: "reading os left f h ?t (fl\<lparr>pf_dirBuffer := [], pf_dirPos := 1\<rparr>)" by (rule reading_set[OF st]) simp_all
    have "drain os h fl n got st = (Inr (got @ ?buf), ?t)" using fill by (simp add: drain_def Let_def)
    then show ?thesis
      using started_pending[OF t] fill(1) by (intro exI[of _ ?buf] exI[of _ ?t]) (simp add: descs_def)
  next
    case more
    obtain ds t where t: "read_more os h (Some f) (n - int (length (got @ ?buf))) (got @ ?buf) ?st
          = ((if (got @ ?buf) @ ds = [] then Inl EOF else Inr ((got @ ?buf) @ ds)), t)"
        "ds @ infos (left f (descs t)) = infos (left f (descs ?st))" "ds = [] \<longrightarrow> infos (left f (descs ?st)) = []"
        "reading os left f h t (fl\<lparr>pf_dirBuffer := [], pf_dirPos := 1\<rparr>)"
      using read_more_stream[OF st more(3), of "got @ ?buf"] by blast
    have "drain os h fl n got st = (Inr (got @ ?buf @ ds), t)" using more pf t(1) by (simp add: drain_def Let_def)
    then show ?thesis
      using started_pending[OF t(4)] more(1) t(2) by (intro exI[of _ "?buf @ ds"] exI[of _ t]) (simp add: descs_def)
  next
    case cut
    let ?t = "(set_file h (\<lambda>fl. fl\<lparr>pf_dirBuffer := drop (nat n) ?buf, pf_dirPos := 1\<rparr>) (fst st), snd st)"
    have t: "reading os left f h ?t (fl\<lparr>pf_dirBuffer := drop (nat n) ?buf, pf_dirPos := 1\<rparr>)" by (rule reading_set[OF assms(1)]) simp_all
    have "take (nat n) ?buf \<noteq> []" using cut assms(2) by simp
    moreover have "drain os h fl n got st = (Inr (got @ take (nat n) ?buf), ?t)" using cut by (simp add: drain_def Let_def)
    ultimately show ?thesis
      using started_pending[OF t] by (intro exI[of _ "take (nat n) ?buf"] exI[of _ ?t]) (simp add: descs_def flip: append_assoc)
  qed
qed

lemma GetAttr_same: "p_GetAttr os h st = (fst (p_GetAttr os h st), st)"
  by (auto simp: p_GetAttr_def with_file_def Let_def split: option.split sum.split)

lemma p_ReadDir_stream:
  assumes "dir_ok os left f h st"
  shows "\<exists>ds t. p_ReadDir os h 0 1000 st = ((if ds = [] then Inl EOF else Inr ds), t)
     \<and> ds @ dir_pending os left f h t = dir_pending os left f h st \<and> (ds = [] \<longrightarrow> dir_pending os left f h st = []) \<and> dir_started os left f h t"
proof -
  consider (go) fl where "reading os left f h st fl" "pf_dirPos fl \<noteq> 0"
    | (first) fl where "reading os left f h st fl" "pf_dirPos fl = 0" "pf_dirBuffer fl = []" "dots os h st \<noteq> []"
    using assms by (auto simp: dir_ok_def dir_started_def)
  then show ?thesis
  proof cases
    case go
    have "p_ReadDir os h 0 1000 st = drain os h fl 1000 [] st"
      using go by (simp add: p_ReadDir_def with_file_def reading_def)
    moreover obtain ds t where "drain os h fl 1000 [] st = ((if [] @ ds = [] then Inl EOF else Inr ([] @ ds)), t)"
        "ds @ dir_pending os left f h t = pf_dirBuffer fl @ infos (left f (descs st))"
        "ds = [] \<longrightarrow> pf_dirBuffer fl @ infos (left f (descs st)) = []" "dir_started os left f h t"
      using drain_stream[OF go(1), of 1000 "[]"] zero_less_numeral by blast
    ultimately show ?thesis using started_pending[OF go] by (intro exI[of _ ds] exI[of _ t]) simp
  next
    case first
    obtain a where a: "fst (p_GetAttr os h st) = Inr a" "dots os h st = [(''.'', a), (''..'', a)]"
      using first(4) by (auto simp: dots_def split: sum.splits)
    then have get: "p_GetAttr os h st = (Inr a, st)" using GetAttr_same[of os h st] by simp
    have "p_ReadDir os h 0 1000 st = drain os h fl 1000 (dots os h st) st"
      using first get a(2) by (simp add: p_ReadDir_def with_file_def reading_def)
    moreover have "dir_pending os left f h st = dots os h st @ infos (left f (descs st))"
      using first by (simp add: dir_pending_def reading_def)
    moreover obtain ds t where "drain os h fl 1000 (dots os h st) st
          = ((if dots os h st @ ds = [] then Inl EOF else Inr (dots os h st @ ds)), t)"
        "ds @ dir_pending os left f h t = pf_dirBuffer fl @ infos (left f (descs st))" "dir_started os left f h t"
      using drain_stream[OF first(1), of 1000 "dots os h st"] zero_less_numeral by blast
    ultimately show ?thesis using first(3,4) by (intro exI[of _ "dots os h st @ ds"] exI[of _ t]) simp
  qed
qed

lemma p_PutBack_stream:
  assumes "dir_started os left f h st"
  shows "dir_pending os left f h (p_PutBackDirEntries h es st) = es @ dir_pending os left f h st
    \<and> dir_started os left f h (p_PutBackDirEntries h es st)"
proof (cases "es = []")
  case True
  then show ?thesis using assms by (simp add: p_PutBackDirEntries_def)
next
  case False
  obtain fl where fl: "reading os left f h st fl" "pf_dirPos fl \<noteq> 0" using assms by (auto simp: dir_started_def)
  let ?g = "\<lambda>fl. fl\<lparr>pf_dirBuffer := es @ pf_dirBuffer fl\<rparr>"
  have r: "reading os left f h (set_file h ?g (fst st), snd st) (?g fl)" by (rule reading_set[OF fl(1)]) simp_all
  have "p_PutBackDirEntries h es st = (set_file h ?g (fst st), snd st)"
    using False fl(1) by (simp add: p_PutBackDirEntries_def reading_def)
  then show ?thesis using started_pending[OF r] started_pending[OF fl] fl(2) by (simp add: descs_def)
qed

interpretation passthrough_dir: dir_reader "passthrough os" n h "\<lambda>s. dir_pending os left f h (fst s n, snd s)"
    "\<lambda>s. dir_ok os left f h (fst s n, snd s)" "\<lambda>s. dir_started os left f h (fst s n, snd s)" for os n h left f
proof (unfold_locales, goal_cases)
  case (1 s)
  then show ?case by (simp add: dir_ok_def)
next
  case (2 s)
  obtain ds t where t: "p_ReadDir os h 0 1000 (fst s n, snd s) = ((if ds = [] then Inl EOF else Inr ds), t)"
      "ds @ dir_pending os left f h t = dir_pending os left f h (fst s n, snd s)"
      "ds = [] \<longrightarrow> dir_pending os left f h (fst s n, snd s) = []" "dir_started os left f h t"
    using p_ReadDir_stream[OF 2] by blast
  let ?t = "((fst s)(n := fst t), snd t)"
  have "v_ReadDir (passthrough os) n h 0 1000 s = ((if ds = [] then Inl EOF else Inr ds), ?t)"
    using t(1) by (simp add: passthrough_def at_share_def split_def Let_def)
  moreover have "(fst ?t n, snd ?t) = t" by simp
  ultimately show ?case using t(2-) by metis
next
  case (3 s es)
  have "v_PutBackDirEntries (passthrough os) n h es s
      = ((fst s)(n := fst (p_PutBackDirEntries h es (fst s n, snd s))), snd (p_PutBackDirEntries h es (fst s n, snd s)))"
    by (simp add: passthrough_def at_share_def split_def Let_def)
  then show ?case using p_PutBack_stream[OF 3] by simp
qed

subsection \<open>Properties\<close>


text \<open>
  C33. A listing comes to its end and is complete.  Let a directory just have been opened, and let the
  operating system read it as it is documented.  A client that asks for all names gets, whatever the
  size of its buffer, the entries \<^verbatim>\<open>.\<close> and \<^verbatim>\<open>..\<close> and each entry of the directory exactly once, in order, and
  then the status that there is no more, after at most one round for each entry and a last one.
\<close>

theorem listing_complete:
  assumes "dir_stream os left" "h \<noteq> 0" "openFiles (fst s n) h = Some \<lparr>pf_path = path, pf_isDir = True, pf_f = Some f,
      pf_h = h, pf_dirPos = 0, pf_dirBuffer = []\<rparr>"
    and "fst (p_GetAttr os h (fst s n, snd s)) = Inr a" "\<forall>e \<in> set (left f (snd (snd s))). entry_info e \<noteq> []"
    and "entries = [(''.'', a), (''..'', a)] @ infos (left f (snd (snd s)))"
    and "\<forall>d \<in> set entries. wanted (fst d) \<and> mk d \<noteq> None" "length entries < k"
  shows "listing_rounds k (passthrough os) n h mk wanted single room s = Some (map (the \<circ> mk) entries, STATUS_NO_MORE_FILES)"
proof -
  have ok: "dir_ok os left f h (fst s n, snd s)"
    using assms(1-5) by (simp add: dir_ok_def reading_def dots_def descs_def)
  have "dir_pending os left f h (fst s n, snd s) = entries"
    using assms(3,4,6) by (simp add: dir_pending_def dots_def descs_def)
  then show ?thesis using passthrough_dir.rounds_complete[OF ok] assms(7,8) by simp
qed

text \<open>A directory with two files, which is read one entry at a time.\<close>

definition toy_left :: "fd \<Rightarrow> nat \<Rightarrow> (string \<times> (error + FileInfo)) list" where
  "toy_left f q = drop q [(''a'', Inr toy_info), (''b'', Inr toy_info)]"

definition toy_dir_os :: "(toy_disk, nat) os" where
  "toy_dir_os = toy_os\<lparr>os_f_ReadDir := \<lambda>f n s. if toy_left f (snd s) = [] then (([], Some EOF), snd s)
     else (([hd (toy_left f (snd s))], None), Suc (snd s))\<rparr>"

definition toy_dir :: "(toy_disk, nat) shares_state" where
  "toy_dir = (\<lambda>n. (NewPassthroughFS ''/srv'' True)\<lparr>openFiles := [7 \<mapsto> \<lparr>pf_path = ''/srv'', pf_isDir = True, pf_f = Some 1,
     pf_h = 7, pf_dirPos = 0, pf_dirBuffer = []\<rparr>]\<rparr>, [], 0)"

lemma toy_left_next: "toy_left f q \<noteq> [] \<Longrightarrow> hd (toy_left f q) # toy_left f (Suc q) = toy_left f q"
  by (cases "q = 0"; cases "q = 1") (auto simp: toy_left_def)

lemma toy_dir_stream: "dir_stream toy_dir_os toy_left"
  using toy_left_next by (auto simp: dir_stream_def toy_dir_os_def)

lemma toy_dir_attr: "fst (p_GetAttr toy_dir_os 7 (fst toy_dir 0, snd toy_dir)) = fileInfoToAttr toy_info"
  by (simp add: p_GetAttr_def with_file_def toy_dir_def toy_dir_os_def toy_os_def Let_def)

definition toy_mk :: "DirInfo \<Rightarrow> dir_item option" where
  "toy_mk d = Some (newFileNamesInformationInfo d)"

lemma listing_complete_witness:
  "listing_rounds 5 (passthrough toy_dir_os) 0 7 toy_mk (\<lambda>name. True) False 40 toy_dir
    = Some (map FileNamesInformationInfo [''.'', ''..'', ''a'', ''b''], STATUS_NO_MORE_FILES)"
proof -
  obtain a where a: "fileInfoToAttr toy_info = Inr a" by (simp add: fileInfoToAttr_def toy_info_def)
  have "infos (toy_left 1 0) = [(''a'', a), (''b'', a)]"
    by (simp add: infos_def toy_left_def entry_info_def stat_attr_def a)
  then show ?thesis
    using listing_complete[OF toy_dir_stream, of 7 toy_dir 0 "''/srv''" 1 a _ "\<lambda>name. True" toy_mk 5 False 40] toy_dir_attr a
    by (auto simp: toy_dir_def toy_left_def entry_info_def stat_attr_def toy_mk_def newFileNamesInformationInfo_def)
qed


end
