(* ===== verification/ClientRequest.thy ===== *)
theory ClientRequest
  imports Accept Negotiation Info
begin

section \<open>Requests of a client\<close>

text \<open>
  \<^verbatim>\<open>smb/internal/smb2/request.go\<close>: the encoders of requests, which a client uses.  They have the form of the encoders
  of responses: fields at fixed offsets of a fresh buffer of \<^verbatim>\<open>Size()\<close> bytes; a value behind the interface
  \<^verbatim>\<open>Encoder\<close> is the bytes it stores in a fresh buffer of its size, a file id its sixteen bytes.
\<close>

record CreateRequestBody =
  SecurityFlags :: byte
  RequestedOplockLevel :: byte
  ImpersonationLevel :: u32
  SmbCreateFlags :: u64
  DesiredAccess :: u32
  cr_FileAttributes :: u32
  ShareAccess :: u32
  CreateDisposition :: u32
  CreateOptions :: u32
  cr_Name :: string
  cr_Contexts :: "CreateContext list"

datatype Request =
    NegotiateRequest u16 u32 "byte list" "u16 list" "NegotiateContext list"
  | SessionSetupRequest byte byte u32 u32 "byte list" u64
  | LogoffRequest
  | TreeConnectRequest u16 string
  | TreeDisconnectRequest
  | CreateRequest CreateRequestBody
  | CloseRequest u16 "byte list"
  | FlushRequest "byte list"
  | ReadRequest byte byte u32 u64 "byte list" u32 u32 u32 "byte list list"
  | WriteRequest "byte list" u32 u32 u32 u64 "byte list list" "byte list"
  | CancelRequest
  | IoctlRequest u32 "byte list" u32 u32 u32 u32 u32 "byte list option"
  | QueryDirectoryRequest byte byte u32 "byte list" u32 string
  | QueryInfoRequest byte byte u32 u32 u32 "byte list" "byte list option"
  | SetInfoRequest byte byte u32 "byte list" "byte list option"

subsection \<open>Sizes\<close>

definition NegotiateRequest_Size :: "u16 list \<Rightarrow> NegotiateContext list \<Rightarrow> nat" where
  "NegotiateRequest_Size ds cs = 64 + sizes_rounded (36 + length ds * 2) (map NegotiateContext_Size cs)"

definition SessionSetupRequest_Size :: "byte list \<Rightarrow> nat" where
  "SessionSetupRequest_Size sb = (if length sb = 0 then 64 + 24 + 1 else 64 + 24 + length sb)"

definition LogoffRequest_Size :: nat where "LogoffRequest_Size = 64 + 4"
definition TreeDisconnectRequest_Size :: nat where "TreeDisconnectRequest_Size = 64 + 4"
definition CancelRequest_Size :: nat where "CancelRequest_Size = 64 + 4"

definition TreeConnectRequest_Size :: "string \<Rightarrow> nat" where
  "TreeConnectRequest_Size path = (if length path = 0 then 64 + 8 + 1 else 64 + 8 + name_len path)"

definition CreateRequest_Size :: "CreateRequestBody \<Rightarrow> nat" where
  "CreateRequest_Size r =
     (if length (cr_Name r) = 0 \<and> length (cr_Contexts r) = 0 then 64 + 56 + 1
      else sizes_rounded (64 + 56 + name_len (cr_Name r)) (map CreateContext_Size (cr_Contexts r)))"

definition CloseRequest_Size :: nat where "CloseRequest_Size = 64 + 24"
definition FlushRequest_Size :: nat where "FlushRequest_Size = 64 + 24"

definition ReadRequest_Size :: "byte list list \<Rightarrow> nat" where
  "ReadRequest_Size info = (if length info = 0 then 64 + 48 + 1 else 64 + 48 + length (concat info))"

definition WriteRequest_Size :: "byte list list \<Rightarrow> byte list \<Rightarrow> nat" where
  "WriteRequest_Size info dat =
     (if length dat = 0 \<and> length info = 0 then 64 + 48 + 1 else 64 + 48 + length (concat info) + length dat)"

definition input_size :: "nat \<Rightarrow> byte list option \<Rightarrow> nat" where
  "input_size n inp = (case inp of None \<Rightarrow> 64 + n + 1 | Some bs \<Rightarrow> 64 + n + length bs)"

definition IoctlRequest_Size :: "byte list option \<Rightarrow> nat" where "IoctlRequest_Size inp = input_size 56 inp"
definition QueryInfoRequest_Size :: "byte list option \<Rightarrow> nat" where "QueryInfoRequest_Size inp = input_size 40 inp"
definition SetInfoRequest_Size :: "byte list option \<Rightarrow> nat" where "SetInfoRequest_Size inp = input_size 32 inp"

definition QueryDirectoryRequest_Size :: "string \<Rightarrow> nat" where
  "QueryDirectoryRequest_Size name = (if length name = 0 then 64 + 32 + 1 else 64 + 32 + name_len name)"

fun req_Size :: "Request \<Rightarrow> nat" where
  "req_Size (NegotiateRequest mode caps guid ds cs) = NegotiateRequest_Size ds cs"
| "req_Size (SessionSetupRequest fl mode caps ch sb prev) = SessionSetupRequest_Size sb"
| "req_Size LogoffRequest = LogoffRequest_Size"
| "req_Size (TreeConnectRequest fl path) = TreeConnectRequest_Size path"
| "req_Size TreeDisconnectRequest = TreeDisconnectRequest_Size"
| "req_Size (CreateRequest r) = CreateRequest_Size r"
| "req_Size (CloseRequest fl fid) = CloseRequest_Size"
| "req_Size (FlushRequest fid) = FlushRequest_Size"
| "req_Size (ReadRequest padb fl n off fid mn ch rem info) = ReadRequest_Size info"
| "req_Size (WriteRequest fid fl ch rem off info dat) = WriteRequest_Size info dat"
| "req_Size CancelRequest = CancelRequest_Size"
| "req_Size (IoctlRequest ctl fid ooff ocnt maxin maxout fl inp) = IoctlRequest_Size inp"
| "req_Size (QueryDirectoryRequest cls fl idx fid room name) = QueryDirectoryRequest_Size name"
| "req_Size (QueryInfoRequest ty cls room add fl fid inp) = QueryInfoRequest_Size inp"
| "req_Size (SetInfoRequest ty cls add fid inp) = SetInfoRequest_Size inp"

subsection \<open>Encoders\<close>

fun request_contexts :: "nat \<Rightarrow> bool \<Rightarrow> NegotiateContext list \<Rightarrow> fields" where
  "request_contexts off first [] = []"
| "request_contexts off first (x # xs) =
     (if first then [(28, le32 (of_nat (round8 off + 64)))] else [])
     @ (round8 off, NegotiateContext_Encode x) # request_contexts (round8 off + NegotiateContext_Size x) False xs"

definition NegotiateRequest_Encode :: "u16 \<Rightarrow> u32 \<Rightarrow> byte list \<Rightarrow> u16 list \<Rightarrow> NegotiateContext list \<Rightarrow> fields" where
  "NegotiateRequest_Encode mode caps guid ds cs =
     [(0, le16 36), (4, le16 mode), (8, le32 caps), (12, guid), (36, u16_list ds), (2, le16 (of_nat (length ds)))]
     @ request_contexts (36 + length ds * 2) True cs
     @ [(32, le16 (of_nat (length cs)))]"

definition SessionSetupRequest_Encode :: "byte \<Rightarrow> byte \<Rightarrow> u32 \<Rightarrow> u32 \<Rightarrow> byte list \<Rightarrow> u64 \<Rightarrow> fields" where
  "SessionSetupRequest_Encode fl mode caps ch sb prev =
     [(0, le16 25), (2, [fl]), (3, [mode]), (4, le32 caps), (8, le32 ch), (16, le64 prev), (24, sb), (12, le16 (64 + 24)),
      (14, le16 (of_nat (length sb)))]"

definition LogoffRequest_Encode :: fields where "LogoffRequest_Encode = [(0, le16 4)]"
definition TreeDisconnectRequest_Encode :: fields where "TreeDisconnectRequest_Encode = [(0, le16 4)]"
definition CancelRequest_Encode :: fields where "CancelRequest_Encode = [(0, le16 4)]"

definition TreeConnectRequest_Encode :: "u16 \<Rightarrow> string \<Rightarrow> fields" where
  "TreeConnectRequest_Encode fl path =
     [(0, le16 9), (2, le16 fl), (8, name_bytes path), (4, le16 (8 + 64)), (6, le16 (of_nat (length (name_bytes path))))]"

text \<open>
  The field \<^verbatim>\<open>Next\<close> of a context is the size of the context, not where the next one begins, and the
  length of all contexts is counted from the end of the name.
\<close>

fun request_create_contexts :: "nat \<Rightarrow> (nat \<times> nat) option \<Rightarrow> CreateContext list \<Rightarrow> fields" where
  "request_create_contexts off prev [] = []"
| "request_create_contexts off prev (x # xs) =
     (case prev of None \<Rightarrow> (48, le32 (of_nat (64 + round8 off))) | Some (at, next) \<Rightarrow> (at, le32 (of_nat next)))
     # (round8 off, zeros 4) # (round8 off + 4, CreateContext_Encode x)
     # request_create_contexts (round8 off + CreateContext_Size x) (Some (round8 off, CreateContext_Size x)) xs"

definition CreateRequest_Encode :: "CreateRequestBody \<Rightarrow> fields" where
  "CreateRequest_Encode r =
     (let nlen = length (name_bytes (cr_Name r)) in
      [(0, le16 57), (2, [SecurityFlags r]), (3, [RequestedOplockLevel r]), (4, le32 (ImpersonationLevel r)),
       (8, le64 (SmbCreateFlags r)), (24, le32 (DesiredAccess r)), (28, le32 (cr_FileAttributes r)), (32, le32 (ShareAccess r)),
       (36, le32 (CreateDisposition r)), (40, le32 (CreateOptions r)), (56, name_bytes (cr_Name r)), (44, le16 (56 + 64)),
       (46, le16 (of_nat nlen))]
      @ request_create_contexts (56 + nlen) None (cr_Contexts r)
      @ [(52, le32 (of_nat (sizes_rounded (56 + nlen) (map CreateContext_Size (cr_Contexts r)) - (56 + nlen))))])"

definition CloseRequest_Encode :: "u16 \<Rightarrow> byte list \<Rightarrow> fields" where
  "CloseRequest_Encode fl fid = [(0, le16 24), (2, le16 fl), (8, fid)]"

definition FlushRequest_Encode :: "byte list \<Rightarrow> fields" where
  "FlushRequest_Encode fid = [(0, le16 24), (8, fid)]"

text \<open>The parts of a channel's information one after another; the first stores where they begin.\<close>

definition channel_info :: "nat \<Rightarrow> nat \<Rightarrow> byte list list \<Rightarrow> fields" where
  "channel_info at off info = (if info = [] then [] else [(at, le16 (of_nat (64 + off)))]) @ [(off, concat info)]"

definition ReadRequest_Encode :: "byte \<Rightarrow> byte \<Rightarrow> u32 \<Rightarrow> u64 \<Rightarrow> byte list \<Rightarrow> u32 \<Rightarrow> u32 \<Rightarrow> u32 \<Rightarrow> byte list list \<Rightarrow> fields" where
  "ReadRequest_Encode padb fl n off fid mn ch rem info =
     [(0, le16 49), (2, [padb]), (3, [fl]), (4, le32 n), (8, le64 off), (16, fid), (32, le32 mn), (36, le32 ch), (40, le32 rem)]
     @ channel_info 44 48 info @ [(46, le16 (of_nat (length (concat info))))]"

definition WriteRequest_Encode :: "byte list \<Rightarrow> u32 \<Rightarrow> u32 \<Rightarrow> u32 \<Rightarrow> u64 \<Rightarrow> byte list list \<Rightarrow> byte list \<Rightarrow> fields" where
  "WriteRequest_Encode fid fl ch rem off info dat =
     (let stop = 48 + length (concat info) in
      [(0, le16 49), (8, le64 off), (16, fid), (32, le32 ch), (36, le32 rem), (44, le32 fl)]
      @ channel_info 40 48 info
      @ [(42, le16 (of_nat (stop - 48))), (2, le16 (of_nat (64 + stop))), (stop, dat), (4, le32 (of_nat (length dat)))])"

definition IoctlRequest_Encode :: "u32 \<Rightarrow> byte list \<Rightarrow> u32 \<Rightarrow> u32 \<Rightarrow> u32 \<Rightarrow> u32 \<Rightarrow> u32 \<Rightarrow> byte list option \<Rightarrow> fields" where
  "IoctlRequest_Encode ctl fid ooff ocnt maxin maxout fl inp =
     [(0, le16 57), (4, le32 ctl), (8, fid), (32, le32 maxin), (36, le32 ooff), (40, le32 ocnt), (44, le32 maxout), (48, le32 fl)]
     @ (case inp of None \<Rightarrow> [] | Some bs \<Rightarrow> [(24, le32 (56 + 64)), (56, bs), (28, le32 (of_nat (length bs)))])"

definition QueryDirectoryRequest_Encode :: "byte \<Rightarrow> byte \<Rightarrow> u32 \<Rightarrow> byte list \<Rightarrow> u32 \<Rightarrow> string \<Rightarrow> fields" where
  "QueryDirectoryRequest_Encode cls fl idx fid room name =
     [(0, le16 33), (2, [cls]), (3, [fl]), (4, le32 idx), (8, fid), (28, le32 room), (24, le16 (32 + 64)), (32, name_bytes name),
      (26, le16 (of_nat (length (name_bytes name))))]"

definition QueryInfoRequest_Encode :: "byte \<Rightarrow> byte \<Rightarrow> u32 \<Rightarrow> u32 \<Rightarrow> u32 \<Rightarrow> byte list \<Rightarrow> byte list option \<Rightarrow> fields" where
  "QueryInfoRequest_Encode ty cls room add fl fid inp =
     [(0, le16 41), (2, [ty]), (3, [cls]), (4, le32 room), (16, le32 add), (20, le32 fl), (24, fid)]
     @ (case inp of None \<Rightarrow> [] | Some bs \<Rightarrow> [(8, le16 (40 + 64)), (40, bs), (12, le32 (of_nat (length bs)))])"

definition SetInfoRequest_Encode :: "byte \<Rightarrow> byte \<Rightarrow> u32 \<Rightarrow> byte list \<Rightarrow> byte list option \<Rightarrow> fields" where
  "SetInfoRequest_Encode ty cls add fid inp =
     [(0, le16 33), (2, [ty]), (3, [cls]), (12, le32 add), (16, fid)]
     @ (case inp of None \<Rightarrow> [] | Some bs \<Rightarrow> [(8, le16 (32 + 64)), (32, bs), (4, le32 (of_nat (length bs)))])"

fun req_fields :: "Request \<Rightarrow> fields" where
  "req_fields (NegotiateRequest mode caps guid ds cs) = NegotiateRequest_Encode mode caps guid ds cs"
| "req_fields (SessionSetupRequest fl mode caps ch sb prev) = SessionSetupRequest_Encode fl mode caps ch sb prev"
| "req_fields LogoffRequest = LogoffRequest_Encode"
| "req_fields (TreeConnectRequest fl path) = TreeConnectRequest_Encode fl path"
| "req_fields TreeDisconnectRequest = TreeDisconnectRequest_Encode"
| "req_fields (CreateRequest r) = CreateRequest_Encode r"
| "req_fields (CloseRequest fl fid) = CloseRequest_Encode fl fid"
| "req_fields (FlushRequest fid) = FlushRequest_Encode fid"
| "req_fields (ReadRequest padb fl n off fid mn ch rem info) = ReadRequest_Encode padb fl n off fid mn ch rem info"
| "req_fields (WriteRequest fid fl ch rem off info dat) = WriteRequest_Encode fid fl ch rem off info dat"
| "req_fields CancelRequest = CancelRequest_Encode"
| "req_fields (IoctlRequest ctl fid ooff ocnt maxin maxout fl inp) = IoctlRequest_Encode ctl fid ooff ocnt maxin maxout fl inp"
| "req_fields (QueryDirectoryRequest cls fl idx fid room name) = QueryDirectoryRequest_Encode cls fl idx fid room name"
| "req_fields (QueryInfoRequest ty cls room add fl fid inp) = QueryInfoRequest_Encode ty cls room add fl fid inp"
| "req_fields (SetInfoRequest ty cls add fid inp) = SetInfoRequest_Encode ty cls add fid inp"

fun req_Command :: "Request \<Rightarrow> u16" where
  "req_Command (NegotiateRequest mode caps guid ds cs) = SMB2_NEGOTIATE"
| "req_Command (SessionSetupRequest fl mode caps ch sb prev) = SMB2_SESSION_SETUP"
| "req_Command LogoffRequest = SMB2_LOGOFF"
| "req_Command (TreeConnectRequest fl path) = SMB2_TREE_CONNECT"
| "req_Command TreeDisconnectRequest = SMB2_TREE_DISCONNECT"
| "req_Command (CreateRequest r) = SMB2_CREATE"
| "req_Command (CloseRequest fl fid) = SMB2_CLOSE"
| "req_Command (FlushRequest fid) = SMB2_FLUSH"
| "req_Command (ReadRequest padb fl n off fid mn ch rem info) = SMB2_READ"
| "req_Command (WriteRequest fid fl ch rem off info dat) = SMB2_WRITE"
| "req_Command CancelRequest = SMB2_CANCEL"
| "req_Command (IoctlRequest ctl fid ooff ocnt maxin maxout fl inp) = SMB2_IOCTL"
| "req_Command (QueryDirectoryRequest cls fl idx fid room name) = SMB2_QUERY_DIRECTORY"
| "req_Command (QueryInfoRequest ty cls room add fl fid inp) = SMB2_QUERY_INFO"
| "req_Command (SetInfoRequest ty cls add fid inp) = SMB2_SET_INFO"

definition req_Encode :: "PacketHeader \<Rightarrow> Request \<Rightarrow> byte list \<Rightarrow> byte list option" where
  "req_Encode hdr r pkt = do {
     pkt \<leftarrow> encodeHeader (hdr\<lparr>Command := req_Command r\<rparr>) pkt;
     puts (in_body (req_fields r)) pkt }"

definition ChangeNotifyRequest_Size :: nat where "ChangeNotifyRequest_Size = 64 * 2"

end
