(* ===== verification/ClientReqProps.thy ===== *)
theory ClientReqProps
  imports ClientRequest
begin

section \<open>The server understands what a client encodes\<close>

subsection \<open>Reading fields\<close>

text \<open>A buffer that a run of fields was stored in, read through a decoder.\<close>

lemma u16_field:
  assumes "fits (length b) fs" "hi = lo + 2" "hi \<le> length b"
  shows "field_at fs lo 2 = Some bs \<Longrightarrow> u16_in lo hi (Slice (wrs fs b) ex) = Some (le_dec bs)"
    "apart lo 2 fs \<Longrightarrow> u16_in lo hi (Slice (wrs fs b) ex) = Some (le_dec (rd lo 2 b))"
  using assms rd_wrs[OF assms(1), of lo 2] rd_wrs_apart[OF assms(1), of lo 2]
  by (simp_all add: u16_in_in length_wrs rd_vis flip: rd_def)

lemma u32_field:
  assumes "fits (length b) fs" "hi = lo + 4" "hi \<le> length b"
  shows "field_at fs lo 4 = Some bs \<Longrightarrow> u32_in lo hi (Slice (wrs fs b) ex) = Some (le_dec bs)"
    "apart lo 4 fs \<Longrightarrow> u32_in lo hi (Slice (wrs fs b) ex) = Some (le_dec (rd lo 4 b))"
  using assms rd_wrs[OF assms(1), of lo 4] rd_wrs_apart[OF assms(1), of lo 4]
  by (simp_all add: u32_in_in length_wrs rd_vis flip: rd_def)

lemma u64_field:
  assumes "fits (length b) fs" "hi = lo + 8" "hi \<le> length b" "field_at fs lo 8 = Some bs"
  shows "u64_in lo hi (Slice (wrs fs b) ex) = Some (le_dec bs)"
  using assms rd_wrs[OF assms(1,4)] by (simp add: u64_in_in length_wrs rd_vis flip: rd_def)

lemma byte_field:
  assumes "fits (length b) fs" "lo < length b" "field_at fs lo 1 = Some [x]"
  shows "sl_at lo (Slice (wrs fs b) ex) = Some x"
proof -
  have l: "lo < length (wrs fs b)" using assms(1,2) by (simp add: length_wrs)
  have "rd lo 1 (wrs fs b) = [x]" by (rule rd_wrs[OF assms(1,3)])
  then have "wrs fs b ! lo = x" using l by (simp add: rd_def take_Suc hd_drop_conv_nth)
  then show ?thesis using l by (simp add: sl_at_in)
qed

lemma part_field:
  assumes "fits (length b) fs" "hi \<le> length b"
  shows "lo < hi \<Longrightarrow> field_at fs lo (hi - lo) = Some bs
      \<Longrightarrow> sl_range lo hi (Slice (wrs fs b) ex) = Some (Slice bs (drop hi (wrs fs b) @ ex))"
    "lo = hi \<Longrightarrow> sl_range lo hi (Slice (wrs fs b) ex) = Some (Slice [] (drop hi (wrs fs b) @ ex))"
  using assms rd_wrs[OF assms(1)] by (simp_all add: sl_range_in length_wrs rd_vis flip: rd_def)

lemma rest_field:
  assumes "fits (length b) fs" "lo < length b"
  shows "field_at fs lo (length b - lo) = Some bs \<Longrightarrow> sl_from lo (Slice (wrs fs b) ex) = Some (Slice bs ex)"
    "apart lo (length b - lo) fs \<Longrightarrow> sl_from lo (Slice (wrs fs b) ex) = Some (Slice (rd lo (length b - lo) b) ex)"
proof -
  have l: "length (wrs fs b) = length b" using assms(1) by (simp add: length_wrs)
  have r: "drop lo (wrs fs b) = rd lo (length b - lo) (wrs fs b)" by (simp add: rd_def l)
  show "field_at fs lo (length b - lo) = Some bs \<Longrightarrow> sl_from lo (Slice (wrs fs b) ex) = Some (Slice bs ex)"
    "apart lo (length b - lo) fs \<Longrightarrow> sl_from lo (Slice (wrs fs b) ex) = Some (Slice (rd lo (length b - lo) b) ex)"
    using assms(2) l rd_wrs[OF assms(1), of lo "length b - lo" bs] rd_wrs_apart[OF assms(1), of lo "length b - lo"]
    by (simp_all add: sl_from_in r)
qed

lemma ends_past_iff: "ends_past r stop \<longleftrightarrow> len r + 64 < stop"
  by (auto simp: ends_past_def)

subsection \<open>What the server should read\<close>

fun understood :: "Request \<Rightarrow> slice \<Rightarrow> bool" where
  "understood (NegotiateRequest mode caps guid ds cs) r \<longleftrightarrow>
     NegotiateRequest_IsInvalid r = Some False \<and> NegotiateRequest_SecurityMode r = Some mode
     \<and> NegotiateRequest_Capabilities r = Some caps \<and> map_option vis (NegotiateRequest_ClientGuid r) = Some guid
     \<and> NegotiateRequest_Dialects r = Some ds \<and> NegotiateRequest_NegotiateContextCount r = Some (of_nat (length cs))"
| "understood (SessionSetupRequest fl mode caps ch sb prev) r \<longleftrightarrow>
     SessionSetupRequest_IsInvalid r = Some False \<and> SessionSetupRequest_Flags r = Some fl \<and> SessionSetupRequest_SecurityMode r = Some mode
     \<and> SessionSetupRequest_Capabilities r = Some caps \<and> SessionSetupRequest_Channel r = Some ch
     \<and> map_option vis (SessionSetupRequest_SecurityBuffer r) = Some sb \<and> SessionSetupRequest_PreviousSessionId r = Some prev"
| "understood LogoffRequest r \<longleftrightarrow> LogoffRequest_IsInvalid r = Some False"
| "understood (TreeConnectRequest fl path) r \<longleftrightarrow>
     TreeConnectRequest_IsInvalid r = Some False \<and> TreeConnectRequest_Flags r = Some fl \<and> TreeConnectRequest_Path r = Some path"
| "understood TreeDisconnectRequest r \<longleftrightarrow> TreeDisconnectRequest_IsInvalid r = Some False"
| "understood (CreateRequest q) r \<longleftrightarrow>
     CreateRequest_IsInvalid r = Some False \<and> CreateRequest_SecurityFlags r = Some (SecurityFlags q)
     \<and> CreateRequest_RequestedOplockLevel r = Some (RequestedOplockLevel q) \<and> CreateRequest_ImpersonationLevel r = Some (ImpersonationLevel q)
     \<and> CreateRequest_SmbCreateFlags r = Some (SmbCreateFlags q) \<and> CreateRequest_DesiredAccess r = Some (DesiredAccess q)
     \<and> CreateRequest_FileAttributes r = Some (cr_FileAttributes q) \<and> CreateRequest_ShareAccess r = Some (ShareAccess q)
     \<and> CreateRequest_CreateDisposition r = Some (CreateDisposition q) \<and> CreateRequest_CreateOptions r = Some (CreateOptions q)
     \<and> CreateRequest_Name r = Some (cr_Name q) \<and> map_option vis (CreateRequest_CreateContexts r) = Some []"
| "understood (CloseRequest fl fid) r \<longleftrightarrow>
     CloseRequest_IsInvalid r = Some False \<and> CloseRequest_Flags r = Some fl \<and> map_option vis (CloseRequest_FileId r) = Some fid"
| "understood (FlushRequest fid) r \<longleftrightarrow> FlushRequest_IsInvalid r = Some False \<and> map_option vis (FlushRequest_FileId r) = Some fid"
| "understood (ReadRequest padb fl n off fid mn ch rem info) r \<longleftrightarrow>
     ReadRequest_IsInvalid r = Some False \<and> ReadRequest_Padding r = Some padb \<and> ReadRequest_Flags r = Some fl \<and> ReadRequest_Length r = Some n
     \<and> ReadRequest_Offset r = Some off \<and> map_option vis (ReadRequest_FileId r) = Some fid \<and> ReadRequest_MinimumCount r = Some mn
     \<and> ReadRequest_Channel r = Some ch \<and> ReadRequest_RemainingBytes r = Some rem"
| "understood (WriteRequest fid fl ch rem off info dat) r \<longleftrightarrow>
     WriteRequest_IsInvalid r = Some False \<and> map_option vis (WriteRequest_FileId r) = Some fid \<and> WriteRequest_Flags r = Some fl
     \<and> WriteRequest_Channel r = Some ch \<and> WriteRequest_RemainingBytes r = Some rem \<and> WriteRequest_Offset r = Some off
     \<and> map_option vis (WriteRequest_Data r) = Some dat"
| "understood CancelRequest r \<longleftrightarrow> CancelRequest_IsInvalid r = Some False"
| "understood (IoctlRequest ctl fid ooff ocnt maxin maxout fl inp) r \<longleftrightarrow>
     IoctlRequest_IsInvalid r = Some False \<and> IoctlRequest_CtlCode r = Some ctl \<and> map_option vis (IoctlRequest_FileId r) = Some fid
     \<and> IoctlRequest_MaxInputResponse r = Some maxin \<and> IoctlRequest_MaxOutputResponse r = Some maxout \<and> IoctlRequest_Flags r = Some fl
     \<and> map_option vis (IoctlRequest_Data r) = Some (case inp of None \<Rightarrow> [0] | Some bs \<Rightarrow> bs)"
| "understood (QueryDirectoryRequest cls fl idx fid room name) r \<longleftrightarrow>
     QueryDirectoryRequest_IsInvalid r = Some False \<and> QueryDirectoryRequest_FileInfoClass r = Some cls \<and> QueryDirectoryRequest_Flags r = Some fl
     \<and> QueryDirectoryRequest_FileIndex r = Some idx \<and> map_option vis (QueryDirectoryRequest_FileId r) = Some fid
     \<and> QueryDirectoryRequest_OutputBufferLength r = Some room \<and> QueryDirectoryRequest_FileName r = Some name"
| "understood (QueryInfoRequest ty cls room add fl fid inp) r \<longleftrightarrow>
     QueryInfoRequest_IsInvalid r = Some False \<and> QueryInfoRequest_InfoType r = Some ty \<and> QueryInfoRequest_FileInfoClass r = Some cls
     \<and> QueryInfoRequest_OutputBufferLength r = Some room \<and> QueryInfoRequest_AdditionalInformation r = Some add
     \<and> QueryInfoRequest_Flags r = Some fl \<and> map_option vis (QueryInfoRequest_FileId r) = Some fid"
| "understood (SetInfoRequest ty cls add fid inp) r \<longleftrightarrow>
     SetInfoRequest_IsInvalid r = Some False \<and> SetInfoRequest_InfoType r = Some ty \<and> SetInfoRequest_FileInfoClass r = Some cls
     \<and> SetInfoRequest_AdditionalInformation r = Some add \<and> map_option vis (SetInfoRequest_FileId r) = Some fid
     \<and> map_option vis (SetInfoRequest_Buffer r) = Some (case inp of None \<Rightarrow> [0] | Some bs \<Rightarrow> bs)"


text \<open>Names that a client can send: sequences of Unicode characters without a final NUL.\<close>

definition unicode_name :: "string \<Rightarrow> bool" where
  "unicode_name s \<longleftrightarrow> (\<exists>rs. list_all scalar rs \<and> (rs = [] \<or> last rs \<noteq> 0) \<and> s = string_of_runes rs)"

text \<open>
  Arrays have their lengths, lengths fit their fields.  Not understood are contexts of less than 28 bytes in a
  NEGOTIATE and a READ with channel information; contexts of a CREATE are left out.
\<close>

fun request_ok :: "Request \<Rightarrow> bool" where
  "request_ok (NegotiateRequest mode caps guid ds cs) \<longleftrightarrow> length guid = 16 \<and> 36 + 2 * length ds < 2 ^ 16
     \<and> NegotiateRequest_Size ds cs < 2 ^ 32 \<and> (cs = [] \<or> 64 + round8 (36 + length ds * 2) + 28 \<le> NegotiateRequest_Size ds cs)"
| "request_ok (SessionSetupRequest fl mode caps ch sb prev) \<longleftrightarrow> 88 + length sb < 2 ^ 16"
| "request_ok LogoffRequest \<longleftrightarrow> True"
| "request_ok (TreeConnectRequest fl path) \<longleftrightarrow> unicode_name path \<and> 72 + name_len path < 2 ^ 16"
| "request_ok TreeDisconnectRequest \<longleftrightarrow> True"
| "request_ok (CreateRequest q) \<longleftrightarrow> unicode_name (cr_Name q) \<and> 120 + name_len (cr_Name q) < 2 ^ 16 \<and> cr_Contexts q = []"
| "request_ok (CloseRequest fl fid) \<longleftrightarrow> length fid = 16"
| "request_ok (FlushRequest fid) \<longleftrightarrow> length fid = 16"
| "request_ok (ReadRequest padb fl n off fid mn ch rem info) \<longleftrightarrow> length fid = 16 \<and> info = []"
| "request_ok (WriteRequest fid fl ch rem off info dat) \<longleftrightarrow> length fid = 16 \<and> 112 + length (concat info) < 2 ^ 16
     \<and> 112 + length (concat info) + length dat < 2 ^ 32"
| "request_ok CancelRequest \<longleftrightarrow> True"
| "request_ok (IoctlRequest ctl fid ooff ocnt maxin maxout fl inp) \<longleftrightarrow> length fid = 16 \<and> IoctlRequest_Size inp < 2 ^ 32"
| "request_ok (QueryDirectoryRequest cls fl idx fid room name) \<longleftrightarrow> length fid = 16 \<and> unicode_name name \<and> 96 + name_len name < 2 ^ 16"
| "request_ok (QueryInfoRequest ty cls room add fl fid inp) \<longleftrightarrow> length fid = 16 \<and> QueryInfoRequest_Size inp < 2 ^ 32"
| "request_ok (SetInfoRequest ty cls add fid inp) \<longleftrightarrow> length fid = 16 \<and> SetInfoRequest_Size inp < 2 ^ 32"

lemma unicode_name_bytes:
  assumes "unicode_name s"
  shows "DecodeToString (name_bytes s) = s"
proof -
  obtain rs where rs: "list_all scalar rs" "rs = [] \<or> last rs \<noteq> 0" "s = string_of_runes rs"
    using assms by (auto simp: unicode_name_def)
  have "runes s = rs" unfolding rs(3) by (rule runes_string[OF rs(1)])
  then show ?thesis using decode_word_bytes[OF rs(1,2)] rs(3) by (simp add: name_bytes_def)
qed

lemma length_name_bytes [simp]: "length (name_bytes s) = name_len s"
  by (simp add: name_bytes_def EncodedStringLen_def length_utf16_Encode)

lemmas fields_read = u16_field u32_field u64_field byte_field part_field rest_field length_wrs ends_past_iff le_dec_enc_full rd_zeros

lemmas plain_requests = CloseRequest_Encode_def FlushRequest_Encode_def LogoffRequest_Encode_def TreeDisconnectRequest_Encode_def
  CancelRequest_Encode_def ReadRequest_Encode_def channel_info_def CloseRequest_Size_def FlushRequest_Size_def LogoffRequest_Size_def
  TreeDisconnectRequest_Size_def CancelRequest_Size_def ReadRequest_Size_def

lemma fixed_understood:
  assumes "request_ok r" "r = CloseRequest fl fid \<or> r = FlushRequest fid \<or> r = LogoffRequest \<or> r = TreeDisconnectRequest \<or> r = CancelRequest
    \<or> r = ReadRequest padb rfl n off fid mn ch rem info"
  shows "understood r (Slice (wrs (req_fields r) (zeros (req_Size r - 64))) ex)"
  using assms by (auto simp: plain_requests fields_read IsInvalid_defs accessor_defs simp del: wrs.simps le_dec.simps le_enc.simps)

lemma unat_len16: "n < 2 ^ 16 \<Longrightarrow> unat (of_nat n :: u16) = n"
  by (simp add: unat_of_nat)

lemma unat_len32: "n < 2 ^ 32 \<Longrightarrow> unat (of_nat n :: u32) = n"
  by (simp add: unat_of_nat)

lemma unat_plus16: "unat (a :: u16) + n < 2 ^ 16 \<Longrightarrow> unat (a + of_nat n) = unat a + n"
  by (simp add: unat_word_ariths unat_of_nat)

lemma unat_plus32: "unat (a :: u32) + n < 2 ^ 32 \<Longrightarrow> unat (a + of_nat n) = unat a + n"
  by (simp add: unat_word_ariths unat_of_nat)

lemma session_setup_understood:
  assumes "request_ok r" "r = SessionSetupRequest fl mode caps ch sb prev"
  shows "understood r (Slice (wrs (req_fields r) (zeros (req_Size r - 64))) ex)"
proof -
  have n: "unat (88 + of_nat (length sb) :: u16) = 88 + length sb" "unat (of_nat (length sb) :: u16) = length sb"
    using assms unat_plus16[of 88 "length sb"] by (simp_all add: unat_of_nat)
  have "unat (24 + of_nat (length sb) :: u16) = 24 + length sb"
    using assms unat_plus16[of 24 "length sb"] by (simp add: unat_of_nat)
  then show ?thesis
    using n assms by (auto simp: SessionSetupRequest_Encode_def SessionSetupRequest_Size_def fields_read IsInvalid_defs accessor_defs
        SessionSetupRequest_SecurityBuffer_def region16_def simp del: wrs.simps le_dec.simps le_enc.simps)
qed

lemma name_len_empty: "name_len [] = 0"
  by (simp add: EncodedStringLen_def runes_def bytes_of_string_def runes_of.simps)

lemma name_len_pos: "name_bytes s \<noteq> [] \<Longrightarrow> 0 < name_len s"
  by (metis length_name_bytes length_greater_0_conv)

text \<open>A part of any length, read between an offset and the end that is computed from the length.\<close>

lemma data_field:
  assumes "fits (length b) fs" "lo + length bs \<le> length b" "bs \<noteq> [] \<Longrightarrow> field_at fs lo (length bs) = Some bs" "hi = lo + length bs"
  shows "sl_range lo hi (Slice (wrs fs b) ex) = Some (Slice bs (drop hi (wrs fs b) @ ex))"
proof (cases "bs = []")
  case True
  have "lo = hi" "hi \<le> length b" using assms(2,4) True by simp_all
  then show ?thesis unfolding True using part_field(2)[OF assms(1)] by blast
next
  case False
  have h: "lo < hi" "hi \<le> length b" "field_at fs lo (hi - lo) = Some bs" using assms(2,4) assms(3)[OF False] False by simp_all
  show ?thesis by (rule part_field(1)[OF assms(1) h(2,1,3)])
qed

lemma tree_connect_understood:
  assumes "request_ok (TreeConnectRequest fl path)"
  shows "understood (TreeConnectRequest fl path) (Slice (wrs (TreeConnectRequest_Encode fl path) (zeros (TreeConnectRequest_Size path - 64))) ex)"
proof -
  have l: "72 + name_len path < 2 ^ 16" using assms by simp
  have n: "unat (72 + of_nat (name_len path) :: u16) = 72 + name_len path" "unat (8 + of_nat (name_len path) :: u16) = 8 + name_len path"
    using l unat_plus16[of 72 "name_len path"] unat_plus16[of 8 "name_len path"] by simp_all
  have d: "DecodeToString (name_bytes path) = path" using assms unicode_name_bytes by simp
  define N where "N = TreeConnectRequest_Size path - 64"
  have size: "8 + name_len path \<le> N" by (simp add: N_def TreeConnectRequest_Size_def name_len_empty)
  let ?fs = "TreeConnectRequest_Encode fl path"
  have "sl_range 8 (8 + name_len path) (Slice (wrs ?fs (zeros N)) ex)
      = Some (Slice (name_bytes path) (drop (8 + name_len path) (wrs ?fs (zeros N)) @ ex))"
    using size by (intro data_field) (simp_all add: TreeConnectRequest_Encode_def name_len_pos)
  then show ?thesis
    using n d size unfolding N_def[symmetric] TreeConnectRequest_Encode_def
    by (simp add: fields_read IsInvalid_defs accessor_defs
        TreeConnectRequest_Path_def region16_def del: wrs.simps le_dec.simps le_enc.simps)
qed

lemma query_directory_understood:
  assumes "request_ok (QueryDirectoryRequest cls fl idx fid room name)"
  shows "understood (QueryDirectoryRequest cls fl idx fid room name)
    (Slice (wrs (QueryDirectoryRequest_Encode cls fl idx fid room name) (zeros (QueryDirectoryRequest_Size name - 64))) ex)"
proof -
  have l: "96 + name_len name < 2 ^ 16" "length fid = 16" using assms by simp_all
  have n: "unat (96 + of_nat (name_len name) :: u16) = 96 + name_len name" "unat (of_nat (name_len name) :: u16) = name_len name"
    using l unat_plus16[of 96 "name_len name"] by (simp_all add: unat_of_nat)
  have d: "DecodeToString (name_bytes name) = name" using assms unicode_name_bytes by simp
  define N where "N = QueryDirectoryRequest_Size name - 64"
  have size: "32 + name_len name \<le> N" by (simp add: N_def QueryDirectoryRequest_Size_def name_len_empty)
  let ?fs = "QueryDirectoryRequest_Encode cls fl idx fid room name"
  have "sl_range 32 (32 + name_len name) (Slice (wrs ?fs (zeros N)) ex)
      = Some (Slice (name_bytes name) (drop (32 + name_len name) (wrs ?fs (zeros N)) @ ex))"
    using size l by (intro data_field) (simp_all add: QueryDirectoryRequest_Encode_def name_len_pos)
  then show ?thesis
    using n d size l(2) unfolding N_def[symmetric] QueryDirectoryRequest_Encode_def
    by (simp add: fields_read IsInvalid_defs accessor_defs QueryDirectoryRequest_FileName_def
        del: wrs.simps le_dec.simps le_enc.simps)
qed

lemma write_understood:
  assumes "request_ok (WriteRequest fid fl ch rem off info dat)"
  shows "understood (WriteRequest fid fl ch rem off info dat)
    (Slice (wrs (WriteRequest_Encode fid fl ch rem off info dat) (zeros (WriteRequest_Size info dat - 64))) ex)"
proof -
  define k where "k = length (concat info)"
  have l: "112 + k < 2 ^ 16" "112 + k + length dat < 2 ^ 32" "length fid = 16" using assms by (simp_all add: k_def)
  have n: "unat (112 + of_nat k :: u16) = 112 + k" "unat (48 + of_nat k :: u16) = 48 + k"
    using l unat_plus16[of 112 k] unat_plus16[of 48 k] by simp_all
  have big: "\<not> (112 + of_nat k :: u16) < 64" using n(1) by (simp add: word_less_nat_alt)
  have m: "unat (ucast (112 + of_nat k :: u16) + of_nat (length dat) :: u32) = 112 + k + length dat"
      "unat (ucast (48 + of_nat k :: u16) + of_nat (length dat) :: u32) = 48 + k + length dat"
    using l n by (simp_all add: unat_word_ariths unat_of_nat unsigned_ucast_eq take_bit_nat_eq_self)
  define N where "N = WriteRequest_Size info dat - 64"
  have size: "48 + k + length dat \<le> N" by (auto simp: N_def WriteRequest_Size_def k_def)
  let ?fs = "WriteRequest_Encode fid fl ch rem off info dat"
  have "sl_range (48 + k) (48 + k + length dat) (Slice (wrs ?fs (zeros N)) ex)
      = Some (Slice dat (drop (48 + k + length dat) (wrs ?fs (zeros N)) @ ex))"
    using size l by (intro data_field) (auto simp: WriteRequest_Encode_def channel_info_def Let_def k_def)
  moreover have fits: "fits N ?fs" using size l by (auto simp: WriteRequest_Encode_def channel_info_def Let_def k_def)
  moreover have "field_at ?fs 0 2 = Some (le16 49)" "field_at ?fs 8 8 = Some (le64 off)" "field_at ?fs 16 16 = Some fid"
    "field_at ?fs 32 4 = Some (le32 ch)" "field_at ?fs 36 4 = Some (le32 rem)" "field_at ?fs 44 4 = Some (le32 fl)"
    "field_at ?fs 42 2 = Some (le16 (of_nat k))" "field_at ?fs 2 2 = Some (le16 (of_nat (112 + k)))"
    "field_at ?fs 4 4 = Some (le32 (of_nat (length dat)))"
    using l(3) by (simp_all add: WriteRequest_Encode_def channel_info_def Let_def k_def del: of_nat_add)
  moreover have woff: "if info = [] then apart 40 2 ?fs else field_at ?fs 40 2 = Some (le16 112)"
    using l(3) by (simp add: WriteRequest_Encode_def channel_info_def Let_def)
  moreover have "u16_in 40 42 (Slice (wrs ?fs (zeros N)) ex) = Some (if info = [] then 0 else 112)"
    using woff fits size by (cases "info = []") (simp_all add: fields_read del: le_dec.simps le_enc.simps)
  moreover have "unat ((if info = [] then 0 else 112) + of_nat k :: u16) \<le> N + 64" using n size by (auto simp: k_def)
  ultimately show ?thesis
    using n m big size unfolding N_def[symmetric]
    by (simp add: fields_read IsInvalid_defs accessor_defs WriteRequest_Data_def Let_def del: wrs.simps le_dec.simps le_enc.simps)
qed


lemma create_understood:
  assumes "request_ok (CreateRequest q)"
  shows "understood (CreateRequest q) (Slice (wrs (CreateRequest_Encode q) (zeros (CreateRequest_Size q - 64))) ex)"
proof -
  define k where "k = name_len (cr_Name q)"
  have l: "120 + k < 2 ^ 16" "cr_Contexts q = []" using assms by (simp_all add: k_def)
  have n: "unat (120 + of_nat k :: u16) = 120 + k" "unat (56 + of_nat k :: u16) = 56 + k"
    using l unat_plus16[of 120 k] unat_plus16[of 56 k] by simp_all
  have d: "DecodeToString (name_bytes (cr_Name q)) = cr_Name q" using assms unicode_name_bytes by simp
  define N where "N = CreateRequest_Size q - 64"
  have size: "56 + k \<le> N" using l(2) by (auto simp: N_def CreateRequest_Size_def k_def name_len_empty)
  let ?fs = "CreateRequest_Encode q"
  have "sl_range 56 (56 + k) (Slice (wrs ?fs (zeros N)) ex)
      = Some (Slice (name_bytes (cr_Name q)) (drop (56 + k) (wrs ?fs (zeros N)) @ ex))"
    using size l by (intro data_field) (simp_all add: CreateRequest_Encode_def k_def name_len_pos Let_def)
  then show ?thesis
    using n d size l(2) unfolding N_def[symmetric] CreateRequest_Encode_def
    by (simp add: fields_read IsInvalid_defs accessor_defs CreateRequest_Name_def CreateRequest_CreateContexts_def region16_def
        k_def[symmetric] Let_def del: wrs.simps le_dec.simps le_enc.simps)
qed

lemma zeros_1: "zeros (Suc 0) = [0]"
  by (simp add: zeros_def)

lemmas input_requests = IoctlRequest_Encode_def QueryInfoRequest_Encode_def SetInfoRequest_Encode_def IoctlRequest_Size_def
  QueryInfoRequest_Size_def SetInfoRequest_Size_def input_size_def

lemma rest_empty: "fits (length b) fs \<Longrightarrow> lo = length b \<Longrightarrow> sl_from lo (Slice (wrs fs b) ex) = Some (Slice [] ex)"
  by (simp add: sl_from_in length_wrs)

lemma input_understood:
  assumes "request_ok r" "r = IoctlRequest ctl fid ooff ocnt maxin maxout fl inp \<or> r = QueryInfoRequest ty cls room add fl fid inp
    \<or> r = SetInfoRequest ty cls add fid inp"
  shows "understood r (Slice (wrs (req_fields r) (zeros (req_Size r - 64))) ex)"
proof (cases inp)
  case None
  then show ?thesis
    using assms by (auto simp: input_requests fields_read IsInvalid_defs accessor_defs zeros_1 simp del: wrs.simps le_dec.simps le_enc.simps)
next
  case (Some bs)
  show ?thesis
  proof (cases "bs = []")
    case True
    then show ?thesis
      using assms Some by (auto simp: input_requests fields_read rest_empty IsInvalid_defs accessor_defs
        simp del: wrs.simps le_dec.simps le_enc.simps)
  next
    case False
    have n: "unat (a + of_nat (length bs) :: u32) = unat a + length bs" if "unat a + length bs < 2 ^ 32" for a
      using that by (rule unat_plus32)
    show ?thesis
      using assms Some False n[of 120] n[of 104] n[of 96] by (auto simp: input_requests fields_read IsInvalid_defs accessor_defs
        simp del: wrs.simps le_dec.simps le_enc.simps)
  qed
qed


text \<open>The contexts of a NEGOTIATE lie behind the dialects, but for the offset of the first.\<close>

lemma request_contexts_apart:
  "a + n \<le> off \<Longrightarrow> \<not> first \<or> a + n \<le> 28 \<or> 32 \<le> a \<Longrightarrow> apart a n (request_contexts off first xs)"
proof (induction off first xs rule: request_contexts.induct)
  case (2 off first x xs)
  then have "a + n \<le> round8 off" using round8_ge[of off] by simp
  with 2 show ?case by auto
qed simp

lemma request_contexts_fits:
  "32 \<le> off \<Longrightarrow> sizes_rounded off (map NegotiateContext_Size xs) \<le> N \<Longrightarrow> fits N (request_contexts off first xs)"
proof (induction off first xs rule: request_contexts.induct)
  case (2 off first x xs)
  have "32 \<le> round8 off" using 2(2) round8_ge[of off] by simp
  moreover have "round8 off + NegotiateContext_Size x \<le> N"
    using 2(3) sizes_rounded_ge[of "round8 off + NegotiateContext_Size x" "map NegotiateContext_Size xs"] by simp
  ultimately show ?case using 2 by simp
qed simp

lemma round8_eq: "round8 n = 8 * ((n + 7) div 8)"
  using Align_8_nat[of "int n"] by (simp add: round8_def Roundup_Align)

lemma and_7_of_nat: "8 dvd n \<Longrightarrow> (of_nat n :: u32) AND 7 = 0"
proof -
  assume "8 dvd n"
  then obtain k where "n = 8 * k" by (auto elim: dvdE)
  then have "(of_nat n :: u32) = push_bit 3 (of_nat k)" by (simp add: push_bit_eq_mult)
  moreover have "(7 :: u32) = mask 3" by (simp add: mask_eq_exp_minus_1)
  ultimately have "(of_nat n :: u32) AND 7 = take_bit 3 (push_bit 3 (of_nat k))" by (simp only: take_bit_eq_mask)
  then show "(of_nat n :: u32) AND 7 = 0" by (simp add: take_bit_push_bit)
qed

lemma negotiate_understood:
  assumes "request_ok (NegotiateRequest mode caps guid ds cs)"
  shows "understood (NegotiateRequest mode caps guid ds cs)
    (Slice (wrs (NegotiateRequest_Encode mode caps guid ds cs) (zeros (NegotiateRequest_Size ds cs - 64))) ex)"
proof -
  define d where "d = length ds"
  define N where "N = NegotiateRequest_Size ds cs - 64"
  define ctx where "ctx = request_contexts (36 + d * 2) True cs"
  let ?fs = "NegotiateRequest_Encode mode caps guid ds cs"
  have fs: "?fs = [(0, le16 36), (4, le16 mode), (8, le32 caps), (12, guid), (36, u16_list ds), (2, le16 (of_nat d))]
      @ ctx @ [(32, le16 (of_nat (length cs)))]"
    by (simp add: NegotiateRequest_Encode_def ctx_def d_def)
  have l: "length guid = 16" "36 + 2 * d < 2 ^ 16" "N + 64 < 2 ^ 32" "cs = [] \<or> round8 (36 + d * 2) + 28 \<le> N"
  proof -
    have "NegotiateRequest_Size ds cs = N + 64" by (simp add: N_def NegotiateRequest_Size_def)
    then show "length guid = 16" "36 + 2 * d < 2 ^ 16" "N + 64 < 2 ^ 32" "cs = [] \<or> round8 (36 + d * 2) + 28 \<le> N"
      using assms by (simp_all add: d_def add.commute[of 28])
  qed
  have N: "N = sizes_rounded (36 + d * 2) (map NegotiateContext_Size cs)" by (simp add: N_def NegotiateRequest_Size_def d_def)
  have size: "36 + d * 2 \<le> N" unfolding N by (rule sizes_rounded_ge)
  have fits: "fits N ?fs"
    using l(1) size request_contexts_fits[of "36 + d * 2" cs N True] unfolding fs ctx_def by (simp add: N d_def)
  have apart: "apart a n ctx" if "a + n \<le> 28 \<or> 32 \<le> a" "a + n \<le> 36 + d * 2" for a n
    unfolding ctx_def by (rule request_contexts_apart) (use that in auto)
  have fields: "field_at ?fs 0 2 = Some (le16 36)" "field_at ?fs 4 2 = Some (le16 mode)" "field_at ?fs 8 4 = Some (le32 caps)"
      "field_at ?fs 12 16 = Some guid" "field_at ?fs 2 2 = Some (le16 (of_nat d))"
      "field_at ?fs 32 2 = Some (le16 (of_nat (length cs)))"
    using l(1) apart[of 0 2] apart[of 4 2] apart[of 8 4] apart[of 12 16] apart[of 2 2] apart[of 32 2]
    unfolding fs by (simp_all add: field_at_append)
  have ds: "sl_range 36 (36 + d * 2) (Slice (wrs ?fs (zeros N)) ex)
      = Some (Slice (u16_list ds) (drop (36 + d * 2) (wrs ?fs (zeros N)) @ ex))"
  proof (rule data_field)
    assume "u16_list ds \<noteq> []"
    then have "0 < d" by (cases ds) (simp_all add: d_def)
    then show "field_at ?fs 36 (length (u16_list ds)) = Some (u16_list ds)"
      using l(1) apart[of 36 "d * 2"] unfolding fs by (simp add: field_at_append d_def mult.commute)
  qed (use fits size in \<open>simp_all add: d_def\<close>)
  have n: "unat (36 + 2 * of_nat d :: u16) = 36 + d * 2"
    using l(2) unat_plus16[of 36 "2 * d"] by simp
  have noff: "u32_in 28 32 (Slice (wrs ?fs (zeros N)) ex) = Some (if cs = [] then 0 else of_nat (round8 (36 + d * 2) + 64))"
  proof (cases cs)
    case Nil
    then have "apart 28 4 ?fs" using l(1) unfolding fs ctx_def by simp
    then show ?thesis using fits size Nil by (simp add: fields_read)
  next
    case (Cons x xs)
    have "apart 28 4 (request_contexts (round8 (36 + d * 2) + NegotiateContext_Size x) False xs)"
      by (rule request_contexts_apart) (use round8_ge[of "36 + d * 2"] in auto)
    then have "field_at ?fs 28 4 = Some (le32 (of_nat (round8 (36 + d * 2) + 64)))"
      using Cons round8_ge[of "36 + d * 2"] unfolding fs ctx_def by (simp add: field_at_append del: of_nat_add)
    then show ?thesis using fits size Cons by (simp add: fields_read del: le_dec.simps le_enc.simps of_nat_add)
  qed
  have valid: "NegotiateRequest_IsInvalid (Slice (wrs ?fs (zeros N)) ex) = Some False"
  proof (cases "cs = []")
    case True
    then show ?thesis using noff fits fields(1) size
      by (simp add: IsInvalid_defs accessor_defs fields_read del: le_dec.simps le_enc.simps)
  next
    case False
    let ?off = "round8 (36 + d * 2) + 64"
    have "8 dvd ?off" by (simp add: round8_eq)
    then have al: "(of_nat ?off :: u32) AND 7 = 0" by (rule and_7_of_nat)
    have off: "unat (of_nat ?off :: u32) = ?off" using l(3,4) False by (intro unat_len32) simp
    show ?thesis using noff fits fields(1) size l(4) al off False
      by (simp add: IsInvalid_defs accessor_defs fields_read del: le_dec.simps le_enc.simps of_nat_add)
  qed
  have dialects: "NegotiateRequest_Dialects (Slice (wrs ?fs (zeros N)) ex) = Some ds"
    using ds n fits fields(5) size u16s_loop_list[where us = ds and pre = "[]" and i = 0 and post = "[]"]
    by (simp add: NegotiateRequest_Dialects_def accessor_defs fields_read del: le_dec.simps le_enc.simps)
  show ?thesis
    using valid dialects fits fields size unfolding N_def[symmetric]
    by (simp add: accessor_defs fields_read del: le_dec.simps le_enc.simps)
qed


subsection \<open>The packet\<close>

lemma drop_in_body:
  "fits (length h - 64) fs \<Longrightarrow> 64 \<le> length h \<Longrightarrow> drop 64 (wrs (in_body fs) h) = wrs fs (drop 64 h)"
proof (induction fs arbitrary: h)
  case (Cons f fs)
  obtain off bs where f: "f = (off, bs)" by fastforce
  have le: "off + length bs \<le> length h - 64" using Cons.prems(1) by (simp add: f)
  have l: "length (wr (64 + off) bs h) = length h" using le Cons.prems(2) by (simp add: length_wr)
  have "drop 64 (wr (64 + off) bs h) = wr off bs (drop 64 h)"
    using le Cons.prems(2) by (simp add: wr_def drop_take ac_simps)
  then show ?case using Cons.IH[of "wr (64 + off) bs h"] Cons.prems l by (simp add: f in_body_def)
qed (simp add: in_body_def)

lemma header_tail:
  assumes "encodeHeader hdr (zeros (64 + n)) = Some h"
  shows "drop 64 h = zeros n"
proof -
  have h: "h = wrs (header_fields hdr) (wr 0 MAGIC (zeros (64 + n)))" using assms by (simp add: encodeHeader_eq)
  have l: "length h = 64 + n" using encodeHeader_length[OF assms] by simp
  have "fits (length (wr 0 MAGIC (zeros (64 + n)))) (header_fields hdr)" by (simp add: fits_header length_wr)
  moreover have "apart 64 n (header_fields hdr)" by (simp add: header_fields_def status_field_def id_field_def)
  ultimately have "rd 64 n h = rd 64 n (wr 0 MAGIC (zeros (64 + n)))" unfolding h by (rule rd_wrs_apart)
  also have "\<dots> = zeros n" by (simp add: rd_wr_after rd_zeros)
  finally show ?thesis using l by (simp add: rd_def)
qed

text \<open>What follows from the header alone: the receiver accepts the packet and gets the body.\<close>

lemma encoded_packet:
  assumes "fits n fs" "Flags hdr AND SMB2_FLAGS_SERVER_TO_REDIR = 0 \<or> ChannelSequence hdr = 0 \<and> Status hdr = 0"
  shows "\<exists>h pkt. encodeHeader hdr (zeros (64 + n)) = Some h \<and> puts (in_body fs) h = Some pkt \<and> length pkt = 64 + n
    \<and> accept (Command hdr) (Slice pkt ex) = Some (Slice (wrs fs (zeros n)) ex, None)"
proof -
  obtain h where h: "encodeHeader hdr (zeros (64 + n)) = Some h" "length h = 64 + n"
    using encodeHeader_total[of "zeros (64 + n)" hdr] by auto
  define pkt where "pkt = wrs (in_body fs) h"
  have fb: "fits (length h) (in_body fs)" using fits_in_body[OF assms(1)] h(2) by simp
  have enc: "puts (in_body fs) h = Some pkt" unfolding pkt_def by (rule puts_wrs[OF fb])
  have l: "length pkt = 64 + n" using length_wrs[OF fb] h(2) by (simp add: pkt_def)
  have rds: "rd a k pkt = rd a k h" if "a + k \<le> 64" for a k
    unfolding pkt_def using rd_wrs_apart[OF fb] in_body_apart that by blast
  have f: "rd 0 4 pkt = MAGIC" "rd 4 2 pkt = le_enc 2 (64 :: u16)" "rd 12 2 pkt = le_enc 2 (Command hdr)"
    "rd 16 4 pkt = le_enc 4 (Flags hdr)"
    using encodeHeader_fields[OF _ h(1)] rds[of 0 4] rds[of 4 2] rds[of 12 2] rds[of 16 4] by simp_all
  have st: "rd 8 4 pkt = le_enc 4 (Status hdr)" if "ChannelSequence hdr = 0"
    using encodeHeader_status[OF _ _ h(1)] rds[of 8 4] that by (simp add: rd_zeros)
  have body: "drop 64 pkt = wrs fs (zeros n)"
    unfolding pkt_def using drop_in_body[of h fs] assms(1) h(2) header_tail[OF h(1)] by simp
  have smb: "p_IsSmb1 (Slice pkt ex) = Some False" using f(1) l by (simp add: p_IsSmb1_eq MAGIC_def MAGIC_SMB1_def)
  have "p_Command (Slice pkt ex) = Some (Command hdr)"
    using smb f(3) l by (simp add: p_Command_def u16_in_in rd_vis le_dec_enc_full flip: rd_def del: le_dec.simps le_enc.simps)
  moreover have "p_StructureSize (Slice pkt ex) = Some 64" "p_Flags (Slice pkt ex) = Some (Flags hdr)"
    using f(2,4) l by (simp_all add: accept_header le_dec_enc_full del: le_dec.simps le_enc.simps)
  moreover have "p_Data (Slice pkt ex) = Some (Slice (wrs fs (zeros n)) ex)" using l body by (simp add: accept_header)
  moreover have "ChannelSequence hdr = 0 \<Longrightarrow> p_Status (Slice pkt ex) = Some (Status hdr)"
    using st l by (simp add: accept_header le_dec_enc_full del: le_dec.simps le_enc.simps)
  ultimately have "accept (Command hdr) (Slice pkt ex) = Some (Slice (wrs fs (zeros n)) ex, None)"
    using assms(2) l smb by (auto simp: accept_def)
  with h(1) enc l show ?thesis by blast
qed

lemma request_fits: "request_ok r \<Longrightarrow> fits (req_Size r - 64) (req_fields r) \<and> 64 \<le> req_Size r"
proof (cases r)
  case (NegotiateRequest mode caps guid ds cs)
  assume ok: "request_ok r"
  have N: "NegotiateRequest_Size ds cs - 64 = sizes_rounded (36 + length ds * 2) (map NegotiateContext_Size cs)"
    by (simp add: NegotiateRequest_Size_def)
  have ge: "36 + length ds * 2 \<le> NegotiateRequest_Size ds cs - 64" unfolding N by (rule sizes_rounded_ge)
  have "fits (NegotiateRequest_Size ds cs - 64) (request_contexts (36 + length ds * 2) True cs)"
    by (rule request_contexts_fits) (simp_all add: N)
  then show ?thesis using ok ge NegotiateRequest by (auto simp: NegotiateRequest_Encode_def)
next
  case (WriteRequest fid fl ch rem off info dat)
  moreover assume "request_ok r"
  ultimately show ?thesis by (auto simp: WriteRequest_Encode_def WriteRequest_Size_def channel_info_def Let_def)
next
  case (CreateRequest q)
  moreover assume "request_ok r"
  ultimately show ?thesis by (auto simp: CreateRequest_Encode_def CreateRequest_Size_def Let_def name_len_empty)
qed (auto simp: plain_requests input_requests SessionSetupRequest_Encode_def SessionSetupRequest_Size_def TreeConnectRequest_Encode_def
    TreeConnectRequest_Size_def QueryDirectoryRequest_Encode_def QueryDirectoryRequest_Size_def name_len_empty split: option.splits)

lemma body_understood:
  assumes "request_ok r"
  shows "understood r (Slice (wrs (req_fields r) (zeros (req_Size r - 64))) ex)"
proof (cases r)
  case (NegotiateRequest mode caps guid ds cs)
  then show ?thesis using negotiate_understood assms by simp
next
  case (TreeConnectRequest fl path)
  then show ?thesis using tree_connect_understood assms by simp
next
  case (CreateRequest q)
  then show ?thesis using create_understood assms by simp
next
  case (WriteRequest fid fl ch rem off info dat)
  then show ?thesis using write_understood assms by simp
next
  case (QueryDirectoryRequest cls fl idx fid room name)
  then show ?thesis using query_directory_understood assms by simp
next
  case (SessionSetupRequest fl mode caps ch sb prev)
  then show ?thesis using session_setup_understood assms by simp
next
  case (IoctlRequest ctl fid ooff ocnt maxin maxout fl inp)
  then show ?thesis using input_understood assms by blast
next
  case (QueryInfoRequest ty cls room add fl fid inp)
  then show ?thesis using input_understood assms by blast
next
  case (SetInfoRequest ty cls add fid inp)
  then show ?thesis using input_understood assms by blast
qed (use fixed_understood assms in \<open>blast+\<close>)

lemma request_arrives:
  assumes "request_ok r" "Flags hdr AND SMB2_FLAGS_SERVER_TO_REDIR = 0"
  shows "\<exists>pkt. req_Encode hdr r (zeros (req_Size r)) = Some pkt \<and> length pkt = req_Size r
    \<and> accept (req_Command r) (Slice pkt ex) = Some (Slice (wrs (req_fields r) (zeros (req_Size r - 64))) ex, None)"
proof -
  define n where "n = req_Size r - 64"
  have size: "req_Size r = 64 + n" and fits: "fits n (req_fields r)" using request_fits[OF assms(1)] by (simp_all add: n_def)
  obtain h pkt where p: "encodeHeader (hdr\<lparr>Command := req_Command r\<rparr>) (zeros (64 + n)) = Some h"
      "puts (in_body (req_fields r)) h = Some pkt" "length pkt = 64 + n"
      "accept (req_Command r) (Slice pkt ex) = Some (Slice (wrs (req_fields r) (zeros n)) ex, None)"
    using encoded_packet[OF fits, of "hdr\<lparr>Command := req_Command r\<rparr>" ex] assms(2) by auto
  have "req_Encode hdr r (zeros (req_Size r)) = Some pkt" using p(1,2) by (simp add: req_Encode_def size)
  then show ?thesis using p(3,4) size by auto
qed

subsection \<open>Properties\<close>



end
