(* ===== verification/ClientResponse.thy ===== *)
theory ClientResponse
  imports ClientRequest
begin

section \<open>Responses as a client reads them\<close>

text \<open>
  \<^verbatim>\<open>smb/internal/smb2/response.go\<close>: the decoders of responses (those of errors and the checks of an IOCTL
  response are with \<^verbatim>\<open>accept\<close>), and the encoders of error data and of create contexts that the server
  does not send at present.  Signed numbers are kept as words; a file id and a time are slices.
\<close>

subsection \<open>Error data\<close>

definition ErrorContext_Size :: "u32 \<times> byte list \<Rightarrow> nat" where
  "ErrorContext_Size x = 8 + length (snd x)"

definition ErrorContext_Encode :: "u32 \<times> byte list \<Rightarrow> byte list" where
  "ErrorContext_Encode x = le32 (of_nat (length (snd x))) @ le32 (fst x) @ snd x"

definition ErrorContextList_Size :: "(u32 \<times> byte list) list \<Rightarrow> nat" where
  "ErrorContextList_Size cs = sizes_rounded 0 (map ErrorContext_Size cs)"

fun error_contexts_at :: "nat \<Rightarrow> (u32 \<times> byte list) list \<Rightarrow> fields" where
  "error_contexts_at off [] = []"
| "error_contexts_at off (x # xs) = (round8 off, ErrorContext_Encode x) # error_contexts_at (round8 off + ErrorContext_Size x) xs"

definition ErrorContextList_Encode :: "(u32 \<times> byte list) list \<Rightarrow> fields" where
  "ErrorContextList_Encode cs = error_contexts_at 0 cs"

text \<open>The flags are stored over the beginning of the name; \<open>n\<close> is the length of the buffer.\<close>

definition SymlinkError_Size :: "string \<Rightarrow> string \<Rightarrow> nat" where
  "SymlinkError_Size subst printed = 28 + name_len subst + name_len printed"

definition SymlinkError_Encode :: "u16 \<Rightarrow> u32 \<Rightarrow> string \<Rightarrow> string \<Rightarrow> nat \<Rightarrow> fields" where
  "SymlinkError_Encode unparsed fl subst printed n =
     (let s = length (name_bytes subst);
          t = length (name_bytes printed)
      in [(24, name_bytes subst), (24 + s, name_bytes printed), (0, le32 (of_nat (n - 4))), (4, le32 0x4c4d5953),
          (8, le32 IO_REPARSE_TAG_SYMLINK), (14, le16 unparsed), (24, le32 fl), (12, le16 (of_nat (n - 12))), (16, le16 0),
          (18, le16 (of_nat s)), (20, le16 (of_nat s)), (22, le16 (of_nat t))])"

subsection \<open>Create contexts\<close>

definition DurableHandleResponse2_Encode :: "u32 \<Rightarrow> u32 \<Rightarrow> byte list" where
  "DurableHandleResponse2_Encode timeout fl = le32 timeout @ le32 fl"

definition LeaseResponse_Encode :: "byte list \<Rightarrow> u32 \<Rightarrow> u32 \<Rightarrow> u64 \<Rightarrow> byte list" where
  "LeaseResponse_Encode key state fl duration = key @ le32 state @ le32 fl @ le64 duration"

definition LeaseResponse2_Encode :: "byte list \<Rightarrow> u32 \<Rightarrow> u32 \<Rightarrow> u64 \<Rightarrow> byte list \<Rightarrow> u16 \<Rightarrow> byte list" where
  "LeaseResponse2_Encode key state fl duration parent epoch =
     LeaseResponse_Encode key state fl duration @ parent @ le16 epoch @ zeros 2"

subsection \<open>SmallBufferErrorResponseDecoder\<close>

definition SmallBufferError_RequiredBufferLength :: "slice \<Rightarrow> u32 option" where
  "SmallBufferError_RequiredBufferLength r = u32_from 0 r"

definition SmallBufferError_IsInvalid :: "slice \<Rightarrow> bool" where
  "SmallBufferError_IsInvalid r \<longleftrightarrow> len r \<noteq> 4"

subsection \<open>SymbolicLinkErrorResponseDecoder\<close>

definition SymlinkError_SymLinkLength :: "slice \<Rightarrow> u32 option" where
  "SymlinkError_SymLinkLength r = u32_in 0 4 r"

definition SymlinkError_SymLinkErrorTag :: "slice \<Rightarrow> u32 option" where
  "SymlinkError_SymLinkErrorTag r = u32_in 4 8 r"

definition SymlinkError_ReparseTag :: "slice \<Rightarrow> u32 option" where
  "SymlinkError_ReparseTag r = u32_in 8 12 r"

definition SymlinkError_ReparseDataLength :: "slice \<Rightarrow> u16 option" where
  "SymlinkError_ReparseDataLength r = u16_in 12 14 r"

definition SymlinkError_UnparsedPathLength :: "slice \<Rightarrow> u16 option" where
  "SymlinkError_UnparsedPathLength r = u16_in 14 16 r"

definition SymlinkError_SubstituteNameOffset :: "slice \<Rightarrow> u16 option" where
  "SymlinkError_SubstituteNameOffset r = u16_in 16 18 r"

definition SymlinkError_SubstituteNameLength :: "slice \<Rightarrow> u16 option" where
  "SymlinkError_SubstituteNameLength r = u16_in 18 20 r"

definition SymlinkError_PrintNameOffset :: "slice \<Rightarrow> u16 option" where
  "SymlinkError_PrintNameOffset r = u16_in 20 22 r"

definition SymlinkError_PrintNameLength :: "slice \<Rightarrow> u16 option" where
  "SymlinkError_PrintNameLength r = u16_in 22 24 r"

definition SymlinkError_Flags :: "slice \<Rightarrow> u32 option" where
  "SymlinkError_Flags r = u32_in 24 28 r"

definition SymlinkError_PathBuffer :: "slice \<Rightarrow> slice option" where
  "SymlinkError_PathBuffer r = sl_from 28 r"

definition SymlinkError_SubstituteName :: "slice \<Rightarrow> string option" where
  "SymlinkError_SubstituteName r = do {
     off \<leftarrow> SymlinkError_SubstituteNameOffset r;
     n \<leftarrow> SymlinkError_SubstituteNameLength r;
     b \<leftarrow> SymlinkError_PathBuffer r;
     s \<leftarrow> sl_range (unat off) (unat (off + n)) b;
     Some (DecodeToString (vis s)) }"

definition SymlinkError_PrintName :: "slice \<Rightarrow> string option" where
  "SymlinkError_PrintName r = do {
     off \<leftarrow> SymlinkError_PrintNameOffset r;
     n \<leftarrow> SymlinkError_PrintNameLength r;
     b \<leftarrow> SymlinkError_PathBuffer r;
     s \<leftarrow> sl_range (unat off) (unat (off + n)) b;
     Some (DecodeToString (vis s)) }"

text \<open>The lengths are compared as \<^verbatim>\<open>int\<close>, where nothing wraps.\<close>

definition SymlinkError_IsInvalid :: "slice \<Rightarrow> bool option" where
  "SymlinkError_IsInvalid r =
     (if len r < 28 then Some True
      else do {
        tag \<leftarrow> SymlinkError_SymLinkErrorTag r;
        (if tag \<noteq> 0x4c4d5953 then Some True
         else do {
           rt \<leftarrow> SymlinkError_ReparseTag r;
           (if rt \<noteq> IO_REPARSE_TAG_SYMLINK then Some True
            else do {
              tlen \<leftarrow> map_option unat (SymlinkError_SymLinkLength r);
              rlen \<leftarrow> map_option unat (SymlinkError_ReparseDataLength r);
              soff \<leftarrow> map_option unat (SymlinkError_SubstituteNameOffset r);
              slen \<leftarrow> map_option unat (SymlinkError_SubstituteNameLength r);
              poff \<leftarrow> map_option unat (SymlinkError_PrintNameOffset r);
              plen \<leftarrow> map_option unat (SymlinkError_PrintNameLength r);
              Some (odd soff \<or> odd poff \<or> len r < 4 + tlen \<or> tlen < 12 + rlen
                \<or> rlen < 12 + soff + slen \<or> rlen < 12 + poff + plen) }) }) })"

definition UTF16FromString :: "string \<Rightarrow> u16 list" where
  "UTF16FromString s = utf16_Encode (runes s)"

definition UTF16ToString :: "u16 list \<Rightarrow> string" where
  "UTF16ToString ws = string_of_runes (utf16_Decode ws)"

definition SplitUnparsedPath :: "slice \<Rightarrow> string \<Rightarrow> (string \<times> string) option" where
  "SplitUnparsedPath r name = do {
     let ws = UTF16FromString name;
     ulen \<leftarrow> map_option unat (SymlinkError_UnparsedPathLength r);
     Some (if ulen div 2 > length ws then ([], [])
           else (UTF16ToString (take (length ws - ulen div 2) ws), UTF16ToString (drop (length ws - ulen div 2) ws))) }"

subsection \<open>NegotiateResponseDecoder\<close>

definition NegotiateResponse_StructureSize :: "slice \<Rightarrow> u16 option" where
  "NegotiateResponse_StructureSize r = u16_in 0 2 r"

definition NegotiateResponse_SecurityMode :: "slice \<Rightarrow> u16 option" where
  "NegotiateResponse_SecurityMode r = u16_in 2 4 r"

definition NegotiateResponse_DialectRevision :: "slice \<Rightarrow> u16 option" where
  "NegotiateResponse_DialectRevision r = u16_in 4 6 r"

definition NegotiateResponse_ServerGuid :: "slice \<Rightarrow> slice option" where
  "NegotiateResponse_ServerGuid r = sl_range 8 24 r"

definition NegotiateResponse_Capabilities :: "slice \<Rightarrow> u32 option" where
  "NegotiateResponse_Capabilities r = u32_in 24 28 r"

definition NegotiateResponse_MaxTransactSize :: "slice \<Rightarrow> u32 option" where
  "NegotiateResponse_MaxTransactSize r = u32_in 28 32 r"

definition NegotiateResponse_MaxReadSize :: "slice \<Rightarrow> u32 option" where
  "NegotiateResponse_MaxReadSize r = u32_in 32 36 r"

definition NegotiateResponse_MaxWriteSize :: "slice \<Rightarrow> u32 option" where
  "NegotiateResponse_MaxWriteSize r = u32_in 36 40 r"

definition NegotiateResponse_SystemTime :: "slice \<Rightarrow> slice option" where
  "NegotiateResponse_SystemTime r = sl_range 40 48 r"

definition NegotiateResponse_ServerStartTime :: "slice \<Rightarrow> slice option" where
  "NegotiateResponse_ServerStartTime r = sl_range 48 56 r"

definition NegotiateResponse_SecurityBufferOffset :: "slice \<Rightarrow> u16 option" where
  "NegotiateResponse_SecurityBufferOffset r = u16_in 56 58 r"

definition NegotiateResponse_SecurityBufferLength :: "slice \<Rightarrow> u16 option" where
  "NegotiateResponse_SecurityBufferLength r = u16_in 58 60 r"

definition NegotiateResponse_SecurityBuffer :: "slice \<Rightarrow> slice option" where
  "NegotiateResponse_SecurityBuffer r = do {
     off \<leftarrow> NegotiateResponse_SecurityBufferOffset r;
     (if off < 64 + 64 then Some nil_slice
      else do {
        n \<leftarrow> NegotiateResponse_SecurityBufferLength r;
        region16 off n r }) }"

definition NegotiateResponse_NegotiateContextCount :: "slice \<Rightarrow> u16 option" where
  "NegotiateResponse_NegotiateContextCount r = u16_in 6 8 r"

definition NegotiateResponse_NegotiateContextOffset :: "slice \<Rightarrow> u32 option" where
  "NegotiateResponse_NegotiateContextOffset r = u32_in 60 64 r"

definition NegotiateResponse_NegotiateContextList :: "slice \<Rightarrow> slice option" where
  "NegotiateResponse_NegotiateContextList r = do {
     off \<leftarrow> NegotiateResponse_NegotiateContextOffset r;
     (if off < 64 then Some nil_slice else sl_from (unat (off - 64)) r) }"

definition NegotiateResponse_IsInvalid :: "slice \<Rightarrow> bool option" where
  "NegotiateResponse_IsInvalid r =
     (if len r < 64 then Some True
      else do {
        ss \<leftarrow> NegotiateResponse_StructureSize r;
        (if ss \<noteq> 65 then Some True
         else do {
           off \<leftarrow> NegotiateResponse_SecurityBufferOffset r;
           n \<leftarrow> NegotiateResponse_SecurityBufferLength r;
           (if ends_past r (unat (off + n)) then Some True
            else do {
              d \<leftarrow> NegotiateResponse_DialectRevision r;
              (if d = SMB311
               then do {
                 noff \<leftarrow> NegotiateResponse_NegotiateContextOffset r;
                 Some (noff AND 7 \<noteq> 0 \<or> ends_past r (unat noff)) }
               else Some False) }) }) })"

subsection \<open>SessionSetupResponseDecoder\<close>

definition SessionSetupResponse_StructureSize :: "slice \<Rightarrow> u16 option" where
  "SessionSetupResponse_StructureSize r = u16_in 0 2 r"

definition SessionSetupResponse_SessionFlags :: "slice \<Rightarrow> u16 option" where
  "SessionSetupResponse_SessionFlags r = u16_in 2 4 r"

definition SessionSetupResponse_SecurityBufferOffset :: "slice \<Rightarrow> u16 option" where
  "SessionSetupResponse_SecurityBufferOffset r = u16_in 4 6 r"

definition SessionSetupResponse_SecurityBufferLength :: "slice \<Rightarrow> u16 option" where
  "SessionSetupResponse_SecurityBufferLength r = u16_in 6 8 r"

definition SessionSetupResponse_SecurityBuffer :: "slice \<Rightarrow> slice option" where
  "SessionSetupResponse_SecurityBuffer r = do {
     off \<leftarrow> SessionSetupResponse_SecurityBufferOffset r;
     (if off < 8 + 64 then Some nil_slice
      else do {
        n \<leftarrow> SessionSetupResponse_SecurityBufferLength r;
        region16 off n r }) }"

definition SessionSetupResponse_IsInvalid :: "slice \<Rightarrow> bool option" where
  "SessionSetupResponse_IsInvalid r =
     (if len r < 8 then Some True
      else do {
        ss \<leftarrow> SessionSetupResponse_StructureSize r;
        (if ss \<noteq> 9 then Some True
         else do {
           off \<leftarrow> SessionSetupResponse_SecurityBufferOffset r;
           n \<leftarrow> SessionSetupResponse_SecurityBufferLength r;
           Some (ends_past r (unat (off + n))) }) })"

subsection \<open>LogoffResponseDecoder\<close>

definition LogoffResponse_StructureSize :: "slice \<Rightarrow> u16 option" where
  "LogoffResponse_StructureSize r = u16_in 0 2 r"

definition LogoffResponse_IsInvalid :: "slice \<Rightarrow> bool option" where
  "LogoffResponse_IsInvalid r = (if len r < 4 then Some True else do { ss \<leftarrow> LogoffResponse_StructureSize r; Some (ss \<noteq> 4) })"

subsection \<open>TreeConnectResponseDecoder\<close>

definition TreeConnectResponse_StructureSize :: "slice \<Rightarrow> u16 option" where
  "TreeConnectResponse_StructureSize r = u16_in 0 2 r"

definition TreeConnectResponse_ShareType :: "slice \<Rightarrow> byte option" where
  "TreeConnectResponse_ShareType r = sl_at 2 r"

definition TreeConnectResponse_ShareFlags :: "slice \<Rightarrow> u32 option" where
  "TreeConnectResponse_ShareFlags r = u32_in 4 8 r"

definition TreeConnectResponse_Capabilities :: "slice \<Rightarrow> u32 option" where
  "TreeConnectResponse_Capabilities r = u32_in 8 12 r"

definition TreeConnectResponse_MaximalAccess :: "slice \<Rightarrow> u32 option" where
  "TreeConnectResponse_MaximalAccess r = u32_in 12 16 r"

definition TreeConnectResponse_IsInvalid :: "slice \<Rightarrow> bool option" where
  "TreeConnectResponse_IsInvalid r = (if len r < 16 then Some True else do { ss \<leftarrow> TreeConnectResponse_StructureSize r; Some (ss \<noteq> 16) })"

subsection \<open>TreeDisconnectResponseDecoder\<close>

definition TreeDisconnectResponse_StructureSize :: "slice \<Rightarrow> u16 option" where
  "TreeDisconnectResponse_StructureSize r = u16_in 0 2 r"

definition TreeDisconnectResponse_IsInvalid :: "slice \<Rightarrow> bool option" where
  "TreeDisconnectResponse_IsInvalid r = (if len r < 4 then Some True else do { ss \<leftarrow> TreeDisconnectResponse_StructureSize r; Some (ss \<noteq> 4) })"

subsection \<open>CreateResponseDecoder\<close>

definition CreateResponse_StructureSize :: "slice \<Rightarrow> u16 option" where
  "CreateResponse_StructureSize r = u16_in 0 2 r"

definition CreateResponse_OplockLevel :: "slice \<Rightarrow> byte option" where
  "CreateResponse_OplockLevel r = sl_at 2 r"

definition CreateResponse_Flags :: "slice \<Rightarrow> byte option" where
  "CreateResponse_Flags r = sl_at 3 r"

definition CreateResponse_CreateAction :: "slice \<Rightarrow> u32 option" where
  "CreateResponse_CreateAction r = u32_in 4 8 r"

definition CreateResponse_CreationTime :: "slice \<Rightarrow> slice option" where
  "CreateResponse_CreationTime r = sl_range 8 16 r"

definition CreateResponse_LastAccessTime :: "slice \<Rightarrow> slice option" where
  "CreateResponse_LastAccessTime r = sl_range 16 24 r"

definition CreateResponse_LastWriteTime :: "slice \<Rightarrow> slice option" where
  "CreateResponse_LastWriteTime r = sl_range 24 32 r"

definition CreateResponse_ChangeTime :: "slice \<Rightarrow> slice option" where
  "CreateResponse_ChangeTime r = sl_range 32 40 r"

definition CreateResponse_AllocationSize :: "slice \<Rightarrow> u64 option" where
  "CreateResponse_AllocationSize r = u64_in 40 48 r"

definition CreateResponse_EndofFile :: "slice \<Rightarrow> u64 option" where
  "CreateResponse_EndofFile r = u64_in 48 56 r"

definition CreateResponse_FileAttributes :: "slice \<Rightarrow> u32 option" where
  "CreateResponse_FileAttributes r = u32_in 56 60 r"

definition CreateResponse_FileId :: "slice \<Rightarrow> slice option" where
  "CreateResponse_FileId r = sl_range 64 80 r"

definition CreateResponse_CreateContextsOffset :: "slice \<Rightarrow> u32 option" where
  "CreateResponse_CreateContextsOffset r = u32_in 80 84 r"

definition CreateResponse_CreateContextsLength :: "slice \<Rightarrow> u32 option" where
  "CreateResponse_CreateContextsLength r = u32_in 84 88 r"

definition CreateResponse_CreateContexts :: "slice \<Rightarrow> slice option" where
  "CreateResponse_CreateContexts r = do {
     off \<leftarrow> CreateResponse_CreateContextsOffset r;
     (if off < 88 + 64 then Some nil_slice
      else do {
        n \<leftarrow> CreateResponse_CreateContextsLength r;
        region32 off n r }) }"

definition CreateResponse_IsInvalid :: "slice \<Rightarrow> bool option" where
  "CreateResponse_IsInvalid r =
     (if len r < 88 then Some True
      else do {
        ss \<leftarrow> CreateResponse_StructureSize r;
        (if ss \<noteq> 89 then Some True
         else do {
           coff \<leftarrow> CreateResponse_CreateContextsOffset r;
           (if coff AND 7 \<noteq> 0 then Some True
            else do {
              n \<leftarrow> CreateResponse_CreateContextsLength r;
              Some (ends_past r (unat (coff + n))) }) }) })"

subsection \<open>CloseResponseDecoder\<close>

definition CloseResponse_StructureSize :: "slice \<Rightarrow> u16 option" where
  "CloseResponse_StructureSize r = u16_in 0 2 r"

definition CloseResponse_Flags :: "slice \<Rightarrow> u16 option" where
  "CloseResponse_Flags r = u16_in 2 4 r"

definition CloseResponse_CreationTime :: "slice \<Rightarrow> slice option" where
  "CloseResponse_CreationTime r = sl_range 8 16 r"

definition CloseResponse_LastAccessTime :: "slice \<Rightarrow> slice option" where
  "CloseResponse_LastAccessTime r = sl_range 16 24 r"

definition CloseResponse_LastWriteTime :: "slice \<Rightarrow> slice option" where
  "CloseResponse_LastWriteTime r = sl_range 24 32 r"

definition CloseResponse_ChangeTime :: "slice \<Rightarrow> slice option" where
  "CloseResponse_ChangeTime r = sl_range 32 40 r"

definition CloseResponse_AllocationSize :: "slice \<Rightarrow> u64 option" where
  "CloseResponse_AllocationSize r = u64_in 40 48 r"

definition CloseResponse_EndofFile :: "slice \<Rightarrow> u64 option" where
  "CloseResponse_EndofFile r = u64_in 48 56 r"

definition CloseResponse_FileAttributes :: "slice \<Rightarrow> u32 option" where
  "CloseResponse_FileAttributes r = u32_in 56 60 r"

definition CloseResponse_IsInvalid :: "slice \<Rightarrow> bool option" where
  "CloseResponse_IsInvalid r = (if len r < 60 then Some True else do { ss \<leftarrow> CloseResponse_StructureSize r; Some (ss \<noteq> 60) })"

subsection \<open>FlushResponseDecoder\<close>

definition FlushResponse_StructureSize :: "slice \<Rightarrow> u16 option" where
  "FlushResponse_StructureSize r = u16_in 0 2 r"

definition FlushResponse_IsInvalid :: "slice \<Rightarrow> bool option" where
  "FlushResponse_IsInvalid r = (if len r < 4 then Some True else do { ss \<leftarrow> FlushResponse_StructureSize r; Some (ss \<noteq> 4) })"

subsection \<open>ReadResponseDecoder\<close>

definition ReadResponse_StructureSize :: "slice \<Rightarrow> u16 option" where
  "ReadResponse_StructureSize r = u16_in 0 2 r"

definition ReadResponse_DataOffset :: "slice \<Rightarrow> byte option" where
  "ReadResponse_DataOffset r = sl_at 2 r"

definition ReadResponse_DataLength :: "slice \<Rightarrow> u32 option" where
  "ReadResponse_DataLength r = u32_in 4 8 r"

definition ReadResponse_DataRemaining :: "slice \<Rightarrow> u32 option" where
  "ReadResponse_DataRemaining r = u32_in 8 12 r"

definition ReadResponse_Data :: "slice \<Rightarrow> slice option" where
  "ReadResponse_Data r = do {
     off \<leftarrow> ReadResponse_DataOffset r;
     (if off < 16 + 64 then Some nil_slice
      else do {
        n \<leftarrow> ReadResponse_DataLength r;
        sl_range (unat (off - 64)) (unat (ucast (off - 64) + n :: u32)) r }) }"

definition ReadResponse_IsInvalid :: "slice \<Rightarrow> bool option" where
  "ReadResponse_IsInvalid r =
     (if len r < 16 then Some True
      else do {
        ss \<leftarrow> ReadResponse_StructureSize r;
        (if ss \<noteq> 17 then Some True
         else do {
           off \<leftarrow> ReadResponse_DataOffset r;
           n \<leftarrow> ReadResponse_DataLength r;
           Some (ends_past r (unat (ucast off + n))) }) })"

subsection \<open>WriteResponseDecoder\<close>

definition WriteResponse_StructureSize :: "slice \<Rightarrow> u16 option" where
  "WriteResponse_StructureSize r = u16_in 0 2 r"

definition WriteResponse_Count :: "slice \<Rightarrow> u32 option" where
  "WriteResponse_Count r = u32_in 4 8 r"

definition WriteResponse_Remaining :: "slice \<Rightarrow> u32 option" where
  "WriteResponse_Remaining r = u32_in 8 12 r"

definition WriteResponse_WriteChannelInfoOffset :: "slice \<Rightarrow> u16 option" where
  "WriteResponse_WriteChannelInfoOffset r = u16_in 12 14 r"

definition WriteResponse_WriteChannelInfoLength :: "slice \<Rightarrow> u16 option" where
  "WriteResponse_WriteChannelInfoLength r = u16_in 14 16 r"

definition WriteResponse_IsInvalid :: "slice \<Rightarrow> bool option" where
  "WriteResponse_IsInvalid r = (if len r < 16 then Some True else do { ss \<leftarrow> WriteResponse_StructureSize r; Some (ss \<noteq> 17) })"

subsection \<open>IoctlResponseDecoder\<close>

definition io_CtlCode :: "slice \<Rightarrow> u32 option" where
  "io_CtlCode r = u32_in 4 8 r"

definition io_FileId :: "slice \<Rightarrow> slice option" where
  "io_FileId r = sl_range 8 24 r"

definition io_Flags :: "slice \<Rightarrow> u32 option" where
  "io_Flags r = u32_in 40 44 r"

definition io_Input :: "slice \<Rightarrow> slice option" where
  "io_Input r = do {
     off \<leftarrow> io_InputOffset r;
     (if off < 64 + 48 then Some nil_slice
      else do {
        n \<leftarrow> io_InputCount r;
        region32 off n r }) }"

definition io_Output :: "slice \<Rightarrow> slice option" where
  "io_Output r = do {
     off \<leftarrow> io_OutputOffset r;
     (if off < 64 + 48 then Some nil_slice
      else do {
        n \<leftarrow> io_OutputCount r;
        region32 off n r }) }"

subsection \<open>QueryDirectoryResponseDecoder\<close>

definition QueryDirectoryResponse_StructureSize :: "slice \<Rightarrow> u16 option" where
  "QueryDirectoryResponse_StructureSize r = u16_in 0 2 r"

definition QueryDirectoryResponse_OutputBufferOffset :: "slice \<Rightarrow> u16 option" where
  "QueryDirectoryResponse_OutputBufferOffset r = u16_in 2 4 r"

definition QueryDirectoryResponse_OutputBufferLength :: "slice \<Rightarrow> u32 option" where
  "QueryDirectoryResponse_OutputBufferLength r = u32_in 4 8 r"

definition QueryDirectoryResponse_OutputBuffer :: "slice \<Rightarrow> slice option" where
  "QueryDirectoryResponse_OutputBuffer r = do {
     off \<leftarrow> QueryDirectoryResponse_OutputBufferOffset r;
     (if off < 64 + 8 then Some nil_slice
      else do {
        n \<leftarrow> QueryDirectoryResponse_OutputBufferLength r;
        sl_range (unat (off - 64)) (unat (ucast (off - 64) + n :: u32)) r }) }"

definition QueryDirectoryResponse_IsInvalid :: "slice \<Rightarrow> bool option" where
  "QueryDirectoryResponse_IsInvalid r =
     (if len r < 8 then Some True
      else do {
        ss \<leftarrow> QueryDirectoryResponse_StructureSize r;
        (if ss \<noteq> 9 then Some True
         else do {
           off \<leftarrow> QueryDirectoryResponse_OutputBufferOffset r;
           n \<leftarrow> QueryDirectoryResponse_OutputBufferLength r;
           Some (ends_past r (unat (ucast off + n))) }) })"

subsection \<open>QueryInfoResponseDecoder\<close>

definition QueryInfoResponse_StructureSize :: "slice \<Rightarrow> u16 option" where
  "QueryInfoResponse_StructureSize r = u16_in 0 2 r"

definition QueryInfoResponse_OutputBufferOffset :: "slice \<Rightarrow> u16 option" where
  "QueryInfoResponse_OutputBufferOffset r = u16_in 2 4 r"

definition QueryInfoResponse_OutputBufferLength :: "slice \<Rightarrow> u32 option" where
  "QueryInfoResponse_OutputBufferLength r = u32_in 4 8 r"

definition QueryInfoResponse_OutputBuffer :: "slice \<Rightarrow> slice option" where
  "QueryInfoResponse_OutputBuffer r = do {
     off \<leftarrow> QueryInfoResponse_OutputBufferOffset r;
     (if off < 64 + 8 then Some nil_slice
      else do {
        n \<leftarrow> QueryInfoResponse_OutputBufferLength r;
        sl_range (unat (off - 64)) (unat (ucast (off - 64) + n :: u32)) r }) }"

definition QueryInfoResponse_IsInvalid :: "slice \<Rightarrow> bool option" where
  "QueryInfoResponse_IsInvalid r =
     (if len r < 8 then Some True
      else do {
        ss \<leftarrow> QueryInfoResponse_StructureSize r;
        (if ss \<noteq> 9 then Some True
         else do {
           off \<leftarrow> QueryInfoResponse_OutputBufferOffset r;
           n \<leftarrow> QueryInfoResponse_OutputBufferLength r;
           Some (ends_past r (unat (ucast off + n))) }) })"

subsection \<open>SetInfoResponseDecoder\<close>

definition SetInfoResponse_StructureSize :: "slice \<Rightarrow> u16 option" where
  "SetInfoResponse_StructureSize r = u16_in 0 2 r"

definition SetInfoResponse_IsInvalid :: "slice \<Rightarrow> bool option" where
  "SetInfoResponse_IsInvalid r = (if len r < 2 then Some True else do { ss \<leftarrow> SetInfoResponse_StructureSize r; Some (ss \<noteq> 2) })"

lemmas response_accessors =
  SmallBufferError_RequiredBufferLength_def SymlinkError_SymLinkLength_def SymlinkError_SymLinkErrorTag_def
  SymlinkError_ReparseTag_def SymlinkError_ReparseDataLength_def SymlinkError_UnparsedPathLength_def
  SymlinkError_SubstituteNameOffset_def SymlinkError_SubstituteNameLength_def SymlinkError_PrintNameOffset_def
  SymlinkError_PrintNameLength_def SymlinkError_Flags_def SymlinkError_PathBuffer_def
  NegotiateResponse_StructureSize_def NegotiateResponse_SecurityMode_def NegotiateResponse_DialectRevision_def
  NegotiateResponse_ServerGuid_def NegotiateResponse_Capabilities_def NegotiateResponse_MaxTransactSize_def
  NegotiateResponse_MaxReadSize_def NegotiateResponse_MaxWriteSize_def NegotiateResponse_SystemTime_def
  NegotiateResponse_ServerStartTime_def NegotiateResponse_SecurityBufferOffset_def
  NegotiateResponse_SecurityBufferLength_def NegotiateResponse_NegotiateContextCount_def
  NegotiateResponse_NegotiateContextOffset_def SessionSetupResponse_StructureSize_def
  SessionSetupResponse_SessionFlags_def SessionSetupResponse_SecurityBufferOffset_def
  SessionSetupResponse_SecurityBufferLength_def LogoffResponse_StructureSize_def TreeConnectResponse_StructureSize_def
  TreeConnectResponse_ShareType_def TreeConnectResponse_ShareFlags_def TreeConnectResponse_Capabilities_def
  TreeConnectResponse_MaximalAccess_def TreeDisconnectResponse_StructureSize_def CreateResponse_StructureSize_def
  CreateResponse_OplockLevel_def CreateResponse_Flags_def CreateResponse_CreateAction_def
  CreateResponse_CreationTime_def CreateResponse_LastAccessTime_def CreateResponse_LastWriteTime_def
  CreateResponse_ChangeTime_def CreateResponse_AllocationSize_def CreateResponse_EndofFile_def
  CreateResponse_FileAttributes_def CreateResponse_FileId_def CreateResponse_CreateContextsOffset_def
  CreateResponse_CreateContextsLength_def CloseResponse_StructureSize_def CloseResponse_Flags_def
  CloseResponse_CreationTime_def CloseResponse_LastAccessTime_def CloseResponse_LastWriteTime_def
  CloseResponse_ChangeTime_def CloseResponse_AllocationSize_def CloseResponse_EndofFile_def
  CloseResponse_FileAttributes_def FlushResponse_StructureSize_def ReadResponse_StructureSize_def
  ReadResponse_DataOffset_def ReadResponse_DataLength_def ReadResponse_DataRemaining_def
  WriteResponse_StructureSize_def WriteResponse_Count_def WriteResponse_Remaining_def
  WriteResponse_WriteChannelInfoOffset_def WriteResponse_WriteChannelInfoLength_def io_CtlCode_def io_FileId_def
  io_Flags_def QueryDirectoryResponse_StructureSize_def QueryDirectoryResponse_OutputBufferOffset_def
  QueryDirectoryResponse_OutputBufferLength_def QueryInfoResponse_StructureSize_def
  QueryInfoResponse_OutputBufferOffset_def QueryInfoResponse_OutputBufferLength_def SetInfoResponse_StructureSize_def
  io_StructureSize_def io_InputOffset_def io_InputCount_def io_OutputOffset_def io_OutputCount_def
  er_StructureSize_def er_ErrorContextCount_def er_ByteCount_def

lemmas response_checks =
  SmallBufferError_IsInvalid_def SymlinkError_IsInvalid_def NegotiateResponse_IsInvalid_def
  SessionSetupResponse_IsInvalid_def LogoffResponse_IsInvalid_def TreeConnectResponse_IsInvalid_def
  TreeDisconnectResponse_IsInvalid_def CreateResponse_IsInvalid_def CloseResponse_IsInvalid_def
  FlushResponse_IsInvalid_def ReadResponse_IsInvalid_def WriteResponse_IsInvalid_def
  QueryDirectoryResponse_IsInvalid_def QueryInfoResponse_IsInvalid_def SetInfoResponse_IsInvalid_def io_IsInvalid_def
  er_IsInvalid_def

lemmas response_buffers =
  SymlinkError_SubstituteName_def SymlinkError_PrintName_def NegotiateResponse_SecurityBuffer_def
  NegotiateResponse_NegotiateContextList_def SessionSetupResponse_SecurityBuffer_def CreateResponse_CreateContexts_def
  ReadResponse_Data_def io_Input_def io_Output_def QueryDirectoryResponse_OutputBuffer_def
  QueryInfoResponse_OutputBuffer_def er_ErrorData_def

end
