(* ===== verification/ClientRspProps.thy ===== *)
theory ClientRspProps
  imports ClientReqProps ClientResponse
begin

section \<open>The client understands what the server encodes\<close>

text \<open>
  The responses of the server read with the decoders of the package.  OPLOCK_BREAK, LOCK, ECHO and
  CHANGE_NOTIFY have no decoder; there the bytes of the body are stated.
\<close>

abbreviation time_read :: "slice option \<Rightarrow> Filetime option" where
  "time_read s \<equiv> Option.bind s FiletimeDecoder_Decode"

definition time_sent :: "Filetime option \<Rightarrow> Filetime" where
  "time_sent t = (case t of None \<Rightarrow> zero_Filetime | Some ft \<Rightarrow> ft)"

definition bytes_or_none :: "byte list option \<Rightarrow> byte list" where
  "bytes_or_none q = (case q of None \<Rightarrow> [] | Some bs \<Rightarrow> bs)"

fun rsp_understood :: "Response \<Rightarrow> slice \<Rightarrow> bool" where
  "rsp_understood (ErrorResponse e) r \<longleftrightarrow> er_IsInvalid r = Some False"
| "rsp_understood (OplockBreakResponse body) r \<longleftrightarrow> vis r = body"
| "rsp_understood (NegotiateResponse x) r \<longleftrightarrow>
     NegotiateResponse_IsInvalid r = Some False \<and> NegotiateResponse_SecurityMode r = Some (SecurityMode x)
     \<and> NegotiateResponse_DialectRevision r = Some (DialectRevision x) \<and> map_option vis (NegotiateResponse_ServerGuid r) = Some (ServerGuid x)
     \<and> NegotiateResponse_Capabilities r = Some (n_Capabilities x) \<and> NegotiateResponse_MaxTransactSize r = Some (MaxTransactSize x)
     \<and> NegotiateResponse_MaxReadSize r = Some (MaxReadSize x) \<and> NegotiateResponse_MaxWriteSize r = Some (MaxWriteSize x)
     \<and> time_read (NegotiateResponse_SystemTime r) = Some (SystemTime x)
     \<and> time_read (NegotiateResponse_ServerStartTime r) = Some (ServerStartTime x)
     \<and> map_option vis (NegotiateResponse_SecurityBuffer r) = Some (n_SecurityBuffer x)
     \<and> NegotiateResponse_NegotiateContextCount r = Some (of_nat (length (n_Contexts x)))
     \<and> (\<exists>cs. NegotiateResponse_NegotiateContextList r = Some cs
          \<and> (case n_Contexts x of [] \<Rightarrow> vis cs = []
             | y # ys \<Rightarrow> take (NegotiateContext_Size y) (vis cs) = NegotiateContext_Encode y))"
| "rsp_understood (SessionSetupResponse fl sb) r \<longleftrightarrow>
     SessionSetupResponse_IsInvalid r = Some False \<and> SessionSetupResponse_SessionFlags r = Some fl
     \<and> map_option vis (SessionSetupResponse_SecurityBuffer r) = Some sb"
| "rsp_understood LogoffResponse r \<longleftrightarrow> LogoffResponse_IsInvalid r = Some False"
| "rsp_understood (TreeConnectResponse t f caps m) r \<longleftrightarrow>
     TreeConnectResponse_IsInvalid r = Some False \<and> TreeConnectResponse_ShareType r = Some t \<and> TreeConnectResponse_ShareFlags r = Some f
     \<and> TreeConnectResponse_Capabilities r = Some caps \<and> TreeConnectResponse_MaximalAccess r = Some m"
| "rsp_understood TreeDisconnectResponse r \<longleftrightarrow> TreeDisconnectResponse_IsInvalid r = Some False"
| "rsp_understood (CreateResponse ol fl act ts al eof at fid ctxs) r \<longleftrightarrow>
     CreateResponse_IsInvalid r = Some False \<and> CreateResponse_OplockLevel r = Some ol \<and> CreateResponse_Flags r = Some fl
     \<and> CreateResponse_CreateAction r = Some act \<and> time_read (CreateResponse_CreationTime r) = Some (time_sent (CreationTime ts))
     \<and> time_read (CreateResponse_LastAccessTime r) = Some (time_sent (LastAccessTime ts))
     \<and> time_read (CreateResponse_LastWriteTime r) = Some (time_sent (LastWriteTime ts))
     \<and> time_read (CreateResponse_ChangeTime r) = Some (time_sent (ChangeTime ts))
     \<and> CreateResponse_AllocationSize r = Some al \<and> CreateResponse_EndofFile r = Some eof \<and> CreateResponse_FileAttributes r = Some at
     \<and> map_option vis (CreateResponse_FileId r) = Some fid
     \<and> map_option len (CreateResponse_CreateContexts r) = Some (sizes_rounded 88 (map CreateContext_Size ctxs) - 88)"
| "rsp_understood (CloseResponse fl ts al eof at) r \<longleftrightarrow>
     CloseResponse_IsInvalid r = Some False \<and> CloseResponse_Flags r = Some fl
     \<and> time_read (CloseResponse_CreationTime r) = Some (time_sent (CreationTime ts))
     \<and> time_read (CloseResponse_LastAccessTime r) = Some (time_sent (LastAccessTime ts))
     \<and> time_read (CloseResponse_LastWriteTime r) = Some (time_sent (LastWriteTime ts))
     \<and> time_read (CloseResponse_ChangeTime r) = Some (time_sent (ChangeTime ts))
     \<and> CloseResponse_AllocationSize r = Some al \<and> CloseResponse_EndofFile r = Some eof \<and> CloseResponse_FileAttributes r = Some at"
| "rsp_understood FlushResponse r \<longleftrightarrow> FlushResponse_IsInvalid r = Some False"
| "rsp_understood (ReadResponse d rem) r \<longleftrightarrow>
     ReadResponse_IsInvalid r = Some False \<and> map_option vis (ReadResponse_Data r) = Some d \<and> ReadResponse_DataRemaining r = Some rem"
| "rsp_understood (WriteResponse n rem) r \<longleftrightarrow>
     WriteResponse_IsInvalid r = Some False \<and> WriteResponse_Count r = Some n \<and> WriteResponse_Remaining r = Some rem
     \<and> WriteResponse_WriteChannelInfoOffset r = Some 0 \<and> WriteResponse_WriteChannelInfoLength r = Some 0"
| "rsp_understood LockResponse r \<longleftrightarrow> vis r = [4, 0, 0, 0]"
| "rsp_understood EchoResponse r \<longleftrightarrow> vis r = [4, 0, 0, 0]"
| "rsp_understood (IoctlResponse ctl fid fl inp outp) r \<longleftrightarrow>
     io_IsInvalid r = Some False \<and> io_CtlCode r = Some ctl \<and> map_option vis (io_FileId r) = Some fid \<and> io_Flags r = Some fl
     \<and> map_option vis (io_Input r) = Some (bytes_or_none inp) \<and> map_option vis (io_Output r) = Some (bytes_or_none outp)"
| "rsp_understood (QueryDirectoryResponse q) r \<longleftrightarrow>
     QueryDirectoryResponse_IsInvalid r = Some False \<and> map_option vis (QueryDirectoryResponse_OutputBuffer r) = Some (bytes_or_none q)"
| "rsp_understood (QueryInfoResponse q) r \<longleftrightarrow>
     QueryInfoResponse_IsInvalid r = Some False \<and> map_option vis (QueryInfoResponse_OutputBuffer r) = Some (bytes_or_none q)"
| "rsp_understood SetInfoResponse r \<longleftrightarrow> SetInfoResponse_IsInvalid r = Some False"
| "rsp_understood (ChangeNotifyResponse q) r \<longleftrightarrow>
     vis r = (case q of None \<Rightarrow> le16 9 @ zeros 7 | Some bs \<Rightarrow> le16 9 @ le16 72 @ le32 (of_nat (length bs)) @ bs)"

text \<open>Arrays have their lengths (\<open>rsp_ok\<close>), lengths fit the fields that hold them.\<close>

fun response_ok :: "Response \<Rightarrow> bool" where
  "response_ok (NegotiateResponse x) \<longleftrightarrow> length (ServerGuid x) = 16 \<and> 128 + length (n_SecurityBuffer x) < 2 ^ 16
     \<and> NegotiateResponse_Size x < 2 ^ 32"
| "response_ok (SessionSetupResponse fl sb) \<longleftrightarrow> 72 + length sb < 2 ^ 16"
| "response_ok (CreateResponse ol fl act ts al eof at fid ctxs) \<longleftrightarrow> length fid = 16
     \<and> CreateResponse_Size ol fl act ts al eof at fid ctxs < 2 ^ 32"
| "response_ok (IoctlResponse ctl fid fl inp outp) \<longleftrightarrow> length fid = 16 \<and> IoctlResponse_Size ctl fid fl inp outp < 2 ^ 32"
| "response_ok r \<longleftrightarrow> rsp_Size r < 2 ^ 32"

lemma response_ok_rsp: "response_ok r \<Longrightarrow> rsp_ok r"
  by (cases r) (auto simp: rsp_ok_def)

subsection \<open>Reading times\<close>

lemma time_range:
  assumes "lo + 8 = hi" "hi \<le> len r"
  shows "time_read (sl_range lo hi r) = do {
     l \<leftarrow> u32_in lo (lo + 4) r; h \<leftarrow> u32_in (lo + 4) hi r; Some \<lparr>LowDateTime = l, HighDateTime = h\<rparr> }"
proof -
  have s: "sl_range lo hi r = Some (Slice (take 8 (drop lo (vis r))) (drop hi (vis r) @ ext r))"
    using assms by (auto simp: sl_range_in)
  have "u32_in 0 4 (Slice (take 8 (drop lo (vis r))) (drop hi (vis r) @ ext r)) = u32_in lo (lo + 4) r"
    "u32_in 4 8 (Slice (take 8 (drop lo (vis r))) (drop hi (vis r) @ ext r)) = u32_in (lo + 4) hi r"
    using assms by (auto simp: u32_in_in len_def drop_take add.commute)
  then show ?thesis unfolding s by (simp add: FiletimeDecoder_Decode_def)
qed

lemma apart_time_field [simp]: "a + n \<le> off \<or> off + 8 \<le> a \<Longrightarrow> apart a n (time_field off t)"
  by (auto simp: time_field_def split: option.split)

lemma apart_times_fields [simp]: "a + n \<le> 8 \<or> 40 \<le> a \<Longrightarrow> apart a n (times_fields ts)"
  by (auto simp: times_fields_def)

lemma time_field_read:
  assumes "fits N (pre @ time_field off t @ post)" "apart off 4 pre" "apart (off + 4) 4 pre" "apart off 4 post" "apart (off + 4) 4 post"
    "off + 8 = hi" "hi \<le> N"
  shows "time_read (sl_range off hi (Slice (wrs (pre @ time_field off t @ post) (zeros N)) ex)) = Some (time_sent t)"
proof (cases t)
  case None
  then show ?thesis
    using assms u32_field(2)[of "zeros N" "pre @ post" "off + 4" off ex] u32_field(2)[of "zeros N" "pre @ post" "off + 8" "off + 4" ex]
    by (simp add: time_range length_wrs time_field_def time_sent_def zero_Filetime_def rd_zeros)
next
  case (Some ft)
  let ?fs = "pre @ time_field off t @ post"
  have "field_at ?fs off 4 = Some (le32 (LowDateTime ft))" "field_at ?fs (off + 4) 4 = Some (le32 (HighDateTime ft))"
    using assms Some by (simp_all add: field_at_append time_field_def)
  then show ?thesis
    using assms Some u32_field(1)[of "zeros N" ?fs "off + 4" off _ ex] u32_field(1)[of "zeros N" ?fs "off + 8" "off + 4" _ ex]
    by (simp add: time_range length_wrs time_sent_def le_dec_enc_full del: le_dec.simps le_enc.simps)
qed

lemma times_read:
  assumes "fits N (pre @ times_fields ts @ post)" "\<And>a. 8 \<le> a \<Longrightarrow> a + 4 \<le> 40 \<Longrightarrow> apart a 4 pre \<and> apart a 4 post" "40 \<le> N"
  shows "time_read (sl_range 8 16 (Slice (wrs (pre @ times_fields ts @ post) (zeros N)) ex)) = Some (time_sent (CreationTime ts))"
    "time_read (sl_range 16 24 (Slice (wrs (pre @ times_fields ts @ post) (zeros N)) ex)) = Some (time_sent (LastAccessTime ts))"
    "time_read (sl_range 24 32 (Slice (wrs (pre @ times_fields ts @ post) (zeros N)) ex)) = Some (time_sent (LastWriteTime ts))"
    "time_read (sl_range 32 40 (Slice (wrs (pre @ times_fields ts @ post) (zeros N)) ex)) = Some (time_sent (ChangeTime ts))"
proof -
  let ?a = "time_field 8 (CreationTime ts)" and ?b = "time_field 16 (LastAccessTime ts)"
    and ?c = "time_field 24 (LastWriteTime ts)" and ?d = "time_field 32 (ChangeTime ts)"
  have fs: "pre @ times_fields ts @ post = pre @ ?a @ (?b @ ?c @ ?d @ post)" "pre @ times_fields ts @ post = (pre @ ?a) @ ?b @ (?c @ ?d @ post)"
    "pre @ times_fields ts @ post = (pre @ ?a @ ?b) @ ?c @ (?d @ post)" "pre @ times_fields ts @ post = (pre @ ?a @ ?b @ ?c) @ ?d @ post"
    by (simp_all add: times_fields_def)
  note ok = assms(1) assms(2)[of 8] assms(2)[of 12] assms(2)[of 16] assms(2)[of 20] assms(2)[of 24] assms(2)[of 28]
    assms(2)[of 32] assms(2)[of 36] assms(3)
  show "time_read (sl_range 8 16 (Slice (wrs (pre @ times_fields ts @ post) (zeros N)) ex)) = Some (time_sent (CreationTime ts))"
    unfolding fs(1) by (rule time_field_read) (use ok fs(1) in simp_all)
  show "time_read (sl_range 16 24 (Slice (wrs (pre @ times_fields ts @ post) (zeros N)) ex)) = Some (time_sent (LastAccessTime ts))"
    unfolding fs(2) by (rule time_field_read) (use ok fs(2) in simp_all)
  show "time_read (sl_range 24 32 (Slice (wrs (pre @ times_fields ts @ post) (zeros N)) ex)) = Some (time_sent (LastWriteTime ts))"
    unfolding fs(3) by (rule time_field_read) (use ok fs(3) in simp_all)
  show "time_read (sl_range 32 40 (Slice (wrs (pre @ times_fields ts @ post) (zeros N)) ex)) = Some (time_sent (ChangeTime ts))"
    unfolding fs(4) by (rule time_field_read) (use ok fs(4) in simp_all)
qed

subsection \<open>The responses one by one\<close>

abbreviation body_of :: "Response \<Rightarrow> byte list \<Rightarrow> slice" where
  "body_of r ex \<equiv> Slice (wrs (body_fields r) (zeros (rsp_Size r - 64))) ex"

lemma zeros_numeral: "zeros (numeral k) = replicate (numeral k) 0"
  by (simp add: zeros_def)

lemma wr_all: "length b = length bs \<Longrightarrow> wr 0 bs b = bs"
  by (simp add: wr_def)

lemma plain_rsp_understood:
  assumes "r = LogoffResponse \<or> r = TreeDisconnectResponse \<or> r = FlushResponse \<or> r = SetInfoResponse
    \<or> r = TreeConnectResponse t f caps m \<or> r = WriteResponse n rem"
  shows "rsp_understood r (body_of r ex)"
  using assms by (elim disjE)
    (simp_all add: fields_read response_accessors response_checks del: wrs.simps le_dec.simps le_enc.simps)

lemma le16_4: "le16 4 = [4, 0]" "le16 0 = [0, 0]"
  by code_simp+

lemma replicate_2: "replicate 2 (0 :: byte) = [0, 0]"
  by (simp add: numeral_2_eq_2)

lemma fixed_body_understood:
  "rsp_understood LockResponse (body_of LockResponse ex)" "rsp_understood EchoResponse (body_of EchoResponse ex)"
  "rsp_understood (OplockBreakResponse body) (body_of (OplockBreakResponse body) ex)"
  by (simp_all add: wr_def zeros_def le16_4 replicate_2 del: le_enc.simps)

lemma error_understood:
  assumes "response_ok (ErrorResponse e)"
  shows "rsp_understood (ErrorResponse e) (body_of (ErrorResponse e) ex)"
    "map_option vis (er_ErrorData (body_of (ErrorResponse e) ex)) = Some []"
proof -
  define n where "n = rsp_Size (ErrorResponse e) - 64"
  have n: "8 \<le> n" "fits n (body_fields (ErrorResponse e))"
    using body_fits[of "ErrorResponse e" n] by (auto simp: n_def rsp_ok_def split: option.splits)
  have "unat (of_nat n :: u32) = n" using assms by (intro unat_len32) (simp add: n_def)
  then have "\<not> (of_nat n :: u32) < 8" using n(1) by (simp add: word_less_nat_alt)
  moreover have "field_at (body_fields (ErrorResponse e)) 0 2 = Some (le16 9)" "apart 4 4 (body_fields (ErrorResponse e))"
    by (auto split: option.splits ErrorData.splits)
  ultimately show "rsp_understood (ErrorResponse e) (body_of (ErrorResponse e) ex)"
      "map_option vis (er_ErrorData (body_of (ErrorResponse e) ex)) = Some []"
    using n unfolding n_def[symmetric] by (simp_all add: fields_read response_accessors response_checks response_buffers
        del: wrs.simps le_dec.simps le_enc.simps body_fields.simps body_fields_parts)
qed

lemma session_setup_rsp_understood:
  assumes "response_ok (SessionSetupResponse fl sb)"
  shows "rsp_understood (SessionSetupResponse fl sb) (body_of (SessionSetupResponse fl sb) ex)"
proof (cases "sb = []")
  case True
  then show ?thesis
    by (simp add: fields_read response_accessors response_checks response_buffers del: wrs.simps le_dec.simps le_enc.simps)
next
  case False
  have n: "unat (72 + of_nat (length sb) :: u16) = 72 + length sb" "unat (8 + of_nat (length sb) :: u16) = 8 + length sb"
    using assms unat_plus16[of 72 "length sb"] unat_plus16[of 8 "length sb"] by simp_all
  with False show ?thesis
    by (simp add: fields_read response_accessors response_checks response_buffers region16_def del: wrs.simps le_dec.simps le_enc.simps)
qed

lemma read_rsp_understood:
  assumes "response_ok (ReadResponse d rem)"
  shows "rsp_understood (ReadResponse d rem) (body_of (ReadResponse d rem) ex)"
proof (cases "d = []")
  case True
  then show ?thesis
    by (simp add: fields_read response_accessors response_checks response_buffers del: wrs.simps le_dec.simps le_enc.simps)
next
  case False
  have n: "unat (80 + of_nat (length d) :: u32) = 80 + length d" "unat (16 + of_nat (length d) :: u32) = 16 + length d"
    using assms False unat_plus32[of 80 "length d"] unat_plus32[of 16 "length d"] by simp_all
  with False show ?thesis
    by (simp add: fields_read response_accessors response_checks response_buffers del: wrs.simps le_dec.simps le_enc.simps)
qed

lemma output_rsp_understood:
  assumes "response_ok r" "r = QueryDirectoryResponse q \<or> r = QueryInfoResponse q"
  shows "rsp_understood r (body_of r ex)"
proof (cases q)
  case None
  then show ?thesis
    using assms(2) by (auto simp: output_fields_def bytes_or_none_def fields_read response_accessors response_checks response_buffers
        simp del: wrs.simps le_dec.simps le_enc.simps)
next
  case (Some bs)
  have "unat (72 + of_nat (length bs) :: u32) = 72 + length bs" "unat (8 + of_nat (length bs) :: u32) = 8 + length bs"
    using assms Some unat_plus32[of 72 "length bs"] unat_plus32[of 8 "length bs"] by auto
  then show ?thesis
    using assms(2) Some by (cases "bs = []") (auto simp: output_fields_def bytes_or_none_def fields_read response_accessors
        response_checks response_buffers simp del: wrs.simps le_dec.simps le_enc.simps)
qed

lemma close_rsp_understood: "rsp_understood (CloseResponse fl ts al eof at) (body_of (CloseResponse fl ts al eof at) ex)"
proof -
  let ?pre = "[(0, le16 60), (2, le16 fl)]" and ?post = "[(40, le64 al), (48, le64 eof), (56, le32 at)]"
  have fits: "fits 60 (?pre @ times_fields ts @ ?post)" by (simp add: fits_times)
  note times = times_read[OF fits, of ex]
  show ?thesis
    using fits times by (simp add: fields_read field_at_append response_accessors response_checks del: wrs.simps le_dec.simps le_enc.simps)
qed

lemma ioctl_rsp_understood:
  assumes "response_ok (IoctlResponse ctl fid fl inp outp)"
  shows "rsp_understood (IoctlResponse ctl fid fl inp outp) (body_of (IoctlResponse ctl fid fl inp outp) ex)"
proof -
  define k m where "k = length (bytes_or_none inp)" and "m = length (bytes_or_none outp)"
  define N where "N = rsp_Size (IoctlResponse ctl fid fl inp outp) - 64"
  let ?fs = "body_fields (IoctlResponse ctl fid fl inp outp)"
  have l: "length fid = 16" "112 + k + m < 2 ^ 32" "48 + k + m \<le> N"
    using assms by (auto simp: k_def m_def N_def bytes_or_none_def split: option.splits)
  have fits: "fits N ?fs"
    by (rule body_fits) (use assms in \<open>auto simp: rsp_ok_def N_def split: option.splits\<close>)
  have inp: "sl_range 48 (48 + k) (Slice (wrs ?fs (zeros N)) ex)
      = Some (Slice (bytes_or_none inp) (drop (48 + k) (wrs ?fs (zeros N)) @ ex))" if "inp \<noteq> None"
    by (rule data_field) (use fits l that in \<open>auto simp: k_def bytes_or_none_def split: option.splits\<close>)
  have outp: "sl_range (48 + k) (48 + k + m) (Slice (wrs ?fs (zeros N)) ex)
      = Some (Slice (bytes_or_none outp) (drop (48 + k + m) (wrs ?fs (zeros N)) @ ex))" if "outp \<noteq> None"
    by (rule data_field) (use fits l that in \<open>auto simp: k_def m_def bytes_or_none_def split: option.splits\<close>)
  have "u32_in 24 28 (Slice (wrs ?fs (zeros N)) ex) = Some (if inp = None then 0 else 112)"
    "u32_in 28 32 (Slice (wrs ?fs (zeros N)) ex) = Some (of_nat k)"
    "u32_in 32 36 (Slice (wrs ?fs (zeros N)) ex) = Some (if outp = None then 0 else 112 + of_nat k)"
    "u32_in 36 40 (Slice (wrs ?fs (zeros N)) ex) = Some (of_nat m)"
    using fits l by (auto simp: fields_read field_at_append k_def m_def bytes_or_none_def Let_def simp del: wrs.simps le_dec.simps le_enc.simps
      split: option.splits)
  moreover have "field_at ?fs 0 2 = Some (le16 49)" "field_at ?fs 4 4 = Some (le32 ctl)" "field_at ?fs 8 16 = Some fid"
    "field_at ?fs 40 4 = Some (le32 fl)"
    using l by (auto simp: field_at_append Let_def split: option.splits)
  moreover define S where "S = Slice (wrs ?fs (zeros N)) ex"
  ultimately have S: "u32_in 24 28 S = Some (if inp = None then 0 else 112)" "u32_in 28 32 S = Some (of_nat k)"
    "u32_in 32 36 S = Some (if outp = None then 0 else 112 + of_nat k)" "u32_in 36 40 S = Some (of_nat m)"
    "u16_in 0 2 S = Some 49" "u32_in 4 8 S = Some ctl" "map_option vis (sl_range 8 24 S) = Some fid" "u32_in 40 44 S = Some fl"
    and lenS: "len S = N"
    using fits l by (simp_all add: fields_read S_def del: wrs.simps le_dec.simps le_enc.simps body_fields.simps body_fields_parts)
  note inp = inp[folded S_def] and outp = outp[folded S_def]
  have u: "unat (112 + of_nat k :: u32) = 112 + k" "unat (48 + of_nat k :: u32) = 48 + k"
      "unat (of_nat k :: u32) = k" "unat (of_nat m :: u32) = m"
    using l unat_plus32[of 112 k] unat_plus32[of 48 k] by (simp_all add: unat_len32)
  have u2: "unat (112 + of_nat k + of_nat m :: u32) = 112 + k + m" "unat (48 + of_nat k + of_nat m :: u32) = 48 + k + m"
    using l u unat_plus32[of "112 + of_nat k" m] unat_plus32[of "48 + of_nat k" m] by simp_all
  have no_input: "inp = None \<Longrightarrow> k = 0" "outp = None \<Longrightarrow> m = 0" by (simp_all add: k_def m_def bytes_or_none_def)
  have "io_IsInvalid S = Some False"
    using l lenS u u2 no_input unfolding io_IsInvalid_def ends_past_def[symmetric] ends_past_iff
    by (auto simp: response_accessors S)
  moreover have "map_option vis (io_Input S) = Some (bytes_or_none inp)"
    using u inp by (cases "inp = None") (simp_all add: io_Input_def response_accessors S region32_def bytes_or_none_def)
  moreover have "map_option vis (io_Output S) = Some (bytes_or_none outp)"
  proof (cases "outp = None")
    case False
    have "\<not> (112 + of_nat k :: u32) < 112" using u by (simp add: word_less_nat_alt)
    then show ?thesis using False u u2 outp by (auto simp: io_Output_def response_accessors S region32_def)
  qed (simp add: io_Output_def response_accessors S bytes_or_none_def)
  ultimately show ?thesis using S unfolding N_def[symmetric] S_def[symmetric] by (simp add: response_accessors)
qed

lemma change_notify_rsp_understood: "rsp_understood (ChangeNotifyResponse q) (body_of (ChangeNotifyResponse q) ex)"
  by (cases q) (simp_all add: output_fields_def wr_def zeros_def del: le_enc.simps)

subsection \<open>Responses with contexts\<close>

lemma create_contexts_apart:
  "a + n \<le> off \<Longrightarrow> (if first then a + n \<le> 80 \<or> 84 \<le> a else a + n \<le> prev \<or> prev + 4 \<le> a)
    \<Longrightarrow> apart a n (create_contexts off prev first xs)"
proof (induction off prev first xs rule: create_contexts.induct)
  case (2 off prev first x xs)
  then have "a + n \<le> round8 off" using round8_ge[of off] by simp
  with 2 show ?case by (auto split: if_splits)
qed simp

lemma neg_contexts_apart:
  "a + n \<le> off \<Longrightarrow> \<not> first \<or> a + n \<le> 60 \<or> 64 \<le> a \<Longrightarrow> apart a n (neg_contexts off first xs)"
proof (induction off first xs rule: neg_contexts.induct)
  case (2 off first x xs)
  then have "a + n \<le> round8 off" using round8_ge[of off] by simp
  with 2 show ?case by auto
qed simp

lemma create_rsp_understood:
  assumes "response_ok (CreateResponse ol fl act ts al eof at fid ctxs)"
  shows "rsp_understood (CreateResponse ol fl act ts al eof at fid ctxs) (body_of (CreateResponse ol fl act ts al eof at fid ctxs) ex)"
proof -
  let ?r = "CreateResponse ol fl act ts al eof at fid ctxs"
  define N where "N = sizes_rounded 88 (map CreateContext_Size ctxs)"
  have size: "rsp_Size ?r = 64 + N" using sizes_rounded_header[of 88] by (simp add: N_def)
  have l: "length fid = 16" "64 + N < 2 ^ 32" using assms size by simp_all
  have ge: "88 \<le> N" unfolding N_def by (rule sizes_rounded_ge)
  define post where "post = (if ctxs = [] then [(80, zeros 4), (84, zeros 4)]
    else create_contexts 88 0 True ctxs @ [(84, le32 (of_nat (N - 88)))])"
  let ?pre = "[(0, le16 89), (2, [ol]), (3, [fl]), (4, le32 act)]"
  let ?post = "[(40, le64 al), (48, le64 eof), (56, le32 at), (64, fid)] @ post"
  have fs: "body_fields ?r = ?pre @ times_fields ts @ ?post" by (simp add: post_def N_def)
  have fits: "fits N (?pre @ times_fields ts @ ?post)"
    using body_fits[of ?r N] l(1) size unfolding fs by (simp add: rsp_ok_def)
  have ap: "apart a n post" if "a + n \<le> 80" for a n
    using that create_contexts_apart[of a n 88 True 0 ctxs] by (simp add: post_def)
  have at: "field_at post 80 4 = Some (if ctxs = [] then zeros 4 else le32 152)"
    "field_at post 84 4 = Some (if ctxs = [] then zeros 4 else le32 (of_nat (N - 88)))"
  proof -
    show "field_at post 80 4 = Some (if ctxs = [] then zeros 4 else le32 152)"
    proof (cases ctxs)
      case (Cons x xs)
      have "apart 80 4 (create_contexts (88 + CreateContext_Size x) 88 False xs)" by (rule create_contexts_apart) simp_all
      then show ?thesis using Cons by (simp add: post_def field_at_append round8_eq)
    qed (simp add: post_def)
  qed (simp add: post_def field_at_append)
  have "\<not> apart 80 4 post" "\<not> apart 84 4 post"
    using at field_at_apart[of 4 80 post] field_at_apart[of 4 84 post] by auto
  note at = at this
  have times: "a + 4 \<le> 40 \<Longrightarrow> 8 \<le> a \<Longrightarrow> apart a 4 ?pre \<and> apart a 4 ?post" for a
    using ap[of a 4] by simp
  define S where "S = Slice (wrs (?pre @ times_fields ts @ ?post) (zeros N)) ex"
  have t: "time_read (sl_range 8 16 S) = Some (time_sent (CreationTime ts))"
    "time_read (sl_range 16 24 S) = Some (time_sent (LastAccessTime ts))"
    "time_read (sl_range 24 32 S) = Some (time_sent (LastWriteTime ts))"
    "time_read (sl_range 32 40 S) = Some (time_sent (ChangeTime ts))"
    unfolding S_def by (rule times_read[OF fits]; use times ge in simp)+
  have f: "field_at (?pre @ times_fields ts @ ?post) 0 2 = Some (le16 89)" "field_at (?pre @ times_fields ts @ ?post) 2 1 = Some [ol]"
    "field_at (?pre @ times_fields ts @ ?post) 3 1 = Some [fl]" "field_at (?pre @ times_fields ts @ ?post) 4 4 = Some (le32 act)"
    "field_at (?pre @ times_fields ts @ ?post) 40 8 = Some (le64 al)" "field_at (?pre @ times_fields ts @ ?post) 48 8 = Some (le64 eof)"
    "field_at (?pre @ times_fields ts @ ?post) 56 4 = Some (le32 at)" "field_at (?pre @ times_fields ts @ ?post) 64 16 = Some fid"
    "field_at (?pre @ times_fields ts @ ?post) 80 4 = field_at post 80 4" "field_at (?pre @ times_fields ts @ ?post) 84 4 = field_at post 84 4"
    using l(1) ap at by (simp_all add: field_at_append)
  have S: "u16_in 0 2 S = Some 89" "sl_at 2 S = Some ol" "sl_at 3 S = Some fl" "u32_in 4 8 S = Some act"
    "u64_in 40 48 S = Some al" "u64_in 48 56 S = Some eof" "u32_in 56 60 S = Some at" "map_option vis (sl_range 64 80 S) = Some fid"
    "u32_in 80 84 S = Some (if ctxs = [] then 0 else 152)" "u32_in 84 88 S = Some (if ctxs = [] then 0 else of_nat (N - 88))"
    and lenS: "len S = N"
    using f at fits ge by (simp_all add: fields_read S_def del: wrs.simps le_dec.simps le_enc.simps)
  have u: "unat (152 + of_nat (N - 88) :: u32) = 64 + N" "unat (88 + of_nat (N - 88) :: u32) = N"
    using l(2) ge unat_plus32[of 152 "N - 88"] unat_plus32[of 88 "N - 88"] by simp_all
  have "CreateResponse_IsInvalid S = Some False"
    using ge lenS u by (simp add: CreateResponse_IsInvalid_def response_accessors S ends_past_iff del: of_nat_diff)
  moreover have "map_option len (CreateResponse_CreateContexts S) = Some (N - 88)"
    using ge lenS u by (simp add: CreateResponse_CreateContexts_def response_accessors S region32_def sl_range_in N_def len_def del: of_nat_diff)
  moreover have "body_of ?r ex = S" unfolding fs size S_def by simp
  ultimately show ?thesis using t S by (simp add: response_accessors N_def del: body_fields.simps body_fields_parts rsp_Size.simps)
qed

lemma NegotiateContext_Size_pos [simp]: "0 < NegotiateContext_Size x" "NegotiateContext_Size x \<noteq> 0"
  by (cases x; simp)+

lemma negotiate_rsp_understood:
  assumes "response_ok (NegotiateResponse x)"
  shows "rsp_understood (NegotiateResponse x) (body_of (NegotiateResponse x) ex)"
proof -
  define k where "k = length (n_SecurityBuffer x)"
  define cs where "cs = n_Contexts x"
  define T where "T = sizes_rounded (64 + k) (map NegotiateContext_Size cs)"
  define N where "N = rsp_Size (NegotiateResponse x) - 64"
  have N: "N = (if T = 64 then 65 else T)" "rsp_Size (NegotiateResponse x) = 64 + N"
    by (simp_all add: N_def T_def k_def cs_def Let_def)
  have l: "length (ServerGuid x) = 16" "128 + k < 2 ^ 16" "64 + N < 2 ^ 32" using assms N(2) by (simp_all add: k_def)
  have ge: "64 + k \<le> T" unfolding T_def by (rule sizes_rounded_ge)
  then have le: "T \<le> N" "64 + k \<le> N" using N(1) by auto
  define ctx where "ctx = neg_contexts (64 + k) True cs"
  define pre :: fields where "pre = [(0, le16 65), (2, le16 (SecurityMode x)), (4, le16 (DialectRevision x)), (8, ServerGuid x),
      (24, le32 (n_Capabilities x)), (28, le32 (MaxTransactSize x)), (32, le32 (MaxReadSize x)), (36, le32 (MaxWriteSize x)),
      (40, le32 (LowDateTime (SystemTime x))), (44, le32 (HighDateTime (SystemTime x))),
      (48, le32 (LowDateTime (ServerStartTime x))), (52, le32 (HighDateTime (ServerStartTime x))),
      (64, n_SecurityBuffer x), (56, le16 128), (58, le16 (of_nat k))]"
  let ?fs = "pre @ ctx @ [(6, le16 (of_nat (length cs)))]"
  have fs: "body_fields (NegotiateResponse x) = ?fs" by (simp add: pre_def ctx_def k_def cs_def)
  have fits: "fits N ?fs" using body_fits[of "NegotiateResponse x" N] l(1) N(2) unfolding fs by (simp add: rsp_ok_def)
  have ap: "apart a n ctx" if "a + n \<le> 60 \<or> 64 \<le> a" "a + n \<le> 64 + k" for a n
    unfolding ctx_def by (rule neg_contexts_apart) (use that in auto)
  have f: "field_at ?fs 0 2 = Some (le16 65)" "field_at ?fs 2 2 = Some (le16 (SecurityMode x))"
    "field_at ?fs 4 2 = Some (le16 (DialectRevision x))" "field_at ?fs 8 16 = Some (ServerGuid x)"
    "field_at ?fs 24 4 = Some (le32 (n_Capabilities x))" "field_at ?fs 28 4 = Some (le32 (MaxTransactSize x))"
    "field_at ?fs 32 4 = Some (le32 (MaxReadSize x))" "field_at ?fs 36 4 = Some (le32 (MaxWriteSize x))"
    "field_at ?fs 40 4 = Some (le32 (LowDateTime (SystemTime x)))" "field_at ?fs 44 4 = Some (le32 (HighDateTime (SystemTime x)))"
    "field_at ?fs 48 4 = Some (le32 (LowDateTime (ServerStartTime x)))"
    "field_at ?fs 52 4 = Some (le32 (HighDateTime (ServerStartTime x)))"
    "field_at ?fs 56 2 = Some (le16 128)" "field_at ?fs 58 2 = Some (le16 (of_nat k))"
    "field_at ?fs 6 2 = Some (le16 (of_nat (length cs)))"
    using l(1) by (simp_all add: field_at_append ap pre_def)
  define S where "S = Slice (wrs ?fs (zeros N)) ex"
  have S: "u16_in 0 2 S = Some 65" "u16_in 2 4 S = Some (SecurityMode x)" "u16_in 4 6 S = Some (DialectRevision x)"
    "map_option vis (sl_range 8 24 S) = Some (ServerGuid x)" "u32_in 24 28 S = Some (n_Capabilities x)"
    "u32_in 28 32 S = Some (MaxTransactSize x)" "u32_in 32 36 S = Some (MaxReadSize x)" "u32_in 36 40 S = Some (MaxWriteSize x)"
    "u32_in 40 44 S = Some (LowDateTime (SystemTime x))" "u32_in 44 48 S = Some (HighDateTime (SystemTime x))"
    "u32_in 48 52 S = Some (LowDateTime (ServerStartTime x))" "u32_in 52 56 S = Some (HighDateTime (ServerStartTime x))"
    "u16_in 56 58 S = Some 128" "u16_in 58 60 S = Some (of_nat k)" "u16_in 6 8 S = Some (of_nat (length cs))"
    and lenS: "len S = N"
    using f fits le unfolding S_def by (simp_all add: fields_read del: wrs.simps le_dec.simps le_enc.simps fits_simps)
  have sb: "sl_range 64 (64 + k) S = Some (Slice (n_SecurityBuffer x) (drop (64 + k) (wrs ?fs (zeros N)) @ ex))"
    unfolding S_def
    by (rule data_field) (use fits le ap[of 64 k] in \<open>simp_all add: k_def[symmetric] field_at_append, simp add: pre_def k_def\<close>)
  have u: "unat (128 + of_nat k :: u16) = 128 + k" "unat (64 + of_nat k :: u16) = 64 + k"
    using l(2) unat_plus16[of 128 k] unat_plus16[of 64 k] by simp_all
  have "map_option vis (NegotiateResponse_SecurityBuffer S) = Some (n_SecurityBuffer x)"
    using sb u by (simp add: NegotiateResponse_SecurityBuffer_def response_accessors S region16_def)
  moreover have "time_read (NegotiateResponse_SystemTime S) = Some (SystemTime x)"
    "time_read (NegotiateResponse_ServerStartTime S) = Some (ServerStartTime x)"
    using le lenS by (simp_all add: response_accessors time_range S)
  moreover have "NegotiateResponse_IsInvalid S = Some False \<and> (\<exists>c. NegotiateResponse_NegotiateContextList S = Some c
      \<and> (case cs of [] \<Rightarrow> vis c = [] | y # ys \<Rightarrow> take (NegotiateContext_Size y) (vis c) = NegotiateContext_Encode y))"
  proof (cases cs)
    case Nil
    have "apart 60 4 ?fs" using l(1) by (simp add: Nil ctx_def pre_def)
    then have "u32_in 60 64 S = Some 0" using fits le unfolding S_def by (simp add: fields_read)
    then show ?thesis
      using Nil le lenS u by (simp add: NegotiateResponse_IsInvalid_def NegotiateResponse_NegotiateContextList_def response_accessors S ends_past_iff)
  next
    case (Cons y ys)
    define at where "at = round8 (64 + k)"
    have at: "64 + k \<le> at" "8 dvd at + 64" using round8_ge[of "64 + k"] by (simp_all add: at_def round8_eq)
    have fin: "at + NegotiateContext_Size y \<le> N"
      using sizes_rounded_ge[of "at + NegotiateContext_Size y" "map NegotiateContext_Size ys"] le(1) by (simp add: T_def Cons at_def)
    have ctx: "ctx = (60, le32 (of_nat (at + 64))) # (at, NegotiateContext_Encode y) # neg_contexts (at + NegotiateContext_Size y) False ys"
      by (simp add: ctx_def Cons at_def)
    have later: "apart a n (neg_contexts (at + NegotiateContext_Size y) False ys)" if "a + n \<le> at + NegotiateContext_Size y" for a n
      by (rule neg_contexts_apart) (use that in simp_all)
    have "field_at ?fs 60 4 = Some (le32 (of_nat (at + 64)))"
      "field_at ?fs at (NegotiateContext_Size y) = Some (NegotiateContext_Encode y)"
      using at(1) later by (simp_all add: ctx field_at_append del: of_nat_add)
    then have o: "u32_in 60 64 S = Some (of_nat (at + 64))" "rd at (NegotiateContext_Size y) (wrs ?fs (zeros N)) = NegotiateContext_Encode y"
      using fits le rd_wrs[of "zeros N" ?fs at] unfolding S_def by (simp_all add: fields_read del: wrs.simps le_dec.simps le_enc.simps of_nat_add)
    have w: "unat (of_nat (at + 64) :: u32) = at + 64" using fin l(3) by (intro unat_len32) simp
    then have "\<not> (of_nat (at + 64) :: u32) < 64" "unat (of_nat (at + 64) - 64 :: u32) = at"
      by (simp_all add: word_less_nat_alt unat_sub word_le_nat_alt del: of_nat_add)
    then have "NegotiateResponse_NegotiateContextList S = Some (Slice (drop at (wrs ?fs (zeros N))) ex)"
      using o(1) fin lenS by (simp add: NegotiateResponse_NegotiateContextList_def response_accessors S_def sl_from_in del: of_nat_add wrs.simps)
    moreover have "NegotiateResponse_IsInvalid S = Some False"
      using o(1) at(2) w le fin lenS u and_7_of_nat[of "at + 64"]
      by (simp add: NegotiateResponse_IsInvalid_def response_accessors S ends_past_iff del: of_nat_add)
    ultimately show ?thesis using o(2) by (simp add: Cons rd_def)
  qed
  moreover have "body_of (NegotiateResponse x) ex = S" unfolding fs N(2) S_def by simp
  ultimately show ?thesis
    using S unfolding cs_def by (simp add: response_accessors del: body_fields.simps body_fields_parts rsp_Size.simps)
qed

lemma rsp_body_understood:
  assumes ok: "response_ok r"
  shows "rsp_understood r (body_of r ex)"
proof (cases r)
  case (ErrorResponse e)
  show ?thesis using error_understood(1)[of e ex] ok unfolding ErrorResponse by simp
next
  case (OplockBreakResponse body)
  show ?thesis unfolding OplockBreakResponse by (rule fixed_body_understood)
next
  case (NegotiateResponse x)
  show ?thesis using negotiate_rsp_understood[of x ex] ok unfolding NegotiateResponse by blast
next
  case (SessionSetupResponse fl sb)
  show ?thesis using session_setup_rsp_understood[of fl sb ex] ok unfolding SessionSetupResponse by blast
next
  case (CreateResponse ol fl act ts al eof at fid ctxs)
  show ?thesis using create_rsp_understood[of ol fl act ts al eof at fid ctxs ex] ok unfolding CreateResponse by blast
next
  case (CloseResponse fl ts al eof at)
  show ?thesis unfolding CloseResponse by (rule close_rsp_understood)
next
  case (ReadResponse d rem)
  show ?thesis using read_rsp_understood[of d rem ex] ok unfolding ReadResponse by blast
next
  case LockResponse
  show ?thesis unfolding LockResponse by (rule fixed_body_understood)
next
  case EchoResponse
  show ?thesis unfolding EchoResponse by (rule fixed_body_understood)
next
  case (IoctlResponse ctl fid fl inp outp)
  show ?thesis using ioctl_rsp_understood[of ctl fid fl inp outp ex] ok unfolding IoctlResponse by blast
next
  case (QueryDirectoryResponse q)
  show ?thesis using output_rsp_understood[OF ok, of q ex] QueryDirectoryResponse by blast
next
  case (QueryInfoResponse q)
  show ?thesis using output_rsp_understood[OF ok, of q ex] QueryInfoResponse by blast
next
  case (ChangeNotifyResponse q)
  show ?thesis unfolding ChangeNotifyResponse by (rule change_notify_rsp_understood)
qed (auto intro!: plain_rsp_understood simp del: rsp_understood.simps body_fields.simps body_fields_parts rsp_Size.simps)

lemma response_arrives:
  assumes "response_ok r" "rsp_Command r = Some cmd" "ChannelSequence hdr = 0" "Status hdr = 0"
  shows "\<exists>pkt. rsp_Encode (hdr, r) (zeros (rsp_Size r)) = Some pkt \<and> length pkt = rsp_Size r
    \<and> accept cmd (Slice pkt ex) = Some (body_of r ex, None)"
proof -
  define n where "n = rsp_Size r - 64"
  have size: "rsp_Size r = 64 + n" using rsp_Size_ge[of r] by (simp add: n_def)
  have fits: "fits n (body_fields r)" by (rule body_fits[OF response_ok_rsp[OF assms(1)]]) (simp add: size)
  obtain h pkt where p: "encodeHeader (hdr\<lparr>Command := cmd\<rparr>) (zeros (64 + n)) = Some h"
      "puts (in_body (body_fields r)) h = Some pkt" "length pkt = 64 + n"
      "accept cmd (Slice pkt ex) = Some (Slice (wrs (body_fields r) (zeros n)) ex, None)"
    using encoded_packet[OF fits, of "hdr\<lparr>Command := cmd\<rparr>" ex] assms(3,4) by auto
  have "rsp_Encode (hdr, r) (zeros (rsp_Size r)) = Some pkt"
    using p(1,2) assms(2) by (simp add: rsp_Encode_def rsp_header_def size)
  then show ?thesis using p(3,4) size unfolding n_def by auto
qed

subsection \<open>Properties\<close>

text \<open>
  C12. The client understands the responses of the server.  Every response whose lengths fit their fields
  can be encoded in a fresh buffer of \<^verbatim>\<open>Size()\<close> bytes; a client of the package accepts the successful
  packet for its command, and the decoders find the body valid and read from it what the server put
  there: numbers, times, file ids, buffers, the number of negotiate contexts and the first of them.
\<close>

theorem responses_understood:
  assumes "response_ok r" "rsp_Command r = Some cmd" "ChannelSequence hdr = 0" "Status hdr = 0"
  shows "\<exists>pkt body. rsp_Encode (hdr, r) (zeros (rsp_Size r)) = Some pkt \<and> length pkt = rsp_Size r
    \<and> accept cmd (Slice pkt ex) = Some (body, None) \<and> rsp_understood r body"
  using response_arrives[OF assms] rsp_body_understood[OF assms(1)] by blast

lemma responses_understood_witness:
  "\<exists>pkt body. rsp_Encode (new_header, ReadResponse [1, 2, 3] 0) (zeros 83) = Some pkt
     \<and> accept SMB2_READ (Slice pkt []) = Some (body, None) \<and> rsp_understood (ReadResponse [1, 2, 3] 0) body"
  using responses_understood[of "ReadResponse [1, 2, 3] 0" SMB2_READ new_header "[]"] by (simp add: new_header_def) blast

text \<open>
  C13. The data of an error is lost.  The length of the error data is stored in the two bytes of the
  number of contexts, not in the byte count: the client finds the body of every error response valid
  and its data empty, whatever the server attached (the size of buffer that a query needs, say).  And
  the one structured error, a symbolic link that is in the way, is invalid to its own decoder.
\<close>

theorem error_data_is_lost:
  assumes "ErrorResponse_Size e < 2 ^ 32" "SymlinkError_Size subst printed < 2 ^ 16"
  shows "er_IsInvalid (Slice (wrs (ErrorResponse_Encode e) (zeros (ErrorResponse_Size e - 64))) ex) = Some False
    \<and> map_option vis (er_ErrorData (Slice (wrs (ErrorResponse_Encode e) (zeros (ErrorResponse_Size e - 64))) ex)) = Some []
    \<and> SymlinkError_IsInvalid (Slice (wrs (SymlinkError_Encode unparsed fl subst printed (SymlinkError_Size subst printed))
           (zeros (SymlinkError_Size subst printed))) ex) = Some True"
proof -
  have ok: "response_ok (ErrorResponse e)" using assms(1) by simp
  have 1: "er_IsInvalid (Slice (wrs (ErrorResponse_Encode e) (zeros (ErrorResponse_Size e - 64))) ex) = Some False"
    "map_option vis (er_ErrorData (Slice (wrs (ErrorResponse_Encode e) (zeros (ErrorResponse_Size e - 64))) ex)) = Some []"
    using error_understood[OF ok, of ex] by (simp_all only: rsp_understood.simps body_fields.simps rsp_Size.simps)
  define s t n where "s = name_len subst" and "t = name_len printed" and "n = SymlinkError_Size subst printed"
  have n: "n = 28 + s + t" "n < 2 ^ 16" using assms(2) by (simp_all add: n_def s_def t_def SymlinkError_Size_def)
  let ?fs = "SymlinkError_Encode unparsed fl subst printed n"
  have fits: "fits n ?fs" using n(1) by (simp add: SymlinkError_Encode_def s_def t_def Let_def)
  have f: "field_at ?fs 0 4 = Some (le32 (of_nat (n - 4)))" "field_at ?fs 4 4 = Some (le32 0x4c4d5953)"
    "field_at ?fs 8 4 = Some (le32 IO_REPARSE_TAG_SYMLINK)" "field_at ?fs 12 2 = Some (le16 (of_nat (n - 12)))"
    "field_at ?fs 16 2 = Some (le16 0)" "field_at ?fs 18 2 = Some (le16 (of_nat s))" "field_at ?fs 20 2 = Some (le16 (of_nat s))"
    "field_at ?fs 22 2 = Some (le16 (of_nat t))"
    by (simp_all add: SymlinkError_Encode_def s_def t_def Let_def)
  have "unat (of_nat (n - 4) :: u32) = n - 4" "unat (of_nat (n - 12) :: u16) = n - 12"
    using n(2) by (simp_all add: unat_len32 unat_len16)
  then have "SymlinkError_IsInvalid (Slice (wrs ?fs (zeros n)) ex) = Some True"
    using n fits f by (simp add: SymlinkError_IsInvalid_def response_accessors fields_read del: wrs.simps le_dec.simps le_enc.simps of_nat_diff)
  then show ?thesis using 1 by (simp only: n_def simp_thms)
qed

text \<open>The answer to a query whose buffer is too small: the size that is needed does not arrive.\<close>

lemma error_data_is_lost_witness:
  "map_option vis (er_ErrorData (Slice (wrs (ErrorResponse_Encode (Some (OtherErrorData (SmallBufferError_Encode 100))))
      (zeros 12)) [])) = Some []
   \<and> SymlinkError_IsInvalid (Slice (wrs (SymlinkError_Encode 0 0 [] [] (SymlinkError_Size [] [])) (zeros (SymlinkError_Size [] []))) [])
     = Some True"
proof -
  have s: "ErrorResponse_Size (Some (OtherErrorData (SmallBufferError_Encode 100))) = 76" by (simp add: SmallBufferError_Encode_def)
  have l: "SymlinkError_Size [] [] < 2 ^ 16" by (simp add: SymlinkError_Size_def name_len_empty)
  have e: "ErrorResponse_Size (Some (OtherErrorData (SmallBufferError_Encode 100))) < 2 ^ 32" unfolding s by simp
  show ?thesis using error_data_is_lost[OF e l, of "[]" 0 0] unfolding s by simp
qed

end
