(* ===== verification/ClientInfo.thy ===== *)
theory ClientInfo
  imports ClientRequest
begin

section \<open>Information classes as a client sends and reads them\<close>

text \<open>
  \<^verbatim>\<open>smb/internal/smb2/fscc.go\<close>: the decoders of what a query, a listing or a control code returns, and the
  encoders of what a client sets.  The server has encoders and decoders of its own (\<open>Info\<close>).  A signed number
  is kept as its word; a time and the part of a larger structure are slices.
\<close>

subsection \<open>What a client sets\<close>

definition FileRenameInformationType2Encoder_Size :: "string \<Rightarrow> nat" where
  "FileRenameInformationType2Encoder_Size name = 20 + name_len name"

definition FileRenameInformationType2Encoder_Encode :: "byte \<Rightarrow> u64 \<Rightarrow> string \<Rightarrow> fields" where
  "FileRenameInformationType2Encoder_Encode replace root name =
     name_field 20 name @ [(0, [replace]), (8, le64 root), (16, le32 (of_nat (length (name_bytes name))))]"

definition FileLinkInformationType2Encoder_Size :: "string \<Rightarrow> nat" where
  "FileLinkInformationType2Encoder_Size name = 20 + name_len name"

definition FileLinkInformationType2Encoder_Encode :: "byte \<Rightarrow> u64 \<Rightarrow> string \<Rightarrow> fields" where
  "FileLinkInformationType2Encoder_Encode replace root name =
     name_field 20 name @ [(0, [replace]), (8, le64 root), (16, le32 (of_nat (length (name_bytes name))))]"

definition FileDispositionInformationEncoder_Encode :: "byte \<Rightarrow> fields" where
  "FileDispositionInformationEncoder_Encode pending = [(0, [pending])]"

definition FilePositionInformationEncoder_Encode :: "u64 \<Rightarrow> fields" where
  "FilePositionInformationEncoder_Encode off = [(0, le64 off)]"

definition FileEndOfFileInformationEncoder_Encode :: "u64 \<Rightarrow> fields" where
  "FileEndOfFileInformationEncoder_Encode eof = [(0, le64 eof)]"

text \<open>A time that is not given is left as it is in the buffer.\<close>

definition FileBasicInformationEncoder_Encode ::
  "Filetime option \<Rightarrow> Filetime option \<Rightarrow> Filetime option \<Rightarrow> Filetime option \<Rightarrow> u32 \<Rightarrow> fields" where
  "FileBasicInformationEncoder_Encode ct at wt ht attrs =
     time_field 0 ct @ time_field 8 at @ time_field 16 wt @ time_field 24 ht @ [(32, le32 attrs)]"

text \<open>The sizes of the encoders without a name.\<close>

definition FileDispositionInformationEncoder_Size :: nat where
  "FileDispositionInformationEncoder_Size = 4"

definition FilePositionInformationEncoder_Size :: nat where
  "FilePositionInformationEncoder_Size = 8"

definition FileEndOfFileInformationEncoder_Size :: nat where
  "FileEndOfFileInformationEncoder_Size = 8"

definition FileBasicInformationEncoder_Size :: nat where
  "FileBasicInformationEncoder_Size = 40"

subsection \<open>Copying on the server\<close>

record SrvCopychunk =
  SourceOffset :: u64
  TargetOffset :: u64
  ChunkLength :: u32

definition SrvCopychunk_Size :: nat where
  "SrvCopychunk_Size = 24"

definition SrvCopychunk_Encode :: "SrvCopychunk \<Rightarrow> fields" where
  "SrvCopychunk_Encode x = [(0, le64 (SourceOffset x)), (8, le64 (TargetOffset x)), (16, le32 (ChunkLength x))]"

definition SrvCopychunkCopy_Size :: "SrvCopychunk list \<Rightarrow> nat" where
  "SrvCopychunkCopy_Size chunks = 32 + length chunks * 24"

fun chunks_at :: "nat \<Rightarrow> SrvCopychunk list \<Rightarrow> fields" where
  "chunks_at off [] = []"
| "chunks_at off (x # xs) = shifted off (SrvCopychunk_Encode x) @ chunks_at (off + 24) xs"

definition SrvCopychunkCopy_Encode :: "byte list \<Rightarrow> SrvCopychunk list \<Rightarrow> fields" where
  "SrvCopychunkCopy_Encode key chunks = [(0, key), (24, le32 (of_nat (length chunks)))] @ chunks_at 32 chunks"

subsection \<open>\<^verbatim>\<open>SrvRequestResumeKeyResponseDecoder\<close>\<close>

definition SrvRequestResumeKeyResponseDecoder_ResumeKey :: "slice \<Rightarrow> slice option" where
  "SrvRequestResumeKeyResponseDecoder_ResumeKey r = sl_range 0 24 r"

definition SrvRequestResumeKeyResponseDecoder_ContextLength :: "slice \<Rightarrow> u32 option" where
  "SrvRequestResumeKeyResponseDecoder_ContextLength r = u32_in 24 28 r"

definition SrvRequestResumeKeyResponseDecoder_Context :: "slice \<Rightarrow> slice option" where
  "SrvRequestResumeKeyResponseDecoder_Context r = do { n \<leftarrow> SrvRequestResumeKeyResponseDecoder_ContextLength r; sl_range 28 (unat (28 + n)) r }"

definition SrvRequestResumeKeyResponseDecoder_IsInvalid :: "slice \<Rightarrow> bool option" where
  "SrvRequestResumeKeyResponseDecoder_IsInvalid r = do { n \<leftarrow> SrvRequestResumeKeyResponseDecoder_ContextLength r; Some (len r < unat (28 + n)) }"

subsection \<open>\<^verbatim>\<open>SrvCopychunkResponseDecoder\<close>\<close>

definition SrvCopychunkResponseDecoder_IsInvalid :: "slice \<Rightarrow> bool" where
  "SrvCopychunkResponseDecoder_IsInvalid r \<longleftrightarrow> len r < 12"

definition SrvCopychunkResponseDecoder_ChunksWritten :: "slice \<Rightarrow> u32 option" where
  "SrvCopychunkResponseDecoder_ChunksWritten r = u32_in 0 4 r"

definition SrvCopychunkResponseDecoder_ChunksBytesWritten :: "slice \<Rightarrow> u32 option" where
  "SrvCopychunkResponseDecoder_ChunksBytesWritten r = u32_in 4 8 r"

definition SrvCopychunkResponseDecoder_TotalBytesWritten :: "slice \<Rightarrow> u32 option" where
  "SrvCopychunkResponseDecoder_TotalBytesWritten r = u32_in 8 12 r"

subsection \<open>\<^verbatim>\<open>FileDirectoryInformationDecoder\<close>\<close>

definition FileDirectoryInformationDecoder_NextEntryOffset :: "slice \<Rightarrow> u32 option" where
  "FileDirectoryInformationDecoder_NextEntryOffset r = u32_in 0 4 r"

definition FileDirectoryInformationDecoder_FileIndex :: "slice \<Rightarrow> u32 option" where
  "FileDirectoryInformationDecoder_FileIndex r = u32_in 4 8 r"

definition FileDirectoryInformationDecoder_CreationTime :: "slice \<Rightarrow> slice option" where
  "FileDirectoryInformationDecoder_CreationTime r = sl_range 8 16 r"

definition FileDirectoryInformationDecoder_LastAccessTime :: "slice \<Rightarrow> slice option" where
  "FileDirectoryInformationDecoder_LastAccessTime r = sl_range 16 24 r"

definition FileDirectoryInformationDecoder_LastWriteTime :: "slice \<Rightarrow> slice option" where
  "FileDirectoryInformationDecoder_LastWriteTime r = sl_range 24 32 r"

definition FileDirectoryInformationDecoder_ChangeTime :: "slice \<Rightarrow> slice option" where
  "FileDirectoryInformationDecoder_ChangeTime r = sl_range 32 40 r"

definition FileDirectoryInformationDecoder_EndOfFile :: "slice \<Rightarrow> u64 option" where
  "FileDirectoryInformationDecoder_EndOfFile r = u64_in 40 48 r"

definition FileDirectoryInformationDecoder_AllocationSize :: "slice \<Rightarrow> u64 option" where
  "FileDirectoryInformationDecoder_AllocationSize r = u64_in 48 56 r"

definition FileDirectoryInformationDecoder_FileAttributes :: "slice \<Rightarrow> u32 option" where
  "FileDirectoryInformationDecoder_FileAttributes r = u32_in 56 60 r"

definition FileDirectoryInformationDecoder_FileNameLength :: "slice \<Rightarrow> u32 option" where
  "FileDirectoryInformationDecoder_FileNameLength r = u32_in 60 64 r"

definition FileDirectoryInformationDecoder_FileName :: "slice \<Rightarrow> string option" where
  "FileDirectoryInformationDecoder_FileName r = do {
     n \<leftarrow> FileDirectoryInformationDecoder_FileNameLength r;
     s \<leftarrow> sl_range 64 (unat (64 + n)) r;
     Some (DecodeToString (vis s)) }"

definition FileDirectoryInformationDecoder_IsInvalid :: "slice \<Rightarrow> bool option" where
  "FileDirectoryInformationDecoder_IsInvalid r = do { n \<leftarrow> FileDirectoryInformationDecoder_FileNameLength r; Some (len r < unat (64 + n)) }"

subsection \<open>\<^verbatim>\<open>FileFsFullSizeInformationDecoder\<close>\<close>

definition FileFsFullSizeInformationDecoder_IsInvalid :: "slice \<Rightarrow> bool" where
  "FileFsFullSizeInformationDecoder_IsInvalid r \<longleftrightarrow> len r < 32"

definition FileFsFullSizeInformationDecoder_TotalAllocationUnits :: "slice \<Rightarrow> u64 option" where
  "FileFsFullSizeInformationDecoder_TotalAllocationUnits r = u64_in 0 8 r"

definition FileFsFullSizeInformationDecoder_CallerAvailableAllocationUnits :: "slice \<Rightarrow> u64 option" where
  "FileFsFullSizeInformationDecoder_CallerAvailableAllocationUnits r = u64_in 8 16 r"

definition FileFsFullSizeInformationDecoder_ActualAvailableAllocationUnits :: "slice \<Rightarrow> u64 option" where
  "FileFsFullSizeInformationDecoder_ActualAvailableAllocationUnits r = u64_in 16 24 r"

definition FileFsFullSizeInformationDecoder_SectorsPerAllocationUnit :: "slice \<Rightarrow> u32 option" where
  "FileFsFullSizeInformationDecoder_SectorsPerAllocationUnit r = u32_in 24 28 r"

definition FileFsFullSizeInformationDecoder_BytesPerSector :: "slice \<Rightarrow> u32 option" where
  "FileFsFullSizeInformationDecoder_BytesPerSector r = u32_in 28 32 r"

subsection \<open>\<^verbatim>\<open>FileQuotaInformationDecoder\<close>\<close>

definition FileQuotaInformationDecoder_NextEntryOffset :: "slice \<Rightarrow> u32 option" where
  "FileQuotaInformationDecoder_NextEntryOffset r = u32_in 0 4 r"

definition FileQuotaInformationDecoder_SidLength :: "slice \<Rightarrow> u32 option" where
  "FileQuotaInformationDecoder_SidLength r = u32_in 4 8 r"

definition FileQuotaInformationDecoder_ChangeTime :: "slice \<Rightarrow> slice option" where
  "FileQuotaInformationDecoder_ChangeTime r = sl_range 8 16 r"

definition FileQuotaInformationDecoder_QuotaUsed :: "slice \<Rightarrow> u64 option" where
  "FileQuotaInformationDecoder_QuotaUsed r = u64_in 16 24 r"

definition FileQuotaInformationDecoder_QuotaThreshold :: "slice \<Rightarrow> u64 option" where
  "FileQuotaInformationDecoder_QuotaThreshold r = u64_in 24 32 r"

definition FileQuotaInformationDecoder_QuotaLimit :: "slice \<Rightarrow> u64 option" where
  "FileQuotaInformationDecoder_QuotaLimit r = u64_in 32 40 r"

definition FileQuotaInformationDecoder_Sid :: "slice \<Rightarrow> slice option" where
  "FileQuotaInformationDecoder_Sid r = do { n \<leftarrow> FileQuotaInformationDecoder_SidLength r; sl_range 40 (unat (40 + n)) r }"

definition FileQuotaInformationDecoder_IsInvalid :: "slice \<Rightarrow> bool option" where
  "FileQuotaInformationDecoder_IsInvalid r = do { n \<leftarrow> FileQuotaInformationDecoder_SidLength r; Some (len r < unat (40 + n)) }"

subsection \<open>\<^verbatim>\<open>FileEndOfFileInformationDecoder\<close>\<close>

definition FileEndOfFileInformationDecoder_IsInvalid :: "slice \<Rightarrow> bool" where
  "FileEndOfFileInformationDecoder_IsInvalid r \<longleftrightarrow> len r < 8"

definition FileEndOfFileInformationDecoder_EndOfFile :: "slice \<Rightarrow> u64 option" where
  "FileEndOfFileInformationDecoder_EndOfFile r = u64_in 0 8 r"

subsection \<open>\<^verbatim>\<open>FileAllInformationDecoder\<close>\<close>

definition FileAllInformationDecoder_IsInvalid :: "slice \<Rightarrow> bool" where
  "FileAllInformationDecoder_IsInvalid r \<longleftrightarrow> len r < 96"

definition FileAllInformationDecoder_BasicInformation :: "slice \<Rightarrow> slice option" where
  "FileAllInformationDecoder_BasicInformation r = sl_range 0 40 r"

definition FileAllInformationDecoder_StandardInformation :: "slice \<Rightarrow> slice option" where
  "FileAllInformationDecoder_StandardInformation r = sl_range 40 64 r"

definition FileAllInformationDecoder_InternalInformation :: "slice \<Rightarrow> slice option" where
  "FileAllInformationDecoder_InternalInformation r = sl_range 64 72 r"

definition FileAllInformationDecoder_EaInformation :: "slice \<Rightarrow> slice option" where
  "FileAllInformationDecoder_EaInformation r = sl_range 72 76 r"

definition FileAllInformationDecoder_AccessInformation :: "slice \<Rightarrow> slice option" where
  "FileAllInformationDecoder_AccessInformation r = sl_range 76 80 r"

definition FileAllInformationDecoder_PositionInformation :: "slice \<Rightarrow> slice option" where
  "FileAllInformationDecoder_PositionInformation r = sl_range 80 88 r"

definition FileAllInformationDecoder_ModeInformation :: "slice \<Rightarrow> slice option" where
  "FileAllInformationDecoder_ModeInformation r = sl_range 88 92 r"

definition FileAllInformationDecoder_AlignmentInformation :: "slice \<Rightarrow> slice option" where
  "FileAllInformationDecoder_AlignmentInformation r = sl_range 92 96 r"

definition FileAllInformationDecoder_NameInformation :: "slice \<Rightarrow> slice option" where
  "FileAllInformationDecoder_NameInformation r = sl_from 96 r"

subsection \<open>\<^verbatim>\<open>FileBasicInformationDecoder\<close>\<close>

definition FileBasicInformationDecoder_IsInvalid :: "slice \<Rightarrow> bool" where
  "FileBasicInformationDecoder_IsInvalid r \<longleftrightarrow> len r < 40"

definition FileBasicInformationDecoder_CreationTime :: "slice \<Rightarrow> slice option" where
  "FileBasicInformationDecoder_CreationTime r = sl_range 0 8 r"

definition FileBasicInformationDecoder_LastAccessTime :: "slice \<Rightarrow> slice option" where
  "FileBasicInformationDecoder_LastAccessTime r = sl_range 8 16 r"

definition FileBasicInformationDecoder_LastWriteTime :: "slice \<Rightarrow> slice option" where
  "FileBasicInformationDecoder_LastWriteTime r = sl_range 16 24 r"

definition FileBasicInformationDecoder_ChangeTime :: "slice \<Rightarrow> slice option" where
  "FileBasicInformationDecoder_ChangeTime r = sl_range 24 32 r"

definition FileBasicInformationDecoder_FileAttributes :: "slice \<Rightarrow> u32 option" where
  "FileBasicInformationDecoder_FileAttributes r = u32_in 32 36 r"

subsection \<open>\<^verbatim>\<open>FileStandardInformationDecoder\<close>\<close>

definition FileStandardInformationDecoder_IsInvalid :: "slice \<Rightarrow> bool" where
  "FileStandardInformationDecoder_IsInvalid r \<longleftrightarrow> len r < 24"

definition FileStandardInformationDecoder_AllocationSize :: "slice \<Rightarrow> u64 option" where
  "FileStandardInformationDecoder_AllocationSize r = u64_in 0 8 r"

definition FileStandardInformationDecoder_EndOfFile :: "slice \<Rightarrow> u64 option" where
  "FileStandardInformationDecoder_EndOfFile r = u64_in 8 16 r"

definition FileStandardInformationDecoder_NumberOfLinks :: "slice \<Rightarrow> u32 option" where
  "FileStandardInformationDecoder_NumberOfLinks r = u32_in 16 20 r"

definition FileStandardInformationDecoder_DeletePending :: "slice \<Rightarrow> byte option" where
  "FileStandardInformationDecoder_DeletePending r = sl_at 20 r"

definition FileStandardInformationDecoder_Directory :: "slice \<Rightarrow> byte option" where
  "FileStandardInformationDecoder_Directory r = sl_at 21 r"

subsection \<open>\<^verbatim>\<open>FileInternalInformationDecoder\<close>\<close>

definition FileInternalInformationDecoder_IsInvalid :: "slice \<Rightarrow> bool" where
  "FileInternalInformationDecoder_IsInvalid r \<longleftrightarrow> len r < 8"

definition FileInternalInformationDecoder_IndexNumber :: "slice \<Rightarrow> u64 option" where
  "FileInternalInformationDecoder_IndexNumber r = u64_in 0 8 r"

subsection \<open>\<^verbatim>\<open>FileEaInformationDecoder\<close>\<close>

definition FileEaInformationDecoder_IsInvalid :: "slice \<Rightarrow> bool" where
  "FileEaInformationDecoder_IsInvalid r \<longleftrightarrow> len r < 4"

definition FileEaInformationDecoder_EaSize :: "slice \<Rightarrow> u32 option" where
  "FileEaInformationDecoder_EaSize r = u32_in 0 4 r"

subsection \<open>\<^verbatim>\<open>FileAccessInformationDecoder\<close>\<close>

definition FileAccessInformationDecoder_IsInvalid :: "slice \<Rightarrow> bool" where
  "FileAccessInformationDecoder_IsInvalid r \<longleftrightarrow> len r < 4"

definition FileAccessInformationDecoder_AccessFlags :: "slice \<Rightarrow> u32 option" where
  "FileAccessInformationDecoder_AccessFlags r = u32_in 0 4 r"

subsection \<open>\<^verbatim>\<open>FilePositionInformationDecoder\<close>\<close>

definition FilePositionInformationDecoder_IsInvalid :: "slice \<Rightarrow> bool" where
  "FilePositionInformationDecoder_IsInvalid r \<longleftrightarrow> len r < 8"

definition FilePositionInformationDecoder_CurrentByteOffset :: "slice \<Rightarrow> u64 option" where
  "FilePositionInformationDecoder_CurrentByteOffset r = u64_in 0 8 r"

subsection \<open>\<^verbatim>\<open>FileModeInformationDecoder\<close>\<close>

definition FileModeInformationDecoder_IsInvalid :: "slice \<Rightarrow> bool" where
  "FileModeInformationDecoder_IsInvalid r \<longleftrightarrow> len r < 4"

definition FileModeInformationDecoder_Mode :: "slice \<Rightarrow> u32 option" where
  "FileModeInformationDecoder_Mode r = u32_in 0 4 r"

subsection \<open>\<^verbatim>\<open>FileAlignmentInformationDecoder\<close>\<close>

definition FileAlignmentInformationDecoder_IsInvalid :: "slice \<Rightarrow> bool" where
  "FileAlignmentInformationDecoder_IsInvalid r \<longleftrightarrow> len r < 4"

definition FileAlignmentInformationDecoder_AlignmentRequirement :: "slice \<Rightarrow> u32 option" where
  "FileAlignmentInformationDecoder_AlignmentRequirement r = u32_in 0 4 r"

subsection \<open>\<^verbatim>\<open>FileNameInformationDecoder\<close>\<close>

definition FileNameInformationDecoder_FileNameLength :: "slice \<Rightarrow> u32 option" where
  "FileNameInformationDecoder_FileNameLength r = u32_in 0 4 r"

definition FileNameInformationDecoder_FileName :: "slice \<Rightarrow> string option" where
  "FileNameInformationDecoder_FileName r = do {
     n \<leftarrow> FileNameInformationDecoder_FileNameLength r;
     s \<leftarrow> sl_range 4 (unat (4 + n)) r;
     Some (DecodeToString (vis s)) }"

definition FileNameInformationDecoder_IsInvalid :: "slice \<Rightarrow> bool option" where
  "FileNameInformationDecoder_IsInvalid r =
     (if len r < 4 then Some True
      else do { n \<leftarrow> FileNameInformationDecoder_FileNameLength r; Some (len r < unat (4 + n)) })"



subsection \<open>Bundles\<close>

lemmas info_checks = SrvRequestResumeKeyResponseDecoder_IsInvalid_def SrvCopychunkResponseDecoder_IsInvalid_def
  FileDirectoryInformationDecoder_IsInvalid_def FileFsFullSizeInformationDecoder_IsInvalid_def
  FileQuotaInformationDecoder_IsInvalid_def FileEndOfFileInformationDecoder_IsInvalid_def
  FileAllInformationDecoder_IsInvalid_def FileBasicInformationDecoder_IsInvalid_def
  FileStandardInformationDecoder_IsInvalid_def FileInternalInformationDecoder_IsInvalid_def
  FileEaInformationDecoder_IsInvalid_def FileAccessInformationDecoder_IsInvalid_def
  FilePositionInformationDecoder_IsInvalid_def FileModeInformationDecoder_IsInvalid_def
  FileAlignmentInformationDecoder_IsInvalid_def FileNameInformationDecoder_IsInvalid_def

lemmas info_accessors = SrvRequestResumeKeyResponseDecoder_ResumeKey_def SrvRequestResumeKeyResponseDecoder_ContextLength_def
  SrvRequestResumeKeyResponseDecoder_Context_def SrvCopychunkResponseDecoder_ChunksWritten_def
  SrvCopychunkResponseDecoder_ChunksBytesWritten_def SrvCopychunkResponseDecoder_TotalBytesWritten_def
  FileDirectoryInformationDecoder_NextEntryOffset_def FileDirectoryInformationDecoder_FileIndex_def
  FileDirectoryInformationDecoder_CreationTime_def FileDirectoryInformationDecoder_LastAccessTime_def
  FileDirectoryInformationDecoder_LastWriteTime_def FileDirectoryInformationDecoder_ChangeTime_def
  FileDirectoryInformationDecoder_EndOfFile_def FileDirectoryInformationDecoder_AllocationSize_def
  FileDirectoryInformationDecoder_FileAttributes_def FileDirectoryInformationDecoder_FileNameLength_def
  FileDirectoryInformationDecoder_FileName_def FileFsFullSizeInformationDecoder_TotalAllocationUnits_def
  FileFsFullSizeInformationDecoder_CallerAvailableAllocationUnits_def
  FileFsFullSizeInformationDecoder_ActualAvailableAllocationUnits_def
  FileFsFullSizeInformationDecoder_SectorsPerAllocationUnit_def FileFsFullSizeInformationDecoder_BytesPerSector_def
  FileQuotaInformationDecoder_NextEntryOffset_def FileQuotaInformationDecoder_SidLength_def
  FileQuotaInformationDecoder_ChangeTime_def FileQuotaInformationDecoder_QuotaUsed_def
  FileQuotaInformationDecoder_QuotaThreshold_def FileQuotaInformationDecoder_QuotaLimit_def
  FileQuotaInformationDecoder_Sid_def FileEndOfFileInformationDecoder_EndOfFile_def
  FileAllInformationDecoder_BasicInformation_def FileAllInformationDecoder_StandardInformation_def
  FileAllInformationDecoder_InternalInformation_def FileAllInformationDecoder_EaInformation_def
  FileAllInformationDecoder_AccessInformation_def FileAllInformationDecoder_PositionInformation_def
  FileAllInformationDecoder_ModeInformation_def FileAllInformationDecoder_AlignmentInformation_def
  FileAllInformationDecoder_NameInformation_def FileBasicInformationDecoder_CreationTime_def
  FileBasicInformationDecoder_LastAccessTime_def FileBasicInformationDecoder_LastWriteTime_def
  FileBasicInformationDecoder_ChangeTime_def FileBasicInformationDecoder_FileAttributes_def
  FileStandardInformationDecoder_AllocationSize_def FileStandardInformationDecoder_EndOfFile_def
  FileStandardInformationDecoder_NumberOfLinks_def FileStandardInformationDecoder_DeletePending_def
  FileStandardInformationDecoder_Directory_def FileInternalInformationDecoder_IndexNumber_def
  FileEaInformationDecoder_EaSize_def FileAccessInformationDecoder_AccessFlags_def
  FilePositionInformationDecoder_CurrentByteOffset_def FileModeInformationDecoder_Mode_def
  FileAlignmentInformationDecoder_AlignmentRequirement_def FileNameInformationDecoder_FileNameLength_def
  FileNameInformationDecoder_FileName_def

lemmas info_encoders = FileRenameInformationType2Encoder_Encode_def FileLinkInformationType2Encoder_Encode_def
  FileDispositionInformationEncoder_Encode_def FilePositionInformationEncoder_Encode_def FileEndOfFileInformationEncoder_Encode_def
  FileBasicInformationEncoder_Encode_def SrvCopychunkCopy_Encode_def SrvCopychunk_Encode_def

lemmas info_sizes = FileRenameInformationType2Encoder_Size_def FileLinkInformationType2Encoder_Size_def
  FileDispositionInformationEncoder_Size_def FilePositionInformationEncoder_Size_def FileEndOfFileInformationEncoder_Size_def
  FileBasicInformationEncoder_Size_def SrvCopychunkCopy_Size_def SrvCopychunk_Size_def

end
