(* ===== verification/ClientInfoProps.thy ===== *)
theory ClientInfoProps
  imports ClientInfo ClientRspProps
begin

section \<open>What is set and what is queried arrives\<close>

text \<open>
  The two sides of the information classes: what a client sets with the encoders of \<^verbatim>\<open>fscc.go\<close> is what the
  server reads with the decoders of \<^verbatim>\<open>info_fs.go\<close>, and a listing or an answer to a query that the server
  encodes is what a client reads.
\<close>

subsection \<open>Parts of a slice\<close>

lemma shifted_simps [simp]:
  "shifted k [] = []" "shifted k ((off, bs) # fs) = (k + off, bs) # shifted k fs" "shifted k (fs @ gs) = shifted k fs @ shifted k gs"
  by (simp_all add: shifted_def)

lemma sl_range_split: "sl_range lo hi (Slice (xs @ ys) ex) = sl_range lo hi (Slice xs (ys @ ex))"
  by (simp add: sl_range_def)

lemma reads_split:
  "u16_in lo hi (Slice (xs @ ys) ex) = u16_in lo hi (Slice xs (ys @ ex))"
  "u32_in lo hi (Slice (xs @ ys) ex) = u32_in lo hi (Slice xs (ys @ ex))"
  "u64_in lo hi (Slice (xs @ ys) ex) = u64_in lo hi (Slice xs (ys @ ex))"
  by (simp_all add: u16_in_def u32_in_def u64_in_def sl_range_split)

text \<open>Reading a part of a part is reading the whole at the sum of the offsets.\<close>

lemma range_rest:
  assumes "vis t @ ext t = drop lo (vis s @ ext s)" "lo \<le> capacity s"
  shows "sl_range a b t = sl_range (lo + a) (lo + b) s"
proof -
  have "length (vis t @ ext t) = length (drop lo (vis s @ ext s))" using assms(1) by simp
  then have "capacity t = capacity s - lo" by (simp add: capacity_def)
  then show ?thesis using assms(2) unfolding sl_range_def assms(1) by (auto simp: Let_def add.commute simp del: drop_append)
qed

lemma range_part:
  assumes "sl_range lo hi s = Some t"
  shows "sl_range a b t = sl_range (lo + a) (lo + b) s"
proof (rule range_rest)
  have h: "lo \<le> hi" "hi \<le> capacity s" and t: "t = Slice (take (hi - lo) (drop lo (vis s @ ext s))) (drop hi (vis s @ ext s))"
    using assms by (auto simp: sl_range_def Let_def split: if_splits)
  have "drop hi (vis s @ ext s) = drop (hi - lo) (drop lo (vis s @ ext s))"
    using h(1) by (simp del: drop_append)
  then show "vis t @ ext t = drop lo (vis s @ ext s)" unfolding t by (simp only: slice.sel append_take_drop_id)
  show "lo \<le> capacity s" using h by simp
qed

lemma range_from:
  assumes "sl_from lo s = Some t"
  shows "sl_range a b t = sl_range (lo + a) (lo + b) s"
  by (rule range_rest) (use assms len_le_capacity[of s] in \<open>auto simp: sl_from_def len_def capacity_def split: if_splits\<close>)

lemma reads_part:
  assumes "sl_range lo hi s = Some t"
  shows "u16_in a b t = u16_in (lo + a) (lo + b) s" "u32_in a b t = u32_in (lo + a) (lo + b) s" "u64_in a b t = u64_in (lo + a) (lo + b) s"
  using range_part[OF assms] by (simp_all add: u16_in_def u32_in_def u64_in_def)

lemma byte_part: "sl_range lo hi s = Some t \<Longrightarrow> hi \<le> len s \<Longrightarrow> a < hi - lo \<Longrightarrow> sl_at a t = sl_at (lo + a) s"
proof -
  assume t: "sl_range lo hi s = Some t" and h: "hi \<le> len s" and a: "a < hi - lo"
  have "t = Slice (take (hi - lo) (drop lo (vis s))) (drop hi (vis s) @ ext s)"
    using t h sl_range_in[of lo hi s] by (cases "lo \<le> hi") (auto simp: sl_range_None)
  then show "sl_at a t = sl_at (lo + a) s" using h a by (simp add: sl_at_def len_def)
qed

lemma time_in_fields:
  assumes "fits (length b) fs" "hi = off + 8" "hi \<le> length b" "field_at fs off 4 = Some (le32 (LowDateTime t))"
    "field_at fs (off + 4) 4 = Some (le32 (HighDateTime t))"
  shows "time_read (sl_range off hi (Slice (wrs fs b) ex)) = Some t"
  using assms by (simp add: time_range length_wrs u32_field(1) le_dec_enc_full del: wrs.simps le_dec.simps le_enc.simps)

subsection \<open>What a client sets\<close>

text \<open>The information that the server lets a client set, with the number of its class.\<close>

datatype setting =
    SetBasic "Filetime option" "Filetime option" "Filetime option" "Filetime option" u32
  | SetRename byte u64 string
  | SetDisposition byte
  | SetEndOfFile u64

fun setting_class :: "setting \<Rightarrow> byte" where
  "setting_class (SetBasic ct at wt ht attrs) = 4"
| "setting_class (SetRename replace root name) = 10"
| "setting_class (SetDisposition pending) = 13"
| "setting_class (SetEndOfFile eof) = 20"

fun setting_Size :: "setting \<Rightarrow> nat" where
  "setting_Size (SetBasic ct at wt ht attrs) = FileBasicInformationEncoder_Size"
| "setting_Size (SetRename replace root name) = FileRenameInformationType2Encoder_Size name"
| "setting_Size (SetDisposition pending) = FileDispositionInformationEncoder_Size"
| "setting_Size (SetEndOfFile eof) = FileEndOfFileInformationEncoder_Size"

fun setting_fields :: "setting \<Rightarrow> fields" where
  "setting_fields (SetBasic ct at wt ht attrs) = FileBasicInformationEncoder_Encode ct at wt ht attrs"
| "setting_fields (SetRename replace root name) = FileRenameInformationType2Encoder_Encode replace root name"
| "setting_fields (SetDisposition pending) = FileDispositionInformationEncoder_Encode pending"
| "setting_fields (SetEndOfFile eof) = FileEndOfFileInformationEncoder_Encode eof"

fun setting_ok :: "setting \<Rightarrow> bool" where
  "setting_ok (SetRename replace root name) \<longleftrightarrow> unicode_name name \<and> name_len name < 2 ^ 31"
| "setting_ok s \<longleftrightarrow> True"

text \<open>What the server reads: a time that was not given is the zero time.\<close>

fun setting_read :: "setting \<Rightarrow> slice \<Rightarrow> bool" where
  "setting_read (SetBasic ct at wt ht attrs) b \<longleftrightarrow>
     FileBasicInformation_CreationTime b = Some (time_sent ct) \<and> FileBasicInformation_LastAccessTime b = Some (time_sent at)
     \<and> FileBasicInformation_LastWriteTime b = Some (time_sent wt) \<and> FileBasicInformation_ChangeTime b = Some (time_sent ht)"
| "setting_read (SetRename replace root name) b \<longleftrightarrow>
     FileRenameInformation_ReplaceIfExists b = Some replace \<and> FileRenameInformation_RootDirectory b = Some root
     \<and> FileRenameInformation_FileName b = Some name"
| "setting_read (SetDisposition pending) b \<longleftrightarrow> FileDispositionInformation_DeletePending b = Some pending"
| "setting_read (SetEndOfFile eof) b \<longleftrightarrow> FileEndOfFileInformation_EndOfFile b = Some eof"

lemmas setting_readers = FileBasicInformation_CreationTime_def FileBasicInformation_LastAccessTime_def
  FileBasicInformation_LastWriteTime_def FileBasicInformation_ChangeTime_def FileRenameInformation_ReplaceIfExists_def
  FileRenameInformation_RootDirectory_def FileRenameInformation_FileNameLength_def FileRenameInformation_FileName_def
  FileDispositionInformation_DeletePending_def FileEndOfFileInformation_EndOfFile_def

lemma fits_time_field: "off + 8 \<le> n \<Longrightarrow> fits n (time_field off t)"
  by (simp add: time_field_def split: option.split)

lemma setting_fits: "fits (setting_Size s) (setting_fields s)"
  by (cases s) (simp_all add: info_encoders info_sizes name_field_def fits_time_field)

lemma basic_setting_read: "setting_read (SetBasic ct at wt ht attrs) (Slice (wrs (setting_fields (SetBasic ct at wt ht attrs)) (zeros 40)) ex)"
proof -
  let ?a = "time_field 0 ct" and ?b = "time_field 8 at" and ?c = "time_field 16 wt" and ?d = "time_field 24 ht" and ?e = "[(32, le32 attrs)]"
  have fs: "setting_fields (SetBasic ct at wt ht attrs) = [] @ ?a @ (?b @ ?c @ ?d @ ?e)"
    "setting_fields (SetBasic ct at wt ht attrs) = ?a @ ?b @ (?c @ ?d @ ?e)"
    "setting_fields (SetBasic ct at wt ht attrs) = (?a @ ?b) @ ?c @ (?d @ ?e)"
    "setting_fields (SetBasic ct at wt ht attrs) = (?a @ ?b @ ?c) @ ?d @ ?e"
    by (simp_all add: FileBasicInformationEncoder_Encode_def)
  have f: "fits 40 (setting_fields (SetBasic ct at wt ht attrs))"
    using setting_fits[of "SetBasic ct at wt ht attrs"] by (simp add: info_sizes)
  have "time_read (sl_range 0 8 (Slice (wrs (setting_fields (SetBasic ct at wt ht attrs)) (zeros 40)) ex)) = Some (time_sent ct)"
    unfolding fs(1) by (rule time_field_read) (use f fs(1) in simp_all)
  moreover have "time_read (sl_range 8 16 (Slice (wrs (setting_fields (SetBasic ct at wt ht attrs)) (zeros 40)) ex)) = Some (time_sent at)"
    unfolding fs(2) by (rule time_field_read) (use f fs(2) in simp_all)
  moreover have "time_read (sl_range 16 24 (Slice (wrs (setting_fields (SetBasic ct at wt ht attrs)) (zeros 40)) ex)) = Some (time_sent wt)"
    unfolding fs(3) by (rule time_field_read) (use f fs(3) in simp_all)
  moreover have "time_read (sl_range 24 32 (Slice (wrs (setting_fields (SetBasic ct at wt ht attrs)) (zeros 40)) ex)) = Some (time_sent ht)"
    unfolding fs(4) by (rule time_field_read) (use f fs(4) in simp_all)
  ultimately show ?thesis by (simp add: setting_readers del: setting_fields.simps)
qed

lemma rename_setting_read:
  assumes "setting_ok (SetRename replace root name)"
  shows "setting_read (SetRename replace root name)
    (Slice (wrs (setting_fields (SetRename replace root name)) (zeros (20 + name_len name))) ex)"
proof -
  have n: "unat (20 + of_nat (name_len name) :: u32) = 20 + name_len name"
    using assms unat_plus32[of 20 "name_len name"] by simp
  have d: "DecodeToString (name_bytes name) = name" using assms unicode_name_bytes by simp
  define N where "N = 20 + name_len name"
  let ?fs = "setting_fields (SetRename replace root name)"
  have f: "fits N ?fs" using setting_fits[of "SetRename replace root name"] by (simp add: info_sizes N_def)
  have "sl_range 20 (20 + name_len name) (Slice (wrs ?fs (zeros N)) ex)
      = Some (Slice (name_bytes name) (drop (20 + name_len name) (wrs ?fs (zeros N)) @ ex))"
    using f by (intro data_field) (simp_all add: N_def info_encoders name_field_def name_len_pos)
  then show ?thesis
    using n d f unfolding N_def[symmetric]
    by (simp add: fields_read setting_readers info_encoders name_field_def N_def del: wrs.simps le_dec.simps le_enc.simps)
qed

lemma setting_arrives:
  assumes "setting_ok s"
  shows "setting_read s (Slice (wrs (setting_fields s) (zeros (setting_Size s))) ex)"
proof (cases s)
  case (SetBasic ct at wt ht attrs)
  then show ?thesis using basic_setting_read by (simp add: info_sizes del: setting_fields.simps setting_read.simps)
next
  case (SetRename replace root name)
  then show ?thesis using rename_setting_read assms by (simp add: info_sizes del: setting_fields.simps setting_read.simps)
next
  case (SetDisposition pending)
  then show ?thesis by (simp add: info_sizes info_encoders setting_readers fields_read del: wrs.simps)
next
  case (SetEndOfFile eof)
  then show ?thesis by (simp add: info_sizes info_encoders setting_readers fields_read del: wrs.simps le_dec.simps le_enc.simps)
qed

subsection \<open>Entries of a listing\<close>

text \<open>A client that decodes an entry and follows the offset of the next one.\<close>

definition read_entry :: "slice \<Rightarrow> entry option" where
  "read_entry r = do {
     idx \<leftarrow> FileDirectoryInformationDecoder_FileIndex r;
     ct \<leftarrow> time_read (FileDirectoryInformationDecoder_CreationTime r);
     at \<leftarrow> time_read (FileDirectoryInformationDecoder_LastAccessTime r);
     wt \<leftarrow> time_read (FileDirectoryInformationDecoder_LastWriteTime r);
     ht \<leftarrow> time_read (FileDirectoryInformationDecoder_ChangeTime r);
     eof \<leftarrow> FileDirectoryInformationDecoder_EndOfFile r;
     al \<leftarrow> FileDirectoryInformationDecoder_AllocationSize r;
     attrs \<leftarrow> FileDirectoryInformationDecoder_FileAttributes r;
     name \<leftarrow> FileDirectoryInformationDecoder_FileName r;
     Some \<lparr>e_FileIndex = idx, e_CreationTime = ct, e_LastAccessTime = at, e_LastWriteTime = wt, e_ChangeTime = ht,
       e_EndOfFile = eof, e_AllocationSize = al, e_FileAttributes = attrs, e_FileName = name\<rparr> }"

function read_listing :: "slice \<Rightarrow> entry list option" where
  "read_listing r = do {
     bad \<leftarrow> FileDirectoryInformationDecoder_IsInvalid r;
     (if bad then None
      else do {
        e \<leftarrow> read_entry r;
        n \<leftarrow> FileDirectoryInformationDecoder_NextEntryOffset r;
        (if n = 0 then Some [e]
         else if len r < unat n then None
         else do { es \<leftarrow> read_listing (Slice (drop (unat n) (vis r)) (ext r)); Some (e # es) }) }) }"
  by auto
termination
proof (relation "measure len", goal_cases)
  case (2 r bad e n)
  then have "0 < unat n" by (simp add: unat_gt_0)
  then show ?case using 2 by (simp add: len_def)
qed simp

declare read_listing.simps [simp del]

definition entry_ok :: "entry \<Rightarrow> bool" where
  "entry_ok e \<longleftrightarrow> unicode_name (e_FileName e) \<and> name_len (e_FileName e) < 2 ^ 31"

definition entry_bytes :: "entry \<Rightarrow> nat \<Rightarrow> byte list" where
  "entry_bytes e n = wrs (FileDirectory_Encode e @ [(0, le32 (of_nat n))]) (zeros (FileDirectory_Size e))"

lemmas entry_layout = FileDirectory_Encode_def entry_fields_def ft_field_def name_len_field_def name_field_def

lemma entry_room: "64 + name_len (e_FileName e) \<le> FileDirectory_Size e"
  using Align_8_bounds[of "int (64 + name_len (e_FileName e))"] by (simp add: FileDirectory_Size_def align8_def)

lemma entry_fits: "fits (FileDirectory_Size e) (FileDirectory_Encode e @ [(0, le32 (of_nat n))])"
  using entry_room[of e] by (simp add: entry_layout)

lemma entry_length: "length (entry_bytes e n) = FileDirectory_Size e"
  using entry_fits[of e n] by (simp add: entry_bytes_def length_wrs)

lemma entry_read:
  assumes "entry_ok e"
  shows "read_entry (Slice (entry_bytes e n @ ys) ex) = Some e"
    "FileDirectoryInformationDecoder_NextEntryOffset (Slice (entry_bytes e n @ ys) ex) = Some (of_nat n)"
    "FileDirectoryInformationDecoder_IsInvalid (Slice (entry_bytes e n @ ys) ex) = Some False"
proof -
  define k where "k = name_len (e_FileName e)"
  define fs where "fs = FileDirectory_Encode e @ [(0, le32 (of_nat n))]"
  define N where "N = FileDirectory_Size e"
  define S where "S = Slice (wrs fs (zeros N)) (ys @ ex)"
  have k: "k < 2 ^ 31" "64 + k \<le> N" using assms entry_room[of e] by (simp_all add: entry_ok_def k_def N_def)
  have u: "unat (of_nat k :: u32) = k" "unat (64 + of_nat k :: u32) = 64 + k" using k(1) unat_plus32[of 64 k] unat_len32[of k] by simp_all
  have d: "DecodeToString (name_bytes (e_FileName e)) = e_FileName e" using assms unicode_name_bytes by (simp add: entry_ok_def)
  have f: "fits (length (zeros N)) fs" using entry_fits[of e n] by (simp add: fs_def N_def)
  have at: "field_at fs 0 4 = Some (le32 (of_nat n))" "field_at fs 4 4 = Some (le32 (e_FileIndex e))"
    "field_at fs 40 8 = Some (le64 (e_EndOfFile e))" "field_at fs 48 8 = Some (le64 (e_AllocationSize e))"
    "field_at fs 56 4 = Some (le32 (e_FileAttributes e))" "field_at fs 60 4 = Some (le32 (of_nat k))"
    "k \<noteq> 0 \<Longrightarrow> field_at fs 64 k = Some (name_bytes (e_FileName e))"
    by (simp_all add: fs_def entry_layout k_def)
  have ft: "field_at fs 8 4 = Some (le32 (LowDateTime (e_CreationTime e)))" "field_at fs (8 + 4) 4 = Some (le32 (HighDateTime (e_CreationTime e)))"
    "field_at fs 16 4 = Some (le32 (LowDateTime (e_LastAccessTime e)))" "field_at fs (16 + 4) 4 = Some (le32 (HighDateTime (e_LastAccessTime e)))"
    "field_at fs 24 4 = Some (le32 (LowDateTime (e_LastWriteTime e)))" "field_at fs (24 + 4) 4 = Some (le32 (HighDateTime (e_LastWriteTime e)))"
    "field_at fs 32 4 = Some (le32 (LowDateTime (e_ChangeTime e)))" "field_at fs (32 + 4) 4 = Some (le32 (HighDateTime (e_ChangeTime e)))"
    by (simp_all add: fs_def entry_layout k_def)
  have times: "time_read (sl_range 8 16 S) = Some (e_CreationTime e)" "time_read (sl_range 16 24 S) = Some (e_LastAccessTime e)"
    "time_read (sl_range 24 32 S) = Some (e_LastWriteTime e)" "time_read (sl_range 32 40 S) = Some (e_ChangeTime e)"
    unfolding S_def using f k(2) by (auto intro!: time_in_fields ft)
  have name: "sl_range 64 (64 + k) S = Some (Slice (name_bytes (e_FileName e)) (drop (64 + k) (wrs fs (zeros N)) @ (ys @ ex)))"
    unfolding S_def using f k(2) at(7) by (intro data_field) (simp_all add: k_def name_len_pos)
  have nums: "u32_in 0 4 S = Some (of_nat n)" "u32_in 4 8 S = Some (e_FileIndex e)" "u64_in 40 48 S = Some (e_EndOfFile e)"
    "u64_in 48 56 S = Some (e_AllocationSize e)" "u32_in 56 60 S = Some (e_FileAttributes e)" "u32_in 60 64 S = Some (of_nat k)"
    unfolding S_def using f k(2) at by (simp_all add: fields_read del: wrs.simps le_dec.simps le_enc.simps)
  have r: "sl_range lo hi (Slice (entry_bytes e n @ ys) ex) = sl_range lo hi S" for lo hi
    by (simp add: sl_range_split entry_bytes_def S_def fs_def N_def)
  then have rs: "u32_in lo hi (Slice (entry_bytes e n @ ys) ex) = u32_in lo hi S" "u64_in lo hi (Slice (entry_bytes e n @ ys) ex) = u64_in lo hi S" for lo hi
    by (simp_all add: u32_in_def u64_in_def)
  show "read_entry (Slice (entry_bytes e n @ ys) ex) = Some e"
    by (simp add: read_entry_def info_accessors r rs times name nums u d)
  show "FileDirectoryInformationDecoder_NextEntryOffset (Slice (entry_bytes e n @ ys) ex) = Some (of_nat n)"
    by (simp add: info_accessors rs nums)
  show "FileDirectoryInformationDecoder_IsInvalid (Slice (entry_bytes e n @ ys) ex) = Some False"
    using k(2) by (simp add: info_accessors info_checks rs nums u entry_length flip: N_def)
qed

subsection \<open>A listing\<close>

lemma wr_left: "off + length bs \<le> length xs \<Longrightarrow> wr off bs (xs @ ys) = wr off bs xs @ ys"
  by (simp add: wr_def)

lemma wrs_left: "fits (length xs) fs \<Longrightarrow> wrs fs (xs @ ys) = wrs fs xs @ ys"
  by (induction fs xs rule: wrs.induct) (auto simp: wr_left length_wr)

lemma wrs_right: "wrs (shifted (length xs) fs) (xs @ ys) = xs @ wrs fs ys"
  by (induction fs ys rule: wrs.induct) (simp_all add: wr_def)

lemma items_shifted: "items_Encode (k + off) xs = shifted k (items_Encode off xs)"
proof (induction xs arbitrary: off)
  case (Cons i xs)
  have "shifted (k + off) fs = shifted k (shifted off fs)" for fs by (induction fs) auto
  then show ?case using Cons[of "off + item_Size i"] by (simp add: add.assoc)
qed simp

definition dir_bytes :: "entry list \<Rightarrow> byte list" where
  "dir_bytes es = wrs (items_Encode 0 (map FileDirectoryInformationInfo es)) (zeros (items_Size (map FileDirectoryInformationInfo es)))"

lemma zeros_add: "zeros (m + n) = zeros m @ zeros n"
  by (simp add: zeros_def replicate_add)

lemma shifted_0: "shifted 0 fs = fs"
  by (induction fs) auto

lemma dir_bytes_simps:
  "dir_bytes [] = []"
  "dir_bytes (e # es) = entry_bytes e (if es = [] then 0 else FileDirectory_Size e) @ dir_bytes es"
proof -
  show "dir_bytes [] = []" by (simp add: dir_bytes_def items_Size_def)
  let ?is = "map FileDirectoryInformationInfo es" and ?n = "if es = [] then 0 else FileDirectory_Size e"
  let ?X = "zeros (FileDirectory_Size e)" and ?Y = "zeros (items_Size (map FileDirectoryInformationInfo es))"
  let ?fs = "FileDirectory_Encode e @ [(0, le32 (of_nat ?n))]"
  have s: "items_Encode (FileDirectory_Size e) ?is = shifted (length (entry_bytes e ?n)) (items_Encode 0 ?is)"
    using items_shifted[of "FileDirectory_Size e" 0 ?is] by (simp add: entry_length)
  have "dir_bytes (e # es) = wrs (?fs @ items_Encode (FileDirectory_Size e) ?is) (?X @ ?Y)"
    by (simp add: dir_bytes_def items_Size_def zeros_add shifted_0 wrs_append del: wrs.simps le_enc.simps)
  also have "\<dots> = wrs (shifted (length (entry_bytes e ?n)) (items_Encode 0 ?is)) (entry_bytes e ?n @ ?Y)"
    unfolding s wrs_append using wrs_left[of ?X ?fs ?Y] entry_fits[of e ?n] by (simp add: entry_bytes_def wrs_append)
  also have "\<dots> = entry_bytes e ?n @ dir_bytes es" unfolding dir_bytes_def by (rule wrs_right)
  finally show "dir_bytes (e # es) = entry_bytes e ?n @ dir_bytes es" .
qed

lemma entry_size_small: "entry_ok e \<Longrightarrow> FileDirectory_Size e < 2 ^ 32"
  using Align_8_bounds[of "int (64 + name_len (e_FileName e))"] by (simp add: FileDirectory_Size_def align8_def entry_ok_def nat_less_iff)

lemma listing_read:
  "es \<noteq> [] \<Longrightarrow> list_all entry_ok es \<Longrightarrow> read_listing (Slice (dir_bytes es) ex) = Some es"
proof (induction es)
  case (Cons e es)
  let ?n = "if es = [] then 0 else FileDirectory_Size e"
  have ok: "entry_ok e" and n: "unat (of_nat (FileDirectory_Size e) :: u32) = FileDirectory_Size e" "0 < FileDirectory_Size e"
    using Cons.prems entry_size_small[of e] unat_len32[of "FileDirectory_Size e"] entry_room[of e] by simp_all
  have nz: "(of_nat (FileDirectory_Size e) :: u32) \<noteq> 0" using n by (metis unat_0 not_less_zero)
  define S where "S = Slice (dir_bytes (e # es)) ex"
  have l: "len S = FileDirectory_Size e + length (dir_bytes es)" by (simp add: S_def dir_bytes_simps entry_length)
  have r: "Slice (drop (FileDirectory_Size e) (vis S)) (ext S) = Slice (dir_bytes es) ex"
    by (simp add: S_def dir_bytes_simps entry_length)
  have reads: "read_entry S = Some e" "FileDirectoryInformationDecoder_NextEntryOffset S = Some (of_nat ?n)"
    "FileDirectoryInformationDecoder_IsInvalid S = Some False"
    unfolding S_def dir_bytes_simps(2) by (rule entry_read[OF ok])+
  have "read_listing S = Some (e # es)"
    using Cons n(1) nz by (cases "es = []") (simp_all add: read_listing.simps[of S] reads l r)
  then show ?case unfolding S_def .
qed simp

lemma items_fit: "fits (off + items_Size (map FileDirectoryInformationInfo es)) (items_Encode off (map FileDirectoryInformationInfo es))"
proof (induction es arbitrary: off)
  case (Cons e es)
  have "fits (k + n) (shifted k fs)" if "fits n fs" for k n fs
    using that by (induction fs) auto
  then have "fits (off + FileDirectory_Size e) (shifted off (FileDirectory_Encode e))" using entry_fits[of e 0] by simp
  then have "fits (off + (FileDirectory_Size e + items_Size (map FileDirectoryInformationInfo es))) (shifted off (FileDirectory_Encode e))"
    by (rule fits_mono) simp
  then show ?case using Cons[of "off + FileDirectory_Size e"] entry_room[of e] by (simp add: items_Size_def add.assoc)
qed simp

lemma listing_bytes:
  "listing_Encode (map FileDirectoryInformationInfo es) = Some (dir_bytes es)"
  "length (dir_bytes es) = items_Size (map FileDirectoryInformationInfo es)"
  using items_fit[of 0 es] by (simp_all add: listing_Encode_def dir_bytes_def puts_wrs length_wrs)

subsection \<open>Answers to a query\<close>

definition basic_read :: "Filetime \<Rightarrow> Filetime \<Rightarrow> Filetime \<Rightarrow> Filetime \<Rightarrow> u32 \<Rightarrow> slice \<Rightarrow> bool" where
  "basic_read ct at wt ht attrs b \<longleftrightarrow> \<not> FileBasicInformationDecoder_IsInvalid b
     \<and> time_read (FileBasicInformationDecoder_CreationTime b) = Some ct \<and> time_read (FileBasicInformationDecoder_LastAccessTime b) = Some at
     \<and> time_read (FileBasicInformationDecoder_LastWriteTime b) = Some wt \<and> time_read (FileBasicInformationDecoder_ChangeTime b) = Some ht
     \<and> FileBasicInformationDecoder_FileAttributes b = Some attrs"

definition standard_read :: "u64 \<Rightarrow> u64 \<Rightarrow> u32 \<Rightarrow> byte \<Rightarrow> byte \<Rightarrow> slice \<Rightarrow> bool" where
  "standard_read al eof links del dir b \<longleftrightarrow> \<not> FileStandardInformationDecoder_IsInvalid b
     \<and> FileStandardInformationDecoder_AllocationSize b = Some al \<and> FileStandardInformationDecoder_EndOfFile b = Some eof
     \<and> FileStandardInformationDecoder_NumberOfLinks b = Some links \<and> FileStandardInformationDecoder_DeletePending b = Some del
     \<and> FileStandardInformationDecoder_Directory b = Some dir"

definition name_read :: "string \<Rightarrow> slice \<Rightarrow> bool" where
  "name_read s b \<longleftrightarrow> FileNameInformationDecoder_IsInvalid b = Some False \<and> FileNameInformationDecoder_FileName b = Some s"

text \<open>
  What a client reads from an answer.  The space of a volume that is left is stored two bytes too far
  (\<open>FsFullSize_Encode\<close>), so the client reads 65536 times the number.
\<close>

fun info_read :: "info \<Rightarrow> slice \<Rightarrow> bool" where
  "info_read (FileAllInformationInfo i) b \<longleftrightarrow> \<not> FileAllInformationDecoder_IsInvalid b
     \<and> (\<exists>t. FileAllInformationDecoder_BasicInformation b = Some t
         \<and> basic_read (ai_CreationTime i) (ai_LastAccessTime i) (ai_LastWriteTime i) (ai_ChangeTime i) (ai_FileAttributes i) t)
     \<and> (\<exists>t. FileAllInformationDecoder_StandardInformation b = Some t
         \<and> standard_read (ai_AllocationSize i) (ai_EndOfFile i) (ai_NumberOfLinks i) (ai_DeletePending i) (ai_Directory i) t)
     \<and> (\<exists>t. FileAllInformationDecoder_InternalInformation b = Some t \<and> FileInternalInformationDecoder_IndexNumber t = Some (ai_IndexNumber i))
     \<and> (\<exists>t. FileAllInformationDecoder_EaInformation b = Some t \<and> FileEaInformationDecoder_EaSize t = Some (ai_EaSize i))
     \<and> (\<exists>t. FileAllInformationDecoder_AccessInformation b = Some t \<and> FileAccessInformationDecoder_AccessFlags t = Some (ai_AccessFlags i))
     \<and> (\<exists>t. FileAllInformationDecoder_PositionInformation b = Some t
         \<and> FilePositionInformationDecoder_CurrentByteOffset t = Some (ai_CurrentByteOffset i))
     \<and> (\<exists>t. FileAllInformationDecoder_ModeInformation b = Some t \<and> FileModeInformationDecoder_Mode t = Some (ai_Mode i))
     \<and> (\<exists>t. FileAllInformationDecoder_AlignmentInformation b = Some t
         \<and> FileAlignmentInformationDecoder_AlignmentRequirement t = Some (ai_AlignmentRequirement i))
     \<and> (\<exists>t. FileAllInformationDecoder_NameInformation b = Some t \<and> name_read (ai_FileName i) t)"
| "info_read (FileBasicInformationInfo ct at wt ht attrs) b \<longleftrightarrow> basic_read ct at wt ht attrs b"
| "info_read (FileStandardInformationInfo al eof links del dir) b \<longleftrightarrow> standard_read al eof links del dir b"
| "info_read (FileEaInformationInfo n) b \<longleftrightarrow> \<not> FileEaInformationDecoder_IsInvalid b \<and> FileEaInformationDecoder_EaSize b = Some n"
| "info_read (FileInternalInformationInfo n) b \<longleftrightarrow>
     \<not> FileInternalInformationDecoder_IsInvalid b \<and> FileInternalInformationDecoder_IndexNumber b = Some n"
| "info_read (FileNormalizedNameInformationInfo s) b \<longleftrightarrow> name_read s b"
| "info_read (FileFsFullSizeInformationInfo tot caller actual spau bps) b \<longleftrightarrow> \<not> FileFsFullSizeInformationDecoder_IsInvalid b
     \<and> FileFsFullSizeInformationDecoder_TotalAllocationUnits b = Some tot
     \<and> FileFsFullSizeInformationDecoder_CallerAvailableAllocationUnits b = Some caller
     \<and> FileFsFullSizeInformationDecoder_ActualAvailableAllocationUnits b = Some (65536 * actual)
     \<and> FileFsFullSizeInformationDecoder_SectorsPerAllocationUnit b = Some spau
     \<and> FileFsFullSizeInformationDecoder_BytesPerSector b = Some bps"
| "info_read i b \<longleftrightarrow> False"

text \<open>The answers that the client has a decoder for, with names that can be sent.\<close>

fun info_ok :: "info \<Rightarrow> bool" where
  "info_ok (FileAllInformationInfo i) \<longleftrightarrow> unicode_name (ai_FileName i) \<and> name_len (ai_FileName i) < 2 ^ 31"
| "info_ok (FileNormalizedNameInformationInfo s) \<longleftrightarrow> unicode_name s \<and> name_len s < 2 ^ 31"
| "info_ok (FileBasicInformationInfo ct at wt ht attrs) \<longleftrightarrow> True"
| "info_ok (FileStandardInformationInfo al eof links del dir) \<longleftrightarrow> True"
| "info_ok (FileEaInformationInfo n) \<longleftrightarrow> True"
| "info_ok (FileInternalInformationInfo n) \<longleftrightarrow> True"
| "info_ok (FileFsFullSizeInformationInfo tot caller actual spau bps) \<longleftrightarrow> True"
| "info_ok i \<longleftrightarrow> False"

lemmas info_layout = FileAll_Encode_def FileBasic_Encode_def FileStandard_Encode_def FileName_Encode_def FileAll_Size_def
  FileName_Size_def FsFullSize_Encode_def ft_field_def name_len_field_def name_field_def

lemma info_fits: "info_ok i \<Longrightarrow> fits (info_Size i) (info_fields i)"
  by (cases i) (simp_all add: info_layout)

text \<open>The name of a file, read at an offset of a larger structure.\<close>

lemma name_part_read:
  assumes "fits N fs" "field_at fs lo 4 = Some (le32 (of_nat (name_len s)))"
    "name_bytes s \<noteq> [] \<Longrightarrow> field_at fs (lo + 4) (name_len s) = Some (name_bytes s)" "lo + 4 + name_len s = N"
    "unicode_name s" "name_len s < 2 ^ 31" "sl_from lo (Slice (wrs fs (zeros N)) ex) = Some t"
  shows "name_read s t"
proof -
  let ?S = "Slice (wrs fs (zeros N)) ex"
  have n: "unat (of_nat (name_len s) :: u32) = name_len s" "unat (4 + of_nat (name_len s) :: u32) = 4 + name_len s"
    using assms(6) unat_plus32[of 4 "name_len s"] unat_len32[of "name_len s"] by simp_all
  have l: "len t = 4 + name_len s" using assms(1,4,7) by (auto simp: sl_from_def length_wrs len_def split: if_splits)
  have r: "sl_range a b t = sl_range (lo + a) (lo + b) ?S" for a b by (rule range_from[OF assms(7)])
  have "u32_in lo (lo + 4) ?S = Some (of_nat (name_len s))"
    using assms(1,2,4) by (simp add: fields_read del: wrs.simps le_dec.simps le_enc.simps)
  then have k: "u32_in 0 4 t = Some (of_nat (name_len s))" by (simp add: u32_in_def r)
  have "sl_range (lo + 4) (lo + 4 + name_len s) ?S = Some (Slice (name_bytes s) (drop (lo + 4 + name_len s) (wrs fs (zeros N)) @ ex))"
    using assms(1,3,4) by (intro data_field) simp_all
  then have "sl_range 4 (4 + name_len s) t = Some (Slice (name_bytes s) (drop (lo + 4 + name_len s) (wrs fs (zeros N)) @ ex))"
    by (simp add: r add.assoc)
  then show ?thesis using k n l unicode_name_bytes[OF assms(5)] by (simp add: name_read_def info_accessors info_checks)
qed

lemma basic_part_read:
  assumes "fits N fs" "40 \<le> N" "sl_range 0 40 (Slice (wrs fs (zeros N)) ex) = Some t \<or> N = 40 \<and> t = Slice (wrs fs (zeros N)) ex"
    "\<And>off ft. (off, ft) \<in> {(0, ct), (8, at), (16, wt), (24, ht)}
       \<Longrightarrow> field_at fs off 4 = Some (le32 (LowDateTime ft)) \<and> field_at fs (off + 4) 4 = Some (le32 (HighDateTime ft))"
    "field_at fs 32 4 = Some (le32 attrs)"
  shows "basic_read ct at wt ht attrs t"
proof -
  let ?S = "Slice (wrs fs (zeros N)) ex"
  have r: "sl_range a b t = sl_range a b ?S" for a b using assms(3) range_part[of 0 40 ?S t a b] by auto
  have l: "len t = 40" using assms(1,3) len_sl_range[of 0 40 ?S t] by (auto simp: length_wrs)
  have "time_read (sl_range off (off + 8) ?S) = Some ft" if "(off, ft) \<in> {(0, ct), (8, at), (16, wt), (24, ht)}" for off ft
    by (rule time_in_fields) (use that assms(1,2) assms(4)[OF that] in auto)
  from this[of 0 ct] this[of 8 at] this[of 16 wt] this[of 24 ht]
  have "time_read (sl_range 0 8 ?S) = Some ct" "time_read (sl_range 8 16 ?S) = Some at"
    "time_read (sl_range 16 24 ?S) = Some wt" "time_read (sl_range 24 32 ?S) = Some ht" by simp_all
  moreover have "u32_in 32 36 ?S = Some attrs" using assms(1,2,5) by (simp add: fields_read del: wrs.simps le_dec.simps le_enc.simps)
  ultimately show ?thesis using l by (simp add: basic_read_def info_accessors info_checks r u32_in_def)
qed

lemma all_read:
  assumes "info_ok (FileAllInformationInfo i)"
  shows "info_read (FileAllInformationInfo i) (Slice (wrs (FileAll_Encode i) (zeros (FileAll_Size i))) ex)"
proof -
  define k where "k = name_len (ai_FileName i)"
  define fs where "fs = FileAll_Encode i"
  define S where "S = Slice (wrs fs (zeros (100 + k))) ex"
  have N: "FileAll_Size i = 100 + k" by (simp add: FileAll_Size_def FileName_Size_def k_def)
  have f: "fits (100 + k) fs" using info_fits[OF assms] by (simp add: N fs_def)
  have l: "len S = 100 + k" using f by (simp add: S_def length_wrs)
  have fb: "fits (length (zeros (100 + k))) fs" using f by simp
  have part: "\<exists>t. sl_range lo hi S = Some t" if "lo \<le> hi" "hi \<le> 96" for lo hi using that l by (simp add: sl_range_in)
  obtain t8 where t8: "sl_from 96 S = Some t8" using l by (simp add: sl_from_in)
  obtain t0 t1 where t01: "sl_range 0 40 S = Some t0" "sl_range 40 64 S = Some t1" using part[of 0 40] part[of 40 64] by auto
  obtain t2 t3 t4 where t2: "sl_range 64 72 S = Some t2" and t3: "sl_range 72 76 S = Some t3" and t4: "sl_range 76 80 S = Some t4"
    using part[of 64 72] part[of 72 76] part[of 76 80] by auto
  obtain t5 t6 t7 where t5: "sl_range 80 88 S = Some t5" and t6: "sl_range 88 92 S = Some t6" and t7: "sl_range 92 96 S = Some t7"
    using part[of 80 88] part[of 88 92] part[of 92 96] by auto
  have n: "name_read (ai_FileName i) t" if "sl_from 96 S = Some t" for t
    using that assms unfolding S_def
    by (intro name_part_read[OF f]) (auto simp: fs_def info_layout k_def name_len_pos)
  have ft: "field_at fs 0 4 = Some (le32 (LowDateTime (ai_CreationTime i)))" "field_at fs (0 + 4) 4 = Some (le32 (HighDateTime (ai_CreationTime i)))"
    "field_at fs 8 4 = Some (le32 (LowDateTime (ai_LastAccessTime i)))" "field_at fs (8 + 4) 4 = Some (le32 (HighDateTime (ai_LastAccessTime i)))"
    "field_at fs 16 4 = Some (le32 (LowDateTime (ai_LastWriteTime i)))" "field_at fs (16 + 4) 4 = Some (le32 (HighDateTime (ai_LastWriteTime i)))"
    "field_at fs 24 4 = Some (le32 (LowDateTime (ai_ChangeTime i)))" "field_at fs (24 + 4) 4 = Some (le32 (HighDateTime (ai_ChangeTime i)))"
    by (simp_all add: fs_def info_layout del: le_enc.simps)
  have at32: "field_at fs 32 4 = Some (le32 (ai_FileAttributes i))" by (simp add: fs_def info_layout del: le_enc.simps)
  have b: "basic_read (ai_CreationTime i) (ai_LastAccessTime i) (ai_LastWriteTime i) (ai_ChangeTime i) (ai_FileAttributes i) t"
    if "sl_range 0 40 S = Some t" for t
    using that ft at32 unfolding S_def by (intro basic_part_read[OF f]) auto
  have s: "standard_read (ai_AllocationSize i) (ai_EndOfFile i) (ai_NumberOfLinks i) (ai_DeletePending i) (ai_Directory i) t"
    if t: "sl_range 40 64 S = Some t" for t
  proof -
    have "u64_in 40 48 S = Some (ai_AllocationSize i)" "u64_in 48 56 S = Some (ai_EndOfFile i)" "u32_in 56 60 S = Some (ai_NumberOfLinks i)"
      "sl_at 60 S = Some (ai_DeletePending i)" "sl_at 61 S = Some (ai_Directory i)"
      unfolding S_def using f by (simp_all add: fields_read fs_def info_layout del: wrs.simps le_dec.simps le_enc.simps)
    then show ?thesis
      using reads_part[OF t] byte_part[OF t] len_sl_range[OF t] l by (simp add: standard_read_def info_accessors info_checks)
  qed
  have nums: "u64_in 64 72 S = Some (ai_IndexNumber i)" "u32_in 72 76 S = Some (ai_EaSize i)" "u32_in 76 80 S = Some (ai_AccessFlags i)"
    "u64_in 80 88 S = Some (ai_CurrentByteOffset i)" "u32_in 88 92 S = Some (ai_Mode i)" "u32_in 92 96 S = Some (ai_AlignmentRequirement i)"
    unfolding S_def using f by (simp_all add: fields_read fs_def info_layout del: wrs.simps le_dec.simps le_enc.simps)
  show ?thesis
    unfolding N fs_def[symmetric] S_def[symmetric]
    using l b[OF t01(1)] s[OF t01(2)] n[OF t8]
    by (simp add: info_accessors info_checks t01 t2 t3 t4 t5 t6 t7 t8 reads_part[OF t2] reads_part[OF t3] reads_part[OF t4]
        reads_part[OF t5] reads_part[OF t6] reads_part[OF t7] nums)
qed

text \<open>Six bytes of a number, stored two bytes too far.\<close>

lemma le_dec_shift: "le_dec (zeros 2 @ rd 0 6 (le64 x)) = 65536 * (x :: u64)"
proof -
  have "(le_dec (zeros 2 @ rd 0 6 (le64 x)) :: u64) = push_bit 16 (le_dec (le_enc 6 x))"
    by (simp add: le_dec_append rd_def take_le_enc del: le_enc.simps)
  also have "\<dots> = push_bit 16 x"
    by (rule bit_word_eqI) (auto simp: bit_push_bit_iff bit_le_dec_enc)
  finally show ?thesis by (simp add: push_bit_eq_mult)
qed

lemma space_left_read:
  "FileFsFullSizeInformationDecoder_ActualAvailableAllocationUnits
     (Slice (wrs (FsFullSize_Encode tot caller actual spau bps) (zeros 32)) ex) = Some (65536 * actual)"
proof -
  let ?tail = "[(24, le32 spau), (28, le32 bps)]" and ?b = "wr 8 (le64 caller) (wr 0 (le64 tot) (zeros 32))"
  define b where "b = wr 18 (le64 actual) ?b"
  have l: "length ?b = 32" "length b = 32" by (simp_all add: b_def length_wr)
  have w: "wrs (FsFullSize_Encode tot caller actual spau bps) (zeros 32) = wrs ?tail b"
    by (simp add: FsFullSize_Encode_def b_def del: le_enc.simps)
  have "rd 16 8 (wrs ?tail b) = rd 16 8 b" using l by (intro rd_wrs_apart) simp_all
  also have "\<dots> = rd 16 2 b @ rd 18 6 b" using rd_split[of 2 8 16 b] by simp
  also have "rd 16 2 b = zeros 2" using l by (simp add: b_def rd_wr_before rd_wr_after length_wr rd_zeros del: le_enc.simps)
  also have "rd 18 6 b = rd 0 6 (le64 actual)" using l by (simp add: b_def rd_wr_inside del: le_enc.simps)
  finally have "rd 16 8 (wrs ?tail b) = zeros 2 @ rd 0 6 (le64 actual)" .
  moreover have "len (Slice (wrs ?tail b) ex) = 32" using l by (simp add: length_wr)
  ultimately show ?thesis
    using le_dec_shift[of actual] unfolding w by (simp add: info_accessors u64_in_in flip: rd_def del: wrs.simps)
qed

lemma info_arrives:
  assumes "info_ok i"
  shows "info_read i (Slice (wrs (info_fields i) (zeros (info_Size i))) ex)"
proof (cases i)
  case (FileAllInformationInfo x)
  then show ?thesis using all_read[of x ex] assms by (simp del: info_read.simps)
next
  case (FileBasicInformationInfo ct at wt ht attrs)
  have "basic_read ct at wt ht attrs (Slice (wrs (FileBasic_Encode ct at wt ht attrs) (zeros 40)) ex)"
    using assms info_fits[of i] unfolding FileBasicInformationInfo
    by (intro basic_part_read[of 40]) (auto simp: info_layout simp del: le_enc.simps wrs.simps)
  then show ?thesis unfolding FileBasicInformationInfo by simp
next
  case (FileNormalizedNameInformationInfo s)
  have f: "fits (FileName_Size s) (FileName_Encode s)" using info_fits[OF assms] unfolding FileNormalizedNameInformationInfo by simp
  have "name_read s (Slice (wrs (FileName_Encode s) (zeros (FileName_Size s))) ex)"
    using assms unfolding FileNormalizedNameInformationInfo
    by (intro name_part_read[OF f, of 0]) (auto simp: info_layout name_len_pos sl_from_def simp del: le_enc.simps)
  then show ?thesis unfolding FileNormalizedNameInformationInfo by simp
next
  case (FileFsFullSizeInformationInfo tot caller actual spau bps)
  have "fits 32 (FsFullSize_Encode tot caller actual spau bps)" by (simp add: FsFullSize_Encode_def)
  moreover have "field_at (FsFullSize_Encode tot caller actual spau bps) 0 8 = Some (le64 tot)"
    "field_at (FsFullSize_Encode tot caller actual spau bps) 8 8 = Some (le64 caller)"
    "field_at (FsFullSize_Encode tot caller actual spau bps) 24 4 = Some (le32 spau)"
    "field_at (FsFullSize_Encode tot caller actual spau bps) 28 4 = Some (le32 bps)"
    by (simp_all add: FsFullSize_Encode_def del: le_enc.simps)
  ultimately show ?thesis
    unfolding FileFsFullSizeInformationInfo using space_left_read[of tot caller actual spau bps ex]
    by (simp add: info_accessors info_checks fields_read del: wrs.simps le_dec.simps le_enc.simps)
qed (use assms in \<open>simp_all add: info_layout info_accessors info_checks standard_read_def fields_read del: wrs.simps le_dec.simps le_enc.simps\<close>)

subsection \<open>Properties\<close>

text \<open>
  C14. What a client sets reaches the server.  The times, the name, the end of the file and the mark for
  deletion that the client of the package encodes for SET_INFO fill their buffer; the request is accepted
  by the server, names the class, and its buffer, read with the decoders of the server, gives back what the
  client meant (a time that was not given is the zero time).
\<close>

theorem settings_reach_server:
  assumes "setting_ok s" "length fid = 16" "Flags hdr AND SMB2_FLAGS_SERVER_TO_REDIR = 0"
  shows "\<exists>bs pkt body buf. puts (setting_fields s) (zeros (setting_Size s)) = Some bs
    \<and> req_Encode hdr (SetInfoRequest 1 (setting_class s) 0 fid (Some bs)) (zeros (96 + length bs)) = Some pkt
    \<and> accept SMB2_SET_INFO (Slice pkt ex) = Some (body, None) \<and> SetInfoRequest_IsInvalid body = Some False
    \<and> SetInfoRequest_InfoType body = Some 1 \<and> SetInfoRequest_FileInfoClass body = Some (setting_class s)
    \<and> SetInfoRequest_Buffer body = Some buf \<and> setting_read s buf"
proof -
  define bs where "bs = wrs (setting_fields s) (zeros (setting_Size s))"
  let ?r = "SetInfoRequest 1 (setting_class s) 0 fid (Some bs)"
  have l: "length bs = setting_Size s" using setting_fits[of s] by (simp add: bs_def length_wrs)
  have "0 < setting_Size s \<and> setting_Size s < 2 ^ 31 + 40" using assms(1) by (cases s) (simp_all add: info_sizes)
  then have size: "req_Size ?r = 96 + length bs" "request_ok ?r" using assms(2) l by (auto simp: SetInfoRequest_Size_def input_size_def)
  obtain pkt where p: "req_Encode hdr ?r (zeros (96 + length bs)) = Some pkt"
      "accept SMB2_SET_INFO (Slice pkt ex) = Some (Slice (wrs (req_fields ?r) (zeros (req_Size ?r - 64))) ex, None)"
    using request_arrives[OF size(2) assms(3), of ex] size(1) by auto
  have u: "understood ?r (Slice (wrs (req_fields ?r) (zeros (req_Size ?r - 64))) ex)" by (rule body_understood[OF size(2)])
  then obtain buf where b: "SetInfoRequest_Buffer (Slice (wrs (req_fields ?r) (zeros (req_Size ?r - 64))) ex) = Some buf" "vis buf = bs"
    by auto
  then have "setting_read s buf" using setting_arrives[OF assms(1), of "ext buf"] by (cases buf) (simp add: bs_def)
  then show ?thesis
    using p u b(1) setting_fits[of s] puts_wrs[of "zeros (setting_Size s)" "setting_fields s"]
    unfolding bs_def[symmetric] by (intro exI[of _ bs] exI[of _ pkt]) auto
qed

text \<open>Renaming a file.\<close>

lemma settings_reach_server_witness:
  "\<exists>pkt body buf. accept SMB2_SET_INFO (Slice pkt []) = Some (body, None) \<and> SetInfoRequest_FileInfoClass body = Some 10
     \<and> SetInfoRequest_Buffer body = Some buf \<and> FileRenameInformation_FileName buf = Some (string_of_runes [98, 92, 99])"
proof -
  have "unicode_name (string_of_runes [98, 92, 99])" by (auto simp: unicode_name_def scalar_def intro!: exI[of _ "[98, 92, 99]"])
  moreover have "name_len (string_of_runes [98, 92, 99]) < 2 ^ 31" by (simp add: EncodedStringLen_def runes_string scalar_def)
  ultimately have ok: "setting_ok (SetRename 1 0 (string_of_runes [98, 92, 99]))" by simp
  have fl: "Flags new_header AND SMB2_FLAGS_SERVER_TO_REDIR = 0" by code_simp
  show ?thesis using settings_reach_server[OF ok _ fl, of "replicate 16 7" "[]"] by auto
qed

text \<open>
  C15. A listing reaches the client.  The entries of a directory that the server lays out one behind the
  other for QUERY_DIRECTORY, sent in a response, are accepted by the client; following the offsets of the
  next entry from the beginning of the buffer it reads every entry, with its times, sizes, attributes and
  name, in the order of the server, and then stops.
\<close>

theorem listing_reaches_client:
  assumes "es \<noteq> []" "list_all entry_ok es" "72 + items_Size (map FileDirectoryInformationInfo es) < 2 ^ 32"
    "ChannelSequence hdr = 0" "Status hdr = 0"
  shows "\<exists>bs pkt body buf. listing_Encode (map FileDirectoryInformationInfo es) = Some bs
    \<and> rsp_Encode (hdr, QueryDirectoryResponse (Some bs)) (zeros (72 + length bs)) = Some pkt
    \<and> accept SMB2_QUERY_DIRECTORY (Slice pkt ex) = Some (body, None) \<and> QueryDirectoryResponse_IsInvalid body = Some False
    \<and> QueryDirectoryResponse_OutputBuffer body = Some buf \<and> read_listing buf = Some es"
proof -
  let ?r = "QueryDirectoryResponse (Some (dir_bytes es))"
  have "dir_bytes es \<noteq> []" 
  proof (cases es)
    case (Cons e xs)
    have "0 < length (dir_bytes (e # xs))" using entry_room[of e] by (simp add: dir_bytes_simps entry_length)
    then show ?thesis unfolding Cons by blast
  qed (use assms(1) in simp)
  then have size: "rsp_Size ?r = 72 + length (dir_bytes es)" "response_ok ?r" using assms(3) listing_bytes(2)[of es] by auto
  obtain pkt where p: "rsp_Encode (hdr, ?r) (zeros (72 + length (dir_bytes es))) = Some pkt"
      "accept SMB2_QUERY_DIRECTORY (Slice pkt ex) = Some (body_of ?r ex, None)"
    using response_arrives[OF size(2) _ assms(4,5), of SMB2_QUERY_DIRECTORY ex] size(1) by auto
  have u: "rsp_understood ?r (body_of ?r ex)" by (rule rsp_body_understood[OF size(2)])
  then obtain buf where b: "QueryDirectoryResponse_OutputBuffer (body_of ?r ex) = Some buf" "vis buf = dir_bytes es"
    by (auto simp: bytes_or_none_def simp del: body_fields.simps rsp_Size.simps)
  then have "read_listing buf = Some es" using listing_read[OF assms(1,2), of "ext buf"] by (cases buf) simp
  then show ?thesis using p u b(1) listing_bytes(1)[of es] by (auto simp del: body_fields.simps rsp_Size.simps)
qed

text \<open>Two entries.\<close>

definition sample_entry :: "string \<Rightarrow> entry" where
  "sample_entry s = \<lparr>e_FileIndex = 0, e_CreationTime = zero_Filetime, e_LastAccessTime = zero_Filetime,
     e_LastWriteTime = zero_Filetime, e_ChangeTime = zero_Filetime, e_EndOfFile = 10, e_AllocationSize = 4096,
     e_FileAttributes = 128, e_FileName = s\<rparr>"

lemma listing_reaches_client_witness:
  "\<exists>pkt body buf. accept SMB2_QUERY_DIRECTORY (Slice pkt []) = Some (body, None) \<and> QueryDirectoryResponse_OutputBuffer body = Some buf
     \<and> read_listing buf = Some [sample_entry (string_of_runes [97]), sample_entry (string_of_runes [98, 99])]"
proof -
  let ?a = "string_of_runes [97]" and ?b = "string_of_runes [98, 99]"
  have n: "name_len ?a = 2" "name_len ?b = 4" by (simp_all add: EncodedStringLen_def runes_string scalar_def)
  have u: "unicode_name ?a" by (auto simp: unicode_name_def scalar_def intro!: exI[of _ "[97]"])
  have v: "unicode_name ?b" by (auto simp: unicode_name_def scalar_def intro!: exI[of _ "[98, 99]"])
  have ok: "list_all entry_ok [sample_entry ?a, sample_entry ?b]" using n u v by (simp add: entry_ok_def sample_entry_def)
  have "FileDirectory_Size (sample_entry ?a) \<le> 80" "FileDirectory_Size (sample_entry ?b) \<le> 80"
    using n Align_8_bounds[of 66] Align_8_bounds[of 68] by (simp_all add: FileDirectory_Size_def align8_def sample_entry_def)
  then have size: "72 + items_Size (map FileDirectoryInformationInfo [sample_entry ?a, sample_entry ?b]) < 2 ^ 32"
    by (simp add: items_Size_def)
  show ?thesis using listing_reaches_client[OF _ ok size, of new_header "[]"] by (auto simp: new_header_def)
qed

text \<open>
  C16. Answers reach the client.  What the server answers to a query for all, the basic or the standard
  information of a file, for its number, its name or the size of its extended attributes, or for the space of
  the volume, is accepted by the client, and its decoders read every number, time and name as the server meant
  it; only the space that is left on the volume is read as 65536 times its number.
\<close>

theorem answers_reach_client:
  assumes "info_ok i" "ChannelSequence hdr = 0" "Status hdr = 0"
  shows "\<exists>bs pkt body buf. info_Encode i = Some bs \<and> rsp_Encode (hdr, QueryInfoResponse (Some bs)) (zeros (72 + length bs)) = Some pkt
    \<and> accept SMB2_QUERY_INFO (Slice pkt ex) = Some (body, None) \<and> QueryInfoResponse_IsInvalid body = Some False
    \<and> QueryInfoResponse_OutputBuffer body = Some buf \<and> info_read i buf"
proof -
  define bs where "bs = wrs (info_fields i) (zeros (info_Size i))"
  let ?r = "QueryInfoResponse (Some bs)"
  have enc: "info_Encode i = Some bs" and l: "length bs = info_Size i"
    using info_fits[OF assms(1)] by (simp_all add: info_Encode_def bs_def puts_wrs length_wrs)
  have "0 < info_Size i \<and> info_Size i < 2 ^ 31 + 101" using assms(1) by (cases i) (simp_all add: info_layout)
  then have size: "rsp_Size ?r = 72 + length bs" "response_ok ?r" using l by auto
  obtain pkt where p: "rsp_Encode (hdr, ?r) (zeros (72 + length bs)) = Some pkt"
      "accept SMB2_QUERY_INFO (Slice pkt ex) = Some (body_of ?r ex, None)"
    using response_arrives[OF size(2) _ assms(2,3), of SMB2_QUERY_INFO ex] size(1) by auto
  have u: "rsp_understood ?r (body_of ?r ex)" by (rule rsp_body_understood[OF size(2)])
  then obtain buf where b: "QueryInfoResponse_OutputBuffer (body_of ?r ex) = Some buf" "vis buf = bs"
    by (auto simp: bytes_or_none_def simp del: body_fields.simps rsp_Size.simps)
  then have "info_read i buf" using info_arrives[OF assms(1), of "ext buf"] by (cases buf) (simp add: bs_def)
  then show ?thesis using p u b(1) enc by (auto simp del: body_fields.simps rsp_Size.simps info_read.simps)
qed

text \<open>A volume of ten units of which eight are left: the client reads 524288.\<close>

lemma answers_reach_client_witness:
  "\<exists>pkt body buf. accept SMB2_QUERY_INFO (Slice pkt []) = Some (body, None) \<and> QueryInfoResponse_OutputBuffer body = Some buf
     \<and> FileFsFullSizeInformationDecoder_TotalAllocationUnits buf = Some 10
     \<and> FileFsFullSizeInformationDecoder_ActualAvailableAllocationUnits buf = Some 524288"
  using answers_reach_client[of "FileFsFullSizeInformationInfo 10 8 8 8 512" new_header "[]"] by (auto simp: new_header_def)

end
