(* ===== verification/Config.thy ===== *)
theory Config
  imports Shares Go_Strings "HOL-Library.AList" "HOL-Library.Char_ord" "HOL-Library.List_Lexorder"
begin

section \<open>Configuration files\<close>

text \<open>
  \<^verbatim>\<open>main.go\<close>: what a configuration file holds, how files are laid over one another, and which users it
  names.  A Go map is the list of its entries; where it is iterated the order is that of the list.
  The TOML library is not part of the repository: what it decodes from a file is the argument \<open>raw\<close>.
  Sorting by \<^verbatim>\<open>sort.Slice\<close>, which may leave equal keys in any order, is the stable sorting.
\<close>

subsection \<open>Data\<close>

record ShareConfig =
  sc_Path :: string
  sc_Readonly :: bool
  sc_AllowUsers :: "string list"

record shareFieldMask =
  sm_Path :: bool
  sm_Readonly :: bool
  sm_AllowUsers :: bool

record UserConfig =
  uc_Name :: string
  uc_Password :: string
  uc_Readonly :: bool

record userFieldMask =
  um_Password :: bool
  um_Readonly :: bool

record globalConfig =
  g_SMB3Encryption :: bool
  g_GuestBrowseIPC :: bool
  g_ShowConnectHints :: bool
  g_Advertise :: bool
  g_DiscoveryNameMDNS :: string
  g_DiscoveryNameWSD :: string
  g_Readonly :: bool
  g_Verbose :: bool
  g_VerboseLevel :: int
  g_Debug :: bool
  g_Trace :: bool
  g_HideDotfiles :: bool
  g_Expire :: string
  g_PidFile :: string
  g_LogFile :: string

text \<open>The structure \<^verbatim>\<open>Config\<close>; the settings that are decoded together are the record above.\<close>

record Config =
  f_Listen :: string
  f_ListenAddrs :: "string list"
  f_Global :: globalConfig
  f_Allow :: "string list"
  f_Users :: "UserConfig list"
  f_Shares :: "(string \<times> ShareConfig) list"
  f_userMask :: "(string \<times> userFieldMask) list"
  f_shareMask :: "(string \<times> shareFieldMask) list"

definition no_globals :: globalConfig where
  "no_globals = \<lparr>g_SMB3Encryption = False, g_GuestBrowseIPC = False, g_ShowConnectHints = False, g_Advertise = False,
     g_DiscoveryNameMDNS = [], g_DiscoveryNameWSD = [], g_Readonly = False, g_Verbose = False, g_VerboseLevel = 0,
     g_Debug = False, g_Trace = False, g_HideDotfiles = False, g_Expire = [], g_PidFile = [], g_LogFile = []\<rparr>"

definition empty_Config :: Config where
  "empty_Config = \<lparr>f_Listen = [], f_ListenAddrs = [], f_Global = no_globals, f_Allow = [], f_Users = [], f_Shares = [],
     f_userMask = [], f_shareMask = []\<rparr>"

text \<open>Reading a map: an absent key gives the zero value.\<close>

definition map_get :: "'a \<Rightarrow> (string \<times> 'a) list \<Rightarrow> string \<Rightarrow> 'a" where
  "map_get zero m k = (case map_of m k of None \<Rightarrow> zero | Some x \<Rightarrow> x)"

definition no_user :: UserConfig where "no_user = \<lparr>uc_Name = [], uc_Password = [], uc_Readonly = False\<rparr>"
definition no_share :: ShareConfig where "no_share = \<lparr>sc_Path = [], sc_Readonly = False, sc_AllowUsers = []\<rparr>"
definition no_user_mask :: userFieldMask where "no_user_mask = \<lparr>um_Password = False, um_Readonly = False\<rparr>"
definition no_share_mask :: shareFieldMask where "no_share_mask = \<lparr>sm_Path = False, sm_Readonly = False, sm_AllowUsers = False\<rparr>"

subsection \<open>decodeConfigFile\<close>

datatype toml = TString string | TArray "toml list" | TStrings "string list" | TOther

datatype config_error =
    LegacyKey string
  | InvalidSection string
  | EmptyValue string
  | EmptyItem string nat
  | NotAString string nat
  | NotStringOrArray string
  | NoLongerSupported string string
  | DefinesName string
  | FileNotFound string
  | StatFailed string
  | ReadFailed string

text \<open>
  What the library decodes: the keys that are defined; the section \<^verbatim>\<open>[global]\<close> as a map and as a structure;
  for each share and each user the keys of the table and the table as a structure (\<open>None\<close> where decoding fails).
\<close>

record rawConfig =
  raw_defined :: "string list \<Rightarrow> bool"
  raw_gmap :: "(string \<times> toml) list option"
  raw_global :: "globalConfig option"
  raw_Share :: "(string \<times> string list option \<times> ShareConfig option) list"
  raw_User :: "(string \<times> string list option \<times> UserConfig option) list"

definition legacyRoots :: "string list" where
  "legacyRoots = [''listen'', ''listen_addrs'', ''allow'', ''smb3_encryption'', ''guest_browse_ipc'', ''show_connect_hints'',
     ''advertise'', ''discovery_name_mdns'', ''discovery_name_wsd'', ''readonly'', ''verbose'', ''verbose_level'', ''debug'',
     ''trace'', ''hide_dotfiles'', ''expire'', ''pidfile'', ''logfile'', ''users'', ''shares'', ''username'', ''password'']"

fun array_strings :: "gostr \<Rightarrow> string \<Rightarrow> nat \<Rightarrow> toml list \<Rightarrow> config_error + string list" where
  "array_strings go key i [] = Inr []"
| "array_strings go key i (TString s # vs) =
     (if TrimSpace go s = [] then Inl (EmptyItem key i)
      else case array_strings go key (Suc i) vs of Inl e \<Rightarrow> Inl e | Inr out \<Rightarrow> Inr (s # out))"
| "array_strings go key i (TArray ws # vs) = Inl (NotAString key i)"
| "array_strings go key i (TStrings ws # vs) = Inl (NotAString key i)"
| "array_strings go key i (TOther # vs) = Inl (NotAString key i)"

definition parseStringOrArray :: "gostr \<Rightarrow> toml \<Rightarrow> string \<Rightarrow> config_error + string list" where
  "parseStringOrArray go v key =
     (case v of
        TString s \<Rightarrow> if TrimSpace go s = [] then Inl (EmptyValue key) else Inr [s]
      | TArray vs \<Rightarrow> array_strings go key 0 vs
      | TStrings ws \<Rightarrow> array_strings go key 0 (map TString ws)
      | TOther \<Rightarrow> Inl (NotStringOrArray key))"

text \<open>\<^verbatim>\<open>listenVals[0]\<close> panics when the array is empty.\<close>

definition decode_listen :: "gostr \<Rightarrow> (string \<times> toml) list \<Rightarrow> Config \<Rightarrow> (config_error + Config) option" where
  "decode_listen go gmap cfg =
     (case map_of gmap ''listen'' of
        None \<Rightarrow> Some (Inr cfg)
      | Some v \<Rightarrow>
         (case parseStringOrArray go v ''global.listen'' of
            Inl e \<Rightarrow> Some (Inl e)
          | Inr [] \<Rightarrow> None
          | Inr [l] \<Rightarrow> Some (Inr (cfg\<lparr>f_Listen := l, f_ListenAddrs := []\<rparr>))
          | Inr (l # ls) \<Rightarrow> Some (Inr (cfg\<lparr>f_Listen := l, f_ListenAddrs := l # ls\<rparr>))))"

definition decode_allow :: "gostr \<Rightarrow> (string \<times> toml) list \<Rightarrow> Config \<Rightarrow> config_error + Config" where
  "decode_allow go gmap cfg =
     (case map_of gmap ''allow'' of
        None \<Rightarrow> Inr cfg
      | Some v \<Rightarrow> (case parseStringOrArray go v ''global.allow'' of Inl e \<Rightarrow> Inl e | Inr vs \<Rightarrow> Inr (cfg\<lparr>f_Allow := vs\<rparr>)))"

definition decode_global :: "gostr \<Rightarrow> rawConfig \<Rightarrow> Config \<Rightarrow> (config_error + Config) option" where
  "decode_global go raw cfg =
     (if \<not> raw_defined raw [''global''] then Some (Inr cfg)
      else case (raw_gmap raw, raw_global raw) of
        (Some gmap, Some gcfg) \<Rightarrow> do {
          r \<leftarrow> decode_listen go gmap (cfg\<lparr>f_Global := gcfg\<rparr>);
          Some (case r of Inl e \<Rightarrow> Inl e
                | Inr cfg \<Rightarrow> (case decode_allow go gmap cfg of Inl e \<Rightarrow> Inl e
                    | Inr cfg \<Rightarrow> if map_of gmap ''discovery_name'' \<noteq> None then Inl (NoLongerSupported ''global'' ''discovery_name'')
                                else Inr cfg)) }
      | _ \<Rightarrow> Some (Inl (InvalidSection ''global'')))"

fun decode_shares :: "(string \<times> string list option \<times> ShareConfig option) list \<Rightarrow> Config \<Rightarrow> config_error + Config" where
  "decode_shares [] cfg = Inr cfg"
| "decode_shares ((name, Some keys, Some share) # xs) cfg =
     (if ''guest'' \<in> set keys then Inl (NoLongerSupported name ''guest'')
      else decode_shares xs (cfg\<lparr>f_Shares := AList.update name share (f_Shares cfg),
        f_shareMask := AList.update name \<lparr>sm_Path = ''path'' \<in> set keys, sm_Readonly = ''readonly'' \<in> set keys,
          sm_AllowUsers = ''allow_users'' \<in> set keys\<rparr> (f_shareMask cfg)\<rparr>))"
| "decode_shares ((name, keys, share) # xs) cfg = Inl (InvalidSection name)"

fun decode_users :: "gostr \<Rightarrow> (string \<times> string list option \<times> UserConfig option) list \<Rightarrow> Config \<Rightarrow> config_error + Config" where
  "decode_users go [] cfg = Inr cfg"
| "decode_users go ((name, Some keys, Some ut) # xs) cfg =
     (if TrimSpace go (uc_Name ut) \<noteq> [] then Inl (DefinesName name)
      else decode_users go xs (cfg\<lparr>f_Users := f_Users cfg @ [ut\<lparr>uc_Name := name\<rparr>],
        f_userMask := AList.update name \<lparr>um_Password = ''password'' \<in> set keys, um_Readonly = ''readonly'' \<in> set keys\<rparr>
          (f_userMask cfg)\<rparr>))"
| "decode_users go ((name, keys, ut) # xs) cfg = Inl (InvalidSection name)"

definition user_key :: "gostr \<Rightarrow> UserConfig \<Rightarrow> string" where
  "user_key go u = ToLower go (uc_Name u)"

definition decodeConfigFile :: "gostr \<Rightarrow> rawConfig \<Rightarrow> (config_error + Config) option" where
  "decodeConfigFile go raw =
     (case filter (\<lambda>k. raw_defined raw [k]) legacyRoots of
        k # ks \<Rightarrow> Some (Inl (LegacyKey k))
      | [] \<Rightarrow> do {
          r \<leftarrow> decode_global go raw empty_Config;
          Some (case r of Inl e \<Rightarrow> Inl e
                | Inr cfg \<Rightarrow> (case decode_shares (raw_Share raw) cfg of Inl e \<Rightarrow> Inl e
                    | Inr cfg \<Rightarrow> (case decode_users go (raw_User raw) cfg of Inl e \<Rightarrow> Inl e
                        | Inr cfg \<Rightarrow> Inr (cfg\<lparr>f_Users := sort_key (user_key go) (f_Users cfg)\<rparr>)))) })"

subsection \<open>applyConfigOverrides\<close>

type_synonym MetaData = "string list \<Rightarrow> bool"

definition override_global :: "MetaData \<Rightarrow> globalConfig \<Rightarrow> globalConfig \<Rightarrow> globalConfig" where
  "override_global md src dst = \<lparr>
     g_SMB3Encryption = (if md [''global'', ''smb3_encryption''] then g_SMB3Encryption src else g_SMB3Encryption dst),
     g_GuestBrowseIPC = (if md [''global'', ''guest_browse_ipc''] then g_GuestBrowseIPC src else g_GuestBrowseIPC dst),
     g_ShowConnectHints = (if md [''global'', ''show_connect_hints''] then g_ShowConnectHints src else g_ShowConnectHints dst),
     g_Advertise = (if md [''global'', ''advertise''] then g_Advertise src else g_Advertise dst),
     g_DiscoveryNameMDNS = (if md [''global'', ''discovery_name_mdns''] then g_DiscoveryNameMDNS src else g_DiscoveryNameMDNS dst),
     g_DiscoveryNameWSD = (if md [''global'', ''discovery_name_wsd''] then g_DiscoveryNameWSD src else g_DiscoveryNameWSD dst),
     g_Readonly = (if md [''global'', ''readonly''] then g_Readonly src else g_Readonly dst),
     g_Verbose = (if md [''global'', ''verbose''] then g_Verbose src else g_Verbose dst),
     g_VerboseLevel = (if md [''global'', ''verbose_level''] then g_VerboseLevel src else g_VerboseLevel dst),
     g_Debug = (if md [''global'', ''debug''] then g_Debug src else g_Debug dst),
     g_Trace = (if md [''global'', ''trace''] then g_Trace src else g_Trace dst),
     g_HideDotfiles = (if md [''global'', ''hide_dotfiles''] then g_HideDotfiles src else g_HideDotfiles dst),
     g_Expire = (if md [''global'', ''expire''] then g_Expire src else g_Expire dst),
     g_PidFile = (if md [''global'', ''pidfile''] then g_PidFile src else g_PidFile dst),
     g_LogFile = (if md [''global'', ''logfile''] then g_LogFile src else g_LogFile dst)\<rparr>"

text \<open>Users are merged by their name in lower case, the fields that the later file sets one by one.\<close>

definition existing_users :: "gostr \<Rightarrow> UserConfig list \<Rightarrow> (string \<times> UserConfig) list" where
  "existing_users go us = fold (\<lambda>u m. AList.update (user_key go u) u m) us []"

definition merge_user :: "gostr \<Rightarrow> Config \<Rightarrow> UserConfig
    \<Rightarrow> (string \<times> UserConfig) list \<times> (string \<times> userFieldMask) list \<Rightarrow> (string \<times> UserConfig) list \<times> (string \<times> userFieldMask) list" where
  "merge_user go src user st =
     (let key = user_key go user;
          msk = map_get no_user_mask (f_userMask src) (uc_Name user);
          cur = map_get no_user (fst st) key;
          cur = (if uc_Name cur = [] then cur\<lparr>uc_Name := uc_Name user\<rparr> else cur);
          cur = (if um_Password msk then cur\<lparr>uc_Password := uc_Password user\<rparr> else cur);
          cur = (if um_Readonly msk then cur\<lparr>uc_Readonly := uc_Readonly user\<rparr> else cur);
          dm = map_get no_user_mask (snd st) (uc_Name cur)
      in (AList.update key cur (fst st),
          AList.update (uc_Name cur) \<lparr>um_Password = um_Password dm \<or> um_Password msk, um_Readonly = um_Readonly dm \<or> um_Readonly msk\<rparr>
            (snd st)))"

definition override_users :: "gostr \<Rightarrow> Config \<Rightarrow> Config \<Rightarrow> Config" where
  "override_users go src dst =
     (let (existing, msk) = fold (merge_user go src) (f_Users src) (existing_users go (f_Users dst), f_userMask dst)
      in dst\<lparr>f_Users := sort_key (user_key go) (map snd existing), f_userMask := msk\<rparr>)"

definition merge_share :: "Config \<Rightarrow> string \<times> ShareConfig \<Rightarrow> Config \<Rightarrow> Config" where
  "merge_share src ns dst =
     (let (name, share) = ns;
          msk = map_get no_share_mask (f_shareMask src) name;
          cur = map_get no_share (f_Shares dst) name;
          dm = map_get no_share_mask (f_shareMask dst) name;
          cur = (if sm_Path msk then cur\<lparr>sc_Path := sc_Path share\<rparr> else cur);
          cur = (if sm_Readonly msk then cur\<lparr>sc_Readonly := sc_Readonly share\<rparr> else cur);
          cur = (if sm_AllowUsers msk then cur\<lparr>sc_AllowUsers := sc_AllowUsers share\<rparr> else cur)
      in dst\<lparr>f_Shares := AList.update name cur (f_Shares dst),
          f_shareMask := AList.update name \<lparr>sm_Path = sm_Path dm \<or> sm_Path msk, sm_Readonly = sm_Readonly dm \<or> sm_Readonly msk,
            sm_AllowUsers = sm_AllowUsers dm \<or> sm_AllowUsers msk\<rparr> (f_shareMask dst)\<rparr>)"

definition override_listen :: "MetaData \<Rightarrow> Config \<Rightarrow> Config \<Rightarrow> Config" where
  "override_listen md src dst =
     (let dst = (if md [''global'', ''listen''] then dst\<lparr>f_Listen := f_Listen src, f_ListenAddrs := f_ListenAddrs src\<rparr> else dst)
      in if md [''global'', ''allow''] then dst\<lparr>f_Allow := f_Allow src\<rparr> else dst)"

definition applyConfigOverrides :: "gostr \<Rightarrow> Config \<Rightarrow> Config \<Rightarrow> MetaData \<Rightarrow> Config" where
  "applyConfigOverrides go dst src md =
     (let dst = override_listen md src (dst\<lparr>f_Global := override_global md (f_Global src) (f_Global dst)\<rparr>);
          dst = (if md [''user''] then override_users go src dst else dst)
      in if md [''share''] then fold (merge_share src) (f_Shares src) dst else dst)"

end
