(* ===== verification/Settings.thy ===== *)
theory Settings
  imports Config
begin

section \<open>From files and options to the server\<close>

text \<open>
  \<^verbatim>\<open>main.go\<close>: which files are read (\<^verbatim>\<open>loadConfig\<close>), what the options of the command line change, the users
  (\<^verbatim>\<open>buildAuthUsers\<close>), the shares, and the configuration that \<^verbatim>\<open>NewServer\<close> is given.  The options are
  those that the flag library has parsed.  Arguments are: the files (\<open>files\<close>), \<^verbatim>\<open>filepath.Abs\<close>, and the
  passwords that \<^verbatim>\<open>generatePassword\<close> draws.
\<close>

subsection \<open>loadConfig\<close>

datatype stat = Present | Absent | Unreadable

record files =
  fl_Stat :: "string \<Rightarrow> stat"
  fl_Decode :: "string \<Rightarrow> rawConfig option"

record ConfigLoadInfo =
  SystemPath :: string
  SystemLoaded :: bool
  HomePath :: string
  HomeLoaded :: bool
  LocalPath :: string
  LocalLoaded :: bool
  CustomPaths :: "string list"
  CustomLoaded :: "string list"
  SettingSrc :: "(string \<times> string) list"

definition user_setting :: "Config \<Rightarrow> UserConfig \<Rightarrow> string list" where
  "user_setting cfg u =
     (let msk = map_get no_user_mask (f_userMask cfg) (uc_Name u) in
      (if um_Password msk then [''user.'' @ uc_Name u @ ''.password''] else [])
      @ (if um_Readonly msk then [''user.'' @ uc_Name u @ ''.readonly''] else []))"

definition share_setting :: "Config \<Rightarrow> string \<Rightarrow> string list" where
  "share_setting cfg name =
     (let msk = map_get no_share_mask (f_shareMask cfg) name in
      (if sm_Path msk then [''share.'' @ name @ ''.path''] else [])
      @ (if sm_AllowUsers msk then [''share.'' @ name @ ''.allow_users''] else [])
      @ (if sm_Readonly msk then [''share.'' @ name @ ''.readonly''] else []))"

definition recorded_keys :: "MetaData \<Rightarrow> Config \<Rightarrow> string list" where
  "recorded_keys md cfg =
     (let defined = filter (\<lambda>k. md [''global'', k]) in
      defined [''listen'', ''smb3_encryption'', ''guest_browse_ipc'', ''show_connect_hints'', ''advertise'', ''discovery_name_mdns'',
        ''discovery_name_wsd'', ''readonly'', ''verbose'', ''verbose_level'', ''debug'', ''trace'', ''allow'', ''hide_dotfiles'']
      @ (if md [''user''] then ''users'' # concat (map (user_setting cfg) (f_Users cfg)) else [])
      @ defined [''expire'', ''pidfile'', ''logfile'']
      @ (if md [''share''] then ''shares'' # concat (map (share_setting cfg) (map fst (f_Shares cfg))) else []))"

definition recordConfigSources :: "MetaData \<Rightarrow> string \<Rightarrow> Config \<Rightarrow> ConfigLoadInfo \<Rightarrow> ConfigLoadInfo" where
  "recordConfigSources md src cfg info =
     info\<lparr>SettingSrc := fold (\<lambda>k m. AList.update k src m) (recorded_keys md cfg) (SettingSrc info)\<rparr>"

type_synonym load_state = "Config option \<times> ConfigLoadInfo"

definition add_layer :: "gostr \<Rightarrow> MetaData \<Rightarrow> Config \<Rightarrow> Config option \<Rightarrow> Config" where
  "add_layer go md cfg merged = (case merged of None \<Rightarrow> cfg | Some m \<Rightarrow> applyConfigOverrides go m cfg md)"

definition loadLayer :: "gostr \<Rightarrow> files \<Rightarrow> string \<Rightarrow> string \<Rightarrow> bool \<Rightarrow> (ConfigLoadInfo \<Rightarrow> ConfigLoadInfo)
    \<Rightarrow> load_state \<Rightarrow> (config_error + load_state) option" where
  "loadLayer go fs path src required setLoaded st =
     (let failed = (\<lambda>e. Some (if required then Inl e else Inr st)) in
      case fl_Stat fs path of
        Absent \<Rightarrow> failed (FileNotFound path)
      | Unreadable \<Rightarrow> failed (StatFailed path)
      | Present \<Rightarrow>
          (case fl_Decode fs path of
             None \<Rightarrow> failed (ReadFailed path)
           | Some raw \<Rightarrow> do {
               r \<leftarrow> decodeConfigFile go raw;
               (case r of
                  Inl e \<Rightarrow> failed (ReadFailed path)
                | Inr cfg \<Rightarrow> Some (Inr (Some (add_layer go (raw_defined raw) cfg (fst st)),
                    recordConfigSources (raw_defined raw) src cfg (setLoaded (snd st))))) }))"

fun load_custom :: "gostr \<Rightarrow> files \<Rightarrow> string list \<Rightarrow> load_state \<Rightarrow> (config_error + load_state) option" where
  "load_custom go fs [] st = Some (Inr st)"
| "load_custom go fs (p # ps) st =
     (let path = (if path_IsAbs p then p else path_Clean p) in do {
        r \<leftarrow> loadLayer go fs path (''custom:'' @ path) True (\<lambda>info. info\<lparr>CustomLoaded := CustomLoaded info @ [path]\<rparr>) st;
        (case r of Inl e \<Rightarrow> Some (Inl e) | Inr st \<Rightarrow> load_custom go fs ps st) })"

text \<open>The layers that are looked for are not required: their errors are warnings.\<close>

definition load_default :: "gostr \<Rightarrow> files \<Rightarrow> string option \<Rightarrow> load_state \<Rightarrow> (config_error + load_state) option" where
  "load_default go fs home st = do {
     r \<leftarrow> loadLayer go fs (SystemPath (snd st)) ''system'' False (\<lambda>info. info\<lparr>SystemLoaded := True\<rparr>) st;
     let st = (case r of Inl e \<Rightarrow> st | Inr st \<Rightarrow> st);
     st \<leftarrow> (case home of None \<Rightarrow> Some st
           | Some h \<Rightarrow> (let path = path_Join [h, ''.sambamrc'']; st = (fst st, (snd st)\<lparr>HomePath := path\<rparr>) in do {
               r \<leftarrow> loadLayer go fs path ''home'' False (\<lambda>info. info\<lparr>HomeLoaded := True\<rparr>) st;
               Some (case r of Inl e \<Rightarrow> st | Inr st \<Rightarrow> st) }));
     r \<leftarrow> loadLayer go fs (LocalPath (snd st)) ''local'' False (\<lambda>info. info\<lparr>LocalLoaded := True\<rparr>) st;
     Some (Inr (case r of Inl e \<Rightarrow> st | Inr st \<Rightarrow> st)) }"

definition start_info :: "string \<Rightarrow> string list \<Rightarrow> ConfigLoadInfo" where
  "start_info homeEnv paths = \<lparr>SystemPath = ''/etc/sambamrc'', SystemLoaded = False, HomePath = path_Join [homeEnv, ''.sambamrc''],
     HomeLoaded = False, LocalPath = ''.sambamrc'', LocalLoaded = False, CustomPaths = paths, CustomLoaded = [], SettingSrc = []\<rparr>"

definition loadConfig :: "gostr \<Rightarrow> files \<Rightarrow> string \<Rightarrow> string option \<Rightarrow> string list \<Rightarrow> (config_error + load_state) option" where
  "loadConfig go fs homeEnv home customPaths =
     (let st = (None, start_info homeEnv customPaths) in
      if customPaths \<noteq> [] then load_custom go fs customPaths st else load_default go fs home st)"

subsection \<open>Options\<close>

record options =
  o_shareSpecs :: "string list"
  o_listen :: "string list"
  o_allow :: "string list"
  o_noAdvertise :: bool
  o_readOnly :: bool
  o_verbose :: int
  o_hideDotfiles :: bool
  o_users :: "string list"
  o_password :: string
  o_expire :: string
  o_pidFile :: string
  o_logFile :: string
  o_args :: "string list"
  o_changed :: "string \<Rightarrow> bool"

text \<open>Values of the files apply where an option was not given.\<close>

definition apply_config :: "Config \<Rightarrow> options \<Rightarrow> options" where
  "apply_config cfg opts =
     (let g = f_Global cfg; unset = (\<lambda>k. \<not> o_changed opts k) in
      opts\<lparr>o_listen := (if unset ''listen''
             then if length (f_ListenAddrs cfg) > 1 then f_ListenAddrs cfg
                  else if f_Listen cfg \<noteq> [] then [f_Listen cfg] else o_listen opts
             else o_listen opts),
        o_readOnly := (o_readOnly opts \<or> unset ''readonly'' \<and> g_Readonly g),
        o_verbose := (if unset ''verbose''
             then if g_VerboseLevel g > 0 then g_VerboseLevel g else if g_Verbose g then 1 else if g_Debug g then 3 else o_verbose opts
             else o_verbose opts),
        o_allow := (if unset ''allow'' \<and> length (f_Allow cfg) > 0 then f_Allow cfg else o_allow opts),
        o_expire := (if unset ''expire'' \<and> g_Expire g \<noteq> [] then g_Expire g else o_expire opts),
        o_hideDotfiles := (o_hideDotfiles opts \<or> unset ''hide-dotfiles'' \<and> g_HideDotfiles g),
        o_pidFile := (if unset ''pidfile'' \<and> g_PidFile g \<noteq> [] then g_PidFile g else o_pidFile opts),
        o_logFile := (if unset ''logfile'' \<and> g_LogFile g \<noteq> [] then g_LogFile g else o_logFile opts)\<rparr>)"

definition default_listen :: "options \<Rightarrow> options" where
  "default_listen opts = (if length (o_listen opts) = 0 then opts\<lparr>o_listen := [''0.0.0.0:445'']\<rparr> else opts)"

record switches =
  sw_enableSMB3Encryption :: bool
  sw_guestBrowseIPC :: bool
  sw_showConnectHints :: bool
  sw_advertiseEnabled :: bool

definition normalize_bool_env :: "gostr \<Rightarrow> string \<Rightarrow> bool" where
  "normalize_bool_env go v = (ToLower go (TrimSpace go v) \<in> {''1'', ''true'', ''yes'', ''on''})"

definition read_switches :: "gostr \<Rightarrow> Config option \<Rightarrow> ConfigLoadInfo \<Rightarrow> string \<Rightarrow> options \<Rightarrow> switches" where
  "read_switches go cfg info env opts =
     (let setting = (\<lambda>key get. case cfg of None \<Rightarrow> True
        | Some cfg \<Rightarrow> if map_of (SettingSrc info) key \<noteq> None then get (f_Global cfg) else True)
      in \<lparr>sw_enableSMB3Encryption = (if TrimSpace go env \<noteq> [] then normalize_bool_env go (TrimSpace go env)
            else setting ''smb3_encryption'' g_SMB3Encryption),
          sw_guestBrowseIPC = setting ''guest_browse_ipc'' g_GuestBrowseIPC,
          sw_showConnectHints = setting ''show_connect_hints'' g_ShowConnectHints,
          sw_advertiseEnabled = (setting ''advertise'' g_Advertise \<and> \<not> o_noAdvertise opts)\<rparr>)"

text \<open>\<^verbatim>\<open>normalizeCLIArgs\<close>: an option whose value is optional takes the next word, unless it begins with a dash.\<close>

fun normalize_args :: "string list \<Rightarrow> string list" where
  "normalize_args [] = []"
| "normalize_args [arg] = (if arg \<in> {''-L'', ''--logfile''} then [''--logfile=/tmp/sambam.log''] else [arg])"
| "normalize_args (arg # nxt # args) =
     (if arg \<in> {''-L'', ''--logfile''}
      then if HasPrefix nxt ''-'' then ''--logfile=/tmp/sambam.log'' # normalize_args (nxt # args)
           else (''--logfile='' @ nxt) # normalize_args args
      else if arg \<in> {''-G'', ''--gen-config'', ''--generate-config''} \<and> \<not> HasPrefix nxt ''-''
      then (''--gen-config='' @ nxt) # normalize_args args
      else arg # normalize_args (nxt # args))"

definition normalizeCLIArgs :: "string list \<Rightarrow> string list" where
  "normalizeCLIArgs args = (if length args < 3 then args else hd args # normalize_args (tl args))"

end
