(* ===== verification/Startup.thy ===== *)
theory Startup
  imports Settings
begin

section \<open>Users and shares of the server\<close>

text \<open>
  The rest of \<^verbatim>\<open>main.go\<close> up to \<^verbatim>\<open>NewServer\<close>: the users who may log in, the shares with their access
  policies, and the tables that the server and the authenticator are configured with.
\<close>

datatype setup_error =
    PasswordRequiresUsername
  | PasswordForSeveralUsers
  | EmptyUsername
  | InvalidUser string
  | EmptyConfigUser
  | MissingPassword string
  | NoSharePath string
  | NoAllowUsers string
  | BadPath string
  | DuplicateGuest string
  | NoUsersConfigured string

definition colon :: char where "colon = CHR '':''"

text \<open>\<^verbatim>\<open>strings.SplitN(s, ":", 2)\<close> of a string that has a colon.\<close>

definition split_colon :: "string \<Rightarrow> string \<times> string" where
  "split_colon s = (takeWhile (\<lambda>x. x \<noteq> colon) s, tl (dropWhile (\<lambda>x. x \<noteq> colon) s))"

subsection \<open>buildAuthUsers\<close>

record authUser =
  au_Name :: string
  au_Password :: string
  au_Readonly :: bool

definition au_key :: "gostr \<Rightarrow> authUser \<Rightarrow> string" where
  "au_key go u = ToLower go (au_Name u)"

definition cli_user :: "gostr \<Rightarrow> string \<Rightarrow> setup_error + authUser" where
  "cli_user go raw =
     (let entry = TrimSpace go raw in
      if entry = [] then Inl EmptyUsername
      else if colon \<in> set entry
      then let name = TrimSpace go (fst (split_colon entry)); pass = snd (split_colon entry) in
        if name = [] \<or> pass = [] then Inl (InvalidUser raw) else Inr \<lparr>au_Name = name, au_Password = pass, au_Readonly = False\<rparr>
      else Inr \<lparr>au_Name = entry, au_Password = [], au_Readonly = False\<rparr>)"

fun cli_users :: "gostr \<Rightarrow> string list \<Rightarrow> setup_error + authUser list" where
  "cli_users go [] = Inr []"
| "cli_users go (raw # rs) =
     (case cli_user go raw of Inl e \<Rightarrow> Inl e
      | Inr u \<Rightarrow> (case cli_users go rs of Inl e \<Rightarrow> Inl e | Inr us \<Rightarrow> Inr (u # us)))"

text \<open>Users without a password get one that is drawn; \<open>gen i\<close> is the one for the user at \<open>i\<close>.\<close>

fun draw_passwords :: "(nat \<Rightarrow> string) \<Rightarrow> nat \<Rightarrow> authUser list \<Rightarrow> authUser list" where
  "draw_passwords gen i [] = []"
| "draw_passwords gen i (u # us) =
     (if au_Password u = [] then u\<lparr>au_Password := gen i\<rparr> else u) # draw_passwords gen (Suc i) us"

definition set_password :: "string \<Rightarrow> authUser list \<Rightarrow> authUser list" where
  "set_password pass us =
     (case us of [u] \<Rightarrow> if au_Password u = [] \<and> pass \<noteq> [] then [u\<lparr>au_Password := pass\<rparr>] else us | _ \<Rightarrow> us)"

fun config_users :: "gostr \<Rightarrow> UserConfig list \<Rightarrow> (string \<times> authUser) list \<Rightarrow> setup_error + (string \<times> authUser) list" where
  "config_users go [] byName = Inr byName"
| "config_users go (u # us) byName =
     (let name = TrimSpace go (uc_Name u) in
      if name = [] then Inl EmptyConfigUser
      else if uc_Password u = [] then Inl (MissingPassword name)
      else config_users go us (AList.update (ToLower go name)
        \<lparr>au_Name = name, au_Password = uc_Password u, au_Readonly = uc_Readonly u\<rparr> byName))"

definition buildAuthUsers :: "gostr \<Rightarrow> (nat \<Rightarrow> string) \<Rightarrow> string list \<Rightarrow> string \<Rightarrow> bool \<Rightarrow> bool \<Rightarrow> Config option
    \<Rightarrow> setup_error + authUser list" where
  "buildAuthUsers go gen cliUsers cliPassword usersChanged passwordChanged cfg =
     (if usersChanged \<or> passwordChanged
      then if length cliUsers = 0 then if cliPassword \<noteq> [] then Inl PasswordRequiresUsername else Inr []
        else if length cliUsers > 1 \<and> cliPassword \<noteq> [] then Inl PasswordForSeveralUsers
        else case cli_users go cliUsers of Inl e \<Rightarrow> Inl e
          | Inr us \<Rightarrow> Inr (sort_key (au_key go) (draw_passwords gen 0 (set_password cliPassword us)))
      else case cfg of None \<Rightarrow> Inr []
        | Some cfg \<Rightarrow> (case config_users go (f_Users cfg) [] of Inl e \<Rightarrow> Inl e
            | Inr byName \<Rightarrow> Inr (sort_key (au_key go) (map snd byName))))"

subsection \<open>Shares\<close>

record Share =
  sh_Name :: string
  sh_Path :: string
  sh_ReadOnly :: bool
  sh_Guest :: bool
  sh_AllowUsers :: "string list"

definition shareName :: "string \<Rightarrow> string" where
  "shareName path = (let name = path_Base path in if name = [slash] \<or> name = [dot] then ''root'' else name)"

fun config_shares :: "gostr \<Rightarrow> (string \<Rightarrow> string option) \<Rightarrow> bool \<Rightarrow> (string \<times> shareFieldMask) list \<Rightarrow> (string \<times> ShareConfig) list
    \<Rightarrow> (string \<times> Share) list \<Rightarrow> setup_error + (string \<times> Share) list" where
  "config_shares go Abs ro msk [] m = Inr m"
| "config_shares go Abs ro msk ((name, sc) # xs) m =
     (if TrimSpace go (sc_Path sc) = [] then Inl (NoSharePath name)
      else if \<not> sm_AllowUsers (map_get no_share_mask msk name) then Inl (NoAllowUsers name)
      else case Abs (sc_Path sc) of None \<Rightarrow> Inl (BadPath name)
        | Some p \<Rightarrow> config_shares go Abs ro msk xs (AList.update name \<lparr>sh_Name = name, sh_Path = p, sh_ReadOnly = (sc_Readonly sc \<or> ro),
            sh_Guest = False, sh_AllowUsers = sc_AllowUsers sc\<rparr> m))"

text \<open>A share of the command line takes the policy of the share of that name in the files.\<close>

definition cli_share :: "bool \<Rightarrow> string \<Rightarrow> string \<Rightarrow> (string \<times> Share) list \<Rightarrow> (string \<times> Share) list" where
  "cli_share ro name p m = AList.update name
     (case map_of m name of
        None \<Rightarrow> \<lparr>sh_Name = name, sh_Path = p, sh_ReadOnly = ro, sh_Guest = False, sh_AllowUsers = []\<rparr>
      | Some prev \<Rightarrow> \<lparr>sh_Name = name, sh_Path = p, sh_ReadOnly = (sh_ReadOnly prev \<or> ro), sh_Guest = sh_Guest prev,
          sh_AllowUsers = sh_AllowUsers prev\<rparr>) m"

definition share_spec :: "string list \<Rightarrow> string \<Rightarrow> string \<times> string" where
  "share_spec args spec =
     (if colon \<in> set spec then split_colon spec else (spec, (case args of [] \<Rightarrow> [dot] | a # as \<Rightarrow> a)))"

fun spec_shares :: "(string \<Rightarrow> string option) \<Rightarrow> bool \<Rightarrow> string list \<Rightarrow> string list \<Rightarrow> (string \<times> Share) list
    \<Rightarrow> setup_error + (string \<times> Share) list" where
  "spec_shares Abs ro args [] m = Inr m"
| "spec_shares Abs ro args (spec # specs) m =
     (let (name, path) = share_spec args spec in
      case Abs path of None \<Rightarrow> Inl (BadPath name) | Some p \<Rightarrow> spec_shares Abs ro args specs (cli_share ro name p m))"

definition cli_shares :: "(string \<Rightarrow> string option) \<Rightarrow> options \<Rightarrow> (string \<times> Share) list \<Rightarrow> setup_error + (string \<times> Share) list" where
  "cli_shares Abs opts m =
     (if length (o_shareSpecs opts) = 0
      then case o_args opts of [] \<Rightarrow> Inr m
        | a # as \<Rightarrow> (case Abs a of None \<Rightarrow> Inl (BadPath a) | Some p \<Rightarrow> Inr (cli_share (o_readOnly opts) (shareName p) p m))
      else spec_shares Abs (o_readOnly opts) (o_args opts) (o_shareSpecs opts) m)"

definition default_share :: "(string \<Rightarrow> string option) \<Rightarrow> bool \<Rightarrow> (string \<times> Share) list \<Rightarrow> setup_error + (string \<times> Share) list" where
  "default_share Abs ro m =
     (if length m = 0
      then case Abs [dot] of None \<Rightarrow> Inl (BadPath [dot])
        | Some p \<Rightarrow> Inr [(shareName p, \<lparr>sh_Name = shareName p, sh_Path = p, sh_ReadOnly = ro, sh_Guest = False, sh_AllowUsers = []\<rparr>)]
      else Inr m)"

definition is_guest_entry :: "gostr \<Rightarrow> string \<Rightarrow> bool" where
  "is_guest_entry go u = EqualFold go (TrimSpace go u) ''guest''"

definition named_users :: "gostr \<Rightarrow> string list \<Rightarrow> string list" where
  "named_users go us = map (TrimSpace go) (filter (\<lambda>u. \<not> is_guest_entry go u) us)"

definition normalize_share :: "gostr \<Rightarrow> bool \<Rightarrow> Share \<Rightarrow> setup_error + Share" where
  "normalize_share go no_users s =
     (let guests = length (filter (is_guest_entry go) (sh_AllowUsers s)); users = named_users go (sh_AllowUsers s) in
      if guests > 1 then Inl (DuplicateGuest (sh_Name s))
      else if no_users \<and> length users > 0 then Inl (NoUsersConfigured (sh_Name s))
      else Inr (s\<lparr>sh_Guest := (guests = 1), sh_AllowUsers := users\<rparr>))"

fun normalize_shares :: "gostr \<Rightarrow> bool \<Rightarrow> Share list \<Rightarrow> setup_error + Share list" where
  "normalize_shares go no_users [] = Inr []"
| "normalize_shares go no_users (s # ss) =
     (case normalize_share go no_users s of Inl e \<Rightarrow> Inl e
      | Inr t \<Rightarrow> (case normalize_shares go no_users ss of Inl e \<Rightarrow> Inl e | Inr ts \<Rightarrow> Inr (t # ts)))"

definition build_shares :: "gostr \<Rightarrow> (string \<Rightarrow> string option) \<Rightarrow> Config option \<Rightarrow> options \<Rightarrow> authUser list
    \<Rightarrow> setup_error + Share list" where
  "build_shares go Abs cfg opts users =
     (case (case cfg of None \<Rightarrow> Inr [] | Some c \<Rightarrow> config_shares go Abs (o_readOnly opts) (f_shareMask c) (f_Shares c) []) of
        Inl e \<Rightarrow> Inl e
      | Inr m \<Rightarrow> (case cli_shares Abs opts m of Inl e \<Rightarrow> Inl e
          | Inr m \<Rightarrow> (case default_share Abs (o_readOnly opts) m of Inl e \<Rightarrow> Inl e
              | Inr m \<Rightarrow> normalize_shares go (length users = 0) (map snd (sort_key fst m)))))"

subsection \<open>What the server is given\<close>

definition user_passwords :: "authUser list \<Rightarrow> (string \<times> string) list" where
  "user_passwords users = fold (\<lambda>u m. AList.update (au_Name u) (au_Password u) m) users []"

definition user_readonly :: "gostr \<Rightarrow> authUser list \<Rightarrow> (string \<times> bool) list" where
  "user_readonly go users = fold (\<lambda>u m. AList.update (au_key go u) (au_Readonly u) m) users []"

definition server_config :: "gostr \<Rightarrow> switches \<Rightarrow> authUser list \<Rightarrow> Share list \<Rightarrow> ServerConfig" where
  "server_config go sw users ss =
     (let guests = filter (\<lambda>s. length users = 0 \<or> sh_Guest s) ss in
      \<lparr>AllowGuest = (length users = 0 \<or> guests \<noteq> [] \<or> sw_guestBrowseIPC sw \<and> length users > 0),
       EnableSMB3Encryption = sw_enableSMB3Encryption sw, cfg_MaxIOReads = 0, cfg_MaxIOWrites = 0,
       ShareGuest = map (\<lambda>s. (sh_Name s, True)) guests,
       ShareAllowUsers = map (\<lambda>s. (sh_Name s, sh_AllowUsers s)) (filter (\<lambda>s. length (sh_AllowUsers s) > 0) ss),
       AuthUsers = map au_Name users, UserReadonly = user_readonly go users\<rparr>)"

end
