(* ===== verification/ConfigProps.thy ===== *)
theory ConfigProps
  imports Startup "HOL-Library.Multiset"
begin

section \<open>What a configuration means\<close>

subsection \<open>Files laid over one another\<close>

lemma f_Global_shares [simp]: "f_Global (fold (merge_share src) xs dst) = f_Global dst"
  by (induction xs arbitrary: dst) (auto simp: merge_share_def Let_def split: prod.split)

lemma f_Global_users [simp]: "f_Global (override_users go src dst) = f_Global dst"
  by (simp add: override_users_def split: prod.split)

lemma f_Global_apply: "f_Global (applyConfigOverrides go dst src md) = override_global md (f_Global src) (f_Global dst)"
  by (simp add: applyConfigOverrides_def override_listen_def Let_def)

definition flag_settings :: "(string \<times> (globalConfig \<Rightarrow> bool)) list" where
  "flag_settings = [(''smb3_encryption'', g_SMB3Encryption), (''guest_browse_ipc'', g_GuestBrowseIPC),
     (''show_connect_hints'', g_ShowConnectHints), (''advertise'', g_Advertise), (''readonly'', g_Readonly),
     (''verbose'', g_Verbose), (''debug'', g_Debug), (''trace'', g_Trace), (''hide_dotfiles'', g_HideDotfiles)]"

lemma flag_overrides:
  "\<forall>(key, get) \<in> set flag_settings. get (override_global md src dst) = (if md [''global'', key] then get src else get dst)"
  by (simp add: flag_settings_def override_global_def)

lemma flag_override:
  "(key, get) \<in> set flag_settings \<Longrightarrow> get (override_global md src dst) = (if md [''global'', key] then get src else get dst)"
  using flag_overrides by blast

definition recorded_globals :: "string list" where
  "recorded_globals = [''listen'', ''smb3_encryption'', ''guest_browse_ipc'', ''show_connect_hints'', ''advertise'', ''discovery_name_mdns'',
     ''discovery_name_wsd'', ''readonly'', ''verbose'', ''verbose_level'', ''debug'', ''trace'', ''allow'', ''hide_dotfiles'']"

lemma in_optional_list: "k \<in> set (if b then x # concat (map f ys) else []) \<longleftrightarrow> b \<and> (k = x \<or> (\<exists>y \<in> set ys. k \<in> set (f y)))"
  by (cases b) auto

lemma recorded_iff:
  "k \<in> set (recorded_keys md cfg) \<longleftrightarrow> md [''global'', k] \<and> (k \<in> set recorded_globals \<or> k \<in> set [''expire'', ''pidfile'', ''logfile''])
    \<or> md [''user''] \<and> (k = ''users'' \<or> (\<exists>u \<in> set (f_Users cfg). k \<in> set (user_setting cfg u)))
    \<or> md [''share''] \<and> (k = ''shares'' \<or> (\<exists>n \<in> set (map fst (f_Shares cfg)). k \<in> set (share_setting cfg n)))"
  unfolding recorded_keys_def Let_def recorded_globals_def[symmetric] set_append Un_iff in_optional_list set_filter mem_Collect_eq
  by blast

lemma flag_keys:
  "\<forall>(key, get) \<in> set flag_settings. key \<in> set recorded_globals \<and> key \<noteq> ''users'' \<and> key \<noteq> ''shares''
    \<and> key \<notin> set (user_setting cfg u) \<and> key \<notin> set (share_setting cfg n)"
  by (simp add: flag_settings_def recorded_globals_def user_setting_def share_setting_def Let_def)

lemma flag_recorded:
  assumes "(key, get) \<in> set flag_settings"
  shows "key \<in> set (recorded_keys md cfg) \<longleftrightarrow> md [''global'', key]"
proof -
  have "key \<in> set recorded_globals \<and> key \<noteq> ''users'' \<and> key \<noteq> ''shares'' \<and> key \<notin> set (user_setting cfg u) \<and> key \<notin> set (share_setting cfg n)"
    for u n using flag_keys[of cfg u n] assms by blast
  then show ?thesis unfolding recorded_iff by blast
qed

lemma map_of_fold_update: "map_of (fold (\<lambda>k m. AList.update k v m) ks m) k = (if k \<in> set ks then Some v else map_of m k)"
  by (induction ks arbitrary: m) (auto simp: update_conv')

type_synonym layer = "string \<times> rawConfig \<times> Config"

text \<open>The last of some layers that defines a setting.\<close>

definition defining :: "string \<Rightarrow> layer list \<Rightarrow> layer option" where
  "defining key ls = find (\<lambda>(path, raw, cfg). raw_defined raw [''global'', key]) (rev ls)"

definition layer_path :: "string \<Rightarrow> string" where
  "layer_path p = (if path_IsAbs p then p else path_Clean p)"

definition layer_read :: "gostr \<Rightarrow> files \<Rightarrow> string \<Rightarrow> layer \<Rightarrow> bool" where
  "layer_read go fs p l \<longleftrightarrow> (case l of (path, raw, cfg) \<Rightarrow> path = layer_path p \<and> fl_Stat fs path = Present
     \<and> fl_Decode fs path = Some raw \<and> decodeConfigFile go raw = Some (Inr cfg))"

definition layers_hold :: "layer list \<Rightarrow> load_state \<Rightarrow> bool" where
  "layers_hold ls st \<longleftrightarrow> (fst st = None \<longleftrightarrow> ls = []) \<and> (\<forall>(key, get) \<in> set flag_settings.
     map_of (SettingSrc (snd st)) key = map_option (\<lambda>(path, raw, cfg). ''custom:'' @ path) (defining key ls)
     \<and> (\<forall>m. fst st = Some m \<longrightarrow> get (f_Global m) = (case defining key ls of
           None \<Rightarrow> get (f_Global (snd (snd (hd ls)))) | Some (path, raw, cfg) \<Rightarrow> get (f_Global cfg))))"

lemma find_append: "find P (xs @ ys) = (case find P xs of None \<Rightarrow> find P ys | Some x \<Rightarrow> Some x)"
  by (induction xs) auto

lemma defining_snoc:
  "defining key (ls @ [(path, raw, cfg)]) = (if raw_defined raw [''global'', key] then Some (path, raw, cfg) else defining key ls)"
  "defining key [] = None"
  "defining key [(path, raw, cfg)] = (if raw_defined raw [''global'', key] then Some (path, raw, cfg) else None)"
  by (simp_all add: defining_def)

lemma layer_added:
  assumes "layers_hold ls (merged, info)"
  shows "layers_hold (ls @ [(path, raw, cfg)])
    (Some (add_layer go (raw_defined raw) cfg merged), recordConfigSources (raw_defined raw) (''custom:'' @ path) cfg (info\<lparr>CustomLoaded := cl\<rparr>))"
  unfolding layers_hold_def
proof (intro conjI ballI, simp)
  fix kg assume kg: "kg \<in> set flag_settings"
  obtain key get where eq: "kg = (key, get)" by fastforce
  have src: "map_of (SettingSrc info) key = map_option (\<lambda>(path, raw, cfg). ''custom:'' @ path) (defining key ls)"
    and val: "\<And>m. merged = Some m \<Longrightarrow> get (f_Global m) = (case defining key ls of
           None \<Rightarrow> get (f_Global (snd (snd (hd ls)))) | Some (path, raw, cfg) \<Rightarrow> get (f_Global cfg))"
    and none: "merged = None \<longleftrightarrow> ls = []"
    using assms kg by (auto simp: layers_hold_def eq)
  have rec: "key \<in> set (recorded_keys (raw_defined raw) cfg) \<longleftrightarrow> raw_defined raw [''global'', key]"
    using flag_recorded kg by (simp add: eq)
  have ov: "get (override_global md s d) = (if md [''global'', key] then get s else get d)" for md s d
    using flag_override kg by (simp add: eq)
  show "case kg of (key, get) \<Rightarrow>
      map_of (SettingSrc (snd (Some (add_layer go (raw_defined raw) cfg merged),
         recordConfigSources (raw_defined raw) (''custom:'' @ path) cfg (info\<lparr>CustomLoaded := cl\<rparr>)))) key
        = map_option (\<lambda>(path, raw, cfg). ''custom:'' @ path) (defining key (ls @ [(path, raw, cfg)]))
      \<and> (\<forall>m. fst (Some (add_layer go (raw_defined raw) cfg merged),
         recordConfigSources (raw_defined raw) (''custom:'' @ path) cfg (info\<lparr>CustomLoaded := cl\<rparr>)) = Some m
        \<longrightarrow> get (f_Global m) = (case defining key (ls @ [(path, raw, cfg)]) of
           None \<Rightarrow> get (f_Global (snd (snd (hd (ls @ [(path, raw, cfg)]))))) | Some (path, raw, cfg) \<Rightarrow> get (f_Global cfg)))"
    using src val none rec
    by (cases merged) (auto simp: eq recordConfigSources_def map_of_fold_update defining_snoc add_layer_def f_Global_apply ov split: option.split)
qed

lemma custom_layers:
  "list_all2 (layer_read go fs) ps ls \<Longrightarrow> layers_hold before st \<Longrightarrow>
   \<exists>st'. load_custom go fs ps st = Some (Inr st') \<and> layers_hold (before @ ls) st'
     \<and> CustomLoaded (snd st') = CustomLoaded (snd st) @ map layer_path ps"
proof (induction ps ls arbitrary: before st rule: list_all2_induct)
  case (Cons p ps l ls)
  obtain path raw cfg where l: "l = (path, raw, cfg)" by (cases l) auto
  have rd: "path = layer_path p" "fl_Stat fs path = Present" "fl_Decode fs path = Some raw" "decodeConfigFile go raw = Some (Inr cfg)"
    using Cons(1) by (auto simp: layer_read_def l)
  define st1 where "st1 = (Some (add_layer go (raw_defined raw) cfg (fst st)),
    recordConfigSources (raw_defined raw) (''custom:'' @ path) cfg ((snd st)\<lparr>CustomLoaded := CustomLoaded (snd st) @ [path]\<rparr>))"
  have "loadLayer go fs path (''custom:'' @ path) True (\<lambda>info. info\<lparr>CustomLoaded := CustomLoaded info @ [path]\<rparr>) st = Some (Inr st1)"
    using rd by (simp add: loadLayer_def st1_def)
  then have "load_custom go fs (p # ps) st = load_custom go fs ps st1"
    using rd(1) by (simp add: layer_path_def Let_def)
  moreover have "layers_hold (before @ [l]) st1"
    using layer_added[of before "fst st" "snd st"] Cons.prems by (simp add: st1_def l)
  moreover have "CustomLoaded (snd st1) = CustomLoaded (snd st) @ [layer_path p]" by (simp add: st1_def recordConfigSources_def rd(1))
  ultimately show ?case using Cons.IH[of "before @ [l]" st1] by auto
qed simp

lemma layers_hold_start: "layers_hold [] (None, start_info env ps)"
  by (simp add: layers_hold_def start_info_def defining_def split: prod.split)


text \<open>Two files; the first makes the server read-only, the second says nothing of it but turns encryption off.\<close>

definition first_file :: rawConfig where
  "first_file = \<lparr>raw_defined = (\<lambda>k. k = [''global''] \<or> k = [''global'', ''readonly'']), raw_gmap = Some [(''readonly'', TOther)],
     raw_global = Some (no_globals\<lparr>g_Readonly := True\<rparr>), raw_Share = [], raw_User = []\<rparr>"

definition second_file :: rawConfig where
  "second_file = \<lparr>raw_defined = (\<lambda>k. k = [''global''] \<or> k = [''global'', ''smb3_encryption'']),
     raw_gmap = Some [(''smb3_encryption'', TOther)], raw_global = Some no_globals, raw_Share = [], raw_User = []\<rparr>"

definition two_files :: files where
  "two_files = \<lparr>fl_Stat = (\<lambda>p. Present), fl_Decode = (\<lambda>p. Some (if p = ''/a'' then first_file else second_file))\<rparr>"


subsection \<open>A file that cannot be read\<close>

lemma array_strings_empty: "array_strings go key i vs = Inr [] \<longleftrightarrow> vs = []"
  by (induction go key i vs rule: array_strings.induct) (auto split: sum.splits if_splits)

lemma decode_listen_None:
  "decode_listen go gmap cfg = None \<longleftrightarrow> map_of gmap ''listen'' = Some (TArray []) \<or> map_of gmap ''listen'' = Some (TStrings [])"
proof (cases "map_of gmap ''listen''")
  case (Some v)
  have "parseStringOrArray go v key = Inr [] \<longleftrightarrow> v = TArray [] \<or> v = TStrings []" for key
    by (cases v) (auto simp: parseStringOrArray_def array_strings_empty)
  then show ?thesis by (auto simp: decode_listen_def Some split: sum.splits list.splits)
qed (simp add: decode_listen_def)

text \<open>
  An empty list of addresses ends the process.  Reading a file panics exactly when its section
  \<^verbatim>\<open>[global]\<close> can be decoded and sets \<^verbatim>\<open>listen\<close> to an empty array (and there is no outdated key at its top):
  the first element of the array is taken without a look at its length.  Every other file is accepted
  or refused with an error.
\<close>

theorem empty_listen_panics:
  "decodeConfigFile go raw = None \<longleftrightarrow> filter (\<lambda>k. raw_defined raw [k]) legacyRoots = [] \<and> raw_defined raw [''global'']
     \<and> raw_global raw \<noteq> None \<and> (\<exists>gmap. raw_gmap raw = Some gmap
         \<and> (map_of gmap ''listen'' = Some (TArray []) \<or> map_of gmap ''listen'' = Some (TStrings [])))"
proof -
  have "decode_global go raw cfg = None \<longleftrightarrow> raw_defined raw [''global''] \<and> raw_global raw \<noteq> None
      \<and> (\<exists>gmap. raw_gmap raw = Some gmap
         \<and> (map_of gmap ''listen'' = Some (TArray []) \<or> map_of gmap ''listen'' = Some (TStrings [])))" for cfg
    by (cases "raw_gmap raw"; cases "raw_global raw") (simp_all add: decode_global_def decode_listen_None bind_eq_None_conv)
  then show ?thesis
    by (cases "filter (\<lambda>k. raw_defined raw [k]) legacyRoots") (simp_all add: decodeConfigFile_def bind_eq_None_conv)
qed

subsection \<open>Users\<close>

lemma cli_users_named:
  "cli_users go rs = Inr us \<Longrightarrow> \<forall>u \<in> set us. au_Name u \<noteq> []"
proof (induction go rs arbitrary: us rule: cli_users.induct)
  case (2 go raw rs)
  then show ?case by (auto simp: cli_user_def Let_def split: sum.splits if_splits)
qed simp

lemma draw_passwords_ok:
  "(\<And>i. gen i \<noteq> []) \<Longrightarrow> u \<in> set (draw_passwords gen i us) \<Longrightarrow> au_Password u \<noteq> [] \<and> (\<exists>v \<in> set us. au_Name u = au_Name v)"
  by (induction gen i us rule: draw_passwords.induct) (auto split: if_splits)

lemma set_password_names: "u \<in> set (set_password pass us) \<Longrightarrow> \<exists>v \<in> set us. au_Name u = au_Name v"
  by (auto simp: set_password_def split: list.splits if_splits)

lemma update_subset: "set (AList.update k v al) \<subseteq> insert (k, v) (set al)"
  by (induction al) auto

definition cfg_user :: "gostr \<Rightarrow> UserConfig \<Rightarrow> authUser" where
  "cfg_user go u = \<lparr>au_Name = TrimSpace go (uc_Name u), au_Password = uc_Password u, au_Readonly = uc_Readonly u\<rparr>"

lemma config_users_table:
  assumes "config_users go us byName = Inr m"
    and "distinct (map fst byName)" "\<forall>(k, a) \<in> set byName. k = au_key go a \<and> au_Name a \<noteq> [] \<and> au_Password a \<noteq> []"
  shows "distinct (map fst m) \<and> (\<forall>(k, a) \<in> set m. k = au_key go a \<and> au_Name a \<noteq> [] \<and> au_Password a \<noteq> [])
    \<and> map_of m = map_of byName ++ map_of (rev (map (\<lambda>u. (au_key go (cfg_user go u), cfg_user go u)) us))"
  using assms
proof (induction go us byName rule: config_users.induct)
  case (2 go u us byName)
  let ?a = "cfg_user go u"
  let ?by = "AList.update (au_key go ?a) ?a byName"
  have ok: "TrimSpace go (uc_Name u) \<noteq> []" "uc_Password u \<noteq> []" and go_on: "config_users go us ?by = Inr m"
    using 2(2) by (auto simp: Let_def cfg_user_def au_key_def split: if_splits)
  have "set ?by \<subseteq> insert (au_key go ?a, ?a) (set byName)" by (rule update_subset)
  then have "\<forall>(k, a) \<in> set ?by. k = au_key go a \<and> au_Name a \<noteq> [] \<and> au_Password a \<noteq> []"
    using 2(4) ok by (auto simp: cfg_user_def)
  moreover have "distinct (map fst ?by)" using 2(3) by (rule distinct_update)
  ultimately have IH: "distinct (map fst m) \<and> (\<forall>(k, a) \<in> set m. k = au_key go a \<and> au_Name a \<noteq> [] \<and> au_Password a \<noteq> [])
      \<and> map_of m = map_of ?by ++ map_of (rev (map (\<lambda>u. (au_key go (cfg_user go u), cfg_user go u)) us))"
    using 2(1)[OF refl ok(1,2)] go_on by (simp add: cfg_user_def au_key_def)
  moreover have "map_of ?by ++ g = map_of byName ++ ([au_key go ?a \<mapsto> ?a] ++ g)" for g
    by (auto simp: update_conv' map_add_def fun_eq_iff split: option.split)
  ultimately show ?case by simp
qed simp

text \<open>
  C23. The accounts are well formed.  Every user that the server is given has a name and a password, and they are sorted
  by their names in lower case.  When they come from the configuration their names are distinct
  up to case and they are exactly those of the files: for each name the entry that is listed last gives the password
  and whether the user may only read.
\<close>

theorem accounts_ok:
  assumes "\<And>i. gen i \<noteq> []" "buildAuthUsers go gen names pass namesChanged passChanged cfg = Inr users"
  shows "(\<forall>u \<in> set users. au_Name u \<noteq> [] \<and> au_Password u \<noteq> []) \<and> sorted (map (au_key go) users)
    \<and> (\<not> namesChanged \<and> \<not> passChanged \<longrightarrow> distinct (map (au_key go) users)
        \<and> set users = (case cfg of None \<Rightarrow> {}
            | Some c \<Rightarrow> ran (map_of (rev (map (\<lambda>u. (au_key go (cfg_user go u), cfg_user go u)) (f_Users c))))))"
proof (cases "namesChanged \<or> passChanged")
  case True
  show ?thesis
  proof (cases "length names = 0")
    case True
    then show ?thesis using assms(2) \<open>namesChanged \<or> passChanged\<close> by (auto simp: buildAuthUsers_def split: if_splits)
  next
    case False
    then obtain us where us: "cli_users go names = Inr us" "users = sort_key (au_key go) (draw_passwords gen 0 (set_password pass us))"
      using assms(2) True by (auto simp: buildAuthUsers_def split: if_splits sum.splits)
    have "\<forall>u \<in> set (draw_passwords gen 0 (set_password pass us)). au_Name u \<noteq> [] \<and> au_Password u \<noteq> []"
      using draw_passwords_ok[OF assms(1)] set_password_names cli_users_named[OF us(1)] by fastforce
    then show ?thesis using True us(2) by auto
  qed
next
  case False
  show ?thesis
  proof (cases cfg)
    case None
    then show ?thesis using assms(2) False by (auto simp: buildAuthUsers_def)
  next
    case (Some c)
    then obtain m where m: "config_users go (f_Users c) [] = Inr m" "users = sort_key (au_key go) (map snd m)"
      using assms(2) False by (auto simp: buildAuthUsers_def split: sum.splits)
    have t: "distinct (map fst m)" "\<forall>(k, a) \<in> set m. k = au_key go a \<and> au_Name a \<noteq> [] \<and> au_Password a \<noteq> []"
      "map_of m = map_of (rev (map (\<lambda>u. (au_key go (cfg_user go u), cfg_user go u)) (f_Users c)))"
      using config_users_table[OF m(1)] by simp_all
    have "map (au_key go) (map snd m) = map fst m" using t(2) by (auto simp: case_prod_beta)
    then have "distinct (map (au_key go) (map snd m))" using t(1) by (simp only:)
    moreover have "mset (map (au_key go) users) = mset (map (au_key go) (map snd m))"
      by (simp only: m(2) mset_map mset_sort)
    ultimately have "distinct (map (au_key go) users)" using mset_eq_imp_distinct_iff by blast
    moreover have "set users = ran (map_of m)" using t(1) by (simp add: m(2) ran_distinct)
    moreover have "\<forall>u \<in> set users. au_Name u \<noteq> [] \<and> au_Password u \<noteq> []" using t(2) by (auto simp: m(2))
    ultimately show ?thesis using t(3) False m(2) by (simp add: Some)
  qed
qed

text \<open>Two entries of one user: the second counts.\<close>

definition two_entries :: Config where
  "two_entries = empty_Config\<lparr>f_Users := [\<lparr>uc_Name = ''Ann'', uc_Password = ''x'', uc_Readonly = False\<rparr>,
     \<lparr>uc_Name = ''ann'', uc_Password = ''y'', uc_Readonly = True\<rparr>]\<rparr>"

lemma accounts_ok_witness:
  "\<exists>users. buildAuthUsers ascii_go (\<lambda>i. ''secret'') [] [] False False (Some two_entries) = Inr users
     \<and> set users = {\<lparr>au_Name = ''ann'', au_Password = ''y'', au_Readonly = True\<rparr>} \<and> distinct (map (au_key ascii_go) users)"
proof -
  have b: "buildAuthUsers ascii_go (\<lambda>i. ''secret'') [] [] False False (Some two_entries)
      = Inr [\<lparr>au_Name = ''ann'', au_Password = ''y'', au_Readonly = True\<rparr>]"
    by code_simp
  have "distinct (map (au_key ascii_go) [\<lparr>au_Name = ''ann'', au_Password = ''y'', au_Readonly = True\<rparr>])"
    using accounts_ok[OF _ b] by simp
  with b show ?thesis by simp
qed

subsection \<open>Access policies\<close>

lemma AList_update_new: "k \<notin> fst ` set m \<Longrightarrow> AList.update k v m = m @ [(k, v)]"
  by (induction m) auto

lemma insort_key_map: "insort_key f (g x) (map g xs) = map g (insort_key (\<lambda>y. f (g y)) x xs)"
  by (induction xs) auto

lemma sort_key_map: "sort_key f (map g xs) = map g (sort_key (\<lambda>y. f (g y)) xs)"
  by (induction xs) (simp_all add: insort_key_map)

text \<open>The shares of the files, before their policies are normalised.\<close>

definition file_share :: "(string \<Rightarrow> string option) \<Rightarrow> bool \<Rightarrow> string \<times> ShareConfig \<Rightarrow> string \<times> Share" where
  "file_share Abs ro ns = (fst ns, \<lparr>sh_Name = fst ns, sh_Path = the (Abs (sc_Path (snd ns))), sh_ReadOnly = (sc_Readonly (snd ns) \<or> ro),
     sh_Guest = False, sh_AllowUsers = sc_AllowUsers (snd ns)\<rparr>)"

lemma config_shares_map:
  "config_shares go Abs ro msk xs m = Inr m' \<Longrightarrow> distinct (map fst m @ map fst xs) \<Longrightarrow> m' = m @ map (file_share Abs ro) xs"
proof (induction go Abs ro msk xs m rule: config_shares.induct)
  case (2 go Abs ro msk name sc xs m)
  then show ?case
    by (auto simp: AList_update_new file_share_def image_iff split: if_splits option.splits)
qed simp

lemma normalize_shares_all:
  "normalize_shares go nu ss = Inr ts \<Longrightarrow> list_all2 (\<lambda>s t. normalize_share go nu s = Inr t) ss ts"
proof (induction go nu ss arbitrary: ts rule: normalize_shares.induct)
  case (2 go nu s ss)
  then show ?case by (auto split: sum.splits)
qed simp

lemma normalize_share_Inr:
  "normalize_share go nu s = Inr t \<longleftrightarrow> length (filter (is_guest_entry go) (sh_AllowUsers s)) \<le> 1
     \<and> (nu \<longrightarrow> named_users go (sh_AllowUsers s) = [])
     \<and> t = s\<lparr>sh_Guest := (\<exists>u \<in> set (sh_AllowUsers s). is_guest_entry go u), sh_AllowUsers := named_users go (sh_AllowUsers s)\<rparr>"
proof -
  have "length (filter (is_guest_entry go) us) = 1 \<longleftrightarrow> length (filter (is_guest_entry go) us) \<le> 1 \<and> (\<exists>u \<in> set us. is_guest_entry go u)" for us
  proof -
    have "length (filter (is_guest_entry go) us) = 0 \<longleftrightarrow> \<not> (\<exists>u \<in> set us. is_guest_entry go u)" by (simp add: filter_empty_conv)
    then show ?thesis by linarith
  qed
  then show ?thesis by (auto simp: normalize_share_def Let_def)
qed

text \<open>The shares that come out are those of the files, each with its own policy.\<close>

lemma build_shares_files:
  assumes "build_shares go Abs (Some cfg) opts users = Inr ss" "o_shareSpecs opts = []" "o_args opts = []"
    and "f_Shares cfg \<noteq> []" "distinct (map fst (f_Shares cfg))"
  shows "\<exists>f. ss = map f (sort_key fst (f_Shares cfg)) \<and> (\<forall>ns. sh_Name (f ns) = fst ns
    \<and> sh_ReadOnly (f ns) = (sc_Readonly (snd ns) \<or> o_readOnly opts) \<and> sh_AllowUsers (f ns) = named_users go (sc_AllowUsers (snd ns))
    \<and> sh_Guest (f ns) = (\<exists>u \<in> set (sc_AllowUsers (snd ns)). is_guest_entry go u))"
proof -
  let ?g = "file_share Abs (o_readOnly opts)"
  obtain m where m: "config_shares go Abs (o_readOnly opts) (f_shareMask cfg) (f_Shares cfg) [] = Inr m"
    using assms(1) by (auto simp: build_shares_def split: sum.splits)
  then have "m = map ?g (f_Shares cfg)" using config_shares_map[OF m] assms(5) by simp
  then have norm: "normalize_shares go (length users = 0) (map snd (sort_key fst (map ?g (f_Shares cfg)))) = Inr ss"
    using assms m by (simp add: build_shares_def cli_shares_def default_share_def)
  have srt: "sort_key fst (map ?g (f_Shares cfg)) = map ?g (sort_key fst (f_Shares cfg))"
    by (simp add: sort_key_map file_share_def)
  define f where "f ns = (snd (?g ns))\<lparr>sh_Guest := (\<exists>u \<in> set (sc_AllowUsers (snd ns)). is_guest_entry go u),
      sh_AllowUsers := named_users go (sc_AllowUsers (snd ns))\<rparr>" for ns
  have "list_all2 (\<lambda>ns t. normalize_share go (length users = 0) (snd (?g ns)) = Inr t) (sort_key fst (f_Shares cfg)) ss"
    using normalize_shares_all[OF norm] unfolding srt by (simp add: list_all2_map1)
  then have "list_all2 (\<lambda>ns t. t = f ns) (sort_key fst (f_Shares cfg)) ss"
    by (rule list_all2_mono) (simp add: normalize_share_Inr f_def file_share_def)
  then have "ss = map f (sort_key fst (f_Shares cfg))" by (simp add: list_all2_conv_all_nth list_eq_iff_nth_eq)
  then show ?thesis by (intro exI[of _ f]) (simp add: f_def file_share_def)
qed

lemma guests_configured:
  "isShareGuest go (NewServer go (server_config go sw users ss) shs) n
     \<longleftrightarrow> (\<exists>s \<in> set ss. (users = [] \<or> sh_Guest s) \<and> ToUpper go (sh_Name s) = ToUpper go n)"
  by (auto simp: isShareGuest_def NewServer_def guest_shares_iff server_config_def Let_def)

text \<open>The users that a share of the files names, as the server compares them.\<close>

definition admitted :: "gostr \<Rightarrow> ShareConfig \<Rightarrow> string list" where
  "admitted go sc = user_set go (named_users go (sc_AllowUsers sc))"

lemma policy_reaches_server:
  assumes "build_shares go Abs (Some cfg) opts users = Inr ss" "o_shareSpecs opts = []" "o_args opts = []"
    and "distinct (map fst (f_Shares cfg))" "(name, sc) \<in> set (f_Shares cfg)"
    and inj: "\<And>n. n \<in> fst ` set (f_Shares cfg) \<Longrightarrow> ToUpper go n = ToUpper go name \<Longrightarrow> n = name"
  shows "(isShareGuest go (NewServer go (server_config go sw users ss) shs) name
        \<longleftrightarrow> users = [] \<or> (\<exists>u \<in> set (sc_AllowUsers sc). is_guest_entry go u))
    \<and> (isShareAllowed go (NewServer go (server_config go sw users ss) shs) name u
        \<longleftrightarrow> admitted go sc = [] \<or> ToLower go (TrimSpace go u) \<in> set (admitted go sc))"
proof -
  obtain f where f: "ss = map f (sort_key fst (f_Shares cfg))" "\<And>ns. sh_Name (f ns) = fst ns"
      "\<And>ns. sh_AllowUsers (f ns) = named_users go (sc_AllowUsers (snd ns))"
      "\<And>ns. sh_Guest (f ns) = (\<exists>u \<in> set (sc_AllowUsers (snd ns)). is_guest_entry go u)"
    using build_shares_files[OF assms(1-3) _ assms(4)] assms(5) by fastforce
  have set: "set ss = f ` set (f_Shares cfg)" by (simp add: f(1))
  have only: "ns = (name, sc)" if "ns \<in> set (f_Shares cfg)" "ToUpper go (fst ns) = ToUpper go name" for ns
  proof -
    have "fst ns = name" using inj[of "fst ns"] that by auto
    then show ?thesis using that(1) assms(4,5) by (metis eq_key_imp_eq_value prod.collapse)
  qed
  have "isShareGuest go (NewServer go (server_config go sw users ss) shs) name
      \<longleftrightarrow> (\<exists>ns \<in> set (f_Shares cfg). (users = [] \<or> sh_Guest (f ns)) \<and> ToUpper go (fst ns) = ToUpper go name)"
    by (simp add: guests_configured set f(2))
  also have "\<dots> \<longleftrightarrow> users = [] \<or> (\<exists>u \<in> set (sc_AllowUsers sc). is_guest_entry go u)"
  proof
    assume "\<exists>ns \<in> set (f_Shares cfg). (users = [] \<or> sh_Guest (f ns)) \<and> ToUpper go (fst ns) = ToUpper go name"
    then obtain ns where ns: "ns \<in> set (f_Shares cfg)" "users = [] \<or> sh_Guest (f ns)" "ToUpper go (fst ns) = ToUpper go name" by blast
    have "ns = (name, sc)" by (rule only[OF ns(1,3)])
    then show "users = [] \<or> (\<exists>u \<in> set (sc_AllowUsers sc). is_guest_entry go u)" using ns(2) f(4)[of ns] by simp
  next
    assume "users = [] \<or> (\<exists>u \<in> set (sc_AllowUsers sc). is_guest_entry go u)"
    then have "users = [] \<or> sh_Guest (f (name, sc))" using f(4)[of "(name, sc)"] by simp
    then show "\<exists>ns \<in> set (f_Shares cfg). (users = [] \<or> sh_Guest (f ns)) \<and> ToUpper go (fst ns) = ToUpper go name"
      using assms(5) by (intro bexI[of _ "(name, sc)"]) simp_all
  qed
  finally have guest: "isShareGuest go (NewServer go (server_config go sw users ss) shs) name
      \<longleftrightarrow> users = [] \<or> (\<exists>u \<in> set (sc_AllowUsers sc). is_guest_entry go u)" .
  define lists where "lists = ShareAllowUsers (server_config go sw users ss)"
  have lists: "lists = map (\<lambda>s. (sh_Name s, sh_AllowUsers s)) (filter (\<lambda>s. length (sh_AllowUsers s) > 0) ss)"
    by (simp add: lists_def server_config_def Let_def)
  have entry: "(n, us) = (name, named_users go (sc_AllowUsers sc)) \<and> us \<noteq> []"
    if in_lists: "(n, us) \<in> set lists" and same: "ToUpper go n = ToUpper go name" for n us
  proof -
    obtain ns where "ns \<in> set (f_Shares cfg)" "n = fst ns" "us = sh_AllowUsers (f ns)" "us \<noteq> []"
      using in_lists f(2) by (auto simp: lists set)
    then show ?thesis using only[of ns] same f(3) by auto
  qed
  have tab: "shareUsers (NewServer go (server_config go sw users ss) shs) (ToUpper go name)
      = share_users go lists (\<lambda>_. None) (ToUpper go name)" by (simp add: NewServer_def lists_def)
  have "isShareAllowed go (NewServer go (server_config go sw users ss) shs) name u
      \<longleftrightarrow> admitted go sc = [] \<or> ToLower go (TrimSpace go u) \<in> set (admitted go sc)"
  proof (cases "admitted go sc = []")
    case True
    then have "share_users go lists (\<lambda>_. None) (ToUpper go name) = None"
      using entry by (subst share_users_miss) (auto simp: admitted_def)
    then show ?thesis using True tab by (simp add: isShareAllowed_def)
  next
    case False
    then have "named_users go (sc_AllowUsers sc) \<noteq> []" by (auto simp: admitted_def user_set_def)
    moreover have "f (name, sc) \<in> set ss" unfolding set using assms(5) by (rule imageI)
    ultimately have "(sh_Name (f (name, sc)), sh_AllowUsers (f (name, sc))) \<in> set lists"
      unfolding lists set_map set_filter using f(3)[of "(name, sc)"] by (intro imageI) simp
    then have "(name, named_users go (sc_AllowUsers sc)) \<in> set lists" by (simp add: f(2,3))
    moreover have "user_set go (named_users go (sc_AllowUsers sc)) \<noteq> []" using False by (simp add: admitted_def)
    moreover have "\<forall>(n, us) \<in> set lists. ToUpper go n = ToUpper go name \<longrightarrow> (n, us) = (name, named_users go (sc_AllowUsers sc))"
    proof (rule ballI)
      fix e assume "e \<in> set lists"
      then show "case e of (n, us) \<Rightarrow> ToUpper go n = ToUpper go name \<longrightarrow> (n, us) = (name, named_users go (sc_AllowUsers sc))"
        using entry[of "fst e" "snd e"] by (auto simp: case_prod_beta)
    qed
    ultimately have "share_users go lists (\<lambda>_. None) (ToUpper go name) = Some (admitted go sc)"
      unfolding admitted_def by (rule share_users_hit)
    then show ?thesis using False tab by (simp add: isShareAllowed_def)
  qed
  with guest show ?thesis by blast
qed

text \<open>
  C21. The policy of the files reaches the server.  A share of the configuration whose name no other share has up
  to case is open to guests exactly when there are no users or its list has the entry \<^verbatim>\<open>guest\<close>;
  a user is admitted exactly when its list names the user - or nobody: a list of which only \<^verbatim>\<open>guest\<close>
  or nothing is left admits every user.
\<close>

theorem file_policy_enforced:
  assumes "build_shares go Abs (Some cfg) opts users = Inr ss" "o_shareSpecs opts = []" "o_args opts = []"
    and "distinct (map fst (f_Shares cfg))" "(name, sc) \<in> set (f_Shares cfg)"
    and "\<And>n. n \<in> fst ` set (f_Shares cfg) \<Longrightarrow> ToUpper go n = ToUpper go name \<Longrightarrow> n = name"
  shows "let d = NewServer go (server_config go sw users ss) shs in
    (isShareGuest go d name \<longleftrightarrow> users = [] \<or> (\<exists>u \<in> set (sc_AllowUsers sc). is_guest_entry go u))
    \<and> (isShareAllowed go d name u \<longleftrightarrow>
        (\<forall>w \<in> set (sc_AllowUsers sc). is_guest_entry go w \<or> TrimSpace go (ToLower go (TrimSpace go w)) = [])
        \<or> ToLower go (TrimSpace go u) \<noteq> [] \<and> (\<exists>w \<in> set (sc_AllowUsers sc). \<not> is_guest_entry go w
            \<and> TrimSpace go (ToLower go (TrimSpace go w)) = ToLower go (TrimSpace go u)))"
proof -
  have "admitted go sc = [] \<longleftrightarrow>
      (\<forall>w \<in> set (sc_AllowUsers sc). is_guest_entry go w \<or> TrimSpace go (ToLower go (TrimSpace go w)) = [])"
    by (auto simp: admitted_def user_set_def named_users_def filter_empty_conv)
  moreover have "v \<in> set (admitted go sc) \<longleftrightarrow> v \<noteq> [] \<and> (\<exists>w \<in> set (sc_AllowUsers sc). \<not> is_guest_entry go w
            \<and> TrimSpace go (ToLower go (TrimSpace go w)) = v)" for v
    by (auto simp: admitted_def user_set_def named_users_def)
  ultimately show ?thesis
    using policy_reaches_server[OF assms(1-5), of sw shs u] assms(6) by (simp add: Let_def)
qed

text \<open>
  C24. Names that differ in case share one policy.  Of two shares of the files whose names are the same up to
  case, the server knows only the one that it meets last in the unordered map of its shares; and
  guests may use it as soon as either of them lists \<^verbatim>\<open>guest\<close>, even if it is the one that lists only users.
\<close>

theorem colliding_names_open:
  assumes "build_shares go Abs (Some cfg) opts users = Inr ss" "o_shareSpecs opts = []" "o_args opts = []"
    and "distinct (map fst (f_Shares cfg))" "(name, sc) \<in> set (f_Shares cfg)" "(name', sc') \<in> set (f_Shares cfg)"
    and "ToUpper go name' = ToUpper go name" "g \<in> set (sc_AllowUsers sc')" "is_guest_entry go g"
  shows "let d = NewServer go (server_config go sw users ss) (before @ [(name, v)]) in
    shares d (ToUpper go name') = Some v \<and> isShareGuest go d name"
proof -
  obtain f where f: "ss = map f (sort_key fst (f_Shares cfg))" "\<And>ns. sh_Name (f ns) = fst ns"
      "\<And>ns. sh_Guest (f ns) = (\<exists>u \<in> set (sc_AllowUsers (snd ns)). is_guest_entry go u)"
    using build_shares_files[OF assms(1-3) _ assms(4)] assms(5) by fastforce
  have "f (name', sc') \<in> set ss" "sh_Guest (f (name', sc'))" using f assms(6,8,9) by auto
  then have "isShareGuest go (NewServer go (server_config go sw users ss) (before @ [(name, v)])) name"
    unfolding guests_configured using f(2) assms(7) by force
  moreover have "upper_shares go (xs @ [(name, v)]) m (ToUpper go name) = Some v" for xs m
    by (induction xs arbitrary: m) auto
  ultimately show ?thesis using assms(7) by (simp add: NewServer_def)
qed

text \<open>A share for guests and one for a user; names that differ up to case, and names that do not.\<close>

definition sample_shares :: "string \<Rightarrow> Config" where
  "sample_shares n = empty_Config\<lparr>f_Shares := [(''docs'', \<lparr>sc_Path = ''/d'', sc_Readonly = False, sc_AllowUsers = [''Ann'']\<rparr>),
       (n, \<lparr>sc_Path = ''/p'', sc_Readonly = False, sc_AllowUsers = [''guest'']\<rparr>)],
     f_shareMask := [(''docs'', \<lparr>sm_Path = True, sm_Readonly = False, sm_AllowUsers = True\<rparr>),
       (n, \<lparr>sm_Path = True, sm_Readonly = False, sm_AllowUsers = True\<rparr>)]\<rparr>"

definition no_options :: options where
  "no_options = \<lparr>o_shareSpecs = [], o_listen = [], o_allow = [], o_noAdvertise = False, o_readOnly = False, o_verbose = 0,
     o_hideDotfiles = False, o_users = [], o_password = [], o_expire = [], o_pidFile = [], o_logFile = [], o_args = [],
     o_changed = (\<lambda>k. False)\<rparr>"

definition sample_users :: "authUser list" where
  "sample_users = [\<lparr>au_Name = ''ann'', au_Password = ''x'', au_Readonly = False\<rparr>]"

definition sample_switches :: switches where
  "sample_switches = \<lparr>sw_enableSMB3Encryption = True, sw_guestBrowseIPC = True, sw_showConnectHints = True, sw_advertiseEnabled = True\<rparr>"

lemma sample_built: "\<exists>ss. build_shares ascii_go Some (Some (sample_shares n)) no_options sample_users = Inr ss" if "n = ''pub'' \<or> n = ''DOCS''"
proof -
  have "case build_shares ascii_go Some (Some (sample_shares n)) no_options sample_users of Inl e \<Rightarrow> False | Inr ss \<Rightarrow> True"
    using that by (elim disjE) (simp only:, code_simp)+
  then show ?thesis by (auto split: sum.splits)
qed

lemma file_policy_enforced_witness:
  "\<exists>ss. build_shares ascii_go Some (Some (sample_shares ''pub'')) no_options sample_users = Inr ss
     \<and> \<not> isShareGuest ascii_go (NewServer ascii_go (server_config ascii_go sample_switches sample_users ss) []) ''docs''
     \<and> \<not> isShareAllowed ascii_go (NewServer ascii_go (server_config ascii_go sample_switches sample_users ss) []) ''docs'' ''bob''"
proof -
  obtain ss where b: "build_shares ascii_go Some (Some (sample_shares ''pub'')) no_options sample_users = Inr ss"
    using sample_built by blast
  have o: "o_shareSpecs no_options = []" "o_args no_options = []" by (simp_all add: no_options_def)
  have d: "distinct (map fst (f_Shares (sample_shares ''pub'')))" by (simp add: sample_shares_def)
  have i: "(''docs'', \<lparr>sc_Path = ''/d'', sc_Readonly = False, sc_AllowUsers = [''Ann'']\<rparr>) \<in> set (f_Shares (sample_shares ''pub''))"
    by (simp add: sample_shares_def)
  have u: "ToUpper ascii_go ''pub'' \<noteq> ToUpper ascii_go ''docs''" by code_simp
  then have n: "n = ''docs''"
    if "n \<in> fst ` set (f_Shares (sample_shares ''pub''))" "ToUpper ascii_go n = ToUpper ascii_go ''docs''" for n
    using that by (auto simp: sample_shares_def)
  have g: "\<not> is_guest_entry ascii_go ''Ann''" "TrimSpace ascii_go (ToLower ascii_go (TrimSpace ascii_go ''Ann'')) = ''ann''"
    "ToLower ascii_go (TrimSpace ascii_go ''bob'') = ''bob''" by code_simp+
  have us: "sample_users \<noteq> []" by (simp add: sample_users_def)
  show ?thesis
    using b g us file_policy_enforced[OF b o d i n, of sample_switches "[]" "''bob''"] by (intro exI[of _ ss]) (simp add: Let_def)
qed

lemma colliding_names_open_witness:
  "\<exists>ss. build_shares ascii_go Some (Some (sample_shares ''DOCS'')) no_options sample_users = Inr ss
     \<and> isShareGuest ascii_go (NewServer ascii_go (server_config ascii_go sample_switches sample_users ss) [(''DOCS'', 1), (''docs'', 0)]) ''docs''"
proof -
  obtain ss where b: "build_shares ascii_go Some (Some (sample_shares ''DOCS'')) no_options sample_users = Inr ss"
    using sample_built by blast
  have o: "o_shareSpecs no_options = []" "o_args no_options = []" by (simp_all add: no_options_def)
  have d: "distinct (map fst (f_Shares (sample_shares ''DOCS'')))" by (simp add: sample_shares_def)
  have i: "(''docs'', \<lparr>sc_Path = ''/d'', sc_Readonly = False, sc_AllowUsers = [''Ann'']\<rparr>) \<in> set (f_Shares (sample_shares ''DOCS''))"
    "(''DOCS'', \<lparr>sc_Path = ''/p'', sc_Readonly = False, sc_AllowUsers = [''guest'']\<rparr>) \<in> set (f_Shares (sample_shares ''DOCS''))"
    by (simp_all add: sample_shares_def)
  have u: "ToUpper ascii_go ''DOCS'' = ToUpper ascii_go ''docs''" by code_simp
  have g: "is_guest_entry ascii_go ''guest''" by code_simp
  show ?thesis
    using b colliding_names_open[OF b o d i u _ g, of sample_switches "[(''DOCS'', 1)]" 0] by (intro exI[of _ ss]) (simp add: Let_def)
qed

end
