(* ===== verification/Spec2Isabelle.thy ===== *)
theory Spec2Isabelle
  imports Compound Security Session Path Credit Request Response Accept Negotiation Conn Shares Server Frame Access Protection NtlmProps IpcProps Confine Listing ClientRspProps ClientInfoProps ConfigProps
begin

text \<open>
  A model of \<^verbatim>\<open>sambam\<close>, an SMB 2/3 file server in Go.

  \<^bold>\<open>Parts.\<close>  A connection (\<^verbatim>\<open>smb/server/conn.go\<close>) reads frames, cuts them into packets, checks or
  decrypts them and hands each to a handler.  The handlers of \<^verbatim>\<open>server.go\<close> negotiate a dialect, log a user
  in, and mount shares; those of \<^verbatim>\<open>file_tree.go\<close>, \<^verbatim>\<open>info_fs.go\<close> and \<^verbatim>\<open>feature.go\<close> serve a mounted share through
  the interface \<^verbatim>\<open>vfs.VFSFileSystem\<close>, which \<^verbatim>\<open>fs.go\<close> implements on a directory of the operating system.
  Answers are encoded (\<^verbatim>\<open>smb/internal/smb2\<close>), collected for compound requests (\<^verbatim>\<open>compound.go\<close>), signed or
  encrypted (\<^verbatim>\<open>session.go\<close>, \<^verbatim>\<open>internal/crypto\<close>) and written.

  \<^bold>\<open>Theories and sources.\<close>
  \<^item> Foundations: \<open>Prelude\<close> (errors, rounding, little-endian numbers), \<open>Go_Slices\<close> (slices of bytes with
    capacity, reads and writes that can panic), \<open>Go_Strings\<close> (\<^verbatim>\<open>strings\<close>, \<^verbatim>\<open>path\<close>), \<open>Utf16\<close> (\<^verbatim>\<open>utf16le.go\<close>).
  \<^item> Formats: \<open>Packet\<close> (\<^verbatim>\<open>packet.go\<close>), \<open>Request\<close> (\<^verbatim>\<open>request.go\<close>, decoders), \<open>Response\<close> (\<^verbatim>\<open>response.go\<close>, encoders),
    \<open>Security\<close> (\<^verbatim>\<open>dtyp.go\<close>, \<^verbatim>\<open>acl.go\<close>), \<open>Attr\<close> (\<^verbatim>\<open>vfs/attributes.go\<close> and what the protocol says of attributes),
    \<open>Info\<close> (\<^verbatim>\<open>info_fs.go\<close>, \<^verbatim>\<open>fscc.go\<close>).
  \<^item> The client's side of the formats: \<open>ClientRequest\<close> (encoders of requests), \<open>ClientResponse\<close> (decoders of responses),
    \<open>ClientInfo\<close> (\<^verbatim>\<open>fscc.go\<close>: what is set and what is queried), \<open>ClientReqProps\<close>, \<open>ClientRspProps\<close> and \<open>ClientInfoProps\<close>
    (each side reads what the other wrote).
  \<^item> Cryptography: \<open>Mac\<close> (\<^verbatim>\<open>cbc_mac.go\<close>, \<^verbatim>\<open>cmac.go\<close>), \<open>Ccm\<close> (\<^verbatim>\<open>ccm.go\<close>), \<open>Session\<close> (\<^verbatim>\<open>session.go\<close>, \<^verbatim>\<open>kdf.go\<close>).
  \<^item> Connections: \<open>Compound\<close>, \<open>Credit\<close>, \<open>Accept\<close>, \<open>Negotiation\<close> (\<^verbatim>\<open>smb2.go\<close>, \<^verbatim>\<open>spnego.go\<close>), \<open>Objects\<close> (the store of
    shared objects), \<open>Conn\<close> (\<^verbatim>\<open>conn.go\<close>), \<open>Frame\<close> (what sending leaves alone).
  \<^item> The server: \<open>Shares\<close> (access tables), \<open>Server\<close> (handlers of \<^verbatim>\<open>server.go\<close>), \<open>Access\<close> (their correctness), \<open>Path\<close>.
  \<^item> Starting: \<open>Config\<close>, \<open>Settings\<close>, \<open>Startup\<close> (\<^verbatim>\<open>main.go\<close>: files, options, users, shares), \<open>ConfigProps\<close> (from the files to
    the tables of \<open>Shares\<close>).
  \<^item> Logins: \<open>Ntlm\<close> (\<^verbatim>\<open>internal/ntlm/ntlm.go\<close>, \<^verbatim>\<open>session.go\<close>, and of the library RC4, HMAC and CRC-32), \<open>NtlmAuth\<close>
    (\<^verbatim>\<open>internal/ntlm/server.go\<close>, \<^verbatim>\<open>client.go\<close>, \<^verbatim>\<open>authenticator.go\<close>), \<open>NtlmProps\<close> (who is let in, and with which keys).
  \<^item> Files: \<open>Files\<close>, \<open>Query\<close>, \<open>SetInfo\<close> (the handlers of \<^verbatim>\<open>file_tree.go\<close>), \<open>Passthrough\<close> (\<^verbatim>\<open>fs.go\<close>,
    \<^verbatim>\<open>fs_xattr_unix.go\<close>), \<open>Effects\<close>, \<open>Readonly\<close>, \<open>Protection\<close> (which calls handlers make, and what they change),
    \<open>Confine\<close> (which paths are opened), \<open>Listing\<close> (the rounds of a directory listing).
  \<^item> The pipe: \<open>Dcerpc\<close> (\<^verbatim>\<open>internal/smb2/dcerpc.go\<close>), \<open>Msrpc\<close> (\<^verbatim>\<open>internal/msrpc/msrpc.go\<close>, the client's side), \<open>Ipc\<close>
    (\<^verbatim>\<open>ipc_tree.go\<close>; \<open>serve_request\<close> is the dispatcher with the methods of both kinds of tree), \<open>IpcProps\<close>.

  \<^bold>\<open>Conventions.\<close>  A definition has the name of the Go function, with a prefix where several types have a
  method of that name (\<open>p_\<close> for packets and for the passed-through directory, \<open>t_\<close> for transform headers).
  A function that can panic returns an option, and \<open>None\<close> is the panic; a Go error is the left side of a sum or the
  \<open>Some\<close> of an \<open>error option\<close>.  Integers are words of their width.  Objects that Go shares by pointer live in
  lists of the connection or the server and are named by their index (\<open>obj_alloc\<close>, \<open>obj_deref\<close>).  A handler
  takes the server and the connection and returns them updated.

  \<^bold>\<open>Parameters.\<close>  Outside of the repository are block ciphers, hashes and GCM (\<open>crypto\<close>, with \<open>crypto_ok\<close> for what
  is documented of them), MD4 and MD5 (\<open>hashes\<close>), the random source and the clock (\<open>world\<close>), the case tables of Unicode
  (\<open>gostr\<close>), regular expressions, what the TOML library decodes from a file (\<open>rawConfig\<close>), and the operating system
  (\<open>os\<close>).  Each property with such a hypothesis has a
  witness with a concrete instance.

  \<^bold>\<open>Loops.\<close>  Loops over a slice recurse on its length; no fuel is used.

  \<^bold>\<open>Not modelled.\<close>  \<^verbatim>\<open>colors.go\<close> and of \<^verbatim>\<open>main.go\<close> the listen addresses, generated configuration files, the
  daemon, the advertising of the server and the terminal; the table of status names, the transport
  and listeners (network input and output), and logging.
\<close>

end
